(* ===== verification/Prelude.thy ===== *)
theory Prelude
  imports Complex_Main "HOL-Library.Multiset" "HOL-Library.List_Lexorder" "HOL-Library.Char_ord"
    "HOL-Library.Product_Lexorder"
begin

text \<open>
  Shared vocabulary of the development: the exceptions the code raises as values, rows of
  SQLite tables as lists in insertion order with the statements the code issues against them
  (\<open>find\<close> for a SELECT by key, \<open>update_where\<close> for UPDATE ... WHERE, \<open>rowcount\<close> for the
  cursor's count, \<open>sort_key\<close> for ORDER BY), and the two contracts that several stores share:
  operations that keep an invariant, and operations that never change a finished row.
\<close>

section \<open>Exceptions\<close>

text \<open>
  The exceptions of a client library carry what the code inspects: the name of the class, the
  operation, the HTTP status, the error code and message of the response (empty when there are
  none) and the text of the exception.
\<close>

record client_failure =
  cf_class :: string
  cf_operation :: string
  cf_status :: "int option"
  cf_code :: string
  cf_message :: string
  cf_text :: string

datatype pyerr =
    ValueError string
  | KeyError string
  | PermissionError string
  | TypeError string
  | RuntimeError string
  | OverflowError string
  | IntegrityError string
  | PlanError string
  | AttributeError string
  | DatabaseError string
  | ManifestError string
  | CacheCorruption string
  | OSError string
  | AssertionError string
  | ClientError client_failure

text \<open>
  An operation that runs inside one transaction returns \<open>Inl\<close> the exception (the
  transaction is rolled back, so there is no new state) or \<open>Inr\<close> the committed state and
  the result. \<open>commit\<close> is the state that a caller sees afterwards.
\<close>

type_synonym ('d, 'a) tx = "pyerr + ('d \<times> 'a)"

definition commit :: "'d \<Rightarrow> ('d, 'a) tx \<Rightarrow> 'd" where
  "commit d r = (case r of Inl e \<Rightarrow> d | Inr (d', a) \<Rightarrow> d')"

lemma commit_Inl [simp]: "commit d (Inl e) = d"
  by (simp add: commit_def)

lemma commit_Inr [simp]: "commit d (Inr (d', a)) = d'"
  by (simp add: commit_def)

text \<open>A predicate on results: what holds of the committed state, whatever is raised.\<close>

definition committed :: "('d \<Rightarrow> bool) \<Rightarrow> ('d, 'a) tx \<Rightarrow> bool" where
  "committed P r = (case r of Inl e \<Rightarrow> True | Inr (d', a) \<Rightarrow> P d')"

lemma committed_Inl [simp]: "committed P (Inl e)"
  by (simp add: committed_def)

lemma committed_Inr [simp]: "committed P (Inr (d', a)) \<longleftrightarrow> P d'"
  by (simp add: committed_def)

lemma committed_commit: "committed P r \<Longrightarrow> P d \<Longrightarrow> P (commit d r)"
  by (auto simp: committed_def commit_def split: sum.splits)

lemma committedD: "committed P r \<Longrightarrow> r = Inr (d', a) \<Longrightarrow> P d'"
  by simp

text \<open>When a chain of fallible steps succeeds, every step did.\<close>

lemma tx_bind: "(case r of Inl e \<Rightarrow> Inl e | Inr x \<Rightarrow> f x) = Inr y \<longleftrightarrow> (\<exists>x. r = Inr x \<and> f x = Inr y)"
  by (cases r) auto

lemma tx_guard: "(if b then Inl e else r) = Inr y \<longleftrightarrow> \<not> b \<and> r = Inr y"
  by auto

section \<open>Tables\<close>

named_theorems table_simps \<open>what a SELECT sees after an UPDATE or an INSERT\<close>

definition update_where :: "('r \<Rightarrow> bool) \<Rightarrow> ('r \<Rightarrow> 'r) \<Rightarrow> 'r list \<Rightarrow> 'r list" where
  "update_where P f rs = map (\<lambda>r. if P r then f r else r) rs"

definition rowcount :: "('r \<Rightarrow> bool) \<Rightarrow> 'r list \<Rightarrow> nat" where
  "rowcount P rs = length (filter P rs)"

lemma length_update_where [simp]: "length (update_where P f rs) = length rs"
  by (simp add: update_where_def)

lemma update_where_Nil [simp]: "update_where P f [] = []"
  by (simp add: update_where_def)

lemma update_where_Cons [simp]:
  "update_where P f (r # rs) = (if P r then f r else r) # update_where P f rs"
  by (simp add: update_where_def)

lemma map_update_where_key [table_simps]:
  "(\<And>r. key (f r) = key r) \<Longrightarrow> map key (update_where P f rs) = map key rs"
  by (simp add: update_where_def)

lemma set_update_where:
  "x \<in> set (update_where P f rs) \<longleftrightarrow>
     (\<exists>r \<in> set rs. x = (if P r then f r else r))"
  by (auto simp: update_where_def)

lemma find_None_keys: "find (\<lambda>r. key r = k) rs = None \<longleftrightarrow> k \<notin> key ` set rs"
  by (auto simp: find_None_iff)

lemma find_SomeD: "find P rs = Some r \<Longrightarrow> P r \<and> r \<in> set rs"
  by (induction rs) (auto split: if_splits)

lemma find_key_in:
  "find (\<lambda>r. key r = k) rs = Some r \<Longrightarrow> key r = k \<and> r \<in> set rs"
  by (drule find_SomeD) simp

lemma find_distinct:
  "distinct (map key rs) \<Longrightarrow> r \<in> set rs \<Longrightarrow> find (\<lambda>x. key x = key r) rs = Some r"
  by (induction rs) force+

text \<open>A keyed update changes the row that was found and no other.\<close>

lemma find_update_where_same [table_simps]:
  "(\<And>r. key (f r) = key r) \<Longrightarrow>
   find (\<lambda>r. key r = k) (update_where (\<lambda>r. key r = k) f rs) =
     map_option f (find (\<lambda>r. key r = k) rs)"
  by (induction rs) auto

lemma find_update_where_guard [table_simps]:
  "(\<And>r. key (f r) = key r) \<Longrightarrow>
   find (\<lambda>r. key r = k) (update_where P f rs) =
     map_option (\<lambda>r. if P r then f r else r) (find (\<lambda>r. key r = k) rs)"
  by (induction rs) auto

lemma find_update_where_other:
  "(\<And>r. key (f r) = key r) \<Longrightarrow> k \<noteq> k' \<Longrightarrow>
   find (\<lambda>r. key r = k') (update_where (\<lambda>r. key r = k) f rs) =
     find (\<lambda>r. key r = k') rs"
  by (induction rs) auto

lemma find_overwrite:
  assumes "\<And>r. key r = i \<Longrightarrow> key (f r) = i"
  shows "find (\<lambda>r. key r = k) (update_where (\<lambda>r. key r = i) f rs) =
           (if k = i then map_option f (find (\<lambda>r. key r = k) rs) else find (\<lambda>r. key r = k) rs)"
  using assms by (induction rs) auto

lemma map_overwrite_key:
  assumes "\<And>r. key r = i \<Longrightarrow> key (f r) = i"
  shows "map key (update_where (\<lambda>r. key r = i) f rs) = map key rs"
  using assms by (induction rs) auto

lemma find_append [table_simps]:
  "find P (xs @ ys) = (case find P xs of None \<Rightarrow> find P ys | Some x \<Rightarrow> Some x)"
  by (induction xs) auto

lemma update_where_append [table_simps]:
  "update_where P f (xs @ ys) = update_where P f xs @ update_where P f ys"
  by (simp add: update_where_def)

lemma update_where_none: "(\<And>r. r \<in> set rs \<Longrightarrow> \<not> P r) \<Longrightarrow> update_where P f rs = rs"
  by (induction rs) auto

lemma list_all2_update_where:
  "(\<And>r. r \<in> set rs \<Longrightarrow> R r (if P r then f r else r)) \<Longrightarrow> list_all2 R rs (update_where P f rs)"
  by (induction rs) auto

lemma list_all2_find:
  assumes "list_all2 R rs ss" and "\<And>r s. R r s \<Longrightarrow> key s = key r"
    and "find (\<lambda>r. key r = k) rs = Some r"
  shows "\<exists>s. find (\<lambda>r. key r = k) ss = Some s \<and> R r s"
  using assms by (induction rs ss rule: list_all2_induct) (auto split: if_splits)

lemma list_all2_map_key:
  "list_all2 R rs ss \<Longrightarrow> (\<And>r s. R r s \<Longrightarrow> key s = key r) \<Longrightarrow> map key ss = map key rs"
  by (induction rs ss rule: list_all2_induct) auto

lemma rowcount_0_iff: "rowcount P rs = 0 \<longleftrightarrow> (\<forall>r \<in> set rs. \<not> P r)"
  by (auto simp: rowcount_def filter_empty_conv)

lemma rowcount_key_le_1: "distinct (map key rs) \<Longrightarrow> rowcount (\<lambda>r. key r = k \<and> P r) rs \<le> 1"
proof (induction rs)
  case Nil
  then show ?case by (simp add: rowcount_def)
next
  case (Cons r rs)
  have "key r = k \<Longrightarrow> rowcount (\<lambda>r. key r = k \<and> P r) rs = 0"
    using Cons.prems by (auto simp: rowcount_0_iff) (metis image_eqI)
  with Cons show ?case by (auto simp: rowcount_def)
qed

lemma rowcount_Cons: "rowcount P (r # rs) = (if P r then Suc (rowcount P rs) else rowcount P rs)"
  by (simp add: rowcount_def)

lemma rowcount_Nil [simp]: "rowcount P [] = 0"
  by (simp add: rowcount_def)

lemma rowcount_append [simp]: "rowcount P (xs @ ys) = rowcount P xs + rowcount P ys"
  by (simp add: rowcount_def)

text \<open>ORDER BY keeps the rows and orders them; equal keys stay in insertion order.\<close>

lemma set_take_sort_key: "set (take n (sort_key f xs)) \<subseteq> set xs"
  by (metis set_sort set_take_subset)

lemma sorted_take_sort_key: "sorted (map f (take n (sort_key f xs)))"
  by (metis sorted_sort_key sorted_wrt_take take_map)

lemma distinct_take_sort_key:
  "distinct (map g xs) \<Longrightarrow> distinct (map g (take n (sort_key f xs)))"
proof -
  assume d: "distinct (map g xs)"
  have "mset (map g (sort_key f xs)) = mset (map g xs)" by simp
  then have "distinct (map g (sort_key f xs))"
    using d by (metis mset_eq_imp_distinct_iff)
  then show ?thesis by (metis distinct_take take_map)
qed

section \<open>Contracts shared by the stores\<close>

text \<open>
  Operations \<open>step\<close> of one store keep an invariant. What runs of operations keep is proved
  once here; every store interprets the contract on its own operations.
\<close>

primrec run_steps :: "('o \<Rightarrow> 'd \<Rightarrow> 'd) \<Rightarrow> 'o list \<Rightarrow> 'd \<Rightarrow> 'd" where
  "run_steps step [] d = d"
| "run_steps step (x # xs) d = run_steps step xs (step x d)"

lemma run_steps_append: "run_steps step (xs @ ys) d = run_steps step ys (run_steps step xs d)"
  by (induction xs arbitrary: d) auto

locale store_invariant =
  fixes step :: "'o \<Rightarrow> 'd \<Rightarrow> 'd"
    and inv :: "'d \<Rightarrow> bool"
  assumes step_inv: "inv d \<Longrightarrow> inv (step x d)"
begin

lemma run_inv: "inv d \<Longrightarrow> inv (run_steps step xs d)"
  by (induction xs arbitrary: d) (auto intro: step_inv)

lemma prefix_inv: "inv d \<Longrightarrow> inv (run_steps step (take n xs) d)"
  by (rule run_inv)

end

text \<open>
  A row that is \<open>final\<close> is never changed again, in any state that satisfies the invariant:
  \<open>view\<close> reads a row by its key.
\<close>

locale absorbing_store = store_invariant step inv
  for step :: "'o \<Rightarrow> 'd \<Rightarrow> 'd" and inv :: "'d \<Rightarrow> bool" +
  fixes view :: "'d \<Rightarrow> 'k \<Rightarrow> 'v option"
    and final :: "'v \<Rightarrow> bool"
  assumes step_final: "inv d \<Longrightarrow> view d k = Some v \<Longrightarrow> final v \<Longrightarrow> view (step x d) k = Some v"
begin

lemma run_final:
  "inv d \<Longrightarrow> view d k = Some v \<Longrightarrow> final v \<Longrightarrow> view (run_steps step xs d) k = Some v"
  by (induction xs arbitrary: d) (auto intro: step_final step_inv)

lemma first_final_wins:
  assumes "inv d" and "view (run_steps step xs d) k = Some v" and "final v"
  shows "view (run_steps step (xs @ ys) d) k = Some v"
  using assms by (simp add: run_steps_append run_final run_inv)

end

text \<open>
  A journal that operations only extend: the entries a reader has seen stay where they are,
  and what was added since is a suffix.
\<close>

locale append_only = store_invariant step inv
  for step :: "'o \<Rightarrow> 'd \<Rightarrow> 'd" and inv :: "'d \<Rightarrow> bool" +
  fixes log :: "'d \<Rightarrow> 'e list"
  assumes step_extends: "inv d \<Longrightarrow> \<exists>es. log (step x d) = log d @ es"
begin

lemma run_extends: "inv d \<Longrightarrow> \<exists>es. log (run_steps step xs d) = log d @ es"
proof (induction xs arbitrary: d)
  case Nil
  then show ?case by simp
next
  case (Cons x xs)
  obtain es where "log (step x d) = log d @ es" using step_extends [OF Cons.prems] by blast
  moreover obtain fs where "log (run_steps step xs (step x d)) = log (step x d) @ fs"
    using Cons.IH [OF step_inv [OF Cons.prems]] by blast
  ultimately show ?case by simp
qed

lemma run_take: "inv d \<Longrightarrow> take (length (log d)) (log (run_steps step xs d)) = log d"
  using run_extends [of d xs] by auto

end

end
