(* ===== verification/Effects.thy ===== *)
theory Effects
  imports Prelude "HOL-Library.AList"
begin

text \<open>
  Code that changes its own state call by call: an action takes the state and returns the state
  it leaves with the result or the exception. Unlike a transaction of the database, what an
  action did before it raised stays done. \<open>attempt\<close> is a \<open>try\<close> that catches every exception.
  The dictionaries of the code are association lists: \<open>AList.update\<close> keeps the position of a
  key that is there, as an assignment to a dict does.
\<close>

section \<open>Actions\<close>

type_synonym ('s, 'a) act = "'s \<Rightarrow> 's \<times> (pyerr + 'a)"

definition ret :: "'a \<Rightarrow> ('s, 'a) act" where
  "ret a s = (s, Inr a)"

definition raise_error :: "pyerr \<Rightarrow> ('s, 'a) act" where
  "raise_error e s = (s, Inl e)"

definition and_then :: "('s, 'a) act \<Rightarrow> ('a \<Rightarrow> ('s, 'b) act) \<Rightarrow> ('s, 'b) act" where
  "and_then m f s = (case m s of (s', Inl e) \<Rightarrow> (s', Inl e) | (s', Inr a) \<Rightarrow> f a s')"

definition attempt :: "('s, 'a) act \<Rightarrow> ('s, pyerr + 'a) act" where
  "attempt m s = (case m s of (s', r) \<Rightarrow> (s', Inr r))"

definition look :: "('s \<Rightarrow> 'a) \<Rightarrow> ('s, 'a) act" where
  "look f s = (s, Inr (f s))"

definition modify :: "('s \<Rightarrow> 's) \<Rightarrow> ('s, unit) act" where
  "modify f s = (f s, Inr ())"

definition raising :: "pyerr + 'a \<Rightarrow> ('s, 'a) act" where
  "raising r s = (s, r)"

fun for_each :: "('b \<Rightarrow> ('s, unit) act) \<Rightarrow> 'b list \<Rightarrow> ('s, unit) act" where
  "for_each f [] = ret ()"
| "for_each f (x # xs) = and_then (f x) (\<lambda>u. for_each f xs)"

lemmas act_defs = ret_def raise_error_def and_then_def attempt_def look_def modify_def raising_def

lemma and_then_Inr:
  "and_then m f s = (s', Inr b) \<longleftrightarrow> (\<exists>a t. m s = (t, Inr a) \<and> f a t = (s', Inr b))"
  by (auto simp: and_then_def split: prod.splits sum.splits)

section \<open>What every action guarantees\<close>

text \<open>
  \<open>keeps R m\<close>: the state that \<open>m\<close> leaves, also when it raises, is related by \<open>R\<close> to the state
  it found. For a relation that holds of doing nothing and of one step after another it is
  enough to look at the single calls.
\<close>

definition keeps :: "('s \<Rightarrow> 's \<Rightarrow> bool) \<Rightarrow> ('s, 'a) act \<Rightarrow> bool" where
  "keeps R m \<longleftrightarrow> (\<forall>s. R s (fst (m s)))"

lemma keepsI: "(\<And>s. R s (fst (m s))) \<Longrightarrow> keeps R m"
  by (simp add: keeps_def)

lemma keepsD: "keeps R m \<Longrightarrow> m s = (s', r) \<Longrightarrow> R s s'"
  unfolding keeps_def by (metis fst_conv)

locale guarantee =
  fixes R :: "'s \<Rightarrow> 's \<Rightarrow> bool"
  assumes idle: "R s s"
    and step_trans: "R s t \<Longrightarrow> R t u \<Longrightarrow> R s u"
begin

lemma keeps_ret: "keeps R (ret a)"
  by (simp add: keeps_def ret_def idle)

lemma keeps_raise: "keeps R (raise_error e)"
  by (simp add: keeps_def raise_error_def idle)

lemma keeps_raising: "keeps R (raising r)"
  by (simp add: keeps_def raising_def idle)

lemma keeps_look: "keeps R (look f)"
  by (simp add: keeps_def look_def idle)

lemma keeps_modify: "(\<And>s. R s (f s)) \<Longrightarrow> keeps R (modify f)"
  by (simp add: keeps_def modify_def)

lemma keeps_attempt: "keeps R m \<Longrightarrow> keeps R (attempt m)"
  by (auto simp: keeps_def attempt_def split: prod.splits) (metis fst_conv)

lemma keeps_then:
  assumes "keeps R m" and "\<And>a s t. m s = (t, Inr a) \<Longrightarrow> keeps R (f a)"
  shows "keeps R (and_then m f)"
proof (rule keepsI)
  fix s
  obtain t r where m: "m s = (t, r)" by fastforce
  have t: "R s t" by (rule keepsD [OF assms(1) m])
  show "R s (fst (and_then m f s))"
  proof (cases r)
    case (Inl e)
    then show ?thesis using t by (simp add: and_then_def m)
  next
    case (Inr a)
    have "R t (fst (f a t))" using assms(2) [of s t a] m Inr by (simp add: keeps_def)
    then show ?thesis using step_trans t Inr by (auto simp: and_then_def m)
  qed
qed

lemma keeps_each: "(\<And>x. x \<in> set xs \<Longrightarrow> keeps R (f x)) \<Longrightarrow> keeps R (for_each f xs)"
  by (induction xs) (auto intro: keeps_ret keeps_then)

lemma keeps_if: "keeps R m \<Longrightarrow> keeps R n \<Longrightarrow> keeps R (if b then m else n)"
  by simp

lemma keeps_option: "keeps R m \<Longrightarrow> (\<And>x. v = Some x \<Longrightarrow> keeps R (f x)) \<Longrightarrow> keeps R (case v of None \<Rightarrow> m | Some x \<Rightarrow> f x)"
  by (cases v) simp_all

lemma keeps_sum: "(\<And>e. v = Inl e \<Longrightarrow> keeps R (f e)) \<Longrightarrow> (\<And>x. v = Inr x \<Longrightarrow> keeps R (g x)) \<Longrightarrow> keeps R (case v of Inl e \<Rightarrow> f e | Inr x \<Rightarrow> g x)"
  by (cases v) simp_all

lemma keeps_prod: "(\<And>x y. v = (x, y) \<Longrightarrow> keeps R (f x y)) \<Longrightarrow> keeps R (case v of (x, y) \<Rightarrow> f x y)"
  by (cases v) simp

lemmas keeps_rules =
  keeps_ret keeps_raise keeps_raising keeps_look keeps_attempt keeps_then keeps_each keeps_if keeps_option keeps_sum
  keeps_prod

end

section \<open>Assertions\<close>

text \<open>
  \<open>hoare I P m Q\<close>: from a state with \<open>I\<close> and \<open>P\<close> the action leaves a state with \<open>I\<close>, whether
  it raises or not, and when it returns a result, \<open>Q\<close> holds of the result and the state.
\<close>

definition hoare ::
  "('s \<Rightarrow> bool) \<Rightarrow> ('s \<Rightarrow> bool) \<Rightarrow> ('s, 'a) act \<Rightarrow> ('a \<Rightarrow> 's \<Rightarrow> bool) \<Rightarrow> bool"
where
  "hoare I P m Q \<longleftrightarrow>
     (\<forall>s. I s \<longrightarrow> P s \<longrightarrow> I (fst (m s)) \<and> (\<forall>a. snd (m s) = Inr a \<longrightarrow> Q a (fst (m s))))"

lemma hoareI:
  assumes "\<And>s t r. I s \<Longrightarrow> P s \<Longrightarrow> m s = (t, r) \<Longrightarrow> I t \<and> (\<forall>a. r = Inr a \<longrightarrow> Q a t)"
  shows "hoare I P m Q"
  unfolding hoare_def using assms by (metis prod.collapse)

lemma hoareD:
  assumes "hoare I P m Q" and "I s" and "P s" and "m s = (t, r)"
  shows "I t" and "r = Inr a \<Longrightarrow> Q a t"
  using assms unfolding hoare_def by force+

lemma hoare_weaken:
  assumes "hoare I P' m Q'" and "\<And>s. I s \<Longrightarrow> P s \<Longrightarrow> P' s" and "\<And>a s. I s \<Longrightarrow> Q' a s \<Longrightarrow> Q a s"
  shows "hoare I P m Q"
  using assms unfolding hoare_def by blast

lemma hoare_ret: "(\<And>s. I s \<Longrightarrow> P s \<Longrightarrow> Q a s) \<Longrightarrow> hoare I P (ret a) Q"
  by (simp add: hoare_def ret_def)

lemma hoare_look: "(\<And>s. I s \<Longrightarrow> P s \<Longrightarrow> Q (f s) s) \<Longrightarrow> hoare I P (look f) Q"
  by (simp add: hoare_def look_def)

lemma hoare_modify:
  "(\<And>s. I s \<Longrightarrow> P s \<Longrightarrow> I (f s) \<and> Q () (f s)) \<Longrightarrow> hoare I P (modify f) Q"
  by (simp add: hoare_def modify_def)

lemma hoare_then:
  assumes "hoare I P m M" and "\<And>a. hoare I (M a) (f a) Q"
  shows "hoare I P (and_then m f) Q"
proof (rule hoareI)
  fix s u r
  assume s: "I s" "P s" and r: "and_then m f s = (u, r)"
  obtain t x where m: "m s = (t, x)" by fastforce
  note t = hoareD [OF assms(1) s m]
  show "I u \<and> (\<forall>a. r = Inr a \<longrightarrow> Q a u)"
  proof (cases x)
    case (Inl e)
    then show ?thesis using r t(1) by (auto simp: and_then_def m)
  next
    case (Inr a)
    then have "f a t = (u, r)" using r by (simp add: and_then_def m)
    then show ?thesis using hoareD [OF assms(2) t(1) t(2) [OF Inr]] by blast
  qed
qed

lemma hoare_attempt:
  assumes "hoare I P m (\<lambda>a. Q (Inr a))" and "\<And>s t e. I s \<Longrightarrow> P s \<Longrightarrow> m s = (t, Inl e) \<Longrightarrow> Q (Inl e) t"
  shows "hoare I P (attempt m) Q"
proof (rule hoareI)
  fix s u r
  assume s: "I s" "P s" and r: "attempt m s = (u, r)"
  obtain x where m: "m s = (u, x)" "r = Inr x" using r by (auto simp: attempt_def split: prod.splits)
  show "I u \<and> (\<forall>a. r = Inr a \<longrightarrow> Q a u)"
    using hoareD [OF assms(1) s m(1)] assms(2) [OF s] m by (cases x) auto
qed

lemma hoare_each:
  "(\<And>x. x \<in> set xs \<Longrightarrow> hoare I P (f x) (\<lambda>u. P)) \<Longrightarrow> hoare I P (for_each f xs) (\<lambda>u. P)"
  by (induction xs) (auto intro: hoare_ret hoare_then)

lemma hoare_keeps:
  assumes "keeps R m" and "\<And>s t. I s \<Longrightarrow> R s t \<Longrightarrow> I t" and "\<And>s t. I s \<Longrightarrow> P s \<Longrightarrow> R s t \<Longrightarrow> Q t"
  shows "hoare I P m (\<lambda>a. Q)"
  by (rule hoareI) (use assms keepsD [OF assms(1)] in blast)

end
