(* ===== verification/PyValues.thy ===== *)
theory PyValues
  imports Prelude
begin

text \<open>
  The Python values the code handles: strings, JSON documents and the standard-library and
  SQLite conversions that the queue and the plan protocol apply to them. A character is one
  code point below 256. Floats are exact rationals (\<open>JFloat\<close>), with \<open>JNaN\<close> and
  \<open>JInf\<close> apart; rounding of float arithmetic is not modelled. What the standard library
  computes and the development does not define (the digits of a float, the text of a
  container, SHA-256, the parser and printer of ISO timestamps) is a field of \<open>pyenv\<close>.
\<close>

section \<open>Strings\<close>

definition code :: "char \<Rightarrow> nat" where
  "code c = of_char c"

definition is_space :: "char \<Rightarrow> bool" where
  "is_space c \<longleftrightarrow> code c \<in> {9, 10, 11, 12, 13, 28, 29, 30, 31, 32, 133, 160}"

definition py_strip :: "string \<Rightarrow> string" where
  "py_strip s = rev (dropWhile is_space (rev (dropWhile is_space s)))"

definition is_digit :: "char \<Rightarrow> bool" where
  "is_digit c \<longleftrightarrow> 48 \<le> code c \<and> code c \<le> 57"

definition is_upper :: "char \<Rightarrow> bool" where
  "is_upper c \<longleftrightarrow> 65 \<le> code c \<and> code c \<le> 90"

definition is_lower :: "char \<Rightarrow> bool" where
  "is_lower c \<longleftrightarrow> 97 \<le> code c \<and> code c \<le> 122"

definition is_alnum :: "char \<Rightarrow> bool" where
  "is_alnum c \<longleftrightarrow> is_digit c \<or> is_upper c \<or> is_lower c"

text \<open>
  \<open>str.lower\<close> also lowers the accented capitals of Latin-1; SQLite's \<open>lower\<close> and LIKE
  know the ASCII letters only.
\<close>

definition py_lower :: "string \<Rightarrow> string" where
  "py_lower s = map (\<lambda>c. if is_upper c \<or> (192 \<le> code c \<and> code c \<le> 222 \<and> code c \<noteq> 215)
                         then char_of (code c + 32) else c) s"

definition sql_fold :: "char \<Rightarrow> char" where
  "sql_fold c = (if is_upper c then char_of (code c + 32) else c)"

definition sql_lower :: "string \<Rightarrow> string" where
  "sql_lower s = map sql_fold s"

definition replace_char :: "char \<Rightarrow> char \<Rightarrow> string \<Rightarrow> string" where
  "replace_char a b s = map (\<lambda>c. if c = a then b else c) s"

fun starts_with :: "string \<Rightarrow> string \<Rightarrow> bool" where
  "starts_with [] s = True"
| "starts_with (p # ps) [] = False"
| "starts_with (p # ps) (c # cs) = (p = c \<and> starts_with ps cs)"

definition remove_prefix :: "string \<Rightarrow> string \<Rightarrow> string" where
  "remove_prefix p s = (if starts_with p s then drop (length p) s else s)"

lemma starts_with_append [simp]: "starts_with p (p @ s)"
  by (induction p) auto

lemma starts_with_iff: "starts_with p s \<longleftrightarrow> (\<exists>t. s = p @ t)"
  by (induction p s rule: starts_with.induct) auto

lemma remove_prefix_append [simp]: "remove_prefix p (p @ s) = s"
  by (simp add: remove_prefix_def)

text \<open>Decimal digits of an integer.\<close>

fun nat_text :: "nat \<Rightarrow> string" where
  "nat_text n = (if n < 10 then [char_of (48 + n)] else nat_text (n div 10) @ [char_of (48 + n mod 10)])"

declare nat_text.simps [simp del]

definition int_text :: "int \<Rightarrow> string" where
  "int_text i = (if i < 0 then ''-'' @ nat_text (nat (- i)) else nat_text (nat i))"

lemma nat_text_ne [simp]: "nat_text n \<noteq> []"
  by (subst nat_text.simps) simp

lemma int_text_ne [simp]: "int_text i \<noteq> []"
  by (simp add: int_text_def)

section \<open>JSON documents\<close>

datatype json =
    JNull
  | JBool bool
  | JInt int
  | JFloat rat
  | JNaN
  | JInf bool
  | JStr string
  | JArr "json list"
  | JObj "(string \<times> json) list"

record pyenv =
  float_repr :: "rat \<Rightarrow> string"
  container_str :: "json \<Rightarrow> string"
  sha256_hex :: "string \<Rightarrow> string"
  parse_iso :: "string \<Rightarrow> (int \<times> bool) option"
  iso_utc :: "int \<Rightarrow> string"
  iso_naive :: "int \<Rightarrow> string"
  parse_float :: "string \<Rightarrow> json option"
  sql_float :: "rat \<Rightarrow> string"
  hmac_hex :: "string \<Rightarrow> string \<Rightarrow> string"
  sha256_file :: "string \<Rightarrow> string"
  json_loads :: "string \<Rightarrow> json option"

text \<open>
  \<open>parse_iso s\<close> is \<open>datetime.fromisoformat\<close>: the instant in microseconds and whether the
  text carries an offset. \<open>iso_utc\<close> and \<open>iso_naive\<close> print an instant with the suffix
  \<open>Z\<close> and without one. \<open>parse_float s\<close> is \<open>float(s)\<close> of a text, \<open>None\<close> when it raises.
  \<open>sql_float q\<close> is the text SQLite stores for a real in a text column, and \<open>hmac_hex k m\<close> the
  hexadecimal HMAC-SHA-256 of a text under a key of bytes. \<open>sha256_hex\<close> is the digest of the
  UTF-8 form of a text, \<open>sha256_file\<close> that of the bytes of a file. \<open>json_loads b\<close> is
  \<open>json.loads\<close> of bytes, \<open>None\<close> when it raises.
\<close>

fun truthy :: "json \<Rightarrow> bool" where
  "truthy JNull = False"
| "truthy (JBool b) = b"
| "truthy (JInt i) = (i \<noteq> 0)"
| "truthy (JFloat q) = (q \<noteq> 0)"
| "truthy JNaN = True"
| "truthy (JInf b) = True"
| "truthy (JStr s) = (s \<noteq> [])"
| "truthy (JArr xs) = (xs \<noteq> [])"
| "truthy (JObj kvs) = (kvs \<noteq> [])"

fun obj_get :: "json \<Rightarrow> string \<Rightarrow> json" where
  \<comment> \<open>\<open>d.get(key)\<close> of a dict; \<open>JNull\<close> is Python's None\<close>
  "obj_get (JObj kvs) k = (case map_of kvs k of Some v \<Rightarrow> v | None \<Rightarrow> JNull)"
| "obj_get j k = JNull"

fun obj_has :: "json \<Rightarrow> string \<Rightarrow> bool" where
  "obj_has (JObj kvs) k = (k \<in> fst ` set kvs)"
| "obj_has j k = False"

fun is_obj :: "json \<Rightarrow> bool" where
  "is_obj (JObj kvs) = True"
| "is_obj j = False"

fun kv_set :: "string \<Rightarrow> json \<Rightarrow> (string \<times> json) list \<Rightarrow> (string \<times> json) list" where
  \<comment> \<open>assignment to a dict keeps the position of a key that is there\<close>
  "kv_set k v [] = [(k, v)]"
| "kv_set k v ((k', v') # kvs) =
     (if k = k' then (k, v) # kvs else (k', v') # kv_set k v kvs)"

fun obj_set :: "string \<Rightarrow> json \<Rightarrow> json \<Rightarrow> json" where
  "obj_set k v (JObj kvs) = JObj (kv_set k v kvs)"
| "obj_set k v j = j"

lemma map_of_kv_set: "map_of (kv_set k v kvs) = (map_of kvs)(k \<mapsto> v)"
  by (induction kvs) auto

lemma obj_get_set [simp]: "is_obj j \<Longrightarrow> obj_get (obj_set k v j) k' = (if k' = k then v else obj_get j k')"
  by (cases j) (auto simp: map_of_kv_set)

lemma is_obj_set [simp]: "is_obj (obj_set k v j) = is_obj j"
  by (cases j) auto

definition str_field :: "string \<Rightarrow> string option \<Rightarrow> (string \<times> json) list" where
  \<comment> \<open>\<open>if x: event[key] = x\<close>\<close>
  "str_field k s = (case s of Some (c # cs) \<Rightarrow> [(k, JStr (c # cs))] | _ \<Rightarrow> [])"

definition jopt :: "string option \<Rightarrow> json" where
  "jopt s = (case s of None \<Rightarrow> JNull | Some t \<Rightarrow> JStr t)"

definition jfloat_opt :: "rat option \<Rightarrow> json" where
  "jfloat_opt q = (case q of None \<Rightarrow> JNull | Some r \<Rightarrow> JFloat r)"

definition given :: "string option \<Rightarrow> bool" where
  \<comment> \<open>truth of a \<open>str | None\<close>\<close>
  "given s = (case s of None \<Rightarrow> False | Some t \<Rightarrow> t \<noteq> [])"

lemma given_simps [simp]: "given None = False" "given (Some t) = (t \<noteq> [])"
  by (simp_all add: given_def)

text \<open>\<open>str(v)\<close> of a JSON value.\<close>

fun py_str :: "pyenv \<Rightarrow> json \<Rightarrow> string" where
  "py_str env JNull = ''None''"
| "py_str env (JBool b) = (if b then ''True'' else ''False'')"
| "py_str env (JInt i) = int_text i"
| "py_str env (JFloat q) = float_repr env q"
| "py_str env JNaN = ''nan''"
| "py_str env (JInf b) = (if b then ''inf'' else ''-inf'')"
| "py_str env (JStr s) = s"
| "py_str env (JArr xs) = container_str env (JArr xs)"
| "py_str env (JObj kvs) = container_str env (JObj kvs)"

section \<open>JSON text\<close>

definition hex_digit :: "nat \<Rightarrow> char" where
  "hex_digit n = (if n < 10 then char_of (48 + n) else char_of (87 + n))"

definition escape_char :: "bool \<Rightarrow> char \<Rightarrow> string" where
  "escape_char ascii c =
     (let n = code c in
      if n = 34 then [CHR 0x5C, CHR 0x22]
      else if n = 92 then [CHR 0x5C, CHR 0x5C]
      else if n = 10 then [CHR 0x5C, CHR ''n'']
      else if n = 13 then [CHR 0x5C, CHR ''r'']
      else if n = 9 then [CHR 0x5C, CHR ''t'']
      else if n = 8 then [CHR 0x5C, CHR ''b'']
      else if n = 12 then [CHR 0x5C, CHR ''f'']
      else if n < 32 \<or> (ascii \<and> 126 < n)
      then [CHR 0x5C, CHR ''u'', CHR ''0'', CHR ''0'', hex_digit (n div 16), hex_digit (n mod 16)]
      else [c])"

definition string_text :: "bool \<Rightarrow> string \<Rightarrow> string" where
  "string_text ascii s = [CHR 0x22] @ concat (map (escape_char ascii) s) @ [CHR 0x22]"

fun json_text :: "bool \<Rightarrow> pyenv \<Rightarrow> json \<Rightarrow> string"
  and arr_text :: "bool \<Rightarrow> pyenv \<Rightarrow> json list \<Rightarrow> string"
  and obj_text :: "bool \<Rightarrow> pyenv \<Rightarrow> (string \<times> json) list \<Rightarrow> string" where
  \<comment> \<open>\<open>json.dumps(v, separators=(",", ":"), ensure_ascii=ascii)\<close>\<close>
  "json_text a env JNull = ''null''"
| "json_text a env (JBool b) = (if b then ''true'' else ''false'')"
| "json_text a env (JInt i) = int_text i"
| "json_text a env (JFloat q) = float_repr env q"
| "json_text a env JNaN = ''NaN''"
| "json_text a env (JInf b) = (if b then ''Infinity'' else ''-Infinity'')"
| "json_text a env (JStr s) = string_text a s"
| "json_text a env (JArr xs) = ''['' @ arr_text a env xs @ '']''"
| "json_text a env (JObj kvs) = ''{'' @ obj_text a env kvs @ ''}''"
| "arr_text a env [] = []"
| "arr_text a env (x # xs) =
     json_text a env x @ (if xs = [] then [] else '','' @ arr_text a env xs)"
| "obj_text a env [] = []"
| "obj_text a env ((k, v) # kvs) =
     string_text a k @ '':'' @ json_text a env v @
     (if kvs = [] then [] else '','' @ obj_text a env kvs)"

fun json_finite :: "json \<Rightarrow> bool"
  and arr_finite :: "json list \<Rightarrow> bool"
  and obj_finite :: "(string \<times> json) list \<Rightarrow> bool" where
  \<comment> \<open>\<open>allow_nan=False\<close> raises on any other document\<close>
  "json_finite JNaN = False"
| "json_finite (JInf b) = False"
| "json_finite (JArr xs) = arr_finite xs"
| "json_finite (JObj kvs) = obj_finite kvs"
| "json_finite JNull = True"
| "json_finite (JBool b) = True"
| "json_finite (JInt i) = True"
| "json_finite (JFloat q) = True"
| "json_finite (JStr s) = True"
| "arr_finite [] = True"
| "arr_finite (x # xs) = (json_finite x \<and> arr_finite xs)"
| "obj_finite [] = True"
| "obj_finite ((k, v) # kvs) = (json_finite v \<and> obj_finite kvs)"

fun json_sort :: "json \<Rightarrow> json"
  and arr_sort :: "json list \<Rightarrow> json list"
  and obj_sort :: "(string \<times> json) list \<Rightarrow> (string \<times> json) list" where
  \<comment> \<open>\<open>sort_keys=True\<close>: the keys of every dict in code point order\<close>
  "json_sort (JArr xs) = JArr (arr_sort xs)"
| "json_sort (JObj kvs) = JObj (sort_key fst (obj_sort kvs))"
| "json_sort j = j"
| "arr_sort [] = []"
| "arr_sort (x # xs) = json_sort x # arr_sort xs"
| "obj_sort [] = []"
| "obj_sort ((k, v) # kvs) = (k, json_sort v) # obj_sort kvs"

text \<open>UTF-8 takes two bytes for a code point above 127.\<close>

definition utf8_length :: "string \<Rightarrow> nat" where
  "utf8_length s = sum_list (map (\<lambda>c. if code c < 128 then 1 else 2) s)"

end
