(* ===== verification/Conversions.thy ===== *)
theory Conversions
  imports PyValues
begin

text \<open>
  The conversions that decide matching in the queue: Python's \<open>int\<close> and \<open>round\<close>,
  SQLite's CAST AS REAL, LIKE and \<open>json_extract\<close>, and the canonical GPU name of
  \<open>cloud_offload/queue.py\<close>.
\<close>

section \<open>Python numbers\<close>

definition digit_val :: "char \<Rightarrow> int" where
  "digit_val c = int (code c) - 48"

fun more_digits :: "int \<Rightarrow> string \<Rightarrow> int option" where
  "more_digits acc [] = Some acc"
| "more_digits acc (c # cs) =
     (if is_digit c then more_digits (10 * acc + digit_val c) cs
      else if c = CHR ''_'' then
        (case cs of [] \<Rightarrow> None
         | d # ds \<Rightarrow> if is_digit d then more_digits (10 * acc + digit_val d) ds else None)
      else None)"

definition parse_digits :: "string \<Rightarrow> int option" where
  "parse_digits s =
     (case s of [] \<Rightarrow> None | c # cs \<Rightarrow> if is_digit c then more_digits 0 s else None)"

definition parse_int :: "string \<Rightarrow> int option" where
  "parse_int s =
     (case py_strip s of
        [] \<Rightarrow> None
      | c # cs \<Rightarrow> if c = CHR ''-'' then map_option uminus (parse_digits cs)
                  else if c = CHR ''+'' then parse_digits cs
                  else parse_digits (c # cs))"

definition trunc_rat :: "rat \<Rightarrow> int" where
  "trunc_rat q = (if 0 \<le> q then \<lfloor>q\<rfloor> else \<lceil>q\<rceil>)"

fun py_int :: "json \<Rightarrow> pyerr + int" where
  "py_int (JBool b) = Inr (if b then 1 else 0)"
| "py_int (JInt i) = Inr i"
| "py_int (JFloat q) = Inr (trunc_rat q)"
| "py_int JNaN = Inl (ValueError ''cannot convert float NaN to integer'')"
| "py_int (JInf b) = Inl (OverflowError ''cannot convert float infinity to integer'')"
| "py_int (JStr s) =
     (case parse_int s of
        Some i \<Rightarrow> Inr i
      | None \<Rightarrow> Inl (ValueError ''invalid literal for int() with base 10''))"
| "py_int j = Inl (TypeError ''int() argument must be a string or a number'')"

definition float_overflow :: int where
  \<comment> \<open>the first integer that no double represents after rounding\<close>
  "float_overflow = 2 ^ 1024 - 2 ^ 970"

fun py_float :: "pyenv \<Rightarrow> json \<Rightarrow> pyerr + json" where
  "py_float env (JBool b) = Inr (JFloat (if b then 1 else 0))"
| "py_float env (JInt i) =
     (if \<bar>i\<bar> < float_overflow then Inr (JFloat (of_int i))
      else Inl (OverflowError ''int too large to convert to float''))"
| "py_float env (JFloat q) = Inr (JFloat q)"
| "py_float env JNaN = Inr JNaN"
| "py_float env (JInf b) = Inr (JInf b)"
| "py_float env (JStr s) =
     (case parse_float env s of
        Some v \<Rightarrow> Inr v
      | None \<Rightarrow> Inl (ValueError ''could not convert string to float''))"
| "py_float env j = Inl (TypeError ''float() argument must be a string or a real number'')"

section \<open>Defaults and iteration\<close>

definition or_zero :: "json \<Rightarrow> json" where
  \<comment> \<open>\<open>v or 0\<close>\<close>
  "or_zero v = (if truthy v then v else JInt 0)"

definition or_obj :: "json \<Rightarrow> json" where
  \<comment> \<open>\<open>v or {}\<close>\<close>
  "or_obj v = (if truthy v then v else JObj [])"

definition or_arr :: "json \<Rightarrow> json" where
  \<comment> \<open>\<open>v or []\<close>\<close>
  "or_arr v = (if truthy v then v else JArr [])"

fun iterate :: "json \<Rightarrow> pyerr + json list" where
  \<comment> \<open>\<open>for x in v\<close>: the elements of a list, the keys of a dict, the characters of a text\<close>
  "iterate (JArr xs) = Inr xs"
| "iterate (JObj kvs) = Inr (map (\<lambda>kv. JStr (fst kv)) kvs)"
| "iterate (JStr s) = Inr (map (\<lambda>c. JStr [c]) s)"
| "iterate v = Inl (TypeError ''object is not iterable'')"

definition iterate_or_empty :: "json \<Rightarrow> pyerr + json list" where
  \<comment> \<open>\<open>v or []\<close>\<close>
  "iterate_or_empty v = (if truthy v then iterate v else Inr [])"

text \<open>\<open>d[key]\<close> and \<open>d.get(key)\<close> of a value that may be no dict.\<close>

fun py_item :: "json \<Rightarrow> string \<Rightarrow> pyerr + json" where
  "py_item (JObj kvs) k =
     (case map_of kvs k of Some v \<Rightarrow> Inr v | None \<Rightarrow> Inl (KeyError k))"
| "py_item j k = Inl (TypeError ''indices must be integers'')"

definition py_get :: "json \<Rightarrow> string \<Rightarrow> pyerr + json" where
  "py_get j k =
     (if is_obj j then Inr (obj_get j k) else Inl (AttributeError ''object has no attribute get''))"

text \<open>A loop that stops at the first exception.\<close>

fun collect :: "('a \<Rightarrow> pyerr + 'b list) \<Rightarrow> 'a list \<Rightarrow> pyerr + 'b list" where
  "collect f [] = Inr []"
| "collect f (x # xs) =
     (case f x of
        Inl e \<Rightarrow> Inl e
      | Inr ys \<Rightarrow> (case collect f xs of Inl e \<Rightarrow> Inl e | Inr zs \<Rightarrow> Inr (ys @ zs)))"

fun each :: "('a \<Rightarrow> pyerr + 'b) \<Rightarrow> 'a list \<Rightarrow> pyerr + 'b list" where
  "each f [] = Inr []"
| "each f (x # xs) =
     (case f x of
        Inl e \<Rightarrow> Inl e
      | Inr y \<Rightarrow> (case each f xs of Inl e \<Rightarrow> Inl e | Inr ys \<Rightarrow> Inr (y # ys)))"

fun fold_tx :: "('a \<Rightarrow> 's \<Rightarrow> pyerr + 's) \<Rightarrow> 'a list \<Rightarrow> 's \<Rightarrow> pyerr + 's" where
  "fold_tx f [] s = Inr s"
| "fold_tx f (x # xs) s = (case f x s of Inl e \<Rightarrow> Inl e | Inr t \<Rightarrow> fold_tx f xs t)"

lemma fold_tx_invariant:
  assumes "fold_tx f xs d = Inr d'" and "P d"
    and "\<And>x d d'. x \<in> set xs \<Longrightarrow> f x d = Inr d' \<Longrightarrow> P d \<Longrightarrow> P d'"
  shows "P d'"
  using assms
proof (induction xs arbitrary: d)
  case Nil
  then show ?case by simp
next
  case (Cons x xs)
  then obtain e where e: "f x d = Inr e" "fold_tx f xs e = Inr d'"
    by (auto split: sum.splits)
  then have "P e" using Cons.prems by (meson list.set_intros(1))
  with e Cons.IH Cons.prems show ?case by (meson list.set_intros(2))
qed

lemma each_map: "each f xs = Inr ys \<Longrightarrow> list_all2 (\<lambda>x y. f x = Inr y) xs ys"
  by (induction xs arbitrary: ys) (auto split: sum.splits)

lemma each_in: "each f xs = Inr ys \<Longrightarrow> y \<in> set ys \<Longrightarrow> \<exists>x \<in> set xs. f x = Inr y"
  by (induction xs arbitrary: ys) (auto split: sum.splits)

lemma collect_in: "collect f xs = Inr ys \<Longrightarrow> y \<in> set ys \<Longrightarrow> \<exists>x \<in> set xs. \<exists>zs. f x = Inr zs \<and> y \<in> set zs"
  by (induction xs arbitrary: ys) (auto split: sum.splits)

text \<open>
  \<open>a == b\<close>: numbers compare by value (a bool is 0 or 1), dicts without their order, and
  NaN differs from everything.
\<close>

definition norm_number :: "json \<Rightarrow> json" where
  "norm_number v =
     (case v of
        JBool b \<Rightarrow> JInt (if b then 1 else 0)
      | JFloat q \<Rightarrow> if of_int \<lfloor>q\<rfloor> = q then JInt \<lfloor>q\<rfloor> else JFloat q
      | _ \<Rightarrow> v)"

fun py_norm :: "json \<Rightarrow> json"
  and arr_norm :: "json list \<Rightarrow> json list"
  and obj_norm :: "(string \<times> json) list \<Rightarrow> (string \<times> json) list" where
  "py_norm (JArr xs) = JArr (arr_norm xs)"
| "py_norm (JObj kvs) = JObj (sort_key fst (obj_norm kvs))"
| "py_norm v = norm_number v"
| "arr_norm [] = []"
| "arr_norm (x # xs) = py_norm x # arr_norm xs"
| "obj_norm [] = []"
| "obj_norm ((k, v) # kvs) = (k, py_norm v) # obj_norm kvs"

fun has_nan :: "json \<Rightarrow> bool"
  and arr_nan :: "json list \<Rightarrow> bool"
  and obj_nan :: "(string \<times> json) list \<Rightarrow> bool" where
  "has_nan JNaN = True"
| "has_nan (JArr xs) = arr_nan xs"
| "has_nan (JObj kvs) = obj_nan kvs"
| "has_nan JNull = False"
| "has_nan (JBool b) = False"
| "has_nan (JInt i) = False"
| "has_nan (JFloat q) = False"
| "has_nan (JInf b) = False"
| "has_nan (JStr s) = False"
| "arr_nan [] = False"
| "arr_nan (x # xs) = (has_nan x \<or> arr_nan xs)"
| "obj_nan [] = False"
| "obj_nan ((k, v) # kvs) = (has_nan v \<or> obj_nan kvs)"

definition py_eq :: "json \<Rightarrow> json \<Rightarrow> bool" where
  "py_eq a b \<longleftrightarrow> \<not> has_nan a \<and> py_norm a = py_norm b"

lemma py_eq_str [simp]: "py_eq (JStr a) (JStr b) \<longleftrightarrow> a = b"
  by (simp add: py_eq_def norm_number_def)

section \<open>Rounding\<close>

definition py_round :: "rat \<Rightarrow> int" where
  \<comment> \<open>ties go to the even neighbour\<close>
  "py_round q =
     (let f = \<lfloor>q\<rfloor>; r = q - of_int f
      in if r < 1 / 2 then f else if 1 / 2 < r then f + 1 else if even f then f else f + 1)"

lemma py_round_of_int [simp]: "py_round (of_int i) = i"
  by (simp add: py_round_def)

lemma py_round_bounds: "\<bar>of_int (py_round q) - q\<bar> \<le> 1 / 2"
proof -
  have "of_int \<lfloor>q\<rfloor> \<le> q" and "q < of_int \<lfloor>q\<rfloor> + 1" by linarith+
  then show ?thesis
    unfolding py_round_def Let_def abs_if by (simp split: if_splits; linarith)
qed

lemma py_round_mono: "p \<le> q \<Longrightarrow> py_round p \<le> py_round q"
proof -
  assume le: "p \<le> q"
  have "\<lfloor>p\<rfloor> \<le> \<lfloor>q\<rfloor>" by (rule floor_mono [OF le])
  then consider "\<lfloor>p\<rfloor> = \<lfloor>q\<rfloor>" | "\<lfloor>p\<rfloor> + 1 \<le> \<lfloor>q\<rfloor>" by linarith
  then show ?thesis
  proof cases
    case 1
    then show ?thesis using le by (auto simp: py_round_def Let_def)
  next
    case 2
    have "py_round p \<le> \<lfloor>p\<rfloor> + 1" and "\<lfloor>q\<rfloor> \<le> py_round q" by (auto simp: py_round_def Let_def)
    with 2 show ?thesis by linarith
  qed
qed

lemma py_round_near:
  assumes "\<bar>q - of_int i\<bar> < 1 / 2"
  shows "py_round q = i"
proof -
  have "\<bar>of_int (py_round q) - q\<bar> \<le> 1 / 2" by (rule py_round_bounds)
  with assms have "\<bar>of_int (py_round q) - (of_int i :: rat)\<bar> < 1" by linarith
  then have "\<bar>of_int (py_round q - i) :: rat\<bar> < 1" by simp
  then have "\<bar>py_round q - i\<bar> < 1" by (simp flip: of_int_abs)
  then show ?thesis by simp
qed

section \<open>SQLite values\<close>

fun sql_text :: "pyenv \<Rightarrow> json \<Rightarrow> string option" where
  \<comment> \<open>\<open>json_extract\<close> as a text value; NULL for a JSON null or a missing key\<close>
  "sql_text env JNull = None"
| "sql_text env JNaN = None"
| "sql_text env (JInf b) = None"
| "sql_text env (JBool b) = Some (if b then ''1'' else ''0'')"
| "sql_text env (JInt i) = Some (int_text i)"
| "sql_text env (JFloat q) = Some (float_repr env q)"
| "sql_text env (JStr s) = Some s"
| "sql_text env (JArr xs) = Some (json_text True env (JArr xs))"
| "sql_text env (JObj kvs) = Some (json_text True env (JObj kvs))"

definition sql_space :: "char \<Rightarrow> bool" where
  "sql_space c \<longleftrightarrow> code c \<in> {9, 10, 11, 12, 13, 32}"

definition digits_value :: "string \<Rightarrow> rat" where
  "digits_value ds = of_int (foldl (\<lambda>a c. 10 * a + digit_val c) 0 ds)"

definition fraction_value :: "string \<Rightarrow> rat" where
  "fraction_value ds = digits_value ds / 10 ^ length ds"

definition exponent_factor :: "string \<Rightarrow> rat" where
  \<comment> \<open>an exponent counts only when digits follow it\<close>
  "exponent_factor s =
     (case s of
        [] \<Rightarrow> 1
      | e # t \<Rightarrow>
          (if sql_fold e \<noteq> CHR ''e'' then 1
           else let neg = starts_with ''-'' t;
                    u = (if starts_with ''-'' t \<or> starts_with ''+'' t then tl t else t);
                    ds = takeWhile is_digit u
                in if ds = [] then 1
                   else if neg then 1 / 10 ^ nat (foldl (\<lambda>a c. 10 * a + digit_val c) 0 ds)
                   else 10 ^ nat (foldl (\<lambda>a c. 10 * a + digit_val c) 0 ds)))"

definition text_real :: "string \<Rightarrow> rat" where
  \<comment> \<open>CAST(text AS REAL): the longest numeric prefix, 0 when there is none\<close>
  "text_real s =
     (let t = dropWhile sql_space s;
          neg = starts_with ''-'' t;
          u = (if starts_with ''-'' t \<or> starts_with ''+'' t then tl t else t);
          ip = takeWhile is_digit u;
          rest = dropWhile is_digit u;
          fp = (if starts_with ''.'' rest then takeWhile is_digit (tl rest) else []);
          rest2 = (if starts_with ''.'' rest then dropWhile is_digit (tl rest) else rest);
          v = (if ip = [] \<and> fp = [] then 0
               else (digits_value ip + fraction_value fp) * exponent_factor rest2)
      in if neg then - v else v)"

fun sql_real :: "json \<Rightarrow> rat option" where
  \<comment> \<open>CAST(json_extract(...) AS REAL)\<close>
  "sql_real JNull = None"
| "sql_real JNaN = None"
| "sql_real (JInf b) = None"
| "sql_real (JBool b) = Some (if b then 1 else 0)"
| "sql_real (JInt i) = Some (of_int i)"
| "sql_real (JFloat q) = Some q"
| "sql_real (JStr s) = Some (text_real s)"
| "sql_real (JArr xs) = Some 0"
| "sql_real (JObj kvs) = Some 0"

fun sql_like :: "string \<Rightarrow> string \<Rightarrow> bool" where
  \<comment> \<open>\<open>sql_like pattern text\<close>\<close>
  "sql_like [] s = (s = [])"
| "sql_like (p # ps) [] = (p = CHR ''%'' \<and> sql_like ps [])"
| "sql_like (p # ps) (c # cs) =
     (if p = CHR ''%'' then sql_like ps (c # cs) \<or> sql_like (p # ps) cs
      else (p = CHR ''_'' \<or> sql_fold p = sql_fold c) \<and> sql_like ps cs)"

definition plain_pattern :: "string \<Rightarrow> bool" where
  "plain_pattern p \<longleftrightarrow> CHR ''%'' \<notin> set p \<and> CHR ''_'' \<notin> set p"

lemma sql_like_percent: "sql_like [CHR ''%''] s"
  by (induction s) auto

lemma sql_like_prefix:
  "plain_pattern p \<Longrightarrow>
   sql_like (p @ ''%'') s \<longleftrightarrow> (\<exists>m b. s = m @ b \<and> sql_lower m = sql_lower p)"
proof (induction p arbitrary: s)
  case Nil
  have "\<exists>m b. s = m @ b \<and> sql_lower m = sql_lower []"
    by (rule exI [of _ "[]"]) (simp add: sql_lower_def)
  then show ?case by (simp add: sql_like_percent)
next
  case (Cons x p)
  have px: "x \<noteq> CHR ''%''" "x \<noteq> CHR ''_''" and pp: "plain_pattern p"
    using Cons.prems by (auto simp: plain_pattern_def)
  show ?case
  proof (cases s)
    case Nil
    then show ?thesis using px by (auto simp: sql_lower_def)
  next
    case (Cons c cs)
    have "sql_like ((x # p) @ ''%'') (c # cs) \<longleftrightarrow>
          sql_fold x = sql_fold c \<and> (\<exists>m b. cs = m @ b \<and> sql_lower m = sql_lower p)"
      using px Cons.IH [OF pp] by simp
    also have "\<dots> \<longleftrightarrow> (\<exists>m b. c # cs = m @ b \<and> sql_lower m = sql_lower (x # p))"
      by (auto simp: sql_lower_def Cons_eq_append_conv) (metis list.simps(9))
    finally show ?thesis using Cons by simp
  qed
qed

lemma ex_split_Cons:
  "(\<exists>a m b. c # cs = a @ m @ b \<and> P m) \<longleftrightarrow>
   (\<exists>m b. c # cs = m @ b \<and> P m) \<or> (\<exists>a m b. cs = a @ m @ b \<and> P m)"
  (is "?l \<longleftrightarrow> ?r1 \<or> ?r2")
proof
  assume ?l
  then obtain a m b where *: "c # cs = a @ m @ b" "P m" by blast
  then show "?r1 \<or> ?r2" by (cases a) auto
next
  assume "?r1 \<or> ?r2"
  then show ?l by (metis append_Cons append_Nil)
qed

text \<open>
  Between two percent signs, LIKE is the substring test up to ASCII case, for a name that
  holds no wildcard of its own.
\<close>

lemma sql_like_substring:
  assumes "plain_pattern p"
  shows "sql_like (''%'' @ p @ ''%'') s \<longleftrightarrow>
         (\<exists>a m b. s = a @ m @ b \<and> sql_lower m = sql_lower p)"
proof (induction s)
  case Nil
  then show ?case using sql_like_prefix [OF assms, of "[]"] by simp
next
  case (Cons c cs)
  have "sql_like (''%'' @ p @ ''%'') (c # cs) \<longleftrightarrow>
        sql_like (p @ ''%'') (c # cs) \<or> sql_like (''%'' @ p @ ''%'') cs"
    by simp
  also have "\<dots> \<longleftrightarrow> (\<exists>m b. c # cs = m @ b \<and> sql_lower m = sql_lower p) \<or>
                    (\<exists>a m b. cs = a @ m @ b \<and> sql_lower m = sql_lower p)"
    using Cons sql_like_prefix [OF assms, of "c # cs"] by simp
  also have "\<dots> \<longleftrightarrow> (\<exists>a m b. c # cs = a @ m @ b \<and> sql_lower m = sql_lower p)"
    by (rule ex_split_Cons [symmetric])
  finally show ?case .
qed

section \<open>GPU names\<close>

definition separators_to_spaces :: "string \<Rightarrow> string" where
  "separators_to_spaces s = replace_char (CHR ''-'') (CHR '' '') (replace_char (CHR ''_'') (CHR '' '') s)"

definition canonical_gpu_name :: "string option \<Rightarrow> string" where
  "canonical_gpu_name v =
     (let name = separators_to_spaces (py_lower (case v of None \<Rightarrow> [] | Some s \<Rightarrow> s))
      in if name = ''h100 sxm'' then ''nvidia h100 80gb hbm3''
         else if name = ''nvidia h100 sxm'' then ''nvidia h100 80gb hbm3''
         else name)"

lemma replace_char_gone: "a \<noteq> b \<Longrightarrow> a \<notin> set (replace_char a b s)"
  by (auto simp: replace_char_def)

lemma canonical_no_separator:
  "CHR ''_'' \<notin> set (canonical_gpu_name v) \<and> CHR ''-'' \<notin> set (canonical_gpu_name v)"
proof -
  have "CHR ''_'' \<notin> set (separators_to_spaces s) \<and> CHR ''-'' \<notin> set (separators_to_spaces s)" for s
    by (auto simp: separators_to_spaces_def replace_char_def)
  then show ?thesis by (auto simp: canonical_gpu_name_def Let_def)
qed

section \<open>Floats\<close>

text \<open>Floats of SQLite and Python: a sum may leave the finite numbers.\<close>

fun float_add :: "json \<Rightarrow> json \<Rightarrow> json" where
  "float_add (JFloat a) (JFloat b) = JFloat (a + b)"
| "float_add (JInf a) (JFloat b) = JInf a"
| "float_add (JFloat a) (JInf b) = JInf b"
| "float_add (JInf a) (JInf b) = (if a = b then JInf a else JNaN)"
| "float_add a b = JNaN"

fun float_neg :: "json \<Rightarrow> json" where
  "float_neg (JFloat a) = JFloat (- a)"
| "float_neg (JInf a) = JInf (\<not> a)"
| "float_neg v = v"

fun float_max0 :: "json \<Rightarrow> json" where
  \<comment> \<open>\<open>max(0.0, v)\<close>: the first argument unless the second is greater\<close>
  "float_max0 (JFloat a) = JFloat (if 0 < a then a else 0)"
| "float_max0 (JInf b) = (if b then JInf True else JFloat 0)"
| "float_max0 v = JFloat 0"

fun float_less :: "json \<Rightarrow> json \<Rightarrow> bool" where
  \<comment> \<open>\<open>x < y\<close> of floats; it never holds of NaN\<close>
  "float_less (JFloat a) (JFloat b) = (a < b)"
| "float_less (JFloat a) (JInf b) = b"
| "float_less (JInf a) (JFloat b) = (\<not> a)"
| "float_less (JInf a) (JInf b) = (\<not> a \<and> b)"
| "float_less x y = False"

fun float_times :: "json \<Rightarrow> json \<Rightarrow> json" where
  \<comment> \<open>infinity times zero is NaN\<close>
  "float_times (JFloat a) (JFloat b) = JFloat (a * b)"
| "float_times (JInf a) (JFloat b) = (if b = 0 then JNaN else JInf (a = (0 < b)))"
| "float_times (JFloat a) (JInf b) = (if a = 0 then JNaN else JInf (b = (0 < a)))"
| "float_times (JInf a) (JInf b) = JInf (a = b)"
| "float_times a b = JNaN"

definition round_to :: "nat \<Rightarrow> rat \<Rightarrow> rat" where
  \<comment> \<open>\<open>round(q, n)\<close> of a finite float\<close>
  "round_to n q = of_int (py_round (q * 10 ^ n)) / 10 ^ n"

fun float_round :: "nat \<Rightarrow> json \<Rightarrow> json" where
  \<comment> \<open>NaN and infinity round to themselves\<close>
  "float_round n (JFloat q) = JFloat (round_to n q)"
| "float_round n v = v"

lemma round_to_mono: "p \<le> q \<Longrightarrow> round_to n p \<le> round_to n q"
  by (simp add: round_to_def divide_right_mono py_round_mono)

lemma round_to_0 [simp]: "round_to n 0 = 0"
  using py_round_of_int [of 0] by (simp add: round_to_def)

section \<open>Dictionaries and texts\<close>

definition dict_merge :: "(string \<times> json) list \<Rightarrow> (string \<times> json) list \<Rightarrow> (string \<times> json) list" where
  \<comment> \<open>\<open>{**a, **b}\<close>\<close>
  "dict_merge a b = foldl (\<lambda>d (k, v). kv_set k v d) a b"

fun first_seen :: "string list \<Rightarrow> string list" where
  \<comment> \<open>\<open>dict.fromkeys(...)\<close>: the first occurrence of every entry\<close>
  "first_seen [] = []"
| "first_seen (x # xs) = x # first_seen (filter (\<lambda>y. y \<noteq> x) xs)"

fun has_part :: "string \<Rightarrow> string \<Rightarrow> bool" where
  \<comment> \<open>\<open>p in s\<close>\<close>
  "has_part p [] = (p = [])"
| "has_part p (c # cs) = (starts_with p (c # cs) \<or> has_part p cs)"

fun join_with :: "string \<Rightarrow> string list \<Rightarrow> string" where
  "join_with sep [] = []"
| "join_with sep [s] = s"
| "join_with sep (s # t # ts) = s @ sep @ join_with sep (t # ts)"

end
