(* ===== verification/Jobs.thy ===== *)
theory Jobs
  imports Conversions
begin

text \<open>
  The job record of \<open>cloud_offload/queue.py\<close>, its lifecycle states, the events that
  describe a change of a job, and the envelope in which a journal row is published.
  A timestamp that the queue writes itself is the naive UTC instant in microseconds: the
  code stores its ISO text, whose lexical order is the order of the instants.
\<close>

type_synonym time = int

datatype stamp = At time | Text string

definition stamp_text :: "pyenv \<Rightarrow> stamp \<Rightarrow> string" where
  "stamp_text env s = (case s of At t \<Rightarrow> iso_naive env t | Text x \<Rightarrow> x)"

definition seconds :: "int \<Rightarrow> time" where
  \<comment> \<open>\<open>timedelta(seconds=n)\<close>\<close>
  "seconds n = 1000000 * n"

definition seconds_rat :: "rat \<Rightarrow> time" where
  \<comment> \<open>\<open>timedelta(seconds=x)\<close> of a float: rounded to a microsecond\<close>
  "seconds_rat q = py_round (1000000 * q)"

lemma seconds_less [simp]: "seconds a < seconds b \<longleftrightarrow> a < b"
  and seconds_le [simp]: "seconds a \<le> seconds b \<longleftrightarrow> a \<le> b"
  and seconds_pos [simp]: "0 < seconds a \<longleftrightarrow> 0 < a"
  by (simp_all add: seconds_def)

section \<open>States\<close>

datatype job_status =
    PENDING | PREVIEW_DONE | QUEUED | DISPATCHED | RUNNING | COMPLETED | FAILED | DEAD_LETTER

fun status_value :: "job_status \<Rightarrow> string" where
  "status_value PENDING = ''pending''"
| "status_value PREVIEW_DONE = ''preview_done''"
| "status_value QUEUED = ''queued''"
| "status_value DISPATCHED = ''dispatched''"
| "status_value RUNNING = ''running''"
| "status_value COMPLETED = ''completed''"
| "status_value FAILED = ''failed''"
| "status_value DEAD_LETTER = ''dead_letter''"

definition all_statuses :: "job_status list" where
  "all_statuses =
     [PENDING, PREVIEW_DONE, QUEUED, DISPATCHED, RUNNING, COMPLETED, FAILED, DEAD_LETTER]"

definition status_of :: "string \<Rightarrow> job_status option" where
  "status_of s = find (\<lambda>st. status_value st = s) all_statuses"

lemma status_of_value [simp]: "status_of (status_value st) = Some st"
  by (cases st) (simp_all add: status_of_def all_statuses_def)

lemma status_value_inject [simp]: "status_value a = status_value b \<longleftrightarrow> a = b"
  by (metis option.inject status_of_value)

definition terminal :: "job_status \<Rightarrow> bool" where
  "terminal st \<longleftrightarrow> st \<in> {COMPLETED, FAILED, DEAD_LETTER}"

lemma terminal_simps [simp]:
  "terminal COMPLETED" "terminal FAILED" "terminal DEAD_LETTER"
  "\<not> terminal PENDING" "\<not> terminal PREVIEW_DONE" "\<not> terminal QUEUED"
  "\<not> terminal DISPATCHED" "\<not> terminal RUNNING"
  by (simp_all add: terminal_def)

fun status_phase :: "job_status \<Rightarrow> string" where
  "status_phase PENDING = ''readiness''"
| "status_phase PREVIEW_DONE = ''readiness''"
| "status_phase QUEUED = ''readiness''"
| "status_phase DISPATCHED = ''provisioning''"
| "status_phase RUNNING = ''execution''"
| "status_phase COMPLETED = ''result_transfer''"
| "status_phase FAILED = ''failure''"
| "status_phase DEAD_LETTER = ''failure''"

definition job_phase_order :: "(string \<times> int) list" where
  "job_phase_order =
     [(''readiness'', 0), (''preflight'', 0), (''provisioning'', 10), (''provider_request'', 10),
      (''worker_boot'', 20), (''dependency_preparation'', 30), (''weights_staging'', 30),
      (''node_pack_staging'', 30), (''cache_restore'', 30), (''execution'', 40),
      (''result_transfer'', 50), (''resource_closure'', 60)]"

section \<open>The job record\<close>

record job =
  job_id :: string
  job_model :: string
  job_status :: job_status
  job_input_path :: string
  job_params :: json
  job_request :: json
  job_provider :: "string option"
  job_preview_path :: "string option"
  job_result_path :: "string option"
  job_result :: "json option"
  job_progress :: int
  job_created_at :: time
  job_updated_at :: time
  job_started_at :: "time option"
  job_completed_at :: "time option"
  job_error :: "string option"
  job_worker_id :: "string option"
  job_attempts :: int
  job_max_attempts :: int
  job_schema_version :: int

text \<open>\<open>Job(...)\<close> with the defaults of the dataclass; \<open>__post_init__\<close> sets both times.\<close>

definition new_job ::
  "string \<Rightarrow> string \<Rightarrow> job_status \<Rightarrow> string \<Rightarrow> json \<Rightarrow> json \<Rightarrow> string option \<Rightarrow> time \<Rightarrow> job"
where
  "new_job ident model st input_path params request provider now =
     \<lparr>job_id = ident, job_model = model, job_status = st, job_input_path = input_path,
      job_params = params, job_request = request, job_provider = provider,
      job_preview_path = None, job_result_path = None, job_result = None, job_progress = 0,
      job_created_at = now, job_updated_at = now, job_started_at = None,
      job_completed_at = None, job_error = None, job_worker_id = None, job_attempts = 0,
      job_max_attempts = 3, job_schema_version = 3\<rparr>"

definition partition_id :: "pyenv \<Rightarrow> job \<Rightarrow> string option" where
  "partition_id env j =
     (let partition = obj_get (job_request j) ''partition''
      in if is_obj partition \<and> obj_get partition ''partition_id'' \<noteq> JNull
         then Some (py_str env (obj_get partition ''partition_id'')) else None)"

section \<open>Events about a job\<close>

definition lifecycle_event :: "pyenv \<Rightarrow> job \<Rightarrow> string \<Rightarrow> job_status option \<Rightarrow> json" where
  "lifecycle_event env j event_type previous =
     JObj ([(''type'', JStr event_type),
            (''phase'', JStr (status_phase (job_status j))),
            (''phase_owner'', JStr ''coordinator''),
            (''status'', JStr (status_value (job_status j))),
            (''previous_status'', jopt (map_option status_value previous)),
            (''overall_progress'', JInt (job_progress j)),
            (''attempts'', JInt (job_attempts j))]
           @ str_field ''partition_id'' (partition_id env j)
           @ str_field ''provider'' (job_provider j)
           @ str_field ''worker_id'' (job_worker_id j)
           @ str_field ''error'' (job_error j))"

definition progress_event :: "pyenv \<Rightarrow> job \<Rightarrow> int \<Rightarrow> json" where
  "progress_event env j previous_progress =
     JObj ([(''type'', JStr ''job_progress_changed''),
            (''phase'', JStr (status_phase (job_status j))),
            (''phase_owner'', JStr ''coordinator''),
            (''status'', JStr (status_value (job_status j))),
            (''progress'', JInt (job_progress j)),
            (''overall_progress'', JInt (job_progress j)),
            (''previous_progress'', JInt previous_progress)]
           @ str_field ''partition_id'' (partition_id env j)
           @ str_field ''worker_id'' (job_worker_id j))"

lemma lifecycle_event_fields [simp]:
  "is_obj (lifecycle_event env j t p)"
  "obj_get (lifecycle_event env j t p) ''type'' = JStr t"
  "obj_get (lifecycle_event env j t p) ''phase'' = JStr (status_phase (job_status j))"
  "obj_get (lifecycle_event env j t p) ''phase_owner'' = JStr ''coordinator''"
  "obj_get (lifecycle_event env j t p) ''status'' = JStr (status_value (job_status j))"
  "obj_get (lifecycle_event env j t p) ''previous_status'' = jopt (map_option status_value p)"
  "obj_get (lifecycle_event env j t p) ''overall_progress'' = JInt (job_progress j)"
  "obj_has (lifecycle_event env j t p) ''phase_owner''"
  by (simp_all add: lifecycle_event_def)

lemma progress_event_fields [simp]:
  "is_obj (progress_event env j q)"
  "obj_get (progress_event env j q) ''type'' = JStr ''job_progress_changed''"
  "obj_get (progress_event env j q) ''phase'' = JStr (status_phase (job_status j))"
  "obj_get (progress_event env j q) ''status'' = JStr (status_value (job_status j))"
  "obj_get (progress_event env j q) ''overall_progress'' = JInt (job_progress j)"
  "obj_has (progress_event env j q) ''phase_owner''"
  by (simp_all add: progress_event_def)

section \<open>Journal rows\<close>

record event_row =
  ev_sequence :: int
  ev_job_id :: string
  ev_json :: json
  ev_created_at :: time
  ev_producer_id :: string
  ev_producer_sequence :: "int option"
  ev_occurred_at :: stamp
  ev_observed_at :: time
  ev_type :: string
  ev_phase :: "string option"

definition metric_fields :: "string list" where
  "metric_fields =
     [''overall_progress'', ''progress'', ''bytes'', ''total_bytes'', ''percent'',
      ''elapsed_seconds'', ''downloaded_files'', ''total_files'', ''value'', ''max'']"

definition resource_fields :: "string list" where
  "resource_fields =
     [''provider'', ''datacenter_id'', ''region'', ''worker_instance_id'', ''worker_id'',
      ''pod_id'', ''cache_volume_id'', ''cache_provider_volume_id'', ''gpu_type'',
      ''hourly_rate'', ''lease_id'']"

definition pick_fields :: "string list \<Rightarrow> json \<Rightarrow> json" where
  \<comment> \<open>\<open>{key: event[key] for key in keys if event.get(key) is not None}\<close>\<close>
  "pick_fields ks event =
     JObj (map (\<lambda>k. (k, obj_get event k)) (filter (\<lambda>k. obj_get event k \<noteq> JNull) ks))"

definition lifecycle_types :: "string list" where
  "lifecycle_types = [''job_created'', ''job_state_seeded'', ''job_status_changed'']"

definition or_str :: "string \<Rightarrow> string \<Rightarrow> string" where
  "or_str a b = (if a = [] then b else a)"

definition job_event_envelope :: "pyenv \<Rightarrow> event_row \<Rightarrow> json" where
  "job_event_envelope env r =
     (let event = ev_json r;
          evidence = obj_get event ''evidence'';
          created = iso_naive env (ev_created_at r)
      in JObj
       [(''schema'', JStr ''cloud-offload.job-event.v2''),
        (''sequence'', JInt (ev_sequence r)),
        (''job_id'', JStr (ev_job_id r)),
        (''created_at'', JStr created),
        (''occurred_at'', JStr (or_str (stamp_text env (ev_occurred_at r)) created)),
        (''observed_at'', JStr (or_str (iso_naive env (ev_observed_at r)) created)),
        (''producer'',
          JObj [(''id'', JStr (or_str (ev_producer_id r) ''legacy'')),
                (''sequence'', (case ev_producer_sequence r of None \<Rightarrow> JNull | Some n \<Rightarrow> JInt n))]),
        (''type'',
          JStr (if ev_type r \<noteq> [] then ev_type r
                else py_str env (if truthy (obj_get event ''type'') then obj_get event ''type''
                                 else JStr ''unknown''))),
        (''phase'', (if given (ev_phase r) then jopt (ev_phase r) else obj_get event ''phase'')),
        (''phase_owner'', obj_get event ''phase_owner''),
        (''partition_id'', obj_get event ''partition_id''),
        (''status'', obj_get event ''status''),
        (''metrics'', pick_fields metric_fields event),
        (''resources'', pick_fields resource_fields event),
        (''evidence'', (if is_obj evidence then evidence else JObj [])),
        (''event'', event)])"

lemma envelope_sequence [simp]:
  "obj_get (job_event_envelope env r) ''sequence'' = JInt (ev_sequence r)"
  by (simp add: job_event_envelope_def Let_def)

section \<open>The text columns of a job row\<close>

text \<open>
  A row of the jobs table holds JSON text and nullable counters. \<open>row_to_job\<close> restores the
  defaults that \<open>_row_to_job\<close> restores; the rows that the queue writes itself come back as
  the job that was written, so the other theories keep the table as a list of jobs.
\<close>

record job_row =
  row_id :: string
  row_model :: string
  row_status :: string
  row_input_path :: string
  row_params :: "json option"
  row_preview_path :: "string option"
  row_result_path :: "string option"
  row_created_at :: time
  row_updated_at :: time
  row_started_at :: "time option"
  row_completed_at :: "time option"
  row_error :: "string option"
  row_worker_id :: "string option"
  row_attempts :: "int option"
  row_max_attempts :: "int option"
  row_schema_version :: "int option"
  row_request_json :: "json option"
  row_provider :: "string option"
  row_result_json :: "json option"
  row_progress :: "int option"

definition or_default :: "'a \<Rightarrow> 'a option \<Rightarrow> 'a" where
  "or_default d x = (case x of None \<Rightarrow> d | Some y \<Rightarrow> y)"

definition row_to_job :: "job_row \<Rightarrow> pyerr + job" where
  "row_to_job r =
     (case status_of (row_status r) of
        None \<Rightarrow> Inl (ValueError (row_status r @ '' is not a valid JobStatus''))
      | Some st \<Rightarrow> Inr
         \<lparr>job_id = row_id r, job_model = row_model r, job_status = st,
          job_input_path = row_input_path r,
          job_params = or_default (JObj []) (row_params r),
          job_request = or_default (JObj []) (row_request_json r),
          job_provider = row_provider r, job_preview_path = row_preview_path r,
          job_result_path = row_result_path r, job_result = row_result_json r,
          job_progress = or_default 0 (row_progress r),
          job_created_at = row_created_at r, job_updated_at = row_updated_at r,
          job_started_at = row_started_at r, job_completed_at = row_completed_at r,
          job_error = row_error r, job_worker_id = row_worker_id r,
          job_attempts = or_default 0 (row_attempts r),
          job_max_attempts = or_default 3 (row_max_attempts r),
          job_schema_version = or_default 8 (row_schema_version r)\<rparr>)"

definition job_to_row :: "job \<Rightarrow> job_row" where
  \<comment> \<open>the values of the INSERT of \<open>create\<close>\<close>
  "job_to_row j =
     \<lparr>row_id = job_id j, row_model = job_model j, row_status = status_value (job_status j),
      row_input_path = job_input_path j, row_params = Some (job_params j),
      row_preview_path = job_preview_path j, row_result_path = job_result_path j,
      row_created_at = job_created_at j, row_updated_at = job_updated_at j,
      row_started_at = job_started_at j, row_completed_at = job_completed_at j,
      row_error = job_error j, row_worker_id = job_worker_id j,
      row_attempts = Some (job_attempts j), row_max_attempts = Some (job_max_attempts j),
      row_schema_version = Some (job_schema_version j),
      row_request_json = Some (job_request j), row_provider = job_provider j,
      row_result_json = job_result j, row_progress = Some (job_progress j)\<rparr>"

end
