(* ===== verification/PlanPublic.thy ===== *)
theory PlanPublic
  imports Jobs
begin

text \<open>
  The public projection of \<open>cloud_offload/plan_protocol.py\<close>: the value checks, the event
  projection that the journal applies to every event of a plan job, and the two documents
  that close a plan, its closure receipt and its result manifest.
\<close>

section \<open>Value checks\<close>

definition id_char :: "char \<Rightarrow> bool" where
  "id_char c \<longleftrightarrow> is_alnum c \<or> c \<in> {CHR ''.'', CHR ''_'', CHR '':'', CHR ''-''}"

definition id_match :: "string \<Rightarrow> bool" where
  \<comment> \<open>\<open>_ID.fullmatch\<close>\<close>
  "id_match s =
     (case s of [] \<Rightarrow> False
      | c # cs \<Rightarrow> is_alnum c \<and> list_all id_char cs \<and> length cs \<le> 127)"

definition is_hex :: "char \<Rightarrow> bool" where
  "is_hex c \<longleftrightarrow> is_digit c \<or> (65 \<le> code c \<and> code c \<le> 70) \<or> (97 \<le> code c \<and> code c \<le> 102)"

definition sha_prefix :: string where
  "sha_prefix = ''sha256:''"

definition digest_match :: "string \<Rightarrow> bool" where
  \<comment> \<open>\<open>_DIGEST.fullmatch\<close>; no text of hexadecimal digits starts with the prefix\<close>
  "digest_match s =
     (let h = remove_prefix sha_prefix s in length h = 64 \<and> list_all is_hex h)"

definition media_char :: "char \<Rightarrow> bool" where
  "media_char c \<longleftrightarrow> is_alnum c \<or> c \<in> set ''!#$&^_.+-''"

definition media_part :: "string \<Rightarrow> bool" where
  "media_part s =
     (case s of [] \<Rightarrow> False
      | c # cs \<Rightarrow> is_alnum c \<and> list_all media_char cs \<and> length cs \<le> 127)"

definition media_match :: "string \<Rightarrow> bool" where
  \<comment> \<open>\<open>_MEDIA.fullmatch\<close>: a slash is not a character of either part\<close>
  "media_match s =
     (let a = takeWhile (\<lambda>c. c \<noteq> CHR ''/'') s;
          rest = dropWhile (\<lambda>c. c \<noteq> CHR ''/'') s
      in rest \<noteq> [] \<and> media_part a \<and> media_part (tl rest))"

fun safe_opaque :: "json \<Rightarrow> string \<Rightarrow> pyerr + string" where
  "safe_opaque (JStr s) label =
     (if id_match s then Inr s else Inl (PlanError (label @ '' is invalid'')))"
| "safe_opaque j label = Inl (PlanError (label @ '' is invalid''))"

fun plan_digest :: "json \<Rightarrow> string \<Rightarrow> pyerr + string" where
  "plan_digest (JStr s) label =
     (if digest_match s then Inr (sha_prefix @ py_lower (remove_prefix sha_prefix s))
      else Inl (PlanError (label @ '' must be a sha256 digest'')))"
| "plan_digest j label = Inl (PlanError (label @ '' must be a sha256 digest''))"

fun plan_media :: "json \<Rightarrow> string \<Rightarrow> pyerr + string" where
  "plan_media (JStr s) label =
     (if 256 < length s \<or> \<not> media_match s then Inl (PlanError (label @ '' is invalid''))
      else Inr s)"
| "plan_media j label = Inl (PlanError (label @ '' is invalid''))"

definition is_bool :: "json \<Rightarrow> bool" where
  "is_bool j = (case j of JBool b \<Rightarrow> True | _ \<Rightarrow> False)"

definition bounded_int :: "json \<Rightarrow> int \<Rightarrow> int" where
  \<comment> \<open>\<open>_bounded_int(value, maximum)\<close> with the default 0\<close>
  "bounded_int v maximum =
     (if is_bool v then 0
      else case py_int v of Inl e \<Rightarrow> 0 | Inr n \<Rightarrow> max 0 (min maximum n))"

definition z_to_offset :: "string \<Rightarrow> string" where
  \<comment> \<open>\<open>value.replace("Z", "+00:00")\<close>\<close>
  "z_to_offset s = concat (map (\<lambda>c. if c = CHR ''Z'' then ''+00:00'' else [c]) s)"

fun public_timestamp :: "pyenv \<Rightarrow> json \<Rightarrow> json" where
  "public_timestamp env (JStr s) =
     (if s = [] then JNull
      else case parse_iso env (z_to_offset s) of
             None \<Rightarrow> JNull
           | Some (t, has_offset) \<Rightarrow> JStr (iso_utc env t))"
| "public_timestamp env j = JNull"

fun parse_expiry :: "pyenv \<Rightarrow> json \<Rightarrow> pyerr + int" where
  "parse_expiry env (JStr s) =
     (if s = [] then Inl (PlanError ''preflight expiry is invalid'')
      else case parse_iso env (z_to_offset s) of
             None \<Rightarrow> Inl (PlanError ''preflight expiry is invalid'')
           | Some (t, has_offset) \<Rightarrow>
               if has_offset then Inr t else Inl (PlanError ''preflight expiry is invalid''))"
| "parse_expiry env j = Inl (PlanError ''preflight expiry is invalid'')"

definition canonical_text :: "pyenv \<Rightarrow> json \<Rightarrow> pyerr + string" where
  \<comment> \<open>\<open>canonical_bytes\<close>\<close>
  "canonical_text env v =
     (if json_finite v then Inr (json_text False env (json_sort v))
      else Inl (PlanError ''Plan must be strict JSON''))"

definition binding_digest :: "pyenv \<Rightarrow> json \<Rightarrow> pyerr + string" where
  "binding_digest env v =
     (case canonical_text env v of
        Inl e \<Rightarrow> Inl e
      | Inr t \<Rightarrow> Inr (sha_prefix @ sha256_hex env t))"

definition str_digest :: "pyenv \<Rightarrow> string \<Rightarrow> string" where
  \<comment> \<open>\<open>binding_digest\<close> of a text, which is always strict JSON\<close>
  "str_digest env s = sha_prefix @ sha256_hex env (json_text False env (JStr s))"

lemma binding_digest_str [simp]: "binding_digest env (JStr s) = Inr (str_digest env s)"
  by (simp add: binding_digest_def canonical_text_def str_digest_def)

lemma digest_round: "plan_digest (JStr s) l = Inr d \<Longrightarrow> \<exists>h. d = sha_prefix @ h \<and> length h = 64"
  by (auto simp: digest_match_def Let_def py_lower_def split: if_splits)

section \<open>Plan states and events\<close>

definition terminal_states :: "string list" where
  "terminal_states = [''cancelled'', ''completed'', ''failed'', ''terminal'']"

definition plan_public_event_types :: "string list" where
  "plan_public_event_types =
     [''job_created'', ''job_state_seeded'', ''job_status_changed'', ''cancellation_requested'']"

definition plan_public_phases :: "string list" where
  "plan_public_phases =
     [''readiness'', ''provisioning'', ''worker_boot'', ''dependency_preparation'',
      ''execution'', ''result_transfer'', ''resource_closure'', ''failure'']"

definition plan_public_statuses :: "string list" where
  "plan_public_statuses =
     [''preflighted'', ''submitting'', ''submitted'', ''running'', ''cancelling'',
      ''cancelled'', ''completed'', ''failed'', ''terminal'']"

definition closure_reason_codes :: "string list" where
  "closure_reason_codes =
     [''cancelled'', ''completed'', ''worker_failed'', ''provider_absent'', ''unknown'']"

definition or_text :: "pyenv \<Rightarrow> json \<Rightarrow> string \<Rightarrow> string" where
  \<comment> \<open>\<open>str(v or default)\<close>\<close>
  "or_text env v d = (if truthy v then py_str env v else d)"

definition one_of :: "string list \<Rightarrow> string \<Rightarrow> string \<Rightarrow> string" where
  "one_of xs d s = (if s \<in> set xs then s else d)"

fun finite_number :: "json \<Rightarrow> bool" where
  \<comment> \<open>an int or float that is no bool and is finite as a float (an int above the largest
     double overflows)\<close>
  "finite_number (JInt i) = (\<bar>i\<bar> < 2 ^ 1024 - 2 ^ 970)"
| "finite_number (JFloat q) = True"
| "finite_number j = False"

definition plan_metric_fields :: "string list" where
  "plan_metric_fields = [''progress'', ''overall_progress'', ''bytes'', ''total_bytes'', ''percent'']"

definition safe_metrics :: "json \<Rightarrow> (string \<times> json) list" where
  "safe_metrics m =
     (if is_obj m
      then map (\<lambda>k. (k, obj_get m k)) (filter (\<lambda>k. finite_number (obj_get m k)) plan_metric_fields)
      else [])"

definition max_public_int :: int where
  "max_public_int = 2 ^ 31 - 1"

definition public_plan_event :: "pyenv \<Rightarrow> json \<Rightarrow> pyerr + json" where
  "public_plan_event env event =
     (if \<not> is_obj event then Inl (PlanError ''plan event is invalid'')
      else
        let event_type = one_of plan_public_event_types ''job_status_changed''
                           (or_text env (obj_get event ''type'') []);
            phase = one_of plan_public_phases ''readiness''
                      (or_text env (obj_get event ''phase'') ''readiness'');
            status = one_of plan_public_statuses ''submitting''
                       (or_text env (obj_get event ''status'') ''submitting'');
            producer = obj_get event ''producer'';
            pseq = obj_get producer ''sequence'';
            metrics = safe_metrics (obj_get event ''metrics'')
        in case safe_opaque (obj_get event ''job_id'') ''job_id'' of
             Inl e \<Rightarrow> Inl e
           | Inr ident \<Rightarrow> Inr (JObj
               ([(''schema'', JStr ''cloud-offload.job-event.v2''),
                 (''sequence'', JInt (bounded_int (obj_get event ''sequence'') max_public_int)),
                 (''job_id'', JStr ident),
                 (''occurred_at'', public_timestamp env (obj_get event ''occurred_at'')),
                 (''observed_at'', public_timestamp env (obj_get event ''observed_at'')),
                 (''producer'',
                   JObj [(''id'', JStr ''coordinator''),
                         (''sequence'',
                           (if is_obj producer \<and> pseq \<noteq> JNull
                            then JInt (bounded_int pseq max_public_int) else JNull))]),
                 (''type'', JStr event_type),
                 (''phase'', JStr phase),
                 (''phase_owner'', JStr ''coordinator''),
                 (''status'', JStr status)]
                @ (if metrics = [] then [] else [(''metrics'', JObj metrics)]))))"

lemma one_of_in [simp]: "d \<in> set xs \<Longrightarrow> one_of xs d s \<in> set xs"
  by (simp add: one_of_def)

section \<open>Closure receipts\<close>

definition reason_char :: "char \<Rightarrow> bool" where
  "reason_char c \<longleftrightarrow> is_alnum c \<or> c \<in> {CHR ''_'', CHR ''.'', CHR ''-''}"

definition obj_keys :: "json \<Rightarrow> string list" where
  "obj_keys j = (case j of JObj kvs \<Rightarrow> map fst kvs | _ \<Rightarrow> [])"

definition has_unknown :: "json \<Rightarrow> string list \<Rightarrow> bool" where
  "has_unknown j allowed = list_ex (\<lambda>k. k \<notin> set allowed) (obj_keys j)"

definition obj_get_or :: "json \<Rightarrow> string \<Rightarrow> json \<Rightarrow> json" where
  \<comment> \<open>\<open>d.get(key, default)\<close>\<close>
  "obj_get_or j k d = (if obj_has j k then obj_get j k else d)"

definition hashable :: "json \<Rightarrow> bool" where
  \<comment> \<open>membership in a set of texts raises on a list or a dict\<close>
  "hashable j = (case j of JArr xs \<Rightarrow> False | JObj kvs \<Rightarrow> False | _ \<Rightarrow> True)"

definition closure_reason :: "json \<Rightarrow> pyerr + (string \<times> json) list" where
  "closure_reason receipt =
     (if \<not> obj_has receipt ''reason'' then Inr []
      else case obj_get receipt ''reason'' of
             JStr r \<Rightarrow>
               if py_strip r = [] \<or> 128 < length r
               then Inl (PlanError ''closure receipt reason is invalid'')
               else Inr [(''reason_code'',
                          JStr (one_of closure_reason_codes ''unknown''
                                  (take 64 (filter reason_char r))))]
           | _ \<Rightarrow> Inl (PlanError ''closure receipt reason is invalid''))"

definition closure_ended :: "pyenv \<Rightarrow> json \<Rightarrow> pyerr + (string \<times> json) list" where
  "closure_ended env receipt =
     (if \<not> obj_has receipt ''ended_at'' then Inr []
      else case parse_expiry env (obj_get receipt ''ended_at'') of
             Inl e \<Rightarrow> Inl e
           | Inr t \<Rightarrow> Inr [(''ended_at'', JStr (iso_utc env t))])"

definition validate_closure_receipt :: "pyenv \<Rightarrow> json \<Rightarrow> pyerr + json" where
  "validate_closure_receipt env receipt =
     (if \<not> is_obj receipt then Inl (PlanError ''closure receipt is invalid'')
      else if has_unknown receipt
                [''receipt_id'', ''status'', ''provider_resource_absent'', ''terminated'',
                 ''ended_at'', ''reason'', ''provider'']
      then Inl (PlanError ''closure receipt has unknown fields'')
      else case safe_opaque (obj_get receipt ''receipt_id'') ''closure receipt_id'' of
        Inl e \<Rightarrow> Inl e
      | Inr result_id \<Rightarrow>
          if obj_get_or receipt ''provider_resource_absent'' (obj_get receipt ''terminated'')
               \<noteq> JBool True
          then Inl (PlanError ''closure receipt does not prove provider absence'')
          else let status = obj_get_or receipt ''status'' (JStr ''terminal'')
               in if \<not> hashable status
                  then Inl (TypeError ''unhashable type'')
                  else if status \<notin> JStr ` set [''completed'', ''cancelled'', ''failed'', ''terminal'']
                  then Inl (PlanError ''closure receipt status is invalid'')
                  else case closure_ended env receipt of
                         Inl e \<Rightarrow> Inl e
                       | Inr ended \<Rightarrow>
                           case closure_reason receipt of
                             Inl e \<Rightarrow> Inl e
                           | Inr reason \<Rightarrow> Inr (JObj
                               ([(''receipt_id'', JStr result_id), (''status'', status),
                                 (''provider_resource_absent'', JBool True)]
                                @ ended @ reason)))"

end
