(* ===== verification/PreparedState.thy ===== *)
theory PreparedState
  imports PlanPublic
begin

text \<open>
  \<open>cloud_offload/prepared_state.py\<close>, the part that decides: digests and storage keys,
  compatibility and policy of an artifact, the signed manifests and trust receipts of the
  coordinator with their shape checks, the byte samples of a receipt, and the admission
  controller of the cache. Uploads, downloads and files are not modelled.
\<close>

section \<open>Digests and keys\<close>

definition is_lower_hex :: "char \<Rightarrow> bool" where
  "is_lower_hex c \<longleftrightarrow> is_digit c \<or> (97 \<le> code c \<and> code c \<le> 102)"

definition normalize_digest :: "string \<Rightarrow> pyerr + string" where
  "normalize_digest s =
     (let h = remove_prefix sha_prefix (py_lower s)
      in if length h \<noteq> 64 \<or> \<not> list_all is_lower_hex h
         then Inl (ValueError ''Invalid sha256 digest'') else Inr h)"

definition digest_id :: "string \<Rightarrow> pyerr + string" where
  "digest_id s =
     (case normalize_digest s of Inl e \<Rightarrow> Inl e | Inr h \<Rightarrow> Inr (sha_prefix @ h))"

definition canonical_json :: "pyenv \<Rightarrow> json \<Rightarrow> pyerr + string" where
  "canonical_json env v =
     (if json_finite v then Inr (json_text False env (json_sort v))
      else Inl (ValueError ''Out of range float values are not JSON compliant''))"

definition fingerprint :: "pyenv \<Rightarrow> json \<Rightarrow> pyerr + string" where
  "fingerprint env v =
     (case canonical_json env v of Inl e \<Rightarrow> Inl e | Inr t \<Rightarrow> digest_id (sha256_hex env t))"

definition object_key :: "string \<Rightarrow> string \<Rightarrow> string \<Rightarrow> pyerr + string" where
  \<comment> \<open>the two leading digits of a digest name its directory\<close>
  "object_key prefix suffix digest =
     (case normalize_digest digest of
        Inl e \<Rightarrow> Inl e
      | Inr h \<Rightarrow> Inr (prefix @ take 2 h @ ''/'' @ h @ suffix))"

definition blob_key :: "string \<Rightarrow> pyerr + string" where
  "blob_key digest = object_key ''blobs/sha256/'' [] digest"

definition bundle_key :: "string \<Rightarrow> pyerr + string" where
  "bundle_key digest = object_key ''bundles/sha256/'' ''.tar.zst'' digest"

definition manifest_by_id_key :: "string \<Rightarrow> pyerr + string" where
  "manifest_by_id_key manifest_id = object_key ''manifests/by-id/sha256/'' ''.json'' manifest_id"

definition pick :: "json \<Rightarrow> string list \<Rightarrow> json" where
  "pick j ks = JObj (map (\<lambda>k. (k, obj_get j k)) ks)"

definition runtime_fields :: "string list" where
  "runtime_fields = [''image_digest'', ''platform'', ''python_abi'', ''dependency_lock'']"

definition gpu_fields :: "string list" where
  "gpu_fields = [''code_digest'', ''torch'', ''cuda'', ''driver_constraint'', ''gpu_capability'']"

definition environment_key :: "pyenv \<Rightarrow> json \<Rightarrow> pyerr + string" where
  "environment_key env runtime = fingerprint env (pick runtime runtime_fields)"

definition kernel_key :: "pyenv \<Rightarrow> json \<Rightarrow> pyerr + string" where
  "kernel_key env runtime = fingerprint env (pick runtime gpu_fields)"

definition profile_key :: "pyenv \<Rightarrow> string \<Rightarrow> string list \<Rightarrow> pyerr + string" where
  "profile_key env profile keys =
     fingerprint env (JObj [(''runtime_profile'', JStr profile),
                            (''artifacts'', JArr (map JStr (sort keys)))])"

definition profile_weight_requirement_key :: "string \<Rightarrow> string \<Rightarrow> string option \<Rightarrow> string" where
  "profile_weight_requirement_key repo revision filename =
     ''profile-weight:'' @ repo @ ''@'' @ revision @ '':'' @
     (if given filename then or_default [] filename else ''<snapshot>'')"

definition custom_node_requirement_key :: "string \<Rightarrow> string" where
  "custom_node_requirement_key pack = ''custom-node:'' @ pack"

definition environment_requirement_key :: "string \<Rightarrow> pyerr + string" where
  "environment_requirement_key lock =
     (case digest_id lock of Inl e \<Rightarrow> Inl e | Inr d \<Rightarrow> Inr (''environment:'' @ d))"

definition get_text :: "pyenv \<Rightarrow> json \<Rightarrow> string \<Rightarrow> pyerr + string" where
  \<comment> \<open>\<open>str(v.get(key) or "")\<close>\<close>
  "get_text env v k = (case py_get v k of Inl e \<Rightarrow> Inl e | Inr x \<Rightarrow> Inr (or_text env x []))"

definition artifact_requirement_key :: "pyenv \<Rightarrow> json \<Rightarrow> pyerr + string option" where
  "artifact_requirement_key env artifact =
     (let kind = or_text env (obj_get artifact ''kind'') [];
          source = or_obj (obj_get artifact ''source'');
          destination = or_obj (obj_get artifact ''destination'')
      in if kind = ''profile-weight'' then
           (case get_text env source ''repo_id'' of Inl e \<Rightarrow> Inl e | Inr repo \<Rightarrow>
            (case get_text env source ''revision'' of Inl e \<Rightarrow> Inl e | Inr revision \<Rightarrow>
             Inr (Some (profile_weight_requirement_key repo revision
               (if obj_get source ''snapshot'' = JBool True then None
                else Some (or_text env (obj_get source ''filename'') []))))))
         else if kind = ''custom-node-bundle'' then
           (case get_text env destination ''pack_id'' of
              Inl e \<Rightarrow> Inl e | Inr pack \<Rightarrow> Inr (Some (custom_node_requirement_key pack)))
         else if kind = ''environment-bundle'' then
           (case get_text env destination ''dependency_lock'' of
              Inl e \<Rightarrow> Inl e
            | Inr lock \<Rightarrow> (case environment_requirement_key lock of
                             Inl e \<Rightarrow> Inl e | Inr k \<Rightarrow> Inr (Some k)))
         else Inr None)"

section \<open>Compatibility and policy\<close>

record decision =
  dc_accepted :: bool
  dc_reason :: string
  dc_mismatches :: "string list"

definition refused :: "string \<Rightarrow> string list \<Rightarrow> decision" where
  "refused reason names = \<lparr>dc_accepted = False, dc_reason = reason, dc_mismatches = names\<rparr>"

definition accepted :: "string \<Rightarrow> decision" where
  "accepted reason = \<lparr>dc_accepted = True, dc_reason = reason, dc_mismatches = []\<rparr>"

definition portability_tiers :: "string list" where
  "portability_tiers =
     [''portable'', ''runtime-bound'', ''gpu-class-bound'', ''process-bound'', ''gpu-resident'']"

definition tier_fields :: "string \<Rightarrow> string list" where
  "tier_fields tier =
     (if tier = ''runtime-bound'' then runtime_fields
      else if tier = ''gpu-class-bound'' then gpu_fields else [])"

definition field_missing :: "json \<Rightarrow> json \<Rightarrow> string \<Rightarrow> bool" where
  "field_missing requirements runtime k \<longleftrightarrow> \<not> obj_has requirements k \<or> \<not> obj_has runtime k"

definition field_differs :: "json \<Rightarrow> json \<Rightarrow> string \<Rightarrow> bool" where
  "field_differs requirements runtime k \<longleftrightarrow>
     \<not> field_missing requirements runtime k \<and> \<not> py_eq (obj_get requirements k) (obj_get runtime k)"

definition artifact_compatibility :: "pyenv \<Rightarrow> json \<Rightarrow> json \<Rightarrow> decision" where
  "artifact_compatibility env artifact runtime =
     (let tier = or_text env (obj_get artifact ''portability'') [];
          requirements = obj_get artifact ''requirements'';
          missing = filter (field_missing requirements runtime) (tier_fields tier);
          mismatched = filter (field_differs requirements runtime) (tier_fields tier)
      in if tier \<notin> set portability_tiers then refused ''unknown_portability'' [''portability'']
         else if tier = ''process-bound'' \<or> tier = ''gpu-resident''
         then refused (tier @ ''_is_not_durable'') []
         else if \<not> is_obj requirements then refused ''missing_requirements'' [''requirements'']
         else if missing \<noteq> [] then refused ''unknown_compatibility'' missing
         else if mismatched \<noteq> [] then refused ''runtime_mismatch'' mismatched
         else accepted ''compatible'')"

definition artifact_policy :: "pyenv \<Rightarrow> json \<Rightarrow> string \<Rightarrow> bool \<Rightarrow> decision" where
  "artifact_policy env artifact tenant allow_private =
     (let policy = obj_get artifact ''policy'' in
      if \<not> is_obj policy then refused ''missing_policy'' [''policy'']
      else if obj_get policy ''cacheable'' \<noteq> JBool True then refused ''not_cacheable'' []
      else if or_text env (obj_get policy ''tenant'') [] \<noteq> tenant
      then refused ''tenant_mismatch'' [''tenant'']
      else if truthy (obj_get policy ''invalidated'') then refused ''invalidated'' []
      else if truthy (obj_get policy ''private'') \<and> \<not> allow_private
      then refused ''private_cache_refused'' []
      else if truthy (obj_get policy ''residency'') \<and> truthy (obj_get policy ''datacenter_id'') \<and>
              \<not> py_eq (obj_get policy ''residency'') (obj_get policy ''datacenter_id'')
      then refused ''residency_mismatch'' []
      else accepted ''eligible'')"

end
