(* ===== verification/Manifests.thy ===== *)
theory Manifests
  imports PreparedState
begin

text \<open>
  The coordinator's authority over prepared state: manifests and trust receipts signed with an
  HMAC key that never leaves it, and the shape that a document needs besides its signature.
\<close>

section \<open>Shape of a manifest\<close>

definition manifest_schema :: string where
  "manifest_schema = ''cloud-offload.prepared-state.v1''"

definition index_schema :: string where
  "index_schema = ''cloud-offload.prepared-state.index.v1''"

definition receipt_schema :: string where
  "receipt_schema = ''cloud-offload.restore-receipt.v1''"

definition trust_schema :: string where
  "trust_schema = ''cloud-offload.cache-trust-receipt.v1''"

definition int_or_minus_one :: "json \<Rightarrow> pyerr + int" where
  \<comment> \<open>\<open>int(v or -1)\<close>, which takes a zero for a missing value\<close>
  "int_or_minus_one v = (if truthy v then py_int v else Inr (- 1))"

type_synonym identity = "string \<times> string \<times> string \<times> string"

definition artifact_identity :: "pyenv \<Rightarrow> json \<Rightarrow> string \<Rightarrow> identity" where
  \<comment> \<open>the two texts of \<open>json.dumps\<close> up to the blanks between their items\<close>
  "artifact_identity env artifact digest =
     (digest, or_text env (obj_get artifact ''kind'') [],
      json_text True env (json_sort (or_obj (obj_get artifact ''source''))),
      json_text True env (json_sort (or_obj (obj_get artifact ''destination''))))"

definition is_bundle :: "json \<Rightarrow> bool" where
  "is_bundle artifact \<longleftrightarrow>
     obj_get artifact ''portability'' = JStr ''runtime-bound'' \<or>
     obj_get artifact ''materialization'' = JStr ''extract''"

definition artifact_key :: "json \<Rightarrow> string \<Rightarrow> pyerr + string" where
  "artifact_key artifact digest = (if is_bundle artifact then bundle_key digest else blob_key digest)"

definition known_portability :: "json \<Rightarrow> bool" where
  "known_portability v = (case v of JStr s \<Rightarrow> s \<in> set portability_tiers | _ \<Rightarrow> False)"

definition check_artifact :: "pyenv \<Rightarrow> json \<Rightarrow> identity list \<Rightarrow> pyerr + identity list" where
  \<comment> \<open>one turn of the loop over the artifacts: the identities seen after it\<close>
  "check_artifact env artifact seen =
     (if \<not> is_obj artifact then Inl (ManifestError ''Manifest artifact must be an object'')
      else
        (case digest_id (or_text env (obj_get artifact ''digest'') []) of Inl e \<Rightarrow> Inl e | Inr digest \<Rightarrow>
         (if artifact_identity env artifact digest \<in> set seen
          then Inl (ManifestError (''Manifest repeats artifact identity '' @ digest))
          else
        (case int_or_minus_one (obj_get artifact ''size'') of Inl e \<Rightarrow> Inl e | Inr n \<Rightarrow>
         (if n < 0 then Inl (ManifestError (''Artifact '' @ digest @ '' has invalid size''))
          else
        (case artifact_key artifact digest of Inl e \<Rightarrow> Inl e | Inr key \<Rightarrow>
         (if or_text env (obj_get artifact ''storage_key'') [] \<noteq> key
          then Inl (ManifestError (''Artifact '' @ digest @ '' has non-canonical storage key''))
          else if \<not> hashable (obj_get artifact ''portability'')
          then Inl (TypeError ''unhashable type'')
          else if \<not> known_portability (obj_get artifact ''portability'')
          then Inl (ManifestError (''Artifact '' @ digest @ '' has unknown portability''))
          else Inr (artifact_identity env artifact digest # seen))))))))"

definition validate_manifest_shape :: "pyenv \<Rightarrow> json \<Rightarrow> pyerr + unit" where
  "validate_manifest_shape env m =
     (if obj_get m ''schema'' \<noteq> JStr manifest_schema
      then Inl (ManifestError (''Unsupported manifest schema: '' @ py_str env (obj_get m ''schema'')))
      else if \<not> starts_with sha_prefix (or_text env (obj_get m ''profile_fingerprint'') [])
      then Inl (ManifestError ''Manifest profile_fingerprint is missing'')
      else if \<not> is_obj (obj_get m ''producer'')
      then Inl (ManifestError ''Manifest producer is missing'')
      else case obj_get m ''artifacts'' of
             JArr as \<Rightarrow> (case fold_tx (check_artifact env) as [] of
                           Inl e \<Rightarrow> Inl e | Inr seen \<Rightarrow> Inr ())
           | _ \<Rightarrow> Inl (ManifestError ''Manifest artifacts must be a list''))"

section \<open>The signer\<close>

record signer =
  sg_key :: string
  sg_key_id :: string

definition new_signer :: "string \<Rightarrow> string \<Rightarrow> pyerr + signer" where
  \<comment> \<open>the key as bytes\<close>
  "new_signer key key_id =
     (if length key < 32 then Inl (ValueError ''Manifest signing key must be at least 32 bytes'')
      else Inr \<lparr>sg_key = key, sg_key_id = key_id\<rparr>)"

definition algorithm :: string where
  "algorithm = ''hmac-sha256''"

definition without :: "string list \<Rightarrow> json \<Rightarrow> json" where
  "without ks j = (case j of JObj kvs \<Rightarrow> JObj (filter (\<lambda>kv. fst kv \<notin> set ks) kvs) | _ \<Rightarrow> j)"

definition manifest_payload :: "json \<Rightarrow> json" where
  "manifest_payload m = without [''signature'', ''manifest_id''] m"

definition with_fields :: "json \<Rightarrow> (string \<times> json) list \<Rightarrow> json" where
  "with_fields j fs = (case j of JObj kvs \<Rightarrow> JObj (kvs @ fs) | _ \<Rightarrow> j)"

definition signature_field :: "signer \<Rightarrow> string \<Rightarrow> json" where
  "signature_field s v =
     JObj [(''algorithm'', JStr algorithm), (''key_id'', JStr (sg_key_id s)), (''value'', JStr v)]"

definition sign :: "pyenv \<Rightarrow> signer \<Rightarrow> json \<Rightarrow> pyerr + json" where
  "sign env s m =
     (let payload = manifest_payload m in
      if obj_get payload ''schema'' \<noteq> JStr manifest_schema
      then Inl (ManifestError (''Unsupported manifest schema: '' @ py_str env (obj_get payload ''schema'')))
      else
        (case canonical_json env payload of Inl e \<Rightarrow> Inl e | Inr encoded \<Rightarrow>
        (case digest_id (sha256_hex env encoded) of Inl e \<Rightarrow> Inl e | Inr ident \<Rightarrow>
           Inr (with_fields payload
             [(''manifest_id'', JStr ident),
              (''signature'', signature_field s (hmac_hex env (sg_key s) encoded))]))))"

definition is_ascii :: "string \<Rightarrow> bool" where
  "is_ascii s = list_all (\<lambda>c. code c < 128) s"

definition compare_digest :: "string \<Rightarrow> string \<Rightarrow> pyerr + bool" where
  "compare_digest a b =
     (if is_ascii a \<and> is_ascii b then Inr (a = b)
      else Inl (TypeError ''comparing strings with non-ASCII characters is not supported''))"

definition require_digest :: "string \<Rightarrow> string \<Rightarrow> pyerr \<Rightarrow> pyerr + unit" where
  \<comment> \<open>\<open>if not hmac.compare_digest(a, b): raise e\<close>\<close>
  "require_digest a b err =
     (case compare_digest a b of
        Inl e \<Rightarrow> Inl e | Inr same \<Rightarrow> if same then Inr () else Inl err)"

definition trusted_signature :: "signer \<Rightarrow> json \<Rightarrow> string \<Rightarrow> string \<Rightarrow> pyerr + json" where
  \<comment> \<open>the checks before the payload; the labels name the document\<close>
  "trusted_signature s doc label what =
     (if \<not> is_obj doc then Inl (ManifestError (label @ '' must be an object''))
      else
        (let sig = obj_get doc ''signature'' in
         if \<not> is_obj sig then Inl (ManifestError (label @ '' has no signature''))
         else if obj_get sig ''algorithm'' \<noteq> JStr algorithm
         then Inl (ManifestError (label @ what @ '' is not trusted''))
         else if obj_get sig ''key_id'' \<noteq> JStr (sg_key_id s)
         then Inl (ManifestError (label @ '' signing key is not trusted''))
         else Inr sig))"

definition verify :: "pyenv \<Rightarrow> signer \<Rightarrow> json \<Rightarrow> pyerr + json" where
  "verify env s m =
     (case trusted_signature s m ''Manifest'' '' signature algorithm'' of Inl e \<Rightarrow> Inl e | Inr sig \<Rightarrow>
      (case canonical_json env (manifest_payload m) of Inl e \<Rightarrow> Inl e | Inr encoded \<Rightarrow>
      (case digest_id (sha256_hex env encoded) of Inl e \<Rightarrow> Inl e | Inr expected \<Rightarrow>
      (case require_digest (py_str env (obj_get m ''manifest_id'')) expected
              (ManifestError ''Manifest ID does not match its canonical payload'') of
         Inl e \<Rightarrow> Inl e | Inr _ \<Rightarrow>
      (case require_digest (or_text env (obj_get sig ''value'') []) (hmac_hex env (sg_key s) encoded)
              (ManifestError ''Manifest signature verification failed'') of
         Inl e \<Rightarrow> Inl e | Inr _ \<Rightarrow>
      (case validate_manifest_shape env m of Inl e \<Rightarrow> Inl e | Inr _ \<Rightarrow> Inr m))))))"

definition manifest_signature_digest :: "pyenv \<Rightarrow> json \<Rightarrow> pyerr + string" where
  "manifest_signature_digest env m =
     (let sig = obj_get m ''signature'' in
      if \<not> is_obj sig then Inl (ManifestError ''Manifest has no signature'')
      else case canonical_json env sig of
             Inl e \<Rightarrow> Inl e | Inr t \<Rightarrow> digest_id (sha256_hex env t))"

definition build_manifest ::
  "pyenv \<Rightarrow> string \<Rightarrow> signer \<Rightarrow> string \<Rightarrow> json \<Rightarrow> json list \<Rightarrow> string option \<Rightarrow> (string \<times> json) list \<Rightarrow> pyerr + json"
where
  \<comment> \<open>\<open>now\<close> is \<open>utc_now()\<close>; the claims are merged last, as \<open>**claims\<close> is\<close>
  "build_manifest env now s profile producer artifacts created claims =
     (case digest_id profile of
        Inl e \<Rightarrow> Inl e
      | Inr fp \<Rightarrow>
          sign env s
            (foldl (\<lambda>j (k, v). obj_set k v j)
               (JObj [(''schema'', JStr manifest_schema), (''profile_fingerprint'', JStr fp),
                      (''created_at'', JStr (if given created then or_default [] created else now)),
                      (''producer'', producer), (''artifacts'', JArr artifacts)]) claims))"

section \<open>Trust receipts\<close>

definition trust_payload :: "json \<Rightarrow> json" where
  "trust_payload r = without [''signature'', ''receipt_id''] r"

definition hex_value :: "char \<Rightarrow> nat" where
  "hex_value c = (if is_digit c then code c - 48 else code c - 87)"

fun from_hex :: "string \<Rightarrow> string" where
  "from_hex (a # b # cs) = char_of (16 * hex_value a + hex_value b) # from_hex cs"
| "from_hex cs = []"

definition trust_key :: "pyenv \<Rightarrow> signer \<Rightarrow> string" where
  \<comment> \<open>the digest itself, not its hexadecimal text\<close>
  "trust_key env s = from_hex (hmac_hex env (sg_key s) trust_schema)"

definition trust_text :: "pyenv \<Rightarrow> json \<Rightarrow> pyerr + string" where
  "trust_text env payload =
     canonical_json env (JObj [(''domain'', JStr trust_schema), (''payload'', payload)])"

definition utc_stamp :: "pyenv \<Rightarrow> json \<Rightarrow> string \<Rightarrow> pyerr + int" where
  \<comment> \<open>\<open>_parse_utc_timestamp\<close>: the instant in microseconds\<close>
  "utc_stamp env v name =
     (case parse_iso env (z_to_offset (py_str env v)) of
        None \<Rightarrow> Inl (ManifestError (''Cache trust receipt '' @ name @ '' is invalid''))
      | Some (t, has_offset) \<Rightarrow>
          if has_offset then Inr t
          else Inl (ManifestError (''Cache trust receipt '' @ name @ '' has no timezone'')))"

definition check_sample :: "pyenv \<Rightarrow> int \<Rightarrow> json \<Rightarrow> int \<Rightarrow> pyerr + int" where
  \<comment> \<open>one turn of the loop over the samples: the offset before and after it\<close>
  "check_sample env n_bytes sample previous =
     (if \<not> is_obj sample then Inl (ManifestError ''Cache trust receipt sample is not an object'')
      else
        (case py_int (or_zero (obj_get sample ''offset'')) of Inl e \<Rightarrow> Inl e | Inr offset \<Rightarrow>
        (case py_int (or_zero (obj_get sample ''size'')) of Inl e \<Rightarrow> Inl e | Inr width \<Rightarrow>
         (if offset < 0 \<or> width \<le> 0 \<or> n_bytes < offset + width
          then Inl (ManifestError ''Cache trust receipt sample is outside the object'')
          else if offset \<le> previous
          then Inl (ManifestError ''Cache trust receipt samples are not ordered'')
          else
        (case digest_id (or_text env (obj_get sample ''sha256'') []) of
           Inl e \<Rightarrow> Inl e | Inr d \<Rightarrow> Inr offset)))))"

definition check_samples :: "pyenv \<Rightarrow> int \<Rightarrow> json \<Rightarrow> pyerr + unit" where
  "check_samples env n_bytes samples =
     (case samples of
        JArr (x # xs) \<Rightarrow> (case fold_tx (check_sample env n_bytes) (x # xs) (- 1) of
                           Inl e \<Rightarrow> Inl e | Inr _ \<Rightarrow> Inr ())
      | _ \<Rightarrow> Inl (ManifestError ''Cache trust receipt has no byte samples''))"

definition check_generation :: "pyenv \<Rightarrow> json \<Rightarrow> string \<Rightarrow> int \<Rightarrow> pyerr + unit" where
  "check_generation env g storage_key n_bytes =
     (if \<not> is_obj g then Inl (ManifestError ''Cache trust receipt has no object generation'')
      else if or_text env (obj_get g ''storage_key'') [] \<noteq> storage_key
      then Inl (ManifestError ''Cache trust receipt object identity is inconsistent'')
      else
        (case int_or_minus_one (obj_get g ''size'') of Inl e \<Rightarrow> Inl e | Inr n \<Rightarrow>
         (if n \<noteq> n_bytes
          then Inl (ManifestError ''Cache trust receipt object size is inconsistent'')
          else
        (case int_or_minus_one (obj_get g ''modified_ns'') of Inl e \<Rightarrow> Inl e | Inr m \<Rightarrow>
         (if m < 0 then Inl (ManifestError ''Cache trust receipt object generation is invalid'')
          else Inr ())))))"

definition check_audit :: "pyenv \<Rightarrow> json \<Rightarrow> int \<Rightarrow> int \<Rightarrow> pyerr + unit" where
  "check_audit env scrub verified n_bytes =
     (if \<not> is_obj scrub then Inl (ManifestError ''Cache trust receipt has no scrub policy'')
      else
        (case utc_stamp env (obj_get scrub ''full_audit_due_at'') ''full_audit_due_at'' of
           Inl e \<Rightarrow> Inl e
         | Inr due \<Rightarrow>
             if due < verified
             then Inl (ManifestError ''Cache trust receipt full audit predates verification'')
             else check_samples env n_bytes (obj_get scrub ''samples'')))"

definition check_times :: "pyenv \<Rightarrow> json \<Rightarrow> int \<Rightarrow> pyerr + unit" where
  "check_times env r n_bytes =
     (case utc_stamp env (obj_get r ''verified_at'') ''verified_at'' of Inl e \<Rightarrow> Inl e | Inr verified \<Rightarrow>
      (case utc_stamp env (obj_get r ''expires_at'') ''expires_at'' of Inl e \<Rightarrow> Inl e | Inr expires \<Rightarrow>
       (if expires \<le> verified
        then Inl (ManifestError ''Cache trust receipt expiry is not after verification'')
        else check_audit env (obj_get r ''scrub'') verified n_bytes)))"

definition field_digest :: "pyenv \<Rightarrow> json \<Rightarrow> string \<Rightarrow> pyerr + string" where
  "field_digest env r k = digest_id (or_text env (obj_get r k) [])"

definition validate_trust_receipt_shape :: "pyenv \<Rightarrow> json \<Rightarrow> pyerr + unit" where
  "validate_trust_receipt_shape env r =
     (if obj_get r ''schema'' \<noteq> JStr trust_schema
      then Inl (ManifestError (''Unsupported trust receipt schema: '' @ py_str env (obj_get r ''schema'')))
      else
     (case field_digest env r ''artifact_digest'' of Inl e \<Rightarrow> Inl e | Inr digest \<Rightarrow>
     (case field_digest env r ''manifest_id'' of Inl e \<Rightarrow> Inl e | Inr _ \<Rightarrow>
     (case field_digest env r ''manifest_signature_digest'' of Inl e \<Rightarrow> Inl e | Inr _ \<Rightarrow>
     (case field_digest env r ''runtime_compatibility'' of Inl e \<Rightarrow> Inl e | Inr _ \<Rightarrow>
     (case int_or_minus_one (obj_get r ''artifact_size'') of Inl e \<Rightarrow> Inl e | Inr n_bytes \<Rightarrow>
      (if n_bytes < 0 then Inl (ManifestError (''Cache trust receipt '' @ digest @ '' has invalid size''))
       else
     (case blob_key digest of Inl e \<Rightarrow> Inl e | Inr blob \<Rightarrow>
     (case bundle_key digest of Inl e \<Rightarrow> Inl e | Inr bundle \<Rightarrow>
      (let key = or_text env (obj_get r ''storage_key'') [] in
       if key \<noteq> blob \<and> key \<noteq> bundle
       then Inl (ManifestError (''Cache trust receipt '' @ digest @ '' has non-canonical storage key''))
       else if or_text env (obj_get r ''volume_id'') [] = []
       then Inl (ManifestError ''Cache trust receipt has no volume identity'')
       else if or_text env (obj_get r ''provider_volume_id'') [] = []
       then Inl (ManifestError ''Cache trust receipt has no provider volume identity'')
       else
     (case check_generation env (obj_get r ''object_generation'') key n_bytes of
        Inl e \<Rightarrow> Inl e | Inr _ \<Rightarrow> check_times env r n_bytes)))))))))))"

definition sign_trust_receipt :: "pyenv \<Rightarrow> signer \<Rightarrow> json \<Rightarrow> pyerr + json" where
  "sign_trust_receipt env s proposal =
     (let payload = trust_payload proposal in
      if obj_get payload ''schema'' \<noteq> JStr trust_schema
      then Inl (ManifestError (''Unsupported trust receipt schema: '' @ py_str env (obj_get payload ''schema'')))
      else
     (case trust_text env payload of Inl e \<Rightarrow> Inl e | Inr encoded \<Rightarrow>
     (case digest_id (sha256_hex env encoded) of Inl e \<Rightarrow> Inl e | Inr ident \<Rightarrow>
      (let signed = with_fields payload
             [(''receipt_id'', JStr ident),
              (''signature'', signature_field s (hmac_hex env (trust_key env s) encoded))]
       in case validate_trust_receipt_shape env signed of Inl e \<Rightarrow> Inl e | Inr _ \<Rightarrow> Inr signed))))"

definition verify_trust_receipt :: "pyenv \<Rightarrow> signer \<Rightarrow> json \<Rightarrow> pyerr + json" where
  "verify_trust_receipt env s r =
     (case trusted_signature s r ''Cache trust receipt'' '' signature'' of Inl e \<Rightarrow> Inl e | Inr sig \<Rightarrow>
     (case trust_text env (trust_payload r) of Inl e \<Rightarrow> Inl e | Inr encoded \<Rightarrow>
     (case digest_id (sha256_hex env encoded) of Inl e \<Rightarrow> Inl e | Inr expected \<Rightarrow>
     (case require_digest (py_str env (obj_get r ''receipt_id'')) expected
             (ManifestError ''Cache trust receipt ID does not match its payload'') of
        Inl e \<Rightarrow> Inl e | Inr _ \<Rightarrow>
     (case require_digest (or_text env (obj_get sig ''value'') []) (hmac_hex env (trust_key env s) encoded)
             (ManifestError ''Cache trust receipt signature verification failed'') of
        Inl e \<Rightarrow> Inl e | Inr _ \<Rightarrow>
     (case validate_trust_receipt_shape env r of Inl e \<Rightarrow> Inl e | Inr _ \<Rightarrow> Inr r))))))"

end
