(* ===== verification/S3Store.thy ===== *)
theory S3Store
  imports Effects Manifests
begin

text \<open>
  The class \<open>RunPodS3PreparedStore\<close> of \<open>prepared_state.py\<close>, its transfers: keys, retries, ranged and
  verified downloads from a volume behind an S3 gateway. The client library is the record \<open>s3_client\<close> of what
  its calls do to a world of their own; a file or an object is the text of its bytes. Calls that
  the code hands to a pool of threads are made one after another in the order of submission.
\<close>

section \<open>Bytes\<close>

definition utf8_char :: "char \<Rightarrow> string" where
  "utf8_char c =
     (if code c < 128 then [c] else [char_of (192 + code c div 64), char_of (128 + code c mod 64)])"

definition to_utf8 :: "string \<Rightarrow> string" where
  "to_utf8 s = concat (map utf8_char s)"

fun from_utf8 :: "string \<Rightarrow> string option" where
  \<comment> \<open>the code points below 256\<close>
  "from_utf8 [] = Some []"
| "from_utf8 (c # cs) =
     (if code c < 128 then map_option ((#) c) (from_utf8 cs)
      else case cs of
             [] \<Rightarrow> None
           | d # ds \<Rightarrow>
               if (code c = 194 \<or> code c = 195) \<and> 128 \<le> code d \<and> code d < 192
               then map_option ((#) (char_of ((code c - 192) * 64 + (code d - 128)))) (from_utf8 ds)
               else None)"

definition decoded :: "string \<Rightarrow> pyerr + string" where
  "decoded b =
     (case from_utf8 b of Some s \<Rightarrow> Inr s | None \<Rightarrow> Inl (ValueError ''codec cannot decode the bytes''))"

definition loaded :: "pyenv \<Rightarrow> string \<Rightarrow> pyerr + json" where
  "loaded env b =
     (case json_loads env b of Some v \<Rightarrow> Inr v | None \<Rightarrow> Inl (ValueError ''not a JSON document''))"

definition canonical_bytes :: "pyenv \<Rightarrow> json \<Rightarrow> pyerr + string" where
  "canonical_bytes env v = (case canonical_json env v of Inl e \<Rightarrow> Inl e | Inr t \<Rightarrow> Inr (to_utf8 t))"

section \<open>The client\<close>

record range_reply =
  rr_content_range :: string
  rr_chunks :: "string list"
  rr_error :: "pyerr option"

record 'w s3_client =
  cl_head_bucket :: "string \<Rightarrow> ('w, unit) act"
  cl_put :: "string \<Rightarrow> string \<Rightarrow> string \<Rightarrow> ('w, unit) act"
  cl_head :: "string \<Rightarrow> string \<Rightarrow> ('w, json) act"
  cl_get :: "string \<Rightarrow> string \<Rightarrow> ('w, string) act"
  cl_delete :: "string \<Rightarrow> string \<Rightarrow> ('w, unit) act"
  cl_range :: "string \<Rightarrow> string \<Rightarrow> int \<Rightarrow> int \<Rightarrow> ('w, range_reply) act"
  cl_upload_file :: "string \<Rightarrow> string \<Rightarrow> string \<Rightarrow> ('w, unit) act"
  cl_create_multipart :: "string \<Rightarrow> string \<Rightarrow> ('w, json) act"
  cl_upload_part :: "string \<Rightarrow> string \<Rightarrow> string \<Rightarrow> int \<Rightarrow> string \<Rightarrow> ('w, json) act"
  cl_complete_multipart :: "string \<Rightarrow> string \<Rightarrow> string \<Rightarrow> (int \<times> string) list \<Rightarrow> ('w, unit) act"
  cl_list_uploads :: "string \<Rightarrow> string \<Rightarrow> string option \<Rightarrow> string option \<Rightarrow> ('w, json) act"
  cl_list_parts :: "string \<Rightarrow> string \<Rightarrow> string \<Rightarrow> int \<Rightarrow> ('w, json) act"
  cl_sleep :: "int \<Rightarrow> ('w, unit) act"

text \<open>
  The calls name the bucket and the key first. \<open>cl_get\<close> reads the whole body. \<open>cl_range b k i j\<close>
  asks for the bytes from \<open>i\<close> to \<open>j\<close>: the header \<open>Content-Range\<close> (empty when there is none), the
  chunks that can be read from the body and the exception that ends the reading, if any.
  \<open>cl_upload_file\<close> gets the content of the file. Responses that are dicts are JSON values, a
  date in them its text.
\<close>

record s3_store =
  sv_volume :: string
  sv_endpoint :: string
  sv_prefix :: string

fun path_parts :: "string \<Rightarrow> string list" where
  \<comment> \<open>\<open>s.split("/")\<close>\<close>
  "path_parts [] = [[]]"
| "path_parts (c # cs) =
     (case path_parts cs of
        [] \<Rightarrow> [[c]]
      | p # ps \<Rightarrow> if c = CHR ''/'' then [] # p # ps else (c # p) # ps)"

definition strip_slashes :: "string \<Rightarrow> string" where
  "strip_slashes s =
     rev (dropWhile (\<lambda>c. c = CHR ''/'') (rev (dropWhile (\<lambda>c. c = CHR ''/'') s)))"

definition new_s3_store :: "string \<Rightarrow> string \<Rightarrow> string \<Rightarrow> pyerr + s3_store" where
  "new_s3_store volume endpoint prefix =
     (let p = strip_slashes prefix in
      if list_ex (\<lambda>part. part \<in> {''.'', ''..''}) (path_parts p)
      then Inl (ValueError ''RunPod S3 prefix cannot contain relative path segments'')
      else Inr \<lparr>sv_volume = volume, sv_endpoint = endpoint, sv_prefix = p\<rparr>)"

definition s3_key :: "s3_store \<Rightarrow> string \<Rightarrow> pyerr + string" where
  "s3_key st key =
     (let logical = dropWhile (\<lambda>c. c = CHR ''/'') key in
      if logical = [] then Inl (ValueError ''RunPod S3 object key cannot be empty'')
      else Inr (if sv_prefix st \<noteq> [] then sv_prefix st @ ''/'' @ logical else logical))"

definition s3_put :: "'w s3_client \<Rightarrow> s3_store \<Rightarrow> string \<Rightarrow> string \<Rightarrow> ('w, unit) act" where
  "s3_put c st key body =
     and_then (raising (s3_key st key)) (\<lambda>k. cl_put c (sv_volume st) k body)"

definition s3_get :: "'w s3_client \<Rightarrow> s3_store \<Rightarrow> string \<Rightarrow> ('w, string) act" where
  "s3_get c st key = and_then (raising (s3_key st key)) (cl_get c (sv_volume st))"

definition s3_delete :: "'w s3_client \<Rightarrow> s3_store \<Rightarrow> string \<Rightarrow> ('w, unit) act" where
  "s3_delete c st key = and_then (raising (s3_key st key)) (cl_delete c (sv_volume st))"

definition head_length :: "json \<Rightarrow> pyerr + int" where
  "head_length head = int_or_minus_one (obj_get head ''ContentLength'')"

definition s3_exists :: "'w s3_client \<Rightarrow> s3_store \<Rightarrow> string \<Rightarrow> int option \<Rightarrow> ('w, bool) act" where
  "s3_exists c st key expected =
     and_then (attempt (and_then (raising (s3_key st key)) (cl_head c (sv_volume st)))) (\<lambda>r.
       case r of
         Inl e \<Rightarrow> ret False
       | Inr head \<Rightarrow>
           (case expected of
              None \<Rightarrow> ret True
            | Some n \<Rightarrow> and_then (raising (head_length head)) (\<lambda>m. ret (m = n))))"

definition s3_probe :: "'w s3_client \<Rightarrow> s3_store \<Rightarrow> string \<Rightarrow> string \<Rightarrow> ('w, bool) act" where
  \<comment> \<open>\<open>token\<close> and \<open>payload\<close> are random; the key is deleted whatever happens\<close>
  "s3_probe c st token payload =
     and_then (cl_head_bucket c (sv_volume st)) (\<lambda>u.
     and_then (raising (s3_key st (''staging/probes/'' @ token))) (\<lambda>key.
     and_then (attempt
       (and_then (cl_put c (sv_volume st) key payload) (\<lambda>u.
        and_then (cl_get c (sv_volume st) key) (\<lambda>body.
         if body \<noteq> payload
         then raise_error (CacheCorruption ''RunPod S3 probe returned different bytes'')
         else
        and_then (cl_head c (sv_volume st) key) (\<lambda>head.
        and_then (raising (head_length head)) (\<lambda>n.
         if n \<noteq> int (length payload)
         then raise_error (CacheCorruption ''RunPod S3 probe returned the wrong size'')
         else ret True)))))) (\<lambda>r.
     and_then (cl_delete c (sv_volume st) key) (\<lambda>u. raising r))))"

section \<open>Retries\<close>

definition gateway_attempts :: nat where
  "gateway_attempts = 10"

definition max_backoff :: int where
  "max_backoff = 30"

definition backoff :: "nat \<Rightarrow> int" where
  "backoff attempt_no = min (2 ^ attempt_no) max_backoff"

definition server_error :: "int \<Rightarrow> bool" where
  "server_error n \<longleftrightarrow> 500 \<le> n \<and> n \<le> 599"

definition gateway_retryable :: "pyerr \<Rightarrow> bool" where
  "gateway_retryable e =
     (case e of
        ClientError f \<Rightarrow>
          (case cf_status f of Some n \<Rightarrow> server_error n | None \<Rightarrow> False) \<or>
          server_error (case parse_int (cf_code f) of Some n \<Rightarrow> n | None \<Rightarrow> 0) \<or>
          cf_code f = ''SignatureDoesNotMatch'' \<and> cf_operation f = ''GetObject'' \<or>
          cf_class f \<in> {''ReadTimeoutError'', ''ConnectTimeoutError'', ''ResponseStreamingError'',
                         ''SSLError'', ''ConnectionClosedError'', ''EndpointConnectionError''}
      | _ \<Rightarrow> False)"

fun retry_from :: "'w s3_client \<Rightarrow> ('w, 'a) act \<Rightarrow> nat \<Rightarrow> nat \<Rightarrow> ('w, 'a) act" where
  \<comment> \<open>the attempts left and the number of the next one\<close>
  "retry_from c operation 0 attempt_no =
     raise_error (AssertionError ''RunPod S3 retry loop ended without a result'')"
| "retry_from c operation (Suc left) attempt_no =
     and_then (attempt operation) (\<lambda>r.
       case r of
         Inr x \<Rightarrow> ret x
       | Inl e \<Rightarrow>
           if \<not> gateway_retryable e \<or> left = 0 then raise_error e
           else and_then (cl_sleep c (backoff attempt_no)) (\<lambda>u. retry_from c operation left (attempt_no + 1)))"

definition gateway_retry :: "'w s3_client \<Rightarrow> ('w, 'a) act \<Rightarrow> ('w, 'a) act" where
  "gateway_retry c operation = retry_from c operation gateway_attempts 1"

definition resume_listing_unavailable :: "pyerr \<Rightarrow> bool" where
  "resume_listing_unavailable e =
     ((case e of ClientError f \<Rightarrow> cf_operation f \<in> {''ListMultipartUploads'', ''ListParts''} | _ \<Rightarrow> False) \<and>
      gateway_retryable e)"

section \<open>Ranges\<close>

definition range_bytes :: int where
  "range_bytes = 64 * 1024 * 1024"

fun split_once :: "char \<Rightarrow> string \<Rightarrow> (string \<times> string) option" where
  \<comment> \<open>\<open>s.split(c, 1)\<close> when it has two parts\<close>
  "split_once c [] = None"
| "split_once c (d # ds) =
     (if d = c then Some ([], ds) else map_option (\<lambda>(a, b). (d # a, b)) (split_once c ds))"

definition content_range :: "string \<Rightarrow> (string \<times> int \<times> int \<times> int) option" where
  "content_range t =
     (case split_once (CHR '' '') t of None \<Rightarrow> None | Some (u, bounds) \<Rightarrow>
     (case split_once (CHR ''/'') bounds of None \<Rightarrow> None | Some (limits, amount) \<Rightarrow>
     (case split_once (CHR ''-'') limits of None \<Rightarrow> None | Some (a, b) \<Rightarrow>
     (case (parse_int a, parse_int b, parse_int amount) of
        (Some start, Some stop, Some n) \<Rightarrow> Some (u, start, stop, n)
      | _ \<Rightarrow> None))))"

definition parse_s3_range :: "string \<Rightarrow> int \<Rightarrow> int \<Rightarrow> int option \<Rightarrow> pyerr + int \<times> int \<times> int" where
  "parse_s3_range t requested_start requested_end expected_total =
     (case content_range t of
        None \<Rightarrow> Inl (CacheCorruption ''RunPod S3 range response is invalid'')
      | Some (u, start, stop, n) \<Rightarrow>
          if py_lower u \<noteq> ''bytes'' \<or> start \<noteq> requested_start \<or> stop \<noteq> min requested_end (n - 1) \<or>
             stop < start \<or> n < stop + 1 \<or> (expected_total \<noteq> None \<and> expected_total \<noteq> Some n)
          then Inl (CacheCorruption ''RunPod S3 range response does not match the request'')
          else Inr (start, stop, n))"

definition validate_s3_range ::
  "string \<Rightarrow> int \<Rightarrow> int \<Rightarrow> int \<Rightarrow> int option \<Rightarrow> pyerr + int \<times> int \<times> int"
where
  "validate_s3_range t requested_start requested_end received expected_total =
     (case parse_s3_range t requested_start requested_end expected_total of
        Inl e \<Rightarrow> Inl e
      | Inr (start, stop, n) \<Rightarrow>
          if stop - start + 1 \<noteq> received
          then Inl (CacheCorruption ''RunPod S3 range response does not match the request'')
          else Inr (start, stop, n))"

fun read_body :: "string list \<Rightarrow> pyerr option \<Rightarrow> pyerr + string" where
  \<comment> \<open>reads until a chunk is empty or the reading raises\<close>
  "read_body [] err = (case err of None \<Rightarrow> Inr [] | Some e \<Rightarrow> Inl e)"
| "read_body (ch # chs) err =
     (if ch = [] then Inr []
      else case read_body chs err of Inl e \<Rightarrow> Inl e | Inr s \<Rightarrow> Inr (ch @ s))"

fun take_chunks :: "int \<Rightarrow> string list \<Rightarrow> pyerr option \<Rightarrow> string \<Rightarrow> int \<Rightarrow> (string \<times> int) \<times> pyerr option" where
  \<comment> \<open>the payload and the position after the chunks that were read, and what ended the reading\<close>
  "take_chunks stop [] err payload next = ((payload, next), err)"
| "take_chunks stop (ch # chs) err payload next =
     (if ch = [] then ((payload, next), None)
      else if stop + 1 < next + int (length ch)
      then ((payload @ ch, next + int (length ch)),
            Some (CacheCorruption ''RunPod S3 range response exceeded the request''))
      else take_chunks stop chs err (payload @ ch) (next + int (length ch)))"

definition range_request ::
  "'w s3_client \<Rightarrow> s3_store \<Rightarrow> string \<Rightarrow> int \<Rightarrow> int \<Rightarrow> int \<Rightarrow> ('w, range_reply) act"
where
  "range_request c st key start stop n =
     and_then (raising (s3_key st key)) (\<lambda>k.
     and_then (cl_range c (sv_volume st) k start stop) (\<lambda>reply.
       let t = py_strip (rr_content_range reply) in
       if t = [] then raise_error (CacheCorruption ''RunPod S3 range response has no content range'')
       else and_then (raising (parse_s3_range t start stop (Some n))) (\<lambda>p. ret reply)))"

fun range_attempts ::
  "'w s3_client \<Rightarrow> s3_store \<Rightarrow> string \<Rightarrow> int \<Rightarrow> int \<Rightarrow> nat \<Rightarrow> nat \<Rightarrow> string \<Rightarrow> int \<Rightarrow> ('w, string) act"
where
  "range_attempts c st key stop n 0 attempt_no payload next =
     raise_error (AssertionError ''RunPod S3 range retry loop ended without a result'')"
| "range_attempts c st key stop n (Suc left) attempt_no payload next =
     and_then (attempt (range_request c st key next stop n)) (\<lambda>r.
       case (case r of Inl e \<Rightarrow> ((payload, next), Some e)
                     | Inr reply \<Rightarrow> take_chunks stop (rr_chunks reply) (rr_error reply) payload next) of
         ((payload', next'), err) \<Rightarrow>
           if next' = stop + 1 then ret payload'
           else if (case err of None \<Rightarrow> False | Some e \<Rightarrow> \<not> gateway_retryable e \<or> left = 0)
           then raise_error (case err of None \<Rightarrow> AssertionError [] | Some e \<Rightarrow> e)
           else if left = 0
           then raise_error (CacheCorruption ''RunPod S3 range response made no progress'')
           else and_then (cl_sleep c (backoff attempt_no)) (\<lambda>u.
                  range_attempts c st key stop n left (attempt_no + 1) payload' next'))"

definition download_s3_range ::
  "'w s3_client \<Rightarrow> s3_store \<Rightarrow> string \<Rightarrow> int \<Rightarrow> int \<Rightarrow> int \<Rightarrow> ('w, int \<times> string) act"
where
  "download_s3_range c st key start stop n =
     and_then (range_attempts c st key stop n gateway_attempts 1 [] start) (\<lambda>payload. ret (start, payload))"

section \<open>Verified downloads\<close>

definition write_at :: "int \<Rightarrow> string \<Rightarrow> string \<Rightarrow> string" where
  \<comment> \<open>\<open>handle.seek(i); handle.write(data)\<close>\<close>
  "write_at i data file =
     (if data = [] then file
      else take (nat i) (file @ replicate (nat i - length file) (CHR 0x00)) @ data @
           drop (nat i + length data) file)"

fun range_starts :: "nat \<Rightarrow> int \<Rightarrow> int \<Rightarrow> int list" where
  \<comment> \<open>\<open>range(start, total, 64 MiB)\<close>, at most the first number of them\<close>
  "range_starts 0 start n = []"
| "range_starts (Suc left) start n =
     (if start < n then start # range_starts left (start + range_bytes) n else [])"

definition remaining_ranges :: "int \<Rightarrow> int \<Rightarrow> (int \<times> int) list" where
  \<comment> \<open>no more ranges than bytes\<close>
  "remaining_ranges start n =
     map (\<lambda>i. (i, min (i + range_bytes - 1) (n - 1))) (range_starts (nat (n - start)) start n)"

fun fetch_ranges ::
  "'w s3_client \<Rightarrow> s3_store \<Rightarrow> string \<Rightarrow> int \<Rightarrow> (int \<times> int) list \<Rightarrow> string \<Rightarrow> ('w, string) act"
where
  "fetch_ranges c st key n [] file = ret file"
| "fetch_ranges c st key n ((start, stop) # rs) file =
     and_then (download_s3_range c st key start stop n) (\<lambda>(i, payload).
       fetch_ranges c st key n rs (write_at i payload file))"

definition first_range :: "'w s3_client \<Rightarrow> s3_store \<Rightarrow> string \<Rightarrow> ('w, range_reply \<times> string option) act" where
  "first_range c st key =
     and_then (raising (s3_key st key)) (\<lambda>k.
     and_then (cl_range c (sv_volume st) k 0 (range_bytes - 1)) (\<lambda>reply.
       if py_strip (rr_content_range reply) = [] then ret (reply, None)
       else and_then (raising (read_body (rr_chunks reply) (rr_error reply))) (\<lambda>payload.
              ret (reply, Some payload))))"

definition download_verified :: "pyenv \<Rightarrow> 'w s3_client \<Rightarrow> s3_store \<Rightarrow> string \<Rightarrow> string \<Rightarrow> ('w, string) act" where
  \<comment> \<open>the content of the destination; an exception removes it\<close>
  "download_verified env c st key digest =
     and_then (gateway_retry c (first_range c st key)) (\<lambda>(reply, first).
     and_then
       (case first of
          None \<Rightarrow> raising (read_body (rr_chunks reply) (rr_error reply))
        | Some payload \<Rightarrow>
            and_then (raising (validate_s3_range (py_strip (rr_content_range reply)) 0 (range_bytes - 1)
                                 (int (length payload)) None)) (\<lambda>(start, stop, n).
              fetch_ranges c st key n (remaining_ranges (stop + 1) n)
                (write_at start payload (replicate (nat n) (CHR 0x00))))) (\<lambda>file.
     and_then (raising (normalize_digest digest)) (\<lambda>h.
       if sha256_file env file \<noteq> h
       then raise_error (CacheCorruption (''RunPod S3 object '' @ key @ '' failed verification''))
       else ret file)))"

definition download_verify ::
  "pyenv \<Rightarrow> 'w s3_client \<Rightarrow> s3_store \<Rightarrow> string \<Rightarrow> string \<Rightarrow> int \<Rightarrow> ('w, unit) act"
where
  "download_verify env c st key digest expected =
     and_then (download_verified env c st key digest) (\<lambda>file.
       if int (length file) \<noteq> expected
       then raise_error (CacheCorruption (''RunPod S3 object '' @ key @ '' failed digest verification''))
       else ret ())"

end
