(* ===== verification/S3Index.thy ===== *)
theory S3Index
  imports S3Store
begin

text \<open>
  Manifests on an S3 volume: the inventory behind the pointer \<open>indexes/latest\<close>, publication and
  expiry. What runs before the publication lock is taken (\<open>verify_objects\<close>) and what runs under it
  (\<open>publish_locked\<close>, \<open>remove_locked\<close>) are separate actions.
\<close>

section \<open>The inventory\<close>

definition latest_key :: string where
  "latest_key = ''indexes/latest''"

definition index_key :: "string \<Rightarrow> string" where
  "index_key generation = ''indexes/'' @ generation @ ''.json''"

definition empty_index :: json where
  "empty_index =
     JObj [(''schema'', JStr index_schema), (''generation'', JNull), (''manifests'', JArr [])]"

definition missing_object :: "pyerr \<Rightarrow> bool" where
  "missing_object e =
     (case e of
        ClientError f \<Rightarrow>
          cf_code f \<in> {''NoSuchKey'', ''404'', ''NotFound''} \<or>
          cf_code f = ''InvalidArgument'' \<and>
            has_part ''object not found'' (py_lower (if cf_message f = [] then cf_text f else cf_message f))
      | KeyError k \<Rightarrow> True
      | _ \<Rightarrow> False)"

definition read_index :: "pyenv \<Rightarrow> 'w s3_client \<Rightarrow> s3_store \<Rightarrow> ('w, json) act" where
  "read_index env c st =
     and_then (s3_get c st latest_key) (\<lambda>pointer.
     and_then (raising (decoded pointer)) (\<lambda>text.
     and_then (s3_get c st (index_key (py_strip text))) (\<lambda>body.
     and_then (raising (loaded env body)) (\<lambda>index.
     and_then (raising (py_get index ''schema'')) (\<lambda>schema.
       if schema \<noteq> JStr index_schema
       then raise_error (ManifestError ''RunPod S3 inventory schema is invalid'')
       else ret index)))))"

definition load_index :: "pyenv \<Rightarrow> 'w s3_client \<Rightarrow> s3_store \<Rightarrow> ('w, json) act" where
  "load_index env c st =
     and_then (attempt (read_index env c st)) (\<lambda>r.
       case r of
         Inr index \<Rightarrow> ret index
       | Inl e \<Rightarrow> if missing_object e then ret empty_index else raise_error e)"

definition latest_entries :: "pyenv \<Rightarrow> 'w s3_client \<Rightarrow> s3_store \<Rightarrow> ('w, json list) act" where
  "latest_entries env c st =
     and_then (load_index env c st) (\<lambda>index.
     and_then (raising (py_get index ''manifests'')) (\<lambda>ms. raising (iterate_or_empty ms)))"

definition read_json :: "pyenv \<Rightarrow> 'w s3_client \<Rightarrow> s3_store \<Rightarrow> string \<Rightarrow> ('w, json) act" where
  "read_json env c st key =
     and_then (s3_get c st key) (\<lambda>body. raising (loaded env body))"

definition generation_name :: "int \<Rightarrow> string \<Rightarrow> string" where
  \<comment> \<open>\<open>f"{time.time_ns()}-{uuid.uuid4().hex}"\<close>\<close>
  "generation_name ns token = int_text ns @ ''-'' @ token"

definition manifest_name :: "string \<Rightarrow> string \<Rightarrow> string" where
  "manifest_name profile generation = ''manifests/'' @ profile @ ''/'' @ generation @ ''.json''"

definition other_entry :: "json \<Rightarrow> json \<Rightarrow> pyerr + json list" where
  \<comment> \<open>the entry, unless it is the one of the manifest\<close>
  "other_entry ident e =
     (case py_get e ''manifest_id'' of
        Inl x \<Rightarrow> Inl x | Inr i \<Rightarrow> Inr (if py_eq i ident then [] else [e]))"

definition artifact_entry :: "json \<Rightarrow> pyerr + json" where
  "artifact_entry a =
     (case each (\<lambda>k. case py_item a k of Inl e \<Rightarrow> Inl e | Inr v \<Rightarrow> Inr (k, v))
             [''digest'', ''kind'', ''size'', ''portability'', ''requirements'', ''policy''] of
        Inl e \<Rightarrow> Inl e | Inr kvs \<Rightarrow> Inr (JObj kvs))"

definition published_entry :: "json \<Rightarrow> string \<Rightarrow> string \<Rightarrow> pyerr + json" where
  "published_entry m key generation =
     (case py_item m ''manifest_id'' of Inl e \<Rightarrow> Inl e | Inr ident \<Rightarrow>
     (case py_item m ''profile_fingerprint'' of Inl e \<Rightarrow> Inl e | Inr profile \<Rightarrow>
     (case py_item m ''created_at'' of Inl e \<Rightarrow> Inl e | Inr created \<Rightarrow>
     (case py_item m ''artifacts'' of Inl e \<Rightarrow> Inl e | Inr v \<Rightarrow>
     (case iterate v of Inl e \<Rightarrow> Inl e | Inr as \<Rightarrow>
     (case each artifact_entry as of Inl e \<Rightarrow> Inl e | Inr es \<Rightarrow>
        Inr (JObj [(''manifest_id'', ident), (''storage_key'', JStr key), (''profile_fingerprint'', profile),
                   (''created_at'', created), (''generation'', JStr generation), (''artifacts'', JArr es)])))))))"

definition entry_text :: "json \<Rightarrow> pyerr + string \<times> json" where
  \<comment> \<open>a key that is no text cannot be compared with one\<close>
  "entry_text e =
     (case py_item e ''manifest_id'' of
        Inl x \<Rightarrow> Inl x
      | Inr (JStr s) \<Rightarrow> Inr (s, e)
      | Inr v \<Rightarrow> Inl (TypeError ''not supported between instances''))"

definition sorted_entries :: "json list \<Rightarrow> pyerr + json list" where
  "sorted_entries es =
     (case each entry_text es of Inl e \<Rightarrow> Inl e | Inr kes \<Rightarrow> Inr (map snd (sort_key fst kes)))"

definition index_document :: "string \<Rightarrow> string \<Rightarrow> json list \<Rightarrow> json" where
  "index_document now generation entries =
     JObj [(''schema'', JStr index_schema), (''generation'', JStr generation), (''created_at'', JStr now),
           (''manifests'', JArr entries)]"

definition write_index ::
  "pyenv \<Rightarrow> 'w s3_client \<Rightarrow> s3_store \<Rightarrow> string \<Rightarrow> string \<Rightarrow> json list \<Rightarrow> string \<Rightarrow> ('w, unit) act"
where
  \<comment> \<open>the index under its own name, then the pointer to it\<close>
  "write_index env c st now generation entries problem =
     and_then (raising (canonical_bytes env (index_document now generation entries))) (\<lambda>payload.
     and_then (s3_put c st (index_key generation) payload) (\<lambda>u.
     and_then (s3_exists c st (index_key generation) (Some (int (length payload)))) (\<lambda>there.
       if \<not> there then raise_error (CacheCorruption problem)
       else s3_put c st latest_key (to_utf8 generation))))"

definition verify_artifact :: "pyenv \<Rightarrow> 'w s3_client \<Rightarrow> s3_store \<Rightarrow> json \<Rightarrow> ('w, unit) act" where
  "verify_artifact env c st a =
     and_then (raising (py_item a ''storage_key'')) (\<lambda>key.
     and_then (raising (py_item a ''digest'')) (\<lambda>d.
     and_then (raising (normalize_digest (py_str env d))) (\<lambda>h.
     and_then (raising (py_item a ''size'')) (\<lambda>v.
     and_then (raising (py_int v)) (\<lambda>n. download_verify env c st (py_str env key) h n)))))"

definition verify_objects :: "pyenv \<Rightarrow> 'w s3_client \<Rightarrow> s3_store \<Rightarrow> signer \<Rightarrow> json \<Rightarrow> ('w, unit) act" where
  \<comment> \<open>before the lock is taken\<close>
  "verify_objects env c st s m =
     and_then (raising (verify env s m)) (\<lambda>v.
     and_then (raising (py_item m ''artifacts'')) (\<lambda>v.
     and_then (raising (iterate v)) (\<lambda>as. for_each (verify_artifact env c st) as)))"

definition publish_locked ::
  "pyenv \<Rightarrow> 'w s3_client \<Rightarrow> s3_store \<Rightarrow> int \<Rightarrow> string \<Rightarrow> string \<Rightarrow> json \<Rightarrow> ('w, string) act"
where
  \<comment> \<open>under the lock\<close>
  "publish_locked env c st ns token now m =
     and_then (raising (py_item m ''profile_fingerprint'')) (\<lambda>fp.
     and_then (raising (normalize_digest (py_str env fp))) (\<lambda>profile.
       let generation = generation_name ns token;
           key = manifest_name profile generation
       in
     and_then (raising (canonical_bytes env m)) (\<lambda>payload.
     and_then (s3_put c st key payload) (\<lambda>u.
     and_then (s3_exists c st key (Some (int (length payload)))) (\<lambda>there.
      if \<not> there then raise_error (CacheCorruption ''RunPod S3 manifest publication was incomplete'')
      else
     and_then (latest_entries env c st) (\<lambda>entries.
     and_then (raising (py_item m ''manifest_id'')) (\<lambda>ident.
     and_then (raising (collect (other_entry ident) entries)) (\<lambda>others.
     and_then (raising (published_entry m key generation)) (\<lambda>entry.
     and_then (raising (sorted_entries (others @ [entry]))) (\<lambda>sorted_es.
     and_then (write_index env c st now generation sorted_es
                 ''RunPod S3 inventory publication was incomplete'') (\<lambda>u. ret key)))))))))))"

definition publish_manifest ::
  "pyenv \<Rightarrow> 'w s3_client \<Rightarrow> s3_store \<Rightarrow> signer \<Rightarrow> int \<Rightarrow> string \<Rightarrow> string \<Rightarrow> json \<Rightarrow> ('w, string) act"
where
  "publish_manifest env c st s ns token now m =
     and_then (verify_objects env c st s m) (\<lambda>u. publish_locked env c st ns token now m)"

definition referenced_digests :: "pyenv \<Rightarrow> json \<Rightarrow> pyerr + string list" where
  \<comment> \<open>of one entry\<close>
  "referenced_digests env e =
     (case py_get e ''artifacts'' of Inl x \<Rightarrow> Inl x | Inr v \<Rightarrow>
     (case iterate_or_empty v of Inl x \<Rightarrow> Inl x | Inr as \<Rightarrow>
        collect (\<lambda>a. case py_get a ''digest'' of
                       Inl x \<Rightarrow> Inl x
                     | Inr d \<Rightarrow>
                         if \<not> truthy d then Inr []
                         else case normalize_digest (or_text env d []) of Inl x \<Rightarrow> Inl x | Inr h \<Rightarrow> Inr [h]) as))"

fun delete_unreferenced ::
  "pyenv \<Rightarrow> 'w s3_client \<Rightarrow> s3_store \<Rightarrow> string list \<Rightarrow> json list \<Rightarrow> nat \<Rightarrow> ('w, nat) act"
where
  "delete_unreferenced env c st referenced [] n = ret n"
| "delete_unreferenced env c st referenced (a # as) n =
     and_then (raising (py_get a ''storage_key'')) (\<lambda>kv.
     and_then (raising (normalize_digest (or_text env (obj_get a ''digest'') []))) (\<lambda>digest.
       let key = or_text env kv [] in
       if key \<noteq> [] \<and> digest \<notin> set referenced
       then and_then (s3_delete c st key) (\<lambda>u. delete_unreferenced env c st referenced as (n + 1))
       else delete_unreferenced env c st referenced as n))"

definition stored_key :: "pyenv \<Rightarrow> json option \<Rightarrow> string option" where
  \<comment> \<open>\<open>removed and removed.get("storage_key")\<close>\<close>
  "stored_key env removed =
     (case removed of
        None \<Rightarrow> None
      | Some e \<Rightarrow> if truthy (obj_get e ''storage_key'')
                   then Some (py_str env (obj_get e ''storage_key'')) else None)"

definition expiring_document ::
  "pyenv \<Rightarrow> 'w s3_client \<Rightarrow> s3_store \<Rightarrow> signer \<Rightarrow> json option \<Rightarrow> json option \<Rightarrow> ('w, json) act"
where
  \<comment> \<open>the supplied manifest, else the one that the entry names, else none\<close>
  "expiring_document env c st s supplied removed =
     (case supplied of
        Some m \<Rightarrow> ret m
      | None \<Rightarrow>
          (case stored_key env removed of
             None \<Rightarrow> ret (JObj [])
           | Some key \<Rightarrow> and_then (read_json env c st key) (\<lambda>d. raising (verify env s d))))"

definition checked_supply :: "pyenv \<Rightarrow> signer \<Rightarrow> string \<Rightarrow> json option \<Rightarrow> pyerr + json option" where
  "checked_supply env s expected supply =
     (case supply of
        None \<Rightarrow> Inr None
      | Some m \<Rightarrow>
          (case verify env s m of Inl e \<Rightarrow> Inl e | Inr v \<Rightarrow>
          (case py_item v ''manifest_id'' of Inl e \<Rightarrow> Inl e | Inr i \<Rightarrow>
             if i \<noteq> JStr expected then Inl (ManifestError ''Replica expiry manifest identity changed'')
             else Inr (Some v))))"

definition remove_locked ::
  "pyenv \<Rightarrow> 'w s3_client \<Rightarrow> s3_store \<Rightarrow> signer \<Rightarrow> int \<Rightarrow> string \<Rightarrow> string \<Rightarrow> string \<Rightarrow> json option \<Rightarrow>
     ('w, nat \<times> nat) act"
where
  \<comment> \<open>under the lock; the numbers of manifests and objects removed\<close>
  "remove_locked env c st s ns token now expected supplied =
     and_then (latest_entries env c st) (\<lambda>entries.
     and_then (raising (collect (other_entry (JStr expected)) entries)) (\<lambda>remaining.
       let removed = find (\<lambda>e. obj_get e ''manifest_id'' = JStr expected) entries;
           generation = generation_name ns token
       in
       if removed = None \<and> supplied = None then ret (0, 0)
       else
     and_then (write_index env c st now generation remaining
                 ''RunPod S3 replica expiry inventory was incomplete'') (\<lambda>u.
     and_then (raising (collect (referenced_digests env) remaining)) (\<lambda>referenced.
     and_then (expiring_document env c st s supplied removed) (\<lambda>document.
     and_then (raising (iterate_or_empty (obj_get document ''artifacts''))) (\<lambda>as.
     and_then (delete_unreferenced env c st referenced as 0) (\<lambda>objects.
     and_then (case stored_key env removed of None \<Rightarrow> ret () | Some key \<Rightarrow> s3_delete c st key) (\<lambda>u.
       ret (if removed = None then 0 else 1, objects)))))))))"

definition s3_remove_manifest ::
  "pyenv \<Rightarrow> 'w s3_client \<Rightarrow> s3_store \<Rightarrow> signer \<Rightarrow> int \<Rightarrow> string \<Rightarrow> string \<Rightarrow> string \<Rightarrow> json option \<Rightarrow>
     ('w, nat \<times> nat) act"
where
  "s3_remove_manifest env c st s ns token now manifest_id supply =
     and_then (raising (digest_id manifest_id)) (\<lambda>expected.
     and_then (raising (checked_supply env s expected supply)) (\<lambda>supplied.
       remove_locked env c st s ns token now expected supplied))"

end
