(* ===== verification/TrustReceipts.thy ===== *)
theory TrustReceipts
  imports Manifests
begin

text \<open>
  The content-addressed store of prepared objects: full verification, trust receipts that stand
  for one until the next audit, and quarantine. A file is its bytes and its modification time;
  the background read of a second sample, locks and directories are not modelled.
\<close>

section \<open>The store\<close>

record cas =
  cas_objects :: "(string \<times> (string \<times> int)) list"
  cas_verified :: "((string \<times> string) \<times> json) list"
  cas_receipts :: "(string \<times> json) list"

definition object_generation :: "string \<Rightarrow> string \<times> int \<Rightarrow> json" where
  "object_generation storage_key file =
     JObj [(''storage_key'', JStr storage_key), (''size'', JInt (int (length (fst file)))),
           (''modified_ns'', JInt (snd file))]"

definition trust_receipt_key :: "string \<Rightarrow> pyerr + string" where
  "trust_receipt_key digest = object_key ''trust-receipts/sha256/'' ''.json'' digest"

definition artifact_runtime_compatibility_key :: "pyenv \<Rightarrow> json \<Rightarrow> pyerr + string" where
  "artifact_runtime_compatibility_key env artifact =
     fingerprint env (pick artifact [''portability'', ''requirements''])"

definition put_entry :: "'k \<Rightarrow> 'v \<Rightarrow> ('k \<times> 'v) list \<Rightarrow> ('k \<times> 'v) list" where
  "put_entry k v kvs = (k, v) # filter (\<lambda>kv. fst kv \<noteq> k) kvs"

definition verify_object ::
  "pyenv \<Rightarrow> string \<Rightarrow> string option \<Rightarrow> int option \<Rightarrow> cas \<Rightarrow> pyerr + cas \<times> string"
where
  \<comment> \<open>\<open>target\<close> is the storage key when it is not the blob of the digest\<close>
  "verify_object env digest target expected_size c =
     (case normalize_digest digest of Inl e \<Rightarrow> Inl e | Inr h \<Rightarrow>
     (case (case target of Some k \<Rightarrow> Inr k | None \<Rightarrow> blob_key h) of Inl e \<Rightarrow> Inl e | Inr key \<Rightarrow>
     (case map_of (cas_objects c) key of
        None \<Rightarrow> Inl (CacheCorruption (''Prepared object sha256:'' @ h @ '' is missing''))
      | Some file \<Rightarrow>
          if expected_size \<noteq> None \<and> expected_size \<noteq> Some (int (length (fst file)))
          then Inl (CacheCorruption (''Prepared object sha256:'' @ h @ '' has the wrong size''))
          else if sha256_file env (fst file) \<noteq> h
          then Inl (CacheCorruption (''Prepared object sha256:'' @ h @ '' hashes as sha256:'' @
                      sha256_file env (fst file)))
          else Inr (c\<lparr>cas_verified := put_entry (h, key) (object_generation key file) (cas_verified c)\<rparr>,
                    key))))"

definition first_present :: "cas \<Rightarrow> string list \<Rightarrow> string option" where
  "first_present c ks = find (\<lambda>k. k \<in> fst ` set (cas_objects c)) ks"

definition quarantine_name :: "string \<Rightarrow> int \<Rightarrow> string \<Rightarrow> string" where
  "quarantine_name h secs token = ''quarantine/'' @ h @ ''/'' @ int_text secs @ ''-'' @ token"

definition quarantine ::
  "string \<Rightarrow> string \<Rightarrow> string option \<Rightarrow> int \<Rightarrow> string \<Rightarrow> cas \<Rightarrow> pyerr + cas \<times> string option"
where
  \<comment> \<open>\<open>secs\<close> and \<open>token\<close> are the clock and the random part of the new name\<close>
  "quarantine digest reason storage_key secs token c =
     (case normalize_digest digest of Inl e \<Rightarrow> Inl e | Inr h \<Rightarrow>
     (case trust_receipt_key h of Inl e \<Rightarrow> Inl e | Inr rk \<Rightarrow>
     (case blob_key h of Inl e \<Rightarrow> Inl e | Inr blob \<Rightarrow>
     (case bundle_key h of Inl e \<Rightarrow> Inl e | Inr bundle \<Rightarrow>
      (let c1 = c\<lparr>cas_receipts := filter (\<lambda>kv. fst kv \<noteq> rk) (cas_receipts c),
                  cas_verified := filter (\<lambda>kv. fst (fst kv) \<noteq> h) (cas_verified c)\<rparr>;
           keys = (if given storage_key then [or_default [] storage_key] else [blob, bundle]);
           name = quarantine_name h secs token
       in case first_present c1 keys of
            None \<Rightarrow> Inr (c1, None)
          | Some k \<Rightarrow>
              (case map_of (cas_objects c1) k of
                 None \<Rightarrow> Inr (c1, None)
               | Some file \<Rightarrow>
                   Inr (c1\<lparr>cas_objects :=
                             put_entry (name @ ''.reason'') (reason, secs * 1000000000)
                               (put_entry name file (filter (\<lambda>kv. fst kv \<noteq> k) (cas_objects c1)))\<rparr>,
                        Some name)))))))"

section \<open>Byte samples\<close>

definition sample_bytes :: int where
  "sample_bytes = 1024 * 1024"

definition sample_count :: nat where
  "sample_count = 5"

definition sample_width :: "int \<Rightarrow> int" where
  "sample_width n = min n (max 4096 sample_bytes)"

definition sample_offsets :: "int \<Rightarrow> int list" where
  \<comment> \<open>\<open>sorted({round(maximum_offset * index / max(1, count - 1)) ...})\<close>\<close>
  "sample_offsets maximum =
     sorted_list_of_set (set (map
       (\<lambda>i. py_round (of_int (maximum * int i) / of_int (max 1 (int sample_count - 1))))
       [0..<sample_count]))"

definition file_slice :: "string \<Rightarrow> int \<Rightarrow> int \<Rightarrow> string" where
  "file_slice content offset width = take (nat width) (drop (nat offset) content)"

definition layout_sample :: "pyenv \<Rightarrow> string \<Rightarrow> int \<Rightarrow> int \<Rightarrow> pyerr + json" where
  "layout_sample env content width offset =
     (let v = file_slice content offset width in
      if int (length v) \<noteq> width
      then Inl (CacheCorruption ''Prepared object changed while trust samples were read'')
      else case digest_id (sha256_file env v) of
             Inl e \<Rightarrow> Inl e
           | Inr d \<Rightarrow> Inr (JObj [(''offset'', JInt offset), (''size'', JInt (int (length v))),
                              (''sha256'', JStr d)]))"

definition sample_layout :: "pyenv \<Rightarrow> string \<Rightarrow> pyerr + json list" where
  "sample_layout env content =
     (let n = int (length content) in
      if n \<le> 0 then Inr []
      else each (layout_sample env content (sample_width n)) (sample_offsets (n - sample_width n)))"

section \<open>Issuing\<close>

definition receipt_ttl :: int where
  \<comment> \<open>seven days and one day, in microseconds\<close>
  "receipt_ttl = 7 * 24 * 3600 * 1000000"

definition audit_interval :: int where
  "audit_interval = 24 * 3600 * 1000000"

definition receipt_eligible :: "json \<Rightarrow> bool" where
  "receipt_eligible artifact =
     (let policy = or_obj (obj_get artifact ''policy'')
      in \<not> (truthy (obj_get policy ''private'') \<or> truthy (obj_get policy ''sensitive'') \<or>
            obj_get policy ''verification'' = JStr ''full''))"

definition receipt_proposal ::
  "pyenv \<Rightarrow> int \<Rightarrow> json \<Rightarrow> string \<Rightarrow> string \<Rightarrow> int \<Rightarrow> string \<Rightarrow> string \<Rightarrow> string \<Rightarrow> string \<Rightarrow> json \<Rightarrow> json list \<Rightarrow> json"
where
  "receipt_proposal env now manifest_id sig_digest digest n_bytes key volume provider_volume compat_key
     generation samples =
     JObj [(''schema'', JStr trust_schema),
           (''manifest_id'', manifest_id),
           (''manifest_signature_digest'', JStr sig_digest),
           (''artifact_digest'', JStr digest),
           (''artifact_size'', JInt n_bytes),
           (''storage_key'', JStr key),
           (''volume_id'', JStr volume),
           (''provider_volume_id'', JStr provider_volume),
           (''runtime_compatibility'', JStr compat_key),
           (''object_generation'', generation),
           (''verified_at'', JStr (iso_utc env now)),
           (''expires_at'', JStr (iso_utc env (now + receipt_ttl))),
           (''scrub'', JObj [(''mode'', JStr ''rotating-sample-and-scheduled-full-audit''),
                             (''full_audit_due_at'', JStr (iso_utc env (now + audit_interval))),
                             (''samples'', JArr samples)])]"

definition issue_trust_receipt ::
  "pyenv \<Rightarrow> int \<Rightarrow> signer \<Rightarrow> json \<Rightarrow> json \<Rightarrow> string \<Rightarrow> string \<Rightarrow> cas \<Rightarrow> pyerr + cas \<times> json option"
where
  "issue_trust_receipt env now s manifest artifact volume provider_volume c =
     (if \<not> receipt_eligible artifact then Inr (c, None)
      else
     (case py_int (or_zero (obj_get artifact ''size'')) of Inl e \<Rightarrow> Inl e | Inr n_bytes \<Rightarrow>
      (if n_bytes \<le> 0 then Inr (c, None)
       else
     (case py_item artifact ''digest'' of Inl e \<Rightarrow> Inl e | Inr dv \<Rightarrow>
     (case normalize_digest (py_str env dv) of Inl e \<Rightarrow> Inl e | Inr h \<Rightarrow>
     (case py_item artifact ''storage_key'' of Inl e \<Rightarrow> Inl e | Inr kv \<Rightarrow>
      (let key = py_str env kv in
       (case map_of (cas_objects c) key of
          None \<Rightarrow> Inl (OSError ''No such file or directory'')
        | Some file \<Rightarrow>
            if map_of (cas_verified c) (h, key) \<noteq> Some (object_generation key file) then Inr (c, None)
            else
     (case sample_layout env (fst file) of Inl e \<Rightarrow> Inl e | Inr samples \<Rightarrow>
     (case py_item manifest ''manifest_id'' of Inl e \<Rightarrow> Inl e | Inr mid \<Rightarrow>
     (case manifest_signature_digest env manifest of Inl e \<Rightarrow> Inl e | Inr sd \<Rightarrow>
     (case digest_id h of Inl e \<Rightarrow> Inl e | Inr digest \<Rightarrow>
     (case artifact_runtime_compatibility_key env artifact of Inl e \<Rightarrow> Inl e | Inr compat_key \<Rightarrow>
     (case sign_trust_receipt env s
             (receipt_proposal env now mid sd digest n_bytes key volume provider_volume compat_key
                (object_generation key file) samples) of
        Inl e \<Rightarrow> Inl e
      | Inr signed \<Rightarrow>
          (case trust_receipt_key digest of
             Inl e \<Rightarrow> Inl e
           | Inr rk \<Rightarrow> Inr (c\<lparr>cas_receipts := put_entry rk signed (cas_receipts c)\<rparr>, Some signed))))))))))))))))"

section \<open>Verifying\<close>

definition verifier_failure :: "pyerr \<Rightarrow> bool" where
  \<comment> \<open>the exceptions that count as no receipt: ManifestError is a RuntimeError\<close>
  "verifier_failure e =
     (case e of ManifestError s \<Rightarrow> True | RuntimeError s \<Rightarrow> True | ValueError s \<Rightarrow> True | _ \<Rightarrow> False)"

definition int_or_minus_two :: "json \<Rightarrow> pyerr + int" where
  "int_or_minus_two v = (if truthy v then py_int v else Inr (- 2))"

definition receipt_matches ::
  "pyenv \<Rightarrow> json \<Rightarrow> json \<Rightarrow> json \<Rightarrow> string \<Rightarrow> string \<Rightarrow> string \<Rightarrow> string \<Rightarrow> pyerr + bool"
where
  \<comment> \<open>none of the fields differs; all of them are computed first\<close>
  "receipt_matches env r manifest artifact digest key volume provider_volume =
     (case manifest_signature_digest env manifest of Inl e \<Rightarrow> Inl e | Inr sd \<Rightarrow>
     (case int_or_minus_one (obj_get r ''artifact_size'') of Inl e \<Rightarrow> Inl e | Inr n \<Rightarrow>
     (case int_or_minus_two (obj_get artifact ''size'') of Inl e \<Rightarrow> Inl e | Inr m \<Rightarrow>
     (case artifact_runtime_compatibility_key env artifact of Inl e \<Rightarrow> Inl e | Inr compat_key \<Rightarrow>
      Inr (py_eq (obj_get r ''manifest_id'') (obj_get manifest ''manifest_id'') \<and>
           obj_get r ''manifest_signature_digest'' = JStr sd \<and>
           obj_get r ''artifact_digest'' = JStr digest \<and> n = m \<and>
           obj_get r ''storage_key'' = JStr key \<and> obj_get r ''volume_id'' = JStr volume \<and>
           obj_get r ''provider_volume_id'' = JStr provider_volume \<and>
           obj_get r ''runtime_compatibility'' = JStr compat_key)))))"

record trusted =
  tr_mode :: string
  tr_bytes_read :: int
  tr_receipt_id :: json
  tr_audit_due :: json

definition hex_number :: "string \<Rightarrow> nat" where
  "hex_number s = foldl (\<lambda>n c. 16 * n + hex_value c) 0 s"

definition sample_index :: "pyenv \<Rightarrow> json \<Rightarrow> int \<Rightarrow> nat \<Rightarrow> nat" where
  \<comment> \<open>the sample of this hour: eight digits of a digest of the receipt and the hour\<close>
  "sample_index env receipt_id now n =
     hex_number (take 8 (sha256_hex env (py_str env receipt_id @ '':'' @ int_text (now div 3600000000)))) mod n"

definition check_bytes ::
  "pyenv \<Rightarrow> string \<Rightarrow> json \<Rightarrow> string \<Rightarrow> pyerr + int"
where
  \<comment> \<open>reads one sample: its width, when its digest is the one that was signed\<close>
  "check_bytes env digest sample content =
     (case py_item sample ''offset'' of Inl e \<Rightarrow> Inl e | Inr ov \<Rightarrow>
     (case py_int ov of Inl e \<Rightarrow> Inl e | Inr offset \<Rightarrow>
     (case py_item sample ''size'' of Inl e \<Rightarrow> Inl e | Inr wv \<Rightarrow>
     (case py_int wv of Inl e \<Rightarrow> Inl e | Inr width \<Rightarrow>
      (let v = file_slice content offset width;
           failed = CacheCorruption (''Prepared object '' @ digest @ '' failed a signed trust sample'')
       in if int (length v) \<noteq> width then Inl failed
          else
     (case digest_id (sha256_file env v) of Inl e \<Rightarrow> Inl e | Inr d \<Rightarrow>
     (case py_item sample ''sha256'' of Inl e \<Rightarrow> Inl e | Inr want \<Rightarrow>
        if want = JStr d then Inr width else Inl failed)))))))"

definition receipt_object ::
  "pyenv \<Rightarrow> int \<Rightarrow> json \<Rightarrow> string \<Rightarrow> string \<Rightarrow> cas \<Rightarrow> pyerr + trusted option"
where
  \<comment> \<open>the object behind an authentic receipt that is still in time\<close>
  "receipt_object env now r digest key c =
     (case map_of (cas_objects c) key of
        None \<Rightarrow> Inr None
      | Some file \<Rightarrow>
          if \<not> py_eq (object_generation key file) (obj_get r ''object_generation'') then Inr None
          else
     (case iterate_or_empty (obj_get (or_obj (obj_get r ''scrub'')) ''samples'') of
        Inl e \<Rightarrow> Inl e
      | Inr samples \<Rightarrow>
          if samples = [] then Inr None
          else
     (case py_item r ''receipt_id'' of Inl e \<Rightarrow> Inl e | Inr rid \<Rightarrow>
     (case check_bytes env digest (samples ! sample_index env rid now (length samples)) (fst file) of
        Inl e \<Rightarrow> Inl e
      | Inr width \<Rightarrow>
          Inr (Some \<lparr>tr_mode = ''trusted_metadata_sample'', tr_bytes_read = width, tr_receipt_id = rid,
                     tr_audit_due = obj_get (or_obj (obj_get r ''scrub'')) ''full_audit_due_at''\<rparr>)))))"

definition check_trust_receipt ::
  "pyenv \<Rightarrow> int \<Rightarrow> signer \<Rightarrow> json \<Rightarrow> json \<Rightarrow> json \<Rightarrow> string \<Rightarrow> string \<Rightarrow> cas \<Rightarrow> pyerr + trusted option"
where
  \<comment> \<open>\<open>_verify_trust_receipt\<close>\<close>
  "check_trust_receipt env now s receipt manifest artifact volume provider_volume c =
     (case verify_trust_receipt env s receipt of
        Inl e \<Rightarrow> if verifier_failure e then Inr None else Inl e
      | Inr r \<Rightarrow>
     (case py_item artifact ''digest'' of Inl e \<Rightarrow> Inl e | Inr dv \<Rightarrow>
     (case digest_id (py_str env dv) of Inl e \<Rightarrow> Inl e | Inr digest \<Rightarrow>
     (case py_item artifact ''storage_key'' of Inl e \<Rightarrow> Inl e | Inr kv \<Rightarrow>
      (let key = py_str env kv in
     (case receipt_matches env r manifest artifact digest key volume provider_volume of
        Inl e \<Rightarrow> Inl e
      | Inr same \<Rightarrow>
          if \<not> same then Inr None
          else
     (case py_item r ''expires_at'' of Inl e \<Rightarrow> Inl e | Inr ev \<Rightarrow>
     (case utc_stamp env ev ''expires_at'' of Inl e \<Rightarrow> Inl e | Inr expires \<Rightarrow>
      (if expires \<le> now then Inr None
       else
     (case utc_stamp env (obj_get (or_obj (obj_get r ''scrub'')) ''full_audit_due_at'') ''full_audit_due_at'' of
        Inl e \<Rightarrow> Inl e
      | Inr due \<Rightarrow> if due \<le> now then Inr None else receipt_object env now r digest key c))))))))))"

end
