(* ===== verification/Store.thy ===== *)
theory Store
  imports PlanPublic
begin

text \<open>
  The tables of the queue database (\<open>JobQueue._init_db\<close> of \<open>cloud_offload/queue.py\<close> and
  \<open>ensure_plan_schema\<close> of \<open>cloud_offload/plan_protocol.py\<close>) as lists of rows in insertion
  order. The columns that the code constrains to a finite set of texts are datatypes.
\<close>

datatype lease_status = Provisioning | Active | Revocation_Requested | Terminating | Closed

definition lease_open :: "lease_status \<Rightarrow> bool" where
  "lease_open s \<longleftrightarrow> s \<in> {Provisioning, Active, Revocation_Requested, Terminating}"

lemma lease_open_iff [simp]: "lease_open s \<longleftrightarrow> s \<noteq> Closed"
  by (cases s) (simp_all add: lease_open_def)

record lease =
  lease_id :: string
  lease_provider :: string
  lease_instance_id :: "string option"
  lease_resource_name :: string
  lease_runtime_profile :: string
  lease_worker_id :: "string option"
  lease_status :: lease_status
  lease_created_at :: time
  lease_updated_at :: time
  lease_expires_at :: time
  lease_renewed_at :: time
  lease_hourly_rate :: "rat option"
  lease_max_runtime_seconds :: "int option"
  lease_max_cost_usd :: "rat option"
  lease_runtime_deadline :: "time option"
  lease_cost_deadline :: "time option"
  lease_revoked_at :: "time option"
  lease_termination_requested_at :: "time option"
  lease_termination_confirmed_at :: "time option"
  lease_termination_attempts :: int
  lease_reason :: "string option"
  lease_last_error :: "string option"

record lease_link =
  link_lease :: string
  link_job :: string
  link_attached_at :: time

record worker_row =
  wk_id :: string
  wk_provider :: string
  wk_status :: string
  wk_last_seen :: time
  wk_idle_since :: "time option"
  wk_runtime_profile :: "string option"
  wk_capabilities :: "string list"
  wk_detail :: "string option"

record cache_row =
  pc_key :: string
  pc_result :: json
  pc_created_at :: time

datatype plan_state =
    Preflighted | Submitting | Submitted | Running_Plan | Cancelling
  | Cancelled | Completed_Plan | Failed_Plan | Terminal_Plan

definition plan_terminal :: "plan_state \<Rightarrow> bool" where
  \<comment> \<open>\<open>_TERMINAL_STATES\<close>\<close>
  "plan_terminal s \<longleftrightarrow> s \<in> {Cancelled, Completed_Plan, Failed_Plan, Terminal_Plan}"

lemma plan_terminal_simps [simp]:
  "plan_terminal Cancelled" "plan_terminal Completed_Plan" "plan_terminal Failed_Plan"
  "plan_terminal Terminal_Plan" "\<not> plan_terminal Preflighted" "\<not> plan_terminal Submitting"
  "\<not> plan_terminal Submitted" "\<not> plan_terminal Running_Plan" "\<not> plan_terminal Cancelling"
  by (simp_all add: plan_terminal_def)

fun plan_state_value :: "plan_state \<Rightarrow> string" where
  "plan_state_value Preflighted = ''preflighted''"
| "plan_state_value Submitting = ''submitting''"
| "plan_state_value Submitted = ''submitted''"
| "plan_state_value Running_Plan = ''running''"
| "plan_state_value Cancelling = ''cancelling''"
| "plan_state_value Cancelled = ''cancelled''"
| "plan_state_value Completed_Plan = ''completed''"
| "plan_state_value Failed_Plan = ''failed''"
| "plan_state_value Terminal_Plan = ''terminal''"

record plan_row =
  pl_digest :: string
  pl_plan :: json
  pl_preflight :: json
  pl_job_id :: "string option"
  pl_idempotency_key :: "string option"
  pl_request_digest :: "string option"
  pl_state :: plan_state
  pl_closure :: "json option"
  pl_preflight_request_digest :: "string option"
  pl_provider_digest :: "string option"
  pl_candidate_digest :: "string option"
  pl_input_digest :: "string option"
  pl_created_at :: time
  pl_updated_at :: time

record authority_row =
  au_digest :: string
  au_plan :: json
  au_preflight :: json
  au_request :: "json option"
  au_provider_digest :: "string option"
  au_candidate :: json
  au_input :: json
  au_preflight_request_digest :: "string option"
  au_job_id :: "string option"

record db =
  jobs :: "job list"
  events :: "event_row list"
  event_counter :: int
  leases :: "lease list"
  links :: "lease_link list"
  workers :: "worker_row list"
  cache :: "cache_row list"
  meta :: "(string \<times> string) list"
  plans :: "plan_row list"
  authority :: "authority_row list"

definition empty_db :: db where
  \<comment> \<open>a database that \<open>_init_db\<close> has just created\<close>
  "empty_db =
     \<lparr>jobs = [], events = [], event_counter = 0, leases = [], links = [], workers = [],
      cache = [], meta = [(''schema_version'', ''8'')], plans = [], authority = []\<rparr>"

definition find_job :: "db \<Rightarrow> string \<Rightarrow> job option" where
  \<comment> \<open>\<open>JobQueue.get\<close>\<close>
  "find_job d ident = find (\<lambda>j. job_id j = ident) (jobs d)"

definition find_lease :: "db \<Rightarrow> string \<Rightarrow> lease option" where
  \<comment> \<open>\<open>JobQueue.get_lease\<close>\<close>
  "find_lease d ident = find (\<lambda>l. lease_id l = ident) (leases d)"

definition find_plan :: "db \<Rightarrow> string \<Rightarrow> plan_row option" where
  "find_plan d digest = find (\<lambda>p. pl_digest p = digest) (plans d)"

lemma find_job_id: "find_job d ident = Some j \<Longrightarrow> job_id j = ident \<and> j \<in> set (jobs d)"
  unfolding find_job_def by (drule find_SomeD) simp

lemma find_lease_id: "find_lease d ident = Some l \<Longrightarrow> lease_id l = ident \<and> l \<in> set (leases d)"
  unfolding find_lease_def by (drule find_SomeD) simp

lemma find_plan_id: "find_plan d digest = Some p \<Longrightarrow> pl_digest p = digest \<and> p \<in> set (plans d)"
  unfolding find_plan_def by (drule find_SomeD) simp

text \<open>Lookups see through updates of the other tables.\<close>

lemma find_job_frame [simp]:
  "find_job (d\<lparr>events := e\<rparr>) i = find_job d i" "find_job (d\<lparr>event_counter := n\<rparr>) i = find_job d i"
  "find_job (d\<lparr>leases := l\<rparr>) i = find_job d i" "find_job (d\<lparr>links := k\<rparr>) i = find_job d i"
  "find_job (d\<lparr>workers := w\<rparr>) i = find_job d i" "find_job (d\<lparr>cache := c\<rparr>) i = find_job d i"
  "find_job (d\<lparr>meta := m\<rparr>) i = find_job d i" "find_job (d\<lparr>plans := p\<rparr>) i = find_job d i"
  "find_job (d\<lparr>authority := a\<rparr>) i = find_job d i"
  by (simp_all add: find_job_def)

lemma find_lease_frame [simp]:
  "find_lease (d\<lparr>jobs := j\<rparr>) i = find_lease d i" "find_lease (d\<lparr>events := e\<rparr>) i = find_lease d i"
  "find_lease (d\<lparr>event_counter := n\<rparr>) i = find_lease d i"
  "find_lease (d\<lparr>links := k\<rparr>) i = find_lease d i" "find_lease (d\<lparr>workers := w\<rparr>) i = find_lease d i"
  "find_lease (d\<lparr>cache := c\<rparr>) i = find_lease d i" "find_lease (d\<lparr>meta := m\<rparr>) i = find_lease d i"
  "find_lease (d\<lparr>plans := p\<rparr>) i = find_lease d i"
  "find_lease (d\<lparr>authority := a\<rparr>) i = find_lease d i"
  by (simp_all add: find_lease_def)

lemma find_plan_frame [simp]:
  "find_plan (d\<lparr>jobs := j\<rparr>) i = find_plan d i" "find_plan (d\<lparr>events := e\<rparr>) i = find_plan d i"
  "find_plan (d\<lparr>event_counter := n\<rparr>) i = find_plan d i"
  "find_plan (d\<lparr>leases := l\<rparr>) i = find_plan d i"
  "find_plan (d\<lparr>links := k\<rparr>) i = find_plan d i" "find_plan (d\<lparr>workers := w\<rparr>) i = find_plan d i"
  "find_plan (d\<lparr>cache := c\<rparr>) i = find_plan d i" "find_plan (d\<lparr>meta := m\<rparr>) i = find_plan d i"
  "find_plan (d\<lparr>authority := a\<rparr>) i = find_plan d i"
  by (simp_all add: find_plan_def)

end
