(* ===== verification/Journal.thy ===== *)
theory Journal
  imports Store
begin

text \<open>
  The job journal of \<open>cloud_offload/queue.py\<close>: \<open>_append_event_in_transaction\<close> with its
  normalisation, the projection of plan events, idempotent replay by producer sequence, and
  the readers that page through it.
\<close>

section \<open>Normalisation\<close>

definition plan_model :: string where
  "plan_model = ''comfyui-plan''"

definition is_plan_job :: "db \<Rightarrow> string \<Rightarrow> bool" where
  "is_plan_job d ident =
     (case find_job d ident of None \<Rightarrow> False | Some j \<Rightarrow> job_model j = plan_model)"

definition plan_event :: "pyenv \<Rightarrow> string \<Rightarrow> json \<Rightarrow> pyerr + json" where
  \<comment> \<open>the finite event that is kept of an event of a plan job\<close>
  "plan_event env ident event =
     (case public_plan_event env (obj_set ''job_id'' (JStr ident) event) of
        Inl e \<Rightarrow> Inl e
      | Inr safe \<Rightarrow> Inr (JObj
          ([(''type'', obj_get safe ''type''), (''phase'', obj_get safe ''phase''),
            (''status'', obj_get safe ''status'')]
           @ (if truthy (obj_get safe ''metrics'')
              then [(''metrics'', obj_get safe ''metrics'')] else []))))"

definition plan_producer :: "pyenv \<Rightarrow> string option \<Rightarrow> string" where
  "plan_producer env producer =
     (let raw = (case producer of Some (c # cs) \<Rightarrow> c # cs | _ \<Rightarrow> ''coordinator:plan'')
      in if starts_with ''worker:'' raw
         then ''plan-worker:'' @ take 32 (remove_prefix sha_prefix (str_digest env raw))
         else ''coordinator:plan'')"

definition normal_producer :: "string option \<Rightarrow> string" where
  "normal_producer producer =
     py_strip (case producer of Some (c # cs) \<Rightarrow> c # cs | _ \<Rightarrow> ''coordinator'')"

definition with_phase_owner :: "string \<Rightarrow> json \<Rightarrow> json" where
  "with_phase_owner producer event =
     (if obj_has event ''phase_owner'' then event
      else obj_set ''phase_owner''
             (JStr (if starts_with ''worker:'' producer then ''worker''
                    else if starts_with ''dispatcher:'' producer then ''dispatcher''
                    else ''coordinator'')) event)"

definition normal_sequence :: "json option \<Rightarrow> pyerr + int option" where
  "normal_sequence pseq =
     (case pseq of
        None \<Rightarrow> Inr None
      | Some v \<Rightarrow>
          if v = JNull then Inr None
          else if is_bool v then Inl (ValueError ''Job event producer_sequence must be an integer'')
          else case py_int v of
                 Inl (OverflowError m) \<Rightarrow> Inl (OverflowError m)
               | Inl e \<Rightarrow> Inl (ValueError ''Job event producer_sequence must be an integer'')
               | Inr n \<Rightarrow>
                   if n < 0 then Inl (ValueError ''Job event producer_sequence cannot be negative'')
                   else Inr (Some n))"

definition max_event_bytes :: nat where
  "max_event_bytes = 4194304"

definition check_encoding :: "pyenv \<Rightarrow> json \<Rightarrow> pyerr + string" where
  "check_encoding env event =
     (if \<not> json_finite event then Inl (ValueError ''Job event is not finite JSON'')
      else let encoded = json_text True env event
           in if max_event_bytes < utf8_length encoded
              then Inl (ValueError ''Job event exceeds the 4 MiB limit'')
              else Inr encoded)"

definition occurred_stamp :: "pyenv \<Rightarrow> stamp option \<Rightarrow> json \<Rightarrow> time \<Rightarrow> stamp" where
  \<comment> \<open>\<open>str(occurred_at or event.get("occurred_at") or observed_at)\<close>\<close>
  "occurred_stamp env occurred event observed =
     (let fallback = (if truthy (obj_get event ''occurred_at'')
                      then Text (py_str env (obj_get event ''occurred_at'')) else At observed)
      in case occurred of
           None \<Rightarrow> fallback
         | Some (At t) \<Rightarrow> At t
         | Some (Text s) \<Rightarrow> if s = [] then fallback else Text s)"

definition stamp_too_long :: "stamp \<Rightarrow> bool" where
  \<comment> \<open>the ISO text of an instant has at most 26 characters\<close>
  "stamp_too_long s = (case s of At t \<Rightarrow> False | Text x \<Rightarrow> 128 < length x)"

section \<open>Appending\<close>

definition same_producer :: "string \<Rightarrow> string \<Rightarrow> int \<Rightarrow> event_row \<Rightarrow> bool" where
  "same_producer ident producer n r \<longleftrightarrow>
     ev_job_id r = ident \<and> ev_producer_id r = producer \<and> ev_producer_sequence r = Some n"

definition insert_event ::
  "pyenv \<Rightarrow> db \<Rightarrow> string \<Rightarrow> json \<Rightarrow> string \<Rightarrow> int option \<Rightarrow> stamp \<Rightarrow> time \<Rightarrow> db \<times> event_row"
where
  "insert_event env d ident event producer pseq occurred observed =
     (let row = \<lparr>ev_sequence = event_counter d + 1, ev_job_id = ident, ev_json = event,
                 ev_created_at = observed, ev_producer_id = producer,
                 ev_producer_sequence = pseq, ev_occurred_at = occurred,
                 ev_observed_at = observed, ev_type = py_str env (obj_get event ''type''),
                 ev_phase = (if obj_get event ''phase'' = JNull then None
                             else Some (py_str env (obj_get event ''phase'')))\<rparr>
      in (d\<lparr>events := events d @ [row], event_counter := event_counter d + 1\<rparr>, row))"

definition append_normal ::
  "pyenv \<Rightarrow> db \<Rightarrow> string \<Rightarrow> json \<Rightarrow> string option \<Rightarrow> json option \<Rightarrow> stamp option \<Rightarrow> time \<Rightarrow>
   (db, event_row) tx"
where
  "append_normal env d ident event producer pseq occurred observed =
     (let np = normal_producer producer
      in if np = [] \<or> 256 < length np
         then Inl (ValueError ''Job event producer_id must contain 1 to 256 characters'')
         else let ne = with_phase_owner np event
         in case normal_sequence pseq of
           Inl e \<Rightarrow> Inl e
         | Inr nseq \<Rightarrow>
         (case check_encoding env ne of
           Inl e \<Rightarrow> Inl e
         | Inr encoded \<Rightarrow>
           (let occ = occurred_stamp env occurred ne observed
            in if stamp_too_long occ
               then Inl (ValueError ''Job event occurred_at is too long'')
               else case nseq of
                 None \<Rightarrow> Inr (insert_event env d ident ne np None occ observed)
               | Some n \<Rightarrow>
                   (case find (same_producer ident np n) (events d) of
                      Some r \<Rightarrow>
                        if json_text True env (ev_json r) \<noteq> encoded
                        then Inl (ValueError ''Job event producer sequence was reused with different data'')
                        else Inr (d, r)
                    | None \<Rightarrow> Inr (insert_event env d ident ne np (Some n) occ observed)))))"

definition append_event_in_transaction ::
  "pyenv \<Rightarrow> time \<Rightarrow> db \<Rightarrow> string \<Rightarrow> json \<Rightarrow> string option \<Rightarrow> json option \<Rightarrow> stamp option \<Rightarrow>
   time option \<Rightarrow> (db, event_row) tx"
where
  "append_event_in_transaction env now d ident event producer pseq occurred observed =
     (if \<not> is_obj event \<or> \<not> truthy (obj_get event ''type'')
      then Inl (ValueError ''Job events require a non-empty type'')
      else if is_plan_job d ident
      then case plan_event env ident event of
             Inl e \<Rightarrow> Inl e
           | Inr safe \<Rightarrow>
               append_normal env d ident safe (Some (plan_producer env producer)) pseq None now
      else append_normal env d ident event producer pseq occurred (or_default now observed))"

definition append_event ::
  "pyenv \<Rightarrow> time \<Rightarrow> db \<Rightarrow> string \<Rightarrow> json \<Rightarrow> string option \<Rightarrow> json option \<Rightarrow> stamp option \<Rightarrow>
   (db, json) tx"
where
  "append_event env now d ident event producer pseq occurred =
     (if find_job d ident = None then Inl (KeyError (''Job not found: '' @ ident))
      else case append_event_in_transaction env now d ident event producer pseq occurred None of
             Inl e \<Rightarrow> Inl e
           | Inr (d', r) \<Rightarrow> Inr (d', job_event_envelope env r))"

section \<open>Reading\<close>

definition job_events :: "db \<Rightarrow> string \<Rightarrow> event_row list" where
  \<comment> \<open>SELECT ... FROM job_events WHERE job_id = ? ORDER BY sequence\<close>
  "job_events d ident = sort_key ev_sequence (filter (\<lambda>r. ev_job_id r = ident) (events d))"

definition list_event_rows :: "db \<Rightarrow> string \<Rightarrow> int \<Rightarrow> int \<Rightarrow> event_row list" where
  "list_event_rows d ident after limit =
     take (nat (max 1 (min 1000 limit)))
       (filter (\<lambda>r. max 0 after < ev_sequence r) (job_events d ident))"

definition list_events :: "pyenv \<Rightarrow> db \<Rightarrow> string \<Rightarrow> int \<Rightarrow> int \<Rightarrow> json list" where
  "list_events env d ident after limit =
     map (job_event_envelope env) (list_event_rows d ident after limit)"

definition list_recent_event_rows :: "db \<Rightarrow> string \<Rightarrow> int \<Rightarrow> event_row list" where
  "list_recent_event_rows d ident limit =
     rev (take (nat (max 1 (min 1000 limit))) (rev (job_events d ident)))"

definition list_recent_events :: "pyenv \<Rightarrow> db \<Rightarrow> string \<Rightarrow> int \<Rightarrow> json list" where
  "list_recent_events env d ident limit =
     map (job_event_envelope env) (list_recent_event_rows d ident limit)"

definition event_bounds :: "db \<Rightarrow> string \<Rightarrow> int \<times> int" where
  "event_bounds d ident =
     (let rs = job_events d ident
      in (int (length rs), (if rs = [] then 0 else ev_sequence (last rs))))"

section \<open>What an append does to the database\<close>

definition journaled :: "db \<Rightarrow> string \<Rightarrow> event_row \<Rightarrow> db" where
  "journaled d ident r = d\<lparr>events := events d @ [r], event_counter := event_counter d + 1\<rparr>"

definition fresh_row :: "db \<Rightarrow> string \<Rightarrow> event_row \<Rightarrow> bool" where
  "fresh_row d ident r \<longleftrightarrow>
     ev_job_id r = ident \<and> ev_sequence r = event_counter d + 1 \<and>
     (\<forall>n. ev_producer_sequence r = Some n \<longrightarrow>
        find (same_producer ident (ev_producer_id r) n) (events d) = None)"

lemma append_normal_cases:
  assumes "append_normal env d ident event producer pseq occurred observed = Inr (d', r)"
  shows "(d' = d \<and> r \<in> set (events d) \<and> ev_job_id r = ident) \<or>
         (d' = journaled d ident r \<and> fresh_row d ident r)"
  using assms
  by (auto simp: append_normal_def Let_def insert_event_def journaled_def fresh_row_def
           split: if_splits sum.splits option.splits
           dest!: find_SomeD simp: same_producer_def)

lemma append_cases:
  assumes "append_event_in_transaction env now d ident event producer pseq occurred observed
             = Inr (d', r)"
  obtains (replayed) "d' = d" "r \<in> set (events d)" "ev_job_id r = ident"
        | (inserted) "d' = journaled d ident r" "fresh_row d ident r"
  using assms
  by (auto simp: append_event_in_transaction_def split: if_splits sum.splits
           dest!: append_normal_cases)

text \<open>An internal event of the queue carries no producer sequence: it is always inserted.\<close>

lemma append_inserts:
  assumes "append_event_in_transaction env now d ident event producer None occurred observed
             = Inr (d', r)"
  shows "d' = journaled d ident r \<and> fresh_row d ident r \<and> ev_producer_sequence r = None"
  using assms
  by (auto simp: append_event_in_transaction_def append_normal_def Let_def insert_event_def
        journaled_def fresh_row_def normal_sequence_def
        split: if_splits sum.splits option.splits)

lemma journaled_tables [simp]:
  "jobs (journaled d i r) = jobs d" "leases (journaled d i r) = leases d"
  "links (journaled d i r) = links d" "workers (journaled d i r) = workers d"
  "cache (journaled d i r) = cache d" "meta (journaled d i r) = meta d"
  "plans (journaled d i r) = plans d" "authority (journaled d i r) = authority d"
  "events (journaled d i r) = events d @ [r]"
  "event_counter (journaled d i r) = event_counter d + 1"
  "find_job (journaled d i r) k = find_job d k"
  "find_lease (journaled d i r) k = find_lease d k"
  "find_plan (journaled d i r) k = find_plan d k"
  by (simp_all add: journaled_def)

text \<open>Every table but the journal is as it was.\<close>

definition same_tables :: "db \<Rightarrow> db \<Rightarrow> bool" where
  "same_tables d d' \<longleftrightarrow>
     jobs d' = jobs d \<and> leases d' = leases d \<and> links d' = links d \<and> workers d' = workers d \<and>
     cache d' = cache d \<and> meta d' = meta d \<and> plans d' = plans d \<and> authority d' = authority d"

lemma same_tables_refl [simp]: "same_tables d d"
  by (simp add: same_tables_def)

lemma same_tables_find:
  "same_tables d d' \<Longrightarrow> find_job d' k = find_job d k"
  "same_tables d d' \<Longrightarrow> find_lease d' k = find_lease d k"
  "same_tables d d' \<Longrightarrow> find_plan d' k = find_plan d k"
  by (simp_all add: same_tables_def find_job_def find_lease_def find_plan_def)

lemma append_same_tables:
  "append_event_in_transaction env now d ident event producer pseq occurred observed = Inr (d', r)
   \<Longrightarrow> same_tables d d'"
  by (erule append_cases) (simp_all add: same_tables_def)

section \<open>The journal invariant\<close>

definition producer_keys :: "event_row list \<Rightarrow> (string \<times> string \<times> int) list" where
  "producer_keys rs =
     map (\<lambda>r. (ev_job_id r, ev_producer_id r, the (ev_producer_sequence r)))
       (filter (\<lambda>r. ev_producer_sequence r \<noteq> None) rs)"

definition journal_ok :: "db \<Rightarrow> bool" where
  "journal_ok d \<longleftrightarrow>
     sorted_wrt (<) (map ev_sequence (events d)) \<and>
     list_all (\<lambda>r. 0 < ev_sequence r \<and> ev_sequence r \<le> event_counter d) (events d) \<and>
     0 \<le> event_counter d \<and>
     distinct (producer_keys (events d))"

lemma producer_keys_append [simp]: "producer_keys (xs @ ys) = producer_keys xs @ producer_keys ys"
  by (simp add: producer_keys_def)

lemma fresh_row_key:
  assumes "fresh_row d ident r" and "k \<in> set (producer_keys [r])"
  shows "k \<notin> set (producer_keys (events d))"
  using assms
  by (auto simp: fresh_row_def producer_keys_def find_None_iff same_producer_def
           split: if_splits)

lemma journal_ok_journaled:
  assumes ok: "journal_ok d" and fresh: "fresh_row d ident r"
  shows "journal_ok (journaled d ident r)"
proof -
  have seq: "ev_sequence r = event_counter d + 1"
    using fresh by (simp add: fresh_row_def)
  have "distinct (producer_keys (events d) @ producer_keys [r])"
    using ok fresh_row_key [OF fresh]
    by (auto simp: journal_ok_def producer_keys_def split: if_splits)
  then show ?thesis
    using ok seq by (auto simp: journal_ok_def sorted_wrt_append list_all_iff)
qed

lemma append_journal_ok:
  "append_event_in_transaction env now d ident event producer pseq occurred observed = Inr (d', r)
   \<Longrightarrow> journal_ok d \<Longrightarrow> journal_ok d'"
  by (erule append_cases) (simp_all add: journal_ok_journaled)

lemma journal_ok_events:
  "events d' = events d \<Longrightarrow> event_counter d' = event_counter d \<Longrightarrow> journal_ok d \<Longrightarrow> journal_ok d'"
  by (simp add: journal_ok_def)

section \<open>Reading back\<close>

lemma sorted_wrt_filter_map:
  "sorted_wrt (<) (map f xs) \<Longrightarrow> sorted_wrt (<) (map f (filter P xs))"
  by (induction xs) auto

lemma journal_ok_sorted: "journal_ok d \<Longrightarrow> sorted (map ev_sequence (filter P (events d)))"
  unfolding journal_ok_def
  by (meson sorted_wrt_filter_map strict_sorted_imp_sorted)

text \<open>The journal is kept in order, so ORDER BY sequence does not move a row.\<close>

lemma job_events_filter:
  "journal_ok d \<Longrightarrow> job_events d ident = filter (\<lambda>r. ev_job_id r = ident) (events d)"
  unfolding job_events_def by (rule sort_key_id_if_sorted) (rule journal_ok_sorted)

lemma job_events_strict:
  "journal_ok d \<Longrightarrow> sorted_wrt (<) (map ev_sequence (job_events d ident))"
  by (simp add: job_events_filter) (simp add: journal_ok_def sorted_wrt_filter_map)

lemma strict_take_drop:
  fixes f :: "'a \<Rightarrow> int"
  assumes "sorted_wrt (<) (map f xs)" and "0 < n" and "xs \<noteq> []"
  shows "filter (\<lambda>x. f (last (take n xs)) < f x) xs = drop n xs"
  using assms
proof (induction xs arbitrary: n)
  case Nil
  then show ?case by simp
next
  case (Cons x xs)
  obtain m where n: "n = Suc m" using Cons.prems by (cases n) auto
  have less: "\<forall>y \<in> set xs. f x < f y" using Cons.prems by auto
  show ?case
  proof (cases "m = 0 \<or> xs = []")
    case True
    have "filter (\<lambda>y. f x < f y) xs = xs" using less by (simp add: filter_id_conv)
    with True n show ?thesis by auto
  next
    case False
    then have ne: "take m xs \<noteq> []" by auto
    have IH: "filter (\<lambda>y. f (last (take m xs)) < f y) xs = drop m xs"
      using Cons.IH [of m] Cons.prems False by auto
    have "last (take m xs) \<in> set xs" using ne by (meson in_set_takeD last_in_set)
    with less have "\<not> f (last (take m xs)) < f x" by (meson less_asym)
    with IH ne n show ?thesis by simp
  qed
qed

end
