(* ===== verification/Leases.thy ===== *)
theory Leases
  imports Journal
begin

text \<open>
  Provider-resource leases of \<open>cloud_offload/queue.py\<close>: the durable authority for one paid
  resource, from \<open>create_lease\<close> before the provider call to the observation that closes it.
  An operation of one transaction returns a \<open>tx\<close>; the result that the code reads back at
  the end of the transaction is the updated row.
\<close>

section \<open>Helpers\<close>

definition jtime :: "pyenv \<Rightarrow> time option \<Rightarrow> json" where
  "jtime env t = (case t of None \<Rightarrow> JNull | Some x \<Rightarrow> JStr (iso_naive env x))"

definition update_lease :: "string \<Rightarrow> (lease \<Rightarrow> lease) \<Rightarrow> db \<Rightarrow> db" where
  "update_lease ident f d = d\<lparr>leases := update_where (\<lambda>l. lease_id l = ident) f (leases d)\<rparr>"

definition attached_job_ids :: "db \<Rightarrow> string \<Rightarrow> string list" where
  "attached_job_ids d ident =
     map link_job (sort_key link_attached_at (filter (\<lambda>k. link_lease k = ident) (links d)))"

definition append_lease_event :: "pyenv \<Rightarrow> string \<Rightarrow> json \<Rightarrow> time \<Rightarrow> db \<Rightarrow> pyerr + db" where
  "append_lease_event env ident event observed d =
     fold_tx (\<lambda>job d. case append_event_in_transaction env observed d job event
                             (Some ''dispatcher:lease-control'') None
                             (Some (At observed)) (Some observed) of
                        Inl e \<Rightarrow> Inl e | Inr (d', r) \<Rightarrow> Inr d')
       (attached_job_ids d ident) d"

definition link_exists :: "db \<Rightarrow> string \<Rightarrow> string \<Rightarrow> bool" where
  "link_exists d l j = list_ex (\<lambda>k. link_lease k = l \<and> link_job k = j) (links d)"

definition insert_link :: "string \<Rightarrow> string \<Rightarrow> time \<Rightarrow> db \<Rightarrow> db" where
  \<comment> \<open>INSERT OR IGNORE INTO job_lease_jobs\<close>
  "insert_link l j now d =
     (if link_exists d l j then d
      else d\<lparr>links := links d @ [\<lparr>link_lease = l, link_job = j, link_attached_at = now\<rparr>]\<rparr>)"

definition lease_missing :: "string \<Rightarrow> pyerr" where
  "lease_missing ident = KeyError (''Lease not found: '' @ ident)"

definition job_missing :: "string \<Rightarrow> pyerr" where
  "job_missing ident = KeyError (''Job not found: '' @ ident)"

definition coalesce :: "'a option \<Rightarrow> 'a option \<Rightarrow> 'a option" where
  "coalesce a b = (case a of None \<Rightarrow> b | Some x \<Rightarrow> Some x)"

definition truthy_opt :: "string option \<Rightarrow> string option" where
  \<comment> \<open>\<open>str(x) if x else None\<close>\<close>
  "truthy_opt s = (if given s then s else None)"

section \<open>Creating\<close>

definition cost_deadline :: "time \<Rightarrow> rat option \<Rightarrow> rat option \<Rightarrow> time option" where
  "cost_deadline now cost_limit rate =
     (case (cost_limit, rate) of
        (Some c, Some r) \<Rightarrow> if 0 < r then Some (now + seconds_rat (3600 * c / r)) else None
      | _ \<Rightarrow> None)"

definition runtime_limit :: "int option \<Rightarrow> int option" where
  "runtime_limit m = map_option (max 1) m"

definition resource_name :: "string \<Rightarrow> string" where
  "resource_name ident = ''cloud-offload-'' @ take 16 (filter (\<lambda>c. c \<noteq> CHR ''-'') ident)"

definition lease_terms_error :: "rat option \<Rightarrow> rat option \<Rightarrow> pyerr option" where
  "lease_terms_error rate cost_limit =
     (if (case rate of None \<Rightarrow> False | Some r \<Rightarrow> r < 0)
      then Some (ValueError ''Lease hourly rate cannot be negative'')
      else case cost_limit of
        None \<Rightarrow> None
      | Some c \<Rightarrow>
          if c \<le> 0 then Some (ValueError ''Lease cost limit must be greater than zero'')
          else case rate of
                 None \<Rightarrow> Some (ValueError ''A lease cost limit requires a positive hourly rate'')
               | Some r \<Rightarrow>
                   if r \<le> 0 then Some (ValueError ''A lease cost limit requires a positive hourly rate'')
                   else None)"

definition new_lease ::
  "string \<Rightarrow> string \<Rightarrow> string \<Rightarrow> rat option \<Rightarrow> int option \<Rightarrow> rat option \<Rightarrow> int \<Rightarrow> time \<Rightarrow> lease"
where
  "new_lease ident provider profile rate max_runtime cost_limit ttl now =
     \<lparr>lease_id = ident, lease_provider = provider, lease_instance_id = None,
      lease_resource_name = resource_name ident, lease_runtime_profile = profile,
      lease_worker_id = None, lease_status = Provisioning, lease_created_at = now,
      lease_updated_at = now, lease_expires_at = now + seconds (max 1 ttl),
      lease_renewed_at = now, lease_hourly_rate = rate,
      lease_max_runtime_seconds = runtime_limit max_runtime, lease_max_cost_usd = cost_limit,
      lease_runtime_deadline = map_option (\<lambda>m. now + seconds m) (runtime_limit max_runtime),
      lease_cost_deadline = cost_deadline now cost_limit rate, lease_revoked_at = None,
      lease_termination_requested_at = None, lease_termination_confirmed_at = None,
      lease_termination_attempts = 0, lease_reason = None, lease_last_error = None\<rparr>"

definition attach_jobs :: "string \<Rightarrow> string list \<Rightarrow> time \<Rightarrow> db \<Rightarrow> pyerr + db" where
  "attach_jobs ident job_ids now d =
     fold_tx (\<lambda>j d. if find_job d j = None then Inl (job_missing j)
                    else Inr (insert_link ident j now d)) job_ids d"

definition lease_created_event :: "pyenv \<Rightarrow> lease \<Rightarrow> json" where
  "lease_created_event env l =
     JObj [(''type'', JStr ''lease_created''), (''phase'', JStr ''provisioning''),
           (''lease_id'', JStr (lease_id l)), (''provider'', JStr (lease_provider l)),
           (''runtime_profile'', JStr (lease_runtime_profile l)),
           (''hourly_rate'', jfloat_opt (lease_hourly_rate l)),
           (''runtime_deadline'', jtime env (lease_runtime_deadline l)),
           (''cost_deadline'', jtime env (lease_cost_deadline l))]"

definition create_lease ::
  "pyenv \<Rightarrow> time \<Rightarrow> string \<Rightarrow> db \<Rightarrow> string \<Rightarrow> string \<Rightarrow> string list \<Rightarrow> rat option \<Rightarrow> int option \<Rightarrow>
   rat option \<Rightarrow> int \<Rightarrow> string option \<Rightarrow> (db, lease) tx"
where
  "create_lease env now uuid d provider profile job_ids rate max_runtime max_cost ttl wanted =
     (let p = py_strip provider; q = py_strip profile;
          ident = (if given wanted then or_default uuid wanted else uuid);
          l = new_lease ident p q rate max_runtime max_cost ttl now
      in if p = [] \<or> q = [] then Inl (ValueError ''A lease requires provider and runtime profile'')
         else case lease_terms_error rate max_cost of
           Some e \<Rightarrow> Inl e
         | None \<Rightarrow>
             if find_lease d ident \<noteq> None
             then Inl (IntegrityError ''UNIQUE constraint failed: job_leases.id'')
             else case attach_jobs ident (first_seen job_ids) now (d\<lparr>leases := leases d @ [l]\<rparr>) of
               Inl e \<Rightarrow> Inl e
             | Inr d1 \<Rightarrow>
                 (case append_lease_event env ident (lease_created_event env l) now d1 of
                    Inl e \<Rightarrow> Inl e
                  | Inr d2 \<Rightarrow> Inr (d2, l)))"

section \<open>Reading\<close>

definition list_open_leases :: "db \<Rightarrow> lease list" where
  "list_open_leases d = sort_key lease_created_at (filter (\<lambda>l. lease_open (lease_status l)) (leases d))"

definition leases_for_job :: "db \<Rightarrow> string \<Rightarrow> bool \<Rightarrow> lease list" where
  "leases_for_job d job open_only =
     sort_key lease_created_at
       (filter (\<lambda>l. link_exists d (lease_id l) job \<and> (open_only \<longrightarrow> lease_open (lease_status l)))
          (leases d))"

definition jobs_for_lease :: "db \<Rightarrow> string \<Rightarrow> job list" where
  "jobs_for_lease d ident =
     sort_key job_created_at (filter (\<lambda>j. link_exists d ident (job_id j)) (jobs d))"

section \<open>Attaching, binding and renewing\<close>

definition attach_job_to_lease ::
  "pyenv \<Rightarrow> time \<Rightarrow> db \<Rightarrow> string \<Rightarrow> string \<Rightarrow> (db, unit) tx"
where
  "attach_job_to_lease env now d ident job =
     (if find_lease d ident = None then Inl (lease_missing ident)
      else if find_job d job = None then Inl (job_missing job)
      else if link_exists d ident job then Inr (d, ())
      else (case append_event_in_transaction env now (insert_link ident job now d) job
                  (JObj [(''type'', JStr ''lease_job_attached''), (''phase'', JStr ''provisioning''),
                         (''lease_id'', JStr ident)])
                  (Some ''coordinator:lease-control'') None (Some (At now)) (Some now) of
             Inl e \<Rightarrow> Inl e
           | Inr (d', r) \<Rightarrow> Inr (d', ())))"

definition bound_elsewhere :: "db \<Rightarrow> lease \<Rightarrow> string \<Rightarrow> bool" where
  \<comment> \<open>the unique index on (provider, instance_id) has an entry of another lease\<close>
  "bound_elsewhere d l instance =
     list_ex (\<lambda>m. lease_id m \<noteq> lease_id l \<and> lease_provider m = lease_provider l \<and>
                  lease_instance_id m = Some instance) (leases d)"

definition bind_row :: "string \<Rightarrow> string option \<Rightarrow> int \<Rightarrow> time \<Rightarrow> lease \<Rightarrow> lease" where
  "bind_row instance worker ttl now l =
     l\<lparr>lease_instance_id := Some instance,
       lease_worker_id := coalesce (lease_worker_id l) (truthy_opt worker),
       lease_status := Active, lease_updated_at := now, lease_renewed_at := now,
       lease_expires_at := now + seconds (max 1 ttl)\<rparr>"

definition bind_lease ::
  "pyenv \<Rightarrow> time \<Rightarrow> db \<Rightarrow> string \<Rightarrow> string \<Rightarrow> string option \<Rightarrow> int \<Rightarrow> (db, lease) tx"
where
  "bind_lease env now d ident instance worker ttl =
     (case find_lease d ident of
        None \<Rightarrow> Inl (lease_missing ident)
      | Some l \<Rightarrow>
          if given (lease_instance_id l) \<and> lease_instance_id l \<noteq> Some instance
          then Inl (ValueError ''Lease is already bound to a different provider resource'')
          else if lease_status l \<notin> {Provisioning, Active} then Inr (d, l)
          else if bound_elsewhere d l instance
          then Inl (IntegrityError ''UNIQUE constraint failed: job_leases.provider, job_leases.instance_id'')
          else (case append_lease_event env ident
                      (JObj [(''type'', JStr ''lease_bound''), (''phase'', JStr ''provisioning''),
                             (''lease_id'', JStr ident), (''provider'', JStr (lease_provider l)),
                             (''worker_instance_id'', JStr instance),
                             (''hourly_rate'', jfloat_opt (lease_hourly_rate l))])
                      now (update_lease ident (bind_row instance worker ttl now) d) of
                 Inl e \<Rightarrow> Inl e
               | Inr d' \<Rightarrow> Inr (d', bind_row instance worker ttl now l)))"

definition renew_row :: "string option \<Rightarrow> int \<Rightarrow> time \<Rightarrow> lease \<Rightarrow> lease" where
  "renew_row worker ttl now l =
     l\<lparr>lease_worker_id := coalesce (lease_worker_id l) worker, lease_updated_at := now,
       lease_renewed_at := now, lease_expires_at := now + seconds (max 1 ttl)\<rparr>"

definition renew_lease ::
  "time \<Rightarrow> db \<Rightarrow> string \<Rightarrow> string option \<Rightarrow> int \<Rightarrow> (db, lease) tx"
where
  "renew_lease now d ident worker ttl =
     (case find_lease d ident of
        None \<Rightarrow> Inl (lease_missing ident)
      | Some l \<Rightarrow>
          if lease_status l \<noteq> Active then Inr (d, l)
          else if given (lease_worker_id l) \<and> given worker \<and> lease_worker_id l \<noteq> worker
          then Inl (PermissionError ''Lease is bound to a different worker'')
          else Inr (update_lease ident (renew_row (truthy_opt worker) ttl now) d,
                    renew_row (truthy_opt worker) ttl now l))"

section \<open>Revoking and closing\<close>

definition safe_reason :: "string \<Rightarrow> string" where
  "safe_reason reason = or_str (take 256 (py_strip reason)) ''revoked''"

definition revoke_row :: "string \<Rightarrow> time \<Rightarrow> lease \<Rightarrow> lease" where
  "revoke_row reason now l =
     l\<lparr>lease_status := Revocation_Requested, lease_revoked_at := Some now,
       lease_updated_at := now, lease_expires_at := now, lease_reason := Some reason\<rparr>"

definition request_lease_revocation ::
  "pyenv \<Rightarrow> time \<Rightarrow> db \<Rightarrow> string \<Rightarrow> string \<Rightarrow> (db, lease) tx"
where
  "request_lease_revocation env now d ident reason =
     (case find_lease d ident of
        None \<Rightarrow> Inl (lease_missing ident)
      | Some l \<Rightarrow>
          if \<not> lease_open (lease_status l) then Inr (d, l)
          else if lease_status l \<in> {Revocation_Requested, Terminating} then Inr (d, l)
          else (case append_lease_event env ident
                      (JObj [(''type'', JStr ''lease_revoked''), (''phase'', JStr ''resource_closure''),
                             (''lease_id'', JStr ident), (''provider'', JStr (lease_provider l)),
                             (''worker_instance_id'', jopt (lease_instance_id l)),
                             (''reason'', JStr (safe_reason reason))])
                      now (update_lease ident (revoke_row (safe_reason reason) now) d) of
                 Inl e \<Rightarrow> Inl e
               | Inr d' \<Rightarrow> Inr (d', revoke_row (safe_reason reason) now l)))"

fun revoke_each ::
  "pyenv \<Rightarrow> time \<Rightarrow> string \<Rightarrow> lease list \<Rightarrow> db \<Rightarrow> db \<times> (pyerr + lease list)"
where
  "revoke_each env now reason [] d = (d, Inr [])"
| "revoke_each env now reason (l # ls) d =
     (case request_lease_revocation env now d (lease_id l) reason of
        Inl e \<Rightarrow> (d, Inl e)
      | Inr (d', l') \<Rightarrow>
          (case revoke_each env now reason ls d' of
             (d'', Inl e) \<Rightarrow> (d'', Inl e)
           | (d'', Inr ls') \<Rightarrow> (d'', Inr (l' # ls'))))"

definition request_job_lease_revocation ::
  "pyenv \<Rightarrow> time \<Rightarrow> db \<Rightarrow> string \<Rightarrow> string \<Rightarrow> db \<times> (pyerr + lease list)"
where
  \<comment> \<open>one transaction per lease: those revoked before an exception stay revoked\<close>
  "request_job_lease_revocation env now d job reason =
     revoke_each env now reason (leases_for_job d job True) d"

definition attempt_row :: "string option \<Rightarrow> time \<Rightarrow> lease \<Rightarrow> lease" where
  "attempt_row err now l =
     l\<lparr>lease_status := Terminating, lease_updated_at := now,
       lease_termination_requested_at := coalesce (lease_termination_requested_at l) (Some now),
       lease_termination_attempts := lease_termination_attempts l + 1,
       lease_last_error := err\<rparr>"

definition record_termination_attempt ::
  "pyenv \<Rightarrow> time \<Rightarrow> db \<Rightarrow> string \<Rightarrow> string option \<Rightarrow> (db, lease) tx"
where
  "record_termination_attempt env now d ident err =
     (let safe_error = map_option (take 256) (truthy_opt err)
      in case find_lease d ident of
           None \<Rightarrow> Inl (lease_missing ident)
         | Some l \<Rightarrow>
             if \<not> lease_open (lease_status l) then Inr (d, l)
             else (case append_lease_event env ident
                         (JObj [(''type'', JStr ''provider_termination_requested''),
                                (''phase'', JStr ''resource_closure''),
                                (''lease_id'', JStr ident), (''provider'', JStr (lease_provider l)),
                                (''worker_instance_id'', jopt (lease_instance_id l)),
                                (''attempt'', JInt (lease_termination_attempts l + 1))])
                         now (update_lease ident (attempt_row safe_error now) d) of
                    Inl e \<Rightarrow> Inl e
                  | Inr d' \<Rightarrow> Inr (d', attempt_row safe_error now l)))"

definition confirm_row :: "time \<Rightarrow> lease \<Rightarrow> lease" where
  "confirm_row now l =
     l\<lparr>lease_status := Closed, lease_updated_at := now,
       lease_termination_confirmed_at := Some now, lease_expires_at := now,
       lease_last_error := None\<rparr>"

definition confirm_lease_termination ::
  "pyenv \<Rightarrow> time \<Rightarrow> db \<Rightarrow> string \<Rightarrow> string \<Rightarrow> bool \<Rightarrow> (db, lease) tx"
where
  "confirm_lease_termination env now d ident observed_state provider_absent =
     (let state = or_str (take 64 (py_strip observed_state)) ''absent''
      in case find_lease d ident of
           None \<Rightarrow> Inl (lease_missing ident)
         | Some l \<Rightarrow>
             if lease_status l = Closed \<and> lease_termination_confirmed_at l \<noteq> None then Inr (d, l)
             else (case append_lease_event env ident
                         (JObj [(''type'', JStr ''provider_termination_completed''),
                                (''phase'', JStr ''resource_closure''),
                                (''lease_id'', JStr ident), (''provider'', JStr (lease_provider l)),
                                (''worker_instance_id'', jopt (lease_instance_id l)),
                                (''evidence'', JObj
                                  [(''provider_acknowledged'', JBool True),
                                   (''provider_absent'', JBool provider_absent),
                                   (''observed_state'', JStr state),
                                   (''termination_attempts'', JInt (lease_termination_attempts l))])])
                         now (update_lease ident (confirm_row now) d) of
                    Inl e \<Rightarrow> Inl e
                  | Inr d' \<Rightarrow> Inr (d', confirm_row now l)))"

definition unbound_row :: "string \<Rightarrow> time \<Rightarrow> lease \<Rightarrow> lease" where
  "unbound_row reason now l =
     l\<lparr>lease_status := Closed, lease_updated_at := now, lease_expires_at := now,
       lease_reason := Some (take 256 reason)\<rparr>"

definition close_unbound_lease ::
  "pyenv \<Rightarrow> time \<Rightarrow> db \<Rightarrow> string \<Rightarrow> string \<Rightarrow> (db, lease) tx"
where
  "close_unbound_lease env now d ident reason =
     (case find_lease d ident of
        None \<Rightarrow> Inl (lease_missing ident)
      | Some l \<Rightarrow>
          if given (lease_instance_id l)
          then Inl (ValueError ''A bound lease requires provider termination evidence'')
          else (case append_lease_event env ident
                      (JObj [(''type'', JStr ''lease_closed_without_resource''),
                             (''phase'', JStr ''provisioning''),
                             (''lease_id'', JStr ident), (''provider'', JStr (lease_provider l)),
                             (''reason'', JStr (take 256 reason))])
                      now (update_lease ident (unbound_row reason now) d) of
                 Inl e \<Rightarrow> Inl e
               | Inr d' \<Rightarrow> Inr (d', unbound_row reason now l)))"

end
