(* ===== verification/Queue.thy ===== *)
theory Queue
  imports Leases
begin

text \<open>
  The job operations of \<open>JobQueue\<close> in \<open>cloud_offload/queue.py\<close>: creation, status changes with
  their journal entries, failure with retries, progress, results, listing and deletion.
\<close>

section \<open>Creating and writing rows\<close>

definition queue_producer :: string where
  "queue_producer = ''coordinator:job-queue''"

definition queue_event ::
  "pyenv \<Rightarrow> db \<Rightarrow> string \<Rightarrow> json \<Rightarrow> time \<Rightarrow> pyerr + db"
where
  \<comment> \<open>\<open>_append_event_in_transaction\<close> as the queue itself calls it\<close>
  "queue_event env d ident event t =
     (case append_event_in_transaction env t d ident event (Some queue_producer) None
             (Some (At t)) (Some t) of
        Inl e \<Rightarrow> Inl e
      | Inr (d', r) \<Rightarrow> Inr d')"

definition create ::
  "pyenv \<Rightarrow> time \<Rightarrow> string \<Rightarrow> db \<Rightarrow> string \<Rightarrow> string \<Rightarrow> json \<Rightarrow> json \<Rightarrow> string option \<Rightarrow>
   job_status \<Rightarrow> string option \<Rightarrow> (db, job) tx"
where
  "create env now uuid d model input_path params request provider st wanted =
     (let ident = (if given wanted then or_default uuid wanted else uuid);
          j = new_job ident model st input_path
                (if truthy params then params else JObj [])
                (if truthy request then request else JObj []) provider now
      in if find_job d ident \<noteq> None
         then Inl (IntegrityError ''UNIQUE constraint failed: jobs.id'')
         else (case queue_event env (d\<lparr>jobs := jobs d @ [j]\<rparr>) ident
                      (lifecycle_event env j ''job_created'' None) now of
                 Inl e \<Rightarrow> Inl e
               | Inr d' \<Rightarrow> Inr (d', j)))"

definition write_job :: "job \<Rightarrow> db \<Rightarrow> db" where
  \<comment> \<open>\<open>_write_job\<close>: every column but the id and the creation time\<close>
  "write_job j d =
     d\<lparr>jobs := update_where (\<lambda>r. job_id r = job_id j)
                 (\<lambda>r. j\<lparr>job_created_at := job_created_at r\<rparr>) (jobs d)\<rparr>"

definition journal_change :: "pyenv \<Rightarrow> job \<Rightarrow> job_status \<Rightarrow> int \<Rightarrow> time \<Rightarrow> db \<Rightarrow> pyerr + db" where
  \<comment> \<open>one status event, else one progress event, else nothing\<close>
  "journal_change env j previous_status previous_progress t d =
     (if previous_status \<noteq> job_status j
      then queue_event env d (job_id j)
             (lifecycle_event env j ''job_status_changed'' (Some previous_status)) t
      else if previous_progress \<noteq> job_progress j
      then queue_event env d (job_id j) (progress_event env j previous_progress) t
      else Inr d)"

definition update :: "pyenv \<Rightarrow> time \<Rightarrow> db \<Rightarrow> job \<Rightarrow> (db, job) tx" where
  \<comment> \<open>the job is stamped first; a missing row is written and journaled nowhere\<close>
  "update env now d j0 =
     (let j = j0\<lparr>job_updated_at := now\<rparr>
      in case find_job d (job_id j) of
           None \<Rightarrow> Inr (write_job j d, j)
         | Some row \<Rightarrow>
             (case journal_change env j (job_status row) (job_progress row) now (write_job j d) of
                Inl e \<Rightarrow> Inl e
              | Inr d' \<Rightarrow> Inr (d', j)))"

section \<open>Status changes\<close>

datatype job_kw =
    Kw_model string
  | Kw_input_path string
  | Kw_params json
  | Kw_request json
  | Kw_provider "string option"
  | Kw_preview_path "string option"
  | Kw_result_path "string option"
  | Kw_result "json option"
  | Kw_progress int
  | Kw_started_at "time option"
  | Kw_completed_at "time option"
  | Kw_worker_id "string option"
  | Kw_attempts int
  | Kw_max_attempts int
  | Kw_schema_version int
  | Kw_unknown string

fun set_kw :: "job \<Rightarrow> job_kw \<Rightarrow> job" where
  \<comment> \<open>\<open>if hasattr(job, key): setattr(job, key, value)\<close>\<close>
  "set_kw j (Kw_model v) = j\<lparr>job_model := v\<rparr>"
| "set_kw j (Kw_input_path v) = j\<lparr>job_input_path := v\<rparr>"
| "set_kw j (Kw_params v) = j\<lparr>job_params := v\<rparr>"
| "set_kw j (Kw_request v) = j\<lparr>job_request := v\<rparr>"
| "set_kw j (Kw_provider v) = j\<lparr>job_provider := v\<rparr>"
| "set_kw j (Kw_preview_path v) = j\<lparr>job_preview_path := v\<rparr>"
| "set_kw j (Kw_result_path v) = j\<lparr>job_result_path := v\<rparr>"
| "set_kw j (Kw_result v) = j\<lparr>job_result := v\<rparr>"
| "set_kw j (Kw_progress v) = j\<lparr>job_progress := v\<rparr>"
| "set_kw j (Kw_started_at v) = j\<lparr>job_started_at := v\<rparr>"
| "set_kw j (Kw_completed_at v) = j\<lparr>job_completed_at := v\<rparr>"
| "set_kw j (Kw_worker_id v) = j\<lparr>job_worker_id := v\<rparr>"
| "set_kw j (Kw_attempts v) = j\<lparr>job_attempts := v\<rparr>"
| "set_kw j (Kw_max_attempts v) = j\<lparr>job_max_attempts := v\<rparr>"
| "set_kw j (Kw_schema_version v) = j\<lparr>job_schema_version := v\<rparr>"
| "set_kw j (Kw_unknown k) = j"

definition stamp_status :: "job_status \<Rightarrow> time \<Rightarrow> job \<Rightarrow> job" where
  "stamp_status st now j =
     (if st = RUNNING then j\<lparr>job_updated_at := now, job_started_at := Some now\<rparr>
      else if terminal st then j\<lparr>job_updated_at := now, job_completed_at := Some now\<rparr>
      else j\<lparr>job_updated_at := now, job_completed_at := None\<rparr>)"

definition status_error :: "job_status \<Rightarrow> string option \<Rightarrow> job \<Rightarrow> job" where
  "status_error st err j =
     (case err of
        Some e \<Rightarrow> j\<lparr>job_error := Some e\<rparr>
      | None \<Rightarrow> if st \<in> {RUNNING, COMPLETED} then j\<lparr>job_error := None\<rparr> else j)"

definition changed_job ::
  "job_status \<Rightarrow> string option \<Rightarrow> job_kw list \<Rightarrow> time \<Rightarrow> job \<Rightarrow> job"
where
  "changed_job st err kws now j =
     stamp_status st now (foldl set_kw (status_error st err (j\<lparr>job_status := st\<rparr>)) kws)"

definition update_status ::
  "pyenv \<Rightarrow> time \<Rightarrow> db \<Rightarrow> string \<Rightarrow> job_status \<Rightarrow> string option \<Rightarrow> job_kw list \<Rightarrow>
   (db, job option) tx"
where
  "update_status env now d ident st err kws =
     (case find_job d ident of
        None \<Rightarrow> Inr (d, None)
      | Some j \<Rightarrow>
          if terminal (job_status j) then Inr (d, Some j)
          else let j' = changed_job st err kws now j
               in (case journal_change env j' (job_status j) (job_progress j) now (write_job j' d) of
                     Inl e \<Rightarrow> Inl e
                   | Inr d' \<Rightarrow> Inr (d', Some j')))"

definition failed_job :: "string \<Rightarrow> time \<Rightarrow> job \<Rightarrow> job" where
  "failed_job err now j =
     (let j1 = j\<lparr>job_error := Some err, job_worker_id := None, job_updated_at := now\<rparr>
      in if job_max_attempts j \<le> job_attempts j
         then j1\<lparr>job_status := DEAD_LETTER, job_completed_at := Some now\<rparr>
         else j1\<lparr>job_status := QUEUED, job_completed_at := None\<rparr>)"

definition fail_job :: "pyenv \<Rightarrow> time \<Rightarrow> db \<Rightarrow> string \<Rightarrow> string \<Rightarrow> (db, job option) tx" where
  "fail_job env now d ident err =
     (case find_job d ident of
        None \<Rightarrow> Inr (d, None)
      | Some j \<Rightarrow>
          if terminal (job_status j) then Inr (d, Some j)
          else let j' = failed_job err now j
               in if job_status j \<noteq> job_status j'
                  then (case queue_event env (write_job j' d) ident
                               (lifecycle_event env j' ''job_status_changed'' (Some (job_status j))) now of
                          Inl e \<Rightarrow> Inl e
                        | Inr d' \<Rightarrow> Inr (d', Some j'))
                  else Inr (write_job j' d, Some j'))"

section \<open>Progress\<close>

text \<open>
  \<open>set_progress\<close> reads the job in one transaction and writes it in another. \<open>progress_job\<close> is
  what it decides to write from the job that it read.
\<close>

definition progress_job :: "int \<Rightarrow> job \<Rightarrow> job" where
  "progress_job p j = j\<lparr>job_progress := max 0 (min 100 p)\<rparr>"

definition set_progress :: "pyenv \<Rightarrow> time \<Rightarrow> db \<Rightarrow> string \<Rightarrow> int \<Rightarrow> (db, job option) tx" where
  "set_progress env now d ident p =
     (case find_job d ident of
        None \<Rightarrow> Inr (d, None)
      | Some j \<Rightarrow>
          if terminal (job_status j) then Inr (d, Some j)
          else (case update env now d (progress_job p j) of
                  Inl e \<Rightarrow> Inl e
                | Inr (d', j') \<Rightarrow> Inr (d', Some j')))"

section \<open>Results and the partition cache\<close>

definition put_partition_cache :: "time \<Rightarrow> string \<Rightarrow> json \<Rightarrow> db \<Rightarrow> db" where
  "put_partition_cache now key result d =
     (if find (\<lambda>c. pc_key c = key) (cache d) = None
      then d\<lparr>cache := cache d @ [\<lparr>pc_key = key, pc_result = result, pc_created_at = now\<rparr>]\<rparr>
      else d\<lparr>cache := update_where (\<lambda>c. pc_key c = key)
                        (\<lambda>c. c\<lparr>pc_result := result, pc_created_at := now\<rparr>) (cache d)\<rparr>)"

definition get_partition_cache :: "db \<Rightarrow> string \<Rightarrow> json option" where
  "get_partition_cache d key = map_option pc_result (find (\<lambda>c. pc_key c = key) (cache d))"

definition completed_cache_key :: "pyenv \<Rightarrow> job option \<Rightarrow> string option" where
  "completed_cache_key env done_job =
     (case done_job of
        None \<Rightarrow> None
      | Some j \<Rightarrow>
          if job_status j = COMPLETED \<and> truthy (obj_get (job_params j) ''partition_cache_key'')
          then Some (py_str env (obj_get (job_params j) ''partition_cache_key'')) else None)"

definition complete_job ::
  "pyenv \<Rightarrow> time \<Rightarrow> time \<Rightarrow> db \<Rightarrow> string \<Rightarrow> json \<Rightarrow> (db, job option) tx"
where
  \<comment> \<open>the status change commits before the cache entry is written\<close>
  "complete_job env now now2 d ident result =
     (case update_status env now d ident COMPLETED None [Kw_result (Some result), Kw_progress 100] of
        Inl e \<Rightarrow> Inl e
      | Inr (d1, completed) \<Rightarrow>
          Inr (case completed_cache_key env completed of
                 None \<Rightarrow> d1
               | Some key \<Rightarrow> put_partition_cache now2 key result d1, completed))"

section \<open>Listing and deleting\<close>

definition status_match :: "job_status list \<Rightarrow> string option \<Rightarrow> job \<Rightarrow> bool" where
  "status_match sts provider j \<longleftrightarrow>
     job_status j \<in> set sts \<and> (given provider \<longrightarrow> job_provider j = provider)"

definition list_by_status :: "db \<Rightarrow> job_status list \<Rightarrow> string option \<Rightarrow> job list" where
  "list_by_status d sts provider =
     sort_key job_created_at (filter (status_match sts provider) (jobs d))"

definition count_by_status :: "db \<Rightarrow> job_status list \<Rightarrow> string option \<Rightarrow> nat" where
  "count_by_status d sts provider = rowcount (status_match sts provider) (jobs d)"

definition recent_key :: "job \<Rightarrow> int \<times> int \<times> int" where
  "recent_key j = (if terminal (job_status j) then 1 else 0, - job_updated_at j, - job_created_at j)"

definition list_recent :: "db \<Rightarrow> int \<Rightarrow> bool \<Rightarrow> job list" where
  "list_recent d limit active_only =
     take (nat (max 1 (min 200 limit)))
       (sort_key recent_key
          (filter (\<lambda>j. active_only \<longrightarrow> \<not> terminal (job_status j)) (jobs d)))"

definition delete :: "db \<Rightarrow> string \<Rightarrow> db \<times> bool" where
  \<comment> \<open>the connection never enables foreign keys, so nothing else is deleted\<close>
  "delete d ident =
     (d\<lparr>jobs := filter (\<lambda>j. job_id j \<noteq> ident) (jobs d)\<rparr>, find_job d ident \<noteq> None)"

definition days :: "int \<Rightarrow> time" where
  "days n = seconds (86400 * n)"

definition expired_job :: "time \<Rightarrow> job \<Rightarrow> bool" where
  "expired_job cutoff j \<longleftrightarrow>
     terminal (job_status j) \<and>
     (case job_completed_at j of None \<Rightarrow> False | Some t \<Rightarrow> t < cutoff)"

definition cleanup_old :: "time \<Rightarrow> db \<Rightarrow> int \<Rightarrow> db \<times> nat" where
  "cleanup_old now d n =
     (let cutoff = now - days n
      in (d\<lparr>jobs := filter (\<lambda>j. \<not> expired_job cutoff j) (jobs d)\<rparr>,
          rowcount (expired_job cutoff) (jobs d)))"

end
