(* ===== verification/Claims.thy ===== *)
theory Claims
  imports Queue
begin

text \<open>
  What workers do with the queue in \<open>cloud_offload/queue.py\<close>: the credential check, the atomic
  claim of matching jobs under a lease, the authorisation of a callback, and heartbeats.
\<close>

section \<open>Worker credentials\<close>

definition token_key :: string where
  "token_key = ''worker_token_sha256''"

definition get_meta :: "db \<Rightarrow> string \<Rightarrow> string option" where
  "get_meta d key = map_of (meta d) key"

fun meta_put :: "string \<Rightarrow> string \<Rightarrow> (string \<times> string) list \<Rightarrow> (string \<times> string) list" where
  "meta_put k v [] = [(k, v)]"
| "meta_put k v ((k', v') # m) = (if k = k' then (k, v) # m else (k', v') # meta_put k v m)"

definition set_meta :: "string \<Rightarrow> string \<Rightarrow> db \<Rightarrow> db" where
  "set_meta key v d = d\<lparr>meta := meta_put key v (meta d)\<rparr>"

definition set_worker_token :: "pyenv \<Rightarrow> db \<Rightarrow> string \<Rightarrow> (db, unit) tx" where
  "set_worker_token env d token =
     (if token = [] then Inl (ValueError ''Worker token must not be empty'')
      else Inr (set_meta token_key (sha256_hex env token) d, ()))"

definition worker_auth_configured :: "db \<Rightarrow> bool" where
  "worker_auth_configured d = given (get_meta d token_key)"

definition verify_worker_token :: "pyenv \<Rightarrow> db \<Rightarrow> string option \<Rightarrow> pyerr option" where
  \<comment> \<open>\<open>None\<close>: the token is accepted\<close>
  "verify_worker_token env d token =
     (if \<not> worker_auth_configured d then None
      else if \<not> given token then Some (PermissionError ''Worker token is required to claim jobs'')
      else if map_option (sha256_hex env) token \<noteq> get_meta d token_key
      then Some (PermissionError ''Worker token is invalid'') else None)"

definition authorize_worker :: "pyenv \<Rightarrow> db \<Rightarrow> string option \<Rightarrow> pyerr option" where
  "authorize_worker env d token =
     (if \<not> worker_auth_configured d
      then Some (PermissionError ''Worker authentication is not configured'')
      else verify_worker_token env d token)"

section \<open>Matching\<close>

record claim_request =
  cr_worker_id :: string
  cr_limit :: int
  cr_provider :: "string option"
  cr_models :: "string list option"
  cr_gpu_vram_gb :: "rat option"
  cr_gpu_name :: "string option"
  cr_cache_volume_id :: "string option"
  cr_lease_id :: "string option"
  cr_lease_ttl_seconds :: int

definition provider_matches :: "pyenv \<Rightarrow> claim_request \<Rightarrow> job \<Rightarrow> bool" where
  "provider_matches env q j \<longleftrightarrow>
     (given (cr_provider q) \<longrightarrow>
        job_provider j = cr_provider q \<or>
        (job_model j = plan_model \<and> job_provider j = None \<and>
         (case cr_provider q of
            None \<Rightarrow> False
          | Some p \<Rightarrow> obj_get (job_params j) ''provider_digest'' = JStr (str_digest env p))))"

definition model_matches :: "claim_request \<Rightarrow> job \<Rightarrow> bool" where
  "model_matches q j \<longleftrightarrow> (case cr_models q of None \<Rightarrow> True | Some ms \<Rightarrow> job_model j \<in> set ms)"

definition vram_matches :: "claim_request \<Rightarrow> job \<Rightarrow> bool" where
  "vram_matches q j \<longleftrightarrow>
     (case cr_gpu_vram_gb q of
        None \<Rightarrow> True
      | Some v \<Rightarrow> or_default 0 (sql_real (obj_get (job_params j) ''min_gpu_ram_gb''))
                    \<le> of_int (py_round (max 0 v)))"

definition gpu_text :: "pyenv \<Rightarrow> json \<Rightarrow> string option" where
  \<comment> \<open>the argument of the registered function: a falsy value counts as empty\<close>
  "gpu_text env v = (if truthy v then sql_text env v else None)"

definition gpu_matches :: "pyenv \<Rightarrow> claim_request \<Rightarrow> job \<Rightarrow> bool" where
  "gpu_matches env q j \<longleftrightarrow>
     (given (cr_gpu_name q) \<longrightarrow>
        (let wanted = obj_get (job_params j) ''gpu_type''
         in or_default ''any'' (map_option sql_lower (sql_text env wanted)) = ''any'' \<or>
            sql_like (''%'' @ canonical_gpu_name (gpu_text env wanted) @ ''%'')
                     (canonical_gpu_name (cr_gpu_name q))))"

definition prepared_volume :: "job \<Rightarrow> json" where
  "prepared_volume j = obj_get (obj_get (job_params j) ''preflight'') ''prepared_volume_id''"

definition cache_matches :: "claim_request \<Rightarrow> job \<Rightarrow> bool" where
  "cache_matches q j \<longleftrightarrow>
     (case cr_cache_volume_id q of
        None \<Rightarrow> True
      | Some v \<Rightarrow> prepared_volume j = JNull \<or> prepared_volume j = JStr v)"

definition claimable :: "pyenv \<Rightarrow> claim_request \<Rightarrow> job \<Rightarrow> bool" where
  "claimable env q j \<longleftrightarrow>
     job_status j = QUEUED \<and> provider_matches env q j \<and> model_matches q j \<and>
     vram_matches q j \<and> gpu_matches env q j \<and> cache_matches q j"

definition sql_limit :: "int \<Rightarrow> 'a list \<Rightarrow> 'a list" where
  \<comment> \<open>a negative LIMIT is no limit\<close>
  "sql_limit n xs = (if n < 0 then xs else take (nat n) xs)"

definition claim_rows :: "pyenv \<Rightarrow> db \<Rightarrow> claim_request \<Rightarrow> job list" where
  "claim_rows env d q =
     sql_limit (cr_limit q) (sort_key job_created_at (filter (claimable env q) (jobs d)))"

section \<open>Claiming\<close>

definition claim_lease :: "time \<Rightarrow> db \<Rightarrow> claim_request \<Rightarrow> (db, lease option) tx" where
  "claim_lease now d q =
     (if \<not> given (cr_lease_id q) then Inr (d, None)
      else let ident = or_default [] (cr_lease_id q)
      in case find_lease d ident of
           None \<Rightarrow> Inl (PermissionError ''Worker lease does not exist'')
         | Some l \<Rightarrow>
             if lease_status l \<noteq> Active then Inl (PermissionError ''Worker lease is not active'')
             else if given (cr_provider q) \<and> Some (lease_provider l) \<noteq> cr_provider q
             then Inl (PermissionError ''Worker lease provider does not match'')
             else if given (lease_worker_id l) \<and> lease_worker_id l \<noteq> Some (cr_worker_id q)
             then Inl (PermissionError ''Worker lease is bound to a different worker'')
             else if lease_expires_at l \<le> now then Inl (PermissionError ''Worker lease expired'')
             else Inr (update_lease ident
                         (renew_row (Some (cr_worker_id q)) (cr_lease_ttl_seconds q) now) d, Some l))"

definition claimed_job :: "string \<Rightarrow> time \<Rightarrow> job \<Rightarrow> job" where
  "claimed_job worker now j =
     j\<lparr>job_status := DISPATCHED, job_worker_id := Some worker,
       job_attempts := job_attempts j + 1, job_updated_at := now\<rparr>"

definition submit_claimed_plan :: "time \<Rightarrow> job \<Rightarrow> db \<Rightarrow> db" where
  "submit_claimed_plan now j d =
     (case obj_get (job_params j) ''plan_digest'' of
        JStr digest \<Rightarrow>
          if job_model j = plan_model
          then d\<lparr>plans := update_where
                   (\<lambda>p. pl_digest p = digest \<and> pl_job_id p = Some (job_id j) \<and>
                        pl_state p = Submitting)
                   (\<lambda>p. p\<lparr>pl_state := Submitted, pl_updated_at := now\<rparr>) (plans d)\<rparr>
          else d
      | _ \<Rightarrow> d)"

definition claim_one ::
  "pyenv \<Rightarrow> time \<Rightarrow> claim_request \<Rightarrow> lease option \<Rightarrow> string \<Rightarrow> db \<Rightarrow> (db, job option) tx"
where
  "claim_one env now q l ident d =
     (case find_job d ident of
        None \<Rightarrow> Inr (d, None)
      | Some j \<Rightarrow>
          let d1 = (case l of None \<Rightarrow> d | Some m \<Rightarrow> insert_link (lease_id m) ident now d)
          in (case queue_event env d1 ident
                     (lifecycle_event env j ''job_status_changed'' (Some QUEUED)) now of
                Inl e \<Rightarrow> Inl e
              | Inr d2 \<Rightarrow>
                  let d3 = submit_claimed_plan now j d2
                  in (case l of
                        None \<Rightarrow> Inr (d3, Some j)
                      | Some m \<Rightarrow>
                          (case append_event_in_transaction env now d3 ident
                                  (JObj [(''type'', JStr ''lease_job_claimed''),
                                         (''phase'', JStr ''worker_boot''),
                                         (''lease_id'', JStr (lease_id m)),
                                         (''provider'', JStr (lease_provider m)),
                                         (''worker_instance_id'', jopt (lease_instance_id m)),
                                         (''worker_id'', JStr (cr_worker_id q))])
                                  (Some ''coordinator:lease-control'') None
                                  (Some (At now)) (Some now) of
                             Inl e \<Rightarrow> Inl e
                           | Inr (d4, r) \<Rightarrow> Inr (d4, Some j)))))"

fun claim_each ::
  "pyenv \<Rightarrow> time \<Rightarrow> claim_request \<Rightarrow> lease option \<Rightarrow> string list \<Rightarrow> db \<Rightarrow> (db, job list) tx"
where
  "claim_each env now q l [] d = Inr (d, [])"
| "claim_each env now q l (i # is) d =
     (case claim_one env now q l i d of
        Inl e \<Rightarrow> Inl e
      | Inr (d', j) \<Rightarrow>
          (case claim_each env now q l is d' of
             Inl e \<Rightarrow> Inl e
           | Inr (d'', js) \<Rightarrow> Inr (d'', (case j of None \<Rightarrow> js | Some x \<Rightarrow> x # js))))"

definition claim_update :: "string list \<Rightarrow> string \<Rightarrow> time \<Rightarrow> db \<Rightarrow> db" where
  "claim_update ids worker now d =
     d\<lparr>jobs := update_where (\<lambda>j. job_id j \<in> set ids) (claimed_job worker now) (jobs d)\<rparr>"

definition claim_jobs ::
  "pyenv \<Rightarrow> time \<Rightarrow> time \<Rightarrow> db \<Rightarrow> string option \<Rightarrow> claim_request \<Rightarrow> (db, job list) tx"
where
  \<comment> \<open>\<open>now\<close> is read before the lease is checked, \<open>claimed_at\<close> once the rows are selected\<close>
  "claim_jobs env now claimed_at d token q =
     (case verify_worker_token env d token of
        Some e \<Rightarrow> Inl e
      | None \<Rightarrow>
          (case claim_lease now d q of
             Inl e \<Rightarrow> Inl e
           | Inr (d1, l) \<Rightarrow>
               if cr_models q = Some [] then Inr (d1, [])
               else let ids = map job_id (claim_rows env d1 q)
                    in if ids = [] then Inr (d1, [])
                       else claim_each env claimed_at q l ids
                              (claim_update ids (cr_worker_id q) claimed_at d1)))"

section \<open>Callbacks\<close>

definition authorize_worker_job ::
  "time \<Rightarrow> time \<Rightarrow> db \<Rightarrow> string \<Rightarrow> string option \<Rightarrow> string option \<Rightarrow> int \<Rightarrow> (db, job) tx"
where
  "authorize_worker_job now now2 d ident worker lease_ident ttl =
     (case find_job d ident of
        None \<Rightarrow> Inl (job_missing ident)
      | Some j \<Rightarrow>
          let ls = leases_for_job d ident True
          in if ls = [] then
               (if leases_for_job d ident False \<noteq> []
                then Inl (PermissionError ''Worker lease for this job is closed'')
                else Inr (d, j))
             else if \<not> given worker \<or> job_worker_id j \<noteq> worker
             then Inl (PermissionError ''Worker identity does not match the claimed job'')
             else (case find (\<lambda>l. lease_id l = or_default [] lease_ident) ls of
                     None \<Rightarrow> Inl (PermissionError ''Worker lease does not match the claimed job'')
                   | Some l \<Rightarrow>
                       if lease_status l \<in> {Revocation_Requested, Terminating} then Inr (d, j)
                       else if lease_expires_at l \<le> now
                       then Inl (PermissionError ''Worker lease expired'')
                       else (case renew_lease now2 d (lease_id l) worker ttl of
                               Inl e \<Rightarrow> Inl e
                             | Inr (d', l') \<Rightarrow>
                                 if lease_status l' \<noteq> Active
                                 then Inl (PermissionError ''Worker lease is not active'')
                                 else Inr (d', j))))"

section \<open>Heartbeats\<close>

definition worker_statuses :: "string list" where
  "worker_statuses = [''starting'', ''active'', ''failed'']"

definition live_worker_statuses :: "string list" where
  "live_worker_statuses = [''starting'', ''active'']"

definition merge_idle :: "time option \<Rightarrow> time option \<Rightarrow> time option" where
  \<comment> \<open>an idle heartbeat keeps the start of the idle period\<close>
  "merge_idle old reported = (case reported of None \<Rightarrow> None | Some t \<Rightarrow> coalesce old (Some t))"

definition upsert_worker :: "worker_row \<Rightarrow> db \<Rightarrow> db" where
  "upsert_worker w d =
     (if find (\<lambda>x. wk_id x = wk_id w) (workers d) = None
      then d\<lparr>workers := workers d @ [w]\<rparr>
      else d\<lparr>workers := update_where (\<lambda>x. wk_id x = wk_id w)
                (\<lambda>x. w\<lparr>wk_idle_since := merge_idle (wk_idle_since x) (wk_idle_since w)\<rparr>)
                (workers d)\<rparr>)"

definition record_worker ::
  "time \<Rightarrow> time \<Rightarrow> db \<Rightarrow> string \<Rightarrow> string \<Rightarrow> string \<Rightarrow> string option \<Rightarrow> string list \<Rightarrow> bool \<Rightarrow>
   string option \<Rightarrow> string option \<Rightarrow> int \<Rightarrow> (db, unit) tx"
where
  "record_worker now now2 d worker provider st profile capabilities idle detail lease_ident ttl =
     (let row = \<lparr>wk_id = worker, wk_provider = provider, wk_status = st, wk_last_seen = now2,
                 wk_idle_since = (if idle then Some now2 else None),
                 wk_runtime_profile = profile, wk_capabilities = capabilities, wk_detail = detail\<rparr>
      in if given lease_ident
         then (case renew_lease now d (or_default [] lease_ident) (Some worker) ttl of
                 Inl e \<Rightarrow> Inl e
               | Inr (d', l) \<Rightarrow>
                   if lease_status l \<noteq> Active
                   then Inl (PermissionError ''Worker lease is not active'')
                   else Inr (upsert_worker row d', ()))
         else Inr (upsert_worker row d, ()))"

definition worker_bindings :: "db \<Rightarrow> string \<Rightarrow> string \<Rightarrow> (string \<times> string) list" where
  \<comment> \<open>instance and lease of every active lease that names this worker and provider\<close>
  "worker_bindings d worker provider =
     map (\<lambda>l. (or_default [] (lease_instance_id l), lease_id l))
       (filter (\<lambda>l. lease_status l = Active \<and> lease_worker_id l = Some worker \<and>
                    lease_provider l = provider \<and> lease_instance_id l \<noteq> None) (leases d))"

definition worker_identity :: "db \<Rightarrow> string \<Rightarrow> string \<Rightarrow> (string \<times> string) option" where
  "worker_identity d worker provider =
     (case worker_bindings d worker provider of [b] \<Rightarrow> Some b | _ \<Rightarrow> None)"

record worker_view =
  wv_row :: worker_row
  wv_identity :: "(string \<times> string) option"
  wv_idle_seconds :: int

definition list_workers ::
  "time \<Rightarrow> time \<Rightarrow> db \<Rightarrow> int \<Rightarrow> string list option \<Rightarrow> worker_view list"
where
  "list_workers now now2 d max_age statuses =
     map (\<lambda>w. \<lparr>wv_row = w, wv_identity = worker_identity d (wk_id w) (wk_provider w),
               wv_idle_seconds =
                 (case wk_idle_since w of
                    None \<Rightarrow> 0
                  | Some t \<Rightarrow> max 0 (trunc_rat (of_int (now2 - t) / 1000000)))\<rparr>)
       (sort_key (\<lambda>w. (wk_provider w, wk_id w))
          (filter (\<lambda>w. now - seconds max_age \<le> wk_last_seen w \<and>
                       (case statuses of None \<Rightarrow> True | Some ss \<Rightarrow> wk_status w \<in> set ss))
             (workers d)))"

definition list_active_workers :: "time \<Rightarrow> time \<Rightarrow> db \<Rightarrow> int \<Rightarrow> worker_view list" where
  "list_active_workers now now2 d max_age =
     list_workers now now2 d max_age (Some live_worker_statuses)"

definition list_recent_workers :: "time \<Rightarrow> time \<Rightarrow> db \<Rightarrow> int \<Rightarrow> worker_view list" where
  "list_recent_workers now now2 d max_age = list_workers now now2 d max_age None"

end
