(* ===== verification/LeaseLaws.thy ===== *)
theory LeaseLaws
  imports Claims
begin

text \<open>
  Effects of the lease operations: what they do to the lease table, that a lease only moves
  forward through its states, and that the other tables see nothing but journal entries.
\<close>

section \<open>Journal growth\<close>

definition grows :: "db \<Rightarrow> db \<Rightarrow> bool" where
  "grows d d' \<longleftrightarrow> (\<exists>es. events d' = events d @ es) \<and> (journal_ok d \<longrightarrow> journal_ok d')"

definition quiet :: "db \<Rightarrow> db \<Rightarrow> bool" where
  \<comment> \<open>only the journal changed, and it only grew\<close>
  "quiet d d' \<longleftrightarrow> same_tables d d' \<and> grows d d'"

lemma grows_refl [simp]: "grows d d"
  by (simp add: grows_def)

lemma grows_trans: "grows d e \<Longrightarrow> grows e f \<Longrightarrow> grows d f"
  by (auto simp: grows_def)

lemma grows_frame [simp]:
  "grows (d\<lparr>jobs := x1\<rparr>) e = grows d e" "grows (d\<lparr>leases := x2\<rparr>) e = grows d e"
  "grows (d\<lparr>links := x3\<rparr>) e = grows d e" "grows (d\<lparr>workers := x4\<rparr>) e = grows d e"
  "grows (d\<lparr>cache := x5\<rparr>) e = grows d e" "grows (d\<lparr>meta := x6\<rparr>) e = grows d e"
  "grows (d\<lparr>plans := x7\<rparr>) e = grows d e" "grows (d\<lparr>authority := x8\<rparr>) e = grows d e"
  "grows d (e\<lparr>jobs := x1\<rparr>) = grows d e" "grows d (e\<lparr>leases := x2\<rparr>) = grows d e"
  "grows d (e\<lparr>links := x3\<rparr>) = grows d e" "grows d (e\<lparr>workers := x4\<rparr>) = grows d e"
  "grows d (e\<lparr>cache := x5\<rparr>) = grows d e" "grows d (e\<lparr>meta := x6\<rparr>) = grows d e"
  "grows d (e\<lparr>plans := x7\<rparr>) = grows d e" "grows d (e\<lparr>authority := x8\<rparr>) = grows d e"
  by (simp_all add: grows_def journal_ok_def)

lemma quiet_refl [simp]: "quiet d d"
  by (simp add: quiet_def)

lemma quiet_trans: "quiet d e \<Longrightarrow> quiet e f \<Longrightarrow> quiet d f"
  by (auto simp: quiet_def same_tables_def intro: grows_trans)

lemma quiet_tables:
  assumes "quiet d d'"
  shows "jobs d' = jobs d" "leases d' = leases d" "links d' = links d" "workers d' = workers d"
    "cache d' = cache d" "meta d' = meta d" "plans d' = plans d" "authority d' = authority d"
    "find_job d' k = find_job d k" "find_lease d' k = find_lease d k" "find_plan d' k = find_plan d k"
  using assms by (simp_all add: quiet_def same_tables_def find_job_def find_lease_def find_plan_def)

lemma quiet_grows: "quiet d d' \<Longrightarrow> grows d d'"
  by (simp add: quiet_def)

lemma append_quiet:
  assumes "append_event_in_transaction env now d ident event producer pseq occurred observed
             = Inr (d', r)"
  shows "quiet d d'"
  using assms
proof (cases rule: append_cases)
  case replayed
  then show ?thesis by simp
next
  case inserted
  then show ?thesis
    by (simp add: quiet_def same_tables_def grows_def journal_ok_journaled)
qed

lemma append_lease_event_quiet:
  assumes "append_lease_event env ident event t d = Inr d'"
  shows "quiet d d'"
  using assms unfolding append_lease_event_def
  by (rule fold_tx_invariant [where P = "quiet d"])
     (auto split: sum.splits intro: quiet_trans append_quiet)

lemma queue_event_quiet: "queue_event env d ident event t = Inr d' \<Longrightarrow> quiet d d'"
  by (auto simp: queue_event_def split: sum.splits intro: append_quiet)

section \<open>The effect of each lease operation\<close>

text \<open>
  \<open>lease_update d ident f d'\<close>: the row \<open>ident\<close> was rewritten with \<open>f\<close>, the journal grew and
  nothing else changed.
\<close>

definition lease_update :: "db \<Rightarrow> string \<Rightarrow> (lease \<Rightarrow> lease) \<Rightarrow> db \<Rightarrow> bool" where
  "lease_update d ident f d' \<longleftrightarrow> quiet (update_lease ident f d) d'"

lemma update_lease_tables [simp]:
  "jobs (update_lease i f d) = jobs d" "events (update_lease i f d) = events d"
  "links (update_lease i f d) = links d" "workers (update_lease i f d) = workers d"
  "cache (update_lease i f d) = cache d" "meta (update_lease i f d) = meta d"
  "plans (update_lease i f d) = plans d" "authority (update_lease i f d) = authority d"
  "event_counter (update_lease i f d) = event_counter d"
  "leases (update_lease i f d) = update_where (\<lambda>l. lease_id l = i) f (leases d)"
  "find_job (update_lease i f d) k = find_job d k"
  "find_plan (update_lease i f d) k = find_plan d k"
  by (simp_all add: update_lease_def)

lemma update_lease_find:
  assumes "\<And>l. lease_id (f l) = lease_id l"
  shows "find_lease (update_lease i f d) k =
           (if k = i then map_option f (find_lease d k) else find_lease d k)"
proof (cases "k = i")
  case True
  then show ?thesis
    by (simp add: find_lease_def find_update_where_same assms)
next
  case False
  then show ?thesis
    by (simp add: find_lease_def find_update_where_other assms)
qed

lemma grows_update_lease [simp]: "grows (update_lease i f d) e = grows d e"
  by (simp add: update_lease_def)

lemmas lease_rows =
  bind_row_def renew_row_def revoke_row_def attempt_row_def confirm_row_def unbound_row_def

lemma row_ids [simp]:
  "lease_id (bind_row i w t n l) = lease_id l" "lease_id (renew_row w t n l) = lease_id l"
  "lease_id (revoke_row r n l) = lease_id l" "lease_id (attempt_row e n l) = lease_id l"
  "lease_id (confirm_row n l) = lease_id l" "lease_id (unbound_row r n l) = lease_id l"
  by (simp_all add: lease_rows)

lemma bind_lease_effect:
  assumes "bind_lease env now d ident instance worker ttl = Inr (d', l')"
  shows "\<exists>l. find_lease d ident = Some l \<and>
     ((d' = d \<and> l' = l \<and> lease_status l \<notin> {Provisioning, Active}) \<or>
      (lease_status l \<in> {Provisioning, Active} \<and> \<not> bound_elsewhere d l instance \<and>
       l' = bind_row instance worker ttl now l \<and>
       (given (lease_instance_id l) \<longrightarrow> lease_instance_id l = Some instance) \<and>
       lease_update d ident (bind_row instance worker ttl now) d'))"
  using assms
  by (auto simp: bind_lease_def lease_update_def split: option.splits if_splits sum.splits
           dest: append_lease_event_quiet)

lemma renew_lease_effect:
  assumes "renew_lease now d ident worker ttl = Inr (d', l')"
  shows "\<exists>l. find_lease d ident = Some l \<and>
     ((d' = d \<and> l' = l \<and> lease_status l \<noteq> Active) \<or>
      (lease_status l = Active \<and> l' = renew_row (truthy_opt worker) ttl now l \<and>
       (given (lease_worker_id l) \<and> given worker \<longrightarrow> lease_worker_id l = worker) \<and>
       lease_update d ident (renew_row (truthy_opt worker) ttl now) d'))"
  using assms
  by (auto simp: renew_lease_def lease_update_def split: option.splits if_splits)

lemma revoke_lease_effect:
  assumes "request_lease_revocation env now d ident reason = Inr (d', l')"
  shows "\<exists>l. find_lease d ident = Some l \<and>
     ((d' = d \<and> l' = l \<and> lease_status l \<notin> {Provisioning, Active}) \<or>
      (lease_status l \<in> {Provisioning, Active} \<and> l' = revoke_row (safe_reason reason) now l \<and>
       lease_update d ident (revoke_row (safe_reason reason) now) d'))"
proof -
  have "s \<notin> {Closed, Revocation_Requested, Terminating} \<Longrightarrow> s \<in> {Provisioning, Active}" for s
    by (cases s) auto
  with assms show ?thesis
    by (auto simp: request_lease_revocation_def lease_update_def
             split: option.splits if_splits sum.splits dest: append_lease_event_quiet)
qed

lemma attempt_effect:
  assumes "record_termination_attempt env now d ident err = Inr (d', l')"
  shows "\<exists>l e. find_lease d ident = Some l \<and>
     ((d' = d \<and> l' = l \<and> lease_status l = Closed) \<or>
      (lease_status l \<noteq> Closed \<and> l' = attempt_row e now l \<and>
       lease_update d ident (attempt_row e now) d'))"
  using assms
  by (auto simp: record_termination_attempt_def Let_def lease_update_def
           split: option.splits if_splits sum.splits dest: append_lease_event_quiet)

lemma confirm_effect:
  assumes "confirm_lease_termination env now d ident state absent = Inr (d', l')"
  shows "\<exists>l. find_lease d ident = Some l \<and>
     ((d' = d \<and> l' = l \<and> lease_status l = Closed \<and> lease_termination_confirmed_at l \<noteq> None) \<or>
      (l' = confirm_row now l \<and> lease_update d ident (confirm_row now) d'))"
  using assms
  by (auto simp: confirm_lease_termination_def Let_def lease_update_def
           split: option.splits if_splits sum.splits dest: append_lease_event_quiet)

lemma close_unbound_effect:
  assumes "close_unbound_lease env now d ident reason = Inr (d', l')"
  shows "\<exists>l. find_lease d ident = Some l \<and> \<not> given (lease_instance_id l) \<and>
     l' = unbound_row reason now l \<and> lease_update d ident (unbound_row reason now) d'"
  using assms
  by (auto simp: close_unbound_lease_def lease_update_def
           split: option.splits if_splits sum.splits dest: append_lease_event_quiet)

lemma insert_link_tables [simp]:
  "jobs (insert_link l j n d) = jobs d" "events (insert_link l j n d) = events d"
  "leases (insert_link l j n d) = leases d" "workers (insert_link l j n d) = workers d"
  "cache (insert_link l j n d) = cache d" "meta (insert_link l j n d) = meta d"
  "plans (insert_link l j n d) = plans d" "authority (insert_link l j n d) = authority d"
  "event_counter (insert_link l j n d) = event_counter d"
  "find_job (insert_link l j n d) k = find_job d k"
  "find_lease (insert_link l j n d) k = find_lease d k"
  "find_plan (insert_link l j n d) k = find_plan d k"
  by (simp_all add: insert_link_def)

lemma grows_insert_link [simp]: "grows (insert_link l j n d) e = grows d e"
  by (simp add: insert_link_def)

definition link_key :: "lease_link \<Rightarrow> string \<times> string" where
  "link_key k = (link_lease k, link_job k)"

definition links_ok :: "db \<Rightarrow> bool" where
  "links_ok d \<longleftrightarrow> distinct (map link_key (links d))"

lemma insert_link_ok: "links_ok d \<Longrightarrow> links_ok (insert_link l j n d)"
  by (auto simp: links_ok_def insert_link_def link_exists_def list_ex_iff link_key_def)

text \<open>
  \<open>linked d d'\<close>: the journal grew and links were added; every other table is as it was.
\<close>

definition linked :: "db \<Rightarrow> db \<Rightarrow> bool" where
  "linked d d' \<longleftrightarrow>
     jobs d' = jobs d \<and> leases d' = leases d \<and> workers d' = workers d \<and> cache d' = cache d \<and>
     meta d' = meta d \<and> plans d' = plans d \<and> authority d' = authority d \<and>
     (links_ok d \<longrightarrow> links_ok d') \<and> grows d d'"

lemma linked_refl [simp]: "linked d d"
  by (simp add: linked_def)

lemma linked_trans: "linked d e \<Longrightarrow> linked e f \<Longrightarrow> linked d f"
  by (auto simp: linked_def intro: grows_trans)

lemma quiet_linked: "quiet d d' \<Longrightarrow> linked d d'"
  by (simp add: linked_def quiet_def same_tables_def links_ok_def)

lemma insert_link_linked: "linked d (insert_link l j n d)"
  unfolding linked_def using insert_link_ok [of d l j n] by (auto simp: insert_link_def)

lemma attach_jobs_linked:
  assumes "attach_jobs ident js now d = Inr d'"
  shows "linked d d'"
  using assms unfolding attach_jobs_def
  by (rule fold_tx_invariant [where P = "linked d"])
     (auto split: if_splits intro: linked_trans insert_link_linked)

lemma attach_job_effect:
  assumes "attach_job_to_lease env now d ident job = Inr (d', u)"
  shows "linked d d'"
  using assms
  by (auto simp: attach_job_to_lease_def split: if_splits sum.splits
           intro: linked_trans insert_link_linked quiet_linked dest!: append_quiet)

lemma create_lease_effect:
  assumes "create_lease env now uuid d provider profile js rate mr mc ttl wanted = Inr (d', l)"
  shows "find_lease d (lease_id l) = None \<and> linked (d\<lparr>leases := leases d @ [l]\<rparr>) d' \<and>
     l = new_lease (lease_id l) (py_strip provider) (py_strip profile) rate mr mc ttl now \<and>
     lease_terms_error rate mc = None"
proof -
  have ids: "lease_id (new_lease i p q rate mr mc ttl now) = i" for i p q
    by (simp add: new_lease_def)
  show ?thesis
    using assms
    by (auto simp: create_lease_def Let_def ids split: if_splits option.splits sum.splits
             intro: linked_trans quiet_linked
             dest!: attach_jobs_linked append_lease_event_quiet)
qed

end
