(* ===== verification/PlanQueue.thy ===== *)
theory PlanQueue
  imports Claims
begin

text \<open>
  Plan jobs: the result manifest check of \<open>cloud_offload/plan_protocol.py\<close>, the three
  transactions of \<open>cloud_offload/queue.py\<close> that end or retry a plan together with its queue
  row, and the state changes of \<open>PlanProtocolStore\<close>.
\<close>

section \<open>Result manifests\<close>

definition max_artifact_size :: int where
  "max_artifact_size = 2 ^ 63 - 1"

definition artifact_roles :: "string list" where
  "artifact_roles = [''input'', ''output'', ''intermediate'', ''checkpoint'', ''manifest'']"

definition at_index :: "nat \<Rightarrow> string \<Rightarrow> string" where
  "at_index n rest = ''result artifact['' @ nat_text n @ '']'' @ rest"

definition bound_field ::
  "json \<Rightarrow> string \<Rightarrow> string \<Rightarrow> string \<Rightarrow> string option \<Rightarrow> pyerr + (string \<times> json) list"
where
  \<comment> \<open>an optional opaque field that has to equal what is expected, when something is\<close>
  "bound_field doc field label message expected =
     (if \<not> obj_has doc field then Inr []
      else case safe_opaque (obj_get doc field) label of
             Inl e \<Rightarrow> Inl e
           | Inr v \<Rightarrow>
               (case expected of
                  None \<Rightarrow> Inr [(field, JStr v)]
                | Some x \<Rightarrow> if v \<noteq> x then Inl (PlanError message) else Inr [(field, JStr v)]))"

definition artifact_size :: "nat \<Rightarrow> json \<Rightarrow> pyerr + int" where
  "artifact_size n v =
     (case v of
        JInt i \<Rightarrow> if 0 < i \<and> i \<le> max_artifact_size then Inr i
                  else Inl (PlanError (at_index n ''.size is invalid''))
      | _ \<Rightarrow> Inl (PlanError (at_index n ''.size is invalid'')))"

definition artifact_role :: "nat \<Rightarrow> json \<Rightarrow> pyerr + string" where
  "artifact_role n v =
     (case v of
        JStr r \<Rightarrow> if r \<in> set artifact_roles then Inr r
                  else Inl (PlanError (at_index n ''.role is invalid''))
      | _ \<Rightarrow> Inl (PlanError (at_index n ''.role is invalid'')))"

definition validate_artifact ::
  "string option \<Rightarrow> string option \<Rightarrow> nat \<Rightarrow> string list \<Rightarrow> json \<Rightarrow> pyerr + (string \<times> json)"
where
  \<comment> \<open>the id and the normalised artifact\<close>
  "validate_artifact job lease_ident n seen a =
     (if \<not> is_obj a then Inl (PlanError (at_index n '' is invalid''))
      else if has_unknown a [''id'', ''sha256'', ''size'', ''media_type'', ''role'', ''producer'',
                             ''job_id'', ''lease_id'']
      then Inl (PlanError (at_index n '' has unknown fields''))
      else (case safe_opaque (obj_get a ''id'') (at_index n ''.id'') of Inl e \<Rightarrow> Inl e | Inr aid \<Rightarrow>
        if aid \<in> set seen then Inl (PlanError ''result artifact ids are not unique'')
        else (case plan_digest (obj_get a ''sha256'') (at_index n ''.sha256'') of Inl e \<Rightarrow> Inl e | Inr digest \<Rightarrow>
        (case artifact_size n (obj_get a ''size'') of Inl e \<Rightarrow> Inl e | Inr sz \<Rightarrow>
        (case plan_media (obj_get a ''media_type'') (at_index n ''.media_type'') of Inl e \<Rightarrow> Inl e | Inr media \<Rightarrow>
        (case artifact_role n (obj_get a ''role'') of Inl e \<Rightarrow> Inl e | Inr role \<Rightarrow>
        (case safe_opaque (obj_get a ''producer'') (at_index n ''.producer'') of Inl e \<Rightarrow> Inl e | Inr producer \<Rightarrow>
        if job \<noteq> None \<and> \<not> obj_has a ''job_id''
        then Inl (PlanError (at_index n '' job_id is required''))
        else
        (case bound_field a ''job_id'' (at_index n ''.job_id'') (at_index n '' job_id binding is invalid'') job of Inl e \<Rightarrow> Inl e | Inr jf \<Rightarrow>
        (case bound_field a ''lease_id'' (at_index n ''.lease_id'') (at_index n '' lease_id binding is invalid'') lease_ident of Inl e \<Rightarrow> Inl e | Inr lf \<Rightarrow>
          Inr (aid, JObj ([(''id'', JStr aid), (''sha256'', JStr digest), (''size'', JInt sz),
                           (''media_type'', JStr media), (''role'', JStr role),
                           (''producer'', JStr producer)] @ jf @ lf)))))))))))"

fun validate_artifacts ::
  "string option \<Rightarrow> string option \<Rightarrow> nat \<Rightarrow> string list \<Rightarrow> json list \<Rightarrow> pyerr + json list"
where
  "validate_artifacts job lease_ident n seen [] = Inr []"
| "validate_artifacts job lease_ident n seen (a # as) =
     (case validate_artifact job lease_ident n seen a of
        Inl e \<Rightarrow> Inl e
      | Inr (aid, x) \<Rightarrow>
          (case validate_artifacts job lease_ident (Suc n) (aid # seen) as of
             Inl e \<Rightarrow> Inl e
           | Inr xs \<Rightarrow> Inr (x # xs)))"

definition validate_result_manifest ::
  "string option \<Rightarrow> string option \<Rightarrow> json \<Rightarrow> pyerr + json"
where
  "validate_result_manifest job lease_ident m =
     (if \<not> is_obj m then Inl (PlanError ''result manifest is invalid'')
      else if has_unknown m [''schema'', ''manifest_id'', ''job_id'', ''lease_id'', ''artifacts'']
      then Inl (PlanError ''result manifest has unknown fields'')
      else if obj_get m ''schema'' \<noteq> JStr ''cloud-offload.result-manifest.v1''
      then Inl (PlanError ''result manifest schema is invalid'')
      else (case obj_get m ''artifacts'' of
        JArr (a # as) \<Rightarrow>
          (case validate_artifacts job lease_ident 0 [] (a # as) of Inl e \<Rightarrow> Inl e | Inr xs \<Rightarrow>
          (case bound_field m ''manifest_id'' ''result manifest.manifest_id'' [] None of Inl e \<Rightarrow> Inl e | Inr mf \<Rightarrow>
          (case bound_field m ''job_id'' ''result manifest.job_id'' ''result manifest job binding is invalid'' job of Inl e \<Rightarrow> Inl e | Inr jf \<Rightarrow>
          (case bound_field m ''lease_id'' ''result manifest.lease_id'' ''result manifest lease binding is invalid'' lease_ident of Inl e \<Rightarrow> Inl e | Inr lf \<Rightarrow>
            if job \<noteq> None \<and> \<not> obj_has m ''job_id''
            then Inl (PlanError ''result manifest job binding is required'')
            else Inr (JObj ([(''schema'', JStr ''cloud-offload.result-manifest.v1''),
                             (''artifacts'', JArr xs)] @ mf @ jf @ lf))))))
      | _ \<Rightarrow> Inl (PlanError ''result manifest requires non-empty artifacts'')))"

section \<open>Plan rows\<close>

definition plan_where :: "string \<Rightarrow> string \<Rightarrow> plan_state list \<Rightarrow> plan_row \<Rightarrow> bool" where
  \<comment> \<open>WHERE plan_digest = ? AND job_id = ? AND state NOT IN (...)\<close>
  "plan_where digest job excluded p \<longleftrightarrow>
     pl_digest p = digest \<and> pl_job_id p = Some job \<and> pl_state p \<notin> set excluded"

definition close_plan_row :: "plan_state \<Rightarrow> json \<Rightarrow> time \<Rightarrow> plan_row \<Rightarrow> plan_row" where
  "close_plan_row st receipt now p =
     p\<lparr>pl_state := st, pl_closure := Some receipt, pl_updated_at := now\<rparr>"

definition update_plans :: "(plan_row \<Rightarrow> bool) \<Rightarrow> (plan_row \<Rightarrow> plan_row) \<Rightarrow> db \<Rightarrow> db" where
  "update_plans P f d = d\<lparr>plans := update_where P f (plans d)\<rparr>"

definition require_one :: "(plan_row \<Rightarrow> bool) \<Rightarrow> (plan_row \<Rightarrow> plan_row) \<Rightarrow> string \<Rightarrow> db \<Rightarrow> pyerr + db" where
  "require_one P f message d =
     (if rowcount P (plans d) \<noteq> 1 then Inl (PlanError message) else Inr (update_plans P f d))"

definition status_changed ::
  "pyenv \<Rightarrow> time \<Rightarrow> job \<Rightarrow> job_status \<Rightarrow> db \<Rightarrow> pyerr + db"
where
  "status_changed env now j previous d =
     queue_event env d (job_id j) (lifecycle_event env j ''job_status_changed'' (Some previous)) now"

section \<open>Ending a plan with its queue row\<close>

definition cancelled_job :: "time \<Rightarrow> job \<Rightarrow> job" where
  "cancelled_job now j =
     j\<lparr>job_status := FAILED, job_error := None, job_completed_at := Some now,
       job_updated_at := now\<rparr>"

definition cancellation_event :: "job \<Rightarrow> json" where
  "cancellation_event j =
     JObj [(''type'', JStr ''cancellation_requested''),
           (''phase'', JStr (status_phase (job_status j))),
           (''status'', JStr (status_value (job_status j)))]"

definition cancel_plan_atomic ::
  "pyenv \<Rightarrow> time \<Rightarrow> db \<Rightarrow> string \<Rightarrow> string \<Rightarrow> json \<Rightarrow> (db, job option) tx"
where
  "cancel_plan_atomic env now d ident digest receipt =
     (case validate_closure_receipt env receipt of Inl e \<Rightarrow> Inl e | Inr normalized \<Rightarrow>
     (case find_job d ident of None \<Rightarrow> Inr (d, None) | Some j \<Rightarrow>
      if terminal (job_status j) then Inr (d, Some j)
      else
      (case queue_event env d ident (cancellation_event j) now of Inl e \<Rightarrow> Inl e | Inr d1 \<Rightarrow>
       let j' = cancelled_job now j in
       (case status_changed env now j' (job_status j) (write_job j' d1) of Inl e \<Rightarrow> Inl e | Inr d2 \<Rightarrow>
       (case require_one
               (plan_where digest ident [Completed_Plan, Cancelled, Failed_Plan, Terminal_Plan])
               (close_plan_row Cancelled normalized now)
               ''plan cancellation authority is stale'' d2 of
          Inl e \<Rightarrow> Inl e
        | Inr d3 \<Rightarrow> Inr (d3, Some j'))))))"

definition completed_plan_job :: "json \<Rightarrow> time \<Rightarrow> job \<Rightarrow> job" where
  "completed_plan_job result now j =
     j\<lparr>job_status := COMPLETED, job_result := Some result, job_progress := 100,
       job_error := None, job_completed_at := Some now, job_updated_at := now\<rparr>"

definition plan_owner :: "db \<Rightarrow> string \<Rightarrow> string \<Rightarrow> plan_row option" where
  \<comment> \<open>the authority row of the digest, when it belongs to the job\<close>
  "plan_owner d digest job =
     (case find_plan d digest of
        None \<Rightarrow> None
      | Some p \<Rightarrow> if pl_job_id p = Some job then Some p else None)"

definition complete_plan_atomic ::
  "pyenv \<Rightarrow> time \<Rightarrow> db \<Rightarrow> string \<Rightarrow> string \<Rightarrow> json \<Rightarrow> json \<Rightarrow> (db, job option) tx"
where
  "complete_plan_atomic env now d ident digest result receipt =
     (case validate_result_manifest (Some ident) None result of Inl e \<Rightarrow> Inl e | Inr nresult \<Rightarrow>
     (case validate_closure_receipt env receipt of Inl e \<Rightarrow> Inl e | Inr normalized \<Rightarrow>
      if obj_get normalized ''status'' \<noteq> JStr ''completed''
      then Inl (PlanError ''completed plan requires a completed closure receipt'')
      else
      (case find_job d ident of None \<Rightarrow> Inr (d, None) | Some j \<Rightarrow>
      (case plan_owner d digest ident of
         None \<Rightarrow> Inl (PlanError ''plan completion authority is invalid'')
       | Some p \<Rightarrow>
           let target = plan_where digest ident [Cancelled, Failed_Plan, Terminal_Plan];
               closing = close_plan_row Completed_Plan normalized now
           in if job_status j \<in> {FAILED, DEAD_LETTER} then Inr (d, Some j)
              else if job_status j = COMPLETED
              then Inr (if plan_terminal (pl_state p) then d else update_plans target closing d, Some j)
              else
              let j' = completed_plan_job nresult now j in
              (case status_changed env now j' (job_status j) (write_job j' d) of Inl e \<Rightarrow> Inl e | Inr d1 \<Rightarrow>
              (case require_one target closing ''plan completion authority is stale'' d1 of
                 Inl e \<Rightarrow> Inl e
               | Inr d2 \<Rightarrow> Inr (d2, Some j')))))))"

definition retried_plan_job :: "time \<Rightarrow> job \<Rightarrow> job" where
  "retried_plan_job now j =
     (let j1 = j\<lparr>job_error := None, job_worker_id := None, job_updated_at := now\<rparr>
      in if job_max_attempts j \<le> job_attempts j
         then j1\<lparr>job_status := DEAD_LETTER, job_completed_at := Some now\<rparr>
         else j1\<lparr>job_status := QUEUED, job_completed_at := None\<rparr>)"

fun failure_receipt :: "pyenv \<Rightarrow> json option \<Rightarrow> pyerr + json option" where
  "failure_receipt env None = Inr None"
| "failure_receipt env (Some receipt) =
     (case validate_closure_receipt env receipt of
        Inl e \<Rightarrow> Inl e
      | Inr n \<Rightarrow> if obj_get n ''status'' \<noteq> JStr ''failed''
                 then Inl (PlanError ''failed plan requires a failed closure receipt'')
                 else Inr (Some n))"

definition fail_plan_atomic ::
  "pyenv \<Rightarrow> time \<Rightarrow> db \<Rightarrow> string \<Rightarrow> string \<Rightarrow> json option \<Rightarrow> (db, job option) tx"
where
  "fail_plan_atomic env now d ident digest receipt =
     (case failure_receipt env receipt of Inl e \<Rightarrow> Inl e | Inr normalized \<Rightarrow>
     (case find_job d ident of None \<Rightarrow> Inr (d, None) | Some j \<Rightarrow>
     (case plan_owner d digest ident of
        None \<Rightarrow> Inl (PlanError ''plan failure authority is invalid'')
      | Some p \<Rightarrow>
          let target = plan_where digest ident [Cancelled, Completed_Plan, Terminal_Plan]
          in if terminal (job_status j)
             then Inr (case normalized of
                         None \<Rightarrow> d
                       | Some n \<Rightarrow>
                           if job_status j \<in> {FAILED, DEAD_LETTER} \<and> \<not> plan_terminal (pl_state p)
                           then update_plans target (close_plan_row Failed_Plan n now) d else d,
                       Some j)
             else
             let j' = retried_plan_job now j in
             (case status_changed env now j' (job_status j) (write_job j' d) of Inl e \<Rightarrow> Inl e | Inr d1 \<Rightarrow>
              if job_max_attempts j \<le> job_attempts j
              then (case normalized of
                      None \<Rightarrow> Inl (PlanError ''terminal plan failure requires a closure receipt'')
                    | Some n \<Rightarrow>
                        (case require_one target (close_plan_row Failed_Plan n now)
                                ''plan failure authority is stale'' d1 of
                           Inl e \<Rightarrow> Inl e
                         | Inr d2 \<Rightarrow> Inr (d2, Some j')))
              else (case require_one
                           (plan_where digest ident
                              [Cancelled, Completed_Plan, Failed_Plan, Terminal_Plan])
                           (\<lambda>p. p\<lparr>pl_state := Submitted, pl_updated_at := now\<rparr>)
                           ''plan failure authority is stale'' d1 of
                      Inl e \<Rightarrow> Inl e
                    | Inr d2 \<Rightarrow> Inr (d2, Some j'))))))"

section \<open>State changes of the plan store\<close>

text \<open>
  These return the row that \<open>get\<close> reads back; \<open>None\<close> where the code returns None.
\<close>

definition set_plan_state :: "string \<Rightarrow> plan_state \<Rightarrow> time \<Rightarrow> db \<Rightarrow> db" where
  "set_plan_state digest st now d =
     update_plans (\<lambda>p. pl_digest p = digest) (\<lambda>p. p\<lparr>pl_state := st, pl_updated_at := now\<rparr>) d"

definition cancel_plan :: "time \<Rightarrow> db \<Rightarrow> string \<Rightarrow> db \<times> plan_row option" where
  "cancel_plan now d digest =
     (case find_plan d digest of
        None \<Rightarrow> (d, None)
      | Some p \<Rightarrow>
          let d' = (if pl_state p \<in> {Submitting, Submitted, Running_Plan}
                    then set_plan_state digest Cancelling now d else d)
          in (d', find_plan d' digest))"

fun allowed_sync :: "plan_state \<Rightarrow> plan_state set" where
  "allowed_sync Submitting = {Submitted, Running_Plan, Cancelling}"
| "allowed_sync Submitted = {Running_Plan, Cancelling}"
| "allowed_sync Running_Plan = {Cancelling}"
| "allowed_sync s = {}"

datatype sync_result = Sync_None | Sync_State plan_state | Sync_Row "plan_row option"

definition sync_status ::
  "time \<Rightarrow> db \<Rightarrow> string \<Rightarrow> string \<Rightarrow> plan_state \<Rightarrow> (db, sync_result) tx"
where
  "sync_status now d digest job st =
     (if st \<in> {Preflighted, Submitting} then Inl (PlanError ''job status is invalid'')
      else case find_plan d digest of
        None \<Rightarrow> Inr (d, Sync_None)
      | Some p \<Rightarrow>
          if pl_job_id p \<noteq> Some job then Inr (d, Sync_None)
          else if plan_terminal (pl_state p) then Inr (d, Sync_State (pl_state p))
          else if st \<notin> allowed_sync (pl_state p) \<and> st \<noteq> pl_state p
          then Inr (d, Sync_State (pl_state p))
          else let d' = set_plan_state digest st now d
               in Inr (d', Sync_Row (find_plan d' digest)))"

definition reconcile_unknown_submit ::
  "time \<Rightarrow> db \<Rightarrow> string \<Rightarrow> string option \<Rightarrow> db \<times> plan_row option"
where
  "reconcile_unknown_submit now d digest job =
     (let d' = update_plans (\<lambda>p. pl_digest p = digest \<and> pl_state p = Submitting)
                 (\<lambda>p. p\<lparr>pl_state := Submitted, pl_job_id := coalesce (pl_job_id p) job,
                        pl_updated_at := now\<rparr>) d
      in (d', find_plan d' digest))"

definition abort_submit :: "time \<Rightarrow> db \<Rightarrow> string \<Rightarrow> string \<Rightarrow> db" where
  "abort_submit now d digest job =
     (update_plans
        (\<lambda>p. pl_digest p = digest \<and> pl_job_id p = Some job \<and> pl_state p = Submitting)
        (\<lambda>p. p\<lparr>pl_job_id := None, pl_idempotency_key := None, pl_request_digest := None,
               pl_state := Preflighted, pl_updated_at := now\<rparr>) d)
       \<lparr>authority := update_where (\<lambda>a. au_digest a = digest \<and> au_job_id a = Some job)
                       (\<lambda>a. a\<lparr>au_request := None, au_job_id := None\<rparr>) (authority d)\<rparr>"

fun closing_state :: "json \<Rightarrow> plan_state" where
  "closing_state (JStr s) =
     (if s = ''completed'' then Completed_Plan
      else if s = ''cancelled'' then Cancelled
      else if s = ''failed'' then Failed_Plan else Terminal_Plan)"
| "closing_state j = Terminal_Plan"

definition close_plan :: "pyenv \<Rightarrow> time \<Rightarrow> db \<Rightarrow> string \<Rightarrow> json \<Rightarrow> (db, unit) tx" where
  "close_plan env now d digest receipt =
     (case validate_closure_receipt env receipt of Inl e \<Rightarrow> Inl e | Inr normalized \<Rightarrow>
     (case find_plan d digest of
        None \<Rightarrow> Inl (PlanError ''plan authority not found'')
      | Some p \<Rightarrow>
          if plan_terminal (pl_state p) then Inr (d, ())
          else if pl_state p \<notin> {Submitting, Submitted, Running_Plan, Cancelling}
          then Inl (PlanError ''plan lifecycle cannot be closed from this state'')
          else Inr (update_plans (\<lambda>p. pl_digest p = digest \<and> \<not> plan_terminal (pl_state p))
                      (close_plan_row (closing_state (obj_get receipt ''status'')) normalized now) d,
                    ())))"

end
