(* ===== verification/JobLaws.thy ===== *)
theory JobLaws
  imports LeaseLaws PlanQueue
begin

text \<open>
  Effects of the job, claim and plan operations on the jobs table. \<open>rewritten d j' d'\<close>: the
  row of \<open>j'\<close>, which was not terminal, now holds \<open>j'\<close>, and no other row changed.
\<close>

section \<open>Writing one row\<close>

lemma write_job_tables [simp]:
  "leases (write_job j d) = leases d" "links (write_job j d) = links d"
  "workers (write_job j d) = workers d" "cache (write_job j d) = cache d"
  "meta (write_job j d) = meta d" "plans (write_job j d) = plans d"
  "authority (write_job j d) = authority d" "events (write_job j d) = events d"
  "event_counter (write_job j d) = event_counter d"
  "find_lease (write_job j d) k = find_lease d k"
  "find_plan (write_job j d) k = find_plan d k"
  by (simp_all add: write_job_def)

lemma grows_write_job [simp]: "grows (write_job j d) e = grows d e"
  by (simp add: write_job_def)

lemma find_write_job:
  "find_job (write_job j d) k =
     (if k = job_id j then map_option (\<lambda>r. j\<lparr>job_created_at := job_created_at r\<rparr>) (find_job d k)
      else find_job d k)"
  by (simp add: find_job_def write_job_def find_overwrite)

lemma write_job_ids: "map job_id (jobs (write_job j d)) = map job_id (jobs d)"
  by (simp add: write_job_def map_overwrite_key)

lemma find_job_jobs: "jobs d = jobs e \<Longrightarrow> find_job d k = find_job e k"
  by (simp add: find_job_def)

section \<open>What each operation does to the jobs\<close>

definition rewritten :: "db \<Rightarrow> job \<Rightarrow> job \<Rightarrow> db \<Rightarrow> bool" where
  "rewritten d j j' d' \<longleftrightarrow>
     find_job d (job_id j) = Some j \<and> job_id j' = job_id j \<and>
     job_created_at j' = job_created_at j \<and> jobs d' = jobs (write_job j' d)"

lemma rewritten_find:
  assumes "rewritten d j j' d'"
  shows "find_job d' k = (if k = job_id j then Some j' else find_job d k)"
proof -
  have "find_job d' k = find_job (write_job j' d) k"
    using assms by (intro find_job_jobs) (simp add: rewritten_def)
  also have "\<dots> = (if k = job_id j then Some j' else find_job d k)"
    using assms by (auto simp: rewritten_def find_write_job)
  finally show ?thesis .
qed

lemma rewritten_ids: "rewritten d j j' d' \<Longrightarrow> map job_id (jobs d') = map job_id (jobs d)"
  by (simp add: rewritten_def write_job_ids)

text \<open>\<open>others_same\<close>: the tables that a job operation leaves alone, and a growing journal.\<close>

definition others_same :: "db \<Rightarrow> db \<Rightarrow> bool" where
  "others_same d d' \<longleftrightarrow>
     leases d' = leases d \<and> links d' = links d \<and> workers d' = workers d \<and> meta d' = meta d \<and>
     grows d d'"

lemma others_same_refl [simp]: "others_same d d"
  by (simp add: others_same_def)

lemma quiet_others: "quiet (write_job j d) d' \<Longrightarrow> others_same d d'"
  by (auto simp: quiet_def same_tables_def others_same_def)

definition job_change :: "db \<Rightarrow> job \<Rightarrow> job \<Rightarrow> db \<Rightarrow> bool" where
  "job_change d j j' d' \<longleftrightarrow>
     rewritten d j j' d' \<and> others_same d d' \<and> cache d' = cache d \<and> plans d' = plans d \<and>
     authority d' = authority d"

lemma quiet_job_change:
  assumes "quiet (write_job j' d) d'" "find_job d (job_id j) = Some j" "job_id j' = job_id j"
    "job_created_at j' = job_created_at j"
  shows "job_change d j j' d'"
  using assms quiet_others [OF assms(1)]
  by (simp add: job_change_def rewritten_def quiet_tables [OF assms(1)])

lemma journal_change_quiet: "journal_change env j ps pp t d = Inr d' \<Longrightarrow> quiet d d'"
  by (auto simp: journal_change_def split: if_splits dest: queue_event_quiet)

lemma set_kw_keeps [simp]:
  "job_id (set_kw j k) = job_id j" "job_created_at (set_kw j k) = job_created_at j"
  "job_status (set_kw j k) = job_status j" "job_error (set_kw j k) = job_error j"
  by (cases k; simp)+

lemma foldl_set_kw_keeps [simp]:
  "job_id (foldl set_kw j ks) = job_id j" "job_created_at (foldl set_kw j ks) = job_created_at j"
  "job_status (foldl set_kw j ks) = job_status j" "job_error (foldl set_kw j ks) = job_error j"
  by (induction ks arbitrary: j) auto

lemma stamp_status_keeps [simp]:
  "job_id (stamp_status st n j) = job_id j" "job_created_at (stamp_status st n j) = job_created_at j"
  "job_status (stamp_status st n j) = job_status j"
  "job_updated_at (stamp_status st n j) = n"
  by (simp_all add: stamp_status_def)

lemma status_error_keeps [simp]:
  "job_id (status_error st e j) = job_id j" "job_created_at (status_error st e j) = job_created_at j"
  "job_status (status_error st e j) = job_status j"
  by (simp_all add: status_error_def split: option.splits)

lemma changed_job_keeps [simp]:
  "job_id (changed_job st e ks n j) = job_id j"
  "job_created_at (changed_job st e ks n j) = job_created_at j"
  "job_status (changed_job st e ks n j) = st"
  "job_updated_at (changed_job st e ks n j) = n"
  by (simp_all add: changed_job_def)

lemma failed_job_keeps [simp]:
  "job_id (failed_job e n j) = job_id j" "job_created_at (failed_job e n j) = job_created_at j"
  "job_attempts (failed_job e n j) = job_attempts j"
  "job_max_attempts (failed_job e n j) = job_max_attempts j"
  by (simp_all add: failed_job_def Let_def)

lemma progress_job_keeps [simp]:
  "job_id (progress_job p j) = job_id j" "job_created_at (progress_job p j) = job_created_at j"
  "job_status (progress_job p j) = job_status j"
  by (simp_all add: progress_job_def)

lemma create_effect:
  assumes "create env now uuid d model path params request provider st wanted = Inr (d', j)"
  shows "find_job d (job_id j) = None \<and> quiet (d\<lparr>jobs := jobs d @ [j]\<rparr>) d' \<and>
         job_status j = st \<and> job_attempts j = 0 \<and> job_max_attempts j = 3"
  using assms
  by (auto simp: create_def Let_def new_job_def split: if_splits sum.splits
           dest: queue_event_quiet)

lemma update_effect:
  assumes "update env now d j0 = Inr (d', j)" and "find_job d (job_id j0) = Some row"
    and "job_created_at j0 = job_created_at row"
  shows "j = j0\<lparr>job_updated_at := now\<rparr> \<and> job_change d row j d'"
  using assms find_job_id [OF assms(2)]
  by (auto simp: update_def Let_def split: sum.splits
           intro!: quiet_job_change dest!: journal_change_quiet)

lemma update_status_effect:
  assumes "update_status env now d ident st err kws = Inr (d', r)"
  shows "(d' = d \<and> r = find_job d ident \<and> (\<forall>j. r = Some j \<longrightarrow> terminal (job_status j))) \<or>
         (\<exists>j. find_job d ident = Some j \<and> \<not> terminal (job_status j) \<and>
              r = Some (changed_job st err kws now j) \<and>
              job_change d j (changed_job st err kws now j) d')"
  using assms
  by (auto simp: update_status_def Let_def split: option.splits if_splits sum.splits
           intro!: quiet_job_change dest!: journal_change_quiet dest: find_job_id)

lemma fail_job_effect:
  assumes "fail_job env now d ident err = Inr (d', r)"
  shows "(d' = d \<and> r = find_job d ident \<and> (\<forall>j. r = Some j \<longrightarrow> terminal (job_status j))) \<or>
         (\<exists>j. find_job d ident = Some j \<and> \<not> terminal (job_status j) \<and>
              r = Some (failed_job err now j) \<and> job_change d j (failed_job err now j) d')"
  using assms
  by (auto simp: fail_job_def Let_def split: option.splits if_splits sum.splits
           intro!: quiet_job_change dest!: queue_event_quiet dest: find_job_id)

lemma set_progress_effect:
  assumes "set_progress env now d ident p = Inr (d', r)"
  shows "(d' = d \<and> r = find_job d ident \<and> (\<forall>j. r = Some j \<longrightarrow> terminal (job_status j))) \<or>
         (\<exists>j. find_job d ident = Some j \<and> \<not> terminal (job_status j) \<and>
              r = Some ((progress_job p j)\<lparr>job_updated_at := now\<rparr>) \<and>
              job_change d j ((progress_job p j)\<lparr>job_updated_at := now\<rparr>) d')"
proof (cases "find_job d ident")
  case None
  with assms show ?thesis by (simp add: set_progress_def)
next
  case (Some j)
  show ?thesis
  proof (cases "terminal (job_status j)")
    case True
    with assms Some show ?thesis by (auto simp: set_progress_def)
  next
    case False
    with assms Some obtain j' where u: "update env now d (progress_job p j) = Inr (d', j')"
      and r: "r = Some j'"
      by (auto simp: set_progress_def split: sum.splits)
    have "find_job d (job_id (progress_job p j)) = Some j"
      using Some find_job_id [OF Some] by simp
    from update_effect [OF u this] r Some False show ?thesis by auto
  qed
qed

lemma complete_job_effect:
  assumes "complete_job env now now2 d ident result = Inr (d', r)"
  shows "(jobs d' = jobs d \<and> others_same d d' \<and> plans d' = plans d \<and> r = find_job d ident \<and>
          (\<forall>j. r = Some j \<longrightarrow> terminal (job_status j))) \<or>
         (\<exists>j j'. find_job d ident = Some j \<and> \<not> terminal (job_status j) \<and> r = Some j' \<and>
              j' = changed_job COMPLETED None [Kw_result (Some result), Kw_progress 100] now j \<and>
              rewritten d j j' d' \<and> others_same d d' \<and> plans d' = plans d)"
proof -
  obtain d1 where u: "update_status env now d ident COMPLETED None
                        [Kw_result (Some result), Kw_progress 100] = Inr (d1, r)"
    and d': "jobs d' = jobs d1" "others_same d1 d'" "plans d' = plans d1"
    using assms
    by (auto simp: complete_job_def put_partition_cache_def others_same_def
             split: sum.splits option.splits if_splits)
  have trans: "others_same d d1 \<Longrightarrow> others_same d d'"
    using d'(2) by (auto simp: others_same_def intro: grows_trans)
  from update_status_effect [OF u] d' trans show ?thesis
    by (auto simp: job_change_def rewritten_def)
qed

section \<open>Plan rows\<close>

text \<open>
  The transitions of a plan authority that the code performs; \<open>Terminal_Plan\<close> and the other
  three final states have no way out.
\<close>

inductive plan_edge :: "plan_state \<Rightarrow> plan_state \<Rightarrow> bool" where
  submitted: "plan_edge Submitting Submitted"
| sync: "st' \<in> allowed_sync st \<Longrightarrow> plan_edge st st'"
| cancelling: "st \<in> {Submitting, Submitted, Running_Plan} \<Longrightarrow> plan_edge st Cancelling"
| closed: "\<not> plan_terminal st \<Longrightarrow> plan_terminal st' \<Longrightarrow> plan_edge st st'"
| retried: "\<not> plan_terminal st \<Longrightarrow> plan_edge st Submitted"
| aborted: "plan_edge Submitting Preflighted"

inductive_cases plan_edgeE: "plan_edge st st'"

lemma plan_edge_from: "plan_edge st st' \<Longrightarrow> \<not> plan_terminal st"
proof (induction rule: plan_edge.induct)
  case (sync st' st)
  then show ?case by (cases st) simp_all
qed auto

definition plan_moves :: "(plan_state \<Rightarrow> plan_state \<Rightarrow> bool) \<Rightarrow> plan_row \<Rightarrow> plan_row \<Rightarrow> bool" where
  "plan_moves E p p' \<longleftrightarrow>
     pl_digest p' = pl_digest p \<and> (pl_state p' = pl_state p \<or> E (pl_state p) (pl_state p'))"

definition plans_move :: "db \<Rightarrow> db \<Rightarrow> bool" where
  "plans_move d d' \<longleftrightarrow> list_all2 (plan_moves plan_edge) (plans d) (plans d')"

lemma plan_moves_refl [simp]: "plan_moves E p p"
  by (simp add: plan_moves_def)

lemma plans_move_same: "plans d' = plans d \<Longrightarrow> plans_move d d'"
  by (simp add: plans_move_def list.rel_refl)

lemma plans_move_update:
  assumes "plans d' = update_where P f (plans d)" and "\<And>p. P p \<Longrightarrow> plan_moves plan_edge p (f p)"
  shows "plans_move d d'"
  using assms by (auto simp: plans_move_def intro!: list_all2_update_where)

lemma plans_move_find:
  assumes "plans_move d d'" and "find_plan d k = Some p"
  shows "\<exists>p'. find_plan d' k = Some p' \<and> plan_moves plan_edge p p'"
  using list_all2_find [of "plan_moves plan_edge" "plans d" "plans d'" pl_digest k p] assms
  by (auto simp: plans_move_def find_plan_def plan_moves_def)

lemma plans_move_digests: "plans_move d d' \<Longrightarrow> map pl_digest (plans d') = map pl_digest (plans d)"
  unfolding plans_move_def
  by (rule list_all2_map_key [where R = "plan_moves plan_edge"]) (auto simp: plan_moves_def)

section \<open>Claims\<close>

definition claim_move :: "plan_state \<Rightarrow> plan_state \<Rightarrow> bool" where
  "claim_move a b \<longleftrightarrow> a = Submitting \<and> b = Submitted"

lemma claim_moves_trans:
  "list_all2 (plan_moves claim_move) xs ys \<Longrightarrow> list_all2 (plan_moves claim_move) ys zs \<Longrightarrow>
   list_all2 (plan_moves claim_move) xs zs"
  by (rule list_all2_trans) (auto simp: plan_moves_def claim_move_def)

lemma claim_moves_edges: "list_all2 (plan_moves claim_move) (plans d) (plans d') \<Longrightarrow> plans_move d d'"
  unfolding plans_move_def
  by (erule list_all2_mono) (auto simp: plan_moves_def claim_move_def intro: plan_edge.submitted)

definition claim_frame :: "db \<Rightarrow> db \<Rightarrow> bool" where
  "claim_frame d d' \<longleftrightarrow>
     jobs d' = jobs d \<and> leases d' = leases d \<and> workers d' = workers d \<and> cache d' = cache d \<and>
     meta d' = meta d \<and> authority d' = authority d \<and> (links_ok d \<longrightarrow> links_ok d') \<and> grows d d' \<and>
     list_all2 (plan_moves claim_move) (plans d) (plans d')"

lemma claim_frame_refl [simp]: "claim_frame d d"
  by (simp add: claim_frame_def list.rel_refl)

lemma claim_frame_trans: "claim_frame d e \<Longrightarrow> claim_frame e f \<Longrightarrow> claim_frame d f"
  by (auto simp: claim_frame_def intro: grows_trans claim_moves_trans)

lemma linked_claim_frame: "linked d d' \<Longrightarrow> claim_frame d d'"
  by (simp add: linked_def claim_frame_def list.rel_refl)

lemma submit_claimed_plan_frame: "claim_frame d (submit_claimed_plan now j d)"
  by (auto simp: submit_claimed_plan_def claim_frame_def list.rel_refl links_ok_def
        plan_moves_def claim_move_def
        intro!: list_all2_update_where split: json.splits)

lemma claim_one_frame:
  assumes "claim_one env now q l i d = Inr (d', r)"
  shows "claim_frame d d' \<and> r = find_job d i"
proof (cases "find_job d i")
  case None
  with assms show ?thesis by (simp add: claim_one_def)
next
  case (Some j)
  define d1 where "d1 = (case l of None \<Rightarrow> d | Some m \<Rightarrow> insert_link (lease_id m) i now d)"
  have 1: "claim_frame d d1"
    unfolding d1_def by (auto split: option.splits intro: linked_claim_frame insert_link_linked)
  obtain d2 where q: "queue_event env d1 i
                        (lifecycle_event env j ''job_status_changed'' (Some QUEUED)) now = Inr d2"
    and rest: "r = Some j"
      "claim_frame (submit_claimed_plan now j d2) d'"
    using assms Some
    by (auto simp: claim_one_def d1_def Let_def split: sum.splits option.splits
             intro: linked_claim_frame quiet_linked append_quiet)
  have 2: "claim_frame d1 d2"
    using q by (intro linked_claim_frame quiet_linked) (rule queue_event_quiet)
  from 1 2 have "claim_frame d d2" by (rule claim_frame_trans)
  then have "claim_frame d (submit_claimed_plan now j d2)"
    using submit_claimed_plan_frame by (rule claim_frame_trans)
  with rest(2) have "claim_frame d d'" by (blast intro: claim_frame_trans)
  with rest(1) Some show ?thesis by simp
qed

lemma claim_each_frame:
  assumes "claim_each env now q l ids d = Inr (d', js)"
  shows "claim_frame d d' \<and> js = List.map_filter (find_job d) ids"
  using assms
proof (induction ids arbitrary: d js)
  case Nil
  then show ?case by (simp add: List.map_filter_simps)
next
  case (Cons i ids)
  then obtain d1 r js' where one: "claim_one env now q l i d = Inr (d1, r)"
    and each: "claim_each env now q l ids d1 = Inr (d', js')"
    and js: "js = (case r of None \<Rightarrow> js' | Some x \<Rightarrow> x # js')"
    by (auto split: sum.splits)
  from claim_one_frame [OF one] have f: "claim_frame d d1" and r: "r = find_job d i" by auto
  from Cons.IH [OF each] have g: "claim_frame d1 d'" and js': "js' = List.map_filter (find_job d1) ids"
    by auto
  have "find_job d1 = find_job d" using f by (auto simp: claim_frame_def find_job_def)
  with js js' r claim_frame_trans [OF f g] show ?case
    by (auto simp: List.map_filter_simps split: option.splits)
qed

lemma claim_lease_effect:
  assumes "claim_lease now d q = Inr (d1, l)"
  shows "(\<not> given (cr_lease_id q) \<and> d1 = d \<and> l = None) \<or>
         (\<exists>m. given (cr_lease_id q) \<and> l = Some m \<and> find_lease d (lease_id m) = Some m \<and>
              Some (lease_id m) = cr_lease_id q \<and>
              lease_status m = Active \<and> now < lease_expires_at m \<and>
              (given (cr_provider q) \<longrightarrow> cr_provider q = Some (lease_provider m)) \<and>
              (given (lease_worker_id m) \<longrightarrow> lease_worker_id m = Some (cr_worker_id q)) \<and>
              d1 = update_lease (lease_id m)
                     (renew_row (Some (cr_worker_id q)) (cr_lease_ttl_seconds q) now) d)"
proof (cases "given (cr_lease_id q)")
  case False
  with assms show ?thesis by (simp add: claim_lease_def)
next
  case True
  then obtain i where i: "cr_lease_id q = Some i" "i \<noteq> []" by (auto simp: given_def split: option.splits)
  then obtain m where m: "find_lease d i = Some m"
    using assms by (auto simp: claim_lease_def Let_def or_default_def split: option.splits)
  have d1: "l = Some m" "lease_status m = Active" "\<not> lease_expires_at m \<le> now"
    "given (cr_provider q) \<longrightarrow> Some (lease_provider m) = cr_provider q"
    "given (lease_worker_id m) \<longrightarrow> lease_worker_id m = Some (cr_worker_id q)"
    "d1 = update_lease i (renew_row (Some (cr_worker_id q)) (cr_lease_ttl_seconds q) now) d"
    using i m assms by (auto simp: claim_lease_def Let_def or_default_def split: if_splits)
  show ?thesis
    by (rule disjI2, rule exI [of _ m]) (use i m d1 find_lease_id [OF m] True in auto)
qed

lemma claim_lease_jobs: "claim_lease now d q = Inr (d1, l) \<Longrightarrow> jobs d1 = jobs d"
  by (auto dest!: claim_lease_effect)

lemma claim_update_tables [simp]:
  "leases (claim_update ids w n d) = leases d" "links (claim_update ids w n d) = links d"
  "workers (claim_update ids w n d) = workers d" "cache (claim_update ids w n d) = cache d"
  "meta (claim_update ids w n d) = meta d" "plans (claim_update ids w n d) = plans d"
  "authority (claim_update ids w n d) = authority d" "events (claim_update ids w n d) = events d"
  by (simp_all add: claim_update_def)

lemma claimed_job_keeps [simp]:
  "job_id (claimed_job w n j) = job_id j" "job_created_at (claimed_job w n j) = job_created_at j"
  "job_status (claimed_job w n j) = DISPATCHED" "job_worker_id (claimed_job w n j) = Some w"
  "job_attempts (claimed_job w n j) = job_attempts j + 1" "job_model (claimed_job w n j) = job_model j"
  by (simp_all add: claimed_job_def)

lemma find_claim_update:
  "find_job (claim_update ids w n d) k =
     (if k \<in> set ids then map_option (claimed_job w n) (find_job d k) else find_job d k)"
  unfolding find_job_def claim_update_def
  by (simp add: find_update_where_guard)
     (auto simp: map_option_case split: option.splits dest: find_key_in)

text \<open>
  A successful claim: either nothing was claimable (and at most the lease was renewed), or the
  selected rows were claimed in place and the journal tells so.
\<close>

lemma claim_jobs_effect:
  assumes "claim_jobs env now t d token q = Inr (d', js)"
  obtains (none) l where "claim_lease now d q = Inr (d', l)" "js = []"
  | (claimed) d1 l ids where "claim_lease now d q = Inr (d1, l)"
      "ids = map job_id (claim_rows env d1 q)" "ids \<noteq> []" "cr_models q \<noteq> Some []"
      "claim_frame (claim_update ids (cr_worker_id q) t d1) d'"
      "js = List.map_filter (find_job (claim_update ids (cr_worker_id q) t d1)) ids"
proof -
  obtain d1 l where l: "claim_lease now d q = Inr (d1, l)"
    and rest: "(if cr_models q = Some [] then Inr (d1, [])
                else let ids = map job_id (claim_rows env d1 q)
                     in if ids = [] then Inr (d1, [])
                        else claim_each env t q l ids (claim_update ids (cr_worker_id q) t d1))
               = Inr (d', js)"
    using assms by (auto simp: claim_jobs_def split: option.splits sum.splits)
  show ?thesis
  proof (cases "cr_models q = Some [] \<or> map job_id (claim_rows env d1 q) = []")
    case True
    with l rest none show ?thesis by (auto simp: Let_def split: if_splits)
  next
    case False
    with rest have "claim_each env t q l (map job_id (claim_rows env d1 q))
        (claim_update (map job_id (claim_rows env d1 q)) (cr_worker_id q) t d1) = Inr (d', js)"
      by (simp add: Let_def)
    from claim_each_frame [OF this] claimed [OF l refl] False show ?thesis by blast
  qed
qed

end
