(* ===== verification/LeaseSteps.thy ===== *)
theory LeaseSteps
  imports JobLaws
begin

text \<open>
  The steps that a lease row can take, as one relation: every lease operation of the queue is
  a step, and what the steps keep (the terms of the lease, its binding, the order of its
  states, the evidence each state carries) is read off the relation.
\<close>

section \<open>The step relation\<close>

inductive lease_edge :: "lease \<Rightarrow> lease \<Rightarrow> bool" where
  renewed: "lease_status l = Active \<Longrightarrow> lease_edge l (renew_row w ttl now l)"
| bound: "lease_status l \<in> {Provisioning, Active} \<Longrightarrow>
    (given (lease_instance_id l) \<Longrightarrow> lease_instance_id l = Some i) \<Longrightarrow>
    lease_edge l (bind_row i w ttl now l)"
| revoked: "lease_status l \<in> {Provisioning, Active} \<Longrightarrow> lease_edge l (revoke_row r now l)"
| attempted: "lease_status l \<noteq> Closed \<Longrightarrow> lease_edge l (attempt_row e now l)"
| confirmed: "lease_edge l (confirm_row now l)"
| unbound: "\<not> given (lease_instance_id l) \<Longrightarrow> lease_edge l (unbound_row r now l)"

inductive_cases lease_edgeE: "lease_edge l l'"

definition lease_rank :: "lease_status \<Rightarrow> nat" where
  "lease_rank s =
     (case s of Provisioning \<Rightarrow> 0 | Active \<Rightarrow> 1 | Revocation_Requested \<Rightarrow> 2 | Terminating \<Rightarrow> 3
              | Closed \<Rightarrow> 4)"

definition lease_terms ::
  "lease \<Rightarrow> string \<times> string \<times> string \<times> string \<times> time \<times> rat option \<times> rat option \<times>
            time option \<times> time option"
where
  \<comment> \<open>what a lease is created with and no operation changes\<close>
  "lease_terms l =
     (lease_id l, lease_provider l, lease_resource_name l, lease_runtime_profile l,
      lease_created_at l, lease_hourly_rate l, lease_max_cost_usd l, lease_runtime_deadline l,
      lease_cost_deadline l)"

definition forward :: "lease \<Rightarrow> lease \<Rightarrow> bool" where
  "forward l l' \<longleftrightarrow>
     lease_terms l' = lease_terms l \<and>
     lease_rank (lease_status l) \<le> lease_rank (lease_status l') \<and>
     (given (lease_instance_id l) \<longrightarrow> lease_instance_id l' = lease_instance_id l) \<and>
     (lease_worker_id l \<noteq> None \<longrightarrow> lease_worker_id l' = lease_worker_id l)"

lemma forward_refl [simp]: "forward l l"
  by (simp add: forward_def)

lemma forward_trans: "forward l m \<Longrightarrow> forward m n \<Longrightarrow> forward l n"
  by (auto simp: forward_def)

lemma forward_id: "forward l l' \<Longrightarrow> lease_id l' = lease_id l \<and> lease_provider l' = lease_provider l"
  by (simp add: forward_def lease_terms_def)

lemma edge_forward: "lease_edge l l' \<Longrightarrow> forward l l'"
  by (erule lease_edgeE)
     (auto simp: forward_def lease_terms_def lease_rows lease_rank_def coalesce_def
           split: lease_status.splits option.splits)

lemma closed_forward: "forward l l' \<Longrightarrow> lease_status l = Closed \<Longrightarrow> lease_status l' = Closed"
  by (auto simp: forward_def lease_rank_def split: lease_status.splits)

text \<open>The evidence that a state carries.\<close>

definition lease_wf :: "lease \<Rightarrow> bool" where
  "lease_wf l \<longleftrightarrow>
     (case lease_status l of
        Provisioning \<Rightarrow> lease_instance_id l = None \<and> lease_worker_id l = None
      | Active \<Rightarrow> lease_instance_id l \<noteq> None
      | Revocation_Requested \<Rightarrow> lease_revoked_at l \<noteq> None \<and> lease_reason l \<noteq> None
      | Terminating \<Rightarrow> lease_termination_requested_at l \<noteq> None \<and> 0 < lease_termination_attempts l
      | Closed \<Rightarrow> True) \<and>
     0 \<le> lease_termination_attempts l \<and>
     (lease_termination_confirmed_at l \<noteq> None \<longrightarrow> lease_status l = Closed)"

lemma edge_wf: "lease_edge l l' \<Longrightarrow> lease_wf l \<Longrightarrow> lease_wf l'"
  by (erule lease_edgeE)
     (auto simp: lease_wf_def lease_rows coalesce_def split: lease_status.splits option.splits)

lemma new_lease_wf: "lease_wf (new_lease i p q rate mr mc ttl now)"
  by (simp add: lease_wf_def new_lease_def)

abbreviation lease_path :: "lease \<Rightarrow> lease \<Rightarrow> bool" where
  "lease_path \<equiv> lease_edge\<^sup>*\<^sup>*"

lemma path_forward: "lease_path l l' \<Longrightarrow> forward l l'"
  by (induction rule: rtranclp_induct) (auto intro: forward_trans edge_forward)

lemma path_wf: "lease_path l l' \<Longrightarrow> lease_wf l \<Longrightarrow> lease_wf l'"
  by (induction rule: rtranclp_induct) (auto intro: edge_wf)

section \<open>The lease table\<close>

definition leases_move :: "db \<Rightarrow> db \<Rightarrow> bool" where
  "leases_move d d' \<longleftrightarrow> list_all2 lease_path (leases d) (leases d')"

definition unique_bindings :: "lease list \<Rightarrow> bool" where
  "unique_bindings ls \<longleftrightarrow>
     (\<forall>l \<in> set ls. \<forall>m \<in> set ls.
        lease_provider l = lease_provider m \<and> lease_instance_id l = lease_instance_id m \<and>
        lease_instance_id l \<noteq> None \<longrightarrow> lease_id l = lease_id m)"

lemma leases_move_same: "leases d' = leases d \<Longrightarrow> leases_move d d'"
  by (simp add: leases_move_def list.rel_refl)

lemma leases_move_trans: "leases_move d e \<Longrightarrow> leases_move e f \<Longrightarrow> leases_move d f"
  unfolding leases_move_def by (rule list_all2_trans) auto

lemma leases_move_ids: "leases_move d d' \<Longrightarrow> map lease_id (leases d') = map lease_id (leases d)"
  unfolding leases_move_def
  by (rule list_all2_map_key [where R = lease_path]) (auto dest: path_forward forward_id)

lemma leases_move_find:
  assumes "leases_move d d'" and "find_lease d k = Some l"
  shows "\<exists>l'. find_lease d' k = Some l' \<and> lease_path l l'"
  using list_all2_find [of lease_path "leases d" "leases d'" lease_id k l] assms
  by (auto simp: leases_move_def find_lease_def dest: path_forward forward_id)

lemma list_all2_wf:
  "list_all2 lease_path ls ms \<Longrightarrow> list_all lease_wf ls \<Longrightarrow> list_all lease_wf ms"
  by (induction ls ms rule: list_all2_induct) (auto dest: path_wf)

lemma update_lease_move:
  assumes "distinct (map lease_id (leases d))" and "find_lease d i = Some l" and "lease_edge l (f l)"
  shows "leases_move d (update_lease i f d)"
proof -
  have only: "m = l" if "m \<in> set (leases d)" "lease_id m = i" for m
    using assms(2) find_distinct [OF assms(1) that(1)] that(2) by (simp add: find_lease_def)
  have "list_all2 lease_path (leases d) (update_where (\<lambda>m. lease_id m = i) f (leases d))"
    by (rule list_all2_update_where) (use only assms(3) in auto)
  then show ?thesis by (simp add: leases_move_def)
qed

lemma lease_update_move:
  assumes "lease_update d i f d'" and "distinct (map lease_id (leases d))"
    and "find_lease d i = Some l" and "lease_edge l (f l)"
  shows "leases_move d d'"
proof -
  have "leases d' = leases (update_lease i f d)"
    using assms(1) by (simp add: lease_update_def quiet_tables)
  then show ?thesis
    using update_lease_move [where f = f, OF assms(2-4)] by (simp add: leases_move_def)
qed

text \<open>A step that leaves the bound instance alone keeps bindings unique, and so does a checked bind.\<close>

lemma update_bindings_same:
  assumes "unique_bindings ls"
    and "\<And>l. lease_id (f l) = lease_id l \<and> lease_provider (f l) = lease_provider l \<and>
               lease_instance_id (f l) = lease_instance_id l"
  shows "unique_bindings (update_where P f ls)"
proof -
  have g: "lease_id (if P r then f r else r) = lease_id r"
    "lease_provider (if P r then f r else r) = lease_provider r"
    "lease_instance_id (if P r then f r else r) = lease_instance_id r" for r
    using assms(2) by simp_all
  show ?thesis
    unfolding unique_bindings_def
  proof (intro ballI impI)
    fix a b
    assume a: "a \<in> set (update_where P f ls)" and b: "b \<in> set (update_where P f ls)"
      and eq: "lease_provider a = lease_provider b \<and> lease_instance_id a = lease_instance_id b \<and>
               lease_instance_id a \<noteq> None"
    obtain a0 b0 where *: "a0 \<in> set ls" "b0 \<in> set ls" "a = (if P a0 then f a0 else a0)"
      "b = (if P b0 then f b0 else b0)"
      using a b unfolding set_update_where by blast
    with eq g have "lease_provider a0 = lease_provider b0 \<and>
        lease_instance_id a0 = lease_instance_id b0 \<and> lease_instance_id a0 \<noteq> None"
      by metis
    with assms(1) * have "lease_id a0 = lease_id b0" unfolding unique_bindings_def by blast
    with * g show "lease_id a = lease_id b" by metis
  qed
qed

lemma bind_bindings:
  assumes "unique_bindings (leases d)" and "\<not> bound_elsewhere d l i"
    and "find_lease d k = Some l" and "distinct (map lease_id (leases d))"
  shows "unique_bindings (update_where (\<lambda>m. lease_id m = k) (bind_row i w ttl now) (leases d))"
proof -
  have kl: "lease_id l = k" using find_lease_id [OF assms(3)] by simp
  have only: "m = l" if "m \<in> set (leases d)" "lease_id m = k" for m
    using assms(3) find_distinct [OF assms(4) that(1)] that(2) by (simp add: find_lease_def)
  have free: "lease_id m = k"
    if "m \<in> set (leases d)" "lease_provider m = lease_provider l" "lease_instance_id m = Some i" for m
    using assms(2) that kl by (auto simp: bound_elsewhere_def list_ex_iff)
  show ?thesis
    unfolding unique_bindings_def set_update_where
  proof (intro ballI impI)
    fix a b
    assume a: "a \<in> set (update_where (\<lambda>m. lease_id m = k) (bind_row i w ttl now) (leases d))"
      and b: "b \<in> set (update_where (\<lambda>m. lease_id m = k) (bind_row i w ttl now) (leases d))"
      and eq: "lease_provider a = lease_provider b \<and> lease_instance_id a = lease_instance_id b \<and>
               lease_instance_id a \<noteq> None"
    obtain a0 where a0: "a0 \<in> set (leases d)" "a = (if lease_id a0 = k then bind_row i w ttl now a0 else a0)"
      using a by (auto simp: set_update_where)
    obtain b0 where b0: "b0 \<in> set (leases d)" "b = (if lease_id b0 = k then bind_row i w ttl now b0 else b0)"
      using b by (auto simp: set_update_where)
    have "lease_id a0 = lease_id b0"
    proof (cases "lease_id a0 = k"; cases "lease_id b0 = k")
      assume "lease_id a0 = k" "lease_id b0 = k" then show ?thesis by simp
    next
      assume "lease_id a0 = k" "lease_id b0 \<noteq> k"
      with a0 b0 eq only [OF a0(1)] free [OF b0(1)] show ?thesis by (simp add: lease_rows)
    next
      assume "lease_id a0 \<noteq> k" "lease_id b0 = k"
      with a0 b0 eq only [OF b0(1)] free [OF a0(1)] show ?thesis by (simp add: lease_rows)
    next
      assume "lease_id a0 \<noteq> k" "lease_id b0 \<noteq> k"
      with a0 b0 eq have "lease_provider a0 = lease_provider b0 \<and>
        lease_instance_id a0 = lease_instance_id b0 \<and> lease_instance_id a0 \<noteq> None" by metis
      with assms(1) a0(1) b0(1) show ?thesis unfolding unique_bindings_def by blast
    qed
    with a0 b0 show "lease_id a = lease_id b" by (auto simp: lease_rows)
  qed
qed

section \<open>Operations are steps\<close>

text \<open>
  \<open>lease_step d d'\<close>: the lease table moved along the relation with unique bindings kept, the
  journal grew, and every other table is as it was.
\<close>

definition leases_ok :: "db \<Rightarrow> bool" where
  "leases_ok d \<longleftrightarrow>
     distinct (map lease_id (leases d)) \<and> unique_bindings (leases d) \<and> list_all lease_wf (leases d)"

definition lease_step :: "db \<Rightarrow> db \<Rightarrow> bool" where
  "lease_step d d' \<longleftrightarrow>
     jobs d' = jobs d \<and> links d' = links d \<and> workers d' = workers d \<and> cache d' = cache d \<and>
     meta d' = meta d \<and> plans d' = plans d \<and> authority d' = authority d \<and> grows d d' \<and>
     leases_move d d' \<and> leases_ok d'"

lemma lease_step_refl: "leases_ok d \<Longrightarrow> lease_step d d"
  by (simp add: lease_step_def leases_move_same)

lemma lease_step_trans: "lease_step d e \<Longrightarrow> lease_step e f \<Longrightarrow> lease_step d f"
  by (auto simp: lease_step_def intro: grows_trans leases_move_trans)

lemma lease_step_ok: "lease_step d d' \<Longrightarrow> leases_ok d'"
  by (simp add: lease_step_def)

lemma lease_update_step:
  assumes "lease_update d i f d'" and "leases_ok d" and "find_lease d i = Some l"
    and "lease_edge l (f l)"
    and "unique_bindings (update_where (\<lambda>m. lease_id m = i) f (leases d))"
  shows "lease_step d d'"
proof -
  have q: "quiet (update_lease i f d) d'" using assms(1) by (simp add: lease_update_def)
  have move: "leases_move d d'"
    using lease_update_move [OF assms(1) _ assms(3,4)] assms(2) by (simp add: leases_ok_def)
  have "distinct (map lease_id (leases d'))"
    using assms(2) by (simp add: leases_ok_def leases_move_ids [OF move])
  moreover have "list_all lease_wf (leases d')"
    using move assms(2) unfolding leases_move_def leases_ok_def by (metis list_all2_wf)
  moreover have "unique_bindings (leases d')" using assms(5) by (simp add: quiet_tables [OF q])
  ultimately show ?thesis
    using move quiet_grows [OF q] by (simp add: lease_step_def leases_ok_def quiet_tables [OF q])
qed

lemma plain_lease_step:
  assumes "lease_update d i f d'" "leases_ok d" "find_lease d i = Some l" "lease_edge l (f l)"
    and "\<And>l. lease_id (f l) = lease_id l \<and> lease_provider (f l) = lease_provider l \<and>
               lease_instance_id (f l) = lease_instance_id l"
  shows "lease_step d d'"
  using assms(1-4)
  by (rule lease_update_step)
     (rule update_bindings_same [OF _ assms(5)], use assms(2) in \<open>simp add: leases_ok_def\<close>)

lemma row_bindings:
  "lease_id (renew_row w ttl n l) = lease_id l \<and> lease_provider (renew_row w ttl n l) = lease_provider l \<and>
     lease_instance_id (renew_row w ttl n l) = lease_instance_id l"
  "lease_id (revoke_row r n l) = lease_id l \<and> lease_provider (revoke_row r n l) = lease_provider l \<and>
     lease_instance_id (revoke_row r n l) = lease_instance_id l"
  "lease_id (attempt_row e n l) = lease_id l \<and> lease_provider (attempt_row e n l) = lease_provider l \<and>
     lease_instance_id (attempt_row e n l) = lease_instance_id l"
  "lease_id (confirm_row n l) = lease_id l \<and> lease_provider (confirm_row n l) = lease_provider l \<and>
     lease_instance_id (confirm_row n l) = lease_instance_id l"
  "lease_id (unbound_row r n l) = lease_id l \<and> lease_provider (unbound_row r n l) = lease_provider l \<and>
     lease_instance_id (unbound_row r n l) = lease_instance_id l"
  by (simp_all add: lease_rows)

lemmas plain_steps =
  plain_lease_step [OF _ _ _ lease_edge.renewed row_bindings(1)]
  plain_lease_step [OF _ _ _ lease_edge.revoked row_bindings(2)]
  plain_lease_step [OF _ _ _ lease_edge.attempted row_bindings(3)]
  plain_lease_step [OF _ _ _ lease_edge.confirmed row_bindings(4)]
  plain_lease_step [OF _ _ _ lease_edge.unbound row_bindings(5)]

lemma bind_lease_step:
  assumes "bind_lease env now d i instance w ttl = Inr (d', l')" and "leases_ok d"
  shows "lease_step d d'"
  using bind_lease_effect [OF assms(1)] assms(2)
  by (auto intro!: lease_step_refl lease_update_step bind_bindings lease_edge.bound
           simp: leases_ok_def)

lemma renew_lease_step:
  assumes "renew_lease now d i w ttl = Inr (d', l')" and "leases_ok d"
  shows "lease_step d d'"
  using renew_lease_effect [OF assms(1)] assms(2)
  by (elim exE conjE disjE)
     (fastforce intro: lease_step_refl plain_steps)+

lemma revoke_lease_step:
  assumes "request_lease_revocation env now d i reason = Inr (d', l')" and "leases_ok d"
  shows "lease_step d d'"
  using revoke_lease_effect [OF assms(1)] assms(2)
  by (elim exE conjE disjE)
     (fastforce intro: lease_step_refl plain_steps)+

lemma attempt_step:
  assumes "record_termination_attempt env now d i err = Inr (d', l')" and "leases_ok d"
  shows "lease_step d d'"
  using attempt_effect [OF assms(1)] assms(2)
  by (elim exE conjE disjE)
     (fastforce intro: lease_step_refl plain_steps)+

lemma confirm_step:
  assumes "confirm_lease_termination env now d i state absent = Inr (d', l')" and "leases_ok d"
  shows "lease_step d d'"
  using confirm_effect [OF assms(1)] assms(2)
  by (elim exE conjE disjE)
     (fastforce intro: lease_step_refl plain_steps)+

lemma close_unbound_step:
  assumes "close_unbound_lease env now d i reason = Inr (d', l')" and "leases_ok d"
  shows "lease_step d d'"
  using close_unbound_effect [OF assms(1)] assms(2)
  by (elim exE conjE)
     (fastforce intro: plain_steps)

lemma revoke_each_step: "leases_ok d \<Longrightarrow> lease_step d (fst (revoke_each env now reason ls d))"
proof (induction env now reason ls d rule: revoke_each.induct)
  case (1 env now reason d)
  then show ?case by (simp add: lease_step_refl)
next
  case (2 env now reason l ls d)
  show ?case
  proof (cases "request_lease_revocation env now d (lease_id l) reason")
    case (Inl e)
    with 2 show ?thesis by (simp add: lease_step_refl)
  next
    case (Inr r)
    obtain d1 l1 where r: "r = (d1, l1)" by (cases r)
    have s: "lease_step d d1" using Inr r 2 by (auto intro: revoke_lease_step)
    have "lease_step d1 (fst (revoke_each env now reason ls d1))"
      using 2(1) [OF Inr r [symmetric]] lease_step_ok [OF s] by simp
    from lease_step_trans [OF s this] Inr r show ?thesis
      by (auto split: prod.splits sum.splits)
  qed
qed

lemma claim_lease_step:
  assumes "claim_lease now d q = Inr (d', l)" and "leases_ok d"
  shows "lease_step d d'"
  using claim_lease_effect [OF assms(1)]
proof (elim disjE exE conjE)
  assume "d' = d" then show ?thesis using assms(2) by (simp add: lease_step_refl)
next
  fix m
  assume m: "find_lease d (lease_id m) = Some m" "lease_status m = Active"
    "d' = update_lease (lease_id m) (renew_row (Some (cr_worker_id q)) (cr_lease_ttl_seconds q) now) d"
  have "lease_update d (lease_id m) (renew_row (Some (cr_worker_id q)) (cr_lease_ttl_seconds q) now) d'"
    by (simp add: m lease_update_def)
  then show ?thesis using m assms(2) by (fastforce intro: plain_steps)
qed

end
