(* ===== verification/QueueSteps.thy ===== *)
theory QueueSteps
  imports LeaseSteps
begin

text \<open>
  The invariant of the queue database and what every operation that callers use keeps of it:
  finished jobs stay as they are, plan authorities and leases only move along their edges, and
  the journal is extended. The last section gathers the operations in one datatype and
  interprets the contracts of the prelude on it.
\<close>

section \<open>Plan operations\<close>

definition plan_change :: "db \<Rightarrow> job \<Rightarrow> job \<Rightarrow> db \<Rightarrow> bool" where
  "plan_change d j j' d' \<longleftrightarrow>
     rewritten d j j' d' \<and> others_same d d' \<and> cache d' = cache d \<and> authority d' = authority d \<and>
     plans_move d d'"

definition plan_only :: "db \<Rightarrow> db \<Rightarrow> bool" where
  \<comment> \<open>no table but the plan rows and their authority changed\<close>
  "plan_only d d' \<longleftrightarrow>
     jobs d' = jobs d \<and> others_same d d' \<and> cache d' = cache d \<and> plans_move d d'"

lemma plan_only_refl [simp]: "plan_only d d"
  by (simp add: plan_only_def plans_move_same)

lemma update_plans_tables [simp]:
  "jobs (update_plans P f d) = jobs d" "leases (update_plans P f d) = leases d"
  "links (update_plans P f d) = links d" "workers (update_plans P f d) = workers d"
  "cache (update_plans P f d) = cache d" "meta (update_plans P f d) = meta d"
  "authority (update_plans P f d) = authority d" "events (update_plans P f d) = events d"
  "event_counter (update_plans P f d) = event_counter d"
  "plans (update_plans P f d) = update_where P f (plans d)"
  "find_job (update_plans P f d) k = find_job d k"
  by (simp_all add: update_plans_def)

lemma grows_update_plans [simp]: "grows d (update_plans P f e) = grows d e"
  by (simp add: update_plans_def)

lemma others_update_plans [simp]: "others_same d (update_plans P f e) = others_same d e"
  by (simp add: others_same_def)

lemma update_plans_only:
  "(\<And>p. P p \<Longrightarrow> plan_moves plan_edge p (f p)) \<Longrightarrow> plan_only d (update_plans P f d)"
  by (simp add: plan_only_def plans_move_update)

lemma close_row_move:
  assumes "P p" and "\<And>p. P p \<Longrightarrow> plan_terminal (pl_state p) \<Longrightarrow> pl_state p = st" and "plan_terminal st"
  shows "plan_moves plan_edge p (close_plan_row st r now p)"
proof (cases "plan_terminal (pl_state p)")
  case True
  with assms show ?thesis by (simp add: plan_moves_def close_plan_row_def)
next
  case False
  with assms show ?thesis by (simp add: plan_moves_def close_plan_row_def plan_edge.closed)
qed

lemma require_one_plans:
  assumes "require_one P f m d = Inr d'"
  shows "d' = update_plans P f d \<and> rowcount P (plans d) = 1"
  using assms by (simp add: require_one_def split: if_splits)

lemma rewritten_job_kept [simp]:
  "job_id (cancelled_job n j) = job_id j" "job_created_at (cancelled_job n j) = job_created_at j"
  "job_status (cancelled_job n j) = FAILED"
  "job_id (completed_plan_job r n j) = job_id j"
  "job_created_at (completed_plan_job r n j) = job_created_at j"
  "job_status (completed_plan_job r n j) = COMPLETED"
  "job_id (retried_plan_job n j) = job_id j" "job_created_at (retried_plan_job n j) = job_created_at j"
  by (simp_all add: cancelled_job_def completed_plan_job_def retried_plan_job_def Let_def)

lemma plan_changeI:
  assumes "quiet d d0" and "quiet (write_job j' d0) d1" and "d2 = update_plans P f d1"
    and "find_job d (job_id j) = Some j" and "job_id j' = job_id j"
    and "job_created_at j' = job_created_at j"
    and "\<And>p. P p \<Longrightarrow> plan_moves plan_edge p (f p)"
  shows "plan_change d j j' d2"
proof -
  have g: "grows d d2"
    using quiet_grows [OF assms(1)] quiet_grows [OF assms(2)] assms(3)
    by (auto intro: grows_trans)
  have "plans_move d d2"
    by (rule plans_move_update [where P = P and f = f])
       (simp_all add: assms quiet_tables [OF assms(1)] quiet_tables [OF assms(2)])
  with g assms(3-6) show ?thesis
    by (simp add: plan_change_def rewritten_def others_same_def write_job_def
          quiet_tables [OF assms(1)] quiet_tables [OF assms(2)])
qed

lemma plan_where_cases:
  "plan_where dg i ex p \<Longrightarrow> pl_state p \<notin> set ex"
  by (simp add: plan_where_def)

lemma cancel_plan_atomic_effect:
  assumes "cancel_plan_atomic env now d ident digest receipt = Inr (d', r)"
  shows "(d' = d \<and> r = find_job d ident \<and> (\<forall>j. r = Some j \<longrightarrow> terminal (job_status j))) \<or>
         (\<exists>j. find_job d ident = Some j \<and> \<not> terminal (job_status j) \<and>
              r = Some (cancelled_job now j) \<and> plan_change d j (cancelled_job now j) d')"
proof -
  let ?P = "plan_where digest ident [Completed_Plan, Cancelled, Failed_Plan, Terminal_Plan]"
  show ?thesis
  proof (cases "find_job d ident")
    case None
    with assms show ?thesis by (auto simp: cancel_plan_atomic_def split: sum.splits)
  next
    case (Some j)
    show ?thesis
    proof (cases "terminal (job_status j)")
      case True
      with Some assms show ?thesis by (auto simp: cancel_plan_atomic_def split: sum.splits)
    next
      case False
      obtain n d1 d2 where q: "queue_event env d ident (cancellation_event j) now = Inr d1"
        and s: "status_changed env now (cancelled_job now j) (job_status j)
                  (write_job (cancelled_job now j) d1) = Inr d2"
        and u: "require_one ?P (close_plan_row Cancelled n now)
                  ''plan cancellation authority is stale'' d2 = Inr d'"
        and r: "r = Some (cancelled_job now j)"
        using assms Some False by (auto simp: cancel_plan_atomic_def Let_def split: sum.splits)
      have "plan_change d j (cancelled_job now j) d'"
        by (rule plan_changeI [OF queue_event_quiet [OF q]
              queue_event_quiet [OF s [unfolded status_changed_def]]
              conjunct1 [OF require_one_plans [OF u]]])
           (use find_job_id [OF Some] Some in
             \<open>auto intro!: close_row_move [where P = ?P] dest: plan_where_cases
                   simp: plan_terminal_def\<close>)
      with Some False r show ?thesis by blast
    qed
  qed
qed

lemma complete_plan_atomic_effect:
  assumes "complete_plan_atomic env now d ident digest result receipt = Inr (d', r)"
  shows "(plan_only d d' \<and> authority d' = authority d \<and> r = find_job d ident \<and>
          (\<forall>j. r = Some j \<longrightarrow> terminal (job_status j))) \<or>
         (\<exists>j n. find_job d ident = Some j \<and> \<not> terminal (job_status j) \<and>
              validate_result_manifest (Some ident) None result = Inr n \<and>
              r = Some (completed_plan_job n now j) \<and>
              plan_change d j (completed_plan_job n now j) d')"
proof -
  let ?P = "plan_where digest ident [Cancelled, Failed_Plan, Terminal_Plan]"
  have P: "plan_moves plan_edge p (close_plan_row Completed_Plan c now p)" if "?P p" for p c
    by (rule close_row_move [where P = ?P]) (use that in \<open>auto simp: plan_terminal_def dest: plan_where_cases\<close>)
  obtain n c where n: "validate_result_manifest (Some ident) None result = Inr n"
    and c: "validate_closure_receipt env receipt = Inr c"
      "obj_get c ''status'' = JStr ''completed''"
    using assms by (auto simp: complete_plan_atomic_def split: sum.splits if_splits)
  show ?thesis
  proof (cases "find_job d ident")
    case None
    with assms n c show ?thesis by (auto simp: complete_plan_atomic_def)
  next
    case (Some j)
    then obtain p where p: "plan_owner d digest ident = Some p"
      using assms n c by (auto simp: complete_plan_atomic_def split: option.splits)
    show ?thesis
    proof (cases "terminal (job_status j)")
      case True
      with assms n c Some p show ?thesis
        using update_plans_only [where P = ?P and f = "close_plan_row Completed_Plan c now", OF P]
        by (auto simp: complete_plan_atomic_def Let_def terminal_def split: if_splits)
    next
      case False
      obtain d1 where s: "status_changed env now (completed_plan_job n now j) (job_status j)
                  (write_job (completed_plan_job n now j) d) = Inr d1"
        and u: "require_one ?P (close_plan_row Completed_Plan c now)
                  ''plan completion authority is stale'' d1 = Inr d'"
        and r: "r = Some (completed_plan_job n now j)"
        using assms Some False n c p
        by (auto simp: complete_plan_atomic_def Let_def terminal_def split: sum.splits if_splits)
      have "plan_change d j (completed_plan_job n now j) d'"
        by (rule plan_changeI [OF quiet_refl queue_event_quiet [OF s [unfolded status_changed_def]]
              conjunct1 [OF require_one_plans [OF u]]])
           (use find_job_id [OF Some] Some P in auto)
      with Some False r n show ?thesis by blast
    qed
  qed
qed

lemma fail_plan_atomic_effect:
  assumes "fail_plan_atomic env now d ident digest receipt = Inr (d', r)"
  shows "(plan_only d d' \<and> authority d' = authority d \<and> r = find_job d ident \<and>
          (\<forall>j. r = Some j \<longrightarrow> terminal (job_status j))) \<or>
         (\<exists>j. find_job d ident = Some j \<and> \<not> terminal (job_status j) \<and>
              r = Some (retried_plan_job now j) \<and> plan_change d j (retried_plan_job now j) d')"
proof -
  let ?P = "plan_where digest ident [Cancelled, Completed_Plan, Terminal_Plan]"
  let ?Q = "plan_where digest ident [Cancelled, Completed_Plan, Failed_Plan, Terminal_Plan]"
  let ?f = "\<lambda>p. p\<lparr>pl_state := Submitted, pl_updated_at := now\<rparr>"
  have P: "plan_moves plan_edge p (close_plan_row Failed_Plan c now p)" if "?P p" for p c
    by (rule close_row_move [where P = ?P]) (use that in \<open>auto simp: plan_terminal_def dest: plan_where_cases\<close>)
  have Q: "plan_moves plan_edge p (?f p)" if "?Q p" for p
    using that by (auto simp: plan_moves_def plan_terminal_def dest: plan_where_cases
        intro!: plan_edge.retried)
  obtain n where n: "failure_receipt env receipt = Inr n"
    using assms by (auto simp: fail_plan_atomic_def split: sum.splits)
  show ?thesis
  proof (cases "find_job d ident")
    case None
    with assms n show ?thesis by (auto simp: fail_plan_atomic_def)
  next
    case (Some j)
    then obtain p where p: "plan_owner d digest ident = Some p"
      using assms n by (auto simp: fail_plan_atomic_def split: option.splits)
    show ?thesis
    proof (cases "terminal (job_status j)")
      case True
      with assms n Some p show ?thesis
        using update_plans_only [where P = ?P and f = "close_plan_row Failed_Plan c now" for c, OF P]
        by (auto simp: fail_plan_atomic_def Let_def split: option.splits if_splits)
    next
      case False
      obtain d1 where s: "status_changed env now (retried_plan_job now j) (job_status j)
                  (write_job (retried_plan_job now j) d) = Inr d1"
        and u: "(\<exists>c. require_one ?P (close_plan_row Failed_Plan c now)
                  ''plan failure authority is stale'' d1 = Inr d') \<or>
                require_one ?Q ?f ''plan failure authority is stale'' d1 = Inr d'"
        and r: "r = Some (retried_plan_job now j)"
        using assms Some False n p
        by (auto simp: fail_plan_atomic_def Let_def split: sum.splits if_splits option.splits)
      note q = queue_event_quiet [OF s [unfolded status_changed_def]]
      from u have "plan_change d j (retried_plan_job now j) d'"
      proof (elim disjE exE)
        fix c
        assume u: "require_one ?P (close_plan_row Failed_Plan c now)
                     ''plan failure authority is stale'' d1 = Inr d'"
        show ?thesis
          by (rule plan_changeI [OF quiet_refl q conjunct1 [OF require_one_plans [OF u]]])
             (use find_job_id [OF Some] Some P in auto)
      next
        assume u: "require_one ?Q ?f ''plan failure authority is stale'' d1 = Inr d'"
        show ?thesis
          by (rule plan_changeI [OF quiet_refl q conjunct1 [OF require_one_plans [OF u]]])
             (use find_job_id [OF Some] Some Q in auto)
      qed
      with Some False r show ?thesis by blast
    qed
  qed
qed


lemma set_plan_state_only:
  assumes "find_plan d dg = Some p" and "distinct (map pl_digest (plans d))"
    and "st = pl_state p \<or> plan_edge (pl_state p) st"
  shows "plan_only d (set_plan_state dg st now d)"
proof -
  have only: "q = p" if "q \<in> set (plans d)" "pl_digest q = dg" for q
    using assms(1) find_distinct [OF assms(2) that(1)] that(2) by (simp add: find_plan_def)
  have "plans_move d (set_plan_state dg st now d)"
    unfolding plans_move_def set_plan_state_def update_plans_tables
    by (rule list_all2_update_where) (use only assms(3) in \<open>auto simp: plan_moves_def\<close>)
  then show ?thesis by (simp add: plan_only_def set_plan_state_def)
qed

lemma cancel_plan_only:
  assumes "distinct (map pl_digest (plans d))"
  shows "plan_only d (fst (cancel_plan now d dg))"
  by (auto simp: cancel_plan_def Let_def split: option.splits
           intro!: set_plan_state_only [OF _ assms] plan_edge.cancelling)

lemma sync_status_only:
  assumes "sync_status now d dg job st = Inr (d', r)" and "distinct (map pl_digest (plans d))"
  shows "plan_only d d'"
proof -
  have "(\<exists>p. find_plan d dg = Some p \<and> (st \<in> allowed_sync (pl_state p) \<or> st = pl_state p) \<and>
             d' = set_plan_state dg st now d) \<or> d' = d"
    using assms(1) by (auto simp: sync_status_def Let_def split: if_splits option.splits)
  then show ?thesis
    using assms(2) by (auto intro!: set_plan_state_only plan_edge.sync)
qed

lemma reconcile_only: "plan_only d (fst (reconcile_unknown_submit now d dg job))"
  by (auto simp: reconcile_unknown_submit_def Let_def plan_moves_def
           intro!: update_plans_only plan_edge.submitted)

lemma abort_submit_only: "plan_only d (abort_submit now d dg job)"
proof -
  have "plans_move d (abort_submit now d dg job)"
    unfolding abort_submit_def plans_move_def update_plans_def
    by (auto intro!: list_all2_update_where simp: plan_moves_def plan_edge.aborted)
  then show ?thesis by (simp add: plan_only_def abort_submit_def others_same_def update_plans_def)
qed

lemma closing_state_terminal: "plan_terminal (closing_state s)"
  by (cases s) (simp_all add: plan_terminal_def)

lemma close_plan_only:
  assumes "close_plan env now d dg receipt = Inr (d', u)"
  shows "plan_only d d'"
  using assms
  by (auto simp: close_plan_def close_plan_row_def plan_moves_def closing_state_terminal
           split: sum.splits option.splits if_splits
           intro!: update_plans_only plan_edge.closed)

section \<open>The invariant\<close>

definition queue_ok :: "db \<Rightarrow> bool" where
  "queue_ok d \<longleftrightarrow>
     distinct (map job_id (jobs d)) \<and> leases_ok d \<and> links_ok d \<and> journal_ok d \<and>
     distinct (map wk_id (workers d)) \<and> distinct (map pc_key (cache d)) \<and>
     distinct (map pl_digest (plans d))"

lemma queue_okD:
  assumes "queue_ok d"
  shows "distinct (map job_id (jobs d))" "leases_ok d" "links_ok d" "journal_ok d"
    "distinct (map wk_id (workers d))" "distinct (map pc_key (cache d))"
    "distinct (map pl_digest (plans d))"
  using assms by (simp_all add: queue_ok_def)

lemma empty_db_ok: "queue_ok empty_db"
  by (simp add: queue_ok_def empty_db_def leases_ok_def unique_bindings_def links_ok_def
        journal_ok_def producer_keys_def)

definition jobs_kept :: "db \<Rightarrow> db \<Rightarrow> bool" where
  "jobs_kept d d' \<longleftrightarrow>
     (\<forall>k j. find_job d k = Some j \<and> terminal (job_status j) \<longrightarrow> find_job d' k = Some j)"

definition leases_grow :: "db \<Rightarrow> db \<Rightarrow> bool" where
  "leases_grow d d' \<longleftrightarrow> list_all2 lease_path (leases d) (take (length (leases d)) (leases d'))"

definition advances :: "db \<Rightarrow> db \<Rightarrow> bool" where
  "advances d d' \<longleftrightarrow>
     queue_ok d' \<and> jobs_kept d d' \<and> plans_move d d' \<and> leases_grow d d' \<and> grows d d'"

lemma leases_grow_same [simp]: "leases d' = leases d \<Longrightarrow> leases_grow d d'"
  by (simp add: leases_grow_def list.rel_refl)

lemma leases_move_grow: "leases_move d d' \<Longrightarrow> leases_grow d d'"
  by (simp add: leases_grow_def leases_move_def list_all2_lengthD)

lemma leases_grow_find:
  assumes "leases_grow d d'" and "find_lease d k = Some l"
  shows "\<exists>l'. find_lease d' k = Some l' \<and> lease_path l l'"
proof -
  have "\<exists>l'. find (\<lambda>l. lease_id l = k) (take (length (leases d)) (leases d')) = Some l' \<and> lease_path l l'"
    using list_all2_find [of lease_path "leases d" "take (length (leases d)) (leases d')" lease_id k l]
      assms
    by (auto simp: leases_grow_def find_lease_def dest: path_forward forward_id)
  then obtain l' where "find (\<lambda>l. lease_id l = k) (take (length (leases d)) (leases d')) = Some l'"
    and "lease_path l l'" by blast
  moreover have "find_lease d' k = find (\<lambda>l. lease_id l = k)
      (take (length (leases d)) (leases d') @ drop (length (leases d)) (leases d'))"
    by (simp add: find_lease_def)
  ultimately show ?thesis by (simp only: find_append) simp
qed

lemma jobs_kept_same: "jobs d' = jobs d \<Longrightarrow> jobs_kept d d'"
  by (simp add: jobs_kept_def find_job_def)

lemma jobs_kept_rewritten:
  "rewritten d j j' d' \<Longrightarrow> \<not> terminal (job_status j) \<Longrightarrow> jobs_kept d d'"
  by (auto simp: jobs_kept_def rewritten_find) (simp add: rewritten_def)

lemma grows_ok: "grows d d' \<Longrightarrow> journal_ok d \<Longrightarrow> journal_ok d'"
  by (simp add: grows_def)

text \<open>Each kind of effect advances the database.\<close>

lemma lease_step_advances: "lease_step d d' \<Longrightarrow> queue_ok d \<Longrightarrow> advances d d'"
  by (auto simp: advances_def queue_ok_def lease_step_def links_ok_def
           intro: jobs_kept_same leases_move_grow plans_move_same grows_ok)

lemma leases_ok_same: "leases d' = leases d \<Longrightarrow> leases_ok d' = leases_ok d"
  by (simp add: leases_ok_def)

lemma others_same_ok:
  assumes "others_same d d'" and "queue_ok d"
  shows "leases_ok d'" "links_ok d'" "journal_ok d'" "distinct (map wk_id (workers d'))"
    "leases_grow d d'" "grows d d'"
  using assms by (auto simp: others_same_def queue_ok_def leases_ok_def links_ok_def grows_def)

lemma plan_only_advances: "plan_only d d' \<Longrightarrow> queue_ok d \<Longrightarrow> advances d d'"
  using others_same_ok [of d d']
  by (auto simp: advances_def queue_ok_def plan_only_def plans_move_digests jobs_kept_same)

lemma plan_change_advances:
  assumes "plan_change d j j' d'" "\<not> terminal (job_status j)" "queue_ok d"
  shows "advances d d'"
proof -
  have r: "rewritten d j j' d'" and o: "others_same d d'" and c: "cache d' = cache d"
    and p: "plans_move d d'"
    using assms(1) by (simp_all add: plan_change_def)
  show ?thesis
    using others_same_ok [OF o assms(3)] c p assms(3) rewritten_ids [OF r]
      plans_move_digests [OF p] jobs_kept_rewritten [OF r assms(2)]
    by (simp add: advances_def queue_ok_def)
qed

lemma job_change_advances:
  "job_change d j j' d' \<Longrightarrow> \<not> terminal (job_status j) \<Longrightarrow> queue_ok d \<Longrightarrow> advances d d'"
  by (rule plan_change_advances) (auto simp: job_change_def plan_change_def plans_move_same)

lemma linked_advances: "linked d d' \<Longrightarrow> queue_ok d \<Longrightarrow> advances d d'"
  by (auto simp: advances_def queue_ok_def linked_def leases_ok_def
           intro: jobs_kept_same leases_move_grow plans_move_same grows_ok)

lemma quiet_advances: "quiet d d' \<Longrightarrow> queue_ok d \<Longrightarrow> advances d d'"
  by (intro linked_advances quiet_linked)

lemma advances_refl: "queue_ok d \<Longrightarrow> advances d d"
  by (intro quiet_advances) simp_all

end
