(* ===== verification/QueueOps.thy ===== *)
theory QueueOps
  imports QueueSteps
begin

text \<open>
  The operations of \<open>JobQueue\<close> and \<open>PlanProtocolStore\<close> that callers use, gathered in one
  datatype with the instants that they read from the clock. The contracts of the prelude are
  interpreted on it: the invariant, the finished rows, the journal. \<open>update\<close>, \<open>delete\<close> and
  \<open>cleanup_old\<close> are not among them: they may overwrite or remove a finished job.
\<close>

section \<open>Every operation advances\<close>

lemma create_advances:
  assumes "create env now uuid d model path params request provider st wanted = Inr (d', j)"
    and "queue_ok d"
  shows "advances d d'"
proof -
  from create_effect [OF assms(1)]
  have new: "find_job d (job_id j) = None" and q: "quiet (d\<lparr>jobs := jobs d @ [j]\<rparr>) d'" by auto
  have "job_id j \<notin> job_id ` set (jobs d)"
    using new unfolding find_job_def by (simp add: find_None_keys)
  with assms(2) have "queue_ok (d\<lparr>jobs := jobs d @ [j]\<rparr>)"
    by (simp add: queue_ok_def leases_ok_def links_ok_def journal_ok_def)
  from quiet_advances [OF q this] new show ?thesis
    by (auto simp: advances_def jobs_kept_def find_job_def find_append plans_move_def leases_grow_def
             split: option.splits)
qed

lemma changed_or_same_advances:
  assumes "d' = d \<or> (\<exists>j j'. \<not> terminal (job_status j) \<and> job_change d j j' d')" and "queue_ok d"
  shows "advances d d'"
  using assms by (auto intro: advances_refl job_change_advances)

lemma update_status_advances:
  assumes "update_status env now d i st err kws = Inr (d', r)" and "queue_ok d"
  shows "advances d d'"
  using changed_or_same_advances [OF _ assms(2)] update_status_effect [OF assms(1)] by blast

lemma fail_job_advances:
  assumes "fail_job env now d i err = Inr (d', r)" and "queue_ok d"
  shows "advances d d'"
  using changed_or_same_advances [OF _ assms(2)] fail_job_effect [OF assms(1)] by blast

lemma set_progress_advances:
  assumes "set_progress env now d i p = Inr (d', r)" and "queue_ok d"
  shows "advances d d'"
  using changed_or_same_advances [OF _ assms(2)] set_progress_effect [OF assms(1)] by blast

lemma put_cache_advances:
  assumes "advances d e"
  shows "advances d (put_partition_cache now key result e)"
proof -
  have "distinct (map pc_key (cache e)) \<Longrightarrow>
        distinct (map pc_key (cache (put_partition_cache now key result e)))"
    by (auto simp: put_partition_cache_def find_None_keys map_update_where_key)
  with assms show ?thesis
    by (auto simp: advances_def queue_ok_def jobs_kept_def plans_move_def leases_grow_def
          put_partition_cache_def leases_ok_def links_ok_def journal_ok_def)
qed

lemma complete_job_advances:
  assumes "complete_job env now now2 d i result = Inr (d', r)" and "queue_ok d"
  shows "advances d d'"
proof -
  obtain d1 where u: "update_status env now d i COMPLETED None
                        [Kw_result (Some result), Kw_progress 100] = Inr (d1, r)"
    and d': "d' = d1 \<or> (\<exists>key. d' = put_partition_cache now2 key result d1)"
    using assms(1) by (fastforce simp: complete_job_def split: sum.splits option.splits)
  have "advances d d1" by (rule update_status_advances [OF u assms(2)])
  with d' show ?thesis by (auto intro: put_cache_advances)
qed

lemma upsert_worker_advances:
  assumes "advances d e"
  shows "advances d (upsert_worker w e)"
proof -
  have "distinct (map wk_id (workers e)) \<Longrightarrow> distinct (map wk_id (workers (upsert_worker w e)))"
    by (auto simp: upsert_worker_def find_None_keys map_overwrite_key)
  with assms show ?thesis
    by (auto simp: advances_def queue_ok_def jobs_kept_def plans_move_def leases_grow_def
          upsert_worker_def leases_ok_def links_ok_def journal_ok_def)
qed

lemma renew_lease_advances:
  "renew_lease now d i w ttl = Inr (d', l) \<Longrightarrow> queue_ok d \<Longrightarrow> advances d d'"
  by (blast intro: lease_step_advances renew_lease_step queue_okD(2))

lemma record_worker_advances:
  assumes "record_worker now now2 d w p st prof caps idle detail li ttl = Inr (d', u)" "queue_ok d"
  shows "advances d d'"
  using assms
  by (auto simp: record_worker_def Let_def split: if_splits sum.splits
           intro!: upsert_worker_advances intro: renew_lease_advances advances_refl)

lemma set_token_advances:
  assumes "set_worker_token env d token = Inr (d', u)" and "queue_ok d"
  shows "advances d d'"
  using assms advances_refl [OF assms(2)]
  by (auto simp: set_worker_token_def set_meta_def advances_def queue_ok_def jobs_kept_def
        plans_move_def leases_grow_def leases_ok_def links_ok_def journal_ok_def
        split: if_splits)

lemma authorize_advances:
  assumes "authorize_worker_job now now2 d i w li ttl = Inr (d', j)" and "queue_ok d"
  shows "advances d d'"
  using assms
  by (auto simp: authorize_worker_job_def Let_def split: option.splits if_splits sum.splits
           intro: renew_lease_advances advances_refl)

lemma unique_bindings_new:
  assumes "unique_bindings ls" and "lease_instance_id l = None"
  shows "unique_bindings (ls @ [l])"
  unfolding unique_bindings_def
proof (intro ballI impI)
  fix a b
  assume "a \<in> set (ls @ [l])" "b \<in> set (ls @ [l])"
    and eq: "lease_provider a = lease_provider b \<and> lease_instance_id a = lease_instance_id b \<and>
             lease_instance_id a \<noteq> None"
  then have "a \<in> set ls" "b \<in> set ls" using assms(2) by auto
  with assms(1) eq show "lease_id a = lease_id b" unfolding unique_bindings_def by blast
qed

lemma create_lease_advances:
  assumes "create_lease env now uuid d p prof js rate mr mc ttl wanted = Inr (d', l)" "queue_ok d"
  shows "advances d d'"
proof -
  let ?d = "d\<lparr>leases := leases d @ [l]\<rparr>"
  from create_lease_effect [OF assms(1)]
  have new: "find_lease d (lease_id l) = None" and k: "linked ?d d'"
    and l: "l = new_lease (lease_id l) (py_strip p) (py_strip prof) rate mr mc ttl now" by auto
  have inst: "lease_instance_id l = None" and wf: "lease_wf l"
    by (subst l, simp add: new_lease_def) (subst l, rule new_lease_wf)
  have "lease_id l \<notin> lease_id ` set (leases d)"
    using new unfolding find_lease_def by (simp add: find_None_keys)
  moreover have "unique_bindings (leases d @ [l])"
    using queue_okD(2) [OF assms(2)] inst by (simp add: leases_ok_def unique_bindings_new)
  ultimately have "queue_ok ?d"
    using assms(2) wf by (simp add: queue_ok_def leases_ok_def links_ok_def journal_ok_def)
  from linked_advances [OF k this] have ok: "queue_ok d'" and g: "grows d d'"
    by (simp_all add: advances_def)
  have "jobs d' = jobs d" "plans d' = plans d" "leases d' = leases d @ [l]"
    using k by (simp_all add: linked_def)
  with ok g show ?thesis
    by (simp add: advances_def jobs_kept_same plans_move_same leases_grow_def list.rel_refl)
qed

text \<open>A claim: the rows it rewrites were queued.\<close>

lemma claim_rows_queued:
  assumes "j \<in> set (claim_rows env d q)"
  shows "j \<in> set (jobs d) \<and> claimable env q j"
proof -
  have "set (sql_limit n xs) \<subseteq> set xs" for n and xs :: "job list"
    by (auto simp: sql_limit_def dest: in_set_takeD)
  with assms show ?thesis by (force simp: claim_rows_def)
qed

lemma claimed_was_queued:
  assumes "distinct (map job_id (jobs d))" and "k \<in> job_id ` set (claim_rows env d q)"
    and "find_job d k = Some j"
  shows "claimable env q j"
proof -
  obtain r where r: "r \<in> set (claim_rows env d q)" "job_id r = k" using assms(2) by auto
  from claim_rows_queued [OF r(1)] have "find_job d k = Some r"
    using find_distinct [OF assms(1)] r(2) by (auto simp: find_job_def)
  with assms(3) claim_rows_queued [OF r(1)] show ?thesis by simp
qed

lemma claim_frame_advances:
  assumes "claim_frame d d'" and "queue_ok d"
  shows "advances d d'"
  using assms plans_move_digests [OF claim_moves_edges [of d d']] claim_moves_edges [of d d']
  by (auto simp: advances_def queue_ok_def claim_frame_def leases_ok_def jobs_kept_same grows_ok)

lemma claim_update_ids: "map job_id (jobs (claim_update ids w t d)) = map job_id (jobs d)"
  by (simp add: claim_update_def map_update_where_key)

lemma claim_update_counter [simp]: "event_counter (claim_update ids w t d) = event_counter d"
  by (simp add: claim_update_def)

lemma claim_jobs_advances:
  assumes "claim_jobs env now t d token q = Inr (d', js)" and "queue_ok d"
  shows "advances d d'"
  using assms(1)
proof (cases rule: claim_jobs_effect)
  case (none l)
  then show ?thesis
    using assms(2) by (blast intro: lease_step_advances claim_lease_step queue_okD(2))
next
  case (claimed d1 l ids)
  let ?d2 = "claim_update ids (cr_worker_id q) t d1"
  have s: "lease_step d d1" by (rule claim_lease_step [OF claimed(1)]) (rule queue_okD(2) [OF assms(2)])
  have a1: "advances d d1" by (rule lease_step_advances [OF s assms(2)])
  then have ok1: "queue_ok d1" by (simp add: advances_def)
  have ok2: "queue_ok ?d2"
    using ok1 claim_update_ids [of ids "cr_worker_id q" t d1]
    by (simp add: queue_ok_def leases_ok_def links_ok_def journal_ok_def claim_update_counter)
  have open_row: "\<not> terminal (job_status j)" if "k \<in> set ids" "find_job d1 k = Some j" for k j
    using claimed_was_queued [OF queue_okD(1) [OF ok1] _ that(2), of env q] that(1) claimed(2)
    by (auto simp: claimable_def)
  have kept: "jobs_kept d1 ?d2"
    using open_row by (auto simp: jobs_kept_def find_claim_update)
  from claim_frame_advances [OF claimed(5) ok2] have a2: "advances ?d2 d'" .
  have "jobs_kept d d'"
    using a1 kept a2 unfolding advances_def jobs_kept_def by blast
  moreover have "plans_move d d'"
    using a2 s by (simp add: advances_def plans_move_def lease_step_def)
  moreover have "leases_grow d d'"
    using s claimed(5) by (auto simp: lease_step_def claim_frame_def leases_grow_def leases_move_def
        list_all2_lengthD)
  moreover have "grows d d'"
    using s a2 queue_okD(4) [of d'] by (auto simp: lease_step_def advances_def grows_def)
  ultimately show ?thesis using a2 by (simp add: advances_def)
qed


section \<open>The operations as one datatype\<close>

text \<open>
  \<open>op_now\<close> is the instant of the first clock reading of the operation and \<open>op_later\<close> of the
  second, for the operations that read the clock twice.
\<close>

datatype queue_call =
    Create string string string json json "string option" job_status "string option"
  | Update_Status string job_status "string option" "job_kw list"
  | Fail_Job string string
  | Set_Progress string int
  | Complete_Job string json
  | Claim_Jobs "string option" claim_request
  | Authorize string "string option" "string option" int
  | Append_Event string json "string option" "json option" "stamp option"
  | Put_Cache string json
  | Set_Token string
  | Record_Worker string string string "string option" "string list" bool "string option"
      "string option" int
  | Create_Lease string string string "string list" "rat option" "int option" "rat option" int
      "string option"
  | Attach_Job string string
  | Bind_Lease string string "string option" int
  | Renew_Lease string "string option" int
  | Revoke_Lease string string
  | Revoke_Job string string
  | Attempt_Termination string "string option"
  | Confirm_Termination string string bool
  | Close_Unbound string string
  | Cancel_Plan_Atomic string string json
  | Complete_Plan_Atomic string string json json
  | Fail_Plan_Atomic string string "json option"
  | Cancel_Plan string
  | Sync_Status string string plan_state
  | Reconcile string "string option"
  | Abort_Submit string string
  | Close_Plan string json

record queue_op =
  op_now :: time
  op_later :: time
  op_call :: queue_call

fun queue_step :: "pyenv \<Rightarrow> queue_op \<Rightarrow> db \<Rightarrow> db" where
  "queue_step env q d =
     (let t = op_now q; u = op_later q in
      (case op_call q of
         Create i m path ps rq pr st w \<Rightarrow> commit d (create env t i d m path ps rq pr st w)
       | Update_Status i st e kws \<Rightarrow> commit d (update_status env t d i st e kws)
       | Fail_Job i e \<Rightarrow> commit d (fail_job env t d i e)
       | Set_Progress i p \<Rightarrow> commit d (set_progress env t d i p)
       | Complete_Job i r \<Rightarrow> commit d (complete_job env t u d i r)
       | Claim_Jobs tok c \<Rightarrow> commit d (claim_jobs env t u d tok c)
       | Authorize i w l ttl \<Rightarrow> commit d (authorize_worker_job t u d i w l ttl)
       | Append_Event i e p n o' \<Rightarrow> commit d (append_event env t d i e p n o')
       | Put_Cache k r \<Rightarrow> put_partition_cache t k r d
       | Set_Token s \<Rightarrow> commit d (set_worker_token env d s)
       | Record_Worker w p st prof caps idle det l ttl \<Rightarrow>
           commit d (record_worker t u d w p st prof caps idle det l ttl)
       | Create_Lease i p prof js rate mr mc ttl w \<Rightarrow>
           commit d (create_lease env t i d p prof js rate mr mc ttl w)
       | Attach_Job l j \<Rightarrow> commit d (attach_job_to_lease env t d l j)
       | Bind_Lease l i w ttl \<Rightarrow> commit d (bind_lease env t d l i w ttl)
       | Renew_Lease l w ttl \<Rightarrow> commit d (renew_lease t d l w ttl)
       | Revoke_Lease l r \<Rightarrow> commit d (request_lease_revocation env t d l r)
       | Revoke_Job j r \<Rightarrow> fst (request_job_lease_revocation env t d j r)
       | Attempt_Termination l e \<Rightarrow> commit d (record_termination_attempt env t d l e)
       | Confirm_Termination l s a \<Rightarrow> commit d (confirm_lease_termination env t d l s a)
       | Close_Unbound l r \<Rightarrow> commit d (close_unbound_lease env t d l r)
       | Cancel_Plan_Atomic i dg rc \<Rightarrow> commit d (cancel_plan_atomic env t d i dg rc)
       | Complete_Plan_Atomic i dg r rc \<Rightarrow> commit d (complete_plan_atomic env t d i dg r rc)
       | Fail_Plan_Atomic i dg rc \<Rightarrow> commit d (fail_plan_atomic env t d i dg rc)
       | Cancel_Plan dg \<Rightarrow> fst (cancel_plan t d dg)
       | Sync_Status dg j st \<Rightarrow> commit d (sync_status t d dg j st)
       | Reconcile dg j \<Rightarrow> fst (reconcile_unknown_submit t d dg j)
       | Abort_Submit dg j \<Rightarrow> abort_submit t d dg j
       | Close_Plan dg rc \<Rightarrow> commit d (close_plan env t d dg rc)))"

lemma commit_advances:
  "(\<And>d' a. r = Inr (d', a) \<Longrightarrow> advances d d') \<Longrightarrow> queue_ok d \<Longrightarrow> advances d (commit d r)"
  by (cases r) (auto intro: advances_refl)

lemma append_event_advances:
  assumes "append_event env now d i e p n oc = Inr (d', r)" and "queue_ok d"
  shows "advances d d'"
  using assms
  by (auto simp: append_event_def split: if_splits sum.splits intro: quiet_advances append_quiet)

lemmas call_advances =
  create_advances update_status_advances fail_job_advances set_progress_advances
  complete_job_advances claim_jobs_advances authorize_advances append_event_advances
  set_token_advances record_worker_advances create_lease_advances
  linked_advances [OF attach_job_effect] renew_lease_advances

lemmas lease_call_advances =
  lease_step_advances [OF bind_lease_step] lease_step_advances [OF revoke_lease_step]
  lease_step_advances [OF attempt_step] lease_step_advances [OF confirm_step]
  lease_step_advances [OF close_unbound_step]

lemma cancel_plan_atomic_advances:
  "cancel_plan_atomic env t d i dg rc = Inr (d', r) \<Longrightarrow> queue_ok d \<Longrightarrow> advances d d'"
  by (drule cancel_plan_atomic_effect) (auto intro: advances_refl plan_change_advances)

lemma complete_plan_atomic_advances:
  "complete_plan_atomic env t d i dg rs rc = Inr (d', r) \<Longrightarrow> queue_ok d \<Longrightarrow> advances d d'"
  by (drule complete_plan_atomic_effect) (auto intro: plan_only_advances plan_change_advances)

lemma fail_plan_atomic_advances:
  "fail_plan_atomic env t d i dg rc = Inr (d', r) \<Longrightarrow> queue_ok d \<Longrightarrow> advances d d'"
  by (drule fail_plan_atomic_effect) (auto intro: plan_only_advances plan_change_advances)

lemmas plan_call_advances =
  cancel_plan_atomic_advances complete_plan_atomic_advances fail_plan_atomic_advances
  plan_only_advances [OF sync_status_only] plan_only_advances [OF close_plan_only]
  plan_only_advances [OF cancel_plan_only] plan_only_advances [OF reconcile_only]
  plan_only_advances [OF abort_submit_only]

lemma queue_step_advances:
  assumes "queue_ok d"
  shows "advances d (queue_step env q d)"
proof -
  note ok = assms queue_okD(2) [OF assms] queue_okD(7) [OF assms]
  show ?thesis
    by (cases "op_call q")
       (simp_all add: Let_def request_job_lease_revocation_def,
        (blast intro: commit_advances call_advances lease_call_advances plan_call_advances
           put_cache_advances advances_refl lease_step_advances revoke_each_step ok)+)
qed

section \<open>The contracts of the prelude\<close>

interpretation queue_inv: store_invariant "queue_step env" queue_ok for env
  using queue_step_advances by unfold_locales (simp add: advances_def)

interpretation finished_jobs:
  absorbing_store "queue_step env" queue_ok find_job "\<lambda>j. terminal (job_status j)" for env
proof unfold_locales
  fix d k j q
  assume "queue_ok d" "find_job d k = Some j" "terminal (job_status j)"
  then show "find_job (queue_step env q d) k = Some j"
    using queue_step_advances [of d env q] by (simp add: advances_def jobs_kept_def)
qed

definition plan_state_of :: "db \<Rightarrow> string \<Rightarrow> plan_state option" where
  "plan_state_of d digest = map_option pl_state (find_plan d digest)"

interpretation finished_plans:
  absorbing_store "queue_step env" queue_ok plan_state_of plan_terminal for env
proof unfold_locales
  fix d k st q
  assume ok: "queue_ok d" and p: "plan_state_of d k = Some st" and t: "plan_terminal st"
  then obtain p where p: "find_plan d k = Some p" "pl_state p = st" by (auto simp: plan_state_of_def)
  have "plans_move d (queue_step env q d)"
    using queue_step_advances [OF ok] by (simp add: advances_def)
  from plans_move_find [OF this p(1)] p(2) t plan_edge_from
  show "plan_state_of (queue_step env q d) k = Some st"
    by (auto simp: plan_state_of_def plan_moves_def)
qed

definition lease_state_of :: "db \<Rightarrow> string \<Rightarrow> lease_status option" where
  "lease_state_of d ident = map_option lease_status (find_lease d ident)"

interpretation closed_leases:
  absorbing_store "queue_step env" queue_ok lease_state_of "\<lambda>s. s = Closed" for env
proof unfold_locales
  fix d k st q
  assume ok: "queue_ok d" and p: "lease_state_of d k = Some st" and t: "st = Closed"
  then obtain l where l: "find_lease d k = Some l" "lease_status l = Closed"
    by (auto simp: lease_state_of_def)
  have "leases_grow d (queue_step env q d)"
    using queue_step_advances [OF ok] by (simp add: advances_def)
  from leases_grow_find [OF this l(1)] l(2) t
  show "lease_state_of (queue_step env q d) k = Some st"
    by (auto simp: lease_state_of_def dest: path_forward closed_forward)
qed

interpretation journal: append_only "queue_step env" queue_ok events for env
  using queue_step_advances by unfold_locales (simp add: advances_def grows_def)


lemma run_forward:
  "queue_ok d \<Longrightarrow> find_lease d k = Some l \<Longrightarrow>
   \<exists>l'. find_lease (run_steps (queue_step env) ops d) k = Some l' \<and> forward l l'"
proof (induction ops arbitrary: d l)
  case Nil
  then show ?case by simp
next
  case (Cons q ops)
  have a: "advances d (queue_step env q d)" by (rule queue_step_advances [OF Cons.prems(1)])
  then obtain m where m: "find_lease (queue_step env q d) k = Some m" "lease_path l m"
    using leases_grow_find [OF _ Cons.prems(2)] by (auto simp: advances_def)
  from Cons.IH [OF _ m(1)] a path_forward [OF m(2)] show ?case
    by (auto simp: advances_def intro: forward_trans)
qed

end
