(* ===== verification/Samples.thy ===== *)
theory Samples
  imports QueueOps
begin

text \<open>
  Concrete inputs for the witnesses: an environment in which the digest of a text is the text
  itself and numbers print as one text, two queued jobs, a bound lease and the databases that
  hold them.
\<close>

definition sample_env :: pyenv where
  "sample_env =
     \<lparr>float_repr = (\<lambda>q. ''1.0''), container_str = (\<lambda>j. ''{}''), sha256_hex = (\<lambda>s. s),
      parse_iso = (\<lambda>s. Some (0, True)), iso_utc = (\<lambda>t. ''1970-01-01T00:00:00Z''),
      iso_naive = (\<lambda>t. ''1970-01-01T00:00:00''), parse_float = (\<lambda>s. None),
      sql_float = (\<lambda>q. ''1.0''), hmac_hex = (\<lambda>k m. replicate 64 (CHR ''0'')),
      sha256_file = (\<lambda>s. replicate 64 (CHR ''0'')), json_loads = (\<lambda>s. None)\<rparr>"

definition sample_job :: "string \<Rightarrow> job_status \<Rightarrow> time \<Rightarrow> job" where
  "sample_job ident st t = new_job ident ''sdxl'' st ''in.png'' (JObj []) (JObj []) None t"

lemma sample_job_simps [simp]:
  "job_id (sample_job i st t) = i" "job_status (sample_job i st t) = st"
  "job_model (sample_job i st t) = ''sdxl''" "job_created_at (sample_job i st t) = t"
  "job_attempts (sample_job i st t) = 0" "job_max_attempts (sample_job i st t) = 3"
  "job_params (sample_job i st t) = JObj []" "job_request (sample_job i st t) = JObj []"
  "job_provider (sample_job i st t) = None" "job_worker_id (sample_job i st t) = None"
  "job_progress (sample_job i st t) = 0" "job_error (sample_job i st t) = None"
  by (simp_all add: sample_job_def new_job_def)

definition jobs_db :: "job list \<Rightarrow> db" where
  "jobs_db js = empty_db\<lparr>jobs := js\<rparr>"

lemma jobs_db_simps [simp]:
  "jobs (jobs_db js) = js" "events (jobs_db js) = []" "event_counter (jobs_db js) = 0"
  "leases (jobs_db js) = []" "links (jobs_db js) = []" "workers (jobs_db js) = []"
  "cache (jobs_db js) = []" "plans (jobs_db js) = []" "authority (jobs_db js) = []"
  "meta (jobs_db js) = [(''schema_version'', ''8'')]"
  by (simp_all add: jobs_db_def empty_db_def)

lemma jobs_db_ok: "distinct (map job_id js) \<Longrightarrow> queue_ok (jobs_db js)"
  by (simp add: queue_ok_def leases_ok_def unique_bindings_def links_ok_def journal_ok_def
        producer_keys_def)

definition sample_lease :: lease where
  "sample_lease =
     bind_row ''pod-1'' (Some ''w1'') 60 0
       (new_lease ''l1'' ''runpod'' ''gpu'' (Some 2) (Some 3600) (Some 1) 60 0)"

lemma sample_lease_simps [simp]:
  "lease_id sample_lease = ''l1''" "lease_provider sample_lease = ''runpod''"
  "lease_status sample_lease = Active" "lease_instance_id sample_lease = Some ''pod-1''"
  "lease_worker_id sample_lease = Some ''w1''" "lease_expires_at sample_lease = 60000000"
  "lease_termination_attempts sample_lease = 0" "lease_termination_confirmed_at sample_lease = None"
  by (simp_all add: sample_lease_def bind_row_def new_lease_def coalesce_def truthy_opt_def seconds_def)

definition lease_db :: "job list \<Rightarrow> db" where
  "lease_db js = (jobs_db js)\<lparr>leases := [sample_lease]\<rparr>"

lemma lease_db_simps [simp]:
  "jobs (lease_db js) = js" "leases (lease_db js) = [sample_lease]" "events (lease_db js) = []"
  "links (lease_db js) = []" "meta (lease_db js) = [(''schema_version'', ''8'')]"
  "plans (lease_db js) = []" "workers (lease_db js) = []" "cache (lease_db js) = []"
  "event_counter (lease_db js) = 0"
  by (simp_all add: lease_db_def)

lemma lease_db_ok: "distinct (map job_id js) \<Longrightarrow> queue_ok (lease_db js)"
  by (simp add: queue_ok_def leases_ok_def unique_bindings_def links_ok_def journal_ok_def
        producer_keys_def lease_wf_def)


definition sample_plan :: "string \<Rightarrow> plan_state \<Rightarrow> plan_row" where
  "sample_plan job st =
     \<lparr>pl_digest = ''d1'', pl_plan = JObj [], pl_preflight = JObj [], pl_job_id = Some job,
      pl_idempotency_key = None, pl_request_digest = None, pl_state = st, pl_closure = None,
      pl_preflight_request_digest = None, pl_provider_digest = None, pl_candidate_digest = None,
      pl_input_digest = None, pl_created_at = 0, pl_updated_at = 0\<rparr>"

lemma sample_plan_simps [simp]:
  "pl_digest (sample_plan j st) = ''d1''" "pl_state (sample_plan j st) = st"
  "pl_job_id (sample_plan j st) = Some j"
  by (simp_all add: sample_plan_def)

definition plan_db :: "job list \<Rightarrow> string \<Rightarrow> plan_state \<Rightarrow> db" where
  "plan_db js job st = (jobs_db js)\<lparr>plans := [sample_plan job st]\<rparr>"

lemma plan_db_simps [simp]:
  "jobs (plan_db js k st) = js" "plans (plan_db js k st) = [sample_plan k st]"
  "leases (plan_db js k st) = []" "events (plan_db js k st) = []" "links (plan_db js k st) = []"
  "workers (plan_db js k st) = []" "cache (plan_db js k st) = []"
  "event_counter (plan_db js k st) = 0" "meta (plan_db js k st) = [(''schema_version'', ''8'')]"
  by (simp_all add: plan_db_def)

lemma plan_db_ok: "distinct (map job_id js) \<Longrightarrow> queue_ok (plan_db js k st)"
  by (simp add: queue_ok_def leases_ok_def unique_bindings_def links_ok_def journal_ok_def
        producer_keys_def)


section \<open>Evaluating a claim\<close>

definition sample_claim :: "string option \<Rightarrow> claim_request" where
  "sample_claim l =
     \<lparr>cr_worker_id = ''w1'', cr_limit = 1, cr_provider = None, cr_models = None,
      cr_gpu_vram_gb = Some 80, cr_gpu_name = None, cr_cache_volume_id = None, cr_lease_id = l,
      cr_lease_ttl_seconds = 60\<rparr>"

lemmas eval_match =
  claim_rows_def sql_limit_def claimable_def provider_matches_def model_matches_def
  vram_matches_def gpu_matches_def cache_matches_def prepared_volume_def or_default_def
  py_round_def

lemmas eval_text =
  lifecycle_event_def progress_event_def partition_id_def sample_env_def str_field_def
  string_text_def escape_char_def code_def jopt_def int_text_def nat_text.simps utf8_length_def

lemmas eval_append =
  queue_event_def append_event_in_transaction_def is_plan_job_def plan_model_def
  append_normal_def normal_producer_def queue_producer_def py_strip_def is_space_def code_def
  with_phase_owner_def normal_sequence_def check_encoding_def occurred_stamp_def
  stamp_too_long_def insert_event_def max_event_bytes_def

lemmas eval_claim =
  claim_jobs_def verify_worker_token_def worker_auth_configured_def get_meta_def token_key_def
  claim_lease_def

lemma sample_claim_rows:
  "claim_rows sample_env (jobs_db [sample_job ''a'' QUEUED 1]) (sample_claim None) =
     [sample_job ''a'' QUEUED 1]"
  by (simp add: eval_match sample_claim_def)

lemma submit_meta [simp]: "meta (submit_claimed_plan now j d) = meta d"
  using submit_claimed_plan_frame [of d now j] by (simp add: claim_frame_def)

lemma sample_claim_runs:
  "\<exists>d' js. claim_jobs sample_env 5 6 (jobs_db [sample_job ''a'' QUEUED 1]) None (sample_claim None)
     = Inr (d', js) \<and> meta d' = [(''schema_version'', ''8'')]"
  by (simp add: eval_claim sample_claim_rows claim_one_def find_job_def claim_update_def Let_def
        eval_append)
     (simp add: sample_claim_def claimed_job_def eval_text)

section \<open>A plan job and its receipts\<close>

definition sample_receipt :: "(string \<times> json) list \<Rightarrow> json" where
  "sample_receipt extra =
     JObj ([(''receipt_id'', JStr ''r1''), (''status'', JStr ''failed''),
            (''provider_resource_absent'', JBool True)] @ extra)"

lemma sample_receipt_ok:
  "validate_closure_receipt sample_env (sample_receipt []) = Inr (sample_receipt [])"
  "validate_closure_receipt sample_env (sample_receipt [(''reason'', JStr ''worker_failed'')]) =
     Inr (sample_receipt [(''reason_code'', JStr ''worker_failed'')])"
  by code_simp+

definition sample_plan_job :: job where
  "sample_plan_job =
     (sample_job ''a'' RUNNING 1)
       \<lparr>job_model := plan_model, job_attempts := 3,
        job_params := JObj [(''plan_digest'', JStr ''d1'')]\<rparr>"

lemma sample_plan_job_simps [simp]:
  "job_id sample_plan_job = ''a''" "job_model sample_plan_job = plan_model"
  "job_status sample_plan_job = RUNNING" "job_attempts sample_plan_job = 3"
  "job_max_attempts sample_plan_job = 3" "job_progress sample_plan_job = 0"
  by (simp_all add: sample_plan_job_def)

lemma plan_queue_event_runs:
  assumes "is_plan_job d ''a''" and "is_obj ev" and "truthy (obj_get ev ''type'')"
    and "plan_event sample_env ''a'' ev = Inr (JObj [(''type'', JStr t), (''phase'', JStr p), (''status'', JStr s)])"
    and "(t, p, s) \<in> {(''cancellation_requested'', ''execution'', ''running''),
                      (''job_status_changed'', ''failure'', ''failed'')}"
  shows "\<exists>d'. queue_event sample_env d ''a'' ev now = Inr d'"
  using assms
  by (auto simp: eval_append plan_producer_def Let_def) (simp_all add: eval_text)

lemma sample_cancel_runs:
  "\<exists>d' r. cancel_plan_atomic sample_env 9 (plan_db [sample_plan_job] ''a'' Running_Plan) ''a'' ''d1''
     (sample_receipt []) = Inr (d', r)"
proof -
  let ?d = "plan_db [sample_plan_job] ''a'' Running_Plan" and ?c = "cancellation_event sample_plan_job"
  let ?j = "cancelled_job 9 sample_plan_job"
  have c: "?c = JObj [(''type'', JStr ''cancellation_requested''), (''phase'', JStr ''execution''),
                      (''status'', JStr ''running'')]"
    by (simp add: cancellation_event_def)
  have f: "find_job ?d ''a'' = Some sample_plan_job" by (simp add: find_job_def)
  have pc: "plan_event sample_env ''a'' ?c = Inr ?c" unfolding c by code_simp
  have "\<exists>d1. queue_event sample_env ?d ''a'' ?c 9 = Inr d1"
    unfolding c
    by (rule plan_queue_event_runs [OF _ _ _ pc [unfolded c]]) (simp_all add: f is_plan_job_def)
  then obtain d1 where d1: "queue_event sample_env ?d ''a'' ?c 9 = Inr d1" by blast
  note q1 = quiet_tables [OF queue_event_quiet [OF d1]]
  have e: "lifecycle_event sample_env ?j ''job_status_changed'' (Some RUNNING) =
      JObj [(''type'', JStr ''job_status_changed''), (''phase'', JStr ''failure''),
            (''phase_owner'', JStr ''coordinator''), (''status'', JStr ''failed''),
            (''previous_status'', JStr ''running''), (''overall_progress'', JInt 0),
            (''attempts'', JInt 3)]"
    by (simp add: lifecycle_event_def cancelled_job_def sample_plan_job_def partition_id_def
          str_field_def jopt_def)
  have pe: "plan_event sample_env ''a'' (lifecycle_event sample_env ?j ''job_status_changed'' (Some RUNNING)) =
      Inr (JObj [(''type'', JStr ''job_status_changed''), (''phase'', JStr ''failure''),
                 (''status'', JStr ''failed'')])"
    unfolding e by code_simp
  have m: "is_plan_job (write_job ?j d1) ''a''"
    using f by (simp add: is_plan_job_def find_write_job q1 cancelled_job_def)
  have "\<exists>d2. status_changed sample_env 9 ?j RUNNING (write_job ?j d1) = Inr d2"
    unfolding status_changed_def
    using plan_queue_event_runs [OF m _ _ pe] by simp
  then obtain d2 where d2: "status_changed sample_env 9 ?j RUNNING (write_job ?j d1) = Inr d2" by blast
  have "plans d2 = [sample_plan ''a'' Running_Plan]"
    by (simp add: quiet_tables [OF queue_event_quiet [OF d2 [unfolded status_changed_def]]] q1)
  then show ?thesis
    using d1 d2
    by (simp add: cancel_plan_atomic_def sample_receipt_ok f Let_def require_one_def
          rowcount_def plan_where_def)
qed

end
