(* ===== verification/ManifestProps.thy ===== *)
theory ManifestProps
  imports TrustReceipts Samples
begin

text \<open>
  Signed documents: what the coordinator signs passes its own verification, a document that
  passes cannot be changed without a collision of the MAC, and an accepted receipt names byte
  samples inside its object.
\<close>

section \<open>Digests\<close>

lemma lower_hex_facts:
  "is_lower_hex c \<Longrightarrow> code c < 128 \<and> \<not> is_upper c \<and> c \<noteq> CHR ''s'' \<and>
     \<not> (192 \<le> code c \<and> code c \<le> 222 \<and> code c \<noteq> 215)"
  by (auto simp: is_lower_hex_def is_digit_def is_upper_def code_def)

lemma lower_hex_lower: "list_all is_lower_hex h \<Longrightarrow> py_lower h = h"
  by (induction h) (auto simp: py_lower_def dest: lower_hex_facts)

lemma lower_hex_ascii: "list_all is_lower_hex h \<Longrightarrow> is_ascii h"
  by (induction h) (auto simp: is_ascii_def dest: lower_hex_facts)

lemma lower_hex_no_prefix: "list_all is_lower_hex h \<Longrightarrow> remove_prefix sha_prefix h = h"
  by (cases h) (auto simp: remove_prefix_def sha_prefix_def dest: lower_hex_facts)

lemma normalize_digest_Inr:
  assumes "normalize_digest s = Inr h"
  shows "length h = 64" "list_all is_lower_hex h"
    "normalize_digest h = Inr h" "normalize_digest (sha_prefix @ h) = Inr h"
proof -
  show h: "length h = 64" "list_all is_lower_hex h"
    using assms by (auto simp: normalize_digest_def Let_def split: if_splits)
  then show "normalize_digest h = Inr h"
    by (simp add: normalize_digest_def lower_hex_lower lower_hex_no_prefix Let_def)
  have "py_lower (sha_prefix @ h) = sha_prefix @ h"
    using lower_hex_lower [OF h(2)] by (simp add: py_lower_def sha_prefix_def is_upper_def code_def)
  then show "normalize_digest (sha_prefix @ h) = Inr h"
    using h by (simp add: normalize_digest_def Let_def)
qed

lemma digest_id_Inr:
  assumes "digest_id s = Inr d"
  obtains h where "d = sha_prefix @ h" "length h = 64" "list_all is_lower_hex h"
    "normalize_digest s = Inr h" "digest_id d = Inr d" "is_ascii d"
proof -
  obtain h where h: "normalize_digest s = Inr h" "d = sha_prefix @ h"
    using assms by (auto simp: digest_id_def split: sum.splits)
  note n = normalize_digest_Inr [OF h(1)]
  have "is_ascii d" using lower_hex_ascii [OF n(2)] by (simp add: h(2) is_ascii_def sha_prefix_def code_def)
  moreover have "digest_id d = Inr d" using n(4) by (simp add: h(2) digest_id_def)
  ultimately show thesis using that h n by blast
qed

section \<open>Signatures\<close>

lemma payload_with_fields:
  "is_obj m \<Longrightarrow> fst ` set fs \<subseteq> set ks \<Longrightarrow> without ks (with_fields (without ks m) fs) = without ks m"
  by (cases m) (auto simp: without_def with_fields_def filter_empty_conv)

lemma get_with_fields:
  "is_obj m \<Longrightarrow> k \<in> set ks \<Longrightarrow> obj_get (with_fields (without ks m) fs) k = obj_get (JObj fs) k"
proof (cases m)
  case (JObj kvs)
  assume "k \<in> set ks"
  then have "map_of (filter (\<lambda>kv. fst kv \<notin> set ks) kvs) k = None"
    by (simp add: map_of_eq_None_iff image_iff)
  then show ?thesis by (simp add: JObj without_def with_fields_def map_add_def)
qed simp_all

lemma get_without: "obj_get (without ks m) k = JStr v \<Longrightarrow> is_obj m"
  by (cases m) (auto simp: without_def)

lemma obj_with_fields [simp]: "is_obj m \<Longrightarrow> is_obj (with_fields (without ks m) fs)"
  by (cases m) (auto simp: without_def with_fields_def)

lemma require_same: "is_ascii a \<Longrightarrow> require_digest a a e = Inr ()"
  by (simp add: require_digest_def compare_digest_def)

lemma require_Inr: "require_digest a b e = Inr u \<Longrightarrow> a = b"
  by (auto simp: require_digest_def compare_digest_def split: if_splits sum.splits)

lemma or_text_str [simp]: "or_text env (JStr s) [] = s"
  by (simp add: or_text_def)

lemma signature_field_trusted:
  "is_obj doc \<Longrightarrow> obj_get doc ''signature'' = signature_field s v \<Longrightarrow>
   trusted_signature s doc l w = Inr (signature_field s v)"
  by (simp add: trusted_signature_def signature_field_def)

lemma sign_then_verify:
  assumes "sign env s m = Inr x" and "validate_manifest_shape env x = Inr u"
    and "\<And>t. is_ascii (hmac_hex env (sg_key s) t)"
  shows "verify env s x = Inr x \<and>
     (\<exists>t. canonical_json env (manifest_payload x) = Inr t \<and>
          digest_id (sha256_hex env t) = Inr (py_str env (obj_get x ''manifest_id'')))"
proof -
  obtain t i where t: "canonical_json env (manifest_payload m) = Inr t"
    "digest_id (sha256_hex env t) = Inr i"
    and x: "x = with_fields (manifest_payload m)
       [(''manifest_id'', JStr i), (''signature'', signature_field s (hmac_hex env (sg_key s) t))]"
    and sc: "obj_get (manifest_payload m) ''schema'' = JStr manifest_schema"
    using assms(1) by (auto simp: sign_def Let_def split: if_splits sum.splits)
  have m: "is_obj m" using get_without sc unfolding manifest_payload_def by blast
  have p: "manifest_payload x = manifest_payload m"
    unfolding x manifest_payload_def by (rule payload_with_fields [OF m]) simp
  have g: "obj_get x ''manifest_id'' = JStr i" "is_obj x"
    "obj_get x ''signature'' = signature_field s (hmac_hex env (sg_key s) t)"
    using m unfolding x manifest_payload_def by (simp_all add: get_with_fields)
  have "is_ascii i" by (rule digest_id_Inr [OF t(2)])
  then have "verify env s x = Inr x"
    using assms(2,3) signature_field_trusted [OF g(2,3)]
    by (simp add: verify_def p t g(1) require_same) (simp add: signature_field_def require_same)
  then show ?thesis using p t g(1) by simp
qed

text \<open>What the signer signs it accepts: a signed manifest whose shape is right passes
  \<open>verify\<close> unchanged, and its id is the digest of its payload.\<close>

theorem signed_manifest_verifies:
  assumes "sign env s m = Inr x" and "validate_manifest_shape env x = Inr u"
    and "\<And>t. is_ascii (hmac_hex env (sg_key s) t)"
  shows "verify env s x = Inr x \<and>
     (\<exists>t. canonical_json env (manifest_payload x) = Inr t \<and>
          digest_id (sha256_hex env t) = Inr (py_str env (obj_get x ''manifest_id'')))"
  by (rule sign_then_verify [OF assms])

definition sample_signer :: signer where
  "sample_signer = \<lparr>sg_key = replicate 32 (CHR ''k''), sg_key_id = ''coordinator''\<rparr>"

definition sample_blob :: string where
  "sample_blob = replicate 64 (CHR ''0'')"

definition sample_artifact :: json where
  "sample_artifact =
     JObj [(''digest'', JStr (sha_prefix @ sample_blob)), (''kind'', JStr ''model-weight''),
           (''size'', JInt 3), (''portability'', JStr ''portable''), (''requirements'', JObj []),
           (''policy'', JObj [(''cacheable'', JBool True), (''tenant'', JStr ''default'')]),
           (''storage_key'', JStr (''blobs/sha256/00/'' @ sample_blob))]"

definition sample_proposal :: json where
  "sample_proposal =
     JObj [(''schema'', JStr manifest_schema), (''profile_fingerprint'', JStr ''sha256:x''),
           (''created_at'', JStr ''2026''), (''producer'', JObj []),
           (''artifacts'', JArr [sample_artifact])]"

definition digest_env :: pyenv where
  "digest_env = sample_env\<lparr>sha256_hex := \<lambda>s. sample_blob\<rparr>"

lemma sample_signs:
  "\<exists>x. sign digest_env sample_signer sample_proposal = Inr x \<and>
       validate_manifest_shape digest_env x = Inr ()"
proof -
  have "(case sign digest_env sample_signer sample_proposal of
           Inl e \<Rightarrow> False | Inr x \<Rightarrow> validate_manifest_shape digest_env x = Inr ())"
    by code_simp
  then show ?thesis by (auto split: sum.splits)
qed

lemma digest_env_ascii: "is_ascii (hmac_hex digest_env k t)"
  by (simp add: digest_env_def sample_env_def is_ascii_def code_def list_all_iff)

lemma signed_manifest_verifies_witness:
  "\<exists>x. sign digest_env sample_signer sample_proposal = Inr x \<and> verify digest_env sample_signer x = Inr x"
proof -
  obtain x where x: "sign digest_env sample_signer sample_proposal = Inr x"
    "validate_manifest_shape digest_env x = Inr ()" using sample_signs by blast
  from signed_manifest_verifies [OF x digest_env_ascii] x(1) show ?thesis by blast
qed

lemma verify_Inr:
  assumes "verify env s m = Inr x"
  obtains t where "x = m" "canonical_json env (manifest_payload m) = Inr t"
    "digest_id (sha256_hex env t) = Inr (py_str env (obj_get m ''manifest_id''))"
    "or_text env (obj_get (obj_get m ''signature'') ''value'') [] = hmac_hex env (sg_key s) t"
    "validate_manifest_shape env m = Inr ()"
  using assms
  by (auto simp: verify_def trusted_signature_def Let_def split: sum.splits if_splits dest!: require_Inr)

definition canonical_artifact :: "pyenv \<Rightarrow> json \<Rightarrow> identity \<Rightarrow> bool" where
  \<comment> \<open>a valid digest that names the place of the object, and a size\<close>
  "canonical_artifact env a i \<longleftrightarrow>
     (\<exists>d n. i = artifact_identity env a d \<and> digest_id (or_text env (obj_get a ''digest'') []) = Inr d \<and>
        artifact_key a d = Inr (or_text env (obj_get a ''storage_key'') []) \<and>
        int_or_minus_one (obj_get a ''size'') = Inr n \<and> 0 \<le> n)"

lemma check_artifact_Inr:
  assumes "check_artifact env a seen = Inr seen'"
  obtains i where "canonical_artifact env a i" "i \<notin> set seen" "seen' = i # seen"
  using assms
  by (auto simp: check_artifact_def canonical_artifact_def split: if_splits sum.splits)

lemma check_artifacts_fold:
  "fold_tx (check_artifact env) as seen = Inr seen' \<Longrightarrow>
     \<exists>is. list_all2 (canonical_artifact env) as is \<and> distinct is \<and> set is \<inter> set seen = {}"
proof (induction as arbitrary: seen)
  case Nil
  then show ?case by simp
next
  case (Cons a as)
  then obtain t where t: "check_artifact env a seen = Inr t" "fold_tx (check_artifact env) as t = Inr seen'"
    by (auto split: sum.splits)
  obtain i where i: "canonical_artifact env a i" "i \<notin> set seen" "t = i # seen"
    by (rule check_artifact_Inr [OF t(1)])
  obtain "is" where "list_all2 (canonical_artifact env) as is" "distinct is" "set is \<inter> set t = {}"
    using Cons.IH [OF t(2)] by blast
  with i show ?case by (intro exI [of _ "i # is"]) auto
qed

lemma shape_artifacts:
  assumes "validate_manifest_shape env m = Inr u"
  obtains as seen where "obj_get m ''artifacts'' = JArr as" "fold_tx (check_artifact env) as [] = Inr seen"
  using assms by (auto simp: validate_manifest_shape_def split: if_splits json.splits sum.splits)

text \<open>C31: a manifest that the signer accepts is returned unchanged, carries the MAC and the digest of
  its canonical payload, and lists artifacts with valid digests at the storage keys that
  these digests name, with a size, no identity twice.\<close>

theorem accepted_manifest_sound:
  assumes "verify env s m = Inr x"
  shows "x = m \<and>
     (\<exists>t. canonical_json env (manifest_payload m) = Inr t \<and>
        digest_id (sha256_hex env t) = Inr (py_str env (obj_get m ''manifest_id'')) \<and>
        or_text env (obj_get (obj_get m ''signature'') ''value'') [] = hmac_hex env (sg_key s) t) \<and>
     (\<exists>as is. obj_get m ''artifacts'' = JArr as \<and> list_all2 (canonical_artifact env) as is \<and> distinct is)"
proof -
  obtain t where t: "x = m" "canonical_json env (manifest_payload m) = Inr t"
    "digest_id (sha256_hex env t) = Inr (py_str env (obj_get m ''manifest_id''))"
    "or_text env (obj_get (obj_get m ''signature'') ''value'') [] = hmac_hex env (sg_key s) t"
    and v: "validate_manifest_shape env m = Inr ()"
    by (rule verify_Inr [OF assms])
  obtain as seen where a: "obj_get m ''artifacts'' = JArr as" "fold_tx (check_artifact env) as [] = Inr seen"
    by (rule shape_artifacts [OF v])
  show ?thesis using t a(1) check_artifacts_fold [OF a(2)] by blast
qed

lemma sample_verifies:
  "\<exists>x. sign digest_env sample_signer sample_proposal = Inr x \<and> verify digest_env sample_signer x = Inr x"
proof -
  obtain x where x: "sign digest_env sample_signer sample_proposal = Inr x"
    "validate_manifest_shape digest_env x = Inr ()" using sample_signs by blast
  then show ?thesis using sign_then_verify [OF x digest_env_ascii] by blast
qed

lemma accepted_manifest_sound_witness:
  "\<exists>x as is. sign digest_env sample_signer sample_proposal = Inr x \<and> obj_get x ''artifacts'' = JArr as \<and>
     list_all2 (canonical_artifact digest_env) as is \<and> distinct is"
proof -
  obtain x where "sign digest_env sample_signer sample_proposal = Inr x"
    "verify digest_env sample_signer x = Inr x" using sample_verifies by blast
  with accepted_manifest_sound [of digest_env sample_signer x x] show ?thesis by blast
qed

section \<open>Samples\<close>

definition sample_offset :: "json \<Rightarrow> int" where
  "sample_offset x = (case py_int (or_zero (obj_get x ''offset'')) of Inr n \<Rightarrow> n | Inl e \<Rightarrow> 0)"

definition sample_end :: "json \<Rightarrow> int" where
  "sample_end x =
     sample_offset x + (case py_int (or_zero (obj_get x ''size'')) of Inr n \<Rightarrow> n | Inl e \<Rightarrow> 0)"

lemma check_sample_Inr:
  "check_sample env n x p = Inr q \<Longrightarrow>
   q = sample_offset x \<and> p < q \<and> 0 \<le> q \<and> q < sample_end x \<and> sample_end x \<le> n"
  by (auto simp: check_sample_def sample_offset_def sample_end_def split: if_splits sum.splits)

lemma check_samples_fold:
  "fold_tx (check_sample env n) xs p = Inr q \<Longrightarrow>
   sorted_wrt (<) (p # map sample_offset xs) \<and>
   (\<forall>x \<in> set xs. 0 \<le> sample_offset x \<and> sample_offset x < sample_end x \<and> sample_end x \<le> n)"
proof (induction xs arbitrary: p)
  case Nil
  then show ?case by simp
next
  case (Cons x xs)
  then obtain r where r: "check_sample env n x p = Inr r" "fold_tx (check_sample env n) xs r = Inr q"
    by (auto split: sum.splits)
  from check_sample_Inr [OF r(1)] Cons.IH [OF r(2)] show ?case by auto
qed

lemma trust_shape_samples:
  assumes "validate_trust_receipt_shape env r = Inr u"
  obtains n v xs where "int_or_minus_one (obj_get r ''artifact_size'') = Inr n"
    "obj_get (obj_get r ''scrub'') ''samples'' = JArr xs" "xs \<noteq> []"
    "fold_tx (check_sample env n) xs (- 1) = Inr v"
proof -
  obtain n where n: "int_or_minus_one (obj_get r ''artifact_size'') = Inr n" "check_times env r n = Inr ()"
    using assms
    by (auto simp: validate_trust_receipt_shape_def Let_def split: if_splits sum.splits)
  then have "check_samples env n (obj_get (obj_get r ''scrub'') ''samples'') = Inr ()"
    by (auto simp: check_times_def check_audit_def split: if_splits sum.splits)
  then obtain x xs v where "obj_get (obj_get r ''scrub'') ''samples'' = JArr (x # xs)"
    "fold_tx (check_sample env n) (x # xs) (- 1) = Inr v"
    by (auto simp: check_samples_def simp del: fold_tx.simps split: json.splits list.splits sum.splits)
  with n that show thesis by blast
qed

text \<open>A trust receipt that verifies names at least one byte sample, every sample is a
  non-empty range inside the object, and their offsets rise strictly.\<close>

theorem trusted_samples_inside:
  assumes "verify_trust_receipt env s r = Inr x"
  shows "x = r \<and>
     (\<exists>n xs. int_or_minus_one (obj_get r ''artifact_size'') = Inr n \<and>
        obj_get (obj_get r ''scrub'') ''samples'' = JArr xs \<and> xs \<noteq> [] \<and>
        sorted_wrt (<) (map sample_offset xs) \<and>
        (\<forall>y \<in> set xs. 0 \<le> sample_offset y \<and> sample_offset y < sample_end y \<and> sample_end y \<le> n))"
proof -
  have x: "x = r" and sh: "validate_trust_receipt_shape env r = Inr ()"
    using assms by (auto simp: verify_trust_receipt_def split: sum.splits)
  from trust_shape_samples [OF sh] obtain n v xs where
    n: "int_or_minus_one (obj_get r ''artifact_size'') = Inr n"
    "obj_get (obj_get r ''scrub'') ''samples'' = JArr xs" "xs \<noteq> []"
    and f: "fold_tx (check_sample env n) xs (- 1) = Inr v" by blast
  from check_samples_fold [OF f] x n show ?thesis by auto
qed

end
