(* ===== verification/S3Laws.thy ===== *)
theory S3Laws
  imports S3Index ManifestProps "HOL-Library.Sublist"
begin

text \<open>
  What the store relies on of the gateway, the abstract inventory that a bucket holds, and what
  every operation of the store leaves alone.
\<close>

section \<open>The gateway\<close>

definition touches :: "('w \<Rightarrow> string \<Rightarrow> string option) \<Rightarrow> string set \<Rightarrow> 'w \<Rightarrow> 'w \<Rightarrow> bool" where
  "touches view K w w' \<longleftrightarrow> (\<forall>k. k \<notin> K \<longrightarrow> view w' k = view w k)"

text \<open>
  \<open>view w\<close> is the content of the bucket: what is documented of S3 is that a call that reads or
  waits leaves it, that a write of one object happens as a whole or not at all (also when its
  answer is lost), that a write that is acknowledged happened, and that a read sees the last
  write. A ranged read may end early; what it brings is a part of the object from the position
  that its header names.
\<close>

definition reading_laws :: "'w s3_client \<Rightarrow> string \<Rightarrow> ('w \<Rightarrow> string \<Rightarrow> string option) \<Rightarrow> bool" where
  "reading_laws c b view \<longleftrightarrow>
     (\<forall>k. keeps (touches view {}) (cl_get c b k)) \<and> (\<forall>k. keeps (touches view {}) (cl_head c b k)) \<and>
     (\<forall>k i j. keeps (touches view {}) (cl_range c b k i j)) \<and> (\<forall>n. keeps (touches view {}) (cl_sleep c n)) \<and>
     (\<forall>w w' k body. cl_get c b k w = (w', Inr body) \<longrightarrow> view w k = Some body) \<and>
     (\<forall>w w' k e. cl_get c b k w = (w', Inl e) \<longrightarrow> missing_object e \<longrightarrow> view w k = None) \<and>
     (\<forall>w w' k h. cl_head c b k w = (w', Inr h) \<longrightarrow>
        (\<exists>body. view w k = Some body \<and> obj_get h ''ContentLength'' = JInt (int (length body)))) \<and>
     (\<forall>w w' k i j reply. cl_range c b k i j w = (w', Inr reply) \<longrightarrow>
        (\<exists>body. view w k = Some body \<and>
          (py_strip (rr_content_range reply) = [] \<longrightarrow>
             (\<forall>s. read_body (rr_chunks reply) (rr_error reply) = Inr s \<longrightarrow> s = body)) \<and>
          (\<forall>u x y n. content_range (py_strip (rr_content_range reply)) = Some (u, x, y, n) \<longrightarrow>
             n = int (length body) \<and> prefix (concat (rr_chunks reply)) (drop (nat x) body))))"

definition writing_laws :: "'w s3_client \<Rightarrow> string \<Rightarrow> ('w \<Rightarrow> string \<Rightarrow> string option) \<Rightarrow> bool" where
  "writing_laws c b view \<longleftrightarrow>
     (\<forall>w w' k body r. cl_put c b k body w = (w', r) \<longrightarrow>
        (view w' = (view w)(k := Some body) \<or> view w' = view w \<and> r \<noteq> Inr ())) \<and>
     (\<forall>w w' k r. cl_delete c b k w = (w', r) \<longrightarrow>
        (view w' = (view w)(k := None) \<or> view w' = view w \<and> r \<noteq> Inr ()))"

section \<open>Places\<close>

definition place :: "s3_store \<Rightarrow> string \<Rightarrow> string" where
  "place st key = (if sv_prefix st \<noteq> [] then sv_prefix st @ ''/'' @ key else key)"

lemma place_eq [simp]: "place st a = place st b \<longleftrightarrow> a = b"
  by (simp add: place_def)

lemma s3_key_place: "key \<noteq> [] \<Longrightarrow> hd key \<noteq> CHR ''/'' \<Longrightarrow> s3_key st key = Inr (place st key)"
  by (cases key) (simp_all add: s3_key_def place_def Let_def)

lemma s3_key_index [simp]: "s3_key st (index_key g) = Inr (place st (index_key g))"
  "s3_key st latest_key = Inr (place st latest_key)"
  by (simp_all add: s3_key_place index_key_def latest_key_def)

lemma index_key_simps [simp]: "index_key a = index_key b \<longleftrightarrow> a = b" "index_key a \<noteq> latest_key"
  "latest_key \<noteq> index_key a"
proof -
  show "index_key a = index_key b \<longleftrightarrow> a = b" by (simp add: index_key_def)
  show n: "index_key a \<noteq> latest_key"
  proof
    assume "index_key a = latest_key"
    then have "last (index_key a) = last latest_key" by simp
    then show False by (simp add: index_key_def latest_key_def)
  qed
  show "latest_key \<noteq> index_key a" using n by metis
qed

section \<open>The inventory that a bucket holds\<close>

definition index_at :: "pyenv \<Rightarrow> s3_store \<Rightarrow> (string \<Rightarrow> string option) \<Rightarrow> string \<Rightarrow> json option" where
  "index_at env st v g =
     (case v (place st (index_key g)) of
        None \<Rightarrow> None
      | Some body \<Rightarrow>
          (case json_loads env body of
             None \<Rightarrow> None
           | Some j \<Rightarrow> if is_obj j \<and> obj_get j ''schema'' = JStr index_schema then Some j else None))"

definition generation_at :: "s3_store \<Rightarrow> (string \<Rightarrow> string option) \<Rightarrow> string option" where
  "generation_at st v =
     (case v (place st latest_key) of None \<Rightarrow> None | Some p \<Rightarrow> map_option py_strip (from_utf8 p))"

definition inventory :: "pyenv \<Rightarrow> s3_store \<Rightarrow> (string \<Rightarrow> string option) \<Rightarrow> json option" where
  "inventory env st v = (case generation_at st v of None \<Rightarrow> None | Some g \<Rightarrow> index_at env st v g)"

definition index_entries :: "json \<Rightarrow> json list" where
  "index_entries j = (case iterate_or_empty (obj_get j ''manifests'') of Inr xs \<Rightarrow> xs | Inl e \<Rightarrow> [])"

definition listed :: "pyenv \<Rightarrow> s3_store \<Rightarrow> (string \<Rightarrow> string option) \<Rightarrow> json list" where
  "listed env st v = (case inventory env st v of None \<Rightarrow> [] | Some j \<Rightarrow> index_entries j)"

lemma inventory_frame:
  assumes "touches view K w w'" and "place st latest_key \<notin> K"
    and "\<And>g. generation_at st (view w) = Some g \<Longrightarrow> place st (index_key g) \<notin> K"
  shows "inventory env st (view w') = inventory env st (view w)"
  using assms unfolding touches_def inventory_def index_at_def generation_at_def
  by (auto split: option.splits)

section \<open>What is left alone\<close>

interpretation frame: guarantee "touches view K" for view :: "'w \<Rightarrow> string \<Rightarrow> string option" and K
  by unfold_locales (auto simp: touches_def)

lemma touches_mono: "touches view {} w w' \<Longrightarrow> touches view K w w'"
  by (simp add: touches_def)

lemma quiet_mono: "keeps (touches view {}) m \<Longrightarrow> keeps (touches view K) m"
  by (simp add: keeps_def touches_mono)

lemma quiet_view: "keeps (touches view {}) m \<Longrightarrow> m w = (w', r) \<Longrightarrow> view w' = view w"
  by (drule keepsD) (auto simp: touches_def)

lemmas frame_rules =
  frame.keeps_ret frame.keeps_raise frame.keeps_raising frame.keeps_look frame.keeps_attempt frame.keeps_if
  frame.keeps_option frame.keeps_sum frame.keeps_prod frame.keeps_each

lemma frame_then:
  "keeps (touches view K) m \<Longrightarrow> (\<And>a. keeps (touches view K) (f a)) \<Longrightarrow> keeps (touches view K) (and_then m f)"
  by (rule frame.keeps_then)

lemma frame_raising:
  "(\<And>a. r = Inr a \<Longrightarrow> keeps (touches view K) (f a)) \<Longrightarrow> keeps (touches view K) (and_then (raising r) f)"
  by (rule frame.keeps_then) (auto simp: raising_def intro: frame.keeps_raising)


lemma reading_frame:
  assumes "reading_laws c b view"
  shows "keeps (touches view K) (cl_get c b k)" "keeps (touches view K) (cl_head c b k)"
    "keeps (touches view K) (cl_range c b k i j)" "keeps (touches view K) (cl_sleep c n)"
  using assms by (auto simp: reading_laws_def intro: quiet_mono)

lemma writing_frame:
  assumes "writing_laws c b view" and "k \<in> K"
  shows "keeps (touches view K) (cl_put c b k body)" "keeps (touches view K) (cl_delete c b k)"
proof -
  show "keeps (touches view K) (cl_put c b k body)"
  proof (rule keepsI)
    fix w
    show "touches view K w (fst (cl_put c b k body w))"
      using assms unfolding writing_laws_def touches_def by (cases "cl_put c b k body w") force
  qed
  show "keeps (touches view K) (cl_delete c b k)"
  proof (rule keepsI)
    fix w
    show "touches view K w (fst (cl_delete c b k w))"
      using assms unfolding writing_laws_def touches_def by (cases "cl_delete c b k w") force
  qed
qed

lemma s3_read_frame:
  assumes "reading_laws c (sv_volume st) view"
  shows "keeps (touches view K) (s3_get c st key)" "keeps (touches view K) (s3_exists c st key n)"
  unfolding s3_get_def s3_exists_def
  by (intro frame_then frame_rules reading_frame [OF assms])+

lemma s3_write_frame:
  assumes "writing_laws c (sv_volume st) view" and "\<And>k. s3_key st key = Inr k \<Longrightarrow> k \<in> K"
  shows "keeps (touches view K) (s3_put c st key body)" "keeps (touches view K) (s3_delete c st key)"
  unfolding s3_put_def s3_delete_def
  by (rule frame_raising, rule writing_frame [OF assms(1)], rule assms(2), assumption)+

lemma retry_frame:
  assumes "reading_laws c b view" and "keeps (touches view K) m"
  shows "keeps (touches view K) (gateway_retry c m)"
proof -
  have "keeps (touches view K) (retry_from c m left n)" for left n
    by (induction left arbitrary: n)
      (simp_all only: retry_from.simps, (intro frame_then frame_rules reading_frame [OF assms(1)] assms(2) | assumption)+)
  then show ?thesis by (simp add: gateway_retry_def)
qed

lemma download_frame:
  assumes "reading_laws c (sv_volume st) view"
  shows "keeps (touches view K) (range_attempts c st key stop n left no payload next)"
    "keeps (touches view K) (fetch_ranges c st key n rs file)"
    "keeps (touches view K) (download_verified env c st key digest)"
    "keeps (touches view K) (download_verify env c st key digest m)"
proof -
  note rules = frame_then frame_rules reading_frame [OF assms] retry_frame [OF assms]
  have request: "keeps (touches view K) (range_request c st key i j n)" for i j n
    unfolding range_request_def Let_def by (intro rules)
  have attempts: "keeps (touches view K) (range_attempts c st key stop n left no payload next)"
    for stop left no payload "next" n
    by (induction left arbitrary: no payload "next")
      (simp_all only: range_attempts.simps, (intro rules request | assumption)+)
  show "keeps (touches view K) (range_attempts c st key stop n left no payload next)" by (rule attempts)
  have fetch: "keeps (touches view K) (fetch_ranges c st key n rs content)" for rs content n
    by (induction rs arbitrary: content) (auto intro!: rules attempts simp: download_s3_range_def)
  show "keeps (touches view K) (fetch_ranges c st key n rs file)" by (rule fetch)
  have first: "keeps (touches view K) (first_range c st key)"
    unfolding first_range_def by (intro rules)
  show down: "keeps (touches view K) (download_verified env c st key digest)"
    unfolding download_verified_def by (intro rules first fetch)
  show "keeps (touches view K) (download_verify env c st key digest m)"
    unfolding download_verify_def by (intro rules down)
qed

lemma index_frame:
  assumes "reading_laws c (sv_volume st) view"
  shows "keeps (touches view K) (load_index env c st)" "keeps (touches view K) (latest_entries env c st)"
    "keeps (touches view K) (read_json env c st key)"
proof -
  note rules = frame_then frame_rules s3_read_frame [OF assms]
  have "keeps (touches view K) (read_index env c st)" unfolding read_index_def by (intro rules)
  then show l: "keeps (touches view K) (load_index env c st)" unfolding load_index_def by (intro rules)
  show "keeps (touches view K) (latest_entries env c st)"
    unfolding latest_entries_def by (intro rules l)
  show "keeps (touches view K) (read_json env c st key)" unfolding read_json_def by (intro rules)
qed

lemma verify_objects_frame:
  assumes "reading_laws c (sv_volume st) view"
  shows "keeps (touches view K) (verify_artifact env c st a)" "keeps (touches view K) (verify_objects env c st s m)"
proof -
  note rules = frame_then frame_rules download_frame [OF assms]
  show v: "keeps (touches view K) (verify_artifact env c st a)" for a
    unfolding verify_artifact_def by (intro rules)
  show "keeps (touches view K) (verify_objects env c st s m)"
    unfolding verify_objects_def by (intro rules v)
qed

section \<open>What a read brings\<close>

lemma attempt_eq: "attempt m s = (t, r) \<longleftrightarrow> (\<exists>x. m s = (t, x) \<and> r = Inr x)"
  by (auto simp: attempt_def split: prod.splits)

lemma then_known:
  "m s = (t, Inr a) \<Longrightarrow> and_then m f s = f a t" "m s = (t, Inl e) \<Longrightarrow> and_then m f s = (t, Inl e)"
  by (simp_all add: and_then_def)

lemma raising_then: "and_then (raising r) f s = (case r of Inl e \<Rightarrow> (s, Inl e) | Inr a \<Rightarrow> f a s)"
  by (simp add: and_then_def raising_def)

lemma reads_seen:
  assumes "reading_laws c b view"
  shows "cl_get c b k w = (w', Inr body) \<Longrightarrow> view w k = Some body"
    and "cl_get c b k w = (w', Inl e) \<Longrightarrow> missing_object e \<Longrightarrow> view w k = None"
    and "cl_head c b k w = (w', Inr h) \<Longrightarrow>
      \<exists>body. view w k = Some body \<and> obj_get h ''ContentLength'' = JInt (int (length body))"
    and "cl_range c b k i j w = (w', Inr reply) \<Longrightarrow>
      \<exists>body. view w k = Some body \<and>
        (py_strip (rr_content_range reply) = [] \<longrightarrow>
           (\<forall>s. read_body (rr_chunks reply) (rr_error reply) = Inr s \<longrightarrow> s = body)) \<and>
        (\<forall>u x y n. content_range (py_strip (rr_content_range reply)) = Some (u, x, y, n) \<longrightarrow>
           n = int (length body) \<and> prefix (concat (rr_chunks reply)) (drop (nat x) body))"
  using assms by (simp_all add: reading_laws_def)

lemma s3_get_result:
  assumes "reading_laws c (sv_volume st) view" and "s3_key st key = Inr k"
  shows "s3_get c st key w = (w', Inr body) \<Longrightarrow> view w k = Some body"
    and "s3_get c st key w = (w', Inl e) \<Longrightarrow> missing_object e \<Longrightarrow> view w k = None"
  using reads_seen [OF assms(1)] assms(2) by (auto simp: s3_get_def raising_then)

lemma s3_exists_result:
  assumes "reading_laws c (sv_volume st) view" and "s3_key st key = Inr k"
    and "s3_exists c st key (Some n) w = (w', Inr True)" and "0 \<le> n"
  shows "\<exists>body. view w k = Some body \<and> int (length body) = n"
proof -
  obtain t r where r: "cl_head c (sv_volume st) k w = (t, r)" by fastforce
  then obtain h where h: "r = Inr h" "head_length h = Inr n"
    using assms(2,3)
    by (auto simp: s3_exists_def and_then_def attempt_def raising_def ret_def split: sum.splits prod.splits)
  from reads_seen(3) [OF assms(1)] r h(1) obtain body where b: "view w k = Some body"
    "obj_get h ''ContentLength'' = JInt (int (length body))" by blast
  then show ?thesis using h(2) assms(4) by (auto simp: head_length_def int_or_minus_one_def split: if_splits)
qed

lemma missing_not [simp]: "\<not> missing_object (ValueError m)" "\<not> missing_object (ManifestError m)"
  "\<not> missing_object (AttributeError m)"
  by (simp_all add: missing_object_def)

lemma and_then_Inl:
  "and_then m f s = (s', Inl e) \<longleftrightarrow>
     m s = (s', Inl e) \<or> (\<exists>a t. m s = (t, Inr a) \<and> f a t = (s', Inl e))"
  by (auto simp: and_then_def split: prod.splits sum.splits)

lemma read_index_result:
  assumes laws: "reading_laws c (sv_volume st) view"
  shows "read_index env c st w = (w', Inr j) \<Longrightarrow> inventory env st (view w) = Some j"
    and "read_index env c st w = (w', Inl e) \<Longrightarrow> missing_object e \<Longrightarrow> inventory env st (view w) = None"
proof -
  note get = s3_get_result [OF laws] and quiet = quiet_view [OF s3_read_frame(1) [OF laws]]
  note defs = inventory_def generation_at_def index_at_def
  {
    assume "read_index env c st w = (w', Inr j)"
    then obtain b u t d v where b: "s3_get c st latest_key w = (u, Inr b)" "from_utf8 b = Some t"
      and d: "s3_get c st (index_key (py_strip t)) u = (v, Inr d)" "json_loads env d = Some j"
        "is_obj j" "obj_get j ''schema'' = JStr index_schema"
      by (auto simp: read_index_def and_then_Inr raising_def decoded_def loaded_def py_get_def ret_def
            raise_error_def split: if_splits option.splits)
    from get(1) [OF s3_key_index(2) b(1)] get(1) [OF s3_key_index(1) d(1)] quiet [OF b(1)] b(2) d
    show "inventory env st (view w) = Some j" by (simp add: defs)
  next
    assume r: "read_index env c st w = (w', Inl e)" and e: "missing_object e"
    then consider "s3_get c st latest_key w = (w', Inl e)"
      | b u t where "s3_get c st latest_key w = (u, Inr b)" "from_utf8 b = Some t"
          "s3_get c st (index_key (py_strip t)) u = (w', Inl e)"
      by (auto simp: read_index_def and_then_Inl raising_def decoded_def loaded_def py_get_def ret_def
            raise_error_def split: if_splits option.splits)
    then show "inventory env st (view w) = None"
    proof cases
      case 1
      from get(2) [OF s3_key_index(2) this e] show ?thesis by (simp add: defs)
    next
      case 2
      from get(1) [OF s3_key_index(2) 2(1)] get(2) [OF s3_key_index(1) 2(3) e] quiet [OF 2(1)] 2(2)
      show ?thesis by (simp add: defs)
    qed
  }
qed

lemma load_index_result:
  assumes laws: "reading_laws c (sv_volume st) view" and r: "load_index env c st w = (w', Inr j)"
  shows "inventory env st (view w) = Some j \<or> inventory env st (view w) = None \<and> j = empty_index"
proof -
  obtain u x where x: "read_index env c st w = (u, x)" by fastforce
  from r x consider "x = Inr j" | e where "x = Inl e" "missing_object e" "j = empty_index"
    by (cases x) (auto simp: load_index_def and_then_def attempt_def ret_def raise_error_def split: if_splits)
  then show ?thesis using read_index_result [OF laws] x by cases auto
qed

lemma latest_entries_result:
  assumes laws: "reading_laws c (sv_volume st) view" and r: "latest_entries env c st w = (w', Inr es)"
  shows "es = listed env st (view w)"
proof -
  obtain u j where j: "load_index env c st w = (u, Inr j)"
    and es: "is_obj j" "iterate_or_empty (obj_get j ''manifests'') = Inr es"
    using r by (auto simp: latest_entries_def and_then_Inr raising_def py_get_def split: if_splits)
  from load_index_result [OF laws j] es show ?thesis
    by (auto simp: listed_def index_entries_def empty_index_def iterate_or_empty_def)
qed

section \<open>What a download brings\<close>

lemma retry_result:
  assumes laws: "reading_laws c b view" and quiet: "keeps (touches view {}) m"
    and "gateway_retry c m w = (w', Inr x)"
  shows "\<exists>u u'. view u = view w \<and> m u = (u', Inr x)"
proof -
  have "retry_from c m left n w = (w', Inr x) \<Longrightarrow> \<exists>u u'. view u = view w \<and> m u = (u', Inr x)" for left n
  proof (induction left arbitrary: n w)
    case 0
    then show ?case by (simp add: raise_error_def)
  next
    case (Suc left)
    obtain t r where t: "m w = (t, r)" by fastforce
    have v: "view t = view w" by (rule quiet_view [OF quiet t])
    show ?case
    proof (cases r)
      case (Inr y)
      then show ?thesis using Suc.prems t by (auto simp: and_then_def attempt_def ret_def)
    next
      case (Inl e)
      then obtain s where s: "cl_sleep c (backoff n) t = (s, Inr ())" "retry_from c m left (n + 1) s = (w', Inr x)"
        using Suc.prems t
        by (auto simp: and_then_def attempt_def raise_error_def split: if_splits prod.splits sum.splits)
      have "view s = view t" by (rule quiet_view [OF reading_frame(4) [OF laws] s(1)])
      then show ?thesis using Suc.IH [OF s(2)] v by simp
    qed
  qed
  then show ?thesis using assms(3) unfolding gateway_retry_def by blast
qed

lemma read_body_prefix: "read_body chs err = Inr s \<Longrightarrow> prefix s (concat chs)"
  by (induction chs arbitrary: s) (auto split: option.splits if_splits sum.splits)

lemma take_chunks_prefix:
  "take_chunks stop chs err payload x = ((p, y), e) \<Longrightarrow>
   \<exists>q. p = payload @ q \<and> y = x + int (length q) \<and> prefix q (concat chs)"
proof (induction chs arbitrary: payload x)
  case Nil
  then show ?case by auto
next
  case (Cons ch chs)
  show ?case
  proof (cases "ch = [] \<or> stop + 1 < x + int (length ch)")
    case True
    then show ?thesis using Cons.prems by (auto split: if_splits)
  next
    case False
    then have "take_chunks stop chs err (payload @ ch) (x + int (length ch)) = ((p, y), e)"
      using Cons.prems by auto
    from Cons.IH [OF this] obtain q where "p = (payload @ ch) @ q"
      "y = x + int (length ch) + int (length q)" "prefix q (concat chs)" by blast
    then show ?thesis by (intro exI [of _ "ch @ q"]) simp
  qed
qed

text \<open>
  A range that is read in several answers, some of them cut short, is the slice of the object.
\<close>

definition slice_upto :: "string \<Rightarrow> int \<Rightarrow> string \<Rightarrow> int \<Rightarrow> bool" where
  \<comment> \<open>the payload is what the body has from \<open>start\<close> up to \<open>next\<close>\<close>
  "slice_upto body start payload next \<longleftrightarrow>
     prefix payload (drop (nat start) body) \<and> next = start + int (length payload)"

lemma prefix_extend:
  assumes "prefix p (drop i xs)" and "prefix q (drop (i + length p) xs)"
  shows "prefix (p @ q) (drop i xs)"
proof -
  obtain r where r: "drop i xs = p @ r" using assms(1) by (auto simp: prefix_def)
  have "drop (i + length p) xs = drop (length p) (drop i xs)" by (simp add: add.commute)
  then have "drop (i + length p) xs = r" using r by simp
  then show ?thesis using r assms(2) by (simp add: prefix_def)
qed

lemma slice_extend:
  assumes "slice_upto body start payload next" and "0 \<le> start" and "prefix q (drop (nat next) body)"
  shows "slice_upto body start (payload @ q) (next + int (length q))"
proof -
  have "nat next = nat start + length payload" using assms(1,2) by (simp add: slice_upto_def nat_add_distrib)
  then show ?thesis using assms prefix_extend [of payload "nat start" body q] by (simp add: slice_upto_def)
qed

lemma range_request_result:
  assumes laws: "reading_laws c (sv_volume st) view" and k: "s3_key st key = Inr k"
    and r: "range_request c st key start stop n w = (w', Inr reply)"
  shows "\<exists>body. view w k = Some body \<and> n = int (length body) \<and>
    prefix (concat (rr_chunks reply)) (drop (nat start) body)"
proof -
  obtain t where t: "cl_range c (sv_volume st) k start stop w = (t, Inr reply)"
    and p: "\<exists>x. parse_s3_range (py_strip (rr_content_range reply)) start stop (Some n) = Inr x"
    using r k
    by (simp add: range_request_def and_then_Inr Let_def raise_error_def ret_def raising_def split: if_splits)
      (auto simp: raise_error_def and_then_Inr raising_def ret_def)
  then obtain u y where "content_range (py_strip (rr_content_range reply)) = Some (u, start, y, n)"
    by (fastforce simp: parse_s3_range_def split: option.splits if_splits)
  then show ?thesis using reads_seen(4) [OF laws t] by blast
qed

lemma range_attempts_exact:
  assumes laws: "reading_laws c (sv_volume st) view" and k: "s3_key st key = Inr k" and start: "0 \<le> start"
  shows "view w k = Some body \<Longrightarrow> slice_upto body start payload next \<Longrightarrow>
    range_attempts c st key stop n left no payload next w = (w', Inr out) \<Longrightarrow>
    slice_upto body start out (stop + 1)"
proof (induction left arbitrary: w no payload "next")
  case 0
  then show ?case by (simp add: raise_error_def)
next
  case (Suc left)
  obtain t r where t: "range_request c st key next stop n w = (t, r)" by fastforce
  have "keeps (touches view {}) (range_request c st key next stop n)"
    unfolding range_request_def Let_def by (intro frame_then frame_rules reading_frame [OF laws])
  from quiet_view [OF this t] have vt: "view t = view w" .
  have pair: "\<exists>p y e. z = ((p, y), e)" for z :: "(string \<times> int) \<times> pyerr option" by (metis surj_pair)
  from pair obtain p y e where p: "(case r of Inl e \<Rightarrow> ((payload, next), Some e)
      | Inr reply \<Rightarrow> take_chunks stop (rr_chunks reply) (rr_error reply) payload next) = ((p, y), e)" by blast
  have inv: "slice_upto body start p y"
  proof (cases r)
    case (Inl x)
    then show ?thesis using p Suc.prems(2) by simp
  next
    case (Inr reply)
    then have "take_chunks stop (rr_chunks reply) (rr_error reply) payload next = ((p, y), e)" using p by simp
    from take_chunks_prefix [OF this] obtain q where
      q: "p = payload @ q" "y = next + int (length q)" "prefix q (concat (rr_chunks reply))" by blast
    have "prefix (concat (rr_chunks reply)) (drop (nat next) body)"
      using range_request_result [OF laws k, of "next" stop n w t reply] t Inr Suc.prems(1) by auto
    then have "prefix q (drop (nat next) body)" using q(3) prefix_order.trans by blast
    from slice_extend [OF Suc.prems(2) start this] show ?thesis by (simp add: q)
  qed
  show ?case
  proof (cases "y = stop + 1")
    case True
    then show ?thesis using Suc.prems(3) inv by (simp add: and_then_def attempt_def t p ret_def)
  next
    case False
    then obtain u where u: "cl_sleep c (backoff no) t = (u, Inr ())"
      and rest: "range_attempts c st key stop n left (no + 1) p y u = (w', Inr out)"
      using Suc.prems(3)
      by (auto simp: and_then_def attempt_def t p raise_error_def split: if_splits prod.splits sum.splits)
    have "view u k = Some body" using quiet_view [OF reading_frame(4) [OF laws] u] vt Suc.prems(1) by simp
    from Suc.IH [OF this inv rest] show ?thesis .
  qed
qed

lemma download_range_exact:
  assumes laws: "reading_laws c (sv_volume st) view" and k: "s3_key st key = Inr k" and start: "0 \<le> start"
    and b: "view w k = Some body" and r: "download_s3_range c st key start stop n w = (w', Inr (i, out))"
  shows "i = start \<and> prefix out (drop (nat start) body) \<and> stop + 1 = start + int (length out) \<and> view w' = view w"
proof -
  have a: "range_attempts c st key stop n gateway_attempts 1 [] start w = (w', Inr out)" and i: "i = start"
    using r by (auto simp: download_s3_range_def and_then_Inr ret_def)
  have "slice_upto body start [] start" by (simp add: slice_upto_def)
  from range_attempts_exact [OF laws k start b this a] quiet_view [OF download_frame(1) [OF laws] a] i
  show ?thesis by (simp add: slice_upto_def)
qed

text \<open>The ranges together are the object.\<close>

lemma write_at_slice:
  assumes "length content = length body" and "take i content = take i body" and "prefix out (drop i body)"
  shows "length (write_at (int i) out content) = length body \<and>
    take (i + length out) (write_at (int i) out content) = take (i + length out) body"
proof (cases "i \<le> length body")
  case True
  obtain r where r: "drop i body = out @ r" using assms(3) by (auto simp: prefix_def)
  then have l: "length body = i + length out + length r"
    by (metis True append_assoc append_take_drop_id length_append length_take min.absorb2)
  have b: "body = take i body @ out @ r" using r by (metis append_take_drop_id)
  have "write_at (int i) out content = take i body @ out @ drop (i + length out) content"
    using assms True r by (simp add: write_at_def) (metis append_Nil append_take_drop_id)
  moreover have "take (i + length out) (take i body @ out @ r) = take i body @ out"
    using True by simp
  ultimately show ?thesis using True l assms(1) b by simp
next
  case False
  then show ?thesis using assms by (simp add: write_at_def)
qed

lemma fetch_ranges_exact:
  assumes laws: "reading_laws c (sv_volume st) view" and k: "s3_key st key = Inr k"
    and n: "n = int (length body)"
  shows "view w k = Some body \<Longrightarrow> 0 \<le> x \<Longrightarrow> nat (n - x) \<le> left \<Longrightarrow> length content = length body \<Longrightarrow>
    take (nat x) content = take (nat x) body \<Longrightarrow>
    fetch_ranges c st key n (map (\<lambda>i. (i, min (i + range_bytes - 1) (n - 1))) (range_starts left x n)) content w =
      (w', Inr out) \<Longrightarrow> out = body"
proof (induction left arbitrary: w x content)
  case 0
  then show ?case using n by (simp add: ret_def)
next
  case (Suc left)
  show ?case
  proof (cases "x < n")
    case False
    then show ?thesis using Suc.prems n by (simp add: ret_def)
  next
    case True
    define stop where "stop = min (x + range_bytes - 1) (n - 1)"
    obtain u i p where u: "download_s3_range c st key x stop n w = (u, Inr (i, p))"
      and rest: "fetch_ranges c st key n
        (map (\<lambda>i. (i, min (i + range_bytes - 1) (n - 1))) (range_starts left (x + range_bytes) n))
        (write_at i p content) u = (w', Inr out)"
      using Suc.prems(6) True by (auto simp: and_then_Inr stop_def)
    from download_range_exact [OF laws k Suc.prems(2,1) u]
    have p: "i = x" "prefix p (drop (nat x) body)" "stop + 1 = x + int (length p)" "view u = view w" by auto
    from write_at_slice [OF Suc.prems(4,5) p(2)] p(1) Suc.prems(2)
    have wr: "length (write_at i p content) = length body"
      "take (nat x + length p) (write_at i p content) = take (nat x + length p) body" by auto
    have l: "nat x + length p = nat (min (x + range_bytes) n)" using p(3) Suc.prems(2) by (simp add: stop_def)
    have "take (nat (x + range_bytes)) (write_at i p content) = take (nat (x + range_bytes)) body"
    proof (cases "x + range_bytes \<le> n")
      case True
      then show ?thesis using wr(2) l by simp
    next
      case False
      then have "write_at i p content = body" using wr l n by simp
      then show ?thesis by simp
    qed
    moreover have "0 \<le> x + range_bytes" "nat (n - (x + range_bytes)) \<le> left" "view u k = Some body"
      using Suc.prems(1-3) p(4) by (auto simp: range_bytes_def)
    ultimately show ?thesis using Suc.IH [OF _ _ _ wr(1) _ rest] by simp
  qed
qed

lemma download_verified_object:
  assumes laws: "reading_laws c (sv_volume st) view" and k: "s3_key st key = Inr k"
    and r: "download_verified env c st key digest w = (w', Inr out)"
  shows "view w k = Some out \<and> normalize_digest digest = Inr (sha256_file env out) \<and> view w' = view w"
proof -
  obtain t reply first u h where t: "gateway_retry c (first_range c st key) w = (t, Inr (reply, first))"
    and body: "(case first of None \<Rightarrow> raising (read_body (rr_chunks reply) (rr_error reply))
        | Some payload \<Rightarrow>
            and_then (raising (validate_s3_range (py_strip (rr_content_range reply)) 0 (range_bytes - 1)
                                 (int (length payload)) None)) (\<lambda>(start, stop, n).
              fetch_ranges c st key n (remaining_ranges (stop + 1) n)
                (write_at start payload (replicate (nat n) (CHR 0x00))))) t = (u, Inr out)"
    and h: "normalize_digest digest = Inr h" "sha256_file env out = h"
    using r by (auto simp: download_verified_def and_then_Inr raising_def ret_def raise_error_def
                  split: if_splits prod.splits)
  have quiet: "keeps (touches view {}) (first_range c st key)"
    unfolding first_range_def by (intro frame_then frame_rules reading_frame [OF laws])
  from retry_result [OF laws quiet t] obtain v v' where v: "view v = view w"
    and f: "first_range c st key v = (v', Inr (reply, first))" by blast
  from quiet_view [OF retry_frame [OF laws quiet] t] have vt: "view t = view w" .
  have first_step: "\<exists>v''. cl_range c (sv_volume st) k 0 (range_bytes - 1) v = (v'', Inr reply) \<and>
    (if py_strip (rr_content_range reply) = [] then first = None
     else \<exists>p. first = Some p \<and> read_body (rr_chunks reply) (rr_error reply) = Inr p)"
  proof -
    obtain v'' r0 where g: "cl_range c (sv_volume st) k 0 (range_bytes - 1) v = (v'', Inr r0)"
      and s: "(if py_strip (rr_content_range r0) = [] then ret (r0, None)
        else and_then (raising (read_body (rr_chunks r0) (rr_error r0))) (\<lambda>p. ret (r0, Some p))) v'' =
          (v', Inr (reply, first))"
      using f by (auto simp: first_range_def raising_then k and_then_Inr)
    then show ?thesis
      by (cases "py_strip (rr_content_range r0) = []") (auto simp: ret_def raising_then split: sum.splits)
  qed
  then obtain v'' where g: "cl_range c (sv_volume st) k 0 (range_bytes - 1) v = (v'', Inr reply)"
    and first: "if py_strip (rr_content_range reply) = [] then first = None
      else \<exists>p. first = Some p \<and> read_body (rr_chunks reply) (rr_error reply) = Inr p" by blast
  from reads_seen(4) [OF laws g] v obtain b where b: "view w k = Some b"
    and whole: "py_strip (rr_content_range reply) = [] \<Longrightarrow> read_body (rr_chunks reply) (rr_error reply) = Inr s \<Longrightarrow> s = b"
    and part: "content_range (py_strip (rr_content_range reply)) = Some (x, y, z, n) \<Longrightarrow>
        n = int (length b) \<and> prefix (concat (rr_chunks reply)) (drop (nat y) b)" for s x y z n
    by auto
  have "out = b"
  proof (cases first)
    case None
    then show ?thesis using body whole first by (auto simp: raising_def split: if_splits)
  next
    case (Some p)
    then obtain x y z n where q: "content_range (py_strip (rr_content_range reply)) = Some (x, 0, z, n)"
      "z + 1 = int (length p)" "read_body (rr_chunks reply) (rr_error reply) = Inr p" "n \<ge> z + 1" "z \<ge> 0"
      and fr: "fetch_ranges c st key n (remaining_ranges (z + 1) n)
                (write_at 0 p (replicate (nat n) (CHR 0x00))) t = (u, Inr out)"
      using body first
      by (auto simp: raising_then validate_s3_range_def parse_s3_range_def
          split: if_splits option.splits sum.splits prod.splits)
    from part [OF q(1)] read_body_prefix [OF q(3)]
    have n: "n = int (length b)" "prefix p (drop 0 b)" using prefix_order.trans by force+
    have "length (replicate (nat n) (CHR 0x00)) = length b" using n(1) by simp
    from write_at_slice [OF this, of 0, OF _ n(2)]
    have wr: "length (write_at 0 p (replicate (nat n) (CHR 0x00))) = length b"
      "take (nat (z + 1)) (write_at 0 p (replicate (nat n) (CHR 0x00))) = take (nat (z + 1)) b"
      using q(2) by simp_all
    have "view t k = Some b" using vt b by simp
    from fetch_ranges_exact [OF laws k n(1) this _ _ wr fr [unfolded remaining_ranges_def]] q(5)
    show ?thesis by simp
  qed
  then show ?thesis using b h quiet_view [OF download_frame(3) [OF laws] r] by simp
qed

end
