(* ===== verification/S3Upload.thy ===== *)
theory S3Upload
  imports S3Store
begin

text \<open>
  Uploads to an S3 volume: the plan of the parts, the search for an upload to resume, the recovery
  of an upload whose completion timed out, and \<open>upload_verified\<close>. The listings of the gateway are
  read up to a given number of pages.
\<close>

section \<open>Uploads\<close>

definition multipart_threshold :: int where
  "multipart_threshold = 64 * 1024 * 1024"

definition multipart_chunk :: int where
  "multipart_chunk = 50 * 1024 * 1024"

definition multipart_min_part :: int where
  "multipart_min_part = 5 * 1024 * 1024"

definition multipart_max_parts :: int where
  "multipart_max_parts = 10000"

definition resume_max_age :: int where
  \<comment> \<open>seven days, in microseconds\<close>
  "resume_max_age = 7 * 24 * 3600 * 1000000"

definition ceil_div :: "int \<Rightarrow> int \<Rightarrow> int" where
  "ceil_div a b = - ((- a) div b)"

definition part_size :: "int \<Rightarrow> int" where
  "part_size n = max multipart_min_part (max multipart_chunk (ceil_div n multipart_max_parts))"

definition part_count :: "int \<Rightarrow> int" where
  "part_count n = ceil_div n (part_size n)"

definition part_numbers :: "int \<Rightarrow> int list" where
  "part_numbers n = [1..part_count n]"

text \<open>The file is its content, so a part is never read short.\<close>

definition part_bytes :: "string \<Rightarrow> int \<Rightarrow> string" where
  "part_bytes source k =
     (let n = int (length source); offset = (k - 1) * part_size n
      in take (nat (min (part_size n) (n - offset))) (drop (nat offset) source))"

definition recent_upload :: "pyenv \<Rightarrow> int \<Rightarrow> json \<Rightarrow> bool" where
  "recent_upload env now upload =
     (case obj_get upload ''Initiated'' of
        JStr s \<Rightarrow> (case parse_iso env (z_to_offset s) of
                     None \<Rightarrow> True
                   | Some (t, has_offset) \<Rightarrow> now - resume_max_age \<le> t)
      | _ \<Rightarrow> True)"

definition nonempty_text :: "pyenv \<Rightarrow> json \<Rightarrow> string option" where
  \<comment> \<open>\<open>str(v or "") or None\<close>\<close>
  "nonempty_text env v = (if or_text env v [] = [] then None else Some (or_text env v []))"

fun upload_pages ::
  "pyenv \<Rightarrow> 'w s3_client \<Rightarrow> s3_store \<Rightarrow> int \<Rightarrow> string \<Rightarrow> nat \<Rightarrow> string option \<Rightarrow> string option \<Rightarrow> json list \<Rightarrow>
     ('w, json list) act"
where
  \<comment> \<open>at most a given number of pages\<close>
  "upload_pages env c st now key 0 key_marker upload_marker found =
     raise_error (AssertionError ''more pages than the bound'')"
| "upload_pages env c st now key (Suc pages) key_marker upload_marker found =
     and_then (gateway_retry c (cl_list_uploads c (sv_volume st) key key_marker upload_marker)) (\<lambda>response.
     and_then (raising (iterate_or_empty (obj_get response ''Uploads''))) (\<lambda>items.
       let found' = found @ filter (\<lambda>i. or_text env (obj_get i ''Key'') [] = key \<and>
                                        truthy (obj_get i ''UploadId'') \<and> recent_upload env now i) items
       in if \<not> truthy (obj_get response ''IsTruncated'') then ret found'
          else case nonempty_text env (obj_get response ''NextKeyMarker'') of
                 None \<Rightarrow> raise_error (CacheCorruption ''RunPod S3 multipart page has no marker'')
               | Some m \<Rightarrow> upload_pages env c st now key pages (Some m)
                              (nonempty_text env (obj_get response ''NextUploadIdMarker'')) found'))"

definition add_part :: "pyenv \<Rightarrow> int \<Rightarrow> json \<Rightarrow> (int \<times> string) list \<Rightarrow> pyerr + (int \<times> string) list" where
  \<comment> \<open>a part counts when its size is the one that the plan expects\<close>
  "add_part env n item parts =
     (case py_int (or_zero (obj_get item ''PartNumber'')) of Inl e \<Rightarrow> Inl e | Inr k \<Rightarrow>
     (case int_or_minus_one (obj_get item ''Size'') of Inl e \<Rightarrow> Inl e | Inr m \<Rightarrow>
       (let expected = (if 1 \<le> k \<and> k \<le> part_count n
                        then min (part_size n) (n - (k - 1) * part_size n) else - 1);
            etag = or_text env (obj_get item ''ETag'') []
        in Inr (if m \<noteq> expected \<or> etag = [] then parts else AList.update k etag parts))))"

fun part_pages ::
  "pyenv \<Rightarrow> 'w s3_client \<Rightarrow> s3_store \<Rightarrow> string \<Rightarrow> string \<Rightarrow> int \<Rightarrow> nat \<Rightarrow> int \<Rightarrow> (int \<times> string) list \<Rightarrow>
     ('w, (int \<times> string) list) act"
where
  "part_pages env c st key upload_id n 0 marker parts =
     raise_error (AssertionError ''more pages than the bound'')"
| "part_pages env c st key upload_id n (Suc pages) marker parts =
     and_then (gateway_retry c (cl_list_parts c (sv_volume st) key upload_id marker)) (\<lambda>response.
     and_then (raising (iterate_or_empty (obj_get response ''Parts''))) (\<lambda>items.
     and_then (raising (fold_tx (add_part env n) items parts)) (\<lambda>parts'.
       if \<not> truthy (obj_get response ''IsTruncated'') then ret parts'
       else and_then (raising (py_int (or_zero (obj_get response ''NextPartNumberMarker'')))) (\<lambda>m.
              if m \<le> 0 then raise_error (CacheCorruption ''RunPod S3 multipart part page has no marker'')
              else part_pages env c st key upload_id n pages m parts'))))"

type_synonym candidate = "(nat \<times> string) \<times> string \<times> (int \<times> string) list"

fun list_candidates ::
  "pyenv \<Rightarrow> 'w s3_client \<Rightarrow> s3_store \<Rightarrow> string \<Rightarrow> int \<Rightarrow> nat \<Rightarrow> json list \<Rightarrow> ('w, candidate list) act"
where
  "list_candidates env c st key n pages [] = ret []"
| "list_candidates env c st key n pages (u # us) =
     (let upload_id = py_str env (obj_get u ''UploadId'') in
      and_then (part_pages env c st key upload_id n pages 0 []) (\<lambda>parts.
      and_then (list_candidates env c st key n pages us) (\<lambda>cs.
        ret (((length parts, or_text env (obj_get u ''Initiated'') []), upload_id, parts) # cs))))"

fun best_candidate :: "candidate list \<Rightarrow> candidate option" where
  \<comment> \<open>\<open>max\<close> by the first component: the first of the greatest\<close>
  "best_candidate [] = None"
| "best_candidate (x # xs) =
     (case best_candidate xs of
        None \<Rightarrow> Some x
      | Some y \<Rightarrow> if fst x < fst y then Some y else Some x)"

definition find_resumable ::
  "pyenv \<Rightarrow> 'w s3_client \<Rightarrow> s3_store \<Rightarrow> int \<Rightarrow> nat \<Rightarrow> string \<Rightarrow> int \<Rightarrow>
     ('w, string option \<times> (int \<times> string) list) act"
where
  "find_resumable env c st now pages key n =
     and_then (upload_pages env c st now key pages None None []) (\<lambda>uploads.
     and_then (list_candidates env c st key n pages uploads) (\<lambda>cs.
       ret (case best_candidate cs of
              None \<Rightarrow> (None, [])
            | Some (rank, upload_id, parts) \<Rightarrow> (Some upload_id, parts))))"

definition recoverable :: "pyerr \<Rightarrow> bool" where
  "recoverable e =
     (case e of
        ClientError f \<Rightarrow>
          cf_status f = Some 524 \<or> cf_code f \<in> {''524'', ''NoSuchUpload'', ''InvalidPart''} \<or>
          cf_class f \<in> {''ReadTimeoutError'', ''ConnectTimeoutError''} \<or>
          cf_class f = ''S3UploadFailedError'' \<and>
            (has_part ''(524)'' (cf_text f) \<or> has_part ''NoSuchUpload'' (cf_text f) \<or>
             has_part ''InvalidPart'' (cf_text f))
      | _ \<Rightarrow> False)"

fun poll_completed :: "'w s3_client \<Rightarrow> s3_store \<Rightarrow> string \<Rightarrow> int \<Rightarrow> nat \<Rightarrow> ('w, bool) act" where
  "poll_completed c st key expected 0 = ret False"
| "poll_completed c st key expected (Suc left) =
     and_then (attempt
       (and_then (raising (s3_key st key)) (\<lambda>k.
        and_then (cl_head c (sv_volume st) k) (\<lambda>head. raising (head_length head))))) (\<lambda>r.
       if r = Inr expected then ret True
       else and_then (if left = 0 then ret () else cl_sleep c 5) (\<lambda>u. poll_completed c st key expected left))"

definition recover_completed :: "'w s3_client \<Rightarrow> s3_store \<Rightarrow> string \<Rightarrow> int \<Rightarrow> pyerr \<Rightarrow> ('w, bool) act" where
  "recover_completed c st key expected e =
     (if \<not> recoverable e then ret False
      else poll_completed c st key expected (nat (max 12 (max 1 (ceil_div expected (1024 * 1024 * 1024))))))"

definition unless_recovered ::
  "'w s3_client \<Rightarrow> s3_store \<Rightarrow> string \<Rightarrow> int \<Rightarrow> ('w, unit) act \<Rightarrow> ('w, unit) act"
where
  \<comment> \<open>\<open>except Exception as exc: if not self._recover_completed_multipart(...): raise\<close>\<close>
  "unless_recovered c st key expected m =
     and_then (attempt m) (\<lambda>r.
       case r of
         Inr u \<Rightarrow> ret ()
       | Inl e \<Rightarrow> and_then (recover_completed c st key expected e) (\<lambda>done.
                    if done then ret () else raise_error e))"

definition send_part ::
  "pyenv \<Rightarrow> 'w s3_client \<Rightarrow> s3_store \<Rightarrow> string \<Rightarrow> string \<Rightarrow> string \<Rightarrow> int \<Rightarrow> ('w, string) act"
where
  "send_part env c st key upload_id source k =
     and_then (gateway_retry c (cl_upload_part c (sv_volume st) key upload_id k (part_bytes source k))) (\<lambda>response.
       let etag = or_text env (obj_get response ''ETag'') [] in
       if etag = [] then raise_error (CacheCorruption ''RunPod S3 multipart part has no ETag'')
       else ret etag)"

fun send_parts ::
  "pyenv \<Rightarrow> 'w s3_client \<Rightarrow> s3_store \<Rightarrow> string \<Rightarrow> string \<Rightarrow> string \<Rightarrow> int list \<Rightarrow> (int \<times> string) list \<Rightarrow>
     ('w, (int \<times> string) list) act"
where
  "send_parts env c st key upload_id source [] completed = ret completed"
| "send_parts env c st key upload_id source (k # ks) completed =
     and_then (send_part env c st key upload_id source k) (\<lambda>etag.
       send_parts env c st key upload_id source ks (AList.update k etag completed))"

definition resumable_session ::
  "pyenv \<Rightarrow> 'w s3_client \<Rightarrow> s3_store \<Rightarrow> int \<Rightarrow> nat \<Rightarrow> string \<Rightarrow> int \<Rightarrow>
     ('w, string \<times> (int \<times> string) list) act"
where
  "resumable_session env c st now pages key n =
     and_then (attempt (find_resumable env c st now pages key n)) (\<lambda>r.
     and_then (case r of
                 Inr found \<Rightarrow> ret found
               | Inl e \<Rightarrow> if \<not> resume_listing_unavailable e then raise_error e else ret (None, [])) (\<lambda>(found, completed).
       case found of
         Some upload_id \<Rightarrow> ret (upload_id, completed)
       | None \<Rightarrow>
           and_then (gateway_retry c (cl_create_multipart c (sv_volume st) key)) (\<lambda>response.
             let upload_id = or_text env (obj_get response ''UploadId'') [] in
             if upload_id = [] then raise_error (CacheCorruption ''RunPod S3 did not return a multipart ID'')
             else ret (upload_id, []))))"

definition upload_multipart ::
  "pyenv \<Rightarrow> 'w s3_client \<Rightarrow> s3_store \<Rightarrow> int \<Rightarrow> nat \<Rightarrow> string \<Rightarrow> string \<Rightarrow> ('w, unit) act"
where
  "upload_multipart env c st now pages source key =
     (let n = int (length source) in
      and_then (raising (s3_key st key)) (\<lambda>k.
      and_then (resumable_session env c st now pages k n) (\<lambda>(upload_id, completed).
      and_then (send_parts env c st k upload_id source
                  (filter (\<lambda>p. p \<notin> fst ` set completed) (part_numbers n)) completed) (\<lambda>completed'.
      and_then (raising (each (\<lambda>p. case map_of completed' p of
                                     Some etag \<Rightarrow> Inr (p, etag)
                                   | None \<Rightarrow> Inl (KeyError (int_text p))) (part_numbers n))) (\<lambda>parts.
        unless_recovered c st key n
          (gateway_retry c (cl_complete_multipart c (sv_volume st) k upload_id parts)))))))"

definition upload_verified ::
  "pyenv \<Rightarrow> 'w s3_client \<Rightarrow> s3_store \<Rightarrow> int \<Rightarrow> nat \<Rightarrow> string \<Rightarrow> string \<Rightarrow> string option \<Rightarrow> ('w, string) act"
where
  "upload_verified env c st now pages source expected_digest storage_key =
     and_then (raising (normalize_digest expected_digest)) (\<lambda>digest.
      if sha256_file env source \<noteq> digest
      then raise_error (CacheCorruption (''Prepopulation source does not match sha256:'' @ digest))
      else
     and_then (raising (if given storage_key then Inr (or_default [] storage_key) else blob_key digest)) (\<lambda>key.
       let n = int (length source) in
       and_then (s3_exists c st key (Some n)) (\<lambda>there.
         if there then ret key
         else
       and_then
         (if multipart_threshold \<le> n then upload_multipart env c st now pages source key
          else unless_recovered c st key n
                 (and_then (raising (s3_key st key)) (cl_upload_file c source (sv_volume st)))) (\<lambda>u.
       and_then (download_verify env c st key digest n) (\<lambda>u. ret key)))))"

end
