(* ===== verification/S3Props.thy ===== *)
theory S3Props
  imports S3Laws S3Upload
begin

text \<open>
  Publication and expiry of manifests on a bucket that keeps its documented laws: the pointer to
  the inventory moves last, what a published manifest lists was verified, and expiry deletes
  nothing that another manifest needs.
\<close>

section \<open>Texts\<close>

lemma from_to_utf8 [simp]: "from_utf8 (to_utf8 s) = Some s"
proof (induction s)
  case Nil
  then show ?case by (simp add: to_utf8_def)
next
  case (Cons c s)
  have c: "to_utf8 (c # s) = utf8_char c @ to_utf8 s" by (simp add: to_utf8_def)
  show ?case
  proof (cases "code c < 128")
    case True
    then show ?thesis using Cons by (simp add: c utf8_char_def)
  next
    case False
    define n where "n = code c"
    have n: "128 \<le> n" "n < 256" "c = char_of n"
      using False range_nat_of_char by (auto simp: n_def code_def)
    define a b where "a = (char_of (192 + n div 64) :: char)" and "b = (char_of (128 + n mod 64) :: char)"
    have "192 + n div 64 < 256" "128 + n mod 64 < 256" using n by auto
    then have ab: "code a = 192 + n div 64" "code b = 128 + n mod 64" by (simp_all add: code_def a_def b_def)
    have "n div 64 = 2 \<or> n div 64 = 3" using n by auto
    moreover have "(code a - 192) * 64 + (code b - 128) = n" by (simp add: ab)
    moreover have "to_utf8 (c # s) = a # b # to_utf8 s"
      using False by (simp add: c utf8_char_def a_def b_def flip: n_def)
    ultimately show ?thesis using Cons n(3) ab by auto
  qed
qed

lemma strip_ends: "s \<noteq> [] \<Longrightarrow> \<not> is_space (hd s) \<Longrightarrow> \<not> is_space (last s) \<Longrightarrow> py_strip s = s"
proof -
  assume s: "s \<noteq> []" "\<not> is_space (hd s)" "\<not> is_space (last s)"
  then have "dropWhile is_space s = s" by (cases s) auto
  moreover have "dropWhile is_space (rev s) = rev s" using s by (cases s rule: rev_cases) auto
  ultimately show ?thesis by (simp add: py_strip_def)
qed

lemma digit_no_space: "n < (10 :: nat) \<Longrightarrow> \<not> is_space (char_of (48 + n))"
  by (simp add: is_space_def code_def)

lemma hd_nat_text: "\<not> is_space (hd (nat_text n))"
proof (induction n rule: nat_text.induct)
  case (1 n)
  then show ?case by (subst nat_text.simps) (auto simp: digit_no_space)
qed

lemma hex_no_space: "is_lower_hex c \<Longrightarrow> \<not> is_space c"
  by (auto simp: is_lower_hex_def is_digit_def is_space_def)

lemma generation_stripped:
  assumes "list_all is_lower_hex token"
  shows "py_strip (generation_name ns token) = generation_name ns token"
proof -
  have m: "\<not> is_space (CHR ''-'')" by (simp add: is_space_def code_def)
  have h: "\<not> is_space (hd (int_text ns))" using m hd_nat_text by (simp add: int_text_def)
  have "\<not> is_space (last (generation_name ns token))"
  proof (cases "token = []")
    case False
    then have "last token \<in> set token" by simp
    then show ?thesis using assms hex_no_space False by (auto simp: generation_name_def list_all_iff)
  qed (simp add: generation_name_def m)
  then show ?thesis using h by (intro strip_ends) (simp_all add: generation_name_def hd_append)
qed

section \<open>Entries of the inventory\<close>

definition entries_without :: "json \<Rightarrow> json list \<Rightarrow> json list" where
  "entries_without ident es = filter (\<lambda>e. \<not> py_eq (obj_get e ''manifest_id'') ident) es"

lemma collect_other:
  "collect (other_entry ident) es = Inr xs \<Longrightarrow> xs = entries_without ident es"
  by (induction es arbitrary: xs)
    (auto simp: other_entry_def entries_without_def py_get_def split: sum.splits if_splits)

lemma each_entry_text: "each entry_text es = Inr kes \<Longrightarrow> map snd kes = es"
  by (induction es arbitrary: kes) (auto simp: entry_text_def split: sum.splits json.splits)

lemma sorted_entries_mset: "sorted_entries es = Inr ss \<Longrightarrow> mset ss = mset es"
  by (auto simp: sorted_entries_def split: sum.splits dest!: each_entry_text)

section \<open>The pointer moves last\<close>

definition index_written :: "pyenv \<Rightarrow> s3_store \<Rightarrow> (string \<Rightarrow> string option) \<Rightarrow> string \<Rightarrow> json \<Rightarrow> bool" where
  \<comment> \<open>the pointer names the generation, whose object is the canonical form of the index\<close>
  "index_written env st v g idx \<longleftrightarrow>
     generation_at st v = Some g \<and>
     (\<exists>b. canonical_bytes env idx = Inr b \<and> v (place st (index_key g)) = Some b)"

lemma put_view:
  assumes "writing_laws c (sv_volume st) view" and "s3_key st key = Inr k"
    and "s3_put c st key body w = (w', r)"
  shows "view w' = (view w)(k := Some body) \<or> view w' = view w \<and> r \<noteq> Inr ()"
  using assms by (simp add: s3_put_def raising_then writing_laws_def)

lemma write_index_cases:
  assumes rl: "reading_laws c (sv_volume st) view" and wl: "writing_laws c (sv_volume st) view"
    and g: "py_strip g = g" and r: "write_index env c st now g es problem w = (w', r)"
  shows "touches view {place st (index_key g)} w w' \<and> r \<noteq> Inr () \<or>
    touches view {place st (index_key g), place st latest_key} w w' \<and>
    index_written env st (view w') g (index_document now g es)"
proof -
  let ?i = "place st (index_key g)" and ?l = "place st latest_key"
  show ?thesis
  proof (cases "canonical_bytes env (index_document now g es)")
    case (Inl e)
    then show ?thesis using r by (auto simp: write_index_def raising_then touches_def)
  next
    case (Inr b)
    obtain t x where t: "s3_put c st (index_key g) b w = (t, x)" by fastforce
    note pv = put_view [OF wl s3_key_index(1) t]
    have tt: "touches view {?i} w t" using pv by (auto simp: touches_def)
    obtain u y where u: "s3_exists c st (index_key g) (Some (int (length b))) t = (u, y)" by fastforce
    have vu: "view u = view t" by (rule quiet_view [OF s3_read_frame(2) [OF rl] u])
    consider e where "x = Inl e" "w' = t" "r = Inl e" | "x = Inr ()" "w' = u" "r \<noteq> Inr ()"
      | "x = Inr ()" "s3_put c st latest_key (to_utf8 g) u = (w', r)"
    proof -
      have s: "and_then (s3_put c st (index_key g) b) (\<lambda>a.
        and_then (s3_exists c st (index_key g) (Some (int (length b)))) (\<lambda>there.
          if \<not> there then raise_error (CacheCorruption problem)
          else s3_put c st latest_key (to_utf8 g))) w = (w', r)"
        using r Inr by (simp add: write_index_def raising_then)
      show thesis
      proof (cases x)
        case (Inl e)
        have "(t, Inl e) = (w', r)" using s t Inl by (simp add: then_known)
        then have "w' = t" "r = Inl e" by simp_all
        with Inl show ?thesis by (rule that(1))
      next
        case Inr': (Inr a)
        then show ?thesis using s t u that(2,3)
          by (cases y) (auto simp: then_known raise_error_def split: if_splits)
      qed
    qed
    then show ?thesis
    proof cases
      case 3
      then have vi: "view t ?i = Some b" using pv by simp
      from put_view [OF wl s3_key_index(2) 3(2)] show ?thesis
      proof (elim disjE conjE)
        assume l: "view w' = (view u)(?l := Some (to_utf8 g))"
        then have "generation_at st (view w') = Some g" by (simp add: generation_at_def g)
        moreover have "view w' ?i = Some b" using l vi vu by simp
        moreover have "touches view {?i, ?l} w w'" using l vu tt by (simp add: touches_def)
        ultimately show ?thesis using Inr by (auto simp: index_written_def)
      qed (use tt vu in \<open>auto simp: touches_def\<close>)
    qed (use tt vu in \<open>auto simp: touches_def\<close>)
  qed
qed

lemma s3_key_manifest [simp]: "s3_key st (manifest_name p g) = Inr (place st (manifest_name p g))"
  by (simp add: s3_key_place manifest_name_def)

lemma manifest_name_other [simp]: "manifest_name p g \<noteq> index_key h" "manifest_name p g \<noteq> latest_key"
  "index_key h \<noteq> manifest_name p g" "latest_key \<noteq> manifest_name p g"
  by (simp_all add: manifest_name_def index_key_def latest_key_def)

definition published ::
  "pyenv \<Rightarrow> s3_store \<Rightarrow> string \<Rightarrow> string \<Rightarrow> json \<Rightarrow> string \<Rightarrow> (string \<Rightarrow> string option) \<Rightarrow>
     (string \<Rightarrow> string option) \<Rightarrow> bool"
where
  \<comment> \<open>the inventory after: that before with the entry of the manifest, whose document is there\<close>
  "published env st g now m key v v' \<longleftrightarrow>
     (\<exists>entry es b. published_entry m key g = Inr entry \<and>
        mset es = mset (entries_without (obj_get m ''manifest_id'') (listed env st v)) + {#entry#} \<and>
        index_written env st v' g (index_document now g es) \<and>
        canonical_bytes env m = Inr b \<and> v' (place st key) = Some b)"

lemma item_get: "py_item j k = Inr v \<Longrightarrow> obj_get j k = v"
  by (cases j) (auto split: option.splits)

lemma listed_frame:
  assumes "touches view {place st (manifest_name p g)} w w'"
  shows "listed env st (view w') = listed env st (view w)"
proof -
  have "inventory env st (view w') = inventory env st (view w)"
    by (rule inventory_frame [OF assms]) auto
  then show ?thesis by (simp add: listed_def)
qed

lemma publish_locked_cases:
  assumes rl: "reading_laws c (sv_volume st) view" and wl: "writing_laws c (sv_volume st) view"
    and g: "py_strip (generation_name ns token) = generation_name ns token"
    and r: "publish_locked env c st ns token now m w = (w', r)"
  shows "\<exists>p. let g = generation_name ns token; M = place st (manifest_name p g); I = place st (index_key g) in
    touches view {M, I} w w' \<and> (\<forall>key. r \<noteq> Inr key) \<or>
    touches view {M, I, place st latest_key} w w' \<and>
      published env st g now m (manifest_name p g) (view w) (view w')"
proof -
  let ?g = "generation_name ns token"
  show ?thesis
  proof (cases "\<exists>fp p b. py_item m ''profile_fingerprint'' = Inr fp \<and> normalize_digest (py_str env fp) = Inr p \<and>
      canonical_bytes env m = Inr b")
    case False
    then have "w' = w" "\<forall>key. r \<noteq> Inr key"
      using r by (auto simp: publish_locked_def raising_then Let_def split: sum.splits)
    then show ?thesis by (auto simp: touches_def Let_def)
  next
    case True
    then obtain fp p b where p: "py_item m ''profile_fingerprint'' = Inr fp"
      "normalize_digest (py_str env fp) = Inr p" "canonical_bytes env m = Inr b" by blast
    let ?M = "place st (manifest_name p ?g)" and ?I = "place st (index_key ?g)"
    obtain t x where t: "s3_put c st (manifest_name p ?g) b w = (t, x)" by fastforce
    note pv = put_view [OF wl s3_key_manifest t]
    have tt: "touches view {?M} w t" using pv by (auto simp: touches_def)
    obtain u y where u: "s3_exists c st (manifest_name p ?g) (Some (int (length b))) t = (u, y)" by fastforce
    obtain v z where v: "latest_entries env c st u = (v, z)" by fastforce
    have vu: "view u = view t" by (rule quiet_view [OF s3_read_frame(2) [OF rl] u])
    have vv: "view v = view u" by (rule quiet_view [OF index_frame(2) [OF rl] v])
    have frame: "touches view {?M} w v" using tt vu vv by (simp add: touches_def)
    have r': "and_then (s3_put c st (manifest_name p ?g) b) (\<lambda>a.
     and_then (s3_exists c st (manifest_name p ?g) (Some (int (length b)))) (\<lambda>there.
      if \<not> there then raise_error (CacheCorruption ''RunPod S3 manifest publication was incomplete'')
      else
     and_then (latest_entries env c st) (\<lambda>entries.
     and_then (raising (py_item m ''manifest_id'')) (\<lambda>ident.
     and_then (raising (collect (other_entry ident) entries)) (\<lambda>others.
     and_then (raising (published_entry m (manifest_name p ?g) ?g)) (\<lambda>entry.
     and_then (raising (sorted_entries (others @ [entry]))) (\<lambda>sorted_es.
     and_then (write_index env c st now ?g sorted_es
                 ''RunPod S3 inventory publication was incomplete'') (\<lambda>a. ret (manifest_name p ?g))))))))) w = (w', r)"
      using r p by (simp add: publish_locked_def raising_then Let_def)
    show ?thesis
    proof (cases "\<exists>es. x = Inr () \<and> y = Inr True \<and> z = Inr es")
      case False
      then have "w' \<in> {t, u, v}" "\<forall>key. r \<noteq> Inr key"
        using r' t u v by (auto simp: and_then_def raise_error_def split: sum.splits if_splits prod.splits)
      then have "touches view {?M, ?I} w w'" using tt vu vv by (auto simp: touches_def)
      then show ?thesis using \<open>\<forall>key. r \<noteq> Inr key\<close> by (auto simp: Let_def)
    next
      case True
      then obtain es where es: "x = Inr ()" "y = Inr True" "z = Inr es" by blast
      have l: "es = listed env st (view w)"
        using latest_entries_result [OF rl v [unfolded es]] listed_frame [OF tt] vu by simp
      show ?thesis
      proof (cases "\<exists>ident entry ss. py_item m ''manifest_id'' = Inr ident \<and>
          published_entry m (manifest_name p ?g) ?g = Inr entry \<and>
          collect (other_entry ident) es = Inr (entries_without ident es) \<and>
          sorted_entries (entries_without ident es @ [entry]) = Inr ss")
        case False
        then have "w' = v" "\<forall>key. r \<noteq> Inr key"
          using r' t u v es
          by (auto simp: and_then_def raising_def split: sum.splits dest: collect_other)
        then show ?thesis using frame by (auto simp: touches_def Let_def)
      next
        case True
        then obtain ident entry ss where e: "py_item m ''manifest_id'' = Inr ident"
          "published_entry m (manifest_name p ?g) ?g = Inr entry"
          "collect (other_entry ident) es = Inr (entries_without ident es)"
          "sorted_entries (entries_without ident es @ [entry]) = Inr ss" by blast
        obtain s q where s: "write_index env c st now ?g ss
            ''RunPod S3 inventory publication was incomplete'' v = (s, q)" by fastforce
        have w': "w' = s" "\<forall>key. r = Inr key \<longrightarrow> q = Inr ()"
          using r' t u v es e s by (auto simp: and_then_def raising_def ret_def split: sum.splits)
        have ms: "mset ss = mset (entries_without (obj_get m ''manifest_id'') (listed env st (view w))) + {#entry#}"
          using sorted_entries_mset [OF e(4)] item_get [OF e(1)] l by simp
        have doc: "view v ?M = Some b" using pv es(1) vu vv by simp
        from write_index_cases [OF rl wl g s] show ?thesis
        proof (elim disjE conjE)
          assume "touches view {?I} v s" "q \<noteq> Inr ()"
          then show ?thesis using w' frame by (auto simp: touches_def Let_def)
        next
          assume a: "touches view {?I, place st latest_key} v s"
            and i: "index_written env st (view s) ?g (index_document now ?g ss)"
          then have "touches view {?M, ?I, place st latest_key} w s" using frame by (simp add: touches_def)
          moreover have "view s ?M = Some b" using a doc by (simp add: touches_def)
          ultimately have "published env st ?g now m (manifest_name p ?g) (view w) (view s)"
            using e(2) ms i p(3) by (auto simp: published_def)
          then show ?thesis using \<open>touches view {?M, ?I, place st latest_key} w s\<close> w' by (auto simp: Let_def)
        qed
      qed
    qed
  qed
qed

text \<open>C1: publication is atomic: whatever fails and wherever, the inventory that clients read next is
  the old one or, with the pointer moved as the last step, the old one with the entry of this
  manifest in place of an earlier entry of it, and then its document is stored under the key of the
  entry. No prepared object changes.\<close>

theorem publication_atomic:
  assumes "reading_laws c (sv_volume st) view" and "writing_laws c (sv_volume st) view"
    and "publish_manifest env c st s ns token now m w = (w', r)"
    and "generation_name ns token = g" and "list_all is_lower_hex token"
    and "generation_at st (view w) \<noteq> Some g"
  shows "(inventory env st (view w') = inventory env st (view w) \<and> (\<forall>key. r \<noteq> Inr key) \<or>
     (\<exists>p. published env st g now m (manifest_name p g) (view w) (view w'))) \<and>
   (\<forall>k. \<not> starts_with ''manifests/'' k \<longrightarrow> \<not> starts_with ''indexes/'' k \<longrightarrow>
      view w' (place st k) = view w (place st k))"
proof (cases "\<exists>u. verify_objects env c st s m w = (u, Inr ())")
  case False
  obtain u q where q: "verify_objects env c st s m w = (u, q)" by fastforce
  with False obtain e where u: "verify_objects env c st s m w = (u, Inl e)" by (cases q) auto
  have "publish_manifest env c st s ns token now m w = (u, Inl e)"
    unfolding publish_manifest_def by (rule then_known(2) [of "verify_objects env c st s m", OF u])
  then have "w' = u" "r = Inl e" using assms(3) by simp_all
  then show ?thesis using quiet_view [OF verify_objects_frame(2) [OF assms(1)] u] by simp
next
  case True
  then obtain u where u: "verify_objects env c st s m w = (u, Inr ())" by blast
  have vu: "view u = view w" by (rule quiet_view [OF verify_objects_frame(2) [OF assms(1)] u])
  have g: "py_strip (generation_name ns token) = generation_name ns token"
    by (rule generation_stripped [OF assms(5)])
  have l: "publish_locked env c st ns token now m u = (w', r)"
    using assms(3) unfolding publish_manifest_def by (simp add: then_known(1) [of "verify_objects env c st s m", OF u])
  from publish_locked_cases [OF assms(1,2) g l] obtain p where
    p: "touches view {place st (manifest_name p g), place st (index_key g)} u w' \<and> (\<forall>key. r \<noteq> Inr key) \<or>
      touches view {place st (manifest_name p g), place st (index_key g), place st latest_key} u w' \<and>
      published env st g now m (manifest_name p g) (view u) (view w')"
    by (auto simp: assms(4) Let_def)
  have named: "starts_with ''manifests/'' (manifest_name p g)" "starts_with ''indexes/'' (index_key g)"
    "starts_with ''indexes/'' latest_key" by (simp_all add: manifest_name_def index_key_def latest_key_def)
  have "inventory env st (view w') = inventory env st (view u)"
    if "touches view {place st (manifest_name p g), place st (index_key g)} u w'"
    using assms(6) vu by (intro inventory_frame [OF that]) auto
  with p vu have first: "inventory env st (view w') = inventory env st (view w) \<and> (\<forall>key. r \<noteq> Inr key) \<or>
     (\<exists>p. published env st g now m (manifest_name p g) (view w) (view w'))" by auto
  have "view w' (place st k) = view w (place st k)"
    if k: "\<not> starts_with ''manifests/'' k" "\<not> starts_with ''indexes/'' k" for k
  proof -
    have "k \<noteq> manifest_name p g" "k \<noteq> index_key g" "k \<noteq> latest_key" using named k by auto
    then have "view w' (place st k) = view u (place st k)" using p unfolding touches_def by auto
    then show ?thesis by (simp add: vu)
  qed
  with first show ?thesis by blast
qed

section \<open>What is published was verified\<close>

definition artifact_stored :: "pyenv \<Rightarrow> s3_store \<Rightarrow> (string \<Rightarrow> string option) \<Rightarrow> json \<Rightarrow> bool" where
  \<comment> \<open>an object of the digest and the size of the artifact is at its key\<close>
  "artifact_stored env st v a \<longleftrightarrow>
     (\<exists>body. v (place st (or_text env (obj_get a ''storage_key'') [])) = Some body \<and>
        normalize_digest (py_str env (obj_get a ''digest'')) = Inr (sha256_file env body) \<and>
        py_int (obj_get a ''size'') = Inr (int (length body)))"

lemma artifact_key_named:
  "artifact_key a d = Inr key \<Longrightarrow> key \<noteq> [] \<and> hd key = CHR ''b''"
  by (auto simp: artifact_key_def blob_key_def bundle_key_def object_key_def split: if_splits sum.splits)

lemma accepted_keys:
  assumes "verify env s m = Inr x"
  obtains as where "obj_get m ''artifacts'' = JArr as"
    "\<And>a. a \<in> set as \<Longrightarrow> \<exists>d. digest_id (or_text env (obj_get a ''digest'') []) = Inr d \<and>
       artifact_key a d = Inr (or_text env (obj_get a ''storage_key'') [])"
proof -
  have v: "validate_manifest_shape env m = Inr ()" by (rule verify_Inr [OF assms]) assumption
  obtain as seen where as: "obj_get m ''artifacts'' = JArr as"
    and f: "fold_tx (check_artifact env) as [] = Inr seen"
    by (rule shape_artifacts [OF v])
  from check_artifacts_fold [OF f] obtain "is" where i: "list_all2 (canonical_artifact env) as is" by blast
  show thesis
  proof (rule that [OF as])
    fix a assume "a \<in> set as"
    with i have "\<exists>j. canonical_artifact env a j" by (induction as "is" rule: list_all2_induct) auto
    then show "\<exists>d. digest_id (or_text env (obj_get a ''digest'') []) = Inr d \<and>
       artifact_key a d = Inr (or_text env (obj_get a ''storage_key'') [])"
      by (auto simp: canonical_artifact_def)
  qed
qed

lemma for_each_result:
  assumes quiet: "\<And>x. keeps (touches view {}) (f x)"
  shows "for_each f xs w = (w', Inr ()) \<Longrightarrow> x \<in> set xs \<Longrightarrow> \<exists>u u'. view u = view w \<and> f x u = (u', Inr ())"
proof (induction xs arbitrary: w)
  case Nil
  then show ?case by simp
next
  case (Cons y ys)
  then obtain t where t: "f y w = (t, Inr ())" "for_each f ys t = (w', Inr ())"
    by (auto simp: and_then_Inr)
  show ?case
  proof (cases "x = y")
    case True
    then show ?thesis using t by blast
  next
    case False
    then have "x \<in> set ys" using Cons.prems(2) by simp
    from Cons.IH [OF t(2) this] show ?thesis by (simp add: quiet_view [OF quiet t(1)])
  qed
qed

lemma verify_artifact_result:
  assumes laws: "reading_laws c (sv_volume st) view" and r: "verify_artifact env c st a w = (w', Inr ())"
    and key: "or_text env (obj_get a ''storage_key'') [] \<noteq> []" "hd (or_text env (obj_get a ''storage_key'') []) \<noteq> CHR ''/''"
  shows "artifact_stored env st (view w) a"
proof -
  obtain kv d h sz n where i: "py_item a ''storage_key'' = Inr kv" "py_item a ''digest'' = Inr d"
    "normalize_digest (py_str env d) = Inr h" "py_item a ''size'' = Inr sz" "py_int sz = Inr n"
    and dv: "download_verify env c st (py_str env kv) h n w = (w', Inr ())"
    using r by (auto simp: verify_artifact_def raising_then split: sum.splits)
  have k: "or_text env (obj_get a ''storage_key'') [] = py_str env kv"
    using key(1) item_get [OF i(1)] by (auto simp: or_text_def split: if_splits)
  obtain t out where out: "download_verified env c st (py_str env kv) h w = (t, Inr out)" "int (length out) = n"
    using dv by (auto simp: download_verify_def and_then_Inr raise_error_def ret_def split: if_splits)
  have "s3_key st (py_str env kv) = Inr (place st (py_str env kv))" using key k by (simp add: s3_key_place)
  from download_verified_object [OF laws this out(1)]
  have o: "view w (place st (py_str env kv)) = Some out" "normalize_digest h = Inr (sha256_file env out)" by auto
  have "h = sha256_file env out" using o(2) normalize_digest_Inr(3) [OF i(3)] by simp
  then show ?thesis
    using o(1) i out(2) k item_get [OF i(2)] item_get [OF i(4)] by (auto simp: artifact_stored_def)
qed

text \<open>C2: a manifest that was published names objects that are there: for every artifact the bucket
  holds, under its canonical key, an object of its digest and its size.\<close>

theorem published_objects_stored:
  assumes "reading_laws c (sv_volume st) view" and "writing_laws c (sv_volume st) view"
    and "publish_manifest env c st s ns token now m w = (w', Inr key)" and "list_all is_lower_hex token"
  shows "\<exists>as. obj_get m ''artifacts'' = JArr as \<and> (\<forall>a \<in> set as. artifact_stored env st (view w') a)"
proof -
  obtain u where u: "verify_objects env c st s m w = (u, Inr ())"
    and l: "publish_locked env c st ns token now m u = (w', Inr key)"
    using assms(3) by (auto simp: publish_manifest_def and_then_Inr)
  obtain x v as' where v: "verify env s m = Inr x" "py_item m ''artifacts'' = Inr v" "iterate v = Inr as'"
    and f: "for_each (verify_artifact env c st) as' w = (u, Inr ())"
    using u by (auto simp: verify_objects_def raising_then split: sum.splits)
  obtain as where as: "obj_get m ''artifacts'' = JArr as"
    and keys: "\<And>a. a \<in> set as \<Longrightarrow> \<exists>d. digest_id (or_text env (obj_get a ''digest'') []) = Inr d \<and>
       artifact_key a d = Inr (or_text env (obj_get a ''storage_key'') [])"
    by (rule accepted_keys [OF v(1)]) blast
  have as': "as' = as" using as v(3) item_get [OF v(2)] by simp
  have vu: "view u = view w" by (rule quiet_view [OF verify_objects_frame(2) [OF assms(1)] u])
  from publish_locked_cases [OF assms(1,2) generation_stripped [OF assms(4)] l] obtain p where
    p: "touches view {place st (manifest_name p (generation_name ns token)),
          place st (index_key (generation_name ns token)), place st latest_key} u w'"
    by (auto simp: Let_def)
  show ?thesis
  proof (intro exI conjI ballI)
    show "obj_get m ''artifacts'' = JArr as" by (rule as)
    fix a assume a: "a \<in> set as"
    from keys [OF a] have k: "or_text env (obj_get a ''storage_key'') [] \<noteq> []"
      "hd (or_text env (obj_get a ''storage_key'') []) = CHR ''b''" using artifact_key_named by blast+
    from for_each_result [OF verify_objects_frame(1) [OF assms(1)] f [unfolded as'] a] obtain t t' where
      t: "view t = view w" "verify_artifact env c st a t = (t', Inr ())" by blast
    have st: "artifact_stored env st (view w) a"
      using verify_artifact_result [OF assms(1) t(2) k(1)] k(2) t(1) by simp
    have "or_text env (obj_get a ''storage_key'') [] \<notin>
        {manifest_name p (generation_name ns token), index_key (generation_name ns token), latest_key}"
      using k(2) by (auto simp: manifest_name_def index_key_def latest_key_def)
    then have "view w' (place st (or_text env (obj_get a ''storage_key'') [])) =
        view u (place st (or_text env (obj_get a ''storage_key'') []))"
      using p by (simp add: touches_def)
    then show "artifact_stored env st (view w') a" using st vu by (simp add: artifact_stored_def)
  qed
qed

section \<open>What expiry leaves\<close>

definition objects_of :: "string \<Rightarrow> string set" where
  \<comment> \<open>where an object of the digest can be\<close>
  "objects_of h = {k. blob_key h = Inr k \<or> bundle_key h = Inr k}"

lemma object_key_digest:
  assumes "normalize_digest h = Inr h" and "normalize_digest d = Inr h'" and "artifact_key a d = Inr k" and "k \<in> objects_of h"
  shows "h' = h"
proof -
  have l: "length h = 64" "length h' = 64" using normalize_digest_Inr(1) assms(1,2) by blast+
  from assms show ?thesis
    by (auto simp: objects_of_def artifact_key_def blob_key_def bundle_key_def object_key_def split: if_splits)
      (use l in \<open>auto dest: arg_cong [where f = "\<lambda>x. take 64 (drop 16 x)"]\<close>)
qed

lemma collect_all: "collect f xs = Inr ys \<Longrightarrow> x \<in> set xs \<Longrightarrow> f x = Inr zs \<Longrightarrow> set zs \<subseteq> set ys"
  by (induction xs arbitrary: ys) (auto split: sum.splits)

lemma objects_named:
  "k \<in> objects_of h \<Longrightarrow> k \<noteq> [] \<and> hd k = CHR ''b''"
  by (auto simp: objects_of_def blob_key_def bundle_key_def object_key_def split: sum.splits)

lemma keep_other:
  assumes "writing_laws c (sv_volume st) view" and "key \<noteq> []" and "hd key \<noteq> CHR ''/''" and "key \<notin> X"
  shows "keeps (touches view (- place st ` X)) (s3_delete c st key)"
  by (rule s3_write_frame [OF assms(1)]) (use assms s3_key_place in auto)

lemma delete_frame:
  assumes wl: "writing_laws c (sv_volume st) view" and h: "normalize_digest h = Inr h" "h \<in> set referenced"
    and keys: "\<And>a. a \<in> set as \<Longrightarrow> \<exists>d. digest_id (or_text env (obj_get a ''digest'') []) = Inr d \<and>
       artifact_key a d = Inr (or_text env (obj_get a ''storage_key'') [])"
  shows "keeps (touches view (- place st ` objects_of h)) (delete_unreferenced env c st referenced as n)"
  using keys
proof (induction as arbitrary: n)
  case Nil
  then show ?case by (simp add: frame.keeps_ret)
next
  case (Cons a as)
  let ?key = "or_text env (obj_get a ''storage_key'') []"
  from Cons.prems [of a] obtain d where d: "digest_id (or_text env (obj_get a ''digest'') []) = Inr d"
    "artifact_key a d = Inr ?key" by auto
  obtain h' where h': "normalize_digest (or_text env (obj_get a ''digest'') []) = Inr h'" "d = sha_prefix @ h'"
    by (rule digest_id_Inr [OF d(1)])
  have rest: "keeps (touches view (- place st ` objects_of h)) (delete_unreferenced env c st referenced as m)" for m
    using Cons by simp
  have del: "keeps (touches view (- place st ` objects_of h)) (s3_delete c st ?key)" if "h' \<notin> set referenced"
  proof -
    have "?key \<notin> objects_of h"
      using object_key_digest [OF h(1) normalize_digest_Inr(4) [OF h'(1)] d(2) [unfolded h'(2)]] that h(2) by auto
    then show ?thesis using artifact_key_named [OF d(2)] by (intro keep_other [OF wl]) auto
  qed
  show ?case
    unfolding delete_unreferenced.simps Let_def
    by (rule frame_raising, rule frame_raising)
      (auto simp: h'(1) py_get_def intro!: frame_then del rest split: if_splits)
qed

lemma expiring_document_result:
  assumes "\<And>m. supplied = Some m \<Longrightarrow> verify env s m = Inr m"
    and "expiring_document env c st s supplied removed w = (w', Inr d)"
  shows "d = JObj [] \<or> verify env s d = Inr d"
  using assms verify_Inr
  by (fastforce simp: expiring_document_def ret_def raising_def and_then_Inr split: option.splits)

lemma remove_locked_frame:
  assumes rl: "reading_laws c (sv_volume st) view" and wl: "writing_laws c (sv_volume st) view"
    and supplied: "\<And>m. supplied = Some m \<Longrightarrow> verify env s m = Inr m"
    and own: "\<And>x k. x \<in> set (listed env st (view w)) \<Longrightarrow> stored_key env (Some x) = Some k \<Longrightarrow> starts_with ''manifests/'' k"
    and e: "e \<in> set (listed env st (view w))" "\<not> py_eq (obj_get e ''manifest_id'') (JStr expected)"
    and d: "referenced_digests env e = Inr ds" "h \<in> set ds" "normalize_digest h = Inr h"
    and r: "remove_locked env c st s ns token now expected supplied w = (w', r)"
  shows "touches view (- place st ` objects_of h) w w'"
proof -
  let ?R = "touches view (- place st ` objects_of h)"
  obtain u x where u: "latest_entries env c st w = (u, x)" by fastforce
  have vu: "view u = view w" by (rule quiet_view [OF index_frame(2) [OF rl] u])
  show ?thesis
  proof (cases x)
    case (Inl err)
    have "(u, Inl err) = (w', r)"
      using r u [unfolded Inl] by (simp add: remove_locked_def then_known(2) [of "latest_entries env c st"])
    then show ?thesis using vu by (auto simp: touches_def)
  next
    case (Inr es)
    have es: "es = listed env st (view w)" by (rule latest_entries_result [OF rl u [unfolded Inr]])
    define rest where "rest = and_then (raising (collect (other_entry (JStr expected)) es)) (\<lambda>remaining.
       let removed = find (\<lambda>e. obj_get e ''manifest_id'' = JStr expected) es;
           generation = generation_name ns token
       in
       if removed = None \<and> supplied = None then ret (0, 0)
       else
     and_then (write_index env c st now generation remaining
                 ''RunPod S3 replica expiry inventory was incomplete'') (\<lambda>u.
     and_then (raising (collect (referenced_digests env) remaining)) (\<lambda>referenced.
     and_then (expiring_document env c st s supplied removed) (\<lambda>document.
     and_then (raising (iterate_or_empty (obj_get document ''artifacts''))) (\<lambda>as.
     and_then (delete_unreferenced env c st referenced as 0) (\<lambda>objects.
     and_then (case stored_key env removed of None \<Rightarrow> ret () | Some key \<Rightarrow> s3_delete c st key) (\<lambda>u.
       ret (if removed = None then 0 else 1 :: nat, objects))))))))"
    have "keeps ?R rest"
      unfolding rest_def Let_def
    proof (rule frame_raising, rule frame.keeps_if, rule frame.keeps_ret, rule frame_then, goal_cases)
      case (1 remaining)
      have "index_key g \<notin> objects_of h" "latest_key \<notin> objects_of h" for g
        using objects_named [of "index_key g" h] objects_named [of latest_key h]
        by (auto simp: index_key_def latest_key_def)
      then show ?case
        unfolding write_index_def
        by (intro frame_then frame_rules s3_read_frame [OF rl] s3_write_frame [OF wl]) auto
    next
      case (2 remaining _)
      have rem: "remaining = entries_without (JStr expected) es" by (rule collect_other [OF 2(1)])
      then have er: "e \<in> set remaining" using e es by (simp add: entries_without_def)
      show ?case
      proof (rule frame_raising, rule frame.keeps_then, goal_cases)
        case (1 referenced)
        then show ?case
          unfolding expiring_document_def by (intro frame_rules frame_then index_frame(3) [OF rl])
      next
        case (2 referenced document t t')
        have ref: "h \<in> set referenced" using collect_all [OF 2(1) er d(1)] d(2) by blast
        from expiring_document_result [OF supplied 2(2)]
        have doc: "document = JObj [] \<or> verify env s document = Inr document" by blast
        show ?case
        proof (rule frame_raising, rule frame_then, goal_cases)
          case (1 as)
          have "\<exists>d. digest_id (or_text env (obj_get a ''digest'') []) = Inr d \<and>
              artifact_key a d = Inr (or_text env (obj_get a ''storage_key'') [])" if "a \<in> set as" for a
            using doc
          proof
            assume "document = JObj []"
            then show ?thesis using 1 that by (simp add: iterate_or_empty_def)
          next
            assume "verify env s document = Inr document"
            then obtain as' where "obj_get document ''artifacts'' = JArr as'"
              "\<And>a. a \<in> set as' \<Longrightarrow> \<exists>d. digest_id (or_text env (obj_get a ''digest'') []) = Inr d \<and>
                 artifact_key a d = Inr (or_text env (obj_get a ''storage_key'') [])"
              by (rule accepted_keys) blast
            then show ?thesis using 1 that by (auto simp: iterate_or_empty_def split: if_splits)
          qed
          then show ?case by (rule delete_frame [OF wl d(3) ref])
        next
          case (2 as objects)
          show ?case
          proof (rule frame_then, rule frame.keeps_option, rule frame.keeps_ret, goal_cases)
            case (1 key)
            then obtain y where y: "find (\<lambda>e. obj_get e ''manifest_id'' = JStr expected) es = Some y"
              by (auto simp: stored_key_def split: option.splits)
            then have "starts_with ''manifests/'' key" using own find_SomeD 1 es by metis
            then have k: "key \<noteq> []" "hd key = CHR ''m''" by (cases key; simp)+
            then show ?case using objects_named [of key h] by (intro keep_other [OF wl]) auto
          qed (rule frame.keeps_ret)
        qed
      qed
    qed
    moreover have "rest u = (w', r)"
      using r u [unfolded Inr] by (simp add: remove_locked_def rest_def then_known(1) [of "latest_entries env c st"])
    ultimately show ?thesis using keepsD vu by (fastforce simp: touches_def)
  qed
qed

text \<open>C3: expiry of a manifest deletes no object that another listed manifest needs, whatever fails:
  for every digest that a remaining entry references, the objects at its blob key and its bundle
  key stay as they are, as long as the entries of the inventory name documents of manifests.\<close>

theorem expiry_keeps_shared_objects:
  assumes "reading_laws c (sv_volume st) view" and "writing_laws c (sv_volume st) view"
    and "s3_remove_manifest env c st s ns token now manifest_id supply w = (w', r)"
    and "digest_id manifest_id = Inr expected"
    and "e \<in> set (listed env st (view w))" and "\<not> py_eq (obj_get e ''manifest_id'') (JStr expected)"
    and "referenced_digests env e = Inr ds" and "h \<in> set ds"
    and "\<And>x k. x \<in> set (listed env st (view w)) \<Longrightarrow> stored_key env (Some x) = Some k \<Longrightarrow> starts_with ''manifests/'' k"
  shows "(\<forall>k. blob_key h = Inr k \<longrightarrow> view w' (place st k) = view w (place st k)) \<and>
    (\<forall>k. bundle_key h = Inr k \<longrightarrow> view w' (place st k) = view w (place st k))"
proof -
  have h: "normalize_digest h = Inr h"
    using assms(7,8) normalize_digest_Inr(3)
    by (auto simp: referenced_digests_def tx_bind dest!: collect_in split: if_splits)
  have "touches view (- place st ` objects_of h) w w'"
  proof (cases "checked_supply env s expected supply")
    case (Inl x)
    then show ?thesis using assms(3,4) by (auto simp: s3_remove_manifest_def raising_then touches_def)
  next
    case (Inr supplied)
    then have "remove_locked env c st s ns token now expected supplied w = (w', r)"
      using assms(3,4) by (simp add: s3_remove_manifest_def raising_then)
    moreover have "verify env s m = Inr m" if m: "supplied = Some m" for m
    proof -
      obtain d where d: "verify env s d = Inr m"
        using Inr m by (auto simp: checked_supply_def split: option.splits sum.splits if_splits)
      then have "m = d" by (rule verify_Inr) simp
      then show ?thesis using d by simp
    qed
    ultimately show ?thesis by (intro remove_locked_frame [OF assms(1,2) _ assms(9,5,6,7,8) h])
  qed
  then show ?thesis by (auto simp: touches_def objects_of_def)
qed

section \<open>Parts of an upload\<close>

lemma ceil_div_le: "0 < b \<Longrightarrow> a \<le> m * b \<Longrightarrow> ceil_div a b \<le> m"
proof -
  assume b: "0 < b" and a: "a \<le> m * b"
  have "(- m) * b div b \<le> (- a) div b" by (rule zdiv_mono1) (use a b in simp_all)
  moreover have "(- m) * b div b = - m" by (rule nonzero_mult_div_cancel_right) (use b in simp)
  ultimately show ?thesis by (simp add: ceil_div_def)
qed

lemma ceil_div_cover: "0 < b \<Longrightarrow> a \<le> ceil_div a b * b \<and> (ceil_div a b - 1) * b < a"
proof -
  assume b: "0 < b"
  have "(- a) div b * b + (- a) mod b = - a" by (rule div_mult_mod_eq)
  moreover have "ceil_div a b * b = - ((- a) div b * b)" "(ceil_div a b - 1) * b = - ((- a) div b * b) - b"
    by (simp_all add: ceil_div_def left_diff_distrib)
  ultimately show ?thesis using pos_mod_bound [OF b, of "- a"] pos_mod_sign [OF b, of "- a"] by linarith
qed

lemma part_size_pos: "multipart_min_part \<le> part_size n" "0 < part_size n" "ceil_div n multipart_max_parts \<le> part_size n"
  by (simp_all add: part_size_def multipart_min_part_def)

lemma part_bytes_take: "part_bytes source k = take (nat (part_size (int (length source)))) (drop (nat ((k - 1) * part_size (int (length source)))) source)"
  if "1 \<le> k"
proof -
  let ?n = "int (length source)" and ?s = "part_size (int (length source))"
  have o: "0 \<le> (k - 1) * ?s" using part_size_pos(2) [of ?n] that by simp
  show ?thesis
  proof (cases "?s \<le> ?n - (k - 1) * ?s")
    case True
    then show ?thesis by (simp add: part_bytes_def Let_def)
  next
    case False
    have "nat (?n - (k - 1) * ?s) = length (drop (nat ((k - 1) * ?s)) source)" using o by auto
    moreover have "length (drop (nat ((k - 1) * ?s)) source) \<le> nat ?s" using False o by auto
    ultimately show ?thesis using False by (simp add: part_bytes_def Let_def min_def)
  qed
qed

lemma parts_take:
  "concat (map (part_bytes source) [1..int m]) = take (m * nat (part_size (int (length source)))) source"
proof (induction m)
  case 0
  then show ?case by simp
next
  case (Suc m)
  let ?s = "part_size (int (length source))"
  have "[1..int (Suc m)] = [1..int m] @ [int (Suc m)]" by (simp add: upto_rec2)
  moreover have "part_bytes source (int (Suc m)) = take (nat ?s) (drop (m * nat ?s) source)"
    using part_bytes_take [of "int (Suc m)" source] part_size_pos(2) [of "int (length source)"]
    by (simp add: nat_mult_distrib)
  moreover have "Suc m * nat ?s = m * nat ?s + nat ?s" by simp
  ultimately show ?case using Suc by (simp only: take_add map_append concat_append list.map concat.simps append_Nil2)
qed

text \<open>C5: the parts of an upload are the file, whatever its size: in the order of their numbers they
  concatenate to it, there are at most 10,000 of them, and every part but the last has the full size,
  which is at least 5 MiB.\<close>

theorem multipart_parts_cover:
  assumes "n = int (length source)"
  shows "concat (map (part_bytes source) (part_numbers n)) = source \<and> part_count n \<le> 10000 \<and>
    (\<forall>k. 1 \<le> k \<longrightarrow> k < part_count n \<longrightarrow> int (length (part_bytes source k)) = part_size n) \<and>
    5 * 1024 * 1024 \<le> part_size n"
proof (intro conjI allI impI)
  note size = part_size_pos [of n]
  have cover: "n \<le> part_count n * part_size n" "(part_count n - 1) * part_size n < n"
    using ceil_div_cover [OF size(2), of n] by (simp_all add: part_count_def)
  have "0 \<le> part_count n"
  proof (rule ccontr)
    assume "\<not> 0 \<le> part_count n"
    then have "part_count n * part_size n < 0" using size(2) by (simp add: mult_less_0_iff)
    then show False using cover(1) assms by simp
  qed
  then have "concat (map (part_bytes source) (part_numbers n)) = take (nat (part_count n) * nat (part_size n)) source"
    using parts_take [of source "nat (part_count n)"] by (simp add: part_numbers_def assms)
  moreover have "length source \<le> nat (part_count n) * nat (part_size n)"
  proof -
    have "nat n \<le> nat (part_count n * part_size n)" using cover(1) by simp
    then show ?thesis using assms \<open>0 \<le> part_count n\<close> by (simp add: nat_mult_distrib)
  qed
  ultimately show "concat (map (part_bytes source) (part_numbers n)) = source" by simp
  have "n \<le> ceil_div n multipart_max_parts * multipart_max_parts"
    using ceil_div_cover [of multipart_max_parts n] by (simp add: multipart_max_parts_def)
  also have "\<dots> \<le> part_size n * multipart_max_parts"
    using size(3) by (simp add: multipart_max_parts_def)
  finally show "part_count n \<le> 10000"
    using ceil_div_le [OF size(2), of n 10000] by (simp add: part_count_def multipart_max_parts_def mult.commute)
  show "5 * 1024 * 1024 \<le> part_size n" using size(1) by (simp add: multipart_min_part_def)
  fix k assume k: "1 \<le> k" "k < part_count n"
  have "k * part_size n \<le> (part_count n - 1) * part_size n" using k size(2) by simp
  then have "k * part_size n < n" using cover(2) by simp
  moreover have "k * part_size n = (k - 1) * part_size n + part_size n" by (simp add: algebra_simps)
  moreover have "0 \<le> (k - 1) * part_size n" using k(1) size(2) by simp
  ultimately show "int (length (part_bytes source k)) = part_size n"
    using part_bytes_take [OF k(1), of source] assms size(2) by (simp add: min_def)
qed

lemma multipart_parts_cover_witness:
  "concat (map (part_bytes ''abc'') (part_numbers 3)) = ''abc'' \<and> part_count 3 \<le> 10000"
  using multipart_parts_cover [of 3 "''abc''"] by simp

section \<open>A bucket in memory\<close>

type_synonym bucket = "string \<Rightarrow> string option"

definition no_such_key :: pyerr where
  "no_such_key = ClientError \<lparr>cf_class = ''NoSuchKey'', cf_operation = ''GetObject'', cf_status = Some 404,
     cf_code = ''NoSuchKey'', cf_message = [], cf_text = []\<rparr>"

definition found_or :: "('a \<Rightarrow> 'b) \<Rightarrow> 'a option \<Rightarrow> pyerr + 'b" where
  "found_or f v = (case v of None \<Rightarrow> Inl no_such_key | Some x \<Rightarrow> Inr (f x))"

definition memory :: "bucket s3_client" where
  "memory =
     \<lparr>cl_head_bucket = \<lambda>b. ret (), cl_put = \<lambda>b k body. modify (\<lambda>w. w(k := Some body)),
      cl_head = \<lambda>b k w. (w, found_or (\<lambda>body. JObj [(''ContentLength'', JInt (int (length body)))]) (w k)),
      cl_get = \<lambda>b k w. (w, found_or id (w k)), cl_delete = \<lambda>b k. modify (\<lambda>w. w(k := None)),
      cl_range = \<lambda>b k i j w. (w, found_or (\<lambda>body. \<lparr>rr_content_range = [], rr_chunks = [body], rr_error = None\<rparr>) (w k)),
      cl_upload_file = \<lambda>body b k. modify (\<lambda>w. w(k := Some body)),
      cl_create_multipart = \<lambda>b k. ret JNull, cl_upload_part = \<lambda>b k u p body. ret JNull,
      cl_complete_multipart = \<lambda>b k u ps. ret (), cl_list_uploads = \<lambda>b k m u. ret (JObj []),
      cl_list_parts = \<lambda>b k u m. ret (JObj []), cl_sleep = \<lambda>n. ret ()\<rparr>"

lemma memory_laws: "reading_laws memory b id" "writing_laws memory b id"
  by (auto simp: reading_laws_def writing_laws_def memory_def keeps_def touches_def ret_def modify_def found_or_def
        content_range_def py_strip_def split: option.splits if_splits)

definition shop :: s3_store where
  "shop = \<lparr>sv_volume = ''v1'', sv_endpoint = ''https://s3'', sv_prefix = ''cache''\<rparr>"

definition old_index :: json where
  "old_index =
     JObj [(''schema'', JStr index_schema), (''generation'', JStr ''1-0''),
           (''manifests'',
            JArr [JObj [(''manifest_id'', JStr (sha_prefix @ replicate 64 (CHR ''1''))),
                        (''storage_key'', JStr ''manifests/p/1-0.json''),
                        (''artifacts'', JArr [JObj [(''digest'', JStr (sha_prefix @ sample_blob))]])]])]"

definition shop_env :: pyenv where
  \<comment> \<open>the manifest made at \<open>9999\<close> has an identity of its own\<close>
  "shop_env = digest_env\<lparr>
     sha256_hex := (\<lambda>s. if has_part ''9999'' s then replicate 64 (CHR ''1'') else sample_blob),
     json_loads := (\<lambda>b. if b = ''OLD'' then Some old_index else Some (index_document ''now'' ''6-a'' []))\<rparr>"

definition shop_manifest :: "string \<Rightarrow> char \<Rightarrow> json" where
  "shop_manifest created c =
     JObj [(''schema'', JStr manifest_schema), (''profile_fingerprint'', JStr (sha_prefix @ sample_blob)),
           (''created_at'', JStr created), (''producer'', JObj []), (''artifacts'', JArr [sample_artifact]),
           (''manifest_id'', JStr (sha_prefix @ replicate 64 c)),
           (''signature'', signature_field sample_signer (replicate 64 (CHR ''0'')))]"

definition object_name :: string where
  "object_name = ''blobs/sha256/00/'' @ sample_blob"

definition object_place :: string where
  "object_place = ''cache/blobs/sha256/00/'' @ sample_blob"

definition shop_bucket :: bucket where
  \<comment> \<open>the manifest made at \<open>9999\<close> is published, the other is not\<close>
  "shop_bucket = [object_place \<mapsto> ''abc'', ''cache/indexes/latest'' \<mapsto> ''1-0'', ''cache/indexes/1-0.json'' \<mapsto> ''OLD'']"

lemma memory_put: "s3_key st key = Inr k \<Longrightarrow> s3_put memory st key body w = (w(k := Some body), Inr ())"
  by (simp add: s3_put_def raising_then memory_def modify_def)

lemma memory_get: "s3_key st key = Inr k \<Longrightarrow> s3_get memory st key w = (w, found_or id (w k))"
  by (simp add: s3_get_def raising_then memory_def)

lemma memory_delete: "s3_key st key = Inr k \<Longrightarrow> s3_delete memory st key w = (w(k := None), Inr ())"
  by (simp add: s3_delete_def raising_then memory_def modify_def)

lemma memory_exists:
  "s3_key st key = Inr k \<Longrightarrow> w k = Some body \<Longrightarrow> body \<noteq> [] \<Longrightarrow> n = int (length body) \<Longrightarrow>
   s3_exists memory st key (Some n) w = (w, Inr True)"
  by (simp add: s3_exists_def raising_then memory_def attempt_def and_then_def found_or_def head_length_def
        int_or_minus_one_def raising_def ret_def)

lemma memory_download:
  assumes "s3_key st key = Inr k" and "w k = Some body" and "normalize_digest d = Inr (sha256_file env body)"
  shows "download_verify env memory st key d (int (length body)) w = (w, Inr ())"
proof -
  have f: "first_range memory st key w =
    (w, Inr (\<lparr>rr_content_range = [], rr_chunks = [body], rr_error = None\<rparr>, None))"
    using assms(1,2)
    by (simp add: first_range_def raising_then) (simp add: memory_def and_then_def found_or_def py_strip_def ret_def)
  have ten: "gateway_attempts = Suc 9" by (simp add: gateway_attempts_def)
  have "gateway_retry memory (first_range memory st key) w =
    (w, Inr (\<lparr>rr_content_range = [], rr_chunks = [body], rr_error = None\<rparr>, None))"
    unfolding gateway_retry_def ten retry_from.simps by (simp add: and_then_def attempt_def f ret_def)
  then show ?thesis
    using assms(3) by (simp add: download_verify_def download_verified_def and_then_def raising_def ret_def)
qed

lemma memory_load:
  assumes "w (place st latest_key) = Some (to_utf8 g)" and "py_strip g = g"
    and "w (place st (index_key g)) = Some b" and "json_loads env b = Some j" and "is_obj j"
    and "obj_get j ''schema'' = JStr index_schema" and "obj_get j ''manifests'' = JArr es"
  shows "latest_entries env memory st w = (w, Inr es)"
proof -
  have "read_index env memory st w = (w, Inr j)"
    using assms
    by (simp add: read_index_def memory_get and_then_def found_or_def raising_def decoded_def loaded_def py_get_def ret_def)
  then show ?thesis
    using assms(5,7)
    by (simp add: latest_entries_def load_index_def and_then_def attempt_def ret_def raising_def py_get_def
          iterate_or_empty_def)
qed

lemma canonical_object:
  "json_finite (JObj kvs) \<Longrightarrow> \<exists>b. canonical_bytes env (JObj kvs) = Inr b \<and> b \<noteq> [] \<and> hd b = CHR 0x7B"
  by (simp add: canonical_bytes_def canonical_json_def to_utf8_def utf8_char_def code_def)

lemma memory_write:
  assumes "json_finite (index_document now g es)"
  shows "\<exists>b. hd b = CHR 0x7B \<and> write_index env memory st now g es problem w =
    (w(place st (index_key g) := Some b, place st latest_key := Some (to_utf8 g)), Inr ())"
proof -
  from canonical_object obtain b where b: "canonical_bytes env (index_document now g es) = Inr b" "b \<noteq> []" "hd b = CHR 0x7B"
    using assms unfolding index_document_def by blast
  have "s3_put memory st (index_key g) b w = (w(place st (index_key g) := Some b), Inr ())"
    by (simp add: memory_put)
  moreover have "s3_exists memory st (index_key g) (Some (int (length b))) (w(place st (index_key g) := Some b)) =
      (w(place st (index_key g) := Some b), Inr True)"
    by (rule memory_exists [OF s3_key_index(1)]) (simp_all add: b)
  ultimately show ?thesis
    by (intro exI [of _ b]) (simp add: write_index_def b raising_then, simp add: and_then_def memory_put)
qed

definition listed_other :: json where
  "listed_other =
     JObj [(''manifest_id'', JStr (sha_prefix @ replicate 64 (CHR ''1''))),
           (''storage_key'', JStr ''manifests/p/1-0.json''),
           (''artifacts'', JArr [JObj [(''digest'', JStr (sha_prefix @ sample_blob))]])]"

lemma shop_places [simp]:
  "place shop latest_key = ''cache/indexes/latest''" "place shop (index_key ''1-0'') = ''cache/indexes/1-0.json''"
  "place shop object_name = object_place"
  by (simp_all add: object_name_def place_def shop_def latest_key_def index_key_def object_place_def)

lemma shop_object: "s3_key shop object_name = Inr object_place"
proof -
  have "object_name \<noteq> []" "hd object_name \<noteq> CHR ''/''" by (simp_all add: object_name_def)
  then show ?thesis using s3_key_place [of object_name shop] by simp
qed

lemma shop_verifies:
  "verify shop_env sample_signer (shop_manifest ''1'' (CHR ''0'')) = Inr (shop_manifest ''1'' (CHR ''0''))"
  "verify shop_env sample_signer (shop_manifest ''9999'' (CHR ''1'')) = Inr (shop_manifest ''9999'' (CHR ''1''))"
proof -
  have "\<not> isl (verify shop_env sample_signer (shop_manifest ''1'' (CHR ''0'')))"
    "\<not> isl (verify shop_env sample_signer (shop_manifest ''9999'' (CHR ''1'')))"
    by code_simp+
  then obtain x y where "verify shop_env sample_signer (shop_manifest ''1'' (CHR ''0'')) = Inr x"
    "verify shop_env sample_signer (shop_manifest ''9999'' (CHR ''1'')) = Inr y"
    by (metis sum.disc(1) sum.exhaust)
  then show "verify shop_env sample_signer (shop_manifest ''1'' (CHR ''0'')) = Inr (shop_manifest ''1'' (CHR ''0''))"
    "verify shop_env sample_signer (shop_manifest ''9999'' (CHR ''1'')) = Inr (shop_manifest ''9999'' (CHR ''1''))"
    by (metis verify_Inr)+
qed

lemma shop_digests:
  "normalize_digest sample_blob = Inr sample_blob" "normalize_digest (sha_prefix @ sample_blob) = Inr sample_blob"
  "sha256_file shop_env b = sample_blob" "digest_id (replicate 64 (CHR ''1'')) = Inr (sha_prefix @ replicate 64 (CHR ''1''))"
proof -
  show "normalize_digest sample_blob = Inr sample_blob" "normalize_digest (sha_prefix @ sample_blob) = Inr sample_blob"
    "digest_id (replicate 64 (CHR ''1'')) = Inr (sha_prefix @ replicate 64 (CHR ''1''))" by code_simp+
  show "sha256_file shop_env b = sample_blob"
    by (simp add: shop_env_def digest_env_def sample_env_def sample_blob_def)
qed

lemma shop_fields:
  "py_item sample_artifact ''storage_key'' = Inr (JStr object_name)"
  "py_item sample_artifact ''digest'' = Inr (JStr (sha_prefix @ sample_blob))"
  "py_item sample_artifact ''size'' = Inr (JInt 3)"
  "py_item (shop_manifest t ch) ''artifacts'' = Inr (JArr [sample_artifact])"
  "py_item (shop_manifest t ch) ''manifest_id'' = Inr (JStr (sha_prefix @ replicate 64 ch))"
  "py_item (shop_manifest t ch) ''profile_fingerprint'' = Inr (JStr (sha_prefix @ sample_blob))"
  "py_item (shop_manifest t ch) ''created_at'' = Inr (JStr t)"
  by (simp_all add: sample_artifact_def shop_manifest_def object_name_def)

lemma shop_gets:
  "py_get sample_artifact ''storage_key'' = Inr (JStr object_name)" "sha_prefix \<noteq> []" "object_name \<noteq> []"
  "obj_get sample_artifact ''digest'' = JStr (sha_prefix @ sample_blob)"
  by (simp_all add: py_get_def sample_artifact_def object_name_def sha_prefix_def)

lemma shop_check:
  assumes "w object_place = Some ''abc''"
  shows "verify_objects shop_env memory shop sample_signer (shop_manifest ''1'' (CHR ''0'')) w = (w, Inr ())"
proof -
  have "download_verify shop_env memory shop object_name sample_blob 3 w = (w, Inr ())"
    using memory_download [of shop object_name object_place w "''abc''" sample_blob shop_env, OF shop_object assms] by (simp add: shop_digests)
  then have "verify_artifact shop_env memory shop sample_artifact w = (w, Inr ())"
    by (simp add: verify_artifact_def shop_fields raising_then shop_digests)
  then show ?thesis
    by (simp add: verify_objects_def shop_verifies shop_fields raising_then) (simp add: and_then_def ret_def)
qed

lemma shop_expiry:
  "\<exists>w. s3_remove_manifest shop_env memory shop sample_signer 6 ''a'' ''now'' (replicate 64 (CHR ''1''))
       (Some (shop_manifest ''9999'' (CHR ''1''))) shop_bucket = (w, Inr (1, 1)) \<and>
     w object_place = None \<and> w ''cache/indexes/latest'' = Some ''6-a'' \<and>
     (\<exists>b. w (place shop (index_key ''6-a'')) = Some b \<and> hd b = CHR 0x7B)"
proof -
  let ?m = "shop_manifest ''9999'' (CHR ''1'')" and ?id = "sha_prefix @ replicate 64 (CHR ''1'')"
  have g: "generation_name 6 ''a'' = ''6-a''" "to_utf8 ''6-a'' = ''6-a''" by code_simp+
  have load: "latest_entries shop_env memory shop shop_bucket = (shop_bucket, Inr [listed_other])"
  proof (rule memory_load)
    show "shop_bucket (place shop latest_key) = Some (to_utf8 ''1-0'')" by code_simp
    show "py_strip ''1-0'' = ''1-0''" by code_simp
    show "shop_bucket (place shop (index_key ''1-0'')) = Some ''OLD''"
      by (simp add: shop_bucket_def)
    show "json_loads shop_env ''OLD'' = Some old_index" by (simp add: shop_env_def)
  qed (simp_all add: old_index_def listed_other_def)
  have other: "collect (other_entry (JStr ?id)) [listed_other] = Inr []"
    by (simp add: other_entry_def listed_other_def py_get_def)
  have found: "find (\<lambda>e. obj_get e ''manifest_id'' = JStr ?id) [listed_other] = Some listed_other"
    by (simp add: listed_other_def)
  have key: "stored_key shop_env (Some listed_other) = Some ''manifests/p/1-0.json''"
    by (simp add: stored_key_def listed_other_def)
  have "json_finite (index_document ''now'' ''6-a'' [])" by (simp add: index_document_def)
  from memory_write [OF this, of shop_env shop "''RunPod S3 replica expiry inventory was incomplete''" shop_bucket]
  obtain b where b: "hd b = CHR 0x7B" "write_index shop_env memory shop ''now'' ''6-a'' []
      ''RunPod S3 replica expiry inventory was incomplete'' shop_bucket =
    (shop_bucket(place shop (index_key ''6-a'') := Some b, place shop latest_key := Some ''6-a''), Inr ())"
    by (auto simp: g)
  define w where "w = shop_bucket(place shop (index_key ''6-a'') := Some b, place shop latest_key := Some ''6-a'')"
  have del: "delete_unreferenced shop_env memory shop [] [sample_artifact] 0 w = (w(object_place := None), Inr 1)"
    by (simp add: shop_gets or_text_def shop_digests raising_then) (simp add: and_then_def memory_delete [OF shop_object] ret_def)
  have del': "s3_delete memory shop ''manifests/p/1-0.json'' v = (v(''cache/manifests/p/1-0.json'' := None), Inr ())" for v
    by (rule memory_delete) (simp add: s3_key_def shop_def)
  have arts: "obj_get ?m ''artifacts'' = JArr [sample_artifact]" by (simp add: shop_manifest_def)
  have "remove_locked shop_env memory shop sample_signer 6 ''a'' ''now'' ?id (Some ?m) shop_bucket =
      (w(object_place := None, ''cache/manifests/p/1-0.json'' := None), Inr (1, 1))"
    unfolding remove_locked_def Let_def then_known(1) [of "latest_entries shop_env memory shop", OF load] other raising_then
      sum.case found
    by (simp add: g)
      (simp add: b(2) [folded w_def] and_then_def raising_def expiring_document_def ret_def iterate_or_empty_def arts del del' key
        del: delete_unreferenced.simps)
  then have "s3_remove_manifest shop_env memory shop sample_signer 6 ''a'' ''now'' (replicate 64 (CHR ''1''))
       (Some ?m) shop_bucket = (w(object_place := None, ''cache/manifests/p/1-0.json'' := None), Inr (1, 1))"
    by (simp add: s3_remove_manifest_def shop_digests checked_supply_def shop_verifies shop_fields raising_then)
  moreover have "(w(object_place := None, ''cache/manifests/p/1-0.json'' := None)) object_place = None" by simp
  moreover have "(w(object_place := None, ''cache/manifests/p/1-0.json'' := None)) ''cache/indexes/latest'' = Some ''6-a''"
    by (simp add: w_def object_place_def)
  moreover have "(w(object_place := None, ''cache/manifests/p/1-0.json'' := None)) (place shop (index_key ''6-a'')) = Some b"
    by (simp add: w_def object_place_def place_def shop_def index_key_def latest_key_def)
  ultimately show ?thesis using b(1) by blast
qed

lemma sha_artifact_entry: "\<exists>j. artifact_entry sample_artifact = Inr j \<and> json_finite j"
  by (simp add: artifact_entry_def sample_artifact_def)

lemma shop_publishes:
  assumes "latest_entries shop_env memory shop (w(place shop (manifest_name sample_blob (generation_name n ''a'')) := Some b)) =
      (w(place shop (manifest_name sample_blob (generation_name n ''a'')) := Some b), Inr [])"
    and "canonical_bytes shop_env (shop_manifest ''1'' (CHR ''0'')) = Inr b" and "b \<noteq> []"
  shows "\<exists>w'. publish_locked shop_env memory shop n ''a'' ''now'' (shop_manifest ''1'' (CHR ''0'')) w =
     (w', Inr (manifest_name sample_blob (generation_name n ''a''))) \<and>
     w' (place shop latest_key) = Some (to_utf8 (generation_name n ''a'')) \<and> w' object_place = w object_place"
proof -
  let ?m = "shop_manifest ''1'' (CHR ''0'')" and ?g = "generation_name n ''a''"
  let ?M = "manifest_name sample_blob (generation_name n ''a'')"
  define v where "v = w(place shop ?M := Some b)"
  have ex: "s3_exists memory shop ?M (Some (int (length b))) v = (v, Inr True)"
    by (rule memory_exists [OF s3_key_manifest]) (simp_all add: v_def assms(3))
  obtain j where j: "artifact_entry sample_artifact = Inr j" "json_finite j" using sha_artifact_entry by blast
  define entry where "entry = JObj [(''manifest_id'', JStr (sha_prefix @ replicate 64 (CHR ''0''))), (''storage_key'', JStr ?M),
    (''profile_fingerprint'', JStr (sha_prefix @ sample_blob)), (''created_at'', JStr ''1''), (''generation'', JStr ?g),
    (''artifacts'', JArr [j])]"
  have e: "published_entry ?m ?M ?g = Inr entry"
    by (simp add: published_entry_def shop_fields j(1) entry_def)
  have s: "sorted_entries [entry] = Inr [entry]" by (simp add: sorted_entries_def entry_text_def entry_def)
  have "json_finite (index_document ''now'' ?g [entry])" by (simp add: index_document_def entry_def j(2))
  from memory_write [OF this, of shop_env shop "''RunPod S3 inventory publication was incomplete''" v] obtain x where
    x: "write_index shop_env memory shop ''now'' ?g [entry] ''RunPod S3 inventory publication was incomplete'' v =
      (v(place shop (index_key ?g) := Some x, place shop latest_key := Some (to_utf8 ?g)), Inr ())" by blast
  have "publish_locked shop_env memory shop n ''a'' ''now'' ?m w =
      (v(place shop (index_key ?g) := Some x, place shop latest_key := Some (to_utf8 ?g)), Inr ?M)"
    by (simp add: publish_locked_def shop_fields shop_digests raising_then Let_def assms(2))
      (simp add: and_then_def memory_put raising_def ret_def ex [unfolded v_def] assms(1) e s x [unfolded v_def] v_def
        shop_fields)
  moreover have "object_place \<noteq> place shop ?M" "object_place \<noteq> place shop (index_key ?g)" "object_place \<noteq> place shop latest_key"
    by (simp_all add: object_place_def place_def shop_def manifest_name_def index_key_def latest_key_def)
  ultimately show ?thesis by (auto simp: v_def)
qed

text \<open>C4: the check of the objects is not under the publication lock: when another manifest that
  shares an object expires between the check and the publication, its expiry deletes the object
  (no listed manifest references it yet) and the publication succeeds, so the inventory lists a
  manifest whose object is gone.\<close>

theorem expiry_before_publication_loses_object:
  "\<exists>w1 w2 w3 key. verify_objects shop_env memory shop sample_signer (shop_manifest ''1'' (CHR ''0'')) shop_bucket = (w1, Inr ()) \<and>
     s3_remove_manifest shop_env memory shop sample_signer 6 ''a'' ''now'' (replicate 64 (CHR ''1''))
       (Some (shop_manifest ''9999'' (CHR ''1''))) w1 = (w2, Inr (1, 1)) \<and>
     publish_locked shop_env memory shop 7 ''a'' ''now'' (shop_manifest ''1'' (CHR ''0'')) w2 = (w3, Inr key) \<and>
     w3 ''cache/indexes/latest'' = Some ''7-a'' \<and> w3 object_place = None \<and> w1 object_place = Some ''abc''"
proof -
  have o1: "shop_bucket object_place = Some ''abc''" by (simp add: shop_bucket_def object_place_def)
  note check = shop_check [of shop_bucket, OF o1]
  obtain w b where w: "s3_remove_manifest shop_env memory shop sample_signer 6 ''a'' ''now'' (replicate 64 (CHR ''1''))
       (Some (shop_manifest ''9999'' (CHR ''1''))) shop_bucket = (w, Inr (1, 1))" "w object_place = None"
     "w ''cache/indexes/latest'' = Some ''6-a''" "w (place shop (index_key ''6-a'')) = Some b" "hd b = CHR 0x7B"
    using shop_expiry by blast
  have g: "generation_name 7 ''a'' = ''7-a''" "to_utf8 ''7-a'' = ''7-a''" "to_utf8 ''6-a'' = ''6-a''" "py_strip ''6-a'' = ''6-a''"
    by code_simp+
  have "json_finite (shop_manifest ''1'' (CHR ''0''))" by (simp add: shop_manifest_def sample_artifact_def signature_field_def)
  then obtain x where x: "canonical_bytes shop_env (shop_manifest ''1'' (CHR ''0'')) = Inr x" "x \<noteq> []"
    using canonical_object unfolding shop_manifest_def by blast
  let ?v = "w(place shop (manifest_name sample_blob (generation_name 7 ''a'')) := Some x)"
  have "latest_entries shop_env memory shop ?v = (?v, Inr [])"
  proof (rule memory_load)
    show "?v (place shop latest_key) = Some (to_utf8 ''6-a'')" using w(3) by (simp add: g flip: shop_places(1))
    show "py_strip ''6-a'' = ''6-a''" by (rule g)
    show "?v (place shop (index_key ''6-a'')) = Some b" using w(4) by simp
    show "json_loads shop_env b = Some (index_document ''now'' ''6-a'' [])" using w(5) by (auto simp: shop_env_def)
  qed (simp_all add: index_document_def)
  from shop_publishes [OF this x] w(1,2) check o1 show ?thesis by (auto simp: g)
qed

section \<open>Witnesses\<close>

definition fresh_bucket :: bucket where
  \<comment> \<open>an object, no inventory\<close>
  "fresh_bucket = [object_place \<mapsto> ''abc'']"

lemma memory_load_first:
  assumes "w (place st latest_key) = None"
  shows "latest_entries env memory st w = (w, Inr [])"
proof -
  have "read_index env memory st w = (w, Inl no_such_key)"
    using assms by (simp add: read_index_def memory_get and_then_def found_or_def)
  moreover have "missing_object no_such_key" by (simp add: missing_object_def no_such_key_def)
  ultimately show ?thesis
    by (simp add: latest_entries_def load_index_def and_then_def attempt_def ret_def raising_def py_get_def
          iterate_or_empty_def empty_index_def)
qed

lemma fresh_publication:
  "\<exists>w key. publish_manifest shop_env memory shop sample_signer 7 ''a'' ''now'' (shop_manifest ''1'' (CHR ''0'')) fresh_bucket =
     (w, Inr key) \<and> w object_place = Some ''abc''"
proof -
  have o1: "fresh_bucket object_place = Some ''abc''" by (simp add: fresh_bucket_def)
  have "json_finite (shop_manifest ''1'' (CHR ''0''))" by (simp add: shop_manifest_def sample_artifact_def signature_field_def)
  then obtain x where x: "canonical_bytes shop_env (shop_manifest ''1'' (CHR ''0'')) = Inr x" "x \<noteq> []"
    using canonical_object unfolding shop_manifest_def by blast
  let ?v = "fresh_bucket(place shop (manifest_name sample_blob (generation_name 7 ''a'')) := Some x)"
  have "place shop latest_key \<noteq> place shop (manifest_name p g)" for p g
    by (simp only: place_eq manifest_name_other) simp
  moreover have "place shop latest_key \<noteq> object_place" by (simp add: object_place_def)
  ultimately have "?v (place shop latest_key) = None" by (simp add: fresh_bucket_def del: shop_places)
  then have "latest_entries shop_env memory shop ?v = (?v, Inr [])" by (rule memory_load_first)
  from shop_publishes [OF this x] obtain w where
    w: "publish_locked shop_env memory shop 7 ''a'' ''now'' (shop_manifest ''1'' (CHR ''0'')) fresh_bucket =
     (w, Inr (manifest_name sample_blob (generation_name 7 ''a'')))" "w object_place = fresh_bucket object_place" by blast
  have "publish_manifest shop_env memory shop sample_signer 7 ''a'' ''now'' (shop_manifest ''1'' (CHR ''0'')) fresh_bucket =
     (w, Inr (manifest_name sample_blob (generation_name 7 ''a'')))"
    using shop_check [of fresh_bucket, OF o1] w(1) by (simp add: publish_manifest_def and_then_def)
  then show ?thesis using w(2) o1 by auto
qed

lemma publication_atomic_witness:
  "\<exists>w p. published shop_env shop ''7-a'' ''now'' (shop_manifest ''1'' (CHR ''0'')) (manifest_name p ''7-a'')
     fresh_bucket w"
proof -
  obtain w key where w: "publish_manifest shop_env memory shop sample_signer 7 ''a'' ''now''
     (shop_manifest ''1'' (CHR ''0'')) fresh_bucket = (w, Inr key)" using fresh_publication by blast
  have g: "generation_name 7 ''a'' = ''7-a''" "list_all is_lower_hex ''a''" by code_simp+
  have "fresh_bucket (place shop latest_key) = None" by (simp add: fresh_bucket_def object_place_def)
  then have "generation_at shop (id fresh_bucket) \<noteq> Some ''7-a''" by (simp add: generation_at_def)
  from publication_atomic [OF memory_laws w g] this show ?thesis by auto
qed

lemma published_objects_stored_witness:
  "\<exists>w. artifact_stored shop_env shop w sample_artifact"
proof -
  obtain w key where w: "publish_manifest shop_env memory shop sample_signer 7 ''a'' ''now''
     (shop_manifest ''1'' (CHR ''0'')) fresh_bucket = (w, Inr key)" using fresh_publication by blast
  have "list_all is_lower_hex ''a''" by code_simp
  from published_objects_stored [OF memory_laws w this] obtain as where
    "obj_get (shop_manifest ''1'' (CHR ''0'')) ''artifacts'' = JArr as"
    "\<forall>a \<in> set as. artifact_stored shop_env shop (id w) a" by blast
  then show ?thesis by (auto simp: shop_manifest_def)
qed

lemma expiry_keeps_shared_objects_witness:
  "\<exists>w r. s3_remove_manifest shop_env memory shop sample_signer 6 ''a'' ''now'' (replicate 64 (CHR ''0''))
     (Some (shop_manifest ''1'' (CHR ''0''))) shop_bucket = (w, r) \<and> w object_place = Some ''abc''"
proof -
  obtain w r where w: "s3_remove_manifest shop_env memory shop sample_signer 6 ''a'' ''now'' (replicate 64 (CHR ''0''))
     (Some (shop_manifest ''1'' (CHR ''0''))) shop_bucket = (w, r)" by fastforce
  have i: "digest_id (replicate 64 (CHR ''0'')) = Inr (sha_prefix @ replicate 64 (CHR ''0''))" by code_simp
  have "inventory shop_env shop shop_bucket = Some old_index"
  proof -
    have "generation_at shop shop_bucket = Some ''1-0''" by code_simp
    moreover have "shop_bucket (place shop (index_key ''1-0'')) = Some ''OLD''" by (simp add: shop_bucket_def)
    moreover have "is_obj old_index" "obj_get old_index ''schema'' = JStr index_schema" by (simp_all add: old_index_def)
    ultimately show ?thesis by (simp add: inventory_def index_at_def shop_env_def)
  qed
  then have l: "listed shop_env shop (id shop_bucket) = [listed_other]"
    by (simp add: listed_def index_entries_def old_index_def listed_other_def iterate_or_empty_def)
  have e: "\<not> py_eq (obj_get listed_other ''manifest_id'') (JStr (sha_prefix @ replicate 64 (CHR ''0'')))"
    by (simp add: listed_other_def)
  have d: "referenced_digests shop_env listed_other = Inr [sample_blob]"
    by (simp add: referenced_digests_def py_get_def listed_other_def iterate_or_empty_def or_text_def shop_digests shop_gets)
  have own: "starts_with ''manifests/'' k" if "stored_key shop_env (Some x) = Some k" "x \<in> set (listed shop_env shop (id shop_bucket))" for x k
    using that unfolding l by (auto simp: stored_key_def listed_other_def)
  have "blob_key sample_blob = Inr object_name"
    by (simp add: blob_key_def object_key_def shop_digests object_name_def) (simp add: sample_blob_def numeral_eq_Suc)
  moreover have "listed_other \<in> set (listed shop_env shop (id shop_bucket))" unfolding l by simp
  ultimately have "w object_place = shop_bucket object_place"
    using expiry_keeps_shared_objects [OF memory_laws w i _ e d _ own, of sample_blob] by auto
  then show ?thesis using w by (simp add: shop_bucket_def object_place_def)
qed

end
