(* ===== verification/CacheStore.thy ===== *)
theory CacheStore
  imports PreparedState
begin

text \<open>
  The tables of \<open>cloud_offload/cache_registry.py\<close>, the local projection of the prepared-state
  manifests, and what SQLite does to a value that is bound to a column. Rows are kept in
  insertion order. Instants are texts (\<open>_now()\<close>), compared as texts like the code does.
\<close>

section \<open>Rows\<close>

record cache_volume =
  cv_id :: string
  cv_provider :: string
  cv_provider_volume_id :: string
  cv_datacenter_id :: string
  cv_ownership :: string
  cv_status :: string
  cv_capacity_bytes :: int
  cv_generation :: "string option"
  cv_verified_at :: "string option"
  cv_policy :: json
  cv_s3 :: bool

record manifest_row =
  mf_volume :: string
  mf_id :: string
  mf_profile :: string
  mf_created_at :: string
  mf_json :: json

record artifact_row =
  ca_volume :: string
  ca_digest :: string
  ca_kind :: string
  ca_size :: int
  ca_key :: json
  ca_manifest :: string
  ca_verified_at :: "string option"
  ca_last_used_at :: "string option"
  ca_restore_count :: int
  ca_restore_ms :: json
  ca_saved_ms :: json
  ca_eligibility :: string
  ca_policy :: json

record invalidation_row =
  iv_volume :: string
  iv_digest :: string
  iv_reason :: string
  iv_created_at :: string

record replication_row =
  rp_id :: string
  rp_source :: string
  rp_target :: string
  rp_digests :: "string list"
  rp_status :: string
  rp_bytes :: int
  rp_created_at :: string
  rp_completed_at :: "string option"

record demand_row =
  dm_id :: string
  dm_job :: string
  dm_profile :: string
  dm_provider :: string
  dm_datacenter :: string
  dm_volume :: "string option"
  dm_required :: int
  dm_cached :: int
  dm_missing :: int
  dm_preparation :: rat
  dm_rate :: rat
  dm_created_at :: string

record shadow_row =
  sh_id :: string
  sh_created_at :: string
  sh_report :: json

record observation_row =
  ob_id :: string
  ob_values :: "(string \<times> json) list"
  ob_created_at :: string

record action_row =
  ac_id :: string
  ac_recommendation :: string
  ac_source :: string
  ac_target :: string
  ac_source_manifest :: string
  ac_target_manifest :: "string option"
  ac_status :: string
  ac_bytes :: int
  ac_monthly_cost :: rat
  ac_copy_cost :: rat
  ac_reasons :: json
  ac_expires_at :: string
  ac_created_at :: string
  ac_completed_at :: "string option"
  ac_error :: "string option"

record target_row =
  tg_id :: string
  tg_provider :: string
  tg_datacenter :: string
  tg_status :: string
  tg_provider_volume :: "string option"
  tg_cache_volume :: "string option"
  tg_size_gb :: int
  tg_monthly_cost :: rat
  tg_created_at :: string
  tg_ready_at :: "string option"
  tg_error :: "string option"

record registry =
  rg_volumes :: "cache_volume list"
  rg_manifests :: "manifest_row list"
  rg_artifacts :: "artifact_row list"
  rg_observations :: "observation_row list"
  rg_invalidations :: "invalidation_row list"
  rg_replications :: "replication_row list"
  rg_demand :: "demand_row list"
  rg_shadows :: "shadow_row list"
  rg_actions :: "action_row list"
  rg_targets :: "target_row list"

definition empty_registry :: registry where
  "empty_registry =
     \<lparr>rg_volumes = [], rg_manifests = [], rg_artifacts = [], rg_observations = [],
      rg_invalidations = [], rg_replications = [], rg_demand = [], rg_shadows = [],
      rg_actions = [], rg_targets = []\<rparr>"

section \<open>Bound values\<close>

definition sql_fits :: "int \<Rightarrow> bool" where
  "sql_fits i \<longleftrightarrow> - (2 ^ 63) \<le> i \<and> i < 2 ^ 63"

definition sql_overflow :: pyerr where
  "sql_overflow = OverflowError ''Python int too large to convert to SQLite INTEGER''"

definition sql_int :: "int \<Rightarrow> pyerr + int" where
  "sql_int i = (if sql_fits i then Inr i else Inl sql_overflow)"

fun bind_text :: "pyenv \<Rightarrow> json \<Rightarrow> pyerr + string" where
  \<comment> \<open>a value bound to a column TEXT NOT NULL\<close>
  "bind_text env (JStr s) = Inr s"
| "bind_text env JNull = Inl (IntegrityError ''NOT NULL constraint failed'')"
| "bind_text env (JBool b) = Inr (if b then ''1'' else ''0'')"
| "bind_text env (JInt i) = (if sql_fits i then Inr (int_text i) else Inl sql_overflow)"
| "bind_text env (JFloat q) = Inr (sql_float env q)"
| "bind_text env JNaN = Inl (IntegrityError ''NOT NULL constraint failed'')"
| "bind_text env (JInf b) = Inr (if b then ''Inf'' else ''-Inf'')"
| "bind_text env (JArr xs) = Inl (DatabaseError ''type 'list' is not supported'')"
| "bind_text env (JObj kvs) = Inl (DatabaseError ''type 'dict' is not supported'')"

text \<open>INSERT ... ON CONFLICT DO UPDATE: the row that matches is rewritten where it stands.\<close>

definition upsert :: "('r \<Rightarrow> bool) \<Rightarrow> ('r \<Rightarrow> 'r) \<Rightarrow> 'r \<Rightarrow> 'r list \<Rightarrow> 'r list" where
  "upsert P f r rs = (if \<exists>x \<in> set rs. P x then update_where P f rs else rs @ [r])"

lemma set_upsert:
  "x \<in> set (upsert P f r rs) \<Longrightarrow> (\<exists>y \<in> set rs. x = (if P y then f y else y)) \<or> x = r"
  by (auto simp: upsert_def set_update_where split: if_splits)

lemma distinct_upsert:
  assumes "distinct (map key rs)" and "\<And>y. P y \<longleftrightarrow> key y = key r" and "\<And>y. key (f y) = key y"
  shows "distinct (map key (upsert P f r rs))"
proof (cases "\<exists>x \<in> set rs. P x")
  case True
  then show ?thesis using assms(1,3) by (simp add: upsert_def map_update_where_key)
next
  case False
  then have "key r \<notin> key ` set rs" using assms(2) by auto
  with False show ?thesis using assms(1) by (simp add: upsert_def)
qed

lemma upsert_has:
  assumes "\<And>y. P y \<longleftrightarrow> key y = key r" and "\<And>y. key (f y) = key y"
  shows "key ` set (upsert P f r rs) = insert (key r) (key ` set rs)"
proof (cases "\<exists>x \<in> set rs. P x")
  case True
  then have "key r \<in> key ` set rs" using assms(1) by (metis image_eqI)
  moreover have "key ` set (update_where P f rs) = key ` set rs"
    using map_update_where_key [of key f P rs, OF assms(2)] by (metis set_map)
  ultimately show ?thesis using True by (auto simp: upsert_def)
next
  case False
  then show ?thesis by (simp add: upsert_def)
qed

section \<open>Lookups\<close>

definition find_volume :: "registry \<Rightarrow> string \<Rightarrow> cache_volume option" where
  \<comment> \<open>\<open>get_volume\<close>\<close>
  "find_volume d i = find (\<lambda>v. cv_id v = i) (rg_volumes d)"

definition volume_exists :: "registry \<Rightarrow> string \<Rightarrow> bool" where
  "volume_exists d i \<longleftrightarrow> find_volume d i \<noteq> None"

definition get_provider_volume :: "registry \<Rightarrow> string \<Rightarrow> string \<Rightarrow> cache_volume option" where
  "get_provider_volume d provider pv =
     find (\<lambda>v. cv_provider v = provider \<and> cv_provider_volume_id v = pv) (rg_volumes d)"

definition list_volumes :: "registry \<Rightarrow> string option \<Rightarrow> cache_volume list" where
  "list_volumes d st =
     sort_key (\<lambda>v. (cv_provider v, cv_datacenter_id v, cv_id v))
       (if given st then filter (\<lambda>v. Some (cv_status v) = st) (rg_volumes d) else rg_volumes d)"

definition invalidated :: "registry \<Rightarrow> string \<Rightarrow> string \<Rightarrow> bool" where
  "invalidated d vol digest \<longleftrightarrow>
     (\<exists>r \<in> set (rg_invalidations d). iv_volume r = vol \<and> iv_digest r = digest)"

definition any_invalidation :: "registry \<Rightarrow> string \<Rightarrow> bool" where
  "any_invalidation d vol \<longleftrightarrow> (\<exists>r \<in> set (rg_invalidations d). iv_volume r = vol)"

end
