(* ===== verification/CacheRegistry.thy ===== *)
theory CacheRegistry
  imports CacheStore
begin

text \<open>
  The operations of \<open>CacheRegistry\<close> on volumes, manifests, artifacts and invalidations: each is
  one transaction. A volume holds what its manifests announce; a digest that failed on a volume
  is invalidated there until it is verified again.
\<close>

section \<open>Volumes\<close>

definition volume_statuses :: "string list" where
  "volume_statuses = [''creating'', ''ready'', ''degraded'', ''deleting'', ''failed'']"

definition update_volume :: "string \<Rightarrow> (cache_volume \<Rightarrow> cache_volume) \<Rightarrow> registry \<Rightarrow> registry" where
  "update_volume i f d = d\<lparr>rg_volumes := update_where (\<lambda>v. cv_id v = i) f (rg_volumes d)\<rparr>"

definition upsert_volume ::
  "string \<Rightarrow> registry \<Rightarrow> string \<Rightarrow> string \<Rightarrow> string \<Rightarrow> string \<Rightarrow> int \<Rightarrow> json \<Rightarrow> string \<Rightarrow> bool \<Rightarrow>
   string option \<Rightarrow> (registry, cache_volume) tx"
where
  "upsert_volume uuid d provider pv datacenter ownership capacity policy st s3 wanted =
     (if ownership \<notin> {''managed'', ''adopted''}
      then Inl (ValueError ''Cache volume ownership must be managed or adopted'')
      else if st \<notin> set volume_statuses
      then Inl (ValueError (''Unknown cache volume status: '' @ st))
      else
        (let i = (case get_provider_volume d provider pv of
                    Some v \<Rightarrow> cv_id v
                  | None \<Rightarrow> if given wanted then or_default [] wanted else uuid)
         in case sql_int capacity of
              Inl e \<Rightarrow> Inl e
            | Inr c \<Rightarrow>
                (let new = \<lparr>cv_id = i, cv_provider = provider, cv_provider_volume_id = pv,
                            cv_datacenter_id = datacenter, cv_ownership = ownership, cv_status = st,
                            cv_capacity_bytes = c, cv_generation = None, cv_verified_at = None,
                            cv_policy = json_sort policy, cv_s3 = s3\<rparr>;
                     keep = (\<lambda>v. new\<lparr>cv_generation := cv_generation v, cv_verified_at := cv_verified_at v\<rparr>);
                     d' = d\<lparr>rg_volumes := upsert (\<lambda>v. cv_id v = i) keep new (rg_volumes d)\<rparr>
                 in case find_volume d' i of
                      Some v \<Rightarrow> Inr (d', v)
                    | None \<Rightarrow> Inr (d', new))))"

definition mark_volume :: "registry \<Rightarrow> string \<Rightarrow> string \<Rightarrow> (registry, unit) tx" where
  "mark_volume d i st =
     (if st \<notin> set volume_statuses then Inl (ValueError (''Unknown cache volume status: '' @ st))
      else if \<not> volume_exists d i then Inl (KeyError i)
      else Inr (update_volume i (cv_status_update (\<lambda>_. st)) d, ()))"

definition volume_referenced :: "registry \<Rightarrow> string \<Rightarrow> bool" where
  \<comment> \<open>by a row whose foreign key does not cascade\<close>
  "volume_referenced d i \<longleftrightarrow>
     (\<exists>r \<in> set (rg_replications d). rp_source r = i \<or> rp_target r = i) \<or>
     (\<exists>r \<in> set (rg_actions d). ac_source r = i \<or> ac_target r = i)"

definition delete_metadata :: "registry \<Rightarrow> string \<Rightarrow> (registry, bool) tx" where
  \<comment> \<open>foreign keys are on: manifests, artifacts and invalidations go with their volume\<close>
  "delete_metadata d i =
     (if \<not> volume_exists d i then Inr (d, False)
      else if volume_referenced d i then Inl (IntegrityError ''FOREIGN KEY constraint failed'')
      else Inr (d\<lparr>rg_volumes := filter (\<lambda>v. cv_id v \<noteq> i) (rg_volumes d),
                  rg_manifests := filter (\<lambda>r. mf_volume r \<noteq> i) (rg_manifests d),
                  rg_artifacts := filter (\<lambda>r. ca_volume r \<noteq> i) (rg_artifacts d),
                  rg_invalidations := filter (\<lambda>r. iv_volume r \<noteq> i) (rg_invalidations d)\<rparr>, True))"

section \<open>Reconciling an index\<close>

definition compatibility_value :: "json \<Rightarrow> json" where
  "compatibility_value artifact =
     JObj [(''portability'', json_sort (obj_get artifact ''portability'')),
           (''requirements'', json_sort (or_obj (obj_get artifact ''requirements'')))]"

definition eligibility_of :: "registry \<Rightarrow> string \<Rightarrow> string \<Rightarrow> string" where
  "eligibility_of d vol digest = (if invalidated d vol digest then ''invalidated'' else ''eligible'')"

definition manifest_at :: "string \<Rightarrow> string \<Rightarrow> manifest_row \<Rightarrow> bool" where
  "manifest_at vol mid r \<longleftrightarrow> mf_volume r = vol \<and> mf_id r = mid"

definition artifact_at :: "string \<Rightarrow> string \<Rightarrow> artifact_row \<Rightarrow> bool" where
  "artifact_at vol digest r \<longleftrightarrow> ca_volume r = vol \<and> ca_digest r = digest"

definition put_manifest :: "pyenv \<Rightarrow> string \<Rightarrow> string \<Rightarrow> json \<Rightarrow> json \<Rightarrow> registry \<Rightarrow> pyerr + registry" where
  "put_manifest env vol mid manifest document d =
     (case py_item manifest ''profile_fingerprint'' of Inl e \<Rightarrow> Inl e | Inr pv \<Rightarrow>
     (case py_item manifest ''created_at'' of Inl e \<Rightarrow> Inl e | Inr cv \<Rightarrow>
     (case bind_text env pv of Inl e \<Rightarrow> Inl e | Inr profile \<Rightarrow>
     (case bind_text env cv of Inl e \<Rightarrow> Inl e | Inr created \<Rightarrow>
      (let new = \<lparr>mf_volume = vol, mf_id = mid, mf_profile = profile, mf_created_at = created,
                  mf_json = json_sort document\<rparr>
       in Inr (d\<lparr>rg_manifests := upsert (manifest_at vol mid) (\<lambda>_. new) new (rg_manifests d)\<rparr>))))))"

definition artifact_size_value :: "json \<Rightarrow> pyerr + int" where
  "artifact_size_value artifact =
     (case py_int (or_zero (obj_get artifact ''size'')) of Inl e \<Rightarrow> Inl e | Inr n \<Rightarrow> sql_int n)"

definition artifact_kind :: "pyenv \<Rightarrow> json \<Rightarrow> string" where
  "artifact_kind env artifact = or_text env (obj_get artifact ''kind'') ''unknown''"

definition put_artifact :: "pyenv \<Rightarrow> string \<Rightarrow> string \<Rightarrow> string \<Rightarrow> string \<Rightarrow> json \<Rightarrow> registry \<Rightarrow> pyerr + registry" where
  "put_artifact env now vol mid digest artifact d =
     (case artifact_size_value artifact of Inl e \<Rightarrow> Inl e | Inr n \<Rightarrow>
      (let new = \<lparr>ca_volume = vol, ca_digest = digest, ca_kind = artifact_kind env artifact, ca_size = n,
                  ca_key = compatibility_value artifact, ca_manifest = mid, ca_verified_at = Some now,
                  ca_last_used_at = None, ca_restore_count = 0, ca_restore_ms = JFloat 0,
                  ca_saved_ms = JFloat 0, ca_eligibility = eligibility_of d vol digest,
                  ca_policy = json_sort (or_obj (obj_get artifact ''policy''))\<rparr>;
           keep = (\<lambda>r. new\<lparr>ca_last_used_at := ca_last_used_at r, ca_restore_count := ca_restore_count r,
                           ca_restore_ms := ca_restore_ms r, ca_saved_ms := ca_saved_ms r\<rparr>)
       in Inr (d\<lparr>rg_artifacts := upsert (artifact_at vol digest) keep new (rg_artifacts d)\<rparr>)))"

text \<open>The state of the loop: the database, the digests seen, the number of rows written.\<close>

type_synonym reconcile_state = "registry \<times> string list \<times> nat"

definition reconcile_artifact ::
  "pyenv \<Rightarrow> string \<Rightarrow> string \<Rightarrow> string \<Rightarrow> json \<Rightarrow> reconcile_state \<Rightarrow> pyerr + reconcile_state"
where
  "reconcile_artifact env now vol mid artifact s =
     (case s of (d, seen, n) \<Rightarrow>
        (case py_item artifact ''digest'' of Inl e \<Rightarrow> Inl e | Inr dv \<Rightarrow>
          (let digest = py_str env dv in
           (case put_artifact env now vol mid digest artifact d of
              Inl e \<Rightarrow> Inl e | Inr d' \<Rightarrow> Inr (d', digest # seen, n + 1)))))"

definition document_for :: "(json \<times> json) list \<Rightarrow> string \<Rightarrow> json \<Rightarrow> json" where
  \<comment> \<open>\<open>(manifest_documents or {}).get(manifest_id, manifest)\<close>\<close>
  "document_for docs mid manifest = or_default manifest (map_of docs (JStr mid))"

definition reconcile_manifest ::
  "pyenv \<Rightarrow> string \<Rightarrow> string \<Rightarrow> (json \<times> json) list \<Rightarrow> json \<Rightarrow> reconcile_state \<Rightarrow> pyerr + reconcile_state"
where
  "reconcile_manifest env now vol docs manifest s =
     (case s of (d, seen, n) \<Rightarrow>
        (case py_item manifest ''manifest_id'' of Inl e \<Rightarrow> Inl e | Inr mv \<Rightarrow>
          (let mid = py_str env mv in
        (case put_manifest env vol mid manifest (document_for docs mid manifest) d of
           Inl e \<Rightarrow> Inl e | Inr d1 \<Rightarrow>
        (case iterate_or_empty (obj_get manifest ''artifacts'') of
           Inl e \<Rightarrow> Inl e
         | Inr as \<Rightarrow> fold_tx (reconcile_artifact env now vol mid) as (d1, seen, n))))))"

definition drifted :: "registry \<Rightarrow> string \<Rightarrow> string list \<Rightarrow> string set" where
  "drifted d vol seen = ca_digest ` set (filter (\<lambda>r. ca_volume r = vol) (rg_artifacts d)) - set seen"

definition close_reconcile :: "string \<Rightarrow> string \<Rightarrow> string \<Rightarrow> reconcile_state \<Rightarrow> registry \<times> nat \<times> nat" where
  \<comment> \<open>what drifted out of the index becomes unknown and the volume degraded\<close>
  "close_reconcile now vol generation s =
     (case s of (d, seen, n) \<Rightarrow>
        (let gone = drifted d vol seen;
             d1 = d\<lparr>rg_artifacts := update_where (\<lambda>r. ca_volume r = vol \<and> ca_digest r \<in> gone)
                      (ca_eligibility_update (\<lambda>_. ''unknown'')) (rg_artifacts d)\<rparr>;
             st = (if gone \<noteq> {} \<or> any_invalidation d vol then ''degraded'' else ''ready'')
         in (update_volume vol (\<lambda>v. v\<lparr>cv_generation := Some generation, cv_verified_at := Some now,
                                      cv_status := st\<rparr>) d1, n, card gone)))"

definition reconcile_index ::
  "pyenv \<Rightarrow> string \<Rightarrow> registry \<Rightarrow> string \<Rightarrow> json \<Rightarrow> (json \<times> json) list \<Rightarrow> (registry, nat \<times> nat) tx"
where
  \<comment> \<open>the artifacts written and the digests that drifted\<close>
  "reconcile_index env now d vol index docs =
     (let generation = or_text env (obj_get index ''generation'') [] in
      if obj_get index ''schema'' \<noteq> JStr ''cloud-offload.prepared-state.index.v1''
      then Inl (ValueError ''Unsupported compact inventory schema'')
      else if generation = [] then Inl (ValueError ''Inventory generation is missing'')
      else if \<not> volume_exists d vol then Inl (KeyError vol)
      else
        (case iterate_or_empty (obj_get index ''manifests'') of Inl e \<Rightarrow> Inl e | Inr ms \<Rightarrow>
        (case fold_tx (reconcile_manifest env now vol docs) ms (d, [], 0) of
           Inl e \<Rightarrow> Inl e
         | Inr s \<Rightarrow> (case close_reconcile now vol generation s of (d', n, m) \<Rightarrow> Inr (d', (n, m))))))"

section \<open>Announcing a manifest\<close>

definition dict_key :: "json \<Rightarrow> pyerr + json" where
  "dict_key v = (if hashable v then Inr (norm_number v) else Inl (TypeError ''unhashable type''))"

fun dict_put :: "json \<Rightarrow> json \<Rightarrow> (json \<times> json) list \<Rightarrow> (json \<times> json) list" where
  "dict_put k v [] = [(k, v)]"
| "dict_put k v ((k', v') # kvs) = (if k = k' then (k', v) # kvs else (k', v') # dict_put k v kvs)"

definition put_document :: "json \<Rightarrow> (json \<times> json) list \<Rightarrow> pyerr + (json \<times> json) list" where
  \<comment> \<open>\<open>documents[document["manifest_id"]] = document\<close>\<close>
  "put_document document docs =
     (case py_item document ''manifest_id'' of Inl e \<Rightarrow> Inl e | Inr mv \<Rightarrow>
     (case dict_key mv of Inl e \<Rightarrow> Inl e | Inr k \<Rightarrow> Inr (dict_put k document docs)))"

definition stored_documents :: "registry \<Rightarrow> string \<Rightarrow> json list" where
  \<comment> \<open>no ORDER BY: the index of the primary key serves the rows by manifest id\<close>
  "stored_documents d vol =
     map mf_json (sort_key mf_id (filter (\<lambda>r. mf_volume r = vol) (rg_manifests d)))"

definition index_entry :: "json \<Rightarrow> pyerr + json" where
  "index_entry document =
     (case py_item document ''manifest_id'' of Inl e \<Rightarrow> Inl e | Inr mv \<Rightarrow>
     (case py_item document ''profile_fingerprint'' of Inl e \<Rightarrow> Inl e | Inr pv \<Rightarrow>
     (case py_item document ''created_at'' of Inl e \<Rightarrow> Inl e | Inr cv \<Rightarrow>
      Inr (JObj [(''manifest_id'', mv), (''profile_fingerprint'', pv), (''created_at'', cv),
                 (''artifacts'', or_arr (obj_get document ''artifacts''))]))))"

definition announce_manifest ::
  "pyenv \<Rightarrow> string \<Rightarrow> registry \<Rightarrow> string \<Rightarrow> string \<Rightarrow> json \<Rightarrow> (registry, nat \<times> nat) tx"
where
  "announce_manifest env now d vol generation manifest =
     (case fold_tx put_document (stored_documents d vol @ [manifest]) [] of Inl e \<Rightarrow> Inl e | Inr docs \<Rightarrow>
     (case each index_entry (map snd docs) of
        Inl e \<Rightarrow> Inl e
      | Inr entries \<Rightarrow>
          reconcile_index env now d vol
            (JObj [(''schema'', JStr ''cloud-offload.prepared-state.index.v1''),
                   (''generation'', JStr generation), (''manifests'', JArr entries)]) docs))"

end
