(* ===== verification/CacheHealth.thy ===== *)
theory CacheHealth
  imports CacheRegistry
begin

text \<open>
  The rest of the artifact operations of \<open>CacheRegistry\<close>: removing a manifest, invalidating and
  verifying a digest, the observations that workers report, and the health of a volume that
  follows from them.
\<close>

section \<open>Health\<close>

definition unhealthy :: "registry \<Rightarrow> string \<Rightarrow> bool" where
  "unhealthy d vol \<longleftrightarrow>
     any_invalidation d vol \<or>
     (\<exists>r \<in> set (rg_artifacts d). ca_volume r = vol \<and> ca_eligibility r \<noteq> ''eligible'')"

definition refresh_volume_health :: "string \<Rightarrow> string \<Rightarrow> registry \<Rightarrow> registry" where
  "refresh_volume_health now vol d =
     update_volume vol
       (\<lambda>v. v\<lparr>cv_status := (if unhealthy d vol then ''degraded'' else ''ready''),
              cv_verified_at := Some now\<rparr>) d"

definition drop_invalidation :: "string \<Rightarrow> string \<Rightarrow> registry \<Rightarrow> registry" where
  "drop_invalidation vol digest d =
     d\<lparr>rg_invalidations := filter (\<lambda>r. \<not> (iv_volume r = vol \<and> iv_digest r = digest)) (rg_invalidations d)\<rparr>"

definition update_artifact :: "string \<Rightarrow> string \<Rightarrow> (artifact_row \<Rightarrow> artifact_row) \<Rightarrow> registry \<Rightarrow> registry" where
  "update_artifact vol digest f d =
     d\<lparr>rg_artifacts := update_where (artifact_at vol digest) f (rg_artifacts d)\<rparr>"

definition put_invalidation :: "string \<Rightarrow> string \<Rightarrow> string \<Rightarrow> string \<Rightarrow> registry \<Rightarrow> (registry, unit) tx" where
  \<comment> \<open>the row, the artifact and the volume, as \<open>invalidate\<close> and a corruption report write them\<close>
  "put_invalidation now vol digest reason d =
     (if \<not> volume_exists d vol then Inl (IntegrityError ''FOREIGN KEY constraint failed'')
      else
        (let new = \<lparr>iv_volume = vol, iv_digest = digest, iv_reason = reason, iv_created_at = now\<rparr>;
             d1 = d\<lparr>rg_invalidations :=
                      upsert (\<lambda>r. iv_volume r = vol \<and> iv_digest r = digest) (\<lambda>_. new) new (rg_invalidations d)\<rparr>
         in Inr (update_volume vol (cv_status_update (\<lambda>_. ''degraded''))
                   (update_artifact vol digest (ca_eligibility_update (\<lambda>_. ''invalidated'')) d1), ())))"

definition invalidate :: "string \<Rightarrow> registry \<Rightarrow> string \<Rightarrow> string \<Rightarrow> string \<Rightarrow> (registry, unit) tx" where
  "invalidate now d vol digest reason = put_invalidation now vol digest reason d"

definition clear_invalidation :: "string \<Rightarrow> string \<Rightarrow> string \<Rightarrow> registry \<Rightarrow> registry" where
  "clear_invalidation now vol digest d =
     refresh_volume_health now vol
       (update_artifact vol digest
          (\<lambda>r. r\<lparr>ca_eligibility := ''eligible'', ca_verified_at := Some now\<rparr>)
          (drop_invalidation vol digest d))"

definition mark_verified :: "string \<Rightarrow> registry \<Rightarrow> string \<Rightarrow> string \<Rightarrow> registry" where
  "mark_verified now d vol digest = clear_invalidation now vol digest d"

section \<open>Removing a manifest\<close>

definition artifact_list :: "json \<Rightarrow> pyerr + json list" where
  "artifact_list document = iterate_or_empty (obj_get document ''artifacts'')"

definition digest_text :: "pyenv \<Rightarrow> json \<Rightarrow> pyerr + string" where
  \<comment> \<open>\<open>str(artifact.get("digest") or "")\<close>\<close>
  "digest_text env artifact = get_text env artifact ''digest''"

type_synonym latest = "(string \<times> (string \<times> json)) list"

definition note_artifact :: "pyenv \<Rightarrow> string \<Rightarrow> json \<Rightarrow> latest \<Rightarrow> pyerr + latest" where
  \<comment> \<open>\<open>setdefault\<close>: the first manifest that has the digest wins\<close>
  "note_artifact env mid artifact m =
     (case digest_text env artifact of
        Inl e \<Rightarrow> Inl e
      | Inr digest \<Rightarrow> Inr (if map_of m digest = None then m @ [(digest, (mid, artifact))] else m))"

definition note_manifest :: "pyenv \<Rightarrow> manifest_row \<Rightarrow> latest \<Rightarrow> pyerr + latest" where
  "note_manifest env row m =
     (case artifact_list (mf_json row) of
        Inl e \<Rightarrow> Inl e | Inr as \<Rightarrow> fold_tx (note_artifact env (mf_id row)) as m)"

definition newest_first :: "manifest_row list \<Rightarrow> manifest_row list" where
  \<comment> \<open>ORDER BY created_at DESC, manifest_id DESC\<close>
  "newest_first rs = rev (sort_key (\<lambda>r. (mf_created_at r, mf_id r)) rs)"

definition latest_by_digest :: "pyenv \<Rightarrow> registry \<Rightarrow> string \<Rightarrow> pyerr + latest" where
  "latest_by_digest env d vol =
     fold_tx (note_manifest env) (newest_first (filter (\<lambda>r. mf_volume r = vol) (rg_manifests d))) []"

definition removed_digest :: "pyenv \<Rightarrow> json \<Rightarrow> pyerr + string list" where
  "removed_digest env artifact =
     (case py_get artifact ''digest'' of
        Inl e \<Rightarrow> Inl e | Inr v \<Rightarrow> Inr (if truthy v then [py_str env v] else []))"

definition forget_digest :: "string \<Rightarrow> string \<Rightarrow> registry \<Rightarrow> registry" where
  "forget_digest vol digest d =
     drop_invalidation vol digest
       (d\<lparr>rg_artifacts := filter (\<lambda>r. \<not> artifact_at vol digest r) (rg_artifacts d)\<rparr>)"

definition restored_row :: "pyenv \<Rightarrow> string \<Rightarrow> int \<Rightarrow> string \<Rightarrow> json \<Rightarrow> artifact_row \<Rightarrow> artifact_row" where
  \<comment> \<open>the counters and instants of the row stay\<close>
  "restored_row env mid n st artifact r =
     r\<lparr>ca_kind := artifact_kind env artifact, ca_size := n, ca_key := compatibility_value artifact,
       ca_manifest := mid, ca_policy := json_sort (or_obj (obj_get artifact ''policy'')),
       ca_eligibility := st\<rparr>"

definition rebuild_digest ::
  "pyenv \<Rightarrow> string \<Rightarrow> latest \<Rightarrow> string \<Rightarrow> registry \<times> nat \<times> nat \<Rightarrow> pyerr + registry \<times> nat \<times> nat"
where
  "rebuild_digest env vol latest digest s =
     (case s of (d, restored, removed) \<Rightarrow>
        (case map_of latest digest of
           None \<Rightarrow> Inr (forget_digest vol digest d, restored, removed + 1)
         | Some (mid, artifact) \<Rightarrow>
             (case artifact_size_value artifact of
                Inl e \<Rightarrow> Inl e
              | Inr n \<Rightarrow>
                  Inr (update_artifact vol digest
                         (restored_row env mid n (eligibility_of d vol digest) artifact) d,
                       restored + 1, removed))))"

definition set_generation :: "string \<Rightarrow> string option \<Rightarrow> registry \<Rightarrow> registry" where
  "set_generation vol g d =
     (if g = None then d else update_volume vol (cv_generation_update (\<lambda>_. g)) d)"

definition remove_manifest ::
  "pyenv \<Rightarrow> string \<Rightarrow> registry \<Rightarrow> string \<Rightarrow> string \<Rightarrow> string option \<Rightarrow> (registry, nat \<times> nat \<times> nat) tx"
where
  \<comment> \<open>manifests removed, artifacts restored, artifacts removed; the digests are a set, so the order
      in which they are rebuilt is not specified: they are taken as the manifest lists them\<close>
  "remove_manifest env now d vol mid generation =
     (case find (manifest_at vol mid) (rg_manifests d) of
        None \<Rightarrow> Inr (set_generation vol generation d, (0, 0, 0))
      | Some row \<Rightarrow>
          (let d1 = d\<lparr>rg_manifests := filter (\<lambda>r. \<not> manifest_at vol mid r) (rg_manifests d)\<rparr> in
     (case latest_by_digest env d1 vol of Inl e \<Rightarrow> Inl e | Inr latest \<Rightarrow>
     (case artifact_list (mf_json row) of Inl e \<Rightarrow> Inl e | Inr as \<Rightarrow>
     (case collect (removed_digest env) as of Inl e \<Rightarrow> Inl e | Inr digests \<Rightarrow>
     (case fold_tx (rebuild_digest env vol latest) (remdups digests) (d1, 0, 0) of
        Inl e \<Rightarrow> Inl e
      | Inr (d2, restored, removed) \<Rightarrow>
          Inr (refresh_volume_health now vol (set_generation vol generation d2),
               (1, restored, removed))))))))"

section \<open>Observations\<close>

definition sql_real_add :: "json \<Rightarrow> json \<Rightarrow> pyerr + json" where
  \<comment> \<open>a NaN is stored as NULL, which the columns refuse\<close>
  "sql_real_add a b =
     (let s = float_add a b in
      if s = JNaN then Inl (IntegrityError ''NOT NULL constraint failed'') else Inr s)"

definition observation_fields :: "string list" where
  "observation_fields =
     [''volume_id'', ''manifest_id'', ''digest'', ''datacenter_id'', ''worker_class'', ''image_digest'',
      ''strategy'', ''result'', ''bytes'', ''file_count'', ''lookup_ms'', ''transfer_ms'',
      ''verification_ms'', ''extraction_ms'', ''import_ms'', ''total_ms'', ''fallback_ms'']"

definition numeric_fields :: "string list" where
  "numeric_fields =
     [''bytes'', ''file_count'', ''lookup_ms'', ''transfer_ms'', ''verification_ms'', ''extraction_ms'',
      ''import_ms'', ''total_ms'']"

definition required_fields :: "string list" where
  \<comment> \<open>the other columns that are NOT NULL\<close>
  "required_fields = [''datacenter_id'', ''worker_class'', ''strategy'', ''result''] @ numeric_fields"

definition observation_value :: "json \<Rightarrow> string \<Rightarrow> json" where
  "observation_value observation k =
     (let v = obj_get observation k in if k \<in> set numeric_fields \<and> v = JNull then JInt 0 else v)"

definition bind_value :: "json \<Rightarrow> pyerr + json" where
  "bind_value v =
     (case v of
        JArr xs \<Rightarrow> Inl (DatabaseError ''type 'list' is not supported'')
      | JObj kvs \<Rightarrow> Inl (DatabaseError ''type 'dict' is not supported'')
      | JInt i \<Rightarrow> if sql_fits i then Inr v else Inl sql_overflow
      | JNaN \<Rightarrow> Inr JNull
      | _ \<Rightarrow> Inr v)"

definition bind_field :: "json \<Rightarrow> string \<Rightarrow> pyerr + string \<times> json" where
  "bind_field observation k =
     (case bind_value (observation_value observation k) of
        Inl e \<Rightarrow> Inl e
      | Inr v \<Rightarrow>
          if v = JNull \<and> k \<in> set required_fields
          then Inl (IntegrityError ''NOT NULL constraint failed'') else Inr (k, v))"

definition insert_observation ::
  "string \<Rightarrow> string \<Rightarrow> json \<Rightarrow> registry \<Rightarrow> pyerr + registry"
where
  \<comment> \<open>the values as they are bound; the affinity of the columns is not applied\<close>
  "insert_observation now i observation d =
     (case each (bind_field observation) observation_fields of
        Inl e \<Rightarrow> Inl e
      | Inr vs \<Rightarrow>
          if \<exists>r \<in> set (rg_observations d). ob_id r = i
          then Inl (IntegrityError ''UNIQUE constraint failed: restore_observations.id'')
          else Inr (d\<lparr>rg_observations := rg_observations d @
                        [\<lparr>ob_id = i, ob_values = vs, ob_created_at = now\<rparr>]\<rparr>))"

definition used_row :: "string \<Rightarrow> json \<Rightarrow> json \<Rightarrow> artifact_row \<Rightarrow> pyerr + artifact_row" where
  "used_row now restore saved r =
     (case sql_real_add (ca_restore_ms r) restore of Inl e \<Rightarrow> Inl e | Inr a \<Rightarrow>
     (case sql_real_add (ca_saved_ms r) saved of Inl e \<Rightarrow> Inl e | Inr b \<Rightarrow>
      Inr (r\<lparr>ca_last_used_at := Some now, ca_restore_count := ca_restore_count r + 1,
             ca_restore_ms := a, ca_saved_ms := b\<rparr>)))"

definition use_row :: "string \<Rightarrow> string \<Rightarrow> string \<Rightarrow> json \<Rightarrow> json \<Rightarrow> artifact_row \<Rightarrow> pyerr + artifact_row" where
  "use_row now vol digest restore saved r =
     (if artifact_at vol digest r then used_row now restore saved r else Inr r)"

definition observed_effect ::
  "string \<Rightarrow> string \<Rightarrow> string \<Rightarrow> json \<Rightarrow> registry \<Rightarrow> pyerr + registry"
where
  \<comment> \<open>what the reported result does to the digest\<close>
  "observed_effect now vol digest observation d =
     (if obj_get observation ''result'' = JStr ''corruption'' then
        (case put_invalidation now vol digest ''worker_reported_corruption'' d of
           Inl e \<Rightarrow> Inl e | Inr (d', u) \<Rightarrow> Inr d')
      else if obj_get observation ''result'' = JStr ''hit'' \<and>
              obj_get observation ''verification_mode'' = JStr ''full_digest''
      then Inr (clear_invalidation now vol digest d)
      else Inr d)"

definition record_observation :: "pyenv \<Rightarrow> string \<Rightarrow> string \<Rightarrow> registry \<Rightarrow> json \<Rightarrow> (registry, string) tx" where
  \<comment> \<open>a volume or digest that is no text would be compared with the columns as it is: texts are
      what \<open>server.py\<close> passes\<close>
  "record_observation env now uuid d observation =
     (if obj_get observation ''schema'' \<noteq> JStr ''cloud-offload.restore-observation.v1''
      then Inl (ValueError ''Unsupported restore observation schema'')
      else
        (let i = or_text env (obj_get observation ''id'') uuid in
     (case insert_observation now i observation d of Inl e \<Rightarrow> Inl e | Inr d1 \<Rightarrow>
        (if \<not> truthy (obj_get observation ''volume_id'') \<or> \<not> truthy (obj_get observation ''digest'')
         then Inr (d1, i)
         else
     (case bind_text env (obj_get observation ''volume_id'') of Inl e \<Rightarrow> Inl e | Inr vol \<Rightarrow>
     (case bind_text env (obj_get observation ''digest'') of Inl e \<Rightarrow> Inl e | Inr digest \<Rightarrow>
     (case py_float env (or_zero (obj_get observation ''total_ms'')) of Inl e \<Rightarrow> Inl e | Inr spent \<Rightarrow>
     (case py_float env (or_zero (obj_get observation ''fallback_ms'')) of Inl e \<Rightarrow> Inl e | Inr fallback \<Rightarrow>
     (case each (use_row now vol digest spent (float_max0 (float_add fallback (float_neg spent)))) (rg_artifacts d1) of
        Inl e \<Rightarrow> Inl e
      | Inr rows \<Rightarrow>
          (case observed_effect now vol digest observation (d1\<lparr>rg_artifacts := rows\<rparr>) of
             Inl e \<Rightarrow> Inl e | Inr d2 \<Rightarrow> Inr (d2, i)))))))))))"

end
