(* ===== verification/CacheCoverage.thy ===== *)
theory CacheCoverage
  imports CacheHealth
begin

text \<open>
  The questions the scheduler asks the registry: the manifests of a profile and the bytes that
  each ready volume can serve of what a job needs.
\<close>

section \<open>Manifests\<close>

definition get_manifest :: "registry \<Rightarrow> string \<Rightarrow> string \<Rightarrow> json option" where
  "get_manifest d vol mid = map_option mf_json (find (manifest_at vol mid) (rg_manifests d))"

definition query_row :: "registry \<Rightarrow> manifest_row \<Rightarrow> (manifest_row \<times> cache_volume) option" where
  \<comment> \<open>the join with the volume\<close>
  "query_row d r = map_option (\<lambda>v. (r, v)) (find_volume d (mf_volume r))"

definition query_manifests ::
  "registry \<Rightarrow> string option \<Rightarrow> string option \<Rightarrow> (json \<times> string \<times> string) list"
where
  \<comment> \<open>the document with the volume and datacenter that replace its fields of these names; equal
      instants keep the order of the rows\<close>
  "query_manifests d profile datacenter =
     map (\<lambda>(r, v). (mf_json r, cv_id v, cv_datacenter_id v))
       (filter (\<lambda>(r, v). (given profile \<longrightarrow> Some (mf_profile r) = profile) \<and>
                         (given datacenter \<longrightarrow> Some (cv_datacenter_id v) = datacenter))
          (List.map_filter (query_row d) (rev (sort_key mf_created_at (rev (rg_manifests d))))))"

section \<open>Coverage\<close>

text \<open>
  A row of the computation is an artifact as the selected manifest lists it (\<open>cr_full\<close>, with its
  kind, source and destination) or as the table of artifacts holds it.
\<close>

record coverage_row =
  cr_digest :: string
  cr_size :: json
  cr_key :: json
  cr_policy :: json
  cr_eligible :: bool
  cr_manifest :: string
  cr_full :: "json option"

definition listed_row :: "pyenv \<Rightarrow> registry \<Rightarrow> string \<Rightarrow> string \<Rightarrow> json \<Rightarrow> pyerr + coverage_row" where
  \<comment> \<open>the digest of an artifact of a signed manifest is a text\<close>
  "listed_row env d vol mid artifact =
     (case py_item artifact ''digest'' of
        Inl e \<Rightarrow> Inl e
      | Inr dv \<Rightarrow>
          Inr \<lparr>cr_digest = py_str env dv, cr_size = or_zero (obj_get artifact ''size''),
               cr_key = JObj [(''portability'', obj_get artifact ''portability''),
                              (''requirements'', or_obj (obj_get artifact ''requirements''))],
               cr_policy = or_obj (obj_get artifact ''policy''),
               cr_eligible = (\<not> invalidated d vol (py_str env dv)), cr_manifest = mid,
               cr_full = Some (JObj [(''kind'', obj_get artifact ''kind''),
                                     (''source'', or_obj (obj_get artifact ''source'')),
                                     (''destination'', or_obj (obj_get artifact ''destination''))])\<rparr>)"

definition stored_row :: "artifact_row \<Rightarrow> coverage_row" where
  "stored_row r =
     \<lparr>cr_digest = ca_digest r, cr_size = JInt (ca_size r), cr_key = ca_key r, cr_policy = ca_policy r,
      cr_eligible = (ca_eligibility r = ''eligible''), cr_manifest = ca_manifest r, cr_full = None\<rparr>"

definition stored_rows :: "registry \<Rightarrow> string \<Rightarrow> artifact_row list" where
  "stored_rows d vol = filter (\<lambda>r. ca_volume r = vol) (rg_artifacts d)"

definition select_manifest :: "registry \<Rightarrow> string \<Rightarrow> string option \<Rightarrow> manifest_row option" where
  "select_manifest d vol profile =
     (if given profile
      then (case newest_first (filter (\<lambda>r. mf_volume r = vol \<and> Some (mf_profile r) = profile) (rg_manifests d)) of
              [] \<Rightarrow> None | r # rs \<Rightarrow> Some r)
      else None)"

definition coverage_rows ::
  "pyenv \<Rightarrow> registry \<Rightarrow> string \<Rightarrow> string option \<Rightarrow> (string \<times> int) list \<Rightarrow> pyerr + coverage_row list"
where
  "coverage_rows env d vol profile required =
     (case (case select_manifest d vol profile of
              Some r \<Rightarrow>
                (case artifact_list (mf_json r) of
                   Inl e \<Rightarrow> Inl e | Inr as \<Rightarrow> each (listed_row env d vol (mf_id r)) as)
            | None \<Rightarrow> Inr (if given profile then [] else map stored_row (stored_rows d vol))) of
        Inl e \<Rightarrow> Inl e
      | Inr rows \<Rightarrow>
          (let missing = set (map fst required) - set (map cr_digest rows) in
           Inr (rows @ (if given profile
                        then map stored_row (filter (\<lambda>r. ca_digest r \<in> missing) (stored_rows d vol))
                        else []))))"

record tally =
  tl_hits :: "string list"
  tl_required :: "string list"
  tl_logical :: "string list"
  tl_counted :: "string list"
  tl_bytes :: int
  tl_manifests :: "string list"

definition empty_tally :: tally where
  "empty_tally =
     \<lparr>tl_hits = [], tl_required = [], tl_logical = [], tl_counted = [], tl_bytes = 0, tl_manifests = []\<rparr>"

definition usable :: "pyenv \<Rightarrow> json \<Rightarrow> string \<Rightarrow> bool \<Rightarrow> coverage_row \<Rightarrow> bool" where
  "usable env runtime tenant allow_private r \<longleftrightarrow>
     (let artifact = JObj [(''portability'', obj_get (cr_key r) ''portability''),
                           (''requirements'', obj_get (cr_key r) ''requirements''),
                           (''policy'', cr_policy r)]
      in cr_eligible r \<and> dc_accepted (artifact_compatibility env artifact runtime) \<and>
         dc_accepted (artifact_policy env artifact tenant allow_private))"

definition logical_key :: "pyenv \<Rightarrow> coverage_row \<Rightarrow> pyerr + string option" where
  "logical_key env r = (case cr_full r of None \<Rightarrow> Inr None | Some j \<Rightarrow> artifact_requirement_key env j)"

definition add_bytes :: "(string \<times> int) list \<Rightarrow> coverage_row \<Rightarrow> tally \<Rightarrow> pyerr + tally" where
  "add_bytes required r t =
     (if cr_digest r \<in> set (tl_counted t) then Inr t
      else case (case map_of required (cr_digest r) of Some n \<Rightarrow> Inr n | None \<Rightarrow> py_int (cr_size r)) of
             Inl e \<Rightarrow> Inl e
           | Inr n \<Rightarrow> Inr (t\<lparr>tl_bytes := tl_bytes t + n, tl_counted := cr_digest r # tl_counted t\<rparr>))"

definition tally_row ::
  "pyenv \<Rightarrow> json \<Rightarrow> string \<Rightarrow> bool \<Rightarrow> (string \<times> int) list \<Rightarrow> coverage_row \<Rightarrow> tally \<Rightarrow> pyerr + tally"
where
  "tally_row env runtime tenant allow_private required r t =
     (if \<not> usable env runtime tenant allow_private r then Inr t
      else
        (case logical_key env r of Inl e \<Rightarrow> Inl e | Inr k \<Rightarrow>
          (let needed = cr_digest r \<in> fst ` set required;
               t1 = t\<lparr>tl_logical := (if given k then or_default [] k # tl_logical t else tl_logical t),
                      tl_required := (if needed then cr_digest r # tl_required t else tl_required t)\<rparr>
           in if \<not> needed \<and> \<not> given k then Inr t1
              else
                (case add_bytes required r (t1\<lparr>tl_hits := cr_digest r # tl_hits t1\<rparr>) of
                   Inl e \<Rightarrow> Inl e
                 | Inr t2 \<Rightarrow> Inr (t2\<lparr>tl_manifests := cr_manifest r # tl_manifests t2\<rparr>)))))"

record coverage =
  cg_volume :: cache_volume
  cg_digests :: "string list"
  cg_cached_bytes :: int
  cg_required_bytes :: int
  cg_complete :: bool
  cg_logical_hits :: "string list"
  cg_manifest_ids :: "string list"
  cg_coverage_manifest_ids :: "string list"

definition volume_candidate ::
  "pyenv \<Rightarrow> registry \<Rightarrow> (string \<times> int) list \<Rightarrow> json \<Rightarrow> string \<Rightarrow> string option \<Rightarrow> bool \<Rightarrow> string list \<Rightarrow>
   cache_volume \<Rightarrow> pyerr + coverage"
where
  "volume_candidate env d required runtime tenant profile allow_private logical v =
     (let selected = select_manifest d (cv_id v) profile in
      case coverage_rows env d (cv_id v) profile required of Inl e \<Rightarrow> Inl e | Inr rows \<Rightarrow>
     (case fold_tx (tally_row env runtime tenant allow_private required) rows empty_tally of
        Inl e \<Rightarrow> Inl e
      | Inr t \<Rightarrow>
          Inr \<lparr>cg_volume = v, cg_digests = sort (tl_hits t), cg_cached_bytes = tl_bytes t,
               cg_required_bytes = sum_list (map snd required),
               cg_complete = ((selected \<noteq> None \<or> \<not> given profile) \<and>
                  card (set (tl_required t)) = length required \<and> set logical \<subseteq> set (tl_logical t)),
               cg_logical_hits = sort (remdups (tl_logical t)),
               cg_manifest_ids = (case selected of Some r \<Rightarrow> [mf_id r] | None \<Rightarrow> []),
               cg_coverage_manifest_ids = sort (remdups (tl_manifests t))\<rparr>))"

definition volume_coverage ::
  "pyenv \<Rightarrow> registry \<Rightarrow> (string \<times> int) list \<Rightarrow> json \<Rightarrow> string \<Rightarrow> string option \<Rightarrow> bool \<Rightarrow> string list \<Rightarrow>
   pyerr + coverage list"
where
  "volume_coverage env d required runtime tenant profile allow_private logical =
     each (volume_candidate env d required runtime tenant profile allow_private logical)
       (list_volumes d (Some ''ready''))"

end
