(* ===== verification/CacheLedger.thy ===== *)
theory CacheLedger
  imports CacheCoverage
begin

text \<open>
  The records that \<open>CacheRegistry\<close> keeps of placements and copies: paid demand per job, shadow
  evaluations, planned replications, and the status report.
\<close>

section \<open>Regional demand\<close>

record demand_request =
  dr_job :: string
  dr_profile :: string
  dr_provider :: string
  dr_datacenter :: string
  dr_volume :: "string option"
  dr_required :: int
  dr_cached :: int
  dr_missing :: int
  dr_preparation :: json
  dr_rate :: json

fun finite_float :: "json \<Rightarrow> rat option" where
  \<comment> \<open>\<open>math.isfinite\<close> of a float\<close>
  "finite_float (JFloat q) = Some q"
| "finite_float v = None"

definition finite_nonneg :: "json \<Rightarrow> rat option" where
  "finite_nonneg v =
     (case finite_float v of Some q \<Rightarrow> if 0 \<le> q then Some q else None | None \<Rightarrow> None)"

definition demand_of :: "registry \<Rightarrow> string \<Rightarrow> demand_row option" where
  "demand_of d job = find (\<lambda>r. dm_job r = job) (rg_demand d)"

definition record_regional_demand ::
  "pyenv \<Rightarrow> string \<Rightarrow> string \<Rightarrow> registry \<Rightarrow> demand_request \<Rightarrow> (registry, demand_row \<times> bool) tx"
where
  \<comment> \<open>the stored row and whether this call created it\<close>
  "record_regional_demand env now uuid d q =
     (let job = py_strip (dr_job q); profile = py_strip (dr_profile q);
          provider = py_lower (py_strip (dr_provider q)); region = py_strip (dr_datacenter q)
      in if job = [] \<or> profile = [] \<or> provider = [] \<or> region = []
         then Inl (ValueError ''Regional demand requires job, profile, provider, and region identities'')
         else
     (case py_float env (dr_preparation q) of Inl e \<Rightarrow> Inl e | Inr pv \<Rightarrow>
     (case py_float env (dr_rate q) of Inl e \<Rightarrow> Inl e | Inr rv \<Rightarrow>
      (if min (min (dr_required q) (dr_cached q)) (dr_missing q) < 0
       then Inl (ValueError ''Regional demand byte counts cannot be negative'')
       else
     (case finite_nonneg pv of
        None \<Rightarrow> Inl (ValueError ''Regional demand preparation time must be finite'')
      | Some preparation \<Rightarrow>
     (case finite_nonneg rv of
        None \<Rightarrow> Inl (ValueError ''Regional demand hourly rate must be finite'')
      | Some rate \<Rightarrow>
     (case each sql_int [dr_required q, dr_cached q, dr_missing q] of
        Inl e \<Rightarrow> Inl e
      | Inr ns \<Rightarrow>
          (case demand_of d job of
             Some r \<Rightarrow> Inr (d, (r, False))
           | None \<Rightarrow>
               if \<exists>r \<in> set (rg_demand d). dm_id r = uuid
               then Inl (IntegrityError ''UNIQUE constraint failed: regional_cache_demand.id'')
               else
               (let r = \<lparr>dm_id = uuid, dm_job = job, dm_profile = profile, dm_provider = provider,
                         dm_datacenter = region,
                         dm_volume = (if given (dr_volume q) then map_option py_strip (dr_volume q) else None),
                         dm_required = dr_required q, dm_cached = dr_cached q, dm_missing = dr_missing q,
                         dm_preparation = preparation, dm_rate = rate, dm_created_at = now\<rparr>
                in Inr (d\<lparr>rg_demand := rg_demand d @ [r]\<rparr>, (r, True)))))))))))"

definition list_regional_demand :: "registry \<Rightarrow> string option \<Rightarrow> demand_row list" where
  \<comment> \<open>newest first; the rows are returned without their job\<close>
  "list_regional_demand d since =
     rev (sort_key (\<lambda>r. (dm_created_at r, dm_id r))
       (filter (\<lambda>r. given since \<longrightarrow> or_default [] since \<le> dm_created_at r) (rg_demand d)))"

section \<open>Shadow evaluations\<close>

definition shadow_schema :: string where
  "shadow_schema = ''cloud-offload.replication-shadow.v1''"

definition record_shadow_evaluation :: "pyenv \<Rightarrow> string \<Rightarrow> string \<Rightarrow> registry \<Rightarrow> json \<Rightarrow> (registry, string) tx" where
  "record_shadow_evaluation env now uuid d report =
     (if obj_get report ''schema'' \<noteq> JStr shadow_schema
      then Inl (ValueError ''Unsupported replication shadow report schema'')
      else
        (let i = or_text env (obj_get report ''evaluation_id'') uuid;
             created = or_text env (obj_get report ''created_at'') now;
             document = obj_set ''created_at'' (JStr created) (obj_set ''evaluation_id'' (JStr i) report)
         in if \<exists>r \<in> set (rg_shadows d). sh_id r = i
            then Inl (IntegrityError ''UNIQUE constraint failed: replication_shadow_evaluations.id'')
            else Inr (d\<lparr>rg_shadows := rg_shadows d @
                          [\<lparr>sh_id = i, sh_created_at = created, sh_report = json_sort document\<rparr>]\<rparr>, i)))"

definition list_shadow_evaluations :: "registry \<Rightarrow> int \<Rightarrow> json list" where
  "list_shadow_evaluations d limit_count =
     map sh_report (take (nat (max 1 (min 1000 limit_count)))
       (rev (sort_key (\<lambda>r. (sh_created_at r, sh_id r)) (rg_shadows d))))"

section \<open>Replications\<close>

definition sorted_set :: "string list \<Rightarrow> string list" where
  "sorted_set xs = sort (remdups xs)"

definition replication_bytes :: "string list \<Rightarrow> (string \<times> int) list \<Rightarrow> int" where
  "replication_bytes digests sizes = sum_list (map (\<lambda>k. or_default 0 (map_of sizes k)) digests)"

definition create_replication ::
  "string \<Rightarrow> string \<Rightarrow> registry \<Rightarrow> string \<Rightarrow> string \<Rightarrow> string list \<Rightarrow> (string \<times> int) list \<Rightarrow> (registry, replication_row) tx"
where
  "create_replication now uuid d source target digests sizes =
     (if \<not> volume_exists d source \<or> \<not> volume_exists d target
      then Inl (KeyError ''Replication source or target volume is unknown'')
      else if source = target then Inl (ValueError ''Replication source and target must differ'')
      else
        (case sql_int (replication_bytes digests sizes) of
           Inl e \<Rightarrow> Inl e
         | Inr n \<Rightarrow>
             if \<exists>r \<in> set (rg_replications d). rp_id r = uuid
             then Inl (IntegrityError ''UNIQUE constraint failed: cache_replications.id'')
             else
             (let r = \<lparr>rp_id = uuid, rp_source = source, rp_target = target, rp_digests = sorted_set digests,
                       rp_status = ''planned'', rp_bytes = n, rp_created_at = now, rp_completed_at = None\<rparr>
              in Inr (d\<lparr>rg_replications := rg_replications d @ [r]\<rparr>, r))))"

definition complete_replication :: "string \<Rightarrow> registry \<Rightarrow> string \<Rightarrow> string option \<Rightarrow> (registry, unit) tx" where
  "complete_replication now d i failed_reason =
     (let st = (if given failed_reason then take 500 (''failed:'' @ or_default [] failed_reason) else ''completed'')
      in if \<forall>r \<in> set (rg_replications d). rp_id r \<noteq> i then Inl (KeyError i)
         else Inr (d\<lparr>rg_replications :=
                       update_where (\<lambda>r. rp_id r = i)
                         (\<lambda>r. r\<lparr>rp_status := st, rp_completed_at := Some now\<rparr>) (rg_replications d)\<rparr>, ()))"

section \<open>Status\<close>

record registry_status =
  rs_volumes :: "cache_volume list"
  rs_health :: string
  rs_capacity_bytes :: int
  rs_demand_count :: nat
  rs_shadow :: "json option"

definition status_report :: "registry \<Rightarrow> registry_status" where
  \<comment> \<open>\<open>status\<close> without the policy it is given and the sums of \<open>recent_benefit\<close>; the latest shadow
      report as a whole\<close>
  "status_report d =
     (let vs = list_volumes d None in
      \<lparr>rs_volumes = vs,
       rs_health = (if \<exists>v \<in> set vs. cv_status v = ''degraded'' then ''degraded'' else ''ready''),
       rs_capacity_bytes = sum_list (map cv_capacity_bytes vs),
       rs_demand_count = length (list_regional_demand d None),
       rs_shadow = (case list_shadow_evaluations d 1 of [] \<Rightarrow> None | x # xs \<Rightarrow> Some x)\<rparr>)"

end
