(* ===== verification/Replicas.thy ===== *)
theory Replicas
  imports CacheLedger
begin

text \<open>
  Regional replicas: copies of prepared state that cost money every month. A copy is claimed
  once per recommendation, within a budget and a limit on copies in flight; a storage target is
  claimed once per region. The claims run in one transaction each.
\<close>

section \<open>Actions\<close>

definition action_live :: "action_row \<Rightarrow> bool" where
  \<comment> \<open>\<open>status IN ('copying','completed')\<close>\<close>
  "action_live r \<longleftrightarrow> ac_status r = ''copying'' \<or> ac_status r = ''completed''"

definition live_action :: "registry \<Rightarrow> string \<Rightarrow> action_row option" where
  \<comment> \<open>ORDER BY created_at DESC LIMIT 1\<close>
  "live_action d rec =
     (case rev (sort_key ac_created_at
             (rev (filter (\<lambda>r. ac_recommendation r = rec \<and> action_live r) (rg_actions d)))) of
        [] \<Rightarrow> None | r # rs \<Rightarrow> Some r)"

definition inflight :: "registry \<Rightarrow> int" where
  "inflight d = int (length (filter (\<lambda>r. ac_status r = ''copying'') (rg_actions d)))"

definition reserved_cost :: "registry \<Rightarrow> string \<Rightarrow> rat" where
  \<comment> \<open>the monthly cost of the live actions that have not expired at an instant\<close>
  "reserved_cost d now =
     sum_list (map ac_monthly_cost (filter (\<lambda>r. action_live r \<and> now < ac_expires_at r) (rg_actions d)))"

definition replica_costs :: "pyenv \<Rightarrow> json \<Rightarrow> json \<Rightarrow> pyerr + rat \<times> rat \<times> rat" where
  \<comment> \<open>monthly cost, copy cost, budget\<close>
  "replica_costs env rec budget =
     (case py_float env (or_zero (obj_get rec ''incremental_monthly_storage_cost_usd'')) of
        Inl e \<Rightarrow> Inl e
      | Inr monthly \<Rightarrow>
          if obj_get rec ''estimated_copy_cost_usd'' = JNull
          then Inl (ValueError ''Replica action requires a known copy cost'')
          else
     (case py_float env (obj_get rec ''estimated_copy_cost_usd'') of Inl e \<Rightarrow> Inl e | Inr copy \<Rightarrow>
     (case py_float env budget of Inl e \<Rightarrow> Inl e | Inr limit_usd \<Rightarrow>
     (case (finite_nonneg monthly, finite_nonneg copy, finite_nonneg limit_usd) of
        (Some m, Some c, Some b) \<Rightarrow> Inr (m, c, b)
      | _ \<Rightarrow> Inl (ValueError ''Replica costs and budget must be finite and non-negative'')))))"

definition reason_codes :: "json \<Rightarrow> pyerr + json" where
  "reason_codes rec =
     (case iterate_or_empty (obj_get rec ''reason_codes'') of
        Inl e \<Rightarrow> Inl e | Inr xs \<Rightarrow> Inr (json_sort (JArr xs)))"

definition claim_replica_action ::
  "pyenv \<Rightarrow> string \<Rightarrow> string \<Rightarrow> registry \<Rightarrow> json \<Rightarrow> json \<Rightarrow> int \<Rightarrow> (registry, action_row \<times> bool) tx"
where
  \<comment> \<open>the row and whether it was there before\<close>
  "claim_replica_action env now uuid d rec budget max_inflight =
     (let ident = or_text env (obj_get rec ''recommendation_id'') [];
          source = or_text env (obj_get rec ''source_volume_id'') [];
          target = or_text env (obj_get rec ''target_volume_id'') [];
          manifest = or_text env (obj_get rec ''source_manifest_id'') [];
          expires = or_text env (obj_get rec ''expires_at'') []
      in if ident = [] \<or> source = [] \<or> target = [] \<or> manifest = [] \<or> expires = []
         then Inl (ValueError ''Replica action requires exact recommendation identities'')
         else
     (case py_int (or_zero (obj_get rec ''bytes'')) of Inl e \<Rightarrow> Inl e | Inr n \<Rightarrow>
     (case replica_costs env rec budget of Inl e \<Rightarrow> Inl e | Inr (monthly, copy, limit_usd) \<Rightarrow>
      (if expires \<le> now then Inl (ValueError ''Replica action recommendation has expired'')
       else
     (case live_action d ident of
        Some r \<Rightarrow> Inr (d, (r, True))
      | None \<Rightarrow>
          if max 1 max_inflight \<le> inflight d
          then Inl (RuntimeError ''Regional replication concurrency limit reached'')
          else if limit_usd < reserved_cost d now + monthly
          then Inl (RuntimeError ''Regional replication monthly budget exceeded'')
          else
     (case reason_codes rec of Inl e \<Rightarrow> Inl e | Inr reasons \<Rightarrow>
     (case sql_int (max 0 n) of Inl e \<Rightarrow> Inl e | Inr bytes \<Rightarrow>
      (if \<exists>r \<in> set (rg_actions d). ac_id r = uuid
       then Inl (IntegrityError ''UNIQUE constraint failed: regional_replica_actions.id'')
       else if \<not> volume_exists d source \<or> \<not> volume_exists d target
       then Inl (IntegrityError ''FOREIGN KEY constraint failed'')
       else
         (let r = \<lparr>ac_id = uuid, ac_recommendation = ident, ac_source = source, ac_target = target,
                   ac_source_manifest = manifest, ac_target_manifest = None, ac_status = ''copying'',
                   ac_bytes = bytes, ac_monthly_cost = monthly, ac_copy_cost = copy, ac_reasons = reasons,
                   ac_expires_at = expires, ac_created_at = now, ac_completed_at = None, ac_error = None\<rparr>
          in Inr (d\<lparr>rg_actions := rg_actions d @ [r]\<rparr>, (r, False)))))))))))"

definition update_action ::
  "(action_row \<Rightarrow> bool) \<Rightarrow> (action_row \<Rightarrow> action_row) \<Rightarrow> registry \<Rightarrow> registry"
where
  "update_action P f d = d\<lparr>rg_actions := update_where P f (rg_actions d)\<rparr>"

definition change_action ::
  "string \<Rightarrow> string \<Rightarrow> (action_row \<Rightarrow> action_row) \<Rightarrow> registry \<Rightarrow> (registry, action_row) tx"
where
  \<comment> \<open>UPDATE ... WHERE id=? AND status=?, KeyError when no row matches, and the row read back\<close>
  "change_action i st f d =
     (let P = (\<lambda>r. ac_id r = i \<and> ac_status r = st) in
      if rowcount P (rg_actions d) = 0 then Inl (KeyError i)
      else
        (let d' = update_action P f d
         in case find (\<lambda>r. ac_id r = i) (rg_actions d') of
              Some r \<Rightarrow> Inr (d', r)
            | None \<Rightarrow> Inl (TypeError ''NoneType'')))"

definition completed_action :: "string \<Rightarrow> string \<Rightarrow> action_row \<Rightarrow> action_row" where
  "completed_action now target_manifest r =
     r\<lparr>ac_status := ''completed'', ac_target_manifest := Some target_manifest,
       ac_completed_at := Some now, ac_error := None\<rparr>"

definition complete_replica_action :: "string \<Rightarrow> registry \<Rightarrow> string \<Rightarrow> string \<Rightarrow> (registry, action_row) tx" where
  "complete_replica_action now d i target_manifest =
     change_action i ''copying'' (completed_action now target_manifest) d"

definition failed_action :: "string \<Rightarrow> string \<Rightarrow> action_row \<Rightarrow> action_row" where
  "failed_action now reason r =
     r\<lparr>ac_status := ''failed'', ac_completed_at := Some now, ac_error := Some reason\<rparr>"

definition fail_replica_action :: "string \<Rightarrow> registry \<Rightarrow> string \<Rightarrow> string \<Rightarrow> (registry, unit) tx" where
  "fail_replica_action now d i reason =
     (case change_action i ''copying'' (failed_action now (take 500 reason)) d of
        Inl e \<Rightarrow> Inl e | Inr (d', r) \<Rightarrow> Inr (d', ()))"

definition expired_action :: "string \<Rightarrow> action_row \<Rightarrow> action_row" where
  "expired_action now r = r\<lparr>ac_status := ''expired'', ac_completed_at := Some now\<rparr>"

definition expire_replica_action :: "string \<Rightarrow> registry \<Rightarrow> string \<Rightarrow> (registry, action_row) tx" where
  "expire_replica_action now d i = change_action i ''completed'' (expired_action now) d"

definition recover_stale_replica_actions :: "string \<Rightarrow> registry \<Rightarrow> string \<Rightarrow> registry \<times> nat" where
  "recover_stale_replica_actions now d stale_before =
     (let P = (\<lambda>r. ac_status r = ''copying'' \<and> ac_created_at r \<le> stale_before)
      in (update_action P (failed_action now ''copy_timeout_recovered'') d, rowcount P (rg_actions d)))"

definition lost_action :: "string \<Rightarrow> action_row \<Rightarrow> action_row" where
  "lost_action now r =
     r\<lparr>ac_status := ''lost'', ac_completed_at := Some now, ac_error := Some ''regional_target_lost''\<rparr>"

definition lose_replica_actions_for_target :: "string \<Rightarrow> registry \<Rightarrow> string \<Rightarrow> registry \<times> nat" where
  "lose_replica_actions_for_target now d vol =
     (let P = (\<lambda>r. ac_target r = vol \<and> action_live r)
      in (update_action P (lost_action now) d, rowcount P (rg_actions d)))"

definition list_replica_actions :: "registry \<Rightarrow> string option \<Rightarrow> string option \<Rightarrow> action_row list" where
  "list_replica_actions d st due =
     rev (sort_key (\<lambda>r. (ac_created_at r, ac_id r))
       (filter (\<lambda>r. (given st \<longrightarrow> Some (ac_status r) = st) \<and>
                    (given due \<longrightarrow> ac_expires_at r \<le> or_default [] due)) (rg_actions d)))"

section \<open>Targets\<close>

definition target_held :: "target_row \<Rightarrow> bool" where
  \<comment> \<open>\<open>status IN ('creating','ready','deleting')\<close>\<close>
  "target_held r \<longleftrightarrow> tg_status r \<in> {''creating'', ''ready'', ''deleting''}"

definition held_target :: "registry \<Rightarrow> string \<Rightarrow> string \<Rightarrow> target_row option" where
  "held_target d provider region =
     (case rev (sort_key tg_created_at
             (rev (filter (\<lambda>r. tg_provider r = provider \<and> tg_datacenter r = region \<and> target_held r)
                (rg_targets d)))) of
        [] \<Rightarrow> None | r # rs \<Rightarrow> Some r)"

definition target_cost :: "registry \<Rightarrow> rat" where
  "target_cost d = sum_list (map tg_monthly_cost (filter target_held (rg_targets d)))"

definition claim_replica_target ::
  "pyenv \<Rightarrow> string \<Rightarrow> string \<Rightarrow> registry \<Rightarrow> string \<Rightarrow> string \<Rightarrow> int \<Rightarrow> json \<Rightarrow> json \<Rightarrow>
   (registry, target_row \<times> bool) tx"
where
  "claim_replica_target env now uuid d provider datacenter size_gb cost budget =
     (let name = py_lower (py_strip provider); region = py_strip datacenter in
     (case py_float env cost of Inl e \<Rightarrow> Inl e | Inr cv \<Rightarrow>
     (case py_float env budget of Inl e \<Rightarrow> Inl e | Inr bv \<Rightarrow>
      (if name = [] \<or> region = [] \<or> size_gb < 1
       then Inl (ValueError ''Replica target needs provider, region, and size'')
       else
     (case (finite_nonneg cv, finite_nonneg bv) of
        (Some monthly, Some limit_usd) \<Rightarrow>
     (case held_target d name region of
        Some r \<Rightarrow> Inr (d, (r, True))
      | None \<Rightarrow>
          if limit_usd < target_cost d + monthly
          then Inl (RuntimeError ''Regional replica target budget exceeded'')
          else
     (case sql_int size_gb of
        Inl e \<Rightarrow> Inl e
      | Inr n \<Rightarrow>
          if \<exists>r \<in> set (rg_targets d). tg_id r = uuid
          then Inl (IntegrityError ''UNIQUE constraint failed: regional_replica_targets.id'')
          else
          (let r = \<lparr>tg_id = uuid, tg_provider = name, tg_datacenter = region, tg_status = ''creating'',
                    tg_provider_volume = None, tg_cache_volume = None, tg_size_gb = n,
                    tg_monthly_cost = monthly, tg_created_at = now, tg_ready_at = None, tg_error = None\<rparr>
           in Inr (d\<lparr>rg_targets := rg_targets d @ [r]\<rparr>, (r, False)))))
      | _ \<Rightarrow> Inl (ValueError ''Replica target cost and budget must be finite''))))))"

definition unique_targets :: "target_row list \<Rightarrow> bool" where
  \<comment> \<open>the partial unique index on the held targets\<close>
  "unique_targets rs =
     distinct (map (\<lambda>r. (tg_provider r, tg_datacenter r)) (filter target_held rs))"

definition change_target ::
  "string \<Rightarrow> (target_row \<Rightarrow> bool) \<Rightarrow> (target_row \<Rightarrow> target_row) \<Rightarrow> registry \<Rightarrow> (registry, target_row) tx"
where
  "change_target i Q f d =
     (let P = (\<lambda>r. tg_id r = i \<and> Q r);
          rows = update_where P f (rg_targets d)
      in if rowcount P (rg_targets d) = 0 then Inl (KeyError i)
         else if \<not> unique_targets rows then Inl (IntegrityError ''UNIQUE constraint failed'')
         else case find (\<lambda>r. tg_id r = i) rows of
                Some r \<Rightarrow> Inr (d\<lparr>rg_targets := rows\<rparr>, r)
              | None \<Rightarrow> Inl (TypeError ''NoneType''))"

definition complete_replica_target ::
  "string \<Rightarrow> registry \<Rightarrow> string \<Rightarrow> string \<Rightarrow> string \<Rightarrow> (registry, target_row) tx"
where
  "complete_replica_target now d i pv vol =
     change_target i (\<lambda>r. tg_status r = ''creating'')
       (\<lambda>r. r\<lparr>tg_status := ''ready'', tg_provider_volume := Some pv, tg_cache_volume := Some vol,
              tg_ready_at := Some now, tg_error := None\<rparr>) d"

definition bind_replica_target_provider :: "registry \<Rightarrow> string \<Rightarrow> string \<Rightarrow> (registry, target_row) tx" where
  "bind_replica_target_provider d i pv =
     change_target i (\<lambda>r. tg_status r = ''creating'') (tg_provider_volume_update (\<lambda>_. Some pv)) d"

definition update_replica_target ::
  "registry \<Rightarrow> string \<Rightarrow> string \<Rightarrow> string option \<Rightarrow> (registry, target_row) tx"
where
  "update_replica_target d i st err =
     (if st \<notin> {''ready'', ''failed'', ''deleting'', ''deleted'', ''lost''}
      then Inl (ValueError ''Unsupported replica target status'')
      else change_target i (\<lambda>r. True)
             (\<lambda>r. r\<lparr>tg_status := st,
                    tg_error := (if given err then map_option (take 500) err else None)\<rparr>) d)"

definition list_replica_targets :: "registry \<Rightarrow> string option \<Rightarrow> target_row list" where
  "list_replica_targets d st =
     rev (sort_key (\<lambda>r. (tg_created_at r, tg_id r))
       (if given st then filter (\<lambda>r. Some (tg_status r) = st) (rg_targets d) else rg_targets d))"

end
