(* ===== verification/Policy.thy ===== *)
theory Policy
  imports PlanPublic
begin

text \<open>
  The policy of prepared storage in \<open>cloud_offload/config.py\<close>: \<open>normalized_prepared_storage\<close>
  turns what the configuration file or a request holds into the dictionary that the dispatcher,
  the scheduler and the replication read. The code rewrites two dictionaries key by key and
  raises at the first bad value; so does the model: a step is a function from a dictionary to
  the next one or the exception. The types of the normal form stand beside it.
\<close>

section \<open>Defaults\<close>

definition storage_min_gb :: int where
  "storage_min_gb = 10"

definition storage_max_gb :: int where
  "storage_max_gb = 4000"

definition estimate_runpod_storage_monthly :: "rat \<Rightarrow> rat" where
  \<comment> \<open>0.07 per GB up to 1000 GB, 0.05 above, rounded to cents\<close>
  "estimate_runpod_storage_monthly gb =
     round_to 2 (min gb 1000 * (7 / 100) + max 0 (gb - 1000) * (5 / 100))"

definition replication_defaults :: "(string \<times> json) list" where
  "replication_defaults =
     [(''mode'', JStr ''shadow''), (''approved_regions'', JArr []), (''monthly_budget_usd'', JNull),
      (''ttl_days'', JInt 30), (''demand_window_days'', JInt 30), (''min_hits'', JInt 3),
      (''min_avoided_gpu_seconds'', JFloat 600), (''transfer_cost_per_gb_usd'', JNull),
      (''max_inflight'', JInt 1), (''shadow_required_recommendations'', JInt 10),
      (''shadow_validation_hours'', JInt 24), (''shadow_min_precision'', JFloat (4 / 5)),
      (''controller_interval_seconds'', JInt 300), (''copy_timeout_seconds'', JInt 21600)]"

definition storage_defaults :: "(string \<times> json) list" where
  "storage_defaults =
     [(''enabled'', JBool False), (''provider'', JStr ''runpod''), (''policy'', JStr ''smart''),
      (''region'', JStr ''auto''), (''cold_fallback'', JStr ''allow''), (''managed_size_gb'', JInt 250),
      (''existing_volume_id'', JNull), (''max_monthly_storage_cost'', JNull),
      (''confirmed'', JBool False), (''tenant'', JStr ''default''),
      (''cache_private_assets'', JBool False), (''shadow_admission'', JBool True),
      (''replication'', JObj replication_defaults)]"

section \<open>Steps\<close>

type_synonym dict = "(string \<times> json) list"

definition field :: "dict \<Rightarrow> string \<Rightarrow> json" where
  "field d k = or_default JNull (map_of d k)"

definition put :: "string \<Rightarrow> (json \<Rightarrow> pyerr + json) \<Rightarrow> dict \<Rightarrow> pyerr + dict" where
  \<comment> \<open>\<open>d[key] = f(d[key])\<close>\<close>
  "put k f d = (case f (field d k) of Inl e \<Rightarrow> Inl e | Inr v \<Rightarrow> Inr (kv_set k v d))"

definition refuse :: "(dict \<Rightarrow> bool) \<Rightarrow> string \<Rightarrow> dict \<Rightarrow> pyerr + dict" where
  "refuse bad message d = (if bad d then Inl (ValueError (''prepared_storage'' @ message)) else Inr d)"

definition flag :: "json \<Rightarrow> pyerr + json" where
  "flag v = Inr (JBool (truthy v))"

definition stripped :: "pyenv \<Rightarrow> json \<Rightarrow> pyerr + json" where
  "stripped env v = Inr (JStr (py_strip (py_str env v)))"

definition word :: "pyenv \<Rightarrow> json \<Rightarrow> pyerr + json" where
  "word env v = Inr (JStr (py_lower (py_strip (py_str env v))))"

definition bounded :: "int \<Rightarrow> int option \<Rightarrow> string \<Rightarrow> json \<Rightarrow> pyerr + json" where
  "bounded lo hi message v =
     (case py_int v of
        Inl e \<Rightarrow> Inl e
      | Inr n \<Rightarrow>
          if n < lo \<or> (case hi of None \<Rightarrow> False | Some h \<Rightarrow> h < n)
          then Inl (ValueError (''prepared_storage'' @ message)) else Inr (JInt n))"

definition amount :: "pyenv \<Rightarrow> string \<Rightarrow> json \<Rightarrow> pyerr + json" where
  \<comment> \<open>a cost that may be unknown\<close>
  "amount env message v =
     (if v = JNull then Inr JNull
      else
        (case py_float env v of
           Inl e \<Rightarrow> Inl e
         | Inr x \<Rightarrow>
             if float_less x (JFloat 0) then Inl (ValueError (''prepared_storage'' @ message)) else Inr x))"

definition span :: "pyenv \<Rightarrow> string \<Rightarrow> json \<Rightarrow> pyerr + json" where
  "span env message v =
     (case py_float env v of
        Inl e \<Rightarrow> Inl e
      | Inr x \<Rightarrow>
          if float_less x (JFloat 0) then Inl (ValueError (''prepared_storage'' @ message)) else Inr x)"

fun ranged :: "rat \<Rightarrow> rat \<Rightarrow> json \<Rightarrow> bool" where
  \<comment> \<open>\<open>lo <= x <= hi\<close>\<close>
  "ranged lo hi (JFloat q) = (lo \<le> q \<and> q \<le> hi)"
| "ranged lo hi v = False"

definition share :: "pyenv \<Rightarrow> rat \<Rightarrow> rat \<Rightarrow> string \<Rightarrow> json \<Rightarrow> pyerr + json" where
  "share env lo hi message v =
     (case py_float env v of
        Inl e \<Rightarrow> Inl e
      | Inr x \<Rightarrow> if ranged lo hi x then Inr x else Inl (ValueError (''prepared_storage'' @ message)))"

definition region_list :: "pyenv \<Rightarrow> json \<Rightarrow> pyerr + json" where
  "region_list env v =
     (case v of
        JArr xs \<Rightarrow>
          Inr (JArr (map JStr (first_seen
            (filter (\<lambda>s. s \<noteq> []) (map (\<lambda>x. py_strip (py_str env x)) xs)))))
      | _ \<Rightarrow> Inl (ValueError ''prepared_storage.replication.approved_regions must be a list''))"

definition volume_name :: "pyenv \<Rightarrow> json \<Rightarrow> pyerr + json" where
  "volume_name env v =
     (if v = JNull then Inr JNull
      else let s = py_strip (py_str env v) in Inr (if s = [] then JNull else JStr s))"

section \<open>The two dictionaries\<close>

definition replication_modes :: "string list" where
  "replication_modes = [''off'', ''shadow'', ''automatic'']"

definition known_word :: "string \<Rightarrow> string list \<Rightarrow> dict \<Rightarrow> bool" where
  "known_word k ws d \<longleftrightarrow> field d k \<in> JStr ` set ws"

definition replication_steps :: "pyenv \<Rightarrow> (dict \<Rightarrow> pyerr + dict) list" where
  "replication_steps env =
     [put ''mode'' (word env),
      refuse (\<lambda>d. \<not> known_word ''mode'' replication_modes d)
        ''.replication.mode must be off, shadow, or automatic'',
      put ''approved_regions'' (region_list env),
      put ''monthly_budget_usd'' (amount env ''.replication.monthly_budget_usd cannot be negative''),
      put ''ttl_days'' (bounded 1 (Some 365) ''.replication.ttl_days must be between 1 and 365''),
      put ''demand_window_days''
        (bounded 1 (Some 365) ''.replication.demand_window_days must be between 1 and 365''),
      put ''min_hits'' (bounded 1 None ''.replication.min_hits must be at least 1''),
      put ''min_avoided_gpu_seconds''
        (span env ''.replication.min_avoided_gpu_seconds cannot be negative''),
      put ''transfer_cost_per_gb_usd''
        (amount env ''.replication.transfer_cost_per_gb_usd cannot be negative''),
      put ''max_inflight'' (bounded 1 (Some 16) ''.replication.max_inflight must be between 1 and 16''),
      put ''shadow_required_recommendations''
        (bounded 3 None ''.replication.shadow_required_recommendations must be at least 3''),
      put ''shadow_validation_hours''
        (bounded 1 (Some (24 * 90)) ''.replication.shadow_validation_hours must be between 1 and 2160''),
      put ''shadow_min_precision''
        (share env (1 / 2) 1 ''.replication.shadow_min_precision must be between 0.5 and 1''),
      put ''controller_interval_seconds''
        (bounded 30 (Some (24 * 3600))
           ''.replication.controller_interval_seconds must be between 30 and 86400''),
      put ''copy_timeout_seconds''
        (bounded 300 (Some (7 * 24 * 3600))
           ''.replication.copy_timeout_seconds must be between 300 and 604800''),
      refuse (\<lambda>d. field d ''mode'' = JStr ''automatic'' \<and> field d ''monthly_budget_usd'' = JNull)
        ''.replication.monthly_budget_usd is required for automatic mode'',
      refuse (\<lambda>d. field d ''mode'' = JStr ''automatic'' \<and> \<not> truthy (field d ''approved_regions''))
        ''.replication.approved_regions is required for automatic mode'']"

definition text_steps :: "pyenv \<Rightarrow> (dict \<Rightarrow> pyerr + dict) list" where
  \<comment> \<open>none of them raises\<close>
  "text_steps env =
     [put ''enabled'' flag, put ''confirmed'' flag, put ''cache_private_assets'' flag,
      put ''shadow_admission'' flag, put ''provider'' (word env), put ''policy'' (word env),
      put ''region'' (stripped env), put ''cold_fallback'' (word env), put ''tenant'' (stripped env)]"

definition lower_is :: "string \<Rightarrow> json \<Rightarrow> bool" where
  "lower_is w v = (case v of JStr s \<Rightarrow> py_lower s = w | _ \<Rightarrow> False)"

definition storage_steps :: "pyenv \<Rightarrow> json \<Rightarrow> (dict \<Rightarrow> pyerr + dict) list" where
  \<comment> \<open>\<open>monthly\<close> is the monthly budget of the replication\<close>
  "storage_steps env monthly =
     [refuse (\<lambda>d. field d ''provider'' \<noteq> JStr ''runpod'') ''.provider must currently be runpod'',
      refuse (\<lambda>d. \<not> known_word ''policy'' [''off'', ''smart'', ''strict'', ''pinned''] d)
        ''.policy must be off, smart, strict, or pinned'',
      refuse (\<lambda>d. \<not> known_word ''cold_fallback'' [''allow'', ''ask'', ''deny''] d)
        ''.cold_fallback must be allow, ask, or deny'',
      refuse (\<lambda>d. field d ''policy'' = JStr ''pinned'' \<and> lower_is ''auto'' (field d ''region''))
        ''.region is required for pinned policy'',
      refuse (\<lambda>d. \<not> truthy (field d ''tenant'')) ''.tenant cannot be empty'',
      put ''managed_size_gb'' (bounded storage_min_gb None ''.managed_size_gb must be at least 10''),
      put ''managed_size_gb''
        (bounded storage_min_gb (Some storage_max_gb) ''.managed_size_gb cannot exceed 4000''),
      put ''existing_volume_id'' (volume_name env),
      put ''max_monthly_storage_cost'' (amount env ''.max_monthly_storage_cost cannot be negative''),
      refuse (\<lambda>d. field d ''max_monthly_storage_cost'' \<noteq> JNull \<and> monthly \<noteq> JNull \<and>
                   float_less (field d ''max_monthly_storage_cost'') monthly)
        ''.replication.monthly_budget_usd cannot exceed max_monthly_storage_cost'',
      (\<lambda>d. Inr (if field d ''policy'' = JStr ''off'' then kv_set ''enabled'' (JBool False) d else d)),
      refuse (\<lambda>d. truthy (field d ''enabled'') \<and> \<not> truthy (field d ''confirmed''))
        '' must be confirmed before it is enabled'']"

definition run_all :: "(dict \<Rightarrow> pyerr + dict) list \<Rightarrow> dict \<Rightarrow> pyerr + dict" where
  "run_all steps d = fold_tx (\<lambda>f. f) steps d"

definition secret_key :: "string \<Rightarrow> bool" where
  "secret_key k \<longleftrightarrow>
     (\<exists>p \<in> set [''secret'', ''token'', ''api_key'', ''access_key'']. has_part p (py_lower k))"

definition unknown_keys :: "dict \<Rightarrow> dict \<Rightarrow> string list" where
  "unknown_keys d defaults = sort (remdups (filter (\<lambda>k. k \<notin> set (map fst defaults)) (map fst d)))"

definition listed :: "string \<Rightarrow> string list \<Rightarrow> pyerr" where
  "listed message ks = ValueError (message @ join_with '', '' ks)"

definition replication_value :: "json \<Rightarrow> json" where
  "replication_value v = (if v = JNull then JObj [] else v)"

definition normalize_replication :: "pyenv \<Rightarrow> json \<Rightarrow> pyerr + dict" where
  "normalize_replication env v =
     (case v of
        JObj kvs \<Rightarrow>
          if unknown_keys kvs replication_defaults \<noteq> []
          then Inl (listed ''Unknown prepared_storage.replication fields: ''
                      (unknown_keys kvs replication_defaults))
          else run_all (replication_steps env) (dict_merge replication_defaults kvs)
      | _ \<Rightarrow> Inl (ValueError ''prepared_storage.replication must be an object''))"

definition normalized_prepared_storage :: "pyenv \<Rightarrow> json \<Rightarrow> pyerr + json" where
  \<comment> \<open>the replication is a dictionary of its own, which the result holds\<close>
  "normalized_prepared_storage env value =
     (case value of
        JNull \<Rightarrow> Inr (JObj storage_defaults)
      | JObj kvs \<Rightarrow>
          (let forbidden = sort (remdups (filter secret_key (map fst kvs)));
               unknown = unknown_keys kvs storage_defaults
           in if forbidden \<noteq> []
              then Inl (listed ''prepared_storage cannot contain credentials: '' forbidden)
              else if unknown \<noteq> [] then Inl (listed ''Unknown prepared_storage fields: '' unknown)
              else
           (case normalize_replication env (replication_value (field kvs ''replication'')) of
              Inl e \<Rightarrow> Inl e
            | Inr rep \<Rightarrow>
           (case run_all (text_steps env) (kv_set ''replication'' (JObj rep) (dict_merge storage_defaults kvs)) of
              Inl e \<Rightarrow> Inl e
            | Inr d \<Rightarrow>
           (case run_all (storage_steps env (field rep ''monthly_budget_usd'')) d of
              Inl e \<Rightarrow> Inl e
            | Inr r \<Rightarrow> Inr (JObj r)))))
      | _ \<Rightarrow> Inl (ValueError ''prepared_storage must be an object''))"

section \<open>The normal form\<close>

text \<open>The types of the fields, stated apart from the code that checks them.\<close>

datatype field_type =
    Flag
  | Word "string list"
  | Text
  | Filled
  | Between int "int option"
  | Cost
  | Duration
  | Share rat rat
  | Regions
  | Maybe_Text
  | Section "(string \<times> field_type) list"

definition cost_value :: "json \<Rightarrow> bool" where
  \<comment> \<open>a float that is not below zero: NaN is among them\<close>
  "cost_value v = (case v of JFloat q \<Rightarrow> 0 \<le> q | JInf b \<Rightarrow> b | JNaN \<Rightarrow> True | _ \<Rightarrow> False)"

definition plain_text :: "json \<Rightarrow> bool" where
  "plain_text v = (case v of JStr s \<Rightarrow> py_strip s = s | _ \<Rightarrow> False)"

definition text_value :: "json \<Rightarrow> string" where
  "text_value v = (case v of JStr s \<Rightarrow> s | _ \<Rightarrow> [])"

fun has_type :: "field_type \<Rightarrow> json \<Rightarrow> bool" and fields_typed :: "(string \<times> field_type) list \<Rightarrow> dict \<Rightarrow> bool" where
  "has_type Flag v = (case v of JBool b \<Rightarrow> True | _ \<Rightarrow> False)"
| "has_type (Word ws) v = (v \<in> JStr ` set ws)"
| "has_type Text v = plain_text v"
| "has_type Filled v = (plain_text v \<and> v \<noteq> JStr [])"
| "has_type (Between lo hi) v =
     (case v of JInt n \<Rightarrow> lo \<le> n \<and> (case hi of None \<Rightarrow> True | Some h \<Rightarrow> n \<le> h) | _ \<Rightarrow> False)"
| "has_type Cost v = (v = JNull \<or> cost_value v)"
| "has_type Duration v = cost_value v"
| "has_type (Share lo hi) v = ranged lo hi v"
| "has_type Regions v =
     (case v of
        JArr xs \<Rightarrow> distinct xs \<and> list_all (\<lambda>x. plain_text x \<and> x \<noteq> JStr []) xs
      | _ \<Rightarrow> False)"
| "has_type Maybe_Text v = (v = JNull \<or> plain_text v \<and> v \<noteq> JStr [])"
| "has_type (Section ts) v = (case v of JObj d \<Rightarrow> fields_typed ts d | _ \<Rightarrow> False)"
| "fields_typed [] d = (d = [])"
| "fields_typed ((k, t) # ts) d =
     (case d of [] \<Rightarrow> False | (k', v) # d' \<Rightarrow> k' = k \<and> has_type t v \<and> fields_typed ts d')"

definition replication_type :: "(string \<times> field_type) list" where
  "replication_type =
     [(''mode'', Word replication_modes), (''approved_regions'', Regions), (''monthly_budget_usd'', Cost),
      (''ttl_days'', Between 1 (Some 365)), (''demand_window_days'', Between 1 (Some 365)),
      (''min_hits'', Between 1 None), (''min_avoided_gpu_seconds'', Duration),
      (''transfer_cost_per_gb_usd'', Cost), (''max_inflight'', Between 1 (Some 16)),
      (''shadow_required_recommendations'', Between 3 None),
      (''shadow_validation_hours'', Between 1 (Some 2160)),
      (''shadow_min_precision'', Share (1 / 2) 1),
      (''controller_interval_seconds'', Between 30 (Some 86400)),
      (''copy_timeout_seconds'', Between 300 (Some 604800))]"

definition storage_type :: "(string \<times> field_type) list" where
  "storage_type =
     [(''enabled'', Flag), (''provider'', Word [''runpod'']),
      (''policy'', Word [''off'', ''smart'', ''strict'', ''pinned'']), (''region'', Text),
      (''cold_fallback'', Word [''allow'', ''ask'', ''deny'']),
      (''managed_size_gb'', Between 10 (Some 4000)), (''existing_volume_id'', Maybe_Text),
      (''max_monthly_storage_cost'', Cost), (''confirmed'', Flag), (''tenant'', Filled),
      (''cache_private_assets'', Flag), (''shadow_admission'', Flag),
      (''replication'', Section replication_type)]"

text \<open>What the fields owe each other.\<close>

definition policy_consistent :: "json \<Rightarrow> bool" where
  "policy_consistent p \<longleftrightarrow>
     (let r = obj_get p ''replication''; monthly = obj_get r ''monthly_budget_usd'';
          most = obj_get p ''max_monthly_storage_cost''
      in (obj_get r ''mode'' = JStr ''automatic'' \<longrightarrow>
            monthly \<noteq> JNull \<and> obj_get r ''approved_regions'' \<noteq> JArr []) \<and>
         (obj_get p ''policy'' = JStr ''pinned'' \<longrightarrow> py_lower (text_value (obj_get p ''region'')) \<noteq> ''auto'') \<and>
         (most \<noteq> JNull \<and> monthly \<noteq> JNull \<longrightarrow> \<not> float_less most monthly) \<and>
         (obj_get p ''enabled'' = JBool True \<longrightarrow>
            obj_get p ''policy'' \<noteq> JStr ''off'' \<and> obj_get p ''confirmed'' = JBool True))"

definition policy_normal :: "json \<Rightarrow> bool" where
  "policy_normal p \<longleftrightarrow> has_type (Section storage_type) p \<and> policy_consistent p"

end
