(* ===== verification/Replication.thy ===== *)
theory Replication
  imports Replicas Policy
begin

text \<open>
  \<open>cloud_offload/regional_replication.py\<close>: recommendations to copy prepared state to another
  region, from the paid demand that the registry holds, and the score of past recommendations
  against later demand. Instants are microseconds; a text without an offset is read as UTC, the
  time zone of the host. The policy is the dictionary that \<open>Policy\<close> returns.
\<close>

section \<open>Helpers\<close>

definition gib :: rat where
  "gib = 1024 ^ 3"

definition day_us :: int where
  "day_us = 86400 * 1000000"

definition hour_us :: int where
  "hour_us = 3600 * 1000000"

definition identity_of :: "pyenv \<Rightarrow> json \<Rightarrow> string" where
  \<comment> \<open>\<open>_identity\<close>\<close>
  "identity_of env v = ''sha256:'' @ sha256_hex env (json_text True env (json_sort v))"

definition artifact_size :: "json \<Rightarrow> pyerr + int list" where
  "artifact_size item =
     (if is_obj item
      then (case py_int (or_zero (obj_get item ''size'')) of Inl e \<Rightarrow> Inl e | Inr n \<Rightarrow> Inr [max 0 n])
      else Inr [])"

definition manifest_bytes :: "json \<Rightarrow> pyerr + int" where
  "manifest_bytes manifest =
     (case iterate_or_empty (obj_get manifest ''artifacts'') of
        Inl e \<Rightarrow> Inl e
      | Inr items \<Rightarrow> (case collect artifact_size items of Inl e \<Rightarrow> Inl e | Inr ns \<Rightarrow> Inr (sum_list ns)))"

definition parse_time :: "pyenv \<Rightarrow> string \<Rightarrow> pyerr + int" where
  "parse_time env s =
     (case parse_iso env (z_to_offset s) of
        Some (t, has_offset) \<Rightarrow> Inr t
      | None \<Rightarrow> Inl (ValueError ''Invalid isoformat string''))"

definition policy_replication :: "json \<Rightarrow> json" where
  "policy_replication policy = or_obj (obj_get policy ''replication'')"

definition int_setting :: "json \<Rightarrow> string \<Rightarrow> int \<Rightarrow> int \<Rightarrow> pyerr + int" where
  \<comment> \<open>\<open>max(least, int(r.get(key) or default))\<close>\<close>
  "int_setting r key least default_value =
     (case py_int (let v = obj_get r key in if truthy v then v else JInt default_value) of
        Inl e \<Rightarrow> Inl e | Inr n \<Rightarrow> Inr (max least n))"

definition cost_setting :: "pyenv \<Rightarrow> json \<Rightarrow> string \<Rightarrow> pyerr + json option" where
  "cost_setting env r key =
     (if obj_get r key = JNull then Inr None
      else case py_float env (obj_get r key) of Inl e \<Rightarrow> Inl e | Inr x \<Rightarrow> Inr (Some x))"

definition approved_regions :: "pyenv \<Rightarrow> json \<Rightarrow> pyerr + string list" where
  \<comment> \<open>the set, in the order of the list\<close>
  "approved_regions env r =
     (case iterate_or_empty (obj_get r ''approved_regions'') of
        Inl e \<Rightarrow> Inl e | Inr xs \<Rightarrow> Inr (filter (\<lambda>s. s \<noteq> []) (map (py_str env) xs)))"

section \<open>Settings\<close>

record replication_settings =
  rs_mode :: string
  rs_window_days :: int
  rs_ttl_days :: int
  rs_min_hits :: int
  rs_min_saved :: json
  rs_approved :: "string list"
  rs_budget :: "json option"
  rs_transfer :: "json option"

definition replication_settings_of :: "pyenv \<Rightarrow> json \<Rightarrow> pyerr + replication_settings" where
  "replication_settings_of env policy =
     (let r = policy_replication policy in
     (case int_setting r ''demand_window_days'' 1 30 of Inl e \<Rightarrow> Inl e | Inr window \<Rightarrow>
     (case int_setting r ''ttl_days'' 1 30 of Inl e \<Rightarrow> Inl e | Inr ttl \<Rightarrow>
     (case int_setting r ''min_hits'' 1 3 of Inl e \<Rightarrow> Inl e | Inr hits \<Rightarrow>
     (case py_float env (or_zero (obj_get r ''min_avoided_gpu_seconds'')) of Inl e \<Rightarrow> Inl e | Inr saved \<Rightarrow>
     (case approved_regions env r of Inl e \<Rightarrow> Inl e | Inr approved \<Rightarrow>
     (case cost_setting env r ''monthly_budget_usd'' of Inl e \<Rightarrow> Inl e | Inr budget \<Rightarrow>
     (case cost_setting env r ''transfer_cost_per_gb_usd'' of Inl e \<Rightarrow> Inl e | Inr transfer \<Rightarrow>
        Inr \<lparr>rs_mode = or_text env (obj_get r ''mode'') ''shadow'', rs_window_days = window,
             rs_ttl_days = ttl, rs_min_hits = hits, rs_min_saved = float_max0 saved,
             rs_approved = approved, rs_budget = budget, rs_transfer = transfer\<rparr>))))))))"

section \<open>Demand\<close>

type_synonym demand_key = "string \<times> string \<times> string"

definition key_of_demand :: "demand_row \<Rightarrow> demand_key" where
  "key_of_demand r = (dm_profile r, dm_provider r, dm_datacenter r)"

definition counted_demand :: "demand_row \<Rightarrow> bool" where
  "counted_demand r \<longleftrightarrow> 0 < dm_missing r \<and> dm_profile r \<noteq> [] \<and> dm_provider r \<noteq> [] \<and> dm_datacenter r \<noteq> []"

fun add_to_group :: "demand_row \<Rightarrow> (demand_key \<times> demand_row list) list \<Rightarrow> (demand_key \<times> demand_row list) list" where
  "add_to_group r [] = [(key_of_demand r, [r])]"
| "add_to_group r ((k, rs) # gs) =
     (if k = key_of_demand r then (k, rs @ [r]) # gs else (k, rs) # add_to_group r gs)"

definition demand_groups :: "demand_row list \<Rightarrow> (demand_key \<times> demand_row list) list" where
  "demand_groups rs = fold add_to_group (filter counted_demand rs) []"

definition saved_seconds :: "demand_row list \<Rightarrow> rat" where
  "saved_seconds rs = round_to 3 (sum_list (map (\<lambda>r. max 0 (dm_preparation r)) rs))"

definition saved_gpu_cost :: "demand_row list \<Rightarrow> rat" where
  "saved_gpu_cost rs =
     round_to 6 (sum_list (map (\<lambda>r. max 0 (dm_preparation r) * max 0 (dm_rate r) / 3600) rs))"

section \<open>One candidate\<close>

type_synonym manifest_hit = "json \<times> string \<times> string"

definition usable_volume :: "cache_volume list \<Rightarrow> string \<Rightarrow> string \<Rightarrow> bool" where
  "usable_volume vols provider ident \<longleftrightarrow>
     (case find (\<lambda>v. cv_id v = ident) vols of
        None \<Rightarrow> False
      | Some v \<Rightarrow> cv_provider v = provider \<and> cv_status v = ''ready'' \<and> cv_s3 v)"

definition covering_manifest :: "cache_volume list \<Rightarrow> string \<Rightarrow> string \<Rightarrow> manifest_hit list \<Rightarrow> manifest_hit option" where
  "covering_manifest vols provider region ms =
     find (\<lambda>(m, vol, dc). dc = region \<and> usable_volume vols provider vol) ms"

definition source_manifest :: "cache_volume list \<Rightarrow> string \<Rightarrow> string \<Rightarrow> manifest_hit list \<Rightarrow> manifest_hit option" where
  "source_manifest vols provider region ms =
     find (\<lambda>(m, vol, dc). dc \<noteq> region \<and> usable_volume vols provider vol) ms"

definition target_volume :: "cache_volume list \<Rightarrow> string \<Rightarrow> string \<Rightarrow> string option \<Rightarrow> cache_volume option" where
  "target_volume vols provider region source =
     find (\<lambda>v. cv_provider v = provider \<and> cv_datacenter_id v = region \<and> cv_status v = ''ready'' \<and>
               cv_s3 v \<and> Some (cv_id v) \<noteq> source) vols"

fun monthly_of :: "json \<Rightarrow> json" where
  \<comment> \<open>the estimate for a size; NaN and infinity pass through\<close>
  "monthly_of (JFloat q) = JFloat (estimate_runpod_storage_monthly q)"
| "monthly_of v = v"

definition new_volume_cost :: "pyenv \<Rightarrow> json \<Rightarrow> pyerr + json" where
  "new_volume_cost env policy =
     (case py_float env (or_zero (obj_get policy ''managed_size_gb'')) of
        Inl e \<Rightarrow> Inl e | Inr gb \<Rightarrow> Inr (monthly_of gb))"

record advice =
  av_id :: string
  av_profile :: string
  av_provider :: string
  av_source :: "string option"
  av_manifest :: json
  av_region :: string
  av_target :: "string option"
  av_source_region :: "string option"
  av_bytes :: int
  av_hits :: int
  av_seconds :: rat
  av_gpu_cost :: rat
  av_copy_cost :: json
  av_monthly :: json
  av_budget :: "json option"
  av_expires_at :: string
  av_recommended :: bool
  av_reasons :: "string list"
  av_automatic :: bool
  av_blockers :: "string list"

datatype decision_row =
    Covered string string string nat
  | Advice advice

definition advice_key :: "string \<Rightarrow> string \<Rightarrow> string option \<Rightarrow> json \<Rightarrow> string \<Rightarrow> json" where
  "advice_key profile provider source manifest region =
     JObj [(''profile_fingerprint'', JStr profile), (''provider'', JStr provider),
           (''source_volume_id'', jopt source), (''source_manifest_id'', manifest),
           (''target_region'', JStr region)]"

definition when_code :: "bool \<Rightarrow> string \<Rightarrow> string list" where
  "when_code b c = (if b then [c] else [])"

definition over_limit :: "json \<Rightarrow> json option \<Rightarrow> bool" where
  "over_limit cost limit_usd = (case limit_usd of None \<Rightarrow> False | Some b \<Rightarrow> float_less b cost)"

definition reasons_for ::
  "replication_settings \<Rightarrow> string \<Rightarrow> bool \<Rightarrow> int \<Rightarrow> int \<Rightarrow> rat \<Rightarrow> json \<Rightarrow> bool \<Rightarrow> string list"
where
  "reasons_for s region has_source bytes hits saved cost has_target =
     when_code (rs_mode s = ''off'') ''replication_off'' @
     when_code (rs_approved s \<noteq> [] \<and> region \<notin> set (rs_approved s)) ''region_not_approved'' @
     when_code (\<not> has_source) ''compatible_source_missing'' @
     when_code (bytes \<le> 0) ''source_manifest_has_no_copyable_bytes'' @
     when_code (hits < rs_min_hits s) ''demand_below_minimum'' @
     when_code (float_less (JFloat saved) (rs_min_saved s)) ''benefit_below_minimum'' @
     (if rs_budget s = None then [''monthly_budget_unknown'']
      else when_code (over_limit cost (rs_budget s)) ''monthly_budget_exceeded'') @
     when_code (\<not> has_target) ''target_volume_missing'' @
     when_code (rs_transfer s = None) ''transfer_cost_unknown''"

definition blocker_codes :: "string list" where
  "blocker_codes =
     [''replication_off'', ''region_not_approved'', ''compatible_source_missing'',
      ''source_manifest_has_no_copyable_bytes'', ''demand_below_minimum'', ''benefit_below_minimum'',
      ''monthly_budget_unknown'', ''monthly_budget_exceeded'', ''target_volume_missing'',
      ''transfer_cost_unknown'']"

definition observe_codes :: "string list" where
  "observe_codes =
     [''replication_off'', ''region_not_approved'', ''compatible_source_missing'',
      ''source_manifest_has_no_copyable_bytes'', ''demand_below_minimum'', ''benefit_below_minimum'',
      ''monthly_budget_exceeded'']"

text \<open>What the group of a demand finds in the registry.\<close>

record findings =
  fd_source :: "manifest_hit option"
  fd_volume :: "cache_volume option"
  fd_target :: "cache_volume option"
  fd_bytes :: int
  fd_cost :: json

definition find_for ::
  "pyenv \<Rightarrow> json \<Rightarrow> cache_volume list \<Rightarrow> manifest_hit list \<Rightarrow> string \<Rightarrow> string \<Rightarrow> pyerr + findings"
where
  "find_for env policy vols ms provider region =
     (let source = source_manifest vols provider region ms;
          vol = Option.bind source (\<lambda>(m, i, dc). find (\<lambda>v. cv_id v = i) vols);
          target = target_volume vols provider region (map_option cv_id vol)
      in
     (case manifest_bytes (case source of None \<Rightarrow> JObj [] | Some (m, i, dc) \<Rightarrow> m) of
        Inl e \<Rightarrow> Inl e
      | Inr bytes \<Rightarrow>
     (case (if target = None then new_volume_cost env policy else Inr (JFloat 0)) of
        Inl e \<Rightarrow> Inl e
      | Inr cost \<Rightarrow>
          Inr \<lparr>fd_source = source, fd_volume = vol, fd_target = target, fd_bytes = bytes, fd_cost = cost\<rparr>)))"

definition reasons_of :: "replication_settings \<Rightarrow> string \<Rightarrow> demand_row list \<Rightarrow> findings \<Rightarrow> string list" where
  "reasons_of s region rows f =
     reasons_for s region (fd_source f \<noteq> None \<and> fd_volume f \<noteq> None) (fd_bytes f) (int (length rows))
       (saved_seconds rows) (fd_cost f) (fd_target f \<noteq> None)"

definition manifest_of :: "findings \<Rightarrow> json" where
  "manifest_of f = (case fd_source f of None \<Rightarrow> JNull | Some (m, i, dc) \<Rightarrow> obj_get m ''manifest_id'')"

definition copy_cost :: "replication_settings \<Rightarrow> findings \<Rightarrow> json" where
  "copy_cost s f =
     (case rs_transfer s of
        None \<Rightarrow> JNull
      | Some rate \<Rightarrow> float_round 6 (float_times (JFloat (of_int (fd_bytes f) / gib)) rate))"

definition advice_for ::
  "pyenv \<Rightarrow> replication_settings \<Rightarrow> int \<Rightarrow> demand_key \<Rightarrow> demand_row list \<Rightarrow> findings \<Rightarrow> advice"
where
  "advice_for env s now k rows f =
     (case k of (profile, provider, region) \<Rightarrow>
      let source = map_option cv_id (fd_volume f); reasons = reasons_of s region rows f;
          blockers = filter (\<lambda>c. c \<in> set blocker_codes) reasons
      in \<lparr>av_id = identity_of env (advice_key profile provider source (manifest_of f) region),
          av_profile = profile, av_provider = provider, av_source = source, av_manifest = manifest_of f,
          av_region = region, av_target = map_option cv_id (fd_target f),
          av_source_region = map_option cv_datacenter_id (fd_volume f), av_bytes = fd_bytes f,
          av_hits = int (length rows), av_seconds = saved_seconds rows, av_gpu_cost = saved_gpu_cost rows,
          av_copy_cost = copy_cost s f, av_monthly = float_round 6 (fd_cost f), av_budget = rs_budget s,
          av_expires_at = iso_utc env (now + rs_ttl_days s * day_us),
          av_recommended = (set reasons \<inter> set observe_codes = {}),
          av_reasons = (if reasons = [] then [''measured_value''] else reasons),
          av_automatic = (rs_mode s = ''automatic'' \<and> blockers = []), av_blockers = blockers\<rparr>)"

definition advise ::
  "pyenv \<Rightarrow> json \<Rightarrow> replication_settings \<Rightarrow> int \<Rightarrow> registry \<Rightarrow> cache_volume list \<Rightarrow>
   demand_key \<times> demand_row list \<Rightarrow> pyerr + decision_row"
where
  "advise env policy s now d vols g =
     (case g of ((profile, provider, region), rows) \<Rightarrow>
      let ms = query_manifests d (Some profile) None in
      if covering_manifest vols provider region ms \<noteq> None
      then Inr (Covered profile provider region (length rows))
      else
        (case find_for env policy vols ms provider region of
           Inl e \<Rightarrow> Inl e
         | Inr f \<Rightarrow> Inr (Advice (advice_for env s now (profile, provider, region) rows f))))"

section \<open>The report\<close>

definition decision_order :: "decision_row \<Rightarrow> bool \<times> rat \<times> string \<times> string" where
  \<comment> \<open>recommendations first, then by the time they save\<close>
  "decision_order x =
     (case x of
        Covered profile provider region hits \<Rightarrow> (True, 0, region, profile)
      | Advice a \<Rightarrow> (\<not> av_recommended a, - av_seconds a, av_region a, av_profile a))"

definition add_once :: "string \<Rightarrow> string list \<Rightarrow> string list" where
  "add_once c cs = (if c \<in> set cs then cs else cs @ [c])"

definition too_expensive :: "advice \<Rightarrow> advice" where
  "too_expensive a =
     a\<lparr>av_recommended := False, av_reasons := add_once ''monthly_budget_exceeded'' (av_reasons a),
       av_blockers := add_once ''monthly_budget_exceeded'' (av_blockers a), av_automatic := False\<rparr>"

fun spend ::
  "json option \<Rightarrow> json \<Rightarrow> (string \<times> string) list \<Rightarrow> decision_row list \<Rightarrow> json \<times> decision_row list"
where
  \<comment> \<open>the projected cost and the decisions: a new volume is paid once per region\<close>
  "spend budget projected planned [] = (projected, [])"
| "spend budget projected planned (Covered p q r n # xs) =
     (let (total, ys) = spend budget projected planned xs in (total, Covered p q r n # ys))"
| "spend budget projected planned (Advice a # xs) =
     (if \<not> av_recommended a
      then (let (total, ys) = spend budget projected planned xs in (total, Advice a # ys))
      else
        (let region = (av_provider a, av_region a);
             shared = (av_target a = None \<and> region \<in> set planned);
             b = (if shared then a\<lparr>av_monthly := JFloat 0\<rparr> else a);
             sum = float_add projected (av_monthly b)
         in if over_limit sum budget
            then (let (total, ys) = spend budget projected planned xs
                  in (total, Advice (too_expensive b) # ys))
            else (let (total, ys) = spend budget sum
                                      (if av_target a = None then region # planned else planned) xs
                  in (total, Advice b # ys))))"

record shadow_report =
  rr_id :: string
  rr_created_at :: string
  rr_settings :: replication_settings
  rr_demand_count :: nat
  rr_group_count :: nat
  rr_projected :: json
  rr_decisions :: "decision_row list"

definition recommended :: "decision_row list \<Rightarrow> advice list" where
  "recommended xs =
     List.map_filter
       (\<lambda>x. case x of Advice a \<Rightarrow> if av_recommended a then Some a else None | _ \<Rightarrow> None) xs"

definition rr_recommendations :: "shadow_report \<Rightarrow> advice list" where
  "rr_recommendations r = recommended (rr_decisions r)"

definition report_decisions ::
  "pyenv \<Rightarrow> json \<Rightarrow> replication_settings \<Rightarrow> int \<Rightarrow> registry \<Rightarrow> demand_row list \<Rightarrow> pyerr + decision_row list"
where
  "report_decisions env policy s now d rows =
     (case each (advise env policy s now d (list_volumes d None)) (demand_groups rows) of
        Inl e \<Rightarrow> Inl e | Inr xs \<Rightarrow> Inr (sort_key decision_order xs))"

definition build_shadow_report ::
  "pyenv \<Rightarrow> string \<Rightarrow> int \<Rightarrow> registry \<Rightarrow> json \<Rightarrow> pyerr + shadow_report"
where
  \<comment> \<open>\<open>uuid\<close> is \<open>uuid.uuid4()\<close>\<close>
  "build_shadow_report env uuid now d policy =
     (case replication_settings_of env policy of
        Inl e \<Rightarrow> Inl e
      | Inr s \<Rightarrow>
          (let rows = list_regional_demand d (Some (iso_utc env (now - rs_window_days s * day_us))) in
     (case report_decisions env policy s now d rows of
        Inl e \<Rightarrow> Inl e
      | Inr xs \<Rightarrow>
          (let (total, ys) = spend (rs_budget s) (JFloat 0) [] xs
           in Inr \<lparr>rr_id = uuid, rr_created_at = iso_utc env now, rr_settings = s,
                   rr_demand_count = length rows, rr_group_count = length (demand_groups rows),
                   rr_projected = float_round 6 total, rr_decisions = ys\<rparr>))))"

definition jcost :: "json option \<Rightarrow> json" where
  "jcost c = or_default JNull c"

definition jtexts :: "string list \<Rightarrow> json" where
  "jtexts ss = JArr (map JStr ss)"

definition advice_json :: "advice \<Rightarrow> json" where
  "advice_json a =
     JObj [(''recommendation_id'', JStr (av_id a)), (''profile_fingerprint'', JStr (av_profile a)),
           (''provider'', JStr (av_provider a)), (''source_volume_id'', jopt (av_source a)),
           (''source_manifest_id'', av_manifest a), (''target_region'', JStr (av_region a)),
           (''target_volume_id'', jopt (av_target a)), (''source_region'', jopt (av_source_region a)),
           (''bytes'', JInt (av_bytes a)), (''expected_hits'', JInt (av_hits a)),
           (''expected_time_saved_seconds'', JFloat (av_seconds a)),
           (''expected_gpu_idle_cost_saved_usd'', JFloat (av_gpu_cost a)),
           (''estimated_copy_cost_usd'', av_copy_cost a),
           (''incremental_monthly_storage_cost_usd'', av_monthly a),
           (''monthly_budget_usd'', jcost (av_budget a)), (''expires_at'', JStr (av_expires_at a)),
           (''status'', JStr (if av_recommended a then ''recommended'' else ''observe'')),
           (''reason_codes'', jtexts (av_reasons a)), (''eligible_for_automatic'', JBool (av_automatic a)),
           (''automatic_blockers'', jtexts (av_blockers a)), (''cold_fallback_visible'', JBool True)]"

fun decision_json :: "decision_row \<Rightarrow> json" where
  "decision_json (Covered profile provider region hits) =
     JObj [(''profile_fingerprint'', JStr profile), (''provider'', JStr provider),
           (''target_region'', JStr region), (''status'', JStr ''covered''),
           (''reason_codes'', jtexts [''compatible_replica_already_present'']),
           (''expected_hits'', JInt (int hits))]"
| "decision_json (Advice a) = advice_json a"

definition report_json :: "shadow_report \<Rightarrow> json" where
  "report_json r =
     (let s = rr_settings r in
      JObj [(''schema'', JStr shadow_schema), (''evaluation_id'', JStr (rr_id r)),
            (''created_at'', JStr (rr_created_at r)), (''mode'', JStr (rs_mode s)),
            (''shadow'', JBool True), (''provider_mutation'', JBool False),
            (''window_days'', JInt (rs_window_days s)),
            (''demand_observation_count'', JInt (int (rr_demand_count r))),
            (''demand_group_count'', JInt (int (rr_group_count r))),
            (''projected_incremental_monthly_storage_cost_usd'', rr_projected r),
            (''recommendations'', JArr (map advice_json (rr_recommendations r))),
            (''decisions'', JArr (map decision_json (rr_decisions r))),
            (''policy'', JObj
               [(''approved_regions'', jtexts (sorted_set (rs_approved s))),
                (''monthly_budget_usd'', jcost (rs_budget s)), (''ttl_days'', JInt (rs_ttl_days s)),
                (''min_hits'', JInt (rs_min_hits s)), (''min_avoided_gpu_seconds'', rs_min_saved s),
                (''transfer_cost_known'', JBool (rs_transfer s \<noteq> None))])])"

section \<open>Scoring past recommendations\<close>

definition first_recommendation ::
  "pyenv \<Rightarrow> string \<Rightarrow> json \<Rightarrow> (string \<times> json \<times> string) list \<Rightarrow> pyerr + (string \<times> json \<times> string) list"
where
  \<comment> \<open>\<open>setdefault\<close>: an identifier keeps the item and the instant it was first seen with\<close>
  "first_recommendation env created item seen =
     (case py_get item ''recommendation_id'' of
        Inl e \<Rightarrow> Inl e
      | Inr v \<Rightarrow>
          (let i = or_text env v [] in
           if i = [] \<or> created = [] \<or> i \<in> fst ` set seen then Inr seen
           else Inr (seen @ [(i, item, created)])))"

definition report_items ::
  "pyenv \<Rightarrow> json \<Rightarrow> (string \<times> json \<times> string) list \<Rightarrow> pyerr + (string \<times> json \<times> string) list"
where
  "report_items env report seen =
     (case iterate_or_empty (obj_get report ''recommendations'') of
        Inl e \<Rightarrow> Inl e
      | Inr items \<Rightarrow>
          fold_tx (first_recommendation env (or_text env (obj_get report ''created_at'') [])) items seen)"

definition unique_recommendations :: "pyenv \<Rightarrow> registry \<Rightarrow> pyerr + (string \<times> json \<times> string) list" where
  "unique_recommendations env d = fold_tx (report_items env) (rev (list_shadow_evaluations d 1000)) []"

definition same_demand :: "json \<Rightarrow> demand_row \<Rightarrow> bool" where
  "same_demand item r \<longleftrightarrow>
     py_eq (JStr (dm_profile r)) (obj_get item ''profile_fingerprint'') \<and>
     py_eq (JStr (dm_provider r)) (obj_get item ''provider'') \<and>
     py_eq (JStr (dm_datacenter r)) (obj_get item ''target_region'')"

fun followed_up :: "pyenv \<Rightarrow> json \<Rightarrow> int \<Rightarrow> int \<Rightarrow> demand_row list \<Rightarrow> pyerr + bool" where
  \<comment> \<open>\<open>any\<close> stops at the first hit\<close>
  "followed_up env item first expiry [] = Inr False"
| "followed_up env item first expiry (r # rs) =
     (if \<not> same_demand item r then followed_up env item first expiry rs
      else
        (case parse_time env (dm_created_at r) of
           Inl e \<Rightarrow> Inl e
         | Inr t \<Rightarrow> if first < t \<and> t \<le> expiry then Inr True else followed_up env item first expiry rs))"

definition judge ::
  "pyenv \<Rightarrow> int \<Rightarrow> int \<Rightarrow> demand_row list \<Rightarrow> string \<times> json \<times> string \<Rightarrow> pyerr + (string \<times> bool) list"
where
  \<comment> \<open>nothing while it is too young to count against the policy\<close>
  "judge env now hours rows x =
     (case x of (i, item, created) \<Rightarrow>
     (case parse_time env created of Inl e \<Rightarrow> Inl e | Inr first \<Rightarrow>
     (case parse_time env (or_text env (obj_get item ''expires_at'') (iso_utc env now)) of Inl e \<Rightarrow> Inl e | Inr expiry \<Rightarrow>
     (case followed_up env item first expiry rows of Inl e \<Rightarrow> Inl e | Inr hit \<Rightarrow>
        if \<not> hit \<and> now < first + hours * hour_us then Inr [] else Inr [(i, hit)]))))"

record accuracy =
  ay_created_at :: string
  ay_unique :: nat
  ay_mature :: nat
  ay_validated :: nat
  ay_precision :: rat
  ay_required :: int
  ay_minimum :: json
  ay_hours :: int
  ay_passed :: bool

definition precision_of :: "(string \<times> bool) list \<Rightarrow> rat" where
  "precision_of verdicts =
     (if verdicts = [] then 0
      else of_nat (length (filter snd verdicts)) / of_nat (length verdicts))"

fun float_at_least :: "rat \<Rightarrow> json \<Rightarrow> bool" where
  \<comment> \<open>\<open>q >= v\<close>\<close>
  "float_at_least q (JFloat m) = (m \<le> q)"
| "float_at_least q (JInf b) = (\<not> b)"
| "float_at_least q v = False"

definition shadow_accuracy :: "pyenv \<Rightarrow> int \<Rightarrow> registry \<Rightarrow> json \<Rightarrow> pyerr + accuracy" where
  "shadow_accuracy env now d policy =
     (let r = policy_replication policy; minimum = obj_get r ''shadow_min_precision'' in
     (case int_setting r ''shadow_validation_hours'' 1 24 of Inl e \<Rightarrow> Inl e | Inr hours \<Rightarrow>
     (case int_setting r ''shadow_required_recommendations'' 3 10 of Inl e \<Rightarrow> Inl e | Inr required \<Rightarrow>
     (case py_float env (if truthy minimum then minimum else JFloat (4 / 5)) of Inl e \<Rightarrow> Inl e | Inr least \<Rightarrow>
     (case unique_recommendations env d of Inl e \<Rightarrow> Inl e | Inr unique \<Rightarrow>
     (case collect (judge env now hours (list_regional_demand d None)) unique of
        Inl e \<Rightarrow> Inl e
      | Inr verdicts \<Rightarrow>
          Inr \<lparr>ay_created_at = iso_utc env now, ay_unique = length unique, ay_mature = length verdicts,
               ay_validated = length (filter snd verdicts), ay_precision = round_to 6 (precision_of verdicts),
               ay_required = required, ay_minimum = least, ay_hours = hours,
               ay_passed = (required \<le> int (length verdicts) \<and>
                            float_at_least (precision_of verdicts) least)\<rparr>))))))"

end
