(* ===== verification/PolicyProps.thy ===== *)
theory PolicyProps
  imports Policy Samples
begin

text \<open>
  The normal form of the storage policy: what \<open>normalized_prepared_storage\<close> returns has the
  types of \<open>storage_type\<close>, and a policy that has them is returned as it is. The conversions of
  single fields meet one contract, \<open>normaliser\<close>.
\<close>

section \<open>Texts\<close>


lemma py_strip_strip [simp]: "py_strip (py_strip s) = py_strip s"
proof -
  define t where "t = dropWhile is_space s"
  define u where "u = rev (dropWhile is_space (rev t))"
  have t: "t = u @ rev (takeWhile is_space (rev t))"
    unfolding u_def by (metis rev_append rev_rev_ident takeWhile_dropWhile_id)
  have "dropWhile is_space t = t" unfolding t_def by (rule dropWhile_idem)
  then have "u \<noteq> [] \<Longrightarrow> \<not> is_space (hd u)"
    using t by (metis append_is_Nil_conv hd_append2 hd_dropWhile)
  then have "dropWhile is_space u = u" by (cases u) auto
  moreover have "dropWhile is_space (rev u) = rev u" unfolding u_def by (simp add: dropWhile_idem)
  ultimately show ?thesis by (simp add: py_strip_def flip: t_def u_def)
qed

section \<open>Steps\<close>

lemma field_kv_set: "field (kv_set k v d) k' = (if k' = k then v else field d k')"
  by (simp add: field_def map_of_kv_set or_default_def)

lemma run_nil: "run_all [] d = Inr d' \<longleftrightarrow> d' = d"
  by (auto simp: run_all_def)

lemma run_put:
  "run_all (put k f # fs) d = Inr d' \<longleftrightarrow>
     (\<exists>w. f (field d k) = Inr w \<and> run_all fs (kv_set k w d) = Inr d')"
  by (auto simp: run_all_def put_def split: sum.splits)

lemma run_refuse: "run_all (refuse b m # fs) d = Inr d' \<longleftrightarrow> \<not> b d \<and> run_all fs d = Inr d'"
  by (auto simp: run_all_def refuse_def)

lemmas run_steps = run_nil run_put run_refuse

section \<open>Fields\<close>

text \<open>What Python parses from a text is a float.\<close>

definition float_texts :: "pyenv \<Rightarrow> bool" where
  "float_texts env \<longleftrightarrow>
     (\<forall>s v. parse_float env s = Some v \<longrightarrow> (\<exists>q. v = JFloat q) \<or> v = JNaN \<or> (\<exists>b. v = JInf b))"

text \<open>
  A conversion that establishes a type and leaves the values of the type alone; it is idempotent.
\<close>

locale normaliser =
  fixes f :: "json \<Rightarrow> pyerr + json" and T :: "json \<Rightarrow> bool"
  assumes sound: "f v = Inr w \<Longrightarrow> T w" and fixed: "T v \<Longrightarrow> f v = Inr v"
begin
lemma idem: "f v = Inr w \<Longrightarrow> f w = Inr w"
  by (rule fixed [OF sound])
end

definition lower_char :: "char \<Rightarrow> char" where
  "lower_char c = (if is_upper c \<or> (192 \<le> code c \<and> code c \<le> 222 \<and> code c \<noteq> 215) then char_of (code c + 32) else c)"

lemma py_lower_map: "py_lower s = map lower_char s"
  by (simp add: py_lower_def lower_char_def)

lemma lower_space: "is_space (lower_char c) = is_space c"
  by (auto simp: lower_char_def is_space_def is_upper_def code_def)

lemma lower_char_idem: "lower_char (lower_char c) = lower_char c"
  by (auto simp: lower_char_def is_upper_def code_def)

lemma strip_lower: "py_strip (py_lower s) = py_lower (py_strip s)"
proof -
  have c: "is_space \<circ> lower_char = is_space" by (simp add: fun_eq_iff lower_space)
  show ?thesis by (simp add: py_strip_def py_lower_map dropWhile_map rev_map c)
qed

lemma lower_lower [simp]: "py_lower (py_lower s) = py_lower s"
  by (simp add: py_lower_map lower_char_idem)

lemma strip_lower_strip: "py_lower (py_strip (py_lower (py_strip s))) = py_lower (py_strip s)"
  by (simp add: strip_lower)

interpretation flags: normaliser flag "has_type Flag"
  by unfold_locales (auto simp: flag_def split: json.splits)

interpretation bounds: normaliser "bounded lo hi m" "has_type (Between lo hi)" for lo hi m
  by unfold_locales (auto simp: bounded_def split: json.splits sum.splits if_splits option.splits)

lemma float_result: "float_texts env \<Longrightarrow> py_float env v = Inr x \<Longrightarrow> (\<exists>q. x = JFloat q) \<or> x = JNaN \<or> (\<exists>b. x = JInf b)"
  by (cases v) (auto simp: float_texts_def split: if_splits option.splits)

lemma amount_normal: "float_texts env \<Longrightarrow> normaliser (amount env m) (has_type Cost)"
  by unfold_locales (auto simp: amount_def cost_value_def split: sum.splits if_splits json.splits dest!: float_result)

lemma span_normal: "float_texts env \<Longrightarrow> normaliser (span env m) (has_type Duration)"
  by unfold_locales (auto simp: span_def cost_value_def split: sum.splits if_splits json.splits dest!: float_result)

lemma share_normal: "normaliser (share env lo hi m) (has_type (Share lo hi))"
  by unfold_locales (auto simp: share_def split: sum.splits if_splits json.splits elim!: ranged.elims)


interpretation words: normaliser "word env" "\<lambda>v. \<exists>s. v = JStr s \<and> py_lower (py_strip s) = s" for env
proof
  show "word env v = Inr w \<Longrightarrow> \<exists>s. w = JStr s \<and> py_lower (py_strip s) = s" for v w
    using strip_lower_strip [of "py_str env v"] by (auto simp: word_def)
qed (auto simp: word_def)

interpretation names: normaliser "stripped env" "has_type Text" for env
  by unfold_locales (auto simp: stripped_def plain_text_def split: json.splits)

interpretation volumes: normaliser "volume_name env" "has_type Maybe_Text" for env
  by unfold_locales (auto simp: volume_name_def plain_text_def Let_def split: json.splits if_splits)

lemma set_first_seen [simp]: "set (first_seen xs) = set xs"
  by (induction xs rule: first_seen.induct) auto

lemma distinct_first_seen [simp]: "distinct (first_seen xs)"
  by (induction xs rule: first_seen.induct) auto

lemma first_seen_distinct: "distinct xs \<Longrightarrow> first_seen xs = xs"
  by (induction xs rule: first_seen.induct) (auto simp: filter_id_conv)

lemma plain_texts:
  "list_all (\<lambda>x. plain_text x \<and> x \<noteq> JStr []) xs \<Longrightarrow>
     map JStr (filter (\<lambda>s. s \<noteq> []) (map (\<lambda>x. py_strip (py_str env x)) xs)) = xs"
  by (induction xs) (auto simp: plain_text_def split: json.splits)

lemma distinct_texts: "distinct (map JStr ss) \<longleftrightarrow> distinct ss"
  by (simp add: distinct_map inj_on_def)

interpretation regions: normaliser "region_list env" "has_type Regions" for env
proof
  show "has_type Regions w" if "region_list env v = Inr w" for v w
    using that by (auto simp: region_list_def distinct_texts list_all_iff plain_text_def split: json.splits)
  show "region_list env v = Inr v" if "has_type Regions v" for v
  proof (cases v)
    case (JArr xs)
    let ?ss = "filter (\<lambda>s. s \<noteq> []) (map (\<lambda>x. py_strip (py_str env x)) xs)"
    have ss: "map JStr ?ss = xs" using that JArr by (intro plain_texts) simp
    have "distinct xs" using that JArr by simp
    then have "first_seen ?ss = ?ss" using ss by (metis distinct_texts first_seen_distinct)
    then have "map JStr (first_seen ?ss) = xs" using ss by metis
    then show ?thesis unfolding JArr region_list_def by simp
  qed (use that in auto)
qed

section \<open>Keys\<close>

lemma keys_kv_set: "k \<in> set (map fst d) \<Longrightarrow> map fst (kv_set k v d) = map fst d"
  by (induction d) force+

definition keeps_keys :: "string list \<Rightarrow> (dict \<Rightarrow> pyerr + dict) \<Rightarrow> bool" where
  "keeps_keys ks f \<longleftrightarrow> (\<forall>d d'. map fst d = ks \<longrightarrow> f d = Inr d' \<longrightarrow> map fst d' = ks)"

lemma keeps_put: "k \<in> set ks \<Longrightarrow> keeps_keys ks (put k f)"
  by (auto simp: keeps_keys_def put_def keys_kv_set simp del: set_map split: sum.splits)

lemma keeps_refuse: "keeps_keys ks (refuse b m)"
  by (simp add: keeps_keys_def refuse_def)

lemma run_keys:
  assumes "run_all fs d = Inr r" and "list_all (keeps_keys ks) fs" and "map fst d = ks"
  shows "map fst r = ks"
  by (rule fold_tx_invariant [where P = "\<lambda>d. map fst d = ks", OF assms(1) [unfolded run_all_def] assms(3)])
    (use assms(2) in \<open>auto simp: keeps_keys_def list_all_iff\<close>)

lemma run_accept: "\<not> b d \<Longrightarrow> run_all (refuse b m # fs) d = run_all fs d"
  by (simp add: run_all_def refuse_def)

lemma kv_set_same: "k \<in> set (map fst d) \<Longrightarrow> kv_set k (field d k) d = d"
  by (induction d) (force simp: field_def or_default_def)+

lemma run_put_fixed:
  "f (field d k) = Inr (field d k) \<Longrightarrow> k \<in> set (map fst d) \<Longrightarrow> run_all (put k f # fs) d = run_all fs d"
  by (simp add: run_all_def put_def kv_set_same)

lemma field_Cons: "field ((k, v) # d) k' = (if k' = k then v else field d k')"
  by (simp add: field_def or_default_def)

lemma fields_typed_iff:
  "distinct (map fst ts) \<Longrightarrow>
   fields_typed ts d \<longleftrightarrow> map fst d = map fst ts \<and> (\<forall>(k, t) \<in> set ts. has_type t (field d k))"
proof (induction ts arbitrary: d)
  case Nil
  then show ?case by simp
next
  case (Cons kt ts)
  obtain k t where kt: "kt = (k, t)" by fastforce
  show ?case
  proof (cases d)
    case Nil
    then show ?thesis by (simp add: kt)
  next
    case (Cons kv d')
    obtain k' v where kv: "kv = (k', v)" by fastforce
    have other: "field ((k, v) # d') l = field d' l" if "(l, u) \<in> set ts" for l u
      using that Cons.prems kt by (force simp: field_Cons)
    show ?thesis using Cons.IH [of d'] Cons.prems other by (auto simp: kt kv Cons field_Cons)
  qed
qed

lemma dict_merge_keys: "set (map fst b) \<subseteq> set (map fst a) \<Longrightarrow> map fst (dict_merge a b) = map fst a"
proof (induction b arbitrary: a)
  case Nil
  then show ?case by (simp add: dict_merge_def)
next
  case (Cons kv b)
  obtain k v where kv: "kv = (k, v)" by fastforce
  have k: "map fst (kv_set k v a) = map fst a" using Cons.prems kv by (intro keys_kv_set) simp
  have "set (map fst b) \<subseteq> set (map fst (kv_set k v a))" unfolding k using Cons.prems by simp
  from Cons.IH [OF this] show ?case by (simp add: dict_merge_def kv k)
qed

lemma kv_set_at: "k \<notin> fst ` set p \<Longrightarrow> kv_set k v (p @ (k, w) # a) = p @ (k, v) # a"
  by (induction p) auto

lemma dict_merge_same:
  assumes "map fst a = map fst b" and "distinct (map fst b)"
  shows "dict_merge a b = b"
proof -
  have "foldl (\<lambda>d (k, v). kv_set k v d) (p @ a) b = p @ b"
    if "map fst a = map fst b" "distinct (map fst (p @ b))" for p a b
    using that
  proof (induction b arbitrary: p a)
    case Nil
    then show ?case by simp
  next
    case (Cons kv b)
    obtain k v where kv: "kv = (k, v)" by fastforce
    obtain w a' where a: "a = (k, w) # a'" "map fst a' = map fst b" using Cons.prems(1) kv by (cases a) auto
    have "foldl (\<lambda>d (k, v). kv_set k v d) ((p @ [(k, v)]) @ a') b = (p @ [(k, v)]) @ b"
      using Cons.prems a(2) kv by (intro Cons.IH) auto
    then show ?case using Cons.prems by (simp add: a kv kv_set_at)
  qed
  from this [of a b "[]"] show ?thesis using assms by (simp add: dict_merge_def)
qed

section \<open>The replication\<close>

definition typed :: "(string \<times> field_type) list \<Rightarrow> dict \<Rightarrow> bool" where
  "typed ts d \<longleftrightarrow> (\<forall>(k, t) \<in> set ts. has_type t (field d k))"

definition replication_consistent :: "dict \<Rightarrow> bool" where
  "replication_consistent r \<longleftrightarrow>
     (field r ''mode'' = JStr ''automatic'' \<longrightarrow>
        field r ''monthly_budget_usd'' \<noteq> JNull \<and> field r ''approved_regions'' \<noteq> JArr [])"

lemma replication_sound:
  assumes env: "float_texts env" and r: "run_all (replication_steps env) d = Inr r"
  shows "typed replication_type r \<and> replication_consistent r"
proof -
  note amounts = normaliser.sound [OF amount_normal [OF env]]
  note times = normaliser.sound [OF span_normal [OF env]]
  note shares = normaliser.sound [OF share_normal]
  show ?thesis
    using r unfolding typed_def replication_type_def replication_consistent_def
    by (simp add: replication_steps_def run_steps field_kv_set known_word_def del: ex_simps has_type.simps,
        elim exE conjE, intro conjI impI,
        simp_all add: field_kv_set amounts times shares bounds.sound regions.sound has_type.simps(2)
          del: has_type.simps(1,3-))
      auto
qed

lemma replication_fixed:
  assumes env: "float_texts env" and keys: "map fst d = map fst replication_type"
    and t: "typed replication_type d" and c: "replication_consistent d"
  shows "run_all (replication_steps env) d = Inr d"
proof -
  note amounts = normaliser.fixed [OF amount_normal [OF env]]
  note times = normaliser.fixed [OF span_normal [OF env]]
  note shares = normaliser.fixed [OF share_normal]
  have mode: "word env (field d ''mode'') = Inr (field d ''mode'')" "known_word ''mode'' replication_modes d"
    using t by (auto simp: typed_def replication_type_def replication_modes_def known_word_def word_def py_lower_def is_upper_def
        py_strip_def is_space_def code_def)
  have regions: "field d ''mode'' = JStr ''automatic'' \<Longrightarrow> truthy (field d ''approved_regions'')"
    using t c by (auto simp: typed_def replication_type_def replication_consistent_def split: json.splits)
  show ?thesis
    using t c mode regions unfolding typed_def replication_type_def replication_consistent_def
    by (simp add: replication_steps_def run_put_fixed keys run_refuse amounts times shares bounds.fixed regions.fixed
        run_nil replication_type_def del: has_type.simps)
qed

section \<open>The policy\<close>

definition own_type :: "(string \<times> field_type) list" where
  "own_type = filter (\<lambda>(k, t). k \<noteq> ''replication'') storage_type"

definition own_consistent :: "json \<Rightarrow> dict \<Rightarrow> bool" where
  "own_consistent monthly d \<longleftrightarrow>
     (field d ''policy'' = JStr ''pinned'' \<longrightarrow> py_lower (text_value (field d ''region'')) \<noteq> ''auto'') \<and>
     (field d ''max_monthly_storage_cost'' \<noteq> JNull \<and> monthly \<noteq> JNull \<longrightarrow>
        \<not> float_less (field d ''max_monthly_storage_cost'') monthly) \<and>
     (field d ''enabled'' = JBool True \<longrightarrow>
        field d ''policy'' \<noteq> JStr ''off'' \<and> field d ''confirmed'' = JBool True)"

lemma run_total: "run_all ((\<lambda>d. Inr (g d)) # fs) d = run_all fs (g d)"
  by (simp add: run_all_def)

lemma own_types:
  "own_type =
     [(''enabled'', Flag), (''provider'', Word [''runpod'']),
      (''policy'', Word [''off'', ''smart'', ''strict'', ''pinned'']), (''region'', Text),
      (''cold_fallback'', Word [''allow'', ''ask'', ''deny'']),
      (''managed_size_gb'', Between 10 (Some 4000)), (''existing_volume_id'', Maybe_Text),
      (''max_monthly_storage_cost'', Cost), (''confirmed'', Flag), (''tenant'', Filled),
      (''cache_private_assets'', Flag), (''shadow_admission'', Flag)]"
  by (simp add: own_type_def storage_type_def)

lemma field_if: "field (if b then d else e) k = (if b then field d k else field e k)"
  by simp

lemma storage_sound:
  assumes env: "float_texts env" and t: "run_all (text_steps env) d = Inr d1"
    and r: "run_all (storage_steps env monthly) d1 = Inr r"
  shows "typed own_type r \<and> own_consistent monthly r \<and> field r ''replication'' = field d ''replication''"
proof -
  note amounts = normaliser.sound [OF amount_normal [OF env]]
  have "d1 =
    kv_set ''tenant'' (JStr (py_strip (py_str env (field d ''tenant''))))
      (kv_set ''cold_fallback'' (JStr (py_lower (py_strip (py_str env (field d ''cold_fallback'')))))
      (kv_set ''region'' (JStr (py_strip (py_str env (field d ''region''))))
      (kv_set ''policy'' (JStr (py_lower (py_strip (py_str env (field d ''policy'')))))
      (kv_set ''provider'' (JStr (py_lower (py_strip (py_str env (field d ''provider'')))))
      (kv_set ''shadow_admission'' (JBool (truthy (field d ''shadow_admission'')))
      (kv_set ''cache_private_assets'' (JBool (truthy (field d ''cache_private_assets'')))
      (kv_set ''confirmed'' (JBool (truthy (field d ''confirmed'')))
      (kv_set ''enabled'' (JBool (truthy (field d ''enabled''))) d))))))))"
    using t by (simp add: text_steps_def run_steps field_kv_set flag_def word_def stripped_def)
  then show ?thesis
    using r unfolding typed_def own_types own_consistent_def
    apply (simp add: storage_steps_def run_steps run_total field_kv_set known_word_def storage_min_gb_def
        storage_max_gb_def del: ex_simps has_type.simps split del: if_split)
    apply (elim exE conjE)
    apply hypsubst
    apply (intro conjI impI)
    apply (simp_all add: field_kv_set field_if amounts bounds.sound volumes.sound has_type.simps(1-4) plain_text_def
        lower_is_def text_value_def del: has_type.simps(5-))
    apply (auto simp: field_kv_set split: if_splits)
    done
qed

lemma storage_fixed:
  assumes env: "float_texts env" and keys: "map fst d = map fst storage_type"
    and t: "typed own_type d" and c: "own_consistent monthly d"
  shows "run_all (text_steps env) d = Inr d" "run_all (storage_steps env monthly) d = Inr d"
proof -
  note amounts = normaliser.fixed [OF amount_normal [OF env]]
  have word: "word env (field d k) = Inr (field d k)" if "field d k \<in> JStr ` set ws"
    "list_all (\<lambda>s. py_lower (py_strip s) = s) ws" for k ws
    using that by (auto simp: word_def list_all_iff)
  have low: "list_all (\<lambda>s. py_lower (py_strip s) = s) [''runpod'']"
    "list_all (\<lambda>s. py_lower (py_strip s) = s) [''off'', ''smart'', ''strict'', ''pinned'']"
    "list_all (\<lambda>s. py_lower (py_strip s) = s) [''allow'', ''ask'', ''deny'']"
    by code_simp+
  have ty: "has_type ty (field d k)" if "(k, ty) \<in> set own_type" for k ty
    using t that by (auto simp: typed_def)
  have in_words: "field d k \<in> JStr ` set ws" if "(k, Word ws) \<in> set own_type" for k ws
    using ty [OF that] by simp
  have "(''provider'', Word [''runpod'']) \<in> set own_type"
    "(''policy'', Word [''off'', ''smart'', ''strict'', ''pinned'']) \<in> set own_type"
    "(''cold_fallback'', Word [''allow'', ''ask'', ''deny'']) \<in> set own_type"
    by (simp_all add: own_types)
  note word_fields = this [THEN in_words]
  note words = word [OF word_fields(1) low(1)] word [OF word_fields(2) low(2)] word [OF word_fields(3) low(3)]
  have tenant: "stripped env (field d ''tenant'') = Inr (field d ''tenant'')" "truthy (field d ''tenant'')"
    using ty [of "''tenant''" Filled] by (auto simp: own_types stripped_def plain_text_def split: json.splits)
  have size: "bounded 10 hi m (field d ''managed_size_gb'') = Inr (field d ''managed_size_gb'')"
    if "hi \<in> {None, Some 4000}" for hi m
    using that ty [of "''managed_size_gb''" "Between 10 (Some 4000)"]
    by (auto simp: own_types bounded_def split: json.splits)
  have pinned: "field d ''policy'' = JStr ''pinned'' \<Longrightarrow> \<not> lower_is ''auto'' (field d ''region'')"
    using c by (auto simp: own_consistent_def lower_is_def text_value_def split: json.splits)
  have off: "(if field d ''policy'' = JStr ''off'' then kv_set ''enabled'' (JBool False) d else d) = d"
  proof -
    have "field d ''enabled'' = JBool False" if "field d ''policy'' = JStr ''off''"
      using that c ty [of "''enabled''" Flag] by (auto simp: own_types own_consistent_def split: json.splits)
    moreover have "kv_set ''enabled'' (field d ''enabled'') d = d"
      by (rule kv_set_same) (simp add: keys storage_type_def)
    ultimately show ?thesis by auto
  qed
  have confirmed: "\<not> (truthy (field d ''enabled'') \<and> \<not> truthy (field d ''confirmed''))"
    using c ty [of "''enabled''" Flag] by (auto simp: own_types own_consistent_def split: json.splits)
  have budget: "field d ''max_monthly_storage_cost'' = JNull \<or> monthly = JNull \<or>
      \<not> float_less (field d ''max_monthly_storage_cost'') monthly"
    using c by (auto simp: own_consistent_def)
  have flag: "flag (field d k) = Inr (field d k)" if "(k, Flag) \<in> set own_type" for k
    using flags.fixed [OF ty [OF that]] .
  show "run_all (text_steps env) d = Inr d"
    using words tenant names.fixed [OF ty [of "''region''" Text]] flag
    by (simp add: text_steps_def run_put_fixed keys run_nil storage_type_def own_types)
  show "run_all (storage_steps env monthly) d = Inr d"
    using word_fields tenant(2) pinned confirmed budget ty [of "''existing_volume_id''" Maybe_Text]
      ty [of "''max_monthly_storage_cost''" Cost]
    by (simp add: storage_steps_def run_put_fixed run_total keys run_nil run_refuse storage_type_def own_types size
      known_word_def storage_min_gb_def storage_max_gb_def volumes.fixed amounts off del: has_type.simps)
qed

section \<open>The normal form\<close>

lemma obj_field: "obj_get (JObj d) k = field d k"
  by (simp add: field_def or_default_def split: option.splits)

lemma section_typed:
  assumes "distinct (map fst ts)"
  shows "has_type (Section ts) v \<longleftrightarrow> (\<exists>d. v = JObj d \<and> map fst d = map fst ts \<and> typed ts d)"
  by (cases v) (auto simp: fields_typed_iff [OF assms] typed_def)

lemma distinct_fields: "distinct (map fst storage_type)" "distinct (map fst replication_type)"
  by (simp_all add: storage_type_def replication_type_def)

lemma default_keys:
  "map fst storage_defaults = map fst storage_type" "map fst replication_defaults = map fst replication_type"
  by (simp_all add: storage_type_def replication_type_def storage_defaults_def replication_defaults_def)

lemma unknown_none: "unknown_keys d defaults = [] \<longleftrightarrow> set (map fst d) \<subseteq> set (map fst defaults)"
  unfolding unknown_keys_def by (auto simp: filter_empty_conv simp flip: set_empty)

lemma typed_split:
  "typed storage_type d \<longleftrightarrow> typed own_type d \<and> has_type (Section replication_type) (field d ''replication'')"
  unfolding typed_def own_type_def by (auto simp: storage_type_def simp del: has_type.simps)

lemma consistent_split:
  assumes "field d ''replication'' = JObj r"
  shows "policy_consistent (JObj d) \<longleftrightarrow>
     replication_consistent r \<and> own_consistent (field r ''monthly_budget_usd'') d"
  by (auto simp: policy_consistent_def obj_field assms Let_def replication_consistent_def own_consistent_def
      simp del: obj_get.simps)

lemma replication_steps_keys: "list_all (keeps_keys (map fst replication_type)) (replication_steps env)"
  by (simp add: replication_steps_def keeps_refuse keeps_put replication_type_def)

lemma storage_steps_keys:
  "list_all (keeps_keys (map fst storage_type)) (text_steps env)"
  "list_all (keeps_keys (map fst storage_type)) (storage_steps env monthly)"
proof -
  have "keeps_keys (map fst storage_type)
      (\<lambda>d. Inr (if field d ''policy'' = JStr ''off'' then kv_set ''enabled'' (JBool False) d else d))"
    by (auto simp: keeps_keys_def keys_kv_set storage_type_def simp del: set_map)
  then show "list_all (keeps_keys (map fst storage_type)) (storage_steps env monthly)"
    by (simp add: storage_steps_def keeps_refuse keeps_put storage_type_def)
  show "list_all (keeps_keys (map fst storage_type)) (text_steps env)"
    by (simp add: text_steps_def keeps_put storage_type_def)
qed

lemma defaults_normal: "policy_normal (JObj storage_defaults)"
  unfolding policy_normal_def by code_simp

lemma normalize_replication_sound:
  assumes env: "float_texts env" and r: "normalize_replication env v = Inr r"
  shows "map fst r = map fst replication_type \<and> typed replication_type r \<and> replication_consistent r"
proof -
  obtain kvs where v: "v = JObj kvs" "unknown_keys kvs replication_defaults = []"
    and run: "run_all (replication_steps env) (dict_merge replication_defaults kvs) = Inr r"
    using r by (auto simp: normalize_replication_def split: json.splits if_splits)
  have "map fst (dict_merge replication_defaults kvs) = map fst replication_type"
    using v(2) by (simp only: unknown_none dict_merge_keys default_keys)
  from run_keys [OF run replication_steps_keys this] replication_sound [OF env run] show ?thesis by simp
qed

lemma normalized_sound:
  assumes env: "float_texts env" and p: "normalized_prepared_storage env v = Inr p"
  shows "policy_normal p"
proof (cases "v = JNull")
  case True
  then show ?thesis using p defaults_normal by (simp add: normalized_prepared_storage_def)
next
  case False
  then obtain kvs rep d r where v: "v = JObj kvs" "unknown_keys kvs storage_defaults = []"
    and rep: "normalize_replication env (replication_value (field kvs ''replication'')) = Inr rep"
    and t: "run_all (text_steps env) (kv_set ''replication'' (JObj rep) (dict_merge storage_defaults kvs)) = Inr d"
    and s: "run_all (storage_steps env (field rep ''monthly_budget_usd'')) d = Inr r" and r: "p = JObj r"
    using p by (auto simp: normalized_prepared_storage_def Let_def split: json.splits if_splits sum.splits)
  have merged: "map fst (dict_merge storage_defaults kvs) = map fst storage_type"
    using v(2) by (simp only: unknown_none dict_merge_keys default_keys)
  have "map fst (kv_set ''replication'' (JObj rep) (dict_merge storage_defaults kvs)) = map fst storage_type"
    by (subst keys_kv_set; simp only: merged) (simp add: storage_type_def)
  from run_keys [OF s storage_steps_keys(2) run_keys [OF t storage_steps_keys(1) this]]
  have keys: "map fst r = map fst storage_type" .
  have own: "typed own_type r" "own_consistent (field rep ''monthly_budget_usd'') r" "field r ''replication'' = JObj rep"
    using storage_sound [OF env t s] by (simp_all add: field_kv_set)
  show ?thesis
    using normalize_replication_sound [OF env rep] own keys
    unfolding policy_normal_def section_typed [OF distinct_fields(1)] typed_split r consistent_split [OF own(3)]
    by (auto simp: section_typed [OF distinct_fields(2)] simp del: has_type.simps)
qed

lemma normalized_fixed:
  assumes env: "float_texts env" and p: "policy_normal p"
  shows "normalized_prepared_storage env p = Inr p"
proof -
  obtain d where d: "p = JObj d" "map fst d = map fst storage_type" "typed storage_type d" "policy_consistent (JObj d)"
    using p unfolding policy_normal_def section_typed [OF distinct_fields(1)] by auto
  obtain r where r: "field d ''replication'' = JObj r" "map fst r = map fst replication_type" "typed replication_type r"
    using d(3) unfolding typed_split section_typed [OF distinct_fields(2)] by auto
  have c: "replication_consistent r" "own_consistent (field r ''monthly_budget_usd'') d"
    using d(4) consistent_split [OF r(1)] by simp_all
  have rep: "normalize_replication env (JObj r) = Inr r"
    using replication_fixed [OF env r(2,3) c(1)] dict_merge_same [of replication_defaults r]
    by (simp add: normalize_replication_def unknown_none default_keys r(2) distinct_fields del: set_map)
  have no_secret: "filter secret_key (map fst d) = []"
    unfolding d(2) storage_type_def by code_simp
  have merge: "dict_merge storage_defaults d = d"
    by (rule dict_merge_same) (simp_all add: default_keys d(2) distinct_fields)
  have same: "kv_set ''replication'' (JObj r) d = d"
    unfolding r(1) [symmetric] by (rule kv_set_same) (simp add: d(2) storage_type_def)
  have own: "typed own_type d" using d(3) typed_split by simp
  show ?thesis
    using rep storage_fixed [OF env d(2) own c(2)] no_secret
    by (simp add: normalized_prepared_storage_def d(1) unknown_none default_keys d(2) merge same r(1)
        replication_value_def Let_def del: set_map)
qed
section \<open>Properties\<close>

definition float_env :: pyenv where
  "float_env = sample_env\<lparr>parse_float := \<lambda>s. if s = ''nan'' then Some JNaN else None\<rparr>"

lemma float_env_texts: "float_texts float_env"
  by (simp add: float_texts_def float_env_def)

definition raw_policy :: json where
  "raw_policy =
     JObj [(''policy'', JStr '' Pinned ''), (''region'', JStr ''EU-1''), (''enabled'', JInt 1),
           (''confirmed'', JBool True), (''managed_size_gb'', JStr ''300''),
           (''replication'', JObj [(''mode'', JStr ''AUTOMATIC''), (''max_inflight'', JFloat 2),
              (''approved_regions'', JArr [JStr ''EU-1'', JStr '' '', JStr '' EU-1'']),
              (''monthly_budget_usd'', JInt 20)])]"

definition clean_policy :: json where
  "clean_policy =
     JObj [(''enabled'', JBool True), (''provider'', JStr ''runpod''), (''policy'', JStr ''pinned''),
           (''region'', JStr ''EU-1''), (''cold_fallback'', JStr ''allow''), (''managed_size_gb'', JInt 300),
           (''existing_volume_id'', JNull), (''max_monthly_storage_cost'', JNull),
           (''confirmed'', JBool True), (''tenant'', JStr ''default''),
           (''cache_private_assets'', JBool False), (''shadow_admission'', JBool True),
           (''replication'', JObj
             [(''mode'', JStr ''automatic''), (''approved_regions'', JArr [JStr ''EU-1'']),
              (''monthly_budget_usd'', JFloat 20), (''ttl_days'', JInt 30), (''demand_window_days'', JInt 30),
              (''min_hits'', JInt 3), (''min_avoided_gpu_seconds'', JFloat 600),
              (''transfer_cost_per_gb_usd'', JNull), (''max_inflight'', JInt 2),
              (''shadow_required_recommendations'', JInt 10), (''shadow_validation_hours'', JInt 24),
              (''shadow_min_precision'', JFloat (4 / 5)), (''controller_interval_seconds'', JInt 300),
              (''copy_timeout_seconds'', JInt 21600)])]"

lemma raw_policy_cleaned: "normalized_prepared_storage float_env raw_policy = Inr clean_policy"
  by code_simp

text \<open>C6: Whatever value the configuration holds for the storage policy, if it is accepted the
  result has every field, in order and of its type (flags, known words, bounded integers, costs
  that are not negative, distinct region names), and the fields agree with each other: automatic
  replication has a budget and regions, a pinned policy is not pinned to \<open>auto\<close>, the replication
  budget fits the total budget, an enabled policy is confirmed and not off.\<close>

theorem policy_typed:
  assumes "float_texts env" and "normalized_prepared_storage env v = Inr p"
  shows "has_type (Section storage_type) p \<and> policy_consistent p"
  using normalized_sound [OF assms] unfolding policy_normal_def .

theorem policy_typed_witness: "has_type (Section storage_type) clean_policy \<and> policy_consistent clean_policy"
  by (rule policy_typed [OF float_env_texts raw_policy_cleaned])

text \<open>C7: The policies that the normalisation leaves unchanged are exactly those of the normal form,
  so to normalise twice is to normalise once: the configuration may be written back and read again.\<close>

theorem policy_stable:
  assumes "float_texts env"
  shows "(normalized_prepared_storage env p = Inr p \<longleftrightarrow>
            has_type (Section storage_type) p \<and> policy_consistent p) \<and>
         (normalized_prepared_storage env v = Inr p \<longrightarrow> normalized_prepared_storage env p = Inr p)"
  using normalized_sound [OF assms] normalized_fixed [OF assms] unfolding policy_normal_def by blast

theorem policy_stable_witness:
  "normalized_prepared_storage float_env clean_policy = Inr clean_policy \<and>
   has_type (Section storage_type) clean_policy"
  using policy_stable [OF float_env_texts, of clean_policy raw_policy] raw_policy_cleaned by blast

text \<open>A policy with a key that looks like a credential is refused whatever else it holds, and so
  is one with an unknown key: no secret reaches the stored configuration.\<close>

theorem policy_refuses_secrets:
  assumes "k \<in> set (map fst kvs)" and "secret_key k \<or> k \<notin> set (map fst storage_defaults)"
  shows "\<exists>m. normalized_prepared_storage env (JObj kvs) = Inl (ValueError m)"
proof (cases "filter secret_key (map fst kvs) = []")
  case True
  then have "\<not> secret_key k" using assms(1) by (auto simp: filter_empty_conv)
  then have "unknown_keys kvs storage_defaults \<noteq> []" using assms unfolding unknown_none by blast
  then show ?thesis using True by (simp add: normalized_prepared_storage_def listed_def)
next
  case False
  then have "sort (remdups (filter secret_key (map fst kvs))) \<noteq> []"
    by (metis set_empty set_remdups set_sort)
  then show ?thesis by (simp add: normalized_prepared_storage_def listed_def)
qed

theorem policy_refuses_secrets_witness:
  "\<exists>m. normalized_prepared_storage float_env (JObj [(''policy'', JStr ''off''), (''S3_Secret'', JStr ''x'')]) =
     Inl (ValueError m)"
  by (rule policy_refuses_secrets [of "''S3_Secret''"]; code_simp)

end
