(* ===== verification/RegistryLaws.thy ===== *)
theory RegistryLaws
  imports Replicas
begin

text \<open>
  The invariant of the registry and that every operation keeps it: keys are unique, every row
  has its volume, no artifact is eligible on a volume where its digest is invalidated, at most
  one live copy per recommendation and one held target per region.
\<close>

section \<open>The invariant\<close>

abbreviation volume_ids :: "registry \<Rightarrow> string list" where
  "volume_ids d \<equiv> map cv_id (rg_volumes d)"

definition manifest_key :: "manifest_row \<Rightarrow> string \<times> string" where
  "manifest_key r = (mf_volume r, mf_id r)"

definition artifact_key_of :: "artifact_row \<Rightarrow> string \<times> string" where
  "artifact_key_of r = (ca_volume r, ca_digest r)"

definition invalidation_key :: "invalidation_row \<Rightarrow> string \<times> string" where
  "invalidation_key r = (iv_volume r, iv_digest r)"

definition content_ok ::
  "string list \<Rightarrow> manifest_row list \<Rightarrow> artifact_row list \<Rightarrow> invalidation_row list \<Rightarrow> bool"
where
  "content_ok vs ms as is \<longleftrightarrow>
     distinct vs \<and> distinct (map manifest_key ms) \<and> distinct (map artifact_key_of as) \<and>
     distinct (map invalidation_key is) \<and>
     mf_volume ` set ms \<subseteq> set vs \<and> ca_volume ` set as \<subseteq> set vs \<and> iv_volume ` set is \<subseteq> set vs \<and>
     (\<forall>r \<in> set as. ca_eligibility r = ''eligible'' \<longrightarrow> artifact_key_of r \<notin> invalidation_key ` set is)"

definition actions_ok :: "string list \<Rightarrow> replication_row list \<Rightarrow> action_row list \<Rightarrow> bool" where
  "actions_ok vs ps as \<longleftrightarrow>
     distinct (map ac_id as) \<and> distinct (map ac_recommendation (filter action_live as)) \<and>
     ac_source ` set as \<subseteq> set vs \<and> ac_target ` set as \<subseteq> set vs \<and>
     rp_source ` set ps \<subseteq> set vs \<and> rp_target ` set ps \<subseteq> set vs"

definition targets_ok :: "target_row list \<Rightarrow> bool" where
  "targets_ok ts \<longleftrightarrow> distinct (map tg_id ts) \<and> unique_targets ts"

definition registry_ok :: "registry \<Rightarrow> bool" where
  "registry_ok d \<longleftrightarrow>
     content_ok (volume_ids d) (rg_manifests d) (rg_artifacts d) (rg_invalidations d) \<and>
     actions_ok (volume_ids d) (rg_replications d) (rg_actions d) \<and> targets_ok (rg_targets d)"

lemma empty_registry_ok: "registry_ok empty_registry"
  by (simp add: registry_ok_def content_ok_def actions_ok_def targets_ok_def unique_targets_def
        empty_registry_def)

section \<open>Helpers\<close>

lemma list_all2_in: "list_all2 R xs ys \<Longrightarrow> y \<in> set ys \<Longrightarrow> \<exists>x \<in> set xs. R x y"
  by (induction rule: list_all2_induct) auto

lemma keys_image: "map k xs = map k ys \<Longrightarrow> k ` set xs = k ` set ys"
  by (metis set_map)

lemma volume_exists_iff: "volume_exists d i \<longleftrightarrow> i \<in> set (volume_ids d)"
  by (auto simp: volume_exists_def find_volume_def find_None_iff)

lemma invalidated_iff: "invalidated d vol g \<longleftrightarrow> (vol, g) \<in> invalidation_key ` set (rg_invalidations d)"
  by (auto simp: invalidated_def invalidation_key_def)

lemma update_volume_frame [simp]:
  "rg_manifests (update_volume i f d) = rg_manifests d"
  "rg_artifacts (update_volume i f d) = rg_artifacts d"
  "rg_invalidations (update_volume i f d) = rg_invalidations d"
  "rg_observations (update_volume i f d) = rg_observations d"
  "rg_replications (update_volume i f d) = rg_replications d"
  "rg_demand (update_volume i f d) = rg_demand d"
  "rg_shadows (update_volume i f d) = rg_shadows d"
  "rg_actions (update_volume i f d) = rg_actions d"
  "rg_targets (update_volume i f d) = rg_targets d"
  by (simp_all add: update_volume_def)

lemma update_volume_ids: "(\<And>v. cv_id (f v) = cv_id v) \<Longrightarrow> volume_ids (update_volume i f d) = volume_ids d"
  by (simp add: update_volume_def map_update_where_key)

text \<open>\<open>same_ledger d d'\<close>: only the content of the volumes may differ.\<close>

definition same_ledger :: "registry \<Rightarrow> registry \<Rightarrow> bool" where
  "same_ledger d d' \<longleftrightarrow>
     volume_ids d' = volume_ids d \<and> rg_replications d' = rg_replications d \<and>
     rg_actions d' = rg_actions d \<and> rg_targets d' = rg_targets d"

lemma same_ledger_refl [simp]: "same_ledger d d"
  by (simp add: same_ledger_def)

lemma same_ledger_trans: "same_ledger d e \<Longrightarrow> same_ledger e f \<Longrightarrow> same_ledger d f"
  by (simp add: same_ledger_def)

definition contents :: "registry \<Rightarrow> bool" where
  "contents d \<longleftrightarrow> content_ok (volume_ids d) (rg_manifests d) (rg_artifacts d) (rg_invalidations d)"

lemma contentsI:
  assumes "distinct (volume_ids d)" "distinct (map manifest_key (rg_manifests d))"
    "distinct (map artifact_key_of (rg_artifacts d))" "distinct (map invalidation_key (rg_invalidations d))"
    "mf_volume ` set (rg_manifests d) \<subseteq> set (volume_ids d)"
    "ca_volume ` set (rg_artifacts d) \<subseteq> set (volume_ids d)"
    "iv_volume ` set (rg_invalidations d) \<subseteq> set (volume_ids d)"
    "\<And>r. r \<in> set (rg_artifacts d) \<Longrightarrow> ca_eligibility r = ''eligible'' \<Longrightarrow>
        artifact_key_of r \<notin> invalidation_key ` set (rg_invalidations d)"
  shows "contents d"
  unfolding contents_def content_ok_def using assms by blast

lemma contentsD:
  assumes "contents d"
  shows "distinct (volume_ids d)" "distinct (map manifest_key (rg_manifests d))"
    "distinct (map artifact_key_of (rg_artifacts d))" "distinct (map invalidation_key (rg_invalidations d))"
    "mf_volume ` set (rg_manifests d) \<subseteq> set (volume_ids d)"
    "ca_volume ` set (rg_artifacts d) \<subseteq> set (volume_ids d)"
    "iv_volume ` set (rg_invalidations d) \<subseteq> set (volume_ids d)"
    "\<And>r. r \<in> set (rg_artifacts d) \<Longrightarrow> ca_eligibility r = ''eligible'' \<Longrightarrow>
        artifact_key_of r \<notin> invalidation_key ` set (rg_invalidations d)"
proof -
  note c = assms [unfolded contents_def content_ok_def]
  show "distinct (volume_ids d)" "distinct (map manifest_key (rg_manifests d))"
    "distinct (map artifact_key_of (rg_artifacts d))" "distinct (map invalidation_key (rg_invalidations d))"
    "mf_volume ` set (rg_manifests d) \<subseteq> set (volume_ids d)"
    "ca_volume ` set (rg_artifacts d) \<subseteq> set (volume_ids d)"
    "iv_volume ` set (rg_invalidations d) \<subseteq> set (volume_ids d)"
    by (simp_all only: c)
  show "\<And>r. r \<in> set (rg_artifacts d) \<Longrightarrow> ca_eligibility r = ''eligible'' \<Longrightarrow>
        artifact_key_of r \<notin> invalidation_key ` set (rg_invalidations d)"
    using c by (elim conjE) (drule bspec, assumption, drule mp, assumption, assumption)
qed

lemma same_ledger_ok: "registry_ok d \<Longrightarrow> same_ledger d d' \<Longrightarrow> contents d' \<Longrightarrow> registry_ok d'"
  by (simp add: registry_ok_def same_ledger_def contents_def)

lemma registry_ok_contents: "registry_ok d \<Longrightarrow> contents d"
  by (simp add: registry_ok_def contents_def)

text \<open>Steps that keep the ledger and the content.\<close>

definition kept :: "registry \<Rightarrow> registry \<Rightarrow> bool" where
  "kept d d' \<longleftrightarrow> same_ledger d d' \<and> (contents d \<longrightarrow> contents d')"

lemma kept_refl [simp]: "kept d d"
  by (simp add: kept_def)

lemma kept_trans: "kept d e \<Longrightarrow> kept e f \<Longrightarrow> kept d f"
  by (auto simp: kept_def intro: same_ledger_trans)

lemma kept_ok: "kept d d' \<Longrightarrow> registry_ok d \<Longrightarrow> registry_ok d'"
  by (auto simp: kept_def intro: same_ledger_ok dest: registry_ok_contents)

lemma update_volume_keeps: "(\<And>v. cv_id (f v) = cv_id v) \<Longrightarrow> kept d (update_volume i f d)"
  by (simp add: kept_def same_ledger_def contents_def update_volume_ids)

lemma artifact_at_key: "artifact_at vol g r \<longleftrightarrow> artifact_key_of r = (vol, g)"
  by (auto simp: artifact_at_def artifact_key_of_def)

lemma manifest_at_key: "manifest_at vol i r \<longleftrightarrow> manifest_key r = (vol, i)"
  by (auto simp: manifest_at_def manifest_key_def)

section \<open>Manifests and artifacts\<close>

lemma put_manifest_keeps:
  assumes "put_manifest env vol mid m doc d = Inr d'" and "vol \<in> set (volume_ids d)"
  shows "kept d d'"
proof -
  obtain p c where d': "d' = d\<lparr>rg_manifests := upsert (manifest_at vol mid)
      (\<lambda>_. \<lparr>mf_volume = vol, mf_id = mid, mf_profile = p, mf_created_at = c, mf_json = json_sort doc\<rparr>)
      \<lparr>mf_volume = vol, mf_id = mid, mf_profile = p, mf_created_at = c, mf_json = json_sort doc\<rparr>
      (rg_manifests d)\<rparr>"
    using assms(1) by (auto simp: put_manifest_def Let_def split: sum.splits)
  let ?n = "\<lparr>mf_volume = vol, mf_id = mid, mf_profile = p, mf_created_at = c, mf_json = json_sort doc\<rparr>"
  let ?f = "\<lambda>r. if manifest_at vol mid r then ?n else r"
  have u: "upsert (manifest_at vol mid) (\<lambda>_. ?n) ?n rs = upsert (manifest_at vol mid) ?f ?n rs" for rs
    by (simp add: upsert_def update_where_def)
  have "distinct (map manifest_key (rg_manifests d)) \<Longrightarrow> distinct (map manifest_key (rg_manifests d'))"
    unfolding d' by (simp add: u) (rule distinct_upsert; simp add: manifest_at_key manifest_key_def)
  moreover have "mf_volume ` set (rg_manifests d') \<subseteq> insert vol (mf_volume ` set (rg_manifests d))"
    unfolding d' by (auto dest!: set_upsert split: if_splits)
  ultimately show ?thesis
    using assms(2) by (auto simp: kept_def same_ledger_def contents_def content_ok_def d')
qed

lemma put_artifact_keeps:
  assumes "put_artifact env now vol mid g a d = Inr d'" and "vol \<in> set (volume_ids d)"
  shows "kept d d'"
proof -
  obtain new keep where
    d': "d' = d\<lparr>rg_artifacts := upsert (artifact_at vol g) keep new (rg_artifacts d)\<rparr>"
    and new: "artifact_key_of new = (vol, g)" "ca_eligibility new = eligibility_of d vol g"
    and keep: "\<And>r. artifact_key_of (keep r) = (vol, g)" "\<And>r. ca_eligibility (keep r) = eligibility_of d vol g"
    using assms(1)
    by (auto simp: put_artifact_def Let_def artifact_key_of_def split: sum.splits)
  let ?f = "\<lambda>r. if artifact_at vol g r then keep r else r"
  have u: "upsert (artifact_at vol g) keep new rs = upsert (artifact_at vol g) ?f new rs" for rs
    by (simp add: upsert_def update_where_def)
  have "distinct (map artifact_key_of (rg_artifacts d)) \<Longrightarrow> distinct (map artifact_key_of (rg_artifacts d'))"
    unfolding d' by (simp add: u) (rule distinct_upsert; simp add: artifact_at_key new keep)
  note distinct_rows = this
  have rows: "r \<in> set (rg_artifacts d) \<or>
      artifact_key_of r = (vol, g) \<and> ca_eligibility r = eligibility_of d vol g"
    if "r \<in> set (rg_artifacts d')" for r
    using set_upsert [OF that [unfolded d', simplified]] new keep by auto
  have same: "rg_invalidations d' = rg_invalidations d" "rg_manifests d' = rg_manifests d" "same_ledger d d'"
    "volume_ids d' = volume_ids d"
    by (simp_all add: d' same_ledger_def)
  have el: "eligibility_of d vol g = ''eligible'' \<Longrightarrow> (vol, g) \<notin> invalidation_key ` set (rg_invalidations d)"
    by (auto simp: eligibility_of_def invalidated_iff split: if_splits)
  have "contents d'" if c: "contents d"
  proof (rule contentsI; (unfold same)?)
    show "distinct (map artifact_key_of (rg_artifacts d'))" using distinct_rows contentsD(3) [OF c] .
    have "ca_volume r \<in> set (volume_ids d)" if "r \<in> set (rg_artifacts d')" for r
      using rows [OF that] contentsD(6) [OF c] assms(2) by (auto simp: artifact_key_of_def)
    then show "ca_volume ` set (rg_artifacts d') \<subseteq> set (volume_ids d)" by blast
    fix r
    assume "r \<in> set (rg_artifacts d')" "ca_eligibility r = ''eligible''"
    then show "artifact_key_of r \<notin> invalidation_key ` set (rg_invalidations d)"
      using rows [of r] contentsD(8) [OF c, of r] el by auto
  qed (use contentsD [OF c] in blast)+
  then show ?thesis using same by (simp add: kept_def)
qed

section \<open>Reconciling\<close>

lemma kept_ids: "kept d d' \<Longrightarrow> volume_ids d' = volume_ids d"
  by (simp add: kept_def same_ledger_def)

lemma reconcile_artifact_keeps:
  assumes "reconcile_artifact env now vol mid a s = Inr t" and "vol \<in> set (volume_ids (fst s))"
  shows "kept (fst s) (fst t)"
  using assms
  by (auto simp: reconcile_artifact_def Let_def split: prod.splits sum.splits intro: put_artifact_keeps)

lemma reconcile_manifest_keeps:
  assumes "reconcile_manifest env now vol docs m s = Inr t" and "vol \<in> set (volume_ids (fst s))"
  shows "kept (fst s) (fst t)"
proof -
  obtain d seen n where s: "s = (d, seen, n)" by (cases s) auto
  obtain mid d1 as where d1: "put_manifest env vol mid m (document_for docs mid m) d = Inr d1"
    and f: "fold_tx (reconcile_artifact env now vol mid) as (d1, seen, n) = Inr t"
    using assms(1) by (auto simp: reconcile_manifest_def s Let_def split: sum.splits)
  have k: "kept d d1" using put_manifest_keeps [OF d1] assms(2) by (simp add: s)
  have "kept d (fst t)"
  proof (rule fold_tx_invariant [OF f, where P = "\<lambda>t. kept d (fst t)"])
    show "kept d (fst (d1, seen, n))" using k by simp
    fix a u v
    assume "reconcile_artifact env now vol mid a u = Inr v" "kept d (fst u)"
    moreover from this have "vol \<in> set (volume_ids (fst u))" using assms(2) by (simp add: s kept_ids)
    ultimately show "kept d (fst v)" using reconcile_artifact_keeps kept_trans by blast
  qed
  then show ?thesis by (simp add: s)
qed

lemma update_where_elig:
  assumes "contents d" and "\<And>r. artifact_key_of (f r) = artifact_key_of r" and "\<And>r. ca_eligibility (f r) \<noteq> ''eligible''"
  shows "contents (d\<lparr>rg_artifacts := update_where P f (rg_artifacts d)\<rparr>)"
proof -
  have "map ca_volume (update_where P f rs) = map ca_volume rs" for rs
    by (rule map_update_where_key) (metis assms(2) artifact_key_of_def prod.inject)
  then have v: "ca_volume ` set (update_where P f rs) = ca_volume ` set rs" for rs
    by (metis set_map)
  show ?thesis
    using assms unfolding contents_def content_ok_def
    by (simp add: v map_update_where_key set_update_where Ball_def) metis
qed

lemma close_reconcile_keeps:
  assumes "close_reconcile now vol g (d, seen, n) = (d', m, k)"
  shows "kept d d'"
proof -
  let ?P = "\<lambda>r. ca_volume r = vol \<and> ca_digest r \<in> drifted d vol seen"
  let ?d1 = "d\<lparr>rg_artifacts := update_where ?P (ca_eligibility_update (\<lambda>_. ''unknown'')) (rg_artifacts d)\<rparr>"
  have "contents d \<Longrightarrow> contents ?d1"
    by (rule update_where_elig) (simp_all add: artifact_key_of_def)
  then have "kept d ?d1" by (simp add: kept_def same_ledger_def)
  moreover have "kept ?d1 d'"
    using assms by (auto simp: close_reconcile_def Let_def intro!: update_volume_keeps)
  ultimately show ?thesis by (rule kept_trans)
qed

lemma reconcile_index_keeps:
  assumes "reconcile_index env now d vol index docs = Inr (d', r)"
  shows "kept d d'"
proof -
  have v: "volume_exists d vol" using assms by (auto simp: reconcile_index_def Let_def split: if_splits)
  then obtain ms s where f: "fold_tx (reconcile_manifest env now vol docs) ms (d, [], 0) = Inr s"
    and c: "case close_reconcile now vol (or_text env (obj_get index ''generation'') []) s of
              (e, n, m) \<Rightarrow> e = d'"
    using assms unfolding reconcile_index_def Let_def tx_guard tx_bind
    by (auto split: if_splits prod.splits)
  have "kept d (fst s)"
  proof (rule fold_tx_invariant [OF f, where P = "\<lambda>t. kept d (fst t)"])
    fix a u w
    assume "reconcile_manifest env now vol docs a u = Inr w" "kept d (fst u)"
    moreover from this have "vol \<in> set (volume_ids (fst u))" using v by (simp add: volume_exists_iff kept_ids)
    ultimately show "kept d (fst w)" using reconcile_manifest_keeps kept_trans by blast
  qed simp
  moreover have "kept (fst s) d'" using c close_reconcile_keeps by (cases s) (auto split: prod.splits)
  ultimately show ?thesis by (rule kept_trans)
qed

lemma announce_keeps:
  assumes "announce_manifest env now d vol g m = Inr (d', r)"
  shows "kept d d'"
  using assms by (auto simp: announce_manifest_def split: sum.splits intro: reconcile_index_keeps)

section \<open>Invalidations\<close>

lemma put_invalidation_keeps:
  assumes "put_invalidation now vol g reason d = Inr (d', u)"
  shows "kept d d'"
proof -
  let ?new = "\<lparr>iv_volume = vol, iv_digest = g, iv_reason = reason, iv_created_at = now\<rparr>"
  let ?P = "\<lambda>r. iv_volume r = vol \<and> iv_digest r = g"
  let ?is = "upsert ?P (\<lambda>_. ?new) ?new (rg_invalidations d)"
  let ?as = "update_where (artifact_at vol g) (ca_eligibility_update (\<lambda>_. ''invalidated'')) (rg_artifacts d)"
  let ?e = "update_artifact vol g (ca_eligibility_update (\<lambda>_. ''invalidated'')) (d\<lparr>rg_invalidations := ?is\<rparr>)"
  have vol: "vol \<in> set (volume_ids d)"
    and d': "d' = update_volume vol (cv_status_update (\<lambda>_. ''degraded'')) ?e"
    using assms by (auto simp: put_invalidation_def Let_def volume_exists_iff split: if_splits)
  have e: "?e = d\<lparr>rg_invalidations := ?is, rg_artifacts := ?as\<rparr>"
    by (simp add: update_artifact_def)
  let ?f = "\<lambda>r. if ?P r then ?new else r"
  have u: "upsert ?P (\<lambda>_. ?new) ?new rs = upsert ?P ?f ?new rs" for rs
    by (simp add: upsert_def update_where_def)
  have dk: "distinct (map invalidation_key rs) \<Longrightarrow> distinct (map invalidation_key (upsert ?P (\<lambda>_. ?new) ?new rs))" for rs
    unfolding u by (rule distinct_upsert) (auto simp: invalidation_key_def)
  have keys: "invalidation_key ` set ?is = insert (vol, g) (invalidation_key ` set (rg_invalidations d))"
    unfolding u
    by (subst upsert_has [of ?P invalidation_key ?new ?f]) (auto simp: invalidation_key_def)
  have vols: "iv_volume ` set ?is \<subseteq> insert vol (iv_volume ` set (rg_invalidations d))"
    by (auto dest!: set_upsert split: if_splits)
  have av: "map ca_volume ?as = map ca_volume (rg_artifacts d)" "map artifact_key_of ?as = map artifact_key_of (rg_artifacts d)"
    by (simp_all add: map_update_where_key artifact_key_of_def)
  have av': "ca_volume ` set ?as = ca_volume ` set (rg_artifacts d)" by (rule keys_image [OF av(1)])
  have safe: "artifact_key_of r \<notin> insert (vol, g) (invalidation_key ` set (rg_invalidations d))"
    if c: "contents d" and r: "r \<in> set ?as" and el: "ca_eligibility r = ''eligible''" for r
  proof -
    obtain x where x: "x \<in> set (rg_artifacts d)"
      "r = (if artifact_at vol g x then x\<lparr>ca_eligibility := ''invalidated''\<rparr> else x)"
      using r by (auto simp: set_update_where)
    with el have "r = x" "\<not> artifact_at vol g x" by (auto split: if_splits)
    with contentsD(8) [OF c x(1)] el show ?thesis by (simp add: artifact_at_key)
  qed
  have same: "rg_invalidations ?e = ?is" "rg_manifests ?e = rg_manifests d" "rg_artifacts ?e = ?as"
    "volume_ids ?e = volume_ids d" "same_ledger d ?e"
    unfolding e by (simp_all add: same_ledger_def)
  have "contents ?e" if c: "contents d"
  proof (rule contentsI; (unfold same)?)
    show "distinct (map invalidation_key ?is)" using dk contentsD(4) [OF c] .
    show "iv_volume ` set ?is \<subseteq> set (volume_ids d)" using vols vol contentsD(7) [OF c] by blast
    show "distinct (map artifact_key_of ?as)" unfolding av by (rule contentsD(3) [OF c])
    show "ca_volume ` set ?as \<subseteq> set (volume_ids d)" unfolding av' by (rule contentsD(6) [OF c])
    show "artifact_key_of r \<notin> invalidation_key ` set ?is" if "r \<in> set ?as" "ca_eligibility r = ''eligible''" for r
      unfolding keys by (rule safe [OF c that])
  qed (use contentsD [OF c] in blast)+
  then have "kept d ?e" unfolding kept_def using same(5) by blast
  moreover have "kept ?e d'" unfolding d' by (rule update_volume_keeps) simp
  ultimately show ?thesis by (rule kept_trans)
qed

lemma contents_clear:
  assumes "contents d"
  shows "contents (update_artifact vol g (\<lambda>r. r\<lparr>ca_eligibility := ''eligible'', ca_verified_at := v\<rparr>)
           (drop_invalidation vol g d))"
proof -
  let ?is = "filter (\<lambda>r. \<not> (iv_volume r = vol \<and> iv_digest r = g)) (rg_invalidations d)"
  let ?f = "\<lambda>r. r\<lparr>ca_eligibility := ''eligible'', ca_verified_at := v\<rparr>"
  have av: "map ca_volume (update_where P ?f rs) = map ca_volume rs"
    "map artifact_key_of (update_where P ?f rs) = map artifact_key_of rs" for P rs
    by (simp_all add: map_update_where_key artifact_key_of_def)
  have av': "ca_volume ` set (update_where P ?f rs) = ca_volume ` set rs" for P rs
    by (rule keys_image) (rule map_update_where_key, simp)
  let ?as = "update_where (artifact_at vol g) ?f (rg_artifacts d)"
  let ?e = "update_artifact vol g ?f (drop_invalidation vol g d)"
  have same: "rg_invalidations ?e = ?is" "rg_manifests ?e = rg_manifests d" "rg_artifacts ?e = ?as"
    "volume_ids ?e = volume_ids d"
    by (simp_all add: update_artifact_def drop_invalidation_def)
  show ?thesis
  proof (rule contentsI; (unfold same)?)
    show "distinct (map artifact_key_of ?as)" unfolding av by (rule contentsD(3) [OF assms])
    show "ca_volume ` set ?as \<subseteq> set (volume_ids d)" unfolding av' by (rule contentsD(6) [OF assms])
    show "distinct (map invalidation_key ?is)" by (rule distinct_map_filter [OF contentsD(4) [OF assms]])
    show "iv_volume ` set ?is \<subseteq> set (volume_ids d)" using contentsD(7) [OF assms] by auto
    fix r
    assume r: "r \<in> set ?as" and el: "ca_eligibility r = ''eligible''"
    obtain x where x: "x \<in> set (rg_artifacts d)" "r = (if artifact_at vol g x then ?f x else x)"
      using r by (auto simp: set_update_where)
    show "artifact_key_of r \<notin> invalidation_key ` set ?is"
    proof (cases "artifact_at vol g x")
      case True
      then have "artifact_key_of r = (vol, g)" using x(2) by (simp add: artifact_at_key) (simp add: artifact_key_of_def)
      then show ?thesis by (auto simp: invalidation_key_def)
    next
      case False
      with x el contentsD(8) [OF assms x(1)] show ?thesis by auto
    qed
  qed (use contentsD [OF assms] in blast)+
qed

lemma refresh_keeps: "kept d (refresh_volume_health now vol d)"
  unfolding refresh_volume_health_def by (rule update_volume_keeps) simp

lemma clear_invalidation_keeps: "kept d (clear_invalidation now vol g d)"
proof -
  let ?e = "update_artifact vol g (\<lambda>r. r\<lparr>ca_eligibility := ''eligible'', ca_verified_at := Some now\<rparr>)
           (drop_invalidation vol g d)"
  have "kept d ?e"
    using contents_clear by (simp add: kept_def same_ledger_def update_artifact_def drop_invalidation_def)
  then show ?thesis unfolding clear_invalidation_def using refresh_keeps kept_trans by blast
qed

section \<open>Removing a manifest\<close>

lemma forget_keeps: "kept d (forget_digest vol g d)"
proof -
  let ?as = "filter (\<lambda>r. \<not> artifact_at vol g r) (rg_artifacts d)"
  let ?is = "filter (\<lambda>r. \<not> (iv_volume r = vol \<and> iv_digest r = g)) (rg_invalidations d)"
  let ?e = "forget_digest vol g d"
  have same: "rg_invalidations ?e = ?is" "rg_manifests ?e = rg_manifests d" "rg_artifacts ?e = ?as"
    "volume_ids ?e = volume_ids d" "same_ledger d ?e"
    by (simp_all add: forget_digest_def drop_invalidation_def same_ledger_def)
  have "contents ?e" if c: "contents d"
  proof (rule contentsI; (unfold same)?)
    show "distinct (map artifact_key_of ?as)" by (rule distinct_map_filter [OF contentsD(3) [OF c]])
    show "distinct (map invalidation_key ?is)" by (rule distinct_map_filter [OF contentsD(4) [OF c]])
    show "ca_volume ` set ?as \<subseteq> set (volume_ids d)" using contentsD(6) [OF c] by auto
    show "iv_volume ` set ?is \<subseteq> set (volume_ids d)" using contentsD(7) [OF c] by auto
    fix r
    assume "r \<in> set ?as" "ca_eligibility r = ''eligible''"
    then show "artifact_key_of r \<notin> invalidation_key ` set ?is" using contentsD(8) [OF c, of r] by auto
  qed (use contentsD [OF c] in blast)+
  then show ?thesis using same(5) by (simp add: kept_def)
qed

lemma restore_keeps:
  "kept d (update_artifact vol g (restored_row env mid n (eligibility_of d vol g) a) d)"
proof -
  let ?f = "restored_row env mid n (eligibility_of d vol g) a"
  let ?as = "update_where (artifact_at vol g) ?f (rg_artifacts d)"
  let ?e = "update_artifact vol g ?f d"
  have same: "rg_invalidations ?e = rg_invalidations d" "rg_manifests ?e = rg_manifests d" "rg_artifacts ?e = ?as"
    "volume_ids ?e = volume_ids d" "same_ledger d ?e"
    by (simp_all add: update_artifact_def same_ledger_def)
  have av: "map ca_volume ?as = map ca_volume (rg_artifacts d)"
    "map artifact_key_of ?as = map artifact_key_of (rg_artifacts d)"
    by (simp_all add: map_update_where_key artifact_key_of_def restored_row_def)
  have "contents ?e" if c: "contents d"
  proof (rule contentsI; (unfold same)?)
    show "distinct (map artifact_key_of ?as)" unfolding av by (rule contentsD(3) [OF c])
    show "ca_volume ` set ?as \<subseteq> set (volume_ids d)"
      using contentsD(6) [OF c] keys_image [OF av(1)] by simp
    fix r
    assume r: "r \<in> set ?as" and el: "ca_eligibility r = ''eligible''"
    obtain x where x: "x \<in> set (rg_artifacts d)" "r = (if artifact_at vol g x then ?f x else x)"
      using r by (auto simp: set_update_where)
    show "artifact_key_of r \<notin> invalidation_key ` set (rg_invalidations d)"
    proof (cases "artifact_at vol g x")
      case True
      then have "artifact_key_of r = (vol, g)" "ca_eligibility r = eligibility_of d vol g"
        using x(2) by (simp_all add: artifact_at_key) (simp_all add: artifact_key_of_def restored_row_def)
      with el show ?thesis by (auto simp: eligibility_of_def invalidated_iff split: if_splits)
    next
      case False
      with x el contentsD(8) [OF c x(1)] show ?thesis by auto
    qed
  qed (use contentsD [OF c] in blast)+
  then show ?thesis using same(5) by (simp add: kept_def)
qed

lemma rebuild_keeps:
  assumes "rebuild_digest env vol latest g s = Inr t"
  shows "kept (fst s) (fst t)"
  using assms
  by (auto simp: rebuild_digest_def split: prod.splits option.splits sum.splits
           intro: forget_keeps restore_keeps)

lemma set_generation_keeps: "kept d (set_generation vol g d)"
  by (auto simp: set_generation_def intro: update_volume_keeps)

lemma drop_manifest_keeps: "kept d (d\<lparr>rg_manifests := filter P (rg_manifests d)\<rparr>)"
proof -
  let ?e = "d\<lparr>rg_manifests := filter P (rg_manifests d)\<rparr>"
  have "contents ?e" if c: "contents d"
  proof (rule contentsI; simp?)
    show "distinct (map manifest_key (filter P (rg_manifests d)))"
      by (rule distinct_map_filter [OF contentsD(2) [OF c]])
    show "mf_volume ` {x \<in> set (rg_manifests d). P x} \<subseteq> cv_id ` set (rg_volumes d)"
      using contentsD(5) [OF c] by auto
  qed (use contentsD [OF c] in auto)
  then show ?thesis by (simp add: kept_def same_ledger_def)
qed

lemma remove_manifest_keeps:
  assumes "remove_manifest env now d vol mid g = Inr (d', r)"
  shows "kept d d'"
proof (cases "find (manifest_at vol mid) (rg_manifests d)")
  case None
  then show ?thesis using assms set_generation_keeps by (auto simp: remove_manifest_def)
next
  case (Some row)
  let ?d1 = "d\<lparr>rg_manifests := filter (\<lambda>r. \<not> manifest_at vol mid r) (rg_manifests d)\<rparr>"
  obtain latest gs s where f: "fold_tx (rebuild_digest env vol latest) gs (?d1, 0, 0) = Inr s"
    and d': "d' = refresh_volume_health now vol (set_generation vol g (fst s))"
    using assms Some by (auto simp: remove_manifest_def Let_def split: sum.splits prod.splits)
  have "kept ?d1 (fst s)"
    by (rule fold_tx_invariant [OF f, where P = "\<lambda>t. kept ?d1 (fst t)"])
       (auto intro: kept_trans rebuild_keeps)
  then show ?thesis unfolding d'
    using drop_manifest_keeps set_generation_keeps refresh_keeps kept_trans by meson
qed

section \<open>Observations\<close>

lemma rows_keeps:
  assumes "list_all2 (\<lambda>r s. artifact_key_of s = artifact_key_of r \<and> ca_eligibility s = ca_eligibility r)
     (rg_artifacts d) rows"
  shows "kept d (d\<lparr>rg_artifacts := rows\<rparr>)"
proof -
  let ?e = "d\<lparr>rg_artifacts := rows\<rparr>"
  have keys: "map artifact_key_of rows = map artifact_key_of (rg_artifacts d)"
    using assms by (rule list_all2_map_key) simp
  then have "map (fst \<circ> artifact_key_of) rows = map (fst \<circ> artifact_key_of) (rg_artifacts d)"
    by (metis map_map)
  then have vols: "map ca_volume rows = map ca_volume (rg_artifacts d)"
    by (simp add: artifact_key_of_def o_def)
  have "contents ?e" if c: "contents d"
  proof (rule contentsI; simp?)
    show "distinct (map artifact_key_of rows)" unfolding keys by (rule contentsD(3) [OF c])
    show "ca_volume ` set rows \<subseteq> cv_id ` set (rg_volumes d)"
      using contentsD(6) [OF c] keys_image [OF vols] by simp
    fix s
    assume s: "s \<in> set rows" "ca_eligibility s = ''eligible''"
    then obtain r where "r \<in> set (rg_artifacts d)" "artifact_key_of s = artifact_key_of r"
      "ca_eligibility s = ca_eligibility r"
      using list_all2_in [OF assms s(1)] by blast
    then show "artifact_key_of s \<notin> invalidation_key ` set (rg_invalidations d)"
      using contentsD(8) [OF c, of r] s(2) by simp
  qed (use contentsD [OF c] in auto)
  then show ?thesis by (simp add: kept_def same_ledger_def)
qed

lemma use_row_key:
  "use_row now vol g a b r = Inr s \<Longrightarrow> artifact_key_of s = artifact_key_of r \<and> ca_eligibility s = ca_eligibility r"
  by (auto simp: use_row_def used_row_def artifact_key_of_def split: if_splits sum.splits)

lemma insert_observation_keeps: "insert_observation now i ob d = Inr d' \<Longrightarrow> kept d d'"
  by (auto simp: insert_observation_def kept_def same_ledger_def contents_def split: sum.splits if_splits)

lemma record_observation_keeps:
  assumes "record_observation env now uuid d ob = Inr (d', i)"
  shows "kept d d'"
proof -
  obtain j d1 where i: "insert_observation now j ob d = Inr d1"
    and rest: "d' = d1 \<or> (\<exists>vol g a b rows. each (use_row now vol g a b) (rg_artifacts d1) = Inr rows \<and>
       observed_effect now vol g ob (d1\<lparr>rg_artifacts := rows\<rparr>) = Inr d')"
    using assms unfolding record_observation_def Let_def tx_guard tx_bind
    by (auto simp: tx_bind split: if_splits) blast
  have k1: "kept d d1" by (rule insert_observation_keeps [OF i])
  from rest show ?thesis
  proof (elim disjE exE conjE)
    assume "d' = d1" then show ?thesis using k1 by simp
  next
    fix vol g a b rows
    assume e: "each (use_row now vol g a b) (rg_artifacts d1) = Inr rows"
      and o': "observed_effect now vol g ob (d1\<lparr>rg_artifacts := rows\<rparr>) = Inr d'"
    have "kept d1 (d1\<lparr>rg_artifacts := rows\<rparr>)"
      by (rule rows_keeps) (rule list_all2_mono [OF each_map [OF e]], rule use_row_key)
    moreover have "kept (d1\<lparr>rg_artifacts := rows\<rparr>) d'"
      using o' by (auto simp: observed_effect_def split: if_splits sum.splits
          intro: put_invalidation_keeps clear_invalidation_keeps)
    ultimately show ?thesis using k1 kept_trans by blast
  qed
qed

end
