(* ===== verification/RegistryOps.thy ===== *)
theory RegistryOps
  imports RegistryLaws
begin

text \<open>
  The writing operations of \<open>CacheRegistry\<close> as one step function, with the contracts of the
  prelude interpreted on it: the invariant of the registry and the finished copies.
\<close>

lemma registry_okI: "contents d \<Longrightarrow> actions_ok (volume_ids d) (rg_replications d) (rg_actions d) \<Longrightarrow>
    targets_ok (rg_targets d) \<Longrightarrow> registry_ok d"
  by (simp add: registry_ok_def contents_def)

lemma registry_okD:
  "registry_ok d \<Longrightarrow> contents d"
  "registry_ok d \<Longrightarrow> actions_ok (volume_ids d) (rg_replications d) (rg_actions d)"
  "registry_ok d \<Longrightarrow> targets_ok (rg_targets d)"
  by (simp_all add: registry_ok_def contents_def)

lemma actions_ok_remove:
  assumes "actions_ok vs ps as" and "set ws = set vs - {i}"
    and "i \<notin> ac_source ` set as" "i \<notin> ac_target ` set as" "i \<notin> rp_source ` set ps" "i \<notin> rp_target ` set ps"
  shows "actions_ok ws ps as"
proof -
  have sub: "A \<subseteq> set vs \<Longrightarrow> i \<notin> A \<Longrightarrow> A \<subseteq> set ws" for A using assms(2) by blast
  have "distinct (map ac_id as)" "distinct (map ac_recommendation (filter action_live as))"
    "ac_source ` set as \<subseteq> set vs" "ac_target ` set as \<subseteq> set vs"
    "rp_source ` set ps \<subseteq> set vs" "rp_target ` set ps \<subseteq> set vs"
    using assms(1) by (simp_all only: actions_ok_def)
  then show ?thesis unfolding actions_ok_def using sub assms(3-6) by simp
qed

lemma actions_ok_mono: "actions_ok vs ps as \<Longrightarrow> set vs \<subseteq> set ws \<Longrightarrow> actions_ok ws ps as"
  unfolding actions_ok_def by blast

lemma image_others:
  "f ` A \<subseteq> g ` B \<Longrightarrow> f ` {x \<in> A. f x \<noteq> i} \<subseteq> g ` {x \<in> B. g x \<noteq> i}"
  by (auto simp: image_iff subset_iff)

section \<open>Volumes\<close>

lemma volumes_grow:
  assumes "registry_ok d" and "distinct (map cv_id vs)" and "set (volume_ids d) \<subseteq> cv_id ` set vs"
  shows "registry_ok (d\<lparr>rg_volumes := vs\<rparr>)"
proof (rule registry_okI)
  note c = contentsD [OF registry_okD(1) [OF assms(1)]]
  have sub: "set (volume_ids d) \<subseteq> set (map cv_id vs)" using assms(3) by simp
  let ?e = "d\<lparr>rg_volumes := vs\<rparr>"
  have same: "volume_ids ?e = map cv_id vs" "rg_manifests ?e = rg_manifests d"
    "rg_artifacts ?e = rg_artifacts d" "rg_invalidations ?e = rg_invalidations d" by simp_all
  show "contents ?e"
    by (rule contentsI; (unfold same)?)
       (fact assms(2) c(2-4) c(8) subset_trans [OF c(5) sub] subset_trans [OF c(6) sub]
          subset_trans [OF c(7) sub])+
  show "actions_ok (volume_ids (d\<lparr>rg_volumes := vs\<rparr>)) (rg_replications (d\<lparr>rg_volumes := vs\<rparr>))
      (rg_actions (d\<lparr>rg_volumes := vs\<rparr>))"
    using actions_ok_mono [OF registry_okD(2) [OF assms(1)] sub] by simp
  show "targets_ok (rg_targets (d\<lparr>rg_volumes := vs\<rparr>))" using registry_okD(3) [OF assms(1)] by simp
qed

lemma upsert_volume_ok:
  assumes "upsert_volume uuid d p pv dc ow cap pol st s3 wanted = Inr (d', v)" and "registry_ok d"
  shows "registry_ok d'"
proof -
  obtain i f new where d': "d' = d\<lparr>rg_volumes := upsert (\<lambda>v. cv_id v = i) f new (rg_volumes d)\<rparr>"
    and new: "cv_id new = i" and f: "\<And>v. cv_id (f v) = i"
  proof -
    assume that: "\<And>i f new. d' = d\<lparr>rg_volumes := upsert (\<lambda>v. cv_id v = i) f new (rg_volumes d)\<rparr> \<Longrightarrow>
      cv_id new = i \<Longrightarrow> (\<And>v. cv_id (f v) = i) \<Longrightarrow> thesis"
    show thesis
      using assms(1)
      by (auto simp: upsert_volume_def Let_def split: if_splits sum.splits option.splits intro: that)
  qed
  let ?f = "\<lambda>v. if cv_id v = i then f v else v"
  have u: "upsert (\<lambda>v. cv_id v = i) f new rs = upsert (\<lambda>v. cv_id v = i) ?f new rs" for rs
    by (simp add: upsert_def update_where_def)
  have "distinct (volume_ids d)" using assms(2) by (simp add: registry_ok_def content_ok_def)
  then have "distinct (map cv_id (upsert (\<lambda>v. cv_id v = i) f new (rg_volumes d)))"
    unfolding u by (rule distinct_upsert) (auto simp: new f)
  moreover have "cv_id ` set (upsert (\<lambda>v. cv_id v = i) f new (rg_volumes d)) =
      insert i (cv_id ` set (rg_volumes d))"
    unfolding u by (subst upsert_has [where key = cv_id]) (auto simp: new f)
  ultimately show ?thesis unfolding d' by (intro volumes_grow [OF assms(2)]) auto
qed

lemma mark_volume_keeps: "mark_volume d i st = Inr (d', u) \<Longrightarrow> kept d d'"
  by (auto simp: mark_volume_def split: if_splits intro: update_volume_keeps)

lemma delete_metadata_ok:
  assumes "delete_metadata d i = Inr (d', b)" and "registry_ok d"
  shows "registry_ok d'"
proof (cases "volume_exists d i")
  case False
  then show ?thesis using assms by (simp add: delete_metadata_def)
next
  case True
  let ?vs = "filter (\<lambda>v. cv_id v \<noteq> i) (rg_volumes d)"
  have free: "\<not> volume_referenced d i" and d': "d' = d\<lparr>rg_volumes := ?vs,
                  rg_manifests := filter (\<lambda>r. mf_volume r \<noteq> i) (rg_manifests d),
                  rg_artifacts := filter (\<lambda>r. ca_volume r \<noteq> i) (rg_artifacts d),
                  rg_invalidations := filter (\<lambda>r. iv_volume r \<noteq> i) (rg_invalidations d)\<rparr>"
    using assms(1) True by (auto simp: delete_metadata_def split: if_splits)
  have ids: "set (map cv_id ?vs) = set (volume_ids d) - {i}" by auto
  note c = contentsD [OF registry_ok_contents [OF assms(2)]]
  have "contents d'"
  proof (rule contentsI; (unfold d')?; simp?)
    show "distinct (map cv_id ?vs)" by (rule distinct_map_filter [OF c(1)])
    show "distinct (map manifest_key (filter (\<lambda>r. mf_volume r \<noteq> i) (rg_manifests d)))"
      by (rule distinct_map_filter [OF c(2)])
    show "distinct (map artifact_key_of (filter (\<lambda>r. ca_volume r \<noteq> i) (rg_artifacts d)))"
      by (rule distinct_map_filter [OF c(3)])
    show "distinct (map invalidation_key (filter (\<lambda>r. iv_volume r \<noteq> i) (rg_invalidations d)))"
      by (rule distinct_map_filter [OF c(4)])
    show "mf_volume ` {x \<in> set (rg_manifests d). mf_volume x \<noteq> i} \<subseteq> cv_id ` {x \<in> set (rg_volumes d). cv_id x \<noteq> i}"
      by (rule image_others) (use c(5) in simp)
    show "ca_volume ` {x \<in> set (rg_artifacts d). ca_volume x \<noteq> i} \<subseteq> cv_id ` {x \<in> set (rg_volumes d). cv_id x \<noteq> i}"
      by (rule image_others) (use c(6) in simp)
    show "iv_volume ` {x \<in> set (rg_invalidations d). iv_volume x \<noteq> i} \<subseteq> cv_id ` {x \<in> set (rg_volumes d). cv_id x \<noteq> i}"
      by (rule image_others) (use c(7) in simp)
    fix r
    assume "r \<in> set (rg_artifacts d) \<and> ca_volume r \<noteq> i" "ca_eligibility r = ''eligible''"
    then show "artifact_key_of r \<notin> invalidation_key ` {x \<in> set (rg_invalidations d). iv_volume x \<noteq> i}"
      using c(8) [of r] by auto
  qed
  moreover have "actions_ok (map cv_id ?vs) (rg_replications d) (rg_actions d)"
  proof -
    have "i \<notin> ac_source ` set (rg_actions d)" "i \<notin> ac_target ` set (rg_actions d)"
      "i \<notin> rp_source ` set (rg_replications d)" "i \<notin> rp_target ` set (rg_replications d)"
      using free by (auto simp: volume_referenced_def)
    then show ?thesis by (rule actions_ok_remove [OF registry_okD(2) [OF assms(2)] ids])
  qed
  ultimately show ?thesis
    using registry_okD(3) [OF assms(2)] by (intro registry_okI) (simp_all add: d')
qed

section \<open>The ledger\<close>

lemma demand_ok: "record_regional_demand env now uuid d q = Inr (d', r) \<Longrightarrow> registry_ok d \<Longrightarrow> registry_ok d'"
  by (auto simp: record_regional_demand_def Let_def registry_ok_def
           split: if_splits sum.splits option.splits)

lemma shadow_ok: "record_shadow_evaluation env now uuid d q = Inr (d', r) \<Longrightarrow> registry_ok d \<Longrightarrow> registry_ok d'"
  by (auto simp: record_shadow_evaluation_def Let_def registry_ok_def split: if_splits)

lemma create_replication_ok:
  assumes "create_replication now uuid d src tgt gs sizes = Inr (d', r)" and "registry_ok d"
  shows "registry_ok d'"
proof -
  have v: "src \<in> set (volume_ids d)" "tgt \<in> set (volume_ids d)"
    and d': "d' = d\<lparr>rg_replications := rg_replications d @ [r]\<rparr>" "rp_source r = src" "rp_target r = tgt"
    using assms(1) unfolding create_replication_def volume_exists_iff
    by (auto simp: Let_def split: if_splits sum.splits)
  then show ?thesis using assms(2) by (simp add: registry_ok_def actions_ok_def)
qed

lemma complete_replication_ok:
  assumes "complete_replication now d i reason = Inr (d', u)" and "registry_ok d"
  shows "registry_ok d'"
proof -
  obtain f where d': "d' = d\<lparr>rg_replications := update_where (\<lambda>r. rp_id r = i) f (rg_replications d)\<rparr>"
    and f: "\<And>r. rp_source (f r) = rp_source r" "\<And>r. rp_target (f r) = rp_target r"
    using assms(1) by (auto simp: complete_replication_def Let_def split: if_splits)
  have "rp_source ` set (update_where P f rs) = rp_source ` set rs"
    "rp_target ` set (update_where P f rs) = rp_target ` set rs" for P rs
    by (rule keys_image, rule map_update_where_key, rule f)+
  then show ?thesis using assms(2) by (simp add: registry_ok_def actions_ok_def d')
qed

section \<open>Copies\<close>

lemma distinct_filter_update:
  assumes "\<And>r. key (f r) = key r" and "\<And>r. P (f r) \<Longrightarrow> Q r \<Longrightarrow> P r"
  shows "distinct (map key (filter P rs)) \<Longrightarrow> distinct (map key (filter P (update_where Q f rs)))"
proof (induction rs)
  case Nil
  then show ?case by simp
next
  case (Cons r rs)
  have sub: "key ` set (filter P (update_where Q f rs)) \<subseteq> key ` set (filter P rs)"
    using assms by (fastforce simp: set_update_where split: if_splits)
  with Cons assms show ?case by (auto split: if_splits)
qed

definition action_frame :: "(action_row \<Rightarrow> action_row) \<Rightarrow> bool" where
  "action_frame f \<longleftrightarrow>
     (\<forall>r. ac_id (f r) = ac_id r \<and> ac_recommendation (f r) = ac_recommendation r \<and>
          ac_source (f r) = ac_source r \<and> ac_target (f r) = ac_target r)"

lemma update_action_ok:
  assumes "registry_ok d" and "action_frame f" and "\<And>r. P r \<Longrightarrow> action_live (f r) \<Longrightarrow> action_live r"
  shows "registry_ok (update_action P f d)"
proof -
  have keys: "map ac_id (update_where P f rs) = map ac_id rs"
    "map ac_source (update_where P f rs) = map ac_source rs"
    "map ac_target (update_where P f rs) = map ac_target rs" for rs
    using assms(2) by (simp_all add: map_update_where_key action_frame_def)
  moreover have "ac_source ` set (update_where P f rs) = ac_source ` set rs"
    "ac_target ` set (update_where P f rs) = ac_target ` set rs" for rs
    by (rule keys_image [OF keys(2)], rule keys_image [OF keys(3)])
  moreover have "distinct (map ac_recommendation (filter action_live (rg_actions d))) \<Longrightarrow>
      distinct (map ac_recommendation (filter action_live (update_where P f (rg_actions d))))"
    by (rule distinct_filter_update) (use assms(2,3) in \<open>auto simp: action_frame_def\<close>)
  ultimately show ?thesis
    using assms(1) by (simp add: registry_ok_def actions_ok_def update_action_def)
qed

lemma change_action_Inr:
  assumes "change_action i st f d = Inr (d', r)"
  shows "d' = update_action (\<lambda>r. ac_id r = i \<and> ac_status r = st) f d"
  using assms by (auto simp: change_action_def Let_def split: if_splits option.splits)

lemma frames [simp]:
  "action_frame (completed_action now m)" "action_frame (failed_action now e)"
  "action_frame (expired_action now)" "action_frame (lost_action now)"
  by (simp_all add: action_frame_def completed_action_def failed_action_def expired_action_def lost_action_def)

lemma action_ops_ok:
  assumes "registry_ok d"
  shows "complete_replica_action now d i m = Inr (d', r) \<Longrightarrow> registry_ok d'"
    "fail_replica_action now d i e = Inr (d', u) \<Longrightarrow> registry_ok d'"
    "expire_replica_action now d i = Inr (d', r) \<Longrightarrow> registry_ok d'"
    "registry_ok (fst (recover_stale_replica_actions now d s))"
    "registry_ok (fst (lose_replica_actions_for_target now d v))"
proof -
  note u = update_action_ok [OF assms]
  show "complete_replica_action now d i m = Inr (d', r) \<Longrightarrow> registry_ok d'"
    unfolding complete_replica_action_def by (drule change_action_Inr) (auto intro!: u simp: action_live_def)
  show "expire_replica_action now d i = Inr (d', r) \<Longrightarrow> registry_ok d'"
    unfolding expire_replica_action_def by (drule change_action_Inr) (auto intro!: u simp: action_live_def)
  show "fail_replica_action now d i e = Inr (d', u) \<Longrightarrow> registry_ok d'"
    unfolding fail_replica_action_def
    by (auto split: sum.splits dest!: change_action_Inr intro!: u simp: action_live_def)
  show "registry_ok (fst (recover_stale_replica_actions now d s))"
    unfolding recover_stale_replica_actions_def Let_def fst_conv by (rule u) (auto simp: action_live_def)
  show "registry_ok (fst (lose_replica_actions_for_target now d v))"
    unfolding lose_replica_actions_for_target_def Let_def fst_conv by (rule u) auto
qed

lemma live_action_None:
  assumes "live_action d rec = None"
  shows "rec \<notin> ac_recommendation ` set (filter action_live (rg_actions d))"
proof -
  let ?xs = "filter (\<lambda>r. ac_recommendation r = rec \<and> action_live r) (rg_actions d)"
  have "rev (sort_key ac_created_at (rev ?xs)) = []"
    using assms by (simp add: live_action_def split: list.splits)
  then have "length (rev (sort_key ac_created_at (rev ?xs))) = 0" by simp
  then have "?xs = []" by simp
  then show ?thesis by (auto simp: filter_empty_conv)
qed

lemma live_action_Some:
  assumes "live_action d rec = Some r"
  shows "r \<in> set (rg_actions d) \<and> ac_recommendation r = rec \<and> action_live r"
proof -
  let ?ys = "rev (sort_key ac_created_at
      (rev (filter (\<lambda>r. ac_recommendation r = rec \<and> action_live r) (rg_actions d))))"
  obtain rs where ys: "?ys = r # rs" using assms unfolding live_action_def by (cases ?ys) auto
  have "r \<in> set ?ys" unfolding ys by simp
  then show ?thesis by simp
qed

lemma claim_action_cases:
  assumes "claim_replica_action env now uuid d rec budget mi = Inr (d', (r, dup))"
  obtains (old) "dup" "d' = d" "live_action d (ac_recommendation r) = Some r"
  | (new) c limit_usd where "\<not> dup" "d' = d\<lparr>rg_actions := rg_actions d @ [r]\<rparr>"
      "live_action d (ac_recommendation r) = None" "ac_status r = ''copying''" "ac_id r = uuid"
      "\<forall>x \<in> set (rg_actions d). ac_id x \<noteq> uuid" "volume_exists d (ac_source r)" "volume_exists d (ac_target r)"
      "replica_costs env rec budget = Inr (ac_monthly_cost r, c, limit_usd)"
      "inflight d < max 1 mi" "reserved_cost d now + ac_monthly_cost r \<le> limit_usd"
      "now < ac_expires_at r" "ac_created_at r = now"
proof -
  let ?id = "or_text env (obj_get rec ''recommendation_id'') []"
  obtain m c b where costs: "replica_costs env rec budget = Inr (m, c, b)"
    using assms unfolding claim_replica_action_def Let_def tx_guard tx_bind by auto
  show thesis
  proof (cases "live_action d ?id")
    case (Some x)
    then have "dup \<and> d' = d \<and> x = r"
      using assms by (auto simp: claim_replica_action_def Let_def costs split: if_splits sum.splits)
    moreover have "ac_recommendation x = ?id" using live_action_Some [OF Some] by simp
    ultimately show thesis using old Some by simp
  next
    case None
    obtain n reasons bytes where r: "r = \<lparr>ac_id = uuid, ac_recommendation = ?id,
        ac_source = or_text env (obj_get rec ''source_volume_id'') [],
        ac_target = or_text env (obj_get rec ''target_volume_id'') [],
        ac_source_manifest = or_text env (obj_get rec ''source_manifest_id'') [],
        ac_target_manifest = None, ac_status = ''copying'', ac_bytes = bytes, ac_monthly_cost = m,
        ac_copy_cost = c, ac_reasons = reasons, ac_expires_at = or_text env (obj_get rec ''expires_at'') [],
        ac_created_at = now, ac_completed_at = None, ac_error = None\<rparr>"
      and x: "\<not> dup" "d' = d\<lparr>rg_actions := rg_actions d @ [r]\<rparr>"
      "\<not> (\<exists>r \<in> set (rg_actions d). ac_id r = uuid)"
      "volume_exists d (or_text env (obj_get rec ''source_volume_id'') [])"
      "volume_exists d (or_text env (obj_get rec ''target_volume_id'') [])"
      "\<not> max 1 mi \<le> inflight d" "\<not> b < reserved_cost d now + m"
      "\<not> or_text env (obj_get rec ''expires_at'') [] \<le> now"
      using assms None
      by (auto simp: claim_replica_action_def Let_def costs split: if_splits sum.splits)
    show thesis
      by (rule new [of c b]; use x None costs in \<open>auto simp: r not_le not_less\<close>)
  qed
qed

lemma claim_action_ok:
  assumes "claim_replica_action env now uuid d rec budget mi = Inr (d', (r, dup))" and "registry_ok d"
  shows "registry_ok d'"
  using assms(1)
proof (cases rule: claim_action_cases)
  case old
  then show ?thesis using assms(2) by simp
next
  case (new c limit_usd)
  have "ac_recommendation r \<notin> ac_recommendation ` set (filter action_live (rg_actions d))"
    by (rule live_action_None [OF new(3)])
  moreover have "ac_id r \<notin> ac_id ` set (rg_actions d)" using new(5,6) by auto
  moreover have "ac_source r \<in> set (volume_ids d)" "ac_target r \<in> set (volume_ids d)"
    using new(7,8) unfolding volume_exists_iff .
  ultimately show ?thesis
    using assms(2) unfolding new(2) by (simp add: registry_ok_def actions_ok_def image_iff)
qed

section \<open>Targets\<close>

lemma held_target_None:
  assumes "held_target d provider region = None"
  shows "(provider, region) \<notin> (\<lambda>r. (tg_provider r, tg_datacenter r)) ` set (filter target_held (rg_targets d))"
proof -
  let ?xs = "filter (\<lambda>r. tg_provider r = provider \<and> tg_datacenter r = region \<and> target_held r) (rg_targets d)"
  have "rev (sort_key tg_created_at (rev ?xs)) = []"
    using assms by (simp add: held_target_def split: list.splits)
  then have "length (rev (sort_key tg_created_at (rev ?xs))) = 0" by simp
  then have "?xs = []" by simp
  then show ?thesis by (auto simp: filter_empty_conv)
qed

lemma held_target_Some:
  assumes "held_target d provider region = Some r"
  shows "r \<in> set (rg_targets d) \<and> tg_provider r = provider \<and> tg_datacenter r = region \<and> target_held r"
proof -
  let ?ys = "rev (sort_key tg_created_at
      (rev (filter (\<lambda>r. tg_provider r = provider \<and> tg_datacenter r = region \<and> target_held r) (rg_targets d))))"
  obtain rs where ys: "?ys = r # rs" using assms unfolding held_target_def by (cases ?ys) auto
  have "r \<in> set ?ys" unfolding ys by simp
  then show ?thesis by simp
qed

lemma claim_target_cases:
  assumes "claim_replica_target env now uuid d provider datacenter size_gb cost budget = Inr (d', (r, dup))"
  obtains (old) "dup" "d' = d" "held_target d (tg_provider r) (tg_datacenter r) = Some r"
  | (new) b limit_usd where "\<not> dup" "d' = d\<lparr>rg_targets := rg_targets d @ [r]\<rparr>"
      "held_target d (tg_provider r) (tg_datacenter r) = None" "tg_status r = ''creating''" "tg_id r = uuid"
      "\<forall>x \<in> set (rg_targets d). tg_id x \<noteq> uuid"
      "py_float env budget = Inr b" "finite_nonneg b = Some limit_usd"
      "target_cost d + tg_monthly_cost r \<le> limit_usd"
proof -
  let ?n = "py_lower (py_strip provider)" and ?g = "py_strip datacenter"
  show thesis
  proof (cases "held_target d ?n ?g")
    case (Some x)
    then have "dup \<and> d' = d \<and> x = r"
      using assms by (auto simp: claim_replica_target_def Let_def split: if_splits sum.splits option.splits)
    then show thesis using old Some held_target_Some [OF Some] by simp
  next
    case None
    obtain n m b l where r: "r = \<lparr>tg_id = uuid, tg_provider = ?n, tg_datacenter = ?g, tg_status = ''creating'',
                    tg_provider_volume = None, tg_cache_volume = None, tg_size_gb = n,
                    tg_monthly_cost = m, tg_created_at = now, tg_ready_at = None, tg_error = None\<rparr>"
      and x: "\<not> dup" "d' = d\<lparr>rg_targets := rg_targets d @ [r]\<rparr>"
      "\<not> (\<exists>r \<in> set (rg_targets d). tg_id r = uuid)" "py_float env budget = Inr b"
      "finite_nonneg b = Some l" "\<not> l < target_cost d + m"
      using assms None
      by (auto simp: claim_replica_target_def Let_def split: if_splits sum.splits option.splits)
    show thesis
      by (rule new [of b l]; use x None in \<open>auto simp: r not_less\<close>)
  qed
qed

lemma targets_only: "registry_ok d \<Longrightarrow> targets_ok ts \<Longrightarrow> registry_ok (d\<lparr>rg_targets := ts\<rparr>)"
  by (simp add: registry_ok_def)

lemma claim_target_ok:
  assumes "claim_replica_target env now uuid d p dc n c b = Inr (d', (r, dup))" and "registry_ok d"
  shows "registry_ok d'"
  using assms(1)
proof (cases rule: claim_target_cases)
  case old
  then show ?thesis using assms(2) by simp
next
  case (new bv limit_usd)
  have "tg_id r \<notin> tg_id ` set (rg_targets d)" using new(5,6) by auto
  moreover note held_target_None [OF new(3)]
  ultimately show ?thesis
    unfolding new(2) using registry_okD(3) [OF assms(2)]
    by (intro targets_only [OF assms(2)]) (auto simp: targets_ok_def unique_targets_def)
qed

lemma change_target_ok:
  assumes "change_target i Q f d = Inr (d', r)" and "\<And>r. tg_id (f r) = tg_id r" and "registry_ok d"
  shows "registry_ok d'"
proof -
  have d': "d' = d\<lparr>rg_targets := update_where (\<lambda>r. tg_id r = i \<and> Q r) f (rg_targets d)\<rparr>"
    and u: "unique_targets (update_where (\<lambda>r. tg_id r = i \<and> Q r) f (rg_targets d))"
    using assms(1) by (auto simp: change_target_def Let_def split: if_splits option.splits)
  show ?thesis
    unfolding d' using u registry_okD(3) [OF assms(3)] assms(2)
    by (intro targets_only [OF assms(3)]) (simp add: targets_ok_def map_update_where_key)
qed

lemma target_ops_ok:
  assumes "registry_ok d"
  shows "complete_replica_target now d i pv vol = Inr (d', r) \<Longrightarrow> registry_ok d'"
    "bind_replica_target_provider d i pv = Inr (d', r) \<Longrightarrow> registry_ok d'"
    "update_replica_target d i st err = Inr (d', r) \<Longrightarrow> registry_ok d'"
  unfolding complete_replica_target_def bind_replica_target_provider_def update_replica_target_def
  by (auto split: if_splits intro: change_target_ok [OF _ _ assms])

end
