(* ===== verification/RegistrySteps.thy ===== *)
theory RegistrySteps
  imports RegistryOps
begin

text \<open>
  Every writing operation of \<open>CacheRegistry\<close> as one step function, the life of a copy as a step
  relation on its status, and the contracts of the prelude interpreted on both.
\<close>

section \<open>The operations\<close>

datatype reg_op =
    Upsert_Volume string string string string string int json string bool "string option"
  | Mark_Volume string string
  | Delete_Metadata string
  | Reconcile_Index string string json "(json \<times> json) list"
  | Announce_Manifest string string string json
  | Remove_Manifest string string string "string option"
  | Invalidate_Digest string string string string
  | Mark_Verified string string string
  | Record_Observation string string json
  | Record_Demand string string demand_request
  | Record_Shadow string string json
  | Create_Replication string string string string "string list" "(string \<times> int) list"
  | Complete_Replication string string "string option"
  | Claim_Action string string json json int
  | Complete_Action string string string
  | Fail_Action string string string
  | Expire_Action string string
  | Recover_Actions string string
  | Lose_Actions string string
  | Claim_Target string string string string int json json
  | Complete_Target string string string string
  | Bind_Target string string
  | Update_Target string string "string option"

fun reg_step :: "pyenv \<Rightarrow> reg_op \<Rightarrow> registry \<Rightarrow> registry" where
  \<comment> \<open>the state a caller sees: a transaction that raises is rolled back; the first arguments are
      the instant and the fresh identifier the code takes\<close>
  "reg_step env (Upsert_Volume uuid p pv dc ow cap pol st s3 w) d =
     commit d (upsert_volume uuid d p pv dc ow cap pol st s3 w)"
| "reg_step env (Mark_Volume vol st) d = commit d (mark_volume d vol st)"
| "reg_step env (Delete_Metadata vol) d = commit d (delete_metadata d vol)"
| "reg_step env (Reconcile_Index now vol index docs) d = commit d (reconcile_index env now d vol index docs)"
| "reg_step env (Announce_Manifest now vol g m) d = commit d (announce_manifest env now d vol g m)"
| "reg_step env (Remove_Manifest now vol mid g) d = commit d (remove_manifest env now d vol mid g)"
| "reg_step env (Invalidate_Digest now vol g reason) d = commit d (invalidate now d vol g reason)"
| "reg_step env (Mark_Verified now vol g) d = mark_verified now d vol g"
| "reg_step env (Record_Observation now uuid ob) d = commit d (record_observation env now uuid d ob)"
| "reg_step env (Record_Demand now uuid q) d = commit d (record_regional_demand env now uuid d q)"
| "reg_step env (Record_Shadow now uuid q) d = commit d (record_shadow_evaluation env now uuid d q)"
| "reg_step env (Create_Replication now uuid src tgt gs sizes) d =
     commit d (create_replication now uuid d src tgt gs sizes)"
| "reg_step env (Complete_Replication now i reason) d = commit d (complete_replication now d i reason)"
| "reg_step env (Claim_Action now uuid rec budget n) d =
     commit d (claim_replica_action env now uuid d rec budget n)"
| "reg_step env (Complete_Action now i m) d = commit d (complete_replica_action now d i m)"
| "reg_step env (Fail_Action now i reason) d = commit d (fail_replica_action now d i reason)"
| "reg_step env (Expire_Action now i) d = commit d (expire_replica_action now d i)"
| "reg_step env (Recover_Actions now before) d = fst (recover_stale_replica_actions now d before)"
| "reg_step env (Lose_Actions now vol) d = fst (lose_replica_actions_for_target now d vol)"
| "reg_step env (Claim_Target now uuid p dc n cost budget) d =
     commit d (claim_replica_target env now uuid d p dc n cost budget)"
| "reg_step env (Complete_Target now i pv vol) d = commit d (complete_replica_target now d i pv vol)"
| "reg_step env (Bind_Target i pv) d = commit d (bind_replica_target_provider d i pv)"
| "reg_step env (Update_Target i st err) d = commit d (update_replica_target d i st err)"

lemma commit_cases: "(\<And>d' x. r = Inr (d', x) \<Longrightarrow> P d') \<Longrightarrow> P d \<Longrightarrow> P (commit d r)"
  by (cases r) auto

lemmas op_keeps = mark_volume_keeps reconcile_index_keeps announce_keeps remove_manifest_keeps
  put_invalidation_keeps record_observation_keeps

lemmas op_ok = upsert_volume_ok delete_metadata_ok demand_ok shadow_ok create_replication_ok
  complete_replication_ok claim_action_ok action_ops_ok(1-3) claim_target_ok target_ops_ok

lemma reg_step_ok:
  assumes "registry_ok d"
  shows "registry_ok (reg_step env x d)"
  by (cases x)
     (use assms in \<open>auto intro!: commit_cases [where P = registry_ok] action_ops_ok(4,5)
        kept_ok [OF clear_invalidation_keeps] dest!: op_keeps dest: kept_ok op_ok
        simp: invalidate_def mark_verified_def\<close>)

interpretation registry_inv: store_invariant "reg_step env" registry_ok for env
  by unfold_locales (rule reg_step_ok)

section \<open>The life of a copy\<close>

inductive action_edge :: "string \<Rightarrow> string \<Rightarrow> bool" where
  complete: "action_edge ''copying'' ''completed''"
| fail: "action_edge ''copying'' ''failed''"
| lose: "action_live r \<Longrightarrow> action_edge (ac_status r) ''lost''"
| expire: "action_edge ''completed'' ''expired''"

inductive_cases action_edge_from: "action_edge a b"

definition action_moves :: "action_row \<Rightarrow> action_row \<Rightarrow> bool" where
  \<comment> \<open>what was paid for stays, the status follows an edge\<close>
  "action_moves r s \<longleftrightarrow>
     s = r \<or> action_edge (ac_status r) (ac_status s) \<and>
       (ac_id s, ac_recommendation s, ac_source s, ac_target s, ac_source_manifest s, ac_bytes s,
        ac_monthly_cost s, ac_copy_cost s, ac_reasons s, ac_expires_at s, ac_created_at s) =
       (ac_id r, ac_recommendation r, ac_source r, ac_target r, ac_source_manifest r, ac_bytes r,
        ac_monthly_cost r, ac_copy_cost r, ac_reasons r, ac_expires_at r, ac_created_at r)"

definition actions_advance :: "registry \<Rightarrow> registry \<Rightarrow> bool" where
  "actions_advance d d' \<longleftrightarrow>
     (\<exists>as bs. rg_actions d' = as @ bs \<and> list_all2 action_moves (rg_actions d) as)"

lemma action_moves_refl [simp]: "action_moves r r"
  by (simp add: action_moves_def)

lemma moves_frame: "action_moves r s \<Longrightarrow> ac_id s = ac_id r"
  by (auto simp: action_moves_def)

lemma advance_same: "rg_actions d' = rg_actions d \<Longrightarrow> actions_advance d d'"
  unfolding actions_advance_def
  by (rule exI [where x = "rg_actions d"], rule exI [where x = "[]"]) (simp add: list_all2_refl)

lemma advance_append: "actions_advance d (d\<lparr>rg_actions := rg_actions d @ bs\<rparr>)"
  unfolding actions_advance_def
  by (rule exI [where x = "rg_actions d"]) (simp add: list_all2_refl)

lemma advance_update:
  "(\<And>r. P r \<Longrightarrow> action_moves r (f r)) \<Longrightarrow> actions_advance d (update_action P f d)"
  unfolding actions_advance_def update_action_def
  by (rule exI [where x = "update_where P f (rg_actions d)"], rule exI [where x = "[]"])
     (simp add: list_all2_update_where)

lemma kept_actions: "kept d d' \<Longrightarrow> rg_actions d' = rg_actions d"
  by (simp add: kept_def same_ledger_def)

lemma upsert_volume_actions: "upsert_volume uuid d p pv dc ow cap pol st s3 w = Inr (d', v) \<Longrightarrow> rg_actions d' = rg_actions d"
  by (auto simp: upsert_volume_def Let_def split: if_splits sum.splits option.splits)

lemma ledger_actions:
  "delete_metadata d i = Inr (d', b) \<Longrightarrow> rg_actions d' = rg_actions d"
  "record_regional_demand env now uuid d q = Inr (d', dr) \<Longrightarrow> rg_actions d' = rg_actions d"
  "record_shadow_evaluation env now uuid d j = Inr (d', k) \<Longrightarrow> rg_actions d' = rg_actions d"
  "create_replication now uuid d src tgt gs sizes = Inr (d', pr) \<Longrightarrow> rg_actions d' = rg_actions d"
  "complete_replication now d i reason = Inr (d', u) \<Longrightarrow> rg_actions d' = rg_actions d"
      apply (auto simp: delete_metadata_def split: if_splits)[1]
     apply (auto simp: record_regional_demand_def Let_def split: if_splits sum.splits option.splits)[1]
    apply (auto simp: record_shadow_evaluation_def Let_def split: if_splits)[1]
   apply (auto simp: create_replication_def Let_def split: if_splits sum.splits)[1]
  apply (auto simp: complete_replication_def Let_def split: if_splits)[1]
  done

lemma change_target_actions: "change_target i Q f d = Inr (d', r) \<Longrightarrow> rg_actions d' = rg_actions d"
  by (auto simp: change_target_def Let_def split: if_splits option.splits)

lemma target_actions:
  "claim_replica_target env now uuid d p dc n cost budget = Inr (d', x) \<Longrightarrow> rg_actions d' = rg_actions d"
  "complete_replica_target now d i pv vol = Inr (d', r) \<Longrightarrow> rg_actions d' = rg_actions d"
  "bind_replica_target_provider d i pv = Inr (d', r) \<Longrightarrow> rg_actions d' = rg_actions d"
  "update_replica_target d i st err = Inr (d', r) \<Longrightarrow> rg_actions d' = rg_actions d"
proof -
  show "claim_replica_target env now uuid d p dc n cost budget = Inr (d', x) \<Longrightarrow> rg_actions d' = rg_actions d"
    by (cases x) (auto elim: claim_target_cases)
qed (auto simp: complete_replica_target_def bind_replica_target_provider_def update_replica_target_def
       split: if_splits dest: change_target_actions)

lemma action_rows_move:
  "ac_status r = ''copying'' \<Longrightarrow> action_moves r (completed_action now m r)"
  "ac_status r = ''copying'' \<Longrightarrow> action_moves r (failed_action now e r)"
  "ac_status r = ''completed'' \<Longrightarrow> action_moves r (expired_action now r)"
  "action_live r \<Longrightarrow> action_moves r (lost_action now r)"
  by (auto simp: action_moves_def completed_action_def failed_action_def expired_action_def
      lost_action_def intro: action_edge.intros)

lemma action_ops_advance:
  "complete_replica_action now d i m = Inr (d', r) \<Longrightarrow> actions_advance d d'"
  "fail_replica_action now d i e = Inr (d', u) \<Longrightarrow> actions_advance d d'"
  "expire_replica_action now d i = Inr (d', r) \<Longrightarrow> actions_advance d d'"
  "actions_advance d (fst (recover_stale_replica_actions now d s))"
  "actions_advance d (fst (lose_replica_actions_for_target now d v))"
  by (auto simp: complete_replica_action_def fail_replica_action_def expire_replica_action_def
      recover_stale_replica_actions_def lose_replica_actions_for_target_def Let_def
      split: sum.splits dest!: change_action_Inr intro!: advance_update action_rows_move)

lemma claim_action_advance:
  "claim_replica_action env now uuid d rec budget mi = Inr (d', x) \<Longrightarrow> actions_advance d d'"
  by (cases x) (auto elim!: claim_action_cases intro: advance_append advance_same)

lemma reg_step_advance: "actions_advance d (reg_step env x d)"
  by (cases x)
     (auto intro!: commit_cases [where P = "actions_advance d"] advance_same [OF refl]
        action_ops_advance(4,5) advance_same [OF kept_actions [OF clear_invalidation_keeps]]
        dest!: op_keeps
        dest: advance_same [OF upsert_volume_actions] ledger_actions [THEN advance_same]
          target_actions [THEN advance_same] kept_actions [THEN advance_same]
          action_ops_advance(1-3) claim_action_advance
        simp: invalidate_def mark_verified_def)

definition find_action :: "registry \<Rightarrow> string \<Rightarrow> action_row option" where
  "find_action d i = find (\<lambda>r. ac_id r = i) (rg_actions d)"

definition action_done :: "action_row \<Rightarrow> bool" where
  "action_done r \<longleftrightarrow> ac_status r \<in> {''failed'', ''expired'', ''lost''}"

lemma find_append_Some: "find P xs = Some r \<Longrightarrow> find P (xs @ ys) = Some r"
  by (induction xs) (auto split: if_splits)

lemma find_advance:
  assumes "actions_advance d d'" and "find_action d i = Some r"
  obtains s where "find_action d' i = Some s" "action_moves r s"
proof -
  obtain as bs where e: "rg_actions d' = as @ bs" and m: "list_all2 action_moves (rg_actions d) as"
    using assms(1) by (auto simp: actions_advance_def)
  obtain s where "find (\<lambda>r. ac_id r = i) as = Some s" "action_moves r s"
    using list_all2_find [OF m, of ac_id i r] moves_frame assms(2) by (auto simp: find_action_def)
  then show thesis using that e by (simp add: find_action_def find_append_Some)
qed

lemma done_stays: "action_moves r s \<Longrightarrow> action_done r \<Longrightarrow> s = r"
  by (auto simp: action_moves_def action_done_def action_live_def elim: action_edge_from)

interpretation finished_copies: absorbing_store "reg_step env" registry_ok find_action action_done for env
proof unfold_locales
  fix d :: registry and k v x
  assume "find_action d k = Some v" "action_done v"
  then show "find_action (reg_step env x d) k = Some v"
    using find_advance [OF reg_step_advance] done_stays by metis
qed

lemma reachable_ok: "registry_ok (run_steps (reg_step env) xs empty_registry)"
  by (rule registry_inv.run_inv [OF empty_registry_ok])

text \<open>What a run does to one copy: its status follows the edges.\<close>

lemma run_moves:
  assumes "find_action d i = Some r"
  shows "\<exists>s. find_action (run_steps (reg_step env) xs d) i = Some s \<and>
     action_edge\<^sup>*\<^sup>* (ac_status r) (ac_status s) \<and>
     ac_recommendation s = ac_recommendation r \<and> ac_monthly_cost s = ac_monthly_cost r \<and>
     ac_expires_at s = ac_expires_at r"
  using assms
proof (induction xs arbitrary: d r)
  case Nil
  then show ?case by simp
next
  case (Cons x xs)
  obtain s where s: "find_action (reg_step env x d) i = Some s" "action_moves r s"
    by (rule find_advance [OF reg_step_advance Cons.prems])
  then have "action_edge\<^sup>*\<^sup>* (ac_status r) (ac_status s)" by (auto simp: action_moves_def)
  moreover obtain t where t: "find_action (run_steps (reg_step env) xs (reg_step env x d)) i = Some t"
    "action_edge\<^sup>*\<^sup>* (ac_status s) (ac_status t)" "ac_recommendation t = ac_recommendation s"
    "ac_monthly_cost t = ac_monthly_cost s" "ac_expires_at t = ac_expires_at s"
    using Cons.IH [OF s(1)] by blast
  ultimately have "action_edge\<^sup>*\<^sup>* (ac_status r) (ac_status t)" by (meson rtranclp_trans)
  with t s(2) show ?case by (auto simp: action_moves_def)
qed

end
