(* ===== verification/RegistryProps.thy ===== *)
theory RegistryProps
  imports RegistrySteps Samples
begin

text \<open>
  What the registry promises the scheduler and the replicator: a digest that failed on a volume
  is not served from it, a complete volume serves every digest, a recommendation is copied once
  and within its limits, and a finished copy stays finished.
\<close>

section \<open>A sample registry\<close>

definition weight_artifact :: json where
  "weight_artifact =
     JObj [(''digest'', JStr ''g1''), (''kind'', JStr ''model-weight''), (''size'', JInt 5),
           (''portability'', JStr ''portable''), (''requirements'', JObj []),
           (''policy'', JObj [(''cacheable'', JBool True), (''tenant'', JStr ''default'')])]"

definition weight_index :: json where
  "weight_index =
     JObj [(''schema'', JStr ''cloud-offload.prepared-state.index.v1''), (''generation'', JStr ''1''),
           (''manifests'', JArr [JObj [(''manifest_id'', JStr ''m1''), (''profile_fingerprint'', JStr ''p1''),
              (''created_at'', JStr ''2026''), (''artifacts'', JArr [weight_artifact])]])]"

definition volume_op :: "string \<Rightarrow> reg_op" where
  "volume_op i = Upsert_Volume i ''runpod'' i ''EU'' ''managed'' 100 (JObj []) ''ready'' False (Some i)"

definition cached_ops :: "reg_op list" where
  "cached_ops = [volume_op ''v1'', volume_op ''v2'', Reconcile_Index ''2026'' ''v1'' weight_index []]"

definition sample_registry :: registry where
  "sample_registry = run_steps (reg_step sample_env) cached_ops empty_registry"

definition sample_volume :: cache_volume where
  "sample_volume = the (find_volume sample_registry ''v1'')"

definition copy_recommendation :: json where
  "copy_recommendation =
     JObj [(''recommendation_id'', JStr ''r1''), (''source_volume_id'', JStr ''v1''),
           (''target_volume_id'', JStr ''v2''), (''source_manifest_id'', JStr ''m1''),
           (''expires_at'', JStr ''2027''), (''bytes'', JInt 5),
           (''incremental_monthly_storage_cost_usd'', JInt 2), (''estimated_copy_cost_usd'', JInt 1)]"

section \<open>Coverage\<close>

lemma listed_row_safe:
  "listed_row env d vol mid a = Inr r \<Longrightarrow> cr_eligible r \<Longrightarrow> \<not> invalidated d vol (cr_digest r)"
  by (auto simp: listed_row_def split: sum.splits)

lemma stored_row_safe:
  assumes "registry_ok d" and "a \<in> set (stored_rows d vol)" and "cr_eligible (stored_row a)"
  shows "\<not> invalidated d vol (cr_digest (stored_row a))"
proof -
  have a: "a \<in> set (rg_artifacts d)" "ca_volume a = vol" "ca_eligibility a = ''eligible''"
    using assms(2,3) by (simp_all add: stored_rows_def stored_row_def)
  then have "artifact_key_of a \<notin> invalidation_key ` set (rg_invalidations d)"
    using contentsD(8) [OF registry_ok_contents [OF assms(1)]] by blast
  then show ?thesis using a by (simp add: invalidated_iff artifact_key_of_def stored_row_def)
qed

lemma coverage_rows_safe:
  assumes "coverage_rows env d vol profile required = Inr rows" and "registry_ok d"
    and "r \<in> set rows" and "cr_eligible r"
  shows "\<not> invalidated d vol (cr_digest r)"
proof -
  let ?S = "stored_rows d vol"
  obtain xs where xs: "set rows \<subseteq> set xs \<union> stored_row ` set ?S"
    and src: "(\<exists>mid as. each (listed_row env d vol mid) as = Inr xs) \<or> set xs \<subseteq> stored_row ` set ?S"
  proof -
    assume that: "\<And>xs. set rows \<subseteq> set xs \<union> stored_row ` set ?S \<Longrightarrow>
      (\<exists>mid as. each (listed_row env d vol mid) as = Inr xs) \<or> set xs \<subseteq> stored_row ` set ?S \<Longrightarrow> thesis"
    show thesis
    proof (cases "select_manifest d vol profile")
      case None
      then show thesis using assms(1)
        by (intro that [of rows]) (auto simp: coverage_rows_def Let_def split: if_splits)
    next
      case (Some m)
      then obtain as ys where e: "each (listed_row env d vol (mf_id m)) as = Inr ys"
        and rows: "rows = ys @ (if given profile then map stored_row (filter (\<lambda>r.
            ca_digest r \<in> set (map fst required) - set (map cr_digest ys)) ?S) else [])"
        using assms(1) by (auto simp: coverage_rows_def Let_def split: sum.splits)
      have "set rows \<subseteq> set ys \<union> stored_row ` set ?S" unfolding rows by auto
      then show thesis using that [of ys] e by blast
    qed
  qed
  have "(\<exists>mid a. listed_row env d vol mid a = Inr r) \<or> (\<exists>a \<in> set ?S. r = stored_row a)"
  proof (cases "r \<in> set xs")
    case True
    then show ?thesis using src each_in [OF _ True] by blast
  next
    case False
    then show ?thesis using xs assms(3) by auto
  qed
  then show ?thesis using listed_row_safe stored_row_safe assms(2,4) by blast
qed

definition tally_ok :: "(string \<times> int) list \<Rightarrow> string set \<Rightarrow> tally \<Rightarrow> bool" where
  "tally_ok required ds t \<longleftrightarrow>
     set (tl_hits t) \<subseteq> ds \<and> set (tl_required t) \<subseteq> fst ` set required \<and> set (tl_required t) \<subseteq> set (tl_hits t)"

lemma add_bytes_frame:
  "add_bytes required r t = Inr t' \<Longrightarrow>
     tl_hits t' = tl_hits t \<and> tl_required t' = tl_required t \<and> tl_logical t' = tl_logical t"
  by (auto simp: add_bytes_def split: sum.splits if_splits)

lemma tally_row_ok:
  assumes "tally_row env runtime tenant priv required r t = Inr t'" and "tally_ok required ds t"
    and "cr_eligible r \<Longrightarrow> cr_digest r \<in> ds"
  shows "tally_ok required ds t'"
proof (cases "usable env runtime tenant priv r")
  case False
  then show ?thesis using assms by (simp add: tally_row_def)
next
  case True
  then have "cr_digest r \<in> ds" using assms(3) by (simp add: usable_def Let_def)
  with True assms(1,2) show ?thesis
    by (auto simp: tally_row_def tally_ok_def subset_iff image_iff Let_def split: sum.splits if_splits
        dest!: add_bytes_frame) force+
qed

lemma candidate_tally:
  assumes "volume_candidate env d required runtime tenant profile priv logical v = Inr c" and "registry_ok d"
  obtains t where "tally_ok required {g. \<not> invalidated d (cv_id v) g} t"
    "set (cg_digests c) = set (tl_hits t)"
    "cg_complete c \<longrightarrow> card (set (tl_required t)) = length required \<and> set logical \<subseteq> set (tl_logical t)"
    "set (cg_logical_hits c) = set (tl_logical t)"
proof -
  obtain rows t where rows: "coverage_rows env d (cv_id v) profile required = Inr rows"
    and t: "fold_tx (tally_row env runtime tenant priv required) rows empty_tally = Inr t"
    and c: "cg_digests c = sort (tl_hits t)" "cg_logical_hits c = sort (remdups (tl_logical t))"
      "cg_complete c \<longrightarrow> card (set (tl_required t)) = length required \<and> set logical \<subseteq> set (tl_logical t)"
    using assms(1) by (auto simp: volume_candidate_def Let_def split: sum.splits)
  have "tally_ok required {g. \<not> invalidated d (cv_id v) g} t"
  proof (rule fold_tx_invariant [OF t, where P = "tally_ok required {g. \<not> invalidated d (cv_id v) g}"])
    show "tally_ok required {g. \<not> invalidated d (cv_id v) g} empty_tally"
      by (simp add: tally_ok_def empty_tally_def)
    fix r u u'
    assume r: "r \<in> set rows" and u: "tally_row env runtime tenant priv required r u = Inr u'"
      and ok: "tally_ok required {g. \<not> invalidated d (cv_id v) g} u"
    show "tally_ok required {g. \<not> invalidated d (cv_id v) g} u'"
      by (rule tally_row_ok [OF u ok]) (use coverage_rows_safe [OF rows assms(2) r] in blast)
  qed
  then show thesis using that c by simp
qed

text \<open>C32: In every registry that the operations can reach, the coverage of a volume never counts a
  digest that is invalidated there, whichever manifest lists it.\<close>

lemma invalidated_never_served:
  assumes "d = run_steps (reg_step env) xs empty_registry"
    and "volume_candidate env' d required runtime tenant profile priv logical v = Inr c"
    and "invalidated d (cv_id v) g"
  shows "g \<notin> set (cg_digests c)"
proof -
  obtain t where "tally_ok required {g. \<not> invalidated d (cv_id v) g} t" "set (cg_digests c) = set (tl_hits t)"
    by (rule candidate_tally [OF assms(2) reachable_ok [of env xs, folded assms(1)]])
  then show ?thesis using assms(3) by (auto simp: tally_ok_def)
qed

lemma invalidated_never_served_witness:
  "\<exists>d c. volume_candidate sample_env d [(''g1'', 5)] (JObj []) ''default'' None False [] sample_volume = Inr c \<and>
     invalidated d ''v1'' ''g1'' \<and> ''g1'' \<notin> set (cg_digests c)"
proof -
  let ?ops = "cached_ops @ [Invalidate_Digest ''2026'' ''v1'' ''g1'' ''x'']"
  let ?d = "run_steps (reg_step sample_env) ?ops empty_registry"
  let ?r = "volume_candidate sample_env ?d [(''g1'', 5)] (JObj []) ''default'' None False [] sample_volume"
  have "isl ?r = False" by code_simp
  then obtain c where c: "?r = Inr c" by (cases ?r) simp_all
  have i: "invalidated ?d (cv_id sample_volume) ''g1''" and v: "cv_id sample_volume = ''v1''" by code_simp+
  show ?thesis using invalidated_never_served [OF refl c i] c i v by metis
qed

lemma candidate_complete:
  assumes "volume_candidate env' d required runtime tenant profile priv logical v = Inr c"
    and "cg_complete c" and "registry_ok d"
  shows "fst ` set required \<subseteq> set (cg_digests c) \<and> (\<forall>g \<in> fst ` set required. \<not> invalidated d (cv_id v) g) \<and>
     set logical \<subseteq> set (cg_logical_hits c)"
proof -
  obtain t where t: "tally_ok required {g. \<not> invalidated d (cv_id v) g} t"
    and c: "set (cg_digests c) = set (tl_hits t)" "set (cg_logical_hits c) = set (tl_logical t)"
      "card (set (tl_required t)) = length required" "set logical \<subseteq> set (tl_logical t)"
    by (rule candidate_tally [OF assms(1,3)]) (use assms(2) in blast)
  have "card (fst ` set required) \<le> card (set (tl_required t))"
    unfolding c(3) by (rule le_trans [OF card_image_le card_length]) simp
  moreover have "set (tl_required t) \<subseteq> fst ` set required" using t by (simp add: tally_ok_def)
  ultimately have "set (tl_required t) = fst ` set required" using card_seteq [of "fst ` set required"] by simp
  then show ?thesis using t c by (auto simp: tally_ok_def)
qed

text \<open>C33: A volume that is reported complete serves every digest the job requires, none of them
  invalidated, and every logical requirement.\<close>

lemma complete_serves_all:
  assumes "d = run_steps (reg_step env) xs empty_registry"
    and "volume_candidate env' d required runtime tenant profile priv logical v = Inr c"
    and "cg_complete c"
  shows "fst ` set required \<subseteq> set (cg_digests c) \<and> (\<forall>g \<in> fst ` set required. \<not> invalidated d (cv_id v) g) \<and>
     set logical \<subseteq> set (cg_logical_hits c)"
  using candidate_complete [OF assms(2,3) reachable_ok [of env xs, folded assms(1)]] .

lemma complete_serves_all_witness:
  "\<exists>c. volume_candidate sample_env sample_registry [(''g1'', 5)] (JObj []) ''default'' None False [] sample_volume =
     Inr c \<and> cg_complete c \<and> ''g1'' \<in> set (cg_digests c)"
proof -
  let ?r = "volume_candidate sample_env sample_registry [(''g1'', 5)] (JObj []) ''default'' None False [] sample_volume"
  have "(case ?r of Inl e \<Rightarrow> False | Inr c \<Rightarrow> cg_complete c)" by code_simp
  then obtain c where c: "?r = Inr c" "cg_complete c" by (auto split: sum.splits)
  show ?thesis using complete_serves_all [OF sample_registry_def c] c by auto
qed

section \<open>Copies\<close>

lemma live_copy_unique:
  assumes "registry_ok d" and "r \<in> set (rg_actions d)" "s \<in> set (rg_actions d)"
    and "action_live r" "action_live s" and "ac_recommendation r = ac_recommendation s"
  shows "r = s"
proof -
  have "distinct (map ac_recommendation (filter action_live (rg_actions d)))"
    using assms(1) by (simp add: registry_ok_def actions_ok_def)
  then have "inj_on ac_recommendation (set (filter action_live (rg_actions d)))"
    by (simp only: distinct_map)
  then show ?thesis using assms(2-6) by (auto dest: inj_onD)
qed

text \<open>C34: While a copy of a recommendation is running or finished, claiming the recommendation
  again returns that copy and starts nothing.\<close>

lemma copied_once:
  assumes "d = run_steps (reg_step env) xs empty_registry"
    and "r \<in> set (rg_actions d)" and "action_live r"
    and "claim_replica_action env' now uuid d rec budget n = Inr (d', (s, dup))"
    and "ac_recommendation s = ac_recommendation r"
  shows "dup \<and> s = r \<and> d' = d"
  using assms(4)
proof (cases rule: claim_action_cases)
  case old
  have "s = r"
    using live_action_Some [OF old(3)] assms(2,3,5)
    by (intro live_copy_unique [OF reachable_ok [of env xs, folded assms(1)]]) simp_all
  then show ?thesis using old by simp
next
  case (new c l)
  then show ?thesis using live_action_None [OF new(3)] assms(2,3,5) by force
qed

lemma copied_once_witness:
  "\<exists>d s. claim_replica_action sample_env ''2026'' ''a2'' d copy_recommendation (JInt 10) 1 = Inr (d, (s, True)) \<and>
     find_action d ''a1'' = Some s"
proof -
  let ?ops = "cached_ops @ [Claim_Action ''2026'' ''a1'' copy_recommendation (JInt 10) 1]"
  let ?d = "run_steps (reg_step sample_env) ?ops empty_registry"
  let ?c = "claim_replica_action sample_env ''2026'' ''a2'' ?d copy_recommendation (JInt 10) 1"
  have "(case ?c of Inl e \<Rightarrow> False | Inr (d', (s, dup)) \<Rightarrow>
     ac_recommendation s = ''r1'')" by code_simp
  then obtain d' s dup where c: "?c = Inr (d', (s, dup))" and s: "ac_recommendation s = ''r1''"
    by (auto split: sum.splits)
  have "(case find_action ?d ''a1'' of None \<Rightarrow> False | Some r \<Rightarrow> ac_recommendation r = ''r1'' \<and> action_live r)"
    by code_simp
  then obtain r where f: "find_action ?d ''a1'' = Some r" and r: "ac_recommendation r = ''r1''" "action_live r"
    by (auto split: option.splits)
  have "r \<in> set (rg_actions ?d)" using f unfolding find_action_def by (auto simp: find_Some_iff)
  then have "dup \<and> s = r \<and> d' = ?d" using copied_once [OF refl _ r(2) c] s r(1) by simp
  then show ?thesis using c f by metis
qed

lemma inflight_append: "inflight (d\<lparr>rg_actions := rg_actions d @ [r]\<rparr>) =
    inflight d + (if ac_status r = ''copying'' then 1 else 0)"
  by (simp add: inflight_def)

lemma reserved_append: "reserved_cost (d\<lparr>rg_actions := rg_actions d @ [r]\<rparr>) now =
    reserved_cost d now + (if action_live r \<and> now < ac_expires_at r then ac_monthly_cost r else 0)"
  by (simp add: reserved_cost_def)

text \<open>C35: A claim that starts a copy leaves the copies in flight within the limit and the monthly
  cost of the live copies within the budget; the copy has not expired.\<close>

lemma copy_within_limits:
  assumes "claim_replica_action env now uuid d rec budget n = Inr (d', (r, False))"
    and "replica_costs env rec budget = Inr (m, c, limit_usd)"
  shows "inflight d' \<le> max 1 n \<and> reserved_cost d' now \<le> limit_usd \<and>
     reserved_cost d' now = reserved_cost d now + m \<and> now < ac_expires_at r"
  using assms(1)
proof (cases rule: claim_action_cases)
  case old
  then show ?thesis by simp
next
  case (new c' l)
  then have "m = ac_monthly_cost r" "l = limit_usd" using assms(2) by simp_all
  then show ?thesis
    using new unfolding new(2) by (simp add: inflight_append reserved_append action_live_def)
qed

lemma copy_within_limits_witness:
  "\<exists>d' r. claim_replica_action sample_env ''2026'' ''a1'' sample_registry copy_recommendation (JInt 10) 1 =
       Inr (d', (r, False)) \<and> inflight d' \<le> 1 \<and> reserved_cost d' ''2026'' \<le> 10"
proof -
  let ?c = "claim_replica_action sample_env ''2026'' ''a1'' sample_registry copy_recommendation (JInt 10) 1"
  have "(case ?c of Inl e \<Rightarrow> False | Inr (d', (s, dup)) \<Rightarrow> \<not> dup)" by code_simp
  then obtain d' r where c: "?c = Inr (d', (r, False))" by (auto split: sum.splits)
  have m: "replica_costs sample_env copy_recommendation (JInt 10) = Inr (2, 1, 10)" by code_simp
  show ?thesis using copy_within_limits [OF c m] c by auto
qed

text \<open>C36: Whatever operations follow, the status of a copy only moves along its edges, its
  recommendation, cost and expiry stay, and a copy that failed, expired or was lost stays so.\<close>

lemma copy_moves_forward:
  assumes "find_action d i = Some r" and "registry_ok d"
  shows "\<exists>s. find_action (run_steps (reg_step env) xs d) i = Some s \<and>
     action_edge\<^sup>*\<^sup>* (ac_status r) (ac_status s) \<and> (action_done r \<longrightarrow> s = r) \<and>
     ac_recommendation s = ac_recommendation r \<and> ac_monthly_cost s = ac_monthly_cost r \<and>
     ac_expires_at s = ac_expires_at r"
  using run_moves [OF assms(1)] finished_copies.run_final [OF assms(2,1)] by fastforce

lemma copy_moves_forward_witness:
  "\<exists>d r s. find_action d ''a1'' = Some r \<and> ac_status r = ''failed'' \<and>
     find_action (run_steps (reg_step sample_env) [Complete_Action ''2026'' ''a1'' ''m1''] d) ''a1'' = Some s \<and> s = r"
proof -
  let ?ops = "cached_ops @ [Claim_Action ''2026'' ''a1'' copy_recommendation (JInt 10) 1,
                            Fail_Action ''2026'' ''a1'' ''x'']"
  let ?d = "run_steps (reg_step sample_env) ?ops empty_registry"
  have "(case find_action ?d ''a1'' of None \<Rightarrow> False | Some r \<Rightarrow> ac_status r = ''failed'')" by code_simp
  then obtain r where f: "find_action ?d ''a1'' = Some r" and r: "ac_status r = ''failed''"
    by (auto split: option.splits)
  then show ?thesis
    using copy_moves_forward [OF f reachable_ok, of sample_env "[Complete_Action ''2026'' ''a1'' ''m1'']"]
    unfolding action_done_def by blast
qed

section \<open>Targets\<close>

text \<open>Claiming a storage target in a region that has one returns that target, whatever size and
  cost were asked for, and changes nothing.\<close>

lemma target_claimed_once:
  assumes "d = run_steps (reg_step env) xs empty_registry"
    and "claim_replica_target env' now uuid d p dc gb cost budget = Inr (d', (r, dup))"
    and "t \<in> set (rg_targets d)" "target_held t" "tg_provider t = tg_provider r" "tg_datacenter t = tg_datacenter r"
  shows "dup \<and> r = t \<and> d' = d"
  using assms(2)
proof (cases rule: claim_target_cases)
  case old
  have "distinct (map (\<lambda>r. (tg_provider r, tg_datacenter r)) (filter target_held (rg_targets d)))"
    using registry_okD(3) [OF reachable_ok [of env xs, folded assms(1)]]
    by (simp add: targets_ok_def unique_targets_def)
  then have "inj_on (\<lambda>r. (tg_provider r, tg_datacenter r)) (set (filter target_held (rg_targets d)))"
    by (simp only: distinct_map)
  moreover have "r \<in> set (rg_targets d)" "target_held r" using held_target_Some [OF old(3)] by simp_all
  ultimately have "r = t" using assms(3-6) by (auto dest: inj_onD)
  then show ?thesis using old by simp
next
  case (new b l)
  have "(tg_provider r, tg_datacenter r) \<in>
      (\<lambda>r. (tg_provider r, tg_datacenter r)) ` set (filter target_held (rg_targets d))"
    by (rule image_eqI [where x = t]) (use assms(3-6) in simp_all)
  then show ?thesis using held_target_None [OF new(3)] by contradiction
qed

lemma target_claimed_once_witness:
  "\<exists>d t. claim_replica_target sample_env ''2026'' ''t2'' d ''RunPod '' ''EU'' 9 (JInt 1) (JInt 9) = Inr (d, (t, True)) \<and>
     rg_targets d = [t]"
proof -
  let ?ops = "[Claim_Target ''2026'' ''t1'' ''runpod'' ''EU'' 5 (JInt 1) (JInt 9)]"
  let ?d = "run_steps (reg_step sample_env) ?ops empty_registry"
  let ?c = "claim_replica_target sample_env ''2026'' ''t2'' ?d ''RunPod '' ''EU'' 9 (JInt 1) (JInt 9)"
  let ?t = "\<lparr>tg_id = ''t1'', tg_provider = ''runpod'', tg_datacenter = ''EU'', tg_status = ''creating'',
             tg_provider_volume = None, tg_cache_volume = None, tg_size_gb = 5,
             tg_monthly_cost = 1, tg_created_at = ''2026'', tg_ready_at = None, tg_error = None\<rparr>"
  have rows: "rg_targets ?d = [?t]" by code_simp
  have "(case ?c of Inl e \<Rightarrow> False | Inr (d', (s, dup)) \<Rightarrow> tg_provider s = ''runpod'' \<and> tg_datacenter s = ''EU'')"
    by code_simp
  then obtain d' s dup where c: "?c = Inr (d', (s, dup))" "tg_provider s = ''runpod''" "tg_datacenter s = ''EU''"
    by (auto split: sum.splits)
  have "dup \<and> s = ?t \<and> d' = ?d"
    by (rule target_claimed_once [OF refl c(1)]) (simp_all only: rows, use c in \<open>simp_all add: target_held_def\<close>)
  then show ?thesis using c(1) rows by metis
qed

end
