(* ===== verification/ReplicationProps.thy ===== *)
theory ReplicationProps
  imports Replication PolicyProps RegistryProps
begin

text \<open>
  What the replication recommends and when it may act: every recommendation is justified by paid
  demand and a ready source, all of them together stay within the budget, and the gate of the
  automatic mode rests on demand that came after a recommendation. Two theorems state where the
  code falls short: a budget that is NaN, and reports that hide misses.
\<close>


section \<open>Groups of demand\<close>

definition group_of :: "demand_row list \<Rightarrow> demand_key \<Rightarrow> demand_row list" where
  "group_of rows k = filter (\<lambda>r. counted_demand r \<and> key_of_demand r = k) rows"

lemma map_of_add_to_group:
  "map_of (add_to_group r gs) k =
     (if k = key_of_demand r then Some (or_default [] (map_of gs k) @ [r]) else map_of gs k)"
proof (induction r gs rule: add_to_group.induct)
  case (1 r)
  then show ?case by (simp add: or_default_def)
next
  case (2 r k' rs gs)
  then show ?case by (cases "k' = key_of_demand r"; cases "k = key_of_demand r") (simp_all add: or_default_def)
qed

lemma fst_add_to_group: "fst ` set (add_to_group r gs) = insert (key_of_demand r) (fst ` set gs)"
  by (induction r gs rule: add_to_group.induct) auto

lemma distinct_add_to_group: "distinct (map fst gs) \<Longrightarrow> distinct (map fst (add_to_group r gs))"
proof (induction r gs rule: add_to_group.induct)
  case (1 r)
  then show ?case by simp
next
  case (2 r k rs gs)
  show ?case
  proof (cases "k = key_of_demand r")
    case True
    then show ?thesis using 2 by simp
  next
    case False
    then have "k \<notin> fst ` set (add_to_group r gs)" using 2 by (simp add: fst_add_to_group)
    then show ?thesis using 2 False by simp
  qed
qed

lemma groups_fold:
  assumes "distinct (map fst gs)"
  shows "distinct (map fst (fold add_to_group rs gs)) \<and>
     map_of (fold add_to_group rs gs) k =
       (let own = filter (\<lambda>r. key_of_demand r = k) rs in
        if map_of gs k = None \<and> own = [] then None else Some (or_default [] (map_of gs k) @ own))"
  using assms
proof (induction rs arbitrary: gs)
  case Nil
  then show ?case by (auto simp: or_default_def split: option.splits)
next
  case (Cons r rs)
  show ?case
    using Cons.IH [OF distinct_add_to_group [OF Cons.prems]]
    by (auto simp: map_of_add_to_group or_default_def Let_def split: option.splits)
qed

lemma demand_groups_iff:
  "(k, rs) \<in> set (demand_groups rows) \<longleftrightarrow> rs = group_of rows k \<and> rs \<noteq> []"
proof -
  note f = groups_fold [of "[]" "filter counted_demand rows" k]
  have d: "distinct (map fst (demand_groups rows))" using f by (simp add: demand_groups_def)
  have "(k, rs) \<in> set (demand_groups rows) \<longleftrightarrow> map_of (demand_groups rows) k = Some rs"
    using map_of_eq_Some_iff [OF d] by simp
  also have "\<dots> \<longleftrightarrow> rs = group_of rows k \<and> rs \<noteq> []"
    using f by (auto simp: demand_groups_def group_of_def or_default_def Let_def filter_empty_conv conj_commute)
  finally show ?thesis .
qed

section \<open>Decisions\<close>

lemma report_advice:
  assumes "report_decisions env policy s now d rows = Inr xs" and "x \<in> set xs"
  shows "\<exists>k. advise env policy s now d (list_volumes d None) (k, group_of rows k) = Inr x \<and> group_of rows k \<noteq> []"
proof -
  obtain ys where ys: "each (advise env policy s now d (list_volumes d None)) (demand_groups rows) = Inr ys"
    and xs: "xs = sort_key decision_order ys"
    using assms(1) by (auto simp: report_decisions_def split: sum.splits)
  then obtain g where g: "g \<in> set (demand_groups rows)" "advise env policy s now d (list_volumes d None) g = Inr x"
    using assms(2) each_in [OF ys, of x] by auto
  obtain k rs where "g = (k, rs)" by fastforce
  then show ?thesis using g demand_groups_iff [of k rs rows] by blast
qed


lemma set_when_code [simp]: "set (when_code b c) = (if b then {c} else {})"
  by (simp add: when_code_def)

lemma recommended_iff: "a \<in> set (recommended xs) \<longleftrightarrow> Advice a \<in> set xs \<and> av_recommended a"
  by (force simp: recommended_def List.map_filter_def split: decision_row.splits if_splits)

text \<open>What \<open>spend\<close> does to a recommendation that stays: its cost may be shared.\<close>

lemma spend_step:
  assumes "spend budget p planned (x # xs) = (t, ys)"
  obtains p' planned' y ys' where "spend budget p' planned' xs = (t, ys')" and "ys = y # ys'"
    and "\<And>a. y = Advice a \<Longrightarrow> av_recommended a \<Longrightarrow>
           \<exists>b. x = Advice b \<and> av_recommended b \<and> (a = b \<or> a = b\<lparr>av_monthly := JFloat 0\<rparr>)"
proof (cases x)
  case (Covered q r u n)
  then show ?thesis using assms by (auto split: prod.splits intro: that)
next
  case (Advice b)
  show ?thesis
  proof (cases "av_recommended b")
    case False
    then show ?thesis using assms Advice by (auto split: prod.splits intro: that)
  next
    case True
    let ?c = "if av_target b = None \<and> (av_provider b, av_region b) \<in> set planned then b\<lparr>av_monthly := JFloat 0\<rparr> else b"
    show ?thesis
    proof (cases "over_limit (float_add p (av_monthly ?c)) budget")
      case over: True
      then obtain ys' where "spend budget p planned xs = (t, ys')" "ys = Advice (too_expensive ?c) # ys'"
        using assms Advice True by (auto simp: Let_def split: prod.splits)
      then show ?thesis by (rule that) (simp add: too_expensive_def)
    next
      case False
      then obtain ys' where
        "spend budget (float_add p (av_monthly ?c))
           (if av_target b = None then (av_provider b, av_region b) # planned else planned) xs = (t, ys')"
        "ys = Advice ?c # ys'"
        using assms Advice True by (auto simp: Let_def split: prod.splits)
      then show ?thesis by (rule that) (use Advice True in auto)
    qed
  qed
qed

lemma spend_recommended:
  assumes "spend budget p planned xs = (t, ys)" and "a \<in> set (recommended ys)"
  shows "\<exists>b. Advice b \<in> set xs \<and> av_recommended b \<and> (a = b \<or> a = b\<lparr>av_monthly := JFloat 0\<rparr>)"
  using assms
proof (induction xs arbitrary: p planned ys)
  case Nil
  then show ?case by (simp add: recommended_def)
next
  case (Cons x xs)
  obtain p' planned' y ys' where y: "spend budget p' planned' xs = (t, ys')" "ys = y # ys'"
    and own: "\<And>a. y = Advice a \<Longrightarrow> av_recommended a \<Longrightarrow>
           \<exists>b. x = Advice b \<and> av_recommended b \<and> (a = b \<or> a = b\<lparr>av_monthly := JFloat 0\<rparr>)"
    using spend_step [OF Cons.prems(1)] by metis
  show ?case
  proof (cases "y = Advice a")
    case True
    then show ?thesis using own [of a] Cons.prems(2) by (auto simp: recommended_iff)
  next
    case False
    then have "a \<in> set (recommended ys')" using Cons.prems(2) y(2) by (auto simp: recommended_iff)
    from Cons.IH [OF y(1) this] show ?thesis by auto
  qed
qed

definition volume_copies :: "cache_volume \<Rightarrow> string \<Rightarrow> string \<Rightarrow> bool" where
  "volume_copies v ident provider \<longleftrightarrow>
     cv_id v = ident \<and> cv_provider v = provider \<and> cv_status v = ''ready'' \<and> cv_s3 v"

lemma set_list_volumes: "set (list_volumes d None) = set (rg_volumes d)"
  by (simp add: list_volumes_def)

lemma usable_volumeD: "usable_volume vols provider i \<Longrightarrow> \<exists>v \<in> set vols. volume_copies v i provider"
  by (auto simp: usable_volume_def volume_copies_def split: option.splits dest: find_SomeD)

lemma reasons_sound:
  assumes "set (reasons_for s region hs bytes hits saved cost ht) \<inter> set observe_codes = {}"
  shows "rs_mode s \<noteq> ''off'' \<and> (rs_approved s \<noteq> [] \<longrightarrow> region \<in> set (rs_approved s)) \<and> hs \<and> 0 < bytes \<and>
     rs_min_hits s \<le> hits \<and> \<not> float_less (JFloat saved) (rs_min_saved s) \<and> \<not> over_limit cost (rs_budget s)"
proof -
  let ?r = "reasons_for s region hs bytes hits saved cost ht"
  have no: "c \<notin> set ?r" if "c \<in> set observe_codes" for c
    using assms that by blast
  have "''replication_off'' \<notin> set ?r" "''region_not_approved'' \<notin> set ?r" "''compatible_source_missing'' \<notin> set ?r"
    "''source_manifest_has_no_copyable_bytes'' \<notin> set ?r" "''demand_below_minimum'' \<notin> set ?r"
    "''benefit_below_minimum'' \<notin> set ?r" "''monthly_budget_exceeded'' \<notin> set ?r"
    by (rule no, simp add: observe_codes_def)+
  moreover have "rs_mode s = ''off'' \<Longrightarrow> ''replication_off'' \<in> set ?r"
    "rs_approved s \<noteq> [] \<Longrightarrow> region \<notin> set (rs_approved s) \<Longrightarrow> ''region_not_approved'' \<in> set ?r"
    "\<not> hs \<Longrightarrow> ''compatible_source_missing'' \<in> set ?r"
    "bytes \<le> 0 \<Longrightarrow> ''source_manifest_has_no_copyable_bytes'' \<in> set ?r"
    "hits < rs_min_hits s \<Longrightarrow> ''demand_below_minimum'' \<in> set ?r"
    "float_less (JFloat saved) (rs_min_saved s) \<Longrightarrow> ''benefit_below_minimum'' \<in> set ?r"
    "over_limit cost (rs_budget s) \<Longrightarrow> ''monthly_budget_exceeded'' \<in> set ?r"
    by (simp_all add: reasons_for_def over_limit_def split: option.splits)
  ultimately show ?thesis by (meson not_le)
qed

definition advice_facts ::
  "replication_settings \<Rightarrow> registry \<Rightarrow> cache_volume list \<Rightarrow> demand_row list \<Rightarrow> advice \<Rightarrow> bool"
where
  "advice_facts s d vols rows a \<longleftrightarrow>
     rs_mode s \<noteq> ''off'' \<and> (rs_approved s \<noteq> [] \<longrightarrow> av_region a \<in> set (rs_approved s)) \<and>
     av_hits a = int (length rows) \<and> rs_min_hits s \<le> av_hits a \<and> 0 < av_bytes a \<and>
     \<not> float_less (JFloat (saved_seconds rows)) (rs_min_saved s) \<and>
     covering_manifest vols (av_provider a) (av_region a) (query_manifests d (Some (av_profile a)) None) = None \<and>
     (\<exists>m dc v. source_manifest vols (av_provider a) (av_region a) (query_manifests d (Some (av_profile a)) None) =
          Some (m, cv_id v, dc) \<and> v \<in> set vols \<and> av_source a = Some (cv_id v) \<and>
        av_manifest a = obj_get m ''manifest_id'')"

lemma advise_cases:
  assumes "advise env policy s now d vols (k, rows) = Inr (Advice a)"
  obtains f where "find_for env policy vols (query_manifests d (Some (fst k)) None) (fst (snd k)) (snd (snd k)) = Inr f"
    and "a = advice_for env s now k rows f"
    and "covering_manifest vols (fst (snd k)) (snd (snd k)) (query_manifests d (Some (fst k)) None) = None"
  using assms by (cases k) (auto simp: advise_def Let_def simp del: not_None_eq split: if_splits sum.splits)

lemma advice_for_key: "(av_profile (advice_for env s now k rows f), av_provider (advice_for env s now k rows f),
    av_region (advice_for env s now k rows f)) = k"
  by (cases k) (simp add: advice_for_def Let_def)

lemma advise_recommended:
  assumes a: "advise env policy s now d vols (k, rows) = Inr (Advice a)" and r: "av_recommended a"
  shows "advice_facts s d vols rows a \<and> (av_profile a, av_provider a, av_region a) = k"
proof -
  obtain f where f: "find_for env policy vols (query_manifests d (Some (fst k)) None) (fst (snd k)) (snd (snd k)) = Inr f"
    "a = advice_for env s now k rows f"
    "covering_manifest vols (fst (snd k)) (snd (snd k)) (query_manifests d (Some (fst k)) None) = None"
    by (rule advise_cases [OF a])
  have k: "k = (av_profile a, av_provider a, av_region a)" unfolding f(2) by (rule advice_for_key [symmetric])
  have sel: "av_hits a = int (length rows)" "av_bytes a = fd_bytes f" "av_source a = map_option cv_id (fd_volume f)"
    "av_manifest a = manifest_of f" "av_recommended a = (set (reasons_of s (snd (snd k)) rows f) \<inter> set observe_codes = {})"
    unfolding f(2) by (cases k; simp add: advice_for_def Let_def)+
  have fd: "fd_source f = source_manifest vols (fst (snd k)) (snd (snd k)) (query_manifests d (Some (fst k)) None)"
    "fd_volume f = Option.bind (fd_source f) (\<lambda>(m, i, dc). find (\<lambda>v. cv_id v = i) vols)"
    using f(1) by (auto simp: find_for_def Let_def split: sum.splits)
  note rs = reasons_sound [OF sel(5) [THEN iffD1, OF r, unfolded reasons_of_def]]
  then obtain m i dc v where v: "fd_source f = Some (m, i, dc)" "fd_volume f = Some v" by auto
  then have "v \<in> set vols" "i = cv_id v" using fd(2) by (auto dest: find_SomeD)
  then show ?thesis using rs sel(1-4) v fd(1) f(3) k unfolding advice_facts_def by (auto simp: manifest_of_def)
qed

section \<open>The budget\<close>

definition new_regions :: "advice list \<Rightarrow> (string \<times> string) set" where
  "new_regions as = (\<lambda>a. (av_provider a, av_region a)) ` {a \<in> set as. av_target a = None}"

definition cost_of :: "advice \<Rightarrow> rat" where
  "cost_of a = (case av_monthly a of JFloat q \<Rightarrow> q | _ \<Rightarrow> 0)"

definition priced :: "rat \<Rightarrow> decision_row list \<Rightarrow> bool" where
  \<comment> \<open>a new volume costs \<open>u\<close>, one that is there nothing\<close>
  "priced u xs \<longleftrightarrow> (\<forall>a. Advice a \<in> set xs \<longrightarrow> av_monthly a = JFloat (if av_target a = None then u else 0))"

lemma new_regions_Cons:
  "new_regions (a # as) = (if av_target a = None then insert (av_provider a, av_region a) (new_regions as) else new_regions as)"
  by (auto simp: new_regions_def)

lemma finite_new_regions [simp]: "finite (new_regions as)"
  by (simp add: new_regions_def)

lemma recommended_Cons:
  "recommended (Covered p q r n # xs) = recommended xs"
  "recommended (Advice a # xs) = (if av_recommended a then a # recommended xs else recommended xs)"
  by (simp_all add: recommended_def)

lemma spend_within:
  assumes "spend (Some (JFloat b)) (JFloat p) planned xs = (t, ys)" and "priced u xs" and "p \<le> b" and "0 \<le> u"
  shows "\<exists>q. t = JFloat q \<and> q \<le> b \<and> q = p + sum_list (map cost_of (recommended ys)) \<and>
     sum_list (map cost_of (recommended ys)) = u * of_nat (card (new_regions (recommended ys) - set planned))"
  using assms
proof (induction xs arbitrary: p planned ys)
  case Nil
  then show ?case by (simp add: recommended_def new_regions_def)
next
  case (Cons x xs)
  note IH = Cons.IH [OF _ _ _ Cons.prems(4)]
  have priced: "priced u xs" using Cons.prems(2) by (auto simp: priced_def)
  show ?case
  proof (cases "\<exists>a. x = Advice a \<and> av_recommended a")
    case False
    then obtain ys' where ys: "spend (Some (JFloat b)) (JFloat p) planned xs = (t, ys')"
      "recommended ys = recommended ys'"
      using Cons.prems(1) by (cases x) (auto simp: recommended_Cons split: prod.splits)
    show ?thesis using IH [OF ys(1) priced Cons.prems(3)] ys(2) by simp
  next
    case True
    then obtain a where a: "x = Advice a" "av_recommended a" by blast
    define k where "k = (av_provider a, av_region a)"
    define shared where "shared = (av_target a = None \<and> k \<in> set planned)"
    define c where "c = (if shared then a\<lparr>av_monthly := JFloat 0\<rparr> else a)"
    have own: "av_monthly a = JFloat (if av_target a = None then u else 0)"
      by (rule Cons.prems(2) [unfolded priced_def, rule_format]) (simp add: a(1))
    have keys: "av_target c = av_target a" "(av_provider c, av_region c) = k" "av_recommended c"
      using a(2) by (simp_all add: c_def k_def)
    define w where "w = (if av_target a = None \<and> k \<notin> set planned then u else 0)"
    have c: "av_monthly c = JFloat w" using own by (auto simp: c_def shared_def w_def)
    define planned' where "planned' = (if av_target a = None then k # planned else planned)"
    have "spend (Some (JFloat b)) (JFloat p) planned (Advice a # xs) =
        (if over_limit (float_add (JFloat p) (av_monthly c)) (Some (JFloat b))
         then (let (total, ys) = spend (Some (JFloat b)) (JFloat p) planned xs
               in (total, Advice (too_expensive c) # ys))
         else (let (total, ys) = spend (Some (JFloat b)) (float_add (JFloat p) (av_monthly c)) planned' xs
               in (total, Advice c # ys)))"
      using a(2) unfolding spend.simps(3) Let_def c_def shared_def k_def planned'_def by (simp only: not_True_eq_False if_False)
    then have step: "spend (Some (JFloat b)) (JFloat p) planned (x # xs) =
        (if b < p + w
         then (let (total, ys) = spend (Some (JFloat b)) (JFloat p) planned xs
               in (total, Advice (too_expensive c) # ys))
         else (let (total, ys) = spend (Some (JFloat b)) (JFloat (p + w)) planned' xs
               in (total, Advice c # ys)))"
      by (simp only: a(1) c float_add.simps over_limit_def option.case float_less.simps)
    show ?thesis
    proof (cases "b < p + w")
      case True
      then obtain ys' where ys: "spend (Some (JFloat b)) (JFloat p) planned xs = (t, ys')"
        "ys = Advice (too_expensive c) # ys'"
        using Cons.prems(1) step by (simp add: Let_def split: prod.splits)
      then show ?thesis using IH [OF ys(1) priced Cons.prems(3)] by (simp add: recommended_Cons too_expensive_def)
    next
      case False
      obtain ys' where ys: "spend (Some (JFloat b)) (JFloat (p + w)) planned' xs = (t, ys')"
        "ys = Advice c # ys'"
        using Cons.prems(1) step False by (simp add: Let_def split: prod.splits)
      obtain q where q: "t = JFloat q" "q \<le> b" "q = p + w + sum_list (map cost_of (recommended ys'))"
        "sum_list (map cost_of (recommended ys')) = u * of_nat (card (new_regions (recommended ys') - set planned'))"
        using IH [OF ys(1) priced] False by auto
      have rec: "recommended ys = c # recommended ys'" using ys(2) keys(3) by (simp add: recommended_Cons)
      let ?new = "new_regions (recommended ys')"
      have regions: "new_regions (recommended ys) = (if av_target a = None then insert k ?new else ?new)"
        by (simp add: rec new_regions_Cons keys)
      have "w + u * of_nat (card (?new - set planned')) = u * of_nat (card (new_regions (recommended ys) - set planned))"
      proof (cases "av_target a = None \<and> k \<notin> set planned")
        case True
        have "new_regions (recommended ys) - set planned = insert k (?new - set planned')"
          using True by (auto simp: regions planned'_def)
        then show ?thesis using True by (simp add: w_def planned'_def algebra_simps)
      next
        case False
        then have "new_regions (recommended ys) - set planned = ?new - set planned'"
          by (auto simp: regions planned'_def)
        then show ?thesis using False by (auto simp: w_def)
      qed
      moreover have "cost_of c = w" by (simp add: cost_of_def c)
      ultimately show ?thesis using q by (simp add: rec)
    qed
  qed
qed

section \<open>What the policy gives\<close>

lemma policy_fields:
  assumes "policy_normal p" and "(k, ty) \<in> set storage_type"
  shows "has_type ty (obj_get p k)"
proof -
  obtain d where "p = JObj d" "typed storage_type d"
    using assms(1) unfolding policy_normal_def section_typed [OF distinct_fields(1)] by blast
  then show ?thesis using assms(2) by (auto simp: typed_def obj_field simp del: has_type.simps obj_get.simps)
qed

lemma policy_replication_section:
  assumes "policy_normal p"
  shows "\<exists>r. policy_replication p = JObj r \<and> typed replication_type r \<and> obj_get p ''replication'' = JObj r"
proof -
  have "has_type (Section replication_type) (obj_get p ''replication'')"
    by (rule policy_fields [OF assms]) (simp add: storage_type_def)
  then obtain r where r: "obj_get p ''replication'' = JObj r" "map fst r = map fst replication_type" "typed replication_type r"
    unfolding section_typed [OF distinct_fields(2)] by blast
  then have "r \<noteq> []" by (auto simp: replication_type_def)
  then show ?thesis using r by (simp add: policy_replication_def or_obj_def)
qed

lemma replication_fields:
  assumes "policy_normal p" and "(k, ty) \<in> set replication_type"
  shows "has_type ty (obj_get (policy_replication p) k)"
  using policy_replication_section [OF assms(1)] assms(2)
  by (auto simp: typed_def obj_field simp del: has_type.simps obj_get.simps)

lemma new_volume_price:
  assumes "policy_normal p"
  obtains n where "10 \<le> n" and "n \<le> 4000"
    and "new_volume_cost env p = Inr (JFloat (estimate_runpod_storage_monthly (of_int n)))"
proof -
  have "has_type (Between 10 (Some 4000)) (obj_get p ''managed_size_gb'')"
    by (rule policy_fields [OF assms]) (simp add: storage_type_def)
  then obtain n where n: "obj_get p ''managed_size_gb'' = JInt n" "10 \<le> n" "n \<le> 4000"
    by (auto split: json.splits)
  have "\<bar>n\<bar> < float_overflow" using n(2,3) by (simp add: float_overflow_def)
  then show ?thesis using n by (intro that [of n]) (simp_all add: new_volume_cost_def or_zero_def)
qed

lemma estimate_nonneg: "0 \<le> q \<Longrightarrow> 0 \<le> round_to n (estimate_runpod_storage_monthly q)"
proof -
  assume "0 \<le> q"
  then have "round_to 2 0 \<le> estimate_runpod_storage_monthly q"
    unfolding estimate_runpod_storage_monthly_def by (intro round_to_mono) simp
  then have "round_to n 0 \<le> round_to n (estimate_runpod_storage_monthly q)" by (intro round_to_mono) simp
  then show ?thesis by simp
qed

lemma budget_setting:
  assumes "policy_normal p" and "replication_settings_of env p = Inr s"
  shows "case rs_budget s of None \<Rightarrow> obj_get (policy_replication p) ''monthly_budget_usd'' = JNull
     | Some v \<Rightarrow> obj_get (policy_replication p) ''monthly_budget_usd'' = v \<and> cost_value v"
proof -
  have "has_type Cost (obj_get (policy_replication p) ''monthly_budget_usd'')"
    by (rule replication_fields [OF assms(1)]) (simp add: replication_type_def)
  then show ?thesis
    using assms(2)
    by (auto simp: replication_settings_of_def Let_def cost_setting_def cost_value_def split: sum.splits if_splits json.splits)
qed

lemma advise_price:
  assumes "policy_normal policy" and "advise env policy s now d vols (k, rows) = Inr (Advice a)"
    and "new_volume_cost env policy = Inr (JFloat q)"
  shows "av_monthly a = JFloat (if av_target a = None then round_to 6 q else 0)"
proof -
  obtain f where f: "find_for env policy vols (query_manifests d (Some (fst k)) None) (fst (snd k)) (snd (snd k)) = Inr f"
    "a = advice_for env s now k rows f"
    by (rule advise_cases [OF assms(2)])
  have "av_monthly a = float_round 6 (fd_cost f)" "av_target a = map_option cv_id (fd_target f)"
    unfolding f(2) by (cases k; simp add: advice_for_def Let_def)+
  moreover have "fd_cost f = (if fd_target f = None then JFloat q else JFloat 0)"
    using f(1) assms(3) by (auto simp: find_for_def Let_def split: sum.splits if_splits)
  ultimately show ?thesis by simp
qed

section \<open>Scores\<close>

definition report_created :: "pyenv \<Rightarrow> json \<Rightarrow> string" where
  "report_created env report = or_text env (obj_get report ''created_at'') []"

definition recommended_by :: "pyenv \<Rightarrow> json \<Rightarrow> json \<Rightarrow> string \<Rightarrow> bool" where
  \<comment> \<open>the report recommends the item under the identifier\<close>
  "recommended_by env report item i \<longleftrightarrow>
     (\<exists>items. iterate_or_empty (obj_get report ''recommendations'') = Inr items \<and> item \<in> set items \<and>
        or_text env (obj_get item ''recommendation_id'') [] = i)"

definition traced :: "pyenv \<Rightarrow> registry \<Rightarrow> (string \<times> json \<times> string) list \<Rightarrow> bool" where
  "traced env d seen \<longleftrightarrow>
     distinct (map fst seen) \<and>
     (\<forall>(i, item, created) \<in> set seen. \<exists>report \<in> set (list_shadow_evaluations d 1000).
        recommended_by env report item i \<and> created = report_created env report)"

lemma first_recommendation_traced:
  assumes "first_recommendation env (report_created env report) item seen = Inr seen'" and "traced env d seen"
    and "report \<in> set (list_shadow_evaluations d 1000)"
    and "iterate_or_empty (obj_get report ''recommendations'') = Inr items" and "item \<in> set items"
  shows "traced env d seen'"
proof (cases "seen' = seen")
  case True
  then show ?thesis using assms(2) by simp
next
  case False
  define i where "i = or_text env (obj_get item ''recommendation_id'') []"
  have i: "i \<notin> fst ` set seen" "seen' = seen @ [(i, item, report_created env report)]"
    using assms(1) False
    by (auto simp: first_recommendation_def py_get_def i_def Let_def split: sum.splits if_splits)
  have "recommended_by env report item i" using assms(4,5) by (auto simp: recommended_by_def i_def)
  then show ?thesis using assms(2,3) i unfolding traced_def by auto
qed

lemma unique_traced:
  assumes "unique_recommendations env d = Inr unique"
  shows "traced env d unique"
proof (rule fold_tx_invariant [OF assms [unfolded unique_recommendations_def]])
  show "traced env d []" by (simp add: traced_def)
next
  fix report seen seen'
  assume report: "report \<in> set (rev (list_shadow_evaluations d 1000))"
    and step: "report_items env report seen = Inr seen'" and t: "traced env d seen"
  obtain items where items: "iterate_or_empty (obj_get report ''recommendations'') = Inr items"
    "fold_tx (first_recommendation env (report_created env report)) items seen = Inr seen'"
    using step by (auto simp: report_items_def report_created_def split: sum.splits)
  show "traced env d seen'"
    by (rule fold_tx_invariant [where P = "traced env d", OF items(2) t])
      (use first_recommendation_traced report items(1) in auto)
qed

lemma judge_cases:
  assumes "judge env now hours rows x = Inr ys"
  obtains (young) "ys = []"
  | (judged) i item created first expiry hit where "x = (i, item, created)" "ys = [(i, hit)]"
      "parse_time env created = Inr first" "followed_up env item first expiry rows = Inr hit"
      "hit \<or> first + hours * hour_us \<le> now"
  using assms by (cases x) (auto simp: judge_def split: sum.splits if_splits)

lemma judged_distinct:
  assumes "collect (judge env now hours rows) xs = Inr ys" and "distinct (map fst xs)"
  shows "distinct (map fst ys) \<and> fst ` set ys \<subseteq> fst ` set xs"
  using assms
proof (induction xs arbitrary: ys)
  case Nil
  then show ?case by simp
next
  case (Cons x xs)
  obtain vs zs where v: "judge env now hours rows x = Inr vs" "collect (judge env now hours rows) xs = Inr zs" "ys = vs @ zs"
    using Cons.prems(1) by (auto split: sum.splits)
  have z: "distinct (map fst zs)" "fst ` set zs \<subseteq> fst ` set xs" using Cons.IH [OF v(2)] Cons.prems(2) by auto
  from v(1) show ?case
  proof (cases rule: judge_cases)
    case young
    then show ?thesis using z v(3) by auto
  next
    case (judged i item created first expiry hit)
    then show ?thesis using z v(3) Cons.prems(2) by auto
  qed
qed

lemma followed_up_demand:
  "followed_up env item first expiry rows = Inr True \<Longrightarrow>
   \<exists>r \<in> set rows. \<exists>t. same_demand item r \<and> parse_time env (dm_created_at r) = Inr t \<and> first < t \<and> t \<le> expiry"
  by (induction rows) (auto split: if_splits sum.splits)

definition backed :: "pyenv \<Rightarrow> registry \<Rightarrow> string \<Rightarrow> bool" where
  \<comment> \<open>paid demand came after a report had recommended it\<close>
  "backed env d i \<longleftrightarrow>
     (\<exists>report \<in> set (list_shadow_evaluations d 1000). \<exists>r \<in> set (rg_demand d). \<exists>item first t.
        recommended_by env report item i \<and> same_demand item r \<and>
        parse_time env (report_created env report) = Inr first \<and>
        parse_time env (dm_created_at r) = Inr t \<and> first < t)"

lemma set_list_demand: "set (list_regional_demand d None) = set (rg_demand d)"
  by (simp add: list_regional_demand_def)

lemma accuracy_cases:
  assumes "shadow_accuracy env now d policy = Inr a"
  obtains unique verdicts where "unique_recommendations env d = Inr unique"
    "collect (judge env now (ay_hours a) (list_regional_demand d None)) unique = Inr verdicts"
    "ay_mature a = length verdicts" "ay_validated a = length (filter snd verdicts)"
    "ay_precision a = round_to 6 (precision_of verdicts)"
    "ay_passed a \<longleftrightarrow> ay_required a \<le> int (length verdicts) \<and> float_at_least (precision_of verdicts) (ay_minimum a)"
    "int_setting (policy_replication policy) ''shadow_required_recommendations'' 3 10 = Inr (ay_required a)"
    "py_float env (let v = obj_get (policy_replication policy) ''shadow_min_precision''
                   in if truthy v then v else JFloat (4 / 5)) = Inr (ay_minimum a)"
  using assms by (auto simp: shadow_accuracy_def Let_def split: sum.splits)

lemma verdict_backed:
  assumes "unique_recommendations env d = Inr unique"
    and "collect (judge env now hours (list_regional_demand d None)) unique = Inr verdicts"
    and "(i, True) \<in> set verdicts"
  shows "backed env d i"
proof -
  obtain x zs where x: "x \<in> set unique" "judge env now hours (list_regional_demand d None) x = Inr zs" "(i, True) \<in> set zs"
    using collect_in [OF assms(2,3)] by blast
  from x(2) show ?thesis
  proof (cases rule: judge_cases)
    case young
    then show ?thesis using x(3) by simp
  next
    case (judged j item created first expiry hit)
    then have hit: "followed_up env item first expiry (list_regional_demand d None) = Inr True" "j = i" using x(3) by auto
    obtain report where report: "report \<in> set (list_shadow_evaluations d 1000)" "recommended_by env report item i"
      "created = report_created env report"
      using unique_traced [OF assms(1)] x(1) judged(1) hit(2) unfolding traced_def by blast
    then show ?thesis
      using followed_up_demand [OF hit(1)] judged(3) unfolding backed_def set_list_demand by blast
  qed
qed

section \<open>Samples\<close>

definition day_env :: pyenv where
  "day_env = float_env\<lparr>sha256_hex := (\<lambda>s. ''d1''), iso_utc := (\<lambda>t. if t < 0 then ''0'' else ''9''), parse_iso := \<lambda>s. map_option (\<lambda>t. (t, True)) (parse_int s)\<rparr>"

lemma day_env_texts: "float_texts day_env"
  by (simp add: float_texts_def day_env_def float_env_def)

definition replica_policy :: "json \<Rightarrow> json" where
  \<comment> \<open>automatic replication within a budget\<close>
  "replica_policy budget =
     JObj [(''enabled'', JBool True), (''provider'', JStr ''runpod''), (''policy'', JStr ''smart''),
           (''region'', JStr ''auto''), (''cold_fallback'', JStr ''allow''), (''managed_size_gb'', JInt 100),
           (''existing_volume_id'', JNull), (''max_monthly_storage_cost'', JFloat 50),
           (''confirmed'', JBool True), (''tenant'', JStr ''default''),
           (''cache_private_assets'', JBool False), (''shadow_admission'', JBool True),
           (''replication'', JObj
             [(''mode'', JStr ''automatic''), (''approved_regions'', JArr [JStr ''US'']),
              (''monthly_budget_usd'', budget), (''ttl_days'', JInt 30), (''demand_window_days'', JInt 30),
              (''min_hits'', JInt 2), (''min_avoided_gpu_seconds'', JFloat 60),
              (''transfer_cost_per_gb_usd'', JFloat 0), (''max_inflight'', JInt 1),
              (''shadow_required_recommendations'', JInt 3), (''shadow_validation_hours'', JInt 24),
              (''shadow_min_precision'', JFloat (4 / 5)), (''controller_interval_seconds'', JInt 300),
              (''copy_timeout_seconds'', JInt 21600)])]"

lemma replica_policy_normal: "policy_normal (replica_policy (JFloat 20))" "policy_normal (replica_policy JNaN)"
  unfolding policy_normal_def by code_simp+

definition demand_row_at :: "string \<Rightarrow> string \<Rightarrow> demand_row" where
  "demand_row_at i created =
     \<lparr>dm_id = i, dm_job = i, dm_profile = ''p1'', dm_provider = ''runpod'', dm_datacenter = ''US'',
      dm_volume = None, dm_required = 5, dm_cached = 0, dm_missing = 5, dm_preparation = 40,
      dm_rate = 2, dm_created_at = created\<rparr>"

definition plain_volume :: "string \<Rightarrow> string \<Rightarrow> cache_volume" where
  "plain_volume i dc =
     \<lparr>cv_id = i, cv_provider = ''runpod'', cv_provider_volume_id = i, cv_datacenter_id = dc,
      cv_ownership = ''managed'', cv_status = ''ready'', cv_capacity_bytes = 100, cv_generation = None,
      cv_verified_at = None, cv_policy = JObj [], cv_s3 = True\<rparr>"

definition demand_registry :: registry where
  "demand_registry =
     empty_registry\<lparr>rg_volumes := [plain_volume ''v1'' ''EU''],
       rg_manifests :=
         [\<lparr>mf_volume = ''v1'', mf_id = ''m1'', mf_profile = ''p1'', mf_created_at = ''0'',
           mf_json = JObj [(''manifest_id'', JStr ''m1''),
                           (''artifacts'', JArr [JObj [(''digest'', JStr ''g1''), (''size'', JInt 5)]])]\<rparr>],
       rg_demand := [demand_row_at ''d1'' ''1'', demand_row_at ''d2'' ''2'']\<rparr>"

definition sample_advice :: "json \<Rightarrow> advice" where
  "sample_advice budget =
     \<lparr>av_id = ''sha256:d1'', av_profile = ''p1'', av_provider = ''runpod'', av_source = Some ''v1'',
      av_manifest = JStr ''m1'', av_region = ''US'', av_target = None, av_source_region = Some ''EU'',
      av_bytes = 5, av_hits = 2, av_seconds = 80, av_gpu_cost = 44444 / 1000000,
      av_copy_cost = JFloat 0, av_monthly = JFloat 7, av_budget = Some budget, av_expires_at = ''9'',
      av_recommended = True, av_reasons = [''target_volume_missing''], av_automatic = False,
      av_blockers = [''target_volume_missing'']\<rparr>"

definition sample_report :: "json \<Rightarrow> shadow_report" where
  "sample_report budget =
     \<lparr>rr_id = ''e1'', rr_created_at = ''9'',
      rr_settings =
        \<lparr>rs_mode = ''automatic'', rs_window_days = 30, rs_ttl_days = 30, rs_min_hits = 2,
         rs_min_saved = JFloat 60, rs_approved = [''US''], rs_budget = Some budget,
         rs_transfer = Some (JFloat 0)\<rparr>,
      rr_demand_count = 2, rr_group_count = 1, rr_projected = JFloat 7,
      rr_decisions = [Advice (sample_advice budget)]\<rparr>"

lemma build_sample:
  "build_shadow_report day_env ''e1'' 10 demand_registry (replica_policy (JFloat 20)) = Inr (sample_report (JFloat 20))"
  by code_simp

lemma build_sample_nan:
  "build_shadow_report day_env ''e1'' 10 demand_registry (replica_policy JNaN) = Inr (sample_report JNaN)"
  by code_simp

lemma sample_report_facts:
  "rs_budget (rr_settings (sample_report b)) = Some b"
  "rr_recommendations (sample_report b) = [sample_advice b]"
  "rs_mode (rr_settings (sample_report b)) = ''automatic''" "av_bytes (sample_advice b) = 5"
  by (simp_all add: sample_report_def sample_advice_def rr_recommendations_def recommended_def List.map_filter_def)

section \<open>Properties\<close>

definition window_demand :: "pyenv \<Rightarrow> int \<Rightarrow> registry \<Rightarrow> replication_settings \<Rightarrow> demand_row list" where
  "window_demand env now d s = list_regional_demand d (Some (iso_utc env (now - rs_window_days s * day_us)))"

lemma report_cases:
  assumes "build_shadow_report env uuid now d policy = Inr r"
  obtains xs t where "replication_settings_of env policy = Inr (rr_settings r)"
    "report_decisions env policy (rr_settings r) now d (window_demand env now d (rr_settings r)) = Inr xs"
    "spend (rs_budget (rr_settings r)) (JFloat 0) [] xs = (t, rr_decisions r)"
    "rr_projected r = float_round 6 t"
  using assms by (auto simp: build_shadow_report_def Let_def window_demand_def split: sum.splits prod.splits)

lemma advice_facts_monthly: "advice_facts s d vols rows (a\<lparr>av_monthly := x\<rparr>) = advice_facts s d vols rows a"
  by (simp add: advice_facts_def)

lemma report_recommended:
  assumes "build_shadow_report env uuid now d policy = Inr r" and "a \<in> set (rr_recommendations r)"
  shows "advice_facts (rr_settings r) d (list_volumes d None)
     (group_of (window_demand env now d (rr_settings r)) (av_profile a, av_provider a, av_region a)) a"
proof -
  obtain xs t where xs: "report_decisions env policy (rr_settings r) now d (window_demand env now d (rr_settings r)) = Inr xs"
    "spend (rs_budget (rr_settings r)) (JFloat 0) [] xs = (t, rr_decisions r)"
    by (rule report_cases [OF assms(1)])
  obtain b where b: "Advice b \<in> set xs" "av_recommended b" "a = b \<or> a = b\<lparr>av_monthly := JFloat 0\<rparr>"
    using spend_recommended [OF xs(2)] assms(2) unfolding rr_recommendations_def by blast
  obtain k where k: "advise env policy (rr_settings r) now d (list_volumes d None)
      (k, group_of (window_demand env now d (rr_settings r)) k) = Inr (Advice b)"
    using report_advice [OF xs(1) b(1)] by blast
  from advise_recommended [OF k b(2)] b(3) show ?thesis by (auto simp: advice_facts_monthly)
qed

text \<open>C8: Every copy that a report recommends is justified by what the registry holds: replication is
  on and the region approved; in the window there were at least the demanded number of paid jobs of
  this profile, provider and region that missed bytes, which would have saved the demanded time; no
  ready copy of the profile is in the region, and the source is a manifest of the profile on a
  ready volume of the same provider in another region.\<close>

theorem recommendation_justified:
  assumes "build_shadow_report env uuid now d policy = Inr r" and "a \<in> set (rr_recommendations r)"
  shows "let s = rr_settings r;
             rows = filter (\<lambda>x. counted_demand x \<and> key_of_demand x = (av_profile a, av_provider a, av_region a))
                      (list_regional_demand d (Some (iso_utc env (now - rs_window_days s * day_us))));
             ms = query_manifests d (Some (av_profile a)) None
         in rs_mode s \<noteq> ''off'' \<and> (rs_approved s \<noteq> [] \<longrightarrow> av_region a \<in> set (rs_approved s)) \<and>
            rs_min_hits s \<le> int (length rows) \<and> av_hits a = int (length rows) \<and> 0 < av_bytes a \<and>
            \<not> float_less (JFloat (saved_seconds rows)) (rs_min_saved s) \<and>
            (\<forall>(m, vol, dc) \<in> set ms. dc = av_region a \<longrightarrow> \<not> usable_volume (list_volumes d None) (av_provider a) vol) \<and>
            (\<exists>(m, vol, dc) \<in> set ms. dc \<noteq> av_region a \<and> av_source a = Some vol \<and>
               av_manifest a = obj_get m ''manifest_id'' \<and>
               (\<exists>v \<in> set (rg_volumes d). volume_copies v vol (av_provider a)))"
proof -
  define s where "s = rr_settings r"
  define rows where "rows = group_of (window_demand env now d s) (av_profile a, av_provider a, av_region a)"
  define ms where "ms = query_manifests d (Some (av_profile a)) None"
  have f: "advice_facts s d (list_volumes d None) rows a"
    using report_recommended [OF assms] by (simp add: s_def rows_def)
  have "\<exists>m dc. \<exists>v :: cache_volume. source_manifest (list_volumes d None) (av_provider a) (av_region a) ms = Some (m, cv_id v, dc) \<and>
      av_source a = Some (cv_id v) \<and> av_manifest a = obj_get m ''manifest_id''"
    using f unfolding advice_facts_def ms_def by (elim conjE exE) (intro exI conjI; assumption)
  then obtain m dc and v :: cache_volume where src: "source_manifest (list_volumes d None) (av_provider a) (av_region a) ms = Some (m, cv_id v, dc)"
    "av_source a = Some (cv_id v)" "av_manifest a = obj_get m ''manifest_id''" by blast
  then have "(m, cv_id v, dc) \<in> set ms" "dc \<noteq> av_region a" "usable_volume (list_volumes d None) (av_provider a) (cv_id v)"
    unfolding source_manifest_def by (auto dest: find_SomeD)
  then have source: "\<exists>(m, vol, dc) \<in> set ms. dc \<noteq> av_region a \<and> av_source a = Some vol \<and>
      av_manifest a = obj_get m ''manifest_id'' \<and> (\<exists>v \<in> set (rg_volumes d). volume_copies v vol (av_provider a))"
    using src(2,3) usable_volumeD [of "list_volumes d None"] set_list_volumes [of d]
    by (intro bexI [of _ "(m, cv_id v, dc)"]) auto
  have "\<forall>(m, vol, dc) \<in> set ms. dc = av_region a \<longrightarrow> \<not> usable_volume (list_volumes d None) (av_provider a) vol"
    using f unfolding advice_facts_def ms_def covering_manifest_def find_None_iff by fastforce
  then show ?thesis
    using f source unfolding advice_facts_def Let_def
    by (simp add: rows_def group_of_def window_demand_def s_def ms_def)
qed

theorem recommendation_justified_witness:
  "\<exists>a \<in> set (rr_recommendations (sample_report (JFloat 20))).
     rs_mode (rr_settings (sample_report (JFloat 20))) \<noteq> ''off'' \<and> 0 < av_bytes a"
  using recommendation_justified [OF build_sample, of "sample_advice (JFloat 20)"]
  unfolding Let_def by (simp add: sample_report_facts)

text \<open>C9: The copies that a report recommends under a monthly budget stay within it all together: each
  new volume is paid once per provider and region, copies to volumes that are there cost nothing,
  and the projected cost that the report shows is this sum.\<close>

theorem replication_within_budget:
  assumes "policy_normal policy" and "build_shadow_report env uuid now d policy = Inr r"
    and "rs_budget (rr_settings r) = Some (JFloat b)"
  shows "\<exists>q. new_volume_cost env policy = Inr (JFloat q) \<and>
     (let total = sum_list (map cost_of (rr_recommendations r)) in
      total \<le> b \<and> rr_projected r = JFloat (round_to 6 total) \<and>
      total = round_to 6 q * of_nat (card (new_regions (rr_recommendations r))))"
proof -
  obtain n where n: "10 \<le> n" and q: "new_volume_cost env policy = Inr (JFloat (estimate_runpod_storage_monthly (of_int n)))"
    by (rule new_volume_price [OF assms(1)])
  define u where "u = round_to 6 (estimate_runpod_storage_monthly (of_int n))"
  obtain xs t where xs: "replication_settings_of env policy = Inr (rr_settings r)"
    "report_decisions env policy (rr_settings r) now d (window_demand env now d (rr_settings r)) = Inr xs"
    "spend (rs_budget (rr_settings r)) (JFloat 0) [] xs = (t, rr_decisions r)" "rr_projected r = float_round 6 t"
    by (rule report_cases [OF assms(2)])
  have "cost_value (JFloat b)" using budget_setting [OF assms(1) xs(1)] assms(3) by simp
  then have b: "0 \<le> b" by (simp add: cost_value_def)
  have "0 \<le> u" unfolding u_def using n by (intro estimate_nonneg) simp
  moreover have "priced u xs"
    unfolding priced_def
  proof (intro allI impI)
    fix a
    assume "Advice a \<in> set xs"
    then obtain k where "advise env policy (rr_settings r) now d (list_volumes d None)
        (k, group_of (window_demand env now d (rr_settings r)) k) = Inr (Advice a)"
      using report_advice [OF xs(2)] by blast
    from advise_price [OF assms(1) this q]
    show "av_monthly a = JFloat (if av_target a = None then u else 0)" by (simp add: u_def)
  qed
  ultimately obtain p where "t = JFloat p" "p \<le> b" "p = 0 + sum_list (map cost_of (rr_recommendations r))"
    "sum_list (map cost_of (rr_recommendations r)) = u * of_nat (card (new_regions (rr_recommendations r) - set []))"
    using spend_within [OF xs(3) [unfolded assms(3)] _ b] unfolding rr_recommendations_def by blast
  then show ?thesis using q xs(4) by (simp add: u_def)
qed

theorem replication_within_budget_witness:
  "sum_list (map cost_of (rr_recommendations (sample_report (JFloat 20)))) \<le> 20 \<and>
   rr_recommendations (sample_report (JFloat 20)) \<noteq> []"
  using replication_within_budget [OF replica_policy_normal(1) build_sample sample_report_facts(1)]
  by (auto simp: Let_def sample_report_facts(2))

text \<open>C10: Copies are made automatically only on evidence: when the gate is passed, at least three
  recommendations are old enough to be judged, at least the demanded share of them (never less than
  half) was followed by demand, and each of these is backed by a paid job for the recommended
  profile, provider and region that came after a report had recommended it.\<close>

theorem gate_needs_evidence:
  assumes "policy_normal policy" and "shadow_accuracy env now d policy = Inr a" and "ay_passed a"
  shows "\<exists>ids m. distinct ids \<and> length ids = ay_validated a \<and> (\<forall>i \<in> set ids. backed env d i) \<and>
     ay_minimum a = JFloat m \<and> 1 / 2 \<le> m \<and> m * of_nat (ay_mature a) \<le> of_nat (ay_validated a) \<and>
     ay_validated a \<le> ay_mature a \<and> 3 \<le> ay_required a \<and> ay_required a \<le> int (ay_mature a)"
proof -
  obtain unique verdicts where v: "unique_recommendations env d = Inr unique"
    "collect (judge env now (ay_hours a) (list_regional_demand d None)) unique = Inr verdicts"
    "ay_mature a = length verdicts" "ay_validated a = length (filter snd verdicts)"
    "ay_passed a \<longleftrightarrow> ay_required a \<le> int (length verdicts) \<and> float_at_least (precision_of verdicts) (ay_minimum a)"
    and required: "int_setting (policy_replication policy) ''shadow_required_recommendations'' 3 10 = Inr (ay_required a)"
    and least: "py_float env (let v = obj_get (policy_replication policy) ''shadow_min_precision''
                   in if truthy v then v else JFloat (4 / 5)) = Inr (ay_minimum a)"
    by (rule accuracy_cases [OF assms(2)])
  have "has_type (Share (1 / 2) 1) (obj_get (policy_replication policy) ''shadow_min_precision'')"
    by (rule replication_fields [OF assms(1)]) (simp add: replication_type_def)
  then obtain m where "obj_get (policy_replication policy) ''shadow_min_precision'' = JFloat m" "1 / 2 \<le> m"
    by (auto elim: ranged.elims)
  with least have m: "ay_minimum a = JFloat m" "1 / 2 \<le> m" by auto
  have three: "3 \<le> ay_required a" using required by (auto simp: int_setting_def split: sum.splits)
  have passed: "ay_required a \<le> int (length verdicts)" "m \<le> precision_of verdicts"
    using v(5) assms(3) m by auto
  have "verdicts \<noteq> []" using three passed(1) by auto
  then have share: "m * of_nat (length verdicts) \<le> of_nat (length (filter snd verdicts))"
    using passed(2) by (simp add: precision_of_def field_simps)
  let ?ids = "map fst (filter snd verdicts)"
  have "distinct (map fst verdicts)"
    using judged_distinct [OF v(2)] unique_traced [OF v(1)] by (simp add: traced_def)
  then have "distinct ?ids" by (metis distinct_map_filter)
  moreover have "\<forall>i \<in> set ?ids. backed env d i"
    using verdict_backed [OF v(1,2)] by auto
  ultimately show ?thesis
    using m share three passed(1) v(3,4) length_filter_le [of snd verdicts]
    by (intro exI [of _ ?ids] exI [of _ m]) auto
qed
definition scored_item :: "string \<Rightarrow> json" where
  "scored_item i =
     JObj [(''recommendation_id'', JStr i), (''profile_fingerprint'', JStr i), (''provider'', JStr ''runpod''),
           (''target_region'', JStr ''US''), (''expires_at'', JStr ''9'')]"

definition scored_registry :: "string \<Rightarrow> registry" where
  \<comment> \<open>one report at instant 1 with three recommendations, and demand for the named one later\<close>
  "scored_registry followed =
     empty_registry\<lparr>
       rg_shadows := [\<lparr>sh_id = ''e1'', sh_created_at = ''1'',
         sh_report = JObj [(''created_at'', JStr ''1''),
           (''recommendations'', JArr (map (\<lambda>c. scored_item [c]) ''abc''))]\<rparr>],
       rg_demand := map (\<lambda>c. (demand_row_at [c] ''5'')\<lparr>dm_profile := [c]\<rparr>) followed\<rparr>"

definition scored :: "int \<Rightarrow> string \<Rightarrow> accuracy" where
  "scored now followed = projr (shadow_accuracy day_env now (scored_registry followed) (replica_policy (JFloat 20)))"

lemma scored_all:
  "shadow_accuracy day_env 10 (scored_registry ''abc'') (replica_policy (JFloat 20)) =
     Inr \<lparr>ay_created_at = ''9'', ay_unique = 3, ay_mature = 3, ay_validated = 3, ay_precision = 1,
          ay_required = 3, ay_minimum = JFloat (4 / 5), ay_hours = 24, ay_passed = True\<rparr>"
  by code_simp

lemma scored_one:
  "shadow_accuracy day_env 10 (scored_registry ''a'') (replica_policy (JFloat 20)) =
     Inr \<lparr>ay_created_at = ''9'', ay_unique = 3, ay_mature = 1, ay_validated = 1, ay_precision = 1,
          ay_required = 3, ay_minimum = JFloat (4 / 5), ay_hours = 24, ay_passed = False\<rparr>"
  by code_simp

theorem gate_needs_evidence_witness:
  "\<exists>ids. distinct ids \<and> length ids = 3 \<and> (\<forall>i \<in> set ids. backed day_env (scored_registry ''abc'') i)"
  using gate_needs_evidence [OF replica_policy_normal(1) scored_all] by auto

text \<open>C11: The score only sees the newest 1000 reports: while all of these are younger than the time after
  which an unused recommendation counts against the policy, every recommendation that is judged
  counts for it, whatever older reports said. A report is written at every tick of the controller
  and for every paid job, so with short intervals the score is perfect without any merit.\<close>

theorem young_reports_hide_misses:
  assumes "shadow_accuracy env now d policy = Inr a"
    and "\<And>report t. report \<in> set (list_shadow_evaluations d 1000) \<Longrightarrow>
           parse_time env (report_created env report) = Inr t \<Longrightarrow> now < t + ay_hours a * hour_us"
  shows "ay_validated a = ay_mature a \<and> (0 < ay_mature a \<longrightarrow> ay_precision a = 1)"
proof -
  obtain unique verdicts where v: "unique_recommendations env d = Inr unique"
    "collect (judge env now (ay_hours a) (list_regional_demand d None)) unique = Inr verdicts"
    "ay_mature a = length verdicts" "ay_validated a = length (filter snd verdicts)"
    "ay_precision a = round_to 6 (precision_of verdicts)"
    by (rule accuracy_cases [OF assms(1)])
  have "snd y" if "y \<in> set verdicts" for y
  proof -
    obtain x zs where x: "x \<in> set unique" "judge env now (ay_hours a) (list_regional_demand d None) x = Inr zs" "y \<in> set zs"
      using collect_in [OF v(2) \<open>y \<in> set verdicts\<close>] by blast
    from x(2) show ?thesis
    proof (cases rule: judge_cases)
      case young
      then show ?thesis using x(3) by simp
    next
      case (judged i item created first expiry hit)
      obtain report where "report \<in> set (list_shadow_evaluations d 1000)" "created = report_created env report"
        using unique_traced [OF v(1)] x(1) judged(1) unfolding traced_def by blast
      then have "now < first + ay_hours a * hour_us" using assms(2) judged(3) by blast
      then show ?thesis using judged x(3) by auto
    qed
  qed
  then have all: "filter snd verdicts = verdicts" by (simp add: filter_id_conv)
  have "round_to 6 1 = (1 :: rat)" by code_simp
  then show ?thesis using v(3-5) by (auto simp: all precision_of_def)
qed

theorem young_reports_hide_misses_witness:
  "\<exists>a. shadow_accuracy day_env 10 (scored_registry ''a'') (replica_policy (JFloat 20)) = Inr a \<and>
     ay_unique a = 3 \<and> ay_validated a = ay_mature a \<and> ay_precision a = 1"
proof -
  have "list_shadow_evaluations (scored_registry ''a'') 1000 = [sh_report (hd (rg_shadows (scored_registry ''a'')))]"
    by code_simp
  moreover have "parse_time day_env (report_created day_env (sh_report (hd (rg_shadows (scored_registry ''a''))))) = Inr 1"
    by code_simp
  ultimately show ?thesis
    using young_reports_hide_misses [OF scored_one] scored_one by (simp add: hour_us_def)
qed

lemma spend_nan:
  "spend (Some JNaN) p planned xs = (t, ys) \<Longrightarrow> Advice a \<in> set ys \<Longrightarrow>
   \<exists>b. Advice b \<in> set xs \<and> av_reasons a = av_reasons b \<and> av_recommended a = av_recommended b"
proof (induction xs arbitrary: p planned ys)
  case Nil
  then show ?case by simp
next
  case (Cons x xs)
  have "\<not> over_limit v (Some JNaN)" for v by (simp add: over_limit_def)
  then obtain p' planned' y ys' where "spend (Some JNaN) p' planned' xs = (t, ys')" "ys = y # ys'"
    "y = x \<or> (\<exists>b. x = Advice b \<and> y = Advice (b\<lparr>av_monthly := JFloat 0\<rparr>))"
    using Cons.prems(1) by (cases x) (auto simp: Let_def split: prod.splits if_splits)
  then show ?case using Cons.IH [of p' planned' ys'] Cons.prems(2) by fastforce
qed
lemma reasons_nan:
  assumes "rs_budget s = Some JNaN"
  shows "''monthly_budget_exceeded'' \<notin> set (reasons_of s region rows f)"
  using assms by (simp add: reasons_of_def reasons_for_def over_limit_def)

text \<open>C12: A budget that is no number passes the check of the policy and switches the budget off: no
  recommendation of a report is refused for its cost.\<close>

theorem nan_budget_unlimited:
  assumes "policy_normal policy" and "obj_get (policy_replication policy) ''monthly_budget_usd'' = JNaN"
    and "build_shadow_report env uuid now d policy = Inr r" and "Advice a \<in> set (rr_decisions r)"
  shows "normalized_prepared_storage float_env policy = Inr policy \<and> ''monthly_budget_exceeded'' \<notin> set (av_reasons a)"
proof -
  obtain xs t where xs: "replication_settings_of env policy = Inr (rr_settings r)"
    "report_decisions env policy (rr_settings r) now d (window_demand env now d (rr_settings r)) = Inr xs"
    "spend (rs_budget (rr_settings r)) (JFloat 0) [] xs = (t, rr_decisions r)"
    by (rule report_cases [OF assms(3)])
  have nan: "rs_budget (rr_settings r) = Some JNaN"
    using budget_setting [OF assms(1) xs(1)] assms(2) by (auto split: option.splits)
  obtain b where b: "Advice b \<in> set xs" "av_reasons a = av_reasons b"
    using spend_nan [OF xs(3) [unfolded nan] assms(4)] by blast
  obtain k where "advise env policy (rr_settings r) now d (list_volumes d None)
      (k, group_of (window_demand env now d (rr_settings r)) k) = Inr (Advice b)"
    using report_advice [OF xs(2) b(1)] by blast
  then obtain f where f: "b = advice_for env (rr_settings r) now k (group_of (window_demand env now d (rr_settings r)) k) f"
    by (rule advise_cases)
  have "''monthly_budget_exceeded'' \<notin> set (av_reasons b)"
    unfolding f using reasons_nan [OF nan] by (cases k) (auto simp: advice_for_def Let_def)
  then show ?thesis using b(2) normalized_fixed [OF float_env_texts assms(1)] by simp
qed

theorem nan_budget_unlimited_witness:
  "''monthly_budget_exceeded'' \<notin> set (av_reasons (sample_advice JNaN)) \<and>
   normalized_prepared_storage float_env (replica_policy JNaN) = Inr (replica_policy JNaN)"
proof -
  have "obj_get (policy_replication (replica_policy JNaN)) ''monthly_budget_usd'' = JNaN" by code_simp
  then show ?thesis
    using nan_budget_unlimited [OF replica_policy_normal(2) _ build_sample_nan, of "sample_advice JNaN"]
    by (simp add: sample_report_def)
qed

end
