(* ===== verification/Control.thy ===== *)
theory Control
  imports Effects Claims
begin

text \<open>
  The lease control of \<open>Dispatcher\<close> in \<open>cloud_offload/dispatcher.py\<close>: the dictionaries that the
  dispatcher keeps of the machines it rents, and the calls that bring them, the leases of the
  queue and the provider's own view together. A provider is a record of functions that thread a
  state of their own, so that two calls may answer differently; the clocks are read from the
  same state. \<open>dp_calls\<close> records the calls of providers and what they answered, as the code logs
  them; nothing reads it. The connectors, the clocks and the configuration are parameters.
\<close>

section \<open>State\<close>

record cloud_instance =
  ci_id :: string
  ci_gpu_type :: string
  ci_hourly_rate :: rat
  ci_status :: string
  ci_metadata :: json

record 'w cloud =
  cl_get_instance :: "string \<Rightarrow> 'w \<Rightarrow> 'w \<times> (pyerr + cloud_instance option)"
  cl_list_instances :: "'w \<Rightarrow> 'w \<times> (pyerr + cloud_instance list)"
  cl_terminate :: "string \<Rightarrow> 'w \<Rightarrow> 'w \<times> (pyerr + bool)"
  cl_container_started :: "cloud_instance \<Rightarrow> 'w \<Rightarrow> 'w \<times> (pyerr + bool option)"

record worker_profile =
  wp_name :: string
  wp_models :: "string list"

record 'w control =
  dc_connectors :: "(string \<times> 'w cloud) list"
  dc_utc_now :: "'w \<Rightarrow> 'w \<times> time"
  dc_monotonic :: "'w \<Rightarrow> 'w \<times> rat"
  dc_profiles :: "(string \<times> worker_profile) list"
  dc_lease_ttl_seconds :: int
  dc_poll_interval_seconds :: int
  dc_idle_shutdown_seconds :: int
  dc_keep_warm :: bool
  dc_max_job_runtime_seconds :: int
  dc_max_total_job_cost :: "json"
  dc_container_disk_gb :: int

datatype provider_call =
    Got_Instance string string "pyerr + cloud_instance option"
  | Listed_Instances string "pyerr + cloud_instance list"
  | Terminated string string "pyerr + bool"
  | Asked_Container string string "pyerr + bool option"

record 'w dispatcher =
  dp_queue :: db
  dp_active_instances :: "(string \<times> cloud_instance) list"
  dp_instance_providers :: "(string \<times> string) list"
  dp_instance_profiles :: "(string \<times> string) list"
  dp_instance_leases :: "(string \<times> string) list"
  dp_last_activity :: "(string \<times> time) list"
  dp_launched_at :: "(string \<times> time) list"
  dp_runner_ready :: "string list"
  dp_runner_feedback_at :: "(string \<times> time) list"
  dp_producer_id :: string
  dp_producer_sequence :: int
  dp_launch_failures :: "((string \<times> string) \<times> int) list"
  dp_next_launch_at :: "((string \<times> string) \<times> rat) list"
  dp_world :: 'w
  dp_calls :: "provider_call list"

type_synonym ('w, 'a) dact = "('w dispatcher, 'a) act"

section \<open>Clocks, the queue and the providers\<close>

definition utc_now :: "'w control \<Rightarrow> ('w, time) dact" where
  "utc_now cf s = (case dc_utc_now cf (dp_world s) of (w, t) \<Rightarrow> (s\<lparr>dp_world := w\<rparr>, Inr t))"

definition monotonic :: "'w control \<Rightarrow> ('w, rat) dact" where
  "monotonic cf s = (case dc_monotonic cf (dp_world s) of (w, t) \<Rightarrow> (s\<lparr>dp_world := w\<rparr>, Inr t))"

definition queue_tx :: "'w control \<Rightarrow> (time \<Rightarrow> db \<Rightarrow> (db, 'a) tx) \<Rightarrow> ('w, 'a) dact" where
  \<comment> \<open>a call of the queue: it reads the clock itself and commits or raises\<close>
  "queue_tx cf f =
     and_then (utc_now cf) (\<lambda>now s.
       (case f now (dp_queue s) of
          Inl e \<Rightarrow> (s, Inl e)
        | Inr (d, a) \<Rightarrow> (s\<lparr>dp_queue := d\<rparr>, Inr a)))"

definition provider_call ::
  "(pyerr + 'a \<Rightarrow> provider_call) \<Rightarrow> ('w \<Rightarrow> 'w \<times> (pyerr + 'a)) \<Rightarrow> ('w, 'a) dact"
where
  "provider_call c f s =
     (case f (dp_world s) of (w, r) \<Rightarrow> (s\<lparr>dp_world := w, dp_calls := dp_calls s @ [c r]\<rparr>, r))"

definition get_instance :: "string \<Rightarrow> 'w cloud \<Rightarrow> string \<Rightarrow> ('w, cloud_instance option) dact" where
  "get_instance p cl i = provider_call (Got_Instance p i) (cl_get_instance cl i)"

definition list_instances :: "string \<Rightarrow> 'w cloud \<Rightarrow> ('w, cloud_instance list) dact" where
  "list_instances p cl = provider_call (Listed_Instances p) (cl_list_instances cl)"

definition terminate_instance :: "string \<Rightarrow> 'w cloud \<Rightarrow> string \<Rightarrow> ('w, bool) dact" where
  "terminate_instance p cl i = provider_call (Terminated p i) (cl_terminate cl i)"

definition connector_of :: "'w control \<Rightarrow> string \<Rightarrow> 'w cloud option" where
  "connector_of cf p = map_of (dc_connectors cf) p"

definition dict_item :: "('k \<times> 'v) list \<Rightarrow> 'k \<Rightarrow> string \<Rightarrow> pyerr + 'v" where
  \<comment> \<open>\<open>d[k]\<close>\<close>
  "dict_item d k name = (case map_of d k of None \<Rightarrow> Inl (KeyError name) | Some v \<Rightarrow> Inr v)"

definition setdefault :: "'k \<Rightarrow> 'v \<Rightarrow> ('k \<times> 'v) list \<Rightarrow> ('k \<times> 'v) list" where
  "setdefault k v d = (if map_of d k = None then d @ [(k, v)] else d)"

section \<open>Instances\<close>

definition forget_instance :: "string \<Rightarrow> 'w dispatcher \<Rightarrow> 'w dispatcher" where
  "forget_instance i s =
     s\<lparr>dp_active_instances := AList.delete i (dp_active_instances s),
       dp_instance_providers := AList.delete i (dp_instance_providers s),
       dp_instance_profiles := AList.delete i (dp_instance_profiles s),
       dp_instance_leases := AList.delete i (dp_instance_leases s),
       dp_last_activity := AList.delete i (dp_last_activity s),
       dp_launched_at := AList.delete i (dp_launched_at s),
       dp_runner_ready := removeAll i (dp_runner_ready s),
       dp_runner_feedback_at := AList.delete i (dp_runner_feedback_at s)\<rparr>"

definition restore_lease_instance :: "lease \<Rightarrow> cloud_instance \<Rightarrow> 'w dispatcher \<Rightarrow> 'w dispatcher" where
  "restore_lease_instance l inst s =
     (let i = ci_id inst in
      s\<lparr>dp_active_instances := AList.update i inst (dp_active_instances s),
        dp_instance_providers := AList.update i (lease_provider l) (dp_instance_providers s),
        dp_instance_profiles := AList.update i (lease_runtime_profile l) (dp_instance_profiles s),
        dp_instance_leases := AList.update i (lease_id l) (dp_instance_leases s),
        dp_launched_at := setdefault i (lease_created_at l) (dp_launched_at s),
        dp_last_activity := setdefault i (lease_created_at l) (dp_last_activity s)\<rparr>)"

definition instance_resource_name :: "pyenv \<Rightarrow> cloud_instance \<Rightarrow> string" where
  "instance_resource_name env inst = or_text env (obj_get (ci_metadata inst) ''name'') []"

definition runner_registration_timeout :: int where
  "runner_registration_timeout = 3600"

definition runner_registration_ttl :: "'w control \<Rightarrow> int" where
  "runner_registration_ttl cf =
     max (dc_lease_ttl_seconds cf) (runner_registration_timeout + dc_poll_interval_seconds cf)"

section \<open>The jobs of a lease\<close>

definition lease_control :: string where
  "lease_control = ''dispatcher:lease-control''"

definition stopped_event :: "lease \<Rightarrow> string \<Rightarrow> json" where
  "stopped_event l reason =
     JObj [(''type'', JStr ''circuit_breaker_triggered''), (''phase'', JStr ''resource_closure''),
           (''lease_id'', JStr (lease_id l)), (''provider'', JStr (lease_provider l)),
           (''worker_instance_id'', jopt (lease_instance_id l)), (''reason'', JStr reason)]"

definition lost_event :: "lease \<Rightarrow> json" where
  "lost_event l =
     JObj [(''type'', JStr ''provider_resource_lost''), (''phase'', JStr ''resource_closure''),
           (''lease_id'', JStr (lease_id l)), (''provider'', JStr (lease_provider l)),
           (''worker_instance_id'', jopt (lease_instance_id l))]"

definition each_lease_job ::
  "pyenv \<Rightarrow> 'w control \<Rightarrow> lease \<Rightarrow> json \<Rightarrow> (string \<Rightarrow> time \<Rightarrow> db \<Rightarrow> (db, job option) tx) \<Rightarrow> ('w, unit) dact"
where
  \<comment> \<open>the loop that the two operations below share\<close>
  "each_lease_job env cf l event f =
     and_then (look (\<lambda>s. jobs_for_lease (dp_queue s) (lease_id l))) (\<lambda>js.
       for_each (\<lambda>j.
         if terminal (job_status j) then ret ()
         else and_then (queue_tx cf (\<lambda>now d.
                append_event env now d (job_id j) event (Some lease_control) None None)) (\<lambda>e.
              and_then (queue_tx cf (f (job_id j))) (\<lambda>r. ret ()))) js)"

definition fail_lease_jobs :: "pyenv \<Rightarrow> 'w control \<Rightarrow> lease \<Rightarrow> string \<Rightarrow> ('w, unit) dact" where
  "fail_lease_jobs env cf l reason =
     each_lease_job env cf l (stopped_event l reason)
       (\<lambda>i now d. update_status env now d i FAILED
          (Some (''Cancelled: '' @ replace_char (CHR ''_'') (CHR '' '') reason)) [])"

definition requeue_lost_lease_jobs :: "pyenv \<Rightarrow> 'w control \<Rightarrow> lease \<Rightarrow> ('w, unit) dact" where
  "requeue_lost_lease_jobs env cf l =
     each_lease_job env cf l (lost_event l)
       (\<lambda>i now d. fail_job env now d i ''Provider resource ended before completion'')"

section \<open>Closing a lease\<close>

definition confirm_gone ::
  "pyenv \<Rightarrow> 'w control \<Rightarrow> string \<Rightarrow> cloud_instance option \<Rightarrow> ('w, lease) dact"
where
  \<comment> \<open>\<open>confirm_lease_termination\<close> with what the provider answered\<close>
  "confirm_gone env cf ident inst =
     queue_tx cf (\<lambda>now d. confirm_lease_termination env now d ident
       (case inst of None \<Rightarrow> ''absent'' | Some x \<Rightarrow> ci_status x) (inst = None))"

definition gone :: "cloud_instance option \<Rightarrow> bool" where
  "gone inst \<longleftrightarrow> (case inst of None \<Rightarrow> True | Some x \<Rightarrow> ci_status x = ''terminated'')"

definition terminate_resource ::
  "pyenv \<Rightarrow> 'w control \<Rightarrow> 'w cloud \<Rightarrow> string \<Rightarrow> string \<Rightarrow> string \<Rightarrow> ('w, unit) dact"
where
  \<comment> \<open>the attempt is recorded first; only what the provider answers afterwards closes the lease\<close>
  "terminate_resource env cf cl p i ident =
     and_then (queue_tx cf (\<lambda>now d. record_termination_attempt env now d ident None)) (\<lambda>attempted.
     and_then (attempt (terminate_instance p cl i)) (\<lambda>r.
     and_then (attempt (get_instance p cl i)) (\<lambda>observed.
       case observed of
         Inl e \<Rightarrow> ret ()
       | Inr inst \<Rightarrow>
           if gone inst
           then and_then (confirm_gone env cf ident inst) (\<lambda>u. modify (forget_instance i))
           else ret ())))"

definition terminate_lease :: "pyenv \<Rightarrow> 'w control \<Rightarrow> lease \<Rightarrow> ('w, unit) dact" where
  "terminate_lease env cf l =
     (if \<not> given (lease_instance_id l) then ret ()
      else
        (case connector_of cf (lease_provider l) of
           None \<Rightarrow> ret ()
         | Some cl \<Rightarrow>
             terminate_resource env cf cl (lease_provider l) (or_default [] (lease_instance_id l)) (lease_id l)))"

definition recover_provisioning_lease ::
  "pyenv \<Rightarrow> 'w control \<Rightarrow> lease \<Rightarrow> ('w, cloud_instance option \<times> bool) dact"
where
  \<comment> \<open>an instance, and whether the provider could be asked\<close>
  "recover_provisioning_lease env cf l =
     (case connector_of cf (lease_provider l) of
        None \<Rightarrow> ret (None, False)
      | Some cl \<Rightarrow>
          and_then (attempt (list_instances (lease_provider l) cl)) (\<lambda>r.
            case r of
              Inl e \<Rightarrow> ret (None, False)
            | Inr insts \<Rightarrow>
                (case find (\<lambda>x. instance_resource_name env x = lease_resource_name l) insts of
                   Some x \<Rightarrow> ret (Some x, True)
                 | None \<Rightarrow>
                     and_then (queue_tx cf (\<lambda>now d.
                       close_unbound_lease env now d (lease_id l) ''provider_confirmed_no_resource''))
                       (\<lambda>u. ret (None, True)))))"

section \<open>Reconciling\<close>

definition lease_instance ::
  "pyenv \<Rightarrow> 'w control \<Rightarrow> 'w cloud \<Rightarrow> lease \<Rightarrow> ('w, (lease \<times> cloud_instance option) option) dact"
where
  \<comment> \<open>the lease and its instance; \<open>None\<close> where the loop continues with the next lease\<close>
  "lease_instance env cf cl l =
     (if given (lease_instance_id l)
      then and_then (attempt (get_instance (lease_provider l) cl (or_default [] (lease_instance_id l)))) (\<lambda>r.
             ret (case r of Inl e \<Rightarrow> None | Inr inst \<Rightarrow> Some (l, inst)))
      else and_then (recover_provisioning_lease env cf l) (\<lambda>(inst, checked).
             case inst of
               None \<Rightarrow> ret None
             | Some x \<Rightarrow>
                 and_then (queue_tx cf (\<lambda>now d.
                   bind_lease env now d (lease_id l) (ci_id x) None (runner_registration_ttl cf)))
                   (\<lambda>l'. ret (Some (l', Some x)))))"

definition past :: "time \<Rightarrow> time option \<Rightarrow> bool" where
  "past now t \<longleftrightarrow> (case t of None \<Rightarrow> False | Some x \<Rightarrow> x \<le> now)"

definition closing :: "lease_status \<Rightarrow> bool" where
  "closing s \<longleftrightarrow> s \<in> {Revocation_Requested, Terminating}"

definition end_reason :: "time \<Rightarrow> lease \<Rightarrow> cloud_instance \<Rightarrow> string option" where
  \<comment> \<open>why a lease with a live instance has to end\<close>
  "end_reason now l inst =
     (if closing (lease_status l)
      then Some (if given (lease_reason l) then or_default [] (lease_reason l) else ''lease_revoked'')
      else if ci_status inst = ''stopped'' then Some ''provider_stopped_resource_remains''
      else if lease_expires_at l \<le> now then Some ''lease_expired''
      else if past now (lease_runtime_deadline l) then Some ''runtime_limit''
      else if past now (lease_cost_deadline l) then Some ''cost_limit''
      else None)"

definition end_lease :: "pyenv \<Rightarrow> 'w control \<Rightarrow> lease \<Rightarrow> string \<Rightarrow> ('w, unit) dact" where
  "end_lease env cf l reason =
     (if closing (lease_status l) then terminate_lease env cf l
      else
        and_then (queue_tx cf (\<lambda>now d. request_lease_revocation env now d (lease_id l) reason)) (\<lambda>l'.
        and_then (fail_lease_jobs env cf l' reason) (\<lambda>u.
        terminate_lease env cf l')))"

definition lost_lease :: "pyenv \<Rightarrow> 'w control \<Rightarrow> lease \<Rightarrow> ('w, unit) dact" where
  \<comment> \<open>work of a lease that was in force goes back to the queue\<close>
  "lost_lease env cf l =
     (if lease_status l = Active \<and> lease_termination_requested_at l = None
      then requeue_lost_lease_jobs env cf l else ret ())"

definition control_lease ::
  "pyenv \<Rightarrow> 'w control \<Rightarrow> time \<Rightarrow> lease \<Rightarrow> cloud_instance option \<Rightarrow> ('w, unit) dact"
where
  "control_lease env cf now l inst =
     (if gone inst then
        and_then (lost_lease env cf l) (\<lambda>u.
        and_then (confirm_gone env cf (lease_id l) inst) (\<lambda>c.
        if given (lease_instance_id l)
        then modify (forget_instance (or_default [] (lease_instance_id l))) else ret ()))
      else
        (case inst of
           None \<Rightarrow> ret ()
         | Some x \<Rightarrow>
             and_then (modify (restore_lease_instance l x)) (\<lambda>u.
             case end_reason now l x of None \<Rightarrow> ret () | Some reason \<Rightarrow> end_lease env cf l reason)))"

definition reconcile_lease :: "pyenv \<Rightarrow> 'w control \<Rightarrow> time \<Rightarrow> lease \<Rightarrow> ('w, unit) dact" where
  "reconcile_lease env cf now initial =
     and_then (look (\<lambda>s. case find_lease (dp_queue s) (lease_id initial) of None \<Rightarrow> initial | Some l \<Rightarrow> l)) (\<lambda>l.
       case connector_of cf (lease_provider l) of
         None \<Rightarrow> ret ()
       | Some cl \<Rightarrow>
           and_then (lease_instance env cf cl l) (\<lambda>r.
             case r of None \<Rightarrow> ret () | Some (l', inst) \<Rightarrow> control_lease env cf now l' inst))"

definition reconcile_leases :: "pyenv \<Rightarrow> 'w control \<Rightarrow> ('w, unit) dact" where
  "reconcile_leases env cf =
     and_then (utc_now cf) (\<lambda>now.
     and_then (look (\<lambda>s. list_open_leases (dp_queue s))) (\<lambda>ls.
     for_each (reconcile_lease env cf now) ls))"

end
