(* ===== verification/Fleet.thy ===== *)
theory Fleet
  imports Control
begin

text \<open>
  The machines of \<open>Dispatcher\<close> in \<open>cloud_offload/dispatcher.py\<close> between rental and termination:
  what is remembered of a launch, the events of a launch and its failures, the limits a lease is
  created with, the polls that notice lost, unregistered and idle machines, and the shutdown.
\<close>

section \<open>Events of a launch\<close>

definition tolerated :: "pyerr \<Rightarrow> bool" where
  \<comment> \<open>\<open>except (KeyError, ValueError)\<close>; a plan error is a \<open>ValueError\<close>\<close>
  "tolerated e \<longleftrightarrow> (case e of KeyError m \<Rightarrow> True | ValueError m \<Rightarrow> True | PlanError m \<Rightarrow> True | _ \<Rightarrow> False)"

definition publish_launch_event :: "pyenv \<Rightarrow> 'w control \<Rightarrow> job list \<Rightarrow> json \<Rightarrow> ('w, unit) dact" where
  "publish_launch_event env cf js event =
     and_then (modify (\<lambda>s. s\<lparr>dp_producer_sequence := dp_producer_sequence s + 1\<rparr>)) (\<lambda>u.
     for_each (\<lambda>j.
       and_then (look (\<lambda>s. (dp_producer_id s, dp_producer_sequence s))) (\<lambda>(producer, n).
       and_then (attempt (queue_tx cf (\<lambda>now d.
         append_event env now d (job_id j) event (Some producer) (Some (JInt n)) None))) (\<lambda>r.
       case r of
         Inr e \<Rightarrow> ret ()
       | Inl e \<Rightarrow> if tolerated e then ret () else raise_error e))) js)"

definition launch_retry_seconds :: "int \<Rightarrow> int" where
  "launch_retry_seconds failures = min 300 (10 * 2 ^ nat (min (failures - 1) 5))"

definition record_launch_failure ::
  "pyenv \<Rightarrow> 'w control \<Rightarrow> string \<Rightarrow> string \<Rightarrow> job list \<Rightarrow> string \<Rightarrow> ('w, unit) dact"
where
  "record_launch_failure env cf provider profile js error =
     (let key = (provider, profile) in
      and_then (look (\<lambda>s. (case map_of (dp_launch_failures s) key of None \<Rightarrow> 0 | Some n \<Rightarrow> n) + 1)) (\<lambda>failures.
      and_then (modify (\<lambda>s. s\<lparr>dp_launch_failures := AList.update key failures (dp_launch_failures s)\<rparr>)) (\<lambda>u.
      and_then (monotonic cf) (\<lambda>now.
      and_then (modify (\<lambda>s. s\<lparr>dp_next_launch_at :=
          AList.update key (now + of_int (launch_retry_seconds failures)) (dp_next_launch_at s)\<rparr>)) (\<lambda>u.
      publish_launch_event env cf js
        (JObj [(''type'', JStr ''provisioning_failed''), (''provider'', JStr provider),
               (''runtime_profile'', JStr profile), (''error'', JStr error),
               (''retry_seconds'', JInt (launch_retry_seconds failures)), (''attempt'', JInt failures),
               (''overall_progress'', JInt 0)]))))))"

definition runner_starting_event :: "string \<Rightarrow> string \<Rightarrow> cloud_instance \<Rightarrow> string option \<Rightarrow> json" where
  "runner_starting_event provider profile inst lease =
     JObj [(''type'', JStr ''runner_starting''), (''provider'', JStr provider), (''runtime_profile'', JStr profile),
           (''worker_instance_id'', JStr (ci_id inst)), (''gpu_type'', JStr (ci_gpu_type inst)),
           (''hourly_rate'', JFloat (ci_hourly_rate inst)), (''lease_id'', jopt lease), (''overall_progress'', JInt 2)]"

definition remember_instance ::
  "string \<Rightarrow> string \<Rightarrow> cloud_instance \<Rightarrow> string option \<Rightarrow> time \<Rightarrow> time \<Rightarrow> 'w dispatcher \<Rightarrow> 'w dispatcher"
where
  "remember_instance provider profile inst lease activity launched s =
     (let i = ci_id inst in
      s\<lparr>dp_instance_leases := (if given lease then AList.update i (or_default [] lease) (dp_instance_leases s)
                              else dp_instance_leases s),
        dp_active_instances := AList.update i inst (dp_active_instances s),
        dp_instance_providers := AList.update i provider (dp_instance_providers s),
        dp_instance_profiles := AList.update i profile (dp_instance_profiles s),
        dp_last_activity := AList.update i activity (dp_last_activity s),
        dp_launched_at := AList.update i launched (dp_launched_at s),
        dp_launch_failures := AList.delete (provider, profile) (dp_launch_failures s),
        dp_next_launch_at := AList.delete (provider, profile) (dp_next_launch_at s)\<rparr>)"

definition remember_launched_instance ::
  "pyenv \<Rightarrow> 'w control \<Rightarrow> cloud_instance \<Rightarrow> string \<Rightarrow> string \<Rightarrow> job list \<Rightarrow> string option \<Rightarrow> ('w, cloud_instance) dact"
where
  \<comment> \<open>the start is the creation of the lease, before the provider was asked\<close>
  "remember_launched_instance env cf inst provider profile js lease =
     and_then (utc_now cf) (\<lambda>activity.
     and_then (if given lease
        then and_then (queue_tx cf (\<lambda>now d.
               bind_lease env now d (or_default [] lease) (ci_id inst) None (runner_registration_ttl cf))) (\<lambda>l.
             ret (lease_created_at l))
        else ret activity) (\<lambda>launched.
     and_then (modify (remember_instance provider profile inst lease activity launched)) (\<lambda>u.
     and_then (publish_launch_event env cf js (runner_starting_event provider profile inst lease)) (\<lambda>u.
     ret inst))))"

section \<open>Limits\<close>

definition tolerant :: "pyerr + 'a \<Rightarrow> pyerr + 'a option" where
  \<comment> \<open>\<open>except (TypeError, ValueError): pass\<close>; an overflow is raised\<close>
  "tolerant r =
     (case r of
        Inl (TypeError m) \<Rightarrow> Inr None
      | Inl (ValueError m) \<Rightarrow> Inr None
      | Inl e \<Rightarrow> Inl e
      | Inr x \<Rightarrow> Inr (Some x))"

definition request_policy :: "job \<Rightarrow> pyerr + json" where
  "request_policy j =
     (case py_get (or_obj (obj_get (job_params j) ''preflight'')) ''request_policy'' of
        Inl e \<Rightarrow> Inl e | Inr p \<Rightarrow> Inr (or_obj p))"

fun float_pos :: "json \<Rightarrow> bool" where
  \<comment> \<open>\<open>x > 0\<close> of a float\<close>
  "float_pos (JFloat q) = (0 < q)"
| "float_pos (JInf b) = b"
| "float_pos v = False"

definition least_float :: "json list \<Rightarrow> json option" where
  \<comment> \<open>\<open>min(xs) if xs else None\<close>\<close>
  "least_float xs =
     (case xs of [] \<Rightarrow> None | x # ys \<Rightarrow> Some (foldl (\<lambda>m y. if float_less y m then y else m) x ys))"

definition job_limits :: "pyenv \<Rightarrow> job \<Rightarrow> pyerr + (int list \<times> json list)" where
  "job_limits env j =
     (case request_policy j of Inl e \<Rightarrow> Inl e | Inr p \<Rightarrow>
     (case py_get p ''max_job_runtime_seconds'' of Inl e \<Rightarrow> Inl e | Inr v \<Rightarrow>
     (case tolerant (py_int (or_zero v)) of Inl e \<Rightarrow> Inl e | Inr runtime \<Rightarrow>
     (case py_get p ''max_total_job_cost'' of Inl e \<Rightarrow> Inl e | Inr w \<Rightarrow>
     (case tolerant (py_float env (or_zero w)) of Inl e \<Rightarrow> Inl e | Inr cost \<Rightarrow>
        Inr (case runtime of None \<Rightarrow> [] | Some n \<Rightarrow> if 0 < n then [n] else [],
             case cost of None \<Rightarrow> [] | Some c \<Rightarrow> if float_pos c then [c] else []))))))"

definition configured_cost :: "pyenv \<Rightarrow> 'w control \<Rightarrow> pyerr + json list" where
  "configured_cost env cf =
     (if dc_max_total_job_cost cf = JNull then Inr []
      else case py_float env (dc_max_total_job_cost cf) of Inl e \<Rightarrow> Inl e | Inr c \<Rightarrow> Inr [c])"

definition lease_limits :: "pyenv \<Rightarrow> 'w control \<Rightarrow> job list \<Rightarrow> pyerr + (int \<times> json option)" where
  "lease_limits env cf js =
     (case configured_cost env cf of Inl e \<Rightarrow> Inl e | Inr own \<Rightarrow>
     (case each (job_limits env) js of Inl e \<Rightarrow> Inl e | Inr ls \<Rightarrow>
        Inr (foldl min (dc_max_job_runtime_seconds cf) (concat (map fst ls)),
             least_float (own @ concat (map snd ls)))))"

section \<open>Worker profiles of jobs\<close>

definition profile_providing :: "(string \<times> worker_profile) list \<Rightarrow> string \<Rightarrow> worker_profile option" where
  "profile_providing profiles capability =
     find (\<lambda>p. capability \<in> set (wp_models p)) (map snd (sort_key fst profiles))"

definition job_profile_name :: "pyenv \<Rightarrow> (string \<times> worker_profile) list \<Rightarrow> job \<Rightarrow> string" where
  "job_profile_name env profiles j =
     (let requested = or_text env (obj_get (job_params j) ''runtime_profile'') [] in
      case coalesce (map_of profiles requested) (profile_providing profiles requested) of
        Some p \<Rightarrow> wp_name p
      | None \<Rightarrow> requested)"

definition planned_disk_gb :: "'w control \<Rightarrow> job list \<Rightarrow> pyerr + int" where
  "planned_disk_gb cf js =
     (case each (\<lambda>j. py_int (or_zero (obj_get (job_params j) ''container_disk_gb''))) js of
        Inl e \<Rightarrow> Inl e
      | Inr ns \<Rightarrow> Inr (let planned = foldl max 0 ns in
                        if planned \<le> dc_container_disk_gb cf then dc_container_disk_gb cf else planned))"

section \<open>Terminating machines\<close>

definition terminate_worker :: "pyenv \<Rightarrow> 'w control \<Rightarrow> string \<Rightarrow> string \<Rightarrow> ('w, unit) dact" where
  "terminate_worker env cf i reason =
     and_then (look (\<lambda>s. map_of (dp_instance_leases s) i)) (\<lambda>lease.
       if given lease
       then and_then (queue_tx cf (\<lambda>now d. request_lease_revocation env now d (or_default [] lease) reason)) (\<lambda>l.
              terminate_lease env cf l)
       else
         and_then (look (\<lambda>s. dict_item (dp_instance_providers s) i i)) (\<lambda>r.
         and_then (raising r) (\<lambda>p.
         and_then (raising (dict_item (dc_connectors cf) p p)) (\<lambda>cl.
         and_then (terminate_instance p cl i) (\<lambda>b.
         modify (forget_instance i))))))"

definition shutdown :: "pyenv \<Rightarrow> 'w control \<Rightarrow> ('w, unit) dact" where
  \<comment> \<open>but for the tunnel\<close>
  "shutdown env cf =
     and_then (look (\<lambda>s. map fst (dp_active_instances s))) (\<lambda>is.
     for_each (\<lambda>i. terminate_worker env cf i ''dispatcher_shutdown'') is)"

section \<open>Polling the providers\<close>

definition tracked_lease_gone :: "pyenv \<Rightarrow> 'w control \<Rightarrow> string \<Rightarrow> cloud_instance option \<Rightarrow> ('w, unit) dact" where
  \<comment> \<open>the instance of a lease is gone; the lease may not be known any more\<close>
  "tracked_lease_gone env cf lease inst =
     and_then (look (\<lambda>s. find_lease (dp_queue s) lease)) (\<lambda>l.
     and_then (case l of None \<Rightarrow> ret () | Some x \<Rightarrow> lost_lease env cf x) (\<lambda>u.
     and_then (confirm_gone env cf lease inst) (\<lambda>c. ret ())))"

definition update_worker :: "pyenv \<Rightarrow> 'w control \<Rightarrow> string \<Rightarrow> ('w, unit) dact" where
  "update_worker env cf i =
     and_then (look (\<lambda>s. dict_item (dp_instance_providers s) i i)) (\<lambda>r.
     and_then (raising r) (\<lambda>p.
     and_then (raising (dict_item (dc_connectors cf) p p)) (\<lambda>cl.
     and_then (get_instance p cl i) (\<lambda>inst.
     and_then (look (\<lambda>s. map_of (dp_instance_leases s) i)) (\<lambda>lease.
       if gone inst then
         and_then (if given lease then tracked_lease_gone env cf (or_default [] lease) inst else ret ()) (\<lambda>u.
         modify (forget_instance i))
       else
         (case inst of
            None \<Rightarrow> ret ()
          | Some x \<Rightarrow>
              if ci_status x = ''stopped'' \<and> given lease
              then and_then (queue_tx cf (\<lambda>now d.
                     request_lease_revocation env now d (or_default [] lease) ''provider_stopped_resource_remains'')) (\<lambda>l.
                   terminate_lease env cf l)
              else modify (\<lambda>s. s\<lparr>dp_active_instances := AList.update i x (dp_active_instances s)\<rparr>)))))))"

definition update_workers :: "pyenv \<Rightarrow> 'w control \<Rightarrow> ('w, unit) dact" where
  "update_workers env cf =
     and_then (look (\<lambda>s. map fst (dp_active_instances s))) (\<lambda>is. for_each (update_worker env cf) is)"

section \<open>Idle machines\<close>

definition matching_workers :: "string \<Rightarrow> string \<Rightarrow> worker_view list \<Rightarrow> worker_row list" where
  "matching_workers provider profile ws =
     filter (\<lambda>w. wk_provider w = provider \<and> wk_runtime_profile w = Some profile) (map wv_row ws)"

definition profile_jobs ::
  "pyenv \<Rightarrow> 'w control \<Rightarrow> job_status list \<Rightarrow> string \<Rightarrow> string \<Rightarrow> 'w dispatcher \<Rightarrow> job list"
where
  \<comment> \<open>the jobs of a provider that resolve to a profile\<close>
  "profile_jobs env cf sts provider profile s =
     filter (\<lambda>j. job_profile_name env (dc_profiles cf) j = profile) (list_by_status (dp_queue s) sts (Some provider))"

definition check_idle_worker ::
  "pyenv \<Rightarrow> 'w control \<Rightarrow> time \<Rightarrow> worker_view list \<Rightarrow> string \<times> time \<Rightarrow> ('w, unit) dact"
where
  \<comment> \<open>a first boot is not idleness, a restarted container is\<close>
  "check_idle_worker env cf now ws item =
     (case item of (i, last_active) \<Rightarrow>
     and_then (look (\<lambda>s. dict_item (dp_instance_providers s) i i)) (\<lambda>r.
     and_then (raising r) (\<lambda>provider.
     and_then (look (\<lambda>s. dict_item (dp_instance_profiles s) i i)) (\<lambda>r.
     and_then (raising r) (\<lambda>profile.
     (let mine = matching_workers provider profile ws in
     and_then (if \<exists>w \<in> set mine. wk_status w \<notin> {''starting'', ''failed''}
               then modify (\<lambda>s. s\<lparr>dp_runner_ready := List.insert i (dp_runner_ready s)\<rparr>) else ret ()) (\<lambda>u.
     and_then (look (\<lambda>s.
         (\<exists>w \<in> set mine. wk_status w = ''starting'') \<and> i \<notin> set (dp_runner_ready s) \<or>
         profile_jobs env cf [RUNNING, DISPATCHED] provider profile s \<noteq> [] \<or>
         profile_jobs env cf [QUEUED] provider profile s \<noteq> [])) (\<lambda>busy.
     if busy then modify (\<lambda>s. s\<lparr>dp_last_activity := AList.update i now (dp_last_activity s)\<rparr>)
     else if seconds (dc_idle_shutdown_seconds cf) < now - last_active
     then terminate_worker env cf i ''idle_timeout''
     else ret ()))))))))"

definition active_workers :: "'w control \<Rightarrow> ('w, worker_view list) dact" where
  "active_workers cf =
     and_then (utc_now cf) (\<lambda>now. and_then (utc_now cf) (\<lambda>now2.
       look (\<lambda>s. list_active_workers now now2 (dp_queue s) 90)))"

definition check_idle_workers :: "pyenv \<Rightarrow> 'w control \<Rightarrow> ('w, unit) dact" where
  "check_idle_workers env cf =
     (if dc_keep_warm cf then ret ()
      else
        and_then (utc_now cf) (\<lambda>now.
        and_then (active_workers cf) (\<lambda>ws.
        and_then (look dp_last_activity) (\<lambda>items.
        for_each (check_idle_worker env cf now ws) items))))"

end
