(* ===== verification/Startup.thy ===== *)
theory Startup
  imports Fleet
begin

text \<open>
  \<open>_check_unregistered_workers\<close> of the dispatcher: a rented machine bills from its creation, also
  when its container never starts or its runner never calls home. The check reports the start
  to the waiting jobs and ends a machine that takes too long.
\<close>

definition runner_container_start_timeout :: int where
  "runner_container_start_timeout = 600"

definition registered_after :: "time \<Rightarrow> worker_row list \<Rightarrow> bool" where
  "registered_after launched ws \<longleftrightarrow> (\<exists>w \<in> set ws. launched \<le> wk_last_seen w)"

definition upper_ascii :: "string \<Rightarrow> string" where
  \<comment> \<open>\<open>str.upper\<close> as far as the state names below can tell\<close>
  "upper_ascii s = map (\<lambda>c. if is_lower c then char_of (code c - 32) else c) s"

definition provider_states :: "string list" where
  "provider_states =
     [''PROVISIONING'', ''STARTING'', ''RUNNING'', ''EXITED'', ''ERROR'', ''TERMINATED'', ''UNKNOWN'']"

definition provider_state :: "pyenv \<Rightarrow> cloud_instance option \<Rightarrow> string" where
  "provider_state env inst =
     (let told = (case inst of None \<Rightarrow> JNull | Some x \<Rightarrow> obj_get (ci_metadata x) ''provider_state'');
          status = (case inst of None \<Rightarrow> ''unknown'' | Some x \<Rightarrow> ci_status x);
          state = upper_ascii (or_text env told (if status = [] then ''unknown'' else status))
      in if state \<in> set provider_states then state else ''UNKNOWN'')"

definition container_state :: "bool option \<Rightarrow> string" where
  "container_state t = (case t of Some True \<Rightarrow> ''confirmed'' | Some False \<Rightarrow> ''not_started'' | None \<Rightarrow> ''unknown'')"

definition unknown_state :: json where
  "unknown_state = JObj [(''state'', JStr ''unknown'')]"

definition elapsed_seconds :: "time \<Rightarrow> time \<Rightarrow> json" where
  \<comment> \<open>rounded to a tenth\<close>
  "elapsed_seconds now launched = JFloat (of_int (py_round (of_int (now - launched) / 100000)) / 10)"

definition observation_event :: "pyenv \<Rightarrow> string \<Rightarrow> json \<Rightarrow> cloud_instance option \<Rightarrow> bool option \<Rightarrow> json" where
  "observation_event env i elapsed inst started =
     JObj [(''schema'', JStr ''cloud-offload.phase-event.v1''), (''type'', JStr ''provider_startup_observation''),
           (''phase'', JStr ''runner_starting''), (''worker_instance_id'', JStr i), (''elapsed_seconds'', elapsed),
           (''startup_phases'', JObj
              [(''allocation'', JObj [(''state'', JStr ''confirmed''), (''provider_state'', JStr (provider_state env inst))]),
               (''image_pull'', unknown_state),
               (''container_start'', JObj [(''state'', JStr (container_state started))]),
               (''runner_callback'', unknown_state), (''comfyui_readiness'', unknown_state)])]"

definition starting_progress_event :: "string \<Rightarrow> json \<Rightarrow> json" where
  "starting_progress_event i elapsed =
     JObj [(''schema'', JStr ''cloud-offload.phase-event.v1''), (''type'', JStr ''runner_starting_progress''),
           (''phase'', JStr ''runner_starting''), (''worker_instance_id'', JStr i), (''elapsed_seconds'', elapsed),
           (''overall_progress'', JInt 2), (''message'', JStr ''Waiting for runner callback and ComfyUI readiness'')]"

definition startup_failure :: "time \<Rightarrow> time \<Rightarrow> cloud_instance option \<Rightarrow> bool option \<Rightarrow> (string \<times> string) option" where
  \<comment> \<open>why a machine that has not registered is ended: the text for the jobs and the reason of the lease\<close>
  "startup_failure now launched inst started =
     (if inst \<noteq> None \<and> started = Some False \<and> seconds runner_container_start_timeout < now - launched
      then Some (''Provider never started the container within 600s of rental'', ''container_start_timeout'')
      else if now - launched \<le> seconds runner_registration_timeout then None
      else Some (''Runner did not register within 3600s'', ''registration_timeout''))"

definition report_startup ::
  "pyenv \<Rightarrow> 'w control \<Rightarrow> time \<Rightarrow> string \<Rightarrow> time \<Rightarrow> job list \<Rightarrow> cloud_instance option \<Rightarrow> bool option \<Rightarrow> ('w, unit) dact"
where
  \<comment> \<open>at most every ten seconds\<close>
  "report_startup env cf now i launched js inst started =
     and_then (look (\<lambda>s. map_of (dp_runner_feedback_at s) i)) (\<lambda>last.
       if js \<noteq> [] \<and> (case last of None \<Rightarrow> True | Some t \<Rightarrow> seconds 10 \<le> now - t)
       then
         and_then (publish_launch_event env cf js (observation_event env i (elapsed_seconds now launched) inst started)) (\<lambda>u.
         and_then (publish_launch_event env cf js (starting_progress_event i (elapsed_seconds now launched))) (\<lambda>u.
         modify (\<lambda>s. s\<lparr>dp_runner_feedback_at := AList.update i now (dp_runner_feedback_at s)\<rparr>)))
       else ret ())"

definition container_started :: "'w control \<Rightarrow> string \<Rightarrow> string \<Rightarrow> cloud_instance option \<Rightarrow> ('w, bool option) dact" where
  "container_started cf p i inst =
     (case inst of
        None \<Rightarrow> ret None
      | Some x \<Rightarrow>
          and_then (raising (dict_item (dc_connectors cf) p p)) (\<lambda>cl.
            provider_call (Asked_Container p i) (cl_container_started cl x)))"

definition check_unregistered ::
  "pyenv \<Rightarrow> 'w control \<Rightarrow> time \<Rightarrow> worker_view list \<Rightarrow> string \<times> time \<Rightarrow> ('w, unit) dact"
where
  "check_unregistered env cf now ws item =
     (case item of (i, launched) \<Rightarrow>
     and_then (look (\<lambda>s. dict_item (dp_instance_providers s) i i)) (\<lambda>r.
     and_then (raising r) (\<lambda>p.
     and_then (look (\<lambda>s. dict_item (dp_instance_profiles s) i i)) (\<lambda>r.
     and_then (raising r) (\<lambda>profile.
     if registered_after launched (matching_workers p profile ws)
     then modify (\<lambda>s. s\<lparr>dp_runner_feedback_at := AList.delete i (dp_runner_feedback_at s)\<rparr>)
     else
       and_then (look (\<lambda>s. (profile_jobs env cf [QUEUED] p profile s, map_of (dp_active_instances s) i))) (\<lambda>(js, inst).
       and_then (container_started cf p i inst) (\<lambda>started.
       and_then (report_startup env cf now i launched js inst started) (\<lambda>u.
       (case startup_failure now launched inst started of
          None \<Rightarrow> ret ()
        | Some (detail, reason) \<Rightarrow>
            and_then (record_launch_failure env cf p profile js detail) (\<lambda>u.
            terminate_worker env cf i reason))))))))))"

definition check_unregistered_workers :: "pyenv \<Rightarrow> 'w control \<Rightarrow> ('w, unit) dact" where
  "check_unregistered_workers env cf =
     and_then (utc_now cf) (\<lambda>now.
     and_then (active_workers cf) (\<lambda>ws.
     and_then (look dp_launched_at) (\<lambda>items.
     for_each (check_unregistered env cf now ws) items)))"

definition poll_workers :: "pyenv \<Rightarrow> 'w control \<Rightarrow> ('w, unit) dact" where
  \<comment> \<open>the polls at the end of a tick\<close>
  "poll_workers env cf =
     and_then (update_workers env cf) (\<lambda>u.
     and_then (check_unregistered_workers env cf) (\<lambda>u.
     check_idle_workers env cf))"

end
