(* ===== verification/ControlLaws.thy ===== *)
theory ControlLaws
  imports Control QueueOps
begin

text \<open>
  What one pass of the lease control guarantees, call by call. The contract \<open>lease_guarantee\<close>
  lists the calls that reconciling one lease may make; a relation that every one of them
  respects is respected by the whole of it. It is interpreted three times: the pass is a run of
  queue operations, its calls are only added to, and it leaves the other leases alone.
\<close>

section \<open>The calls\<close>

lemma queue_tx_result:
  assumes "queue_tx cf f s = (t, Inr a)"
  obtains w now d where "dc_utc_now cf (dp_world s) = (w, now)" "f now (dp_queue s) = Inr (d, a)"
    "t = s\<lparr>dp_world := w, dp_queue := d\<rparr>"
  using assms
  by (auto simp: queue_tx_def and_then_def utc_now_def split: prod.splits sum.splits)

lemma queue_tx_raised:
  assumes "queue_tx cf f s = (t, Inl e)"
  obtains w where "t = s\<lparr>dp_world := w\<rparr>"
  using assms
  by (auto simp: queue_tx_def and_then_def utc_now_def split: prod.splits sum.splits)

lemma provider_call_result:
  assumes "provider_call c f s = (t, r)"
  obtains w where "t = s\<lparr>dp_world := w, dp_calls := dp_calls s @ [c r]\<rparr>"
  using assms by (auto simp: provider_call_def split: prod.splits)

lemma revoked_id:
  assumes "queue_tx cf (\<lambda>now d. request_lease_revocation env now d i reason) s = (t, Inr m)"
  shows "lease_id m = i"
proof -
  obtain w now d where "request_lease_revocation env now (dp_queue s) i reason = Inr (d, m)"
    using queue_tx_result [OF assms] by metis
  from revoke_lease_effect [OF this] show ?thesis by (auto dest: find_lease_id)
qed

lemma bound_id:
  assumes "queue_tx cf (\<lambda>now d. bind_lease env now d i x w ttl) s = (t, Inr m)"
  shows "lease_id m = i"
proof -
  obtain v now d where "bind_lease env now (dp_queue s) i x w ttl = Inr (d, m)"
    using queue_tx_result [OF assms] by metis
  from bind_lease_effect [OF this] show ?thesis by (auto dest: find_lease_id)
qed

lemma lease_instance_id:
  assumes "lease_instance env cf cl m s = (t, Inr (Some (m', x)))"
  shows "lease_id m' = lease_id m"
  using assms
  by (auto simp: lease_instance_def and_then_Inr ret_def split: if_splits sum.splits prod.splits option.splits
      dest: bound_id) (metis sum.exhaust)

locale lease_guarantee = guarantee R
  for R :: "'w dispatcher \<Rightarrow> 'w dispatcher \<Rightarrow> bool" +
  fixes env :: pyenv and k :: string
  assumes world: "R s (s\<lparr>dp_world := w\<rparr>)"
    and called: "R s (s\<lparr>dp_world := w, dp_calls := dp_calls s @ [c]\<rparr>)"
    and forgot: "R s (forget_instance i s)"
    and restored: "R s (restore_lease_instance l x s)"
    and journaled: "append_event env now (dp_queue s) i ev (Some lease_control) None None = Inr (d, r1) \<Longrightarrow> R s (s\<lparr>dp_queue := d\<rparr>)"
    and updated: "update_status env now (dp_queue s) i FAILED err [] = Inr (d, r2) \<Longrightarrow> R s (s\<lparr>dp_queue := d\<rparr>)"
    and failed: "fail_job env now (dp_queue s) i e = Inr (d, r2) \<Longrightarrow> R s (s\<lparr>dp_queue := d\<rparr>)"
    and bound: "bind_lease env now (dp_queue s) k i None ttl = Inr (d, r3) \<Longrightarrow> R s (s\<lparr>dp_queue := d\<rparr>)"
    and revoked: "request_lease_revocation env now (dp_queue s) k e = Inr (d, r3) \<Longrightarrow> R s (s\<lparr>dp_queue := d\<rparr>)"
    and attempted: "record_termination_attempt env now (dp_queue s) k None = Inr (d, r3) \<Longrightarrow> R s (s\<lparr>dp_queue := d\<rparr>)"
    and confirmed: "confirm_lease_termination env now (dp_queue s) k st b = Inr (d, r3) \<Longrightarrow> R s (s\<lparr>dp_queue := d\<rparr>)"
    and unbound: "close_unbound_lease env now (dp_queue s) k e = Inr (d, r3) \<Longrightarrow> R s (s\<lparr>dp_queue := d\<rparr>)"
begin

lemma keeps_clock: "keeps R (utc_now cf)"
  by (rule keepsI) (simp add: utc_now_def world split: prod.splits)

lemma keeps_tx:
  assumes "\<And>now s d a. f now (dp_queue s) = Inr (d, a) \<Longrightarrow> R s (s\<lparr>dp_queue := d\<rparr>)"
  shows "keeps R (queue_tx cf f)"
proof (rule keepsI)
  fix s :: "'w dispatcher"
  obtain t r where q: "queue_tx cf f s = (t, r)" by fastforce
  show "R s (fst (queue_tx cf f s))"
  proof (cases r)
    case (Inl e)
    then obtain w where "t = s\<lparr>dp_world := w\<rparr>" using queue_tx_raised q by metis
    then show ?thesis using q world by simp
  next
    case (Inr a)
    obtain w now d where t: "f now (dp_queue s) = Inr (d, a)" "t = s\<lparr>dp_world := w, dp_queue := d\<rparr>"
      using queue_tx_result [OF q [unfolded Inr]] by metis
    have "R (s\<lparr>dp_world := w\<rparr>) (s\<lparr>dp_world := w, dp_queue := d\<rparr>)"
      using assms [of now "s\<lparr>dp_world := w\<rparr>" d a] t(1) by simp
    then show ?thesis using step_trans [OF world] t(2) q by simp
  qed
qed

lemma keeps_provider: "keeps R (provider_call c f)"
  by (rule keepsI) (simp add: provider_call_def called split: prod.splits)

lemma keeps_forget: "keeps R (modify (forget_instance i))"
  by (rule keeps_modify) (rule forgot)

lemma keeps_restore: "keeps R (modify (restore_lease_instance l x))"
  by (rule keeps_modify) (rule restored)

lemma keeps_jobs:
  assumes "\<And>i now s d r. g i now (dp_queue s) = Inr (d, r) \<Longrightarrow> R s (s\<lparr>dp_queue := d\<rparr>)"
  shows "keeps R (each_lease_job env cf l ev g)"
  unfolding each_lease_job_def
  by (intro keeps_rules keeps_tx) (auto intro: journaled assms)

lemma keeps_fail_jobs: "keeps R (fail_lease_jobs env cf l reason)"
  unfolding fail_lease_jobs_def by (rule keeps_jobs) (rule updated)

lemma keeps_lost: "keeps R (lost_lease env cf l)"
  unfolding lost_lease_def requeue_lost_lease_jobs_def by (intro keeps_rules keeps_jobs) (rule failed)

lemma keeps_confirm: "i = k \<Longrightarrow> keeps R (confirm_gone env cf i inst)"
  unfolding confirm_gone_def by (rule keeps_tx) (auto intro: confirmed)

lemma keeps_terminate: "lease_id l = k \<Longrightarrow> keeps R (terminate_lease env cf l)"
  unfolding terminate_lease_def terminate_resource_def terminate_instance_def get_instance_def
  by (intro keeps_rules keeps_tx keeps_provider keeps_forget)
     (auto intro: attempted keeps_confirm)

lemma keeps_recover: "lease_id l = k \<Longrightarrow> keeps R (recover_provisioning_lease env cf l)"
  unfolding recover_provisioning_lease_def list_instances_def
  by (intro keeps_rules keeps_tx keeps_provider) (auto intro: unbound)

lemma keeps_lease_instance: "lease_id l = k \<Longrightarrow> keeps R (lease_instance env cf cl l)"
  unfolding lease_instance_def get_instance_def
  by (intro keeps_rules keeps_tx keeps_provider keeps_recover) (auto intro: bound)

lemma keeps_end:
  assumes "lease_id l = k"
  shows "keeps R (end_lease env cf l reason)"
proof -
  have id: "lease_id m = k"
    if "queue_tx cf (\<lambda>now d. request_lease_revocation env now d (lease_id l) reason) s = (t, Inr m)" for s t m
    using revoked_id [OF that] assms by simp
  show ?thesis
    unfolding end_lease_def
    by (intro keeps_rules keeps_tx keeps_fail_jobs keeps_terminate) (auto simp: assms id intro: revoked)
qed

lemma keeps_control: "lease_id l = k \<Longrightarrow> keeps R (control_lease env cf now l inst)"
  unfolding control_lease_def
  by (intro keeps_rules keeps_lost keeps_forget keeps_restore keeps_end) (auto intro: keeps_confirm)

lemma keeps_reconcile:
  assumes "lease_id l = k"
  shows "keeps R (reconcile_lease env cf now l)"
proof -
  have current: "lease_id m = k"
    if "look (\<lambda>s. case find_lease (dp_queue s) (lease_id l) of None \<Rightarrow> l | Some m \<Rightarrow> m) s = (t, Inr m)" for s t m
    using that assms by (auto simp: look_def split: option.splits dest: find_lease_id)
  have inst: "lease_id m' = lease_id m"
    if "lease_instance env cf cl m s = (t, Inr (Some (m', x)))" for cl m s t m' x
    using that by (rule lease_instance_id)
  show ?thesis
    unfolding reconcile_lease_def
    by (intro keeps_rules keeps_lease_instance keeps_control) (auto simp: current inst)
qed

end

section \<open>A pass is a run of the queue\<close>

definition runs_queue :: "pyenv \<Rightarrow> 'w dispatcher \<Rightarrow> 'w dispatcher \<Rightarrow> bool" where
  "runs_queue env s t \<longleftrightarrow> (\<exists>ops. dp_queue t = run_steps (queue_step env) ops (dp_queue s))"

lemma runs_one: "d = queue_step env \<lparr>op_now = t, op_later = t, op_call = c\<rparr> (dp_queue s) \<Longrightarrow> runs_queue env s (s\<lparr>dp_queue := d\<rparr>)"
  unfolding runs_queue_def by (rule exI [of _ "[\<lparr>op_now = t, op_later = t, op_call = c\<rparr>]"]) simp

lemma runs_same: "dp_queue t = dp_queue s \<Longrightarrow> runs_queue env s t"
  unfolding runs_queue_def by (rule exI [of _ "[]"]) simp

lemma same_queue [simp]:
  "dp_queue (forget_instance i s) = dp_queue s" "dp_queue (restore_lease_instance l x s) = dp_queue s"
  "dp_calls (forget_instance i s) = dp_calls s" "dp_calls (restore_lease_instance l x s) = dp_calls s"
  by (simp_all add: forget_instance_def restore_lease_instance_def Let_def)

interpretation queue_run: lease_guarantee "runs_queue env" env k for env k
proof unfold_locales
  fix s t u :: "'w dispatcher"
  assume "runs_queue env s t" "runs_queue env t u"
  then show "runs_queue env s u" unfolding runs_queue_def by (metis run_steps_append)
next
  fix now and s :: "'w dispatcher" and i ev d r1
  assume "append_event env now (dp_queue s) i ev (Some lease_control) None None = Inr (d, r1)"
  then show "runs_queue env s (s\<lparr>dp_queue := d\<rparr>)"
    by (intro runs_one [where c = "Append_Event i ev (Some lease_control) None None" and t = now]) simp
next
  fix now and s :: "'w dispatcher" and i err d r2
  assume "update_status env now (dp_queue s) i FAILED err [] = Inr (d, r2)"
  then show "runs_queue env s (s\<lparr>dp_queue := d\<rparr>)"
    by (intro runs_one [where c = "Update_Status i FAILED err []" and t = now]) simp
next
  fix now and s :: "'w dispatcher" and i e d r2
  assume "fail_job env now (dp_queue s) i e = Inr (d, r2)"
  then show "runs_queue env s (s\<lparr>dp_queue := d\<rparr>)"
    by (intro runs_one [where c = "Fail_Job i e" and t = now]) simp
next
  fix now and s :: "'w dispatcher" and i ttl d r3
  assume "bind_lease env now (dp_queue s) k i None ttl = Inr (d, r3)"
  then show "runs_queue env s (s\<lparr>dp_queue := d\<rparr>)"
    by (intro runs_one [where c = "Bind_Lease k i None ttl" and t = now]) simp
next
  fix now and s :: "'w dispatcher" and e d r3
  assume "request_lease_revocation env now (dp_queue s) k e = Inr (d, r3)"
  then show "runs_queue env s (s\<lparr>dp_queue := d\<rparr>)"
    by (intro runs_one [where c = "Revoke_Lease k e" and t = now]) simp
next
  fix now and s :: "'w dispatcher" and d r3
  assume "record_termination_attempt env now (dp_queue s) k None = Inr (d, r3)"
  then show "runs_queue env s (s\<lparr>dp_queue := d\<rparr>)"
    by (intro runs_one [where c = "Attempt_Termination k None" and t = now]) simp
next
  fix now and s :: "'w dispatcher" and st b d r3
  assume "confirm_lease_termination env now (dp_queue s) k st b = Inr (d, r3)"
  then show "runs_queue env s (s\<lparr>dp_queue := d\<rparr>)"
    by (intro runs_one [where c = "Confirm_Termination k st b" and t = now]) simp
next
  fix now and s :: "'w dispatcher" and e d r3
  assume "close_unbound_lease env now (dp_queue s) k e = Inr (d, r3)"
  then show "runs_queue env s (s\<lparr>dp_queue := d\<rparr>)"
    by (intro runs_one [where c = "Close_Unbound k e" and t = now]) simp
qed (simp_all add: runs_same)

section \<open>Calls are only added\<close>

definition more_calls :: "'w dispatcher \<Rightarrow> 'w dispatcher \<Rightarrow> bool" where
  "more_calls s t \<longleftrightarrow> (\<exists>cs. dp_calls t = dp_calls s @ cs)"

interpretation calls: lease_guarantee more_calls env k for env k
  by unfold_locales (auto simp: more_calls_def)

section \<open>Other leases are left alone\<close>

definition leaves_others :: "string \<Rightarrow> 'w dispatcher \<Rightarrow> 'w dispatcher \<Rightarrow> bool" where
  "leaves_others k s t \<longleftrightarrow> (\<forall>i. i \<noteq> k \<longrightarrow> find_lease (dp_queue t) i = find_lease (dp_queue s) i)"

lemma leaves_same: "leases d = leases (dp_queue s) \<Longrightarrow> leaves_others k s (s\<lparr>dp_queue := d\<rparr>)"
  by (simp add: leaves_others_def find_lease_def)

lemma leaves_update:
  assumes "d = dp_queue s \<or> lease_update (dp_queue s) k f d" and "\<And>l. lease_id (f l) = lease_id l"
  shows "leaves_others k s (s\<lparr>dp_queue := d\<rparr>)"
  using assms
  by (auto simp: leaves_others_def lease_update_def quiet_tables update_lease_find)

interpretation others: lease_guarantee "leaves_others k" env k for env k
proof unfold_locales
  fix now and s :: "'w dispatcher" and i ev d r1
  assume "append_event env now (dp_queue s) i ev (Some lease_control) None None = Inr (d, r1)"
  then show "leaves_others k s (s\<lparr>dp_queue := d\<rparr>)"
    by (intro leaves_same) (auto simp: append_event_def split: if_splits sum.splits dest: append_quiet quiet_tables(2))
next
  fix now and s :: "'w dispatcher" and i err d r2
  assume "update_status env now (dp_queue s) i FAILED err [] = Inr (d, r2)"
  from update_status_effect [OF this] show "leaves_others k s (s\<lparr>dp_queue := d\<rparr>)"
    by (intro leaves_same) (auto simp: job_change_def others_same_def)
next
  fix now and s :: "'w dispatcher" and i e d r2
  assume "fail_job env now (dp_queue s) i e = Inr (d, r2)"
  from fail_job_effect [OF this] show "leaves_others k s (s\<lparr>dp_queue := d\<rparr>)"
    by (intro leaves_same) (auto simp: job_change_def others_same_def)
next
  fix now and s :: "'w dispatcher" and i ttl d r3
  assume "bind_lease env now (dp_queue s) k i None ttl = Inr (d, r3)"
  from bind_lease_effect [OF this] show "leaves_others k s (s\<lparr>dp_queue := d\<rparr>)"
    by (auto intro: leaves_update)
next
  fix now and s :: "'w dispatcher" and e d r3
  assume "request_lease_revocation env now (dp_queue s) k e = Inr (d, r3)"
  from revoke_lease_effect [OF this] show "leaves_others k s (s\<lparr>dp_queue := d\<rparr>)"
    by (auto intro: leaves_update)
next
  fix now and s :: "'w dispatcher" and d r3
  assume "record_termination_attempt env now (dp_queue s) k None = Inr (d, r3)"
  from attempt_effect [OF this] show "leaves_others k s (s\<lparr>dp_queue := d\<rparr>)"
    by (auto intro: leaves_update)
next
  fix now and s :: "'w dispatcher" and st b d r3
  assume "confirm_lease_termination env now (dp_queue s) k st b = Inr (d, r3)"
  from confirm_effect [OF this] show "leaves_others k s (s\<lparr>dp_queue := d\<rparr>)"
    by (auto intro: leaves_update)
next
  fix now and s :: "'w dispatcher" and e d r3
  assume "close_unbound_lease env now (dp_queue s) k e = Inr (d, r3)"
  from close_unbound_effect [OF this] show "leaves_others k s (s\<lparr>dp_queue := d\<rparr>)"
    by (auto intro: leaves_update)
qed (auto simp: leaves_others_def)

lemma reconcile_runs: "keeps (runs_queue env) (reconcile_leases env cf)"
  unfolding reconcile_leases_def
  by (intro queue_run.keeps_rules queue_run.keeps_clock) (rule queue_run.keeps_reconcile, simp)

lemma reconcile_calls: "keeps more_calls (reconcile_leases env cf)"
  unfolding reconcile_leases_def
  by (intro calls.keeps_rules calls.keeps_clock) (rule calls.keeps_reconcile, simp)

end
