(* ===== verification/ControlWatch.thy ===== *)
theory ControlWatch
  imports ControlLaws
begin

text \<open>
  What closes a lease. The row of one lease is watched through a pass of the lease control: every
  call moves it forward, and the two calls that close it come after the provider said that
  nothing of it is alive.
\<close>

section \<open>Evidence\<close>

fun proves_gone :: "pyenv \<Rightarrow> lease \<Rightarrow> provider_call \<Rightarrow> bool" where
  \<comment> \<open>the provider of the lease answered that it holds no live resource of it\<close>
  "proves_gone env l (Got_Instance p i (Inr x)) \<longleftrightarrow>
     p = lease_provider l \<and> i \<noteq> [] \<and> lease_instance_id l = Some i \<and> gone x"
| "proves_gone env l (Listed_Instances p (Inr xs)) \<longleftrightarrow>
     p = lease_provider l \<and> gone (find (\<lambda>x. instance_resource_name env x = lease_resource_name l) xs)"
| "proves_gone env l c \<longleftrightarrow> False"

lemma proves_forward:
  assumes "proves_gone env l c" and "forward l m"
  shows "proves_gone env m c"
  using assms
  by (cases "(env, l, c)" rule: proves_gone.cases) (auto simp: forward_def lease_terms_def)

definition evident :: "pyenv \<Rightarrow> lease \<Rightarrow> nat \<Rightarrow> 'w dispatcher \<Rightarrow> bool" where
  "evident env l n s \<longleftrightarrow> (\<exists>c \<in> set (drop n (dp_calls s)). proves_gone env l c)"

lemma evident_forward: "evident env l n s \<Longrightarrow> forward l m \<Longrightarrow> evident env m n s"
  unfolding evident_def using proves_forward by blast

lemma evident_earlier: "evident env l n s \<Longrightarrow> k \<le> n \<Longrightarrow> evident env l k s"
  unfolding evident_def using set_drop_subset_set_drop [of k n "dp_calls s"] by blast

definition watched :: "pyenv \<Rightarrow> lease \<Rightarrow> nat \<Rightarrow> 'w dispatcher \<Rightarrow> bool" where
  \<comment> \<open>the row of \<open>l\<close> moved forward, and if it is closed the calls since the \<open>n\<close>th are evidence\<close>
  "watched env l n s \<longleftrightarrow>
     n \<le> length (dp_calls s) \<and>
     (\<exists>m. find_lease (dp_queue s) (lease_id l) = Some m \<and> forward l m \<and> lease_instance_id m = lease_instance_id l \<and>
          (lease_status m = Closed \<longrightarrow> evident env m n s))"

lemma watched_more:
  assumes "watched env l n s" and "dp_queue t = dp_queue s" and "more_calls s t"
  shows "watched env l n t"
  using assms by (auto simp: watched_def evident_def more_calls_def)

lemma evident_more: "evident env l n s \<Longrightarrow> more_calls s t \<Longrightarrow> evident env l n t"
  by (auto simp: evident_def more_calls_def)

text \<open>What a step leaves of both; every call but the two that close a lease respects it.\<close>

definition keeps_watch :: "pyenv \<Rightarrow> lease \<Rightarrow> nat \<Rightarrow> 'w dispatcher \<Rightarrow> 'w dispatcher \<Rightarrow> bool" where
  "keeps_watch env l n s t \<longleftrightarrow>
     (watched env l n s \<longrightarrow> watched env l n t \<and> (evident env l n s \<longrightarrow> evident env l n t))"

interpretation watch: guarantee "keeps_watch env l n" for env l n
  by unfold_locales (auto simp: keeps_watch_def)

lemma watch_quiet: "dp_queue t = dp_queue s \<Longrightarrow> more_calls s t \<Longrightarrow> keeps_watch env l n s t"
  by (auto simp: keeps_watch_def intro: watched_more evident_more)

lemma watch_queue:
  assumes "find_lease d (lease_id l) = find_lease (dp_queue s) (lease_id l) \<or>
     (\<exists>g. find_lease d (lease_id l) = map_option g (find_lease (dp_queue s) (lease_id l)) \<and>
        (\<forall>m. find_lease (dp_queue s) (lease_id l) = Some m \<longrightarrow> lease_edge m (g m) \<and> lease_instance_id (g m) = lease_instance_id m \<and> lease_status (g m) \<noteq> Closed))"
  shows "keeps_watch env l n s (s\<lparr>dp_queue := d\<rparr>)"
  using assms
  by (auto simp: keeps_watch_def watched_def evident_def intro: forward_trans [OF _ edge_forward])

lemma watch_tx:
  fixes cf :: "'w control"
  assumes "\<And>now (s :: 'w dispatcher) d a.
             f now (dp_queue s) = Inr (d, a) \<Longrightarrow> keeps_watch env l n s (s\<lparr>dp_queue := d\<rparr>)"
  shows "keeps (keeps_watch env l n) (queue_tx cf f)"
proof (rule keepsI)
  fix s :: "'w dispatcher"
  obtain t r where q: "queue_tx cf f s = (t, r)" by fastforce
  show "keeps_watch env l n s (fst (queue_tx cf f s))"
  proof (cases r)
    case (Inl e)
    then obtain w where "t = s\<lparr>dp_world := w\<rparr>" using queue_tx_raised q by metis
    then show ?thesis using q watch_quiet [of t s] by (simp add: more_calls_def)
  next
    case (Inr a)
    obtain w now d where t: "f now (dp_queue s) = Inr (d, a)" "t = s\<lparr>dp_world := w, dp_queue := d\<rparr>"
      using queue_tx_result [OF q [unfolded Inr]] by metis
    have "keeps_watch env l n s (s\<lparr>dp_world := w\<rparr>)" by (rule watch_quiet) (simp_all add: more_calls_def)
    moreover have "keeps_watch env l n (s\<lparr>dp_world := w\<rparr>) t"
      using assms [of now "s\<lparr>dp_world := w\<rparr>" d a] t by simp
    ultimately show ?thesis using watch.step_trans q by fastforce
  qed
qed

lemma watch_provider: "keeps (keeps_watch env l n) (provider_call c f)"
  by (rule keepsI) (auto simp: provider_call_def more_calls_def intro!: watch_quiet split: prod.splits)

lemma watch_leases: "leases d = leases (dp_queue s) \<Longrightarrow> keeps_watch env l n s (s\<lparr>dp_queue := d\<rparr>)"
  by (rule watch_queue) (simp add: find_lease_def)

lemma journal_leases: "append_event env now d i ev p q oc = Inr (d', r) \<Longrightarrow> leases d' = leases d"
  by (auto simp: append_event_def split: if_splits sum.splits dest: append_quiet quiet_tables(2))

lemma watch_jobs:
  fixes cf :: "'w control"
  assumes "\<And>i now d e r. g i now d = Inr (e, r) \<Longrightarrow> leases e = leases d"
  shows "keeps (keeps_watch env l n) (each_lease_job env cf m ev g)"
  unfolding each_lease_job_def
  by (intro watch.keeps_rules watch_tx watch_leases) (rule journal_leases, assumption, rule assms)

lemma watch_fail: "keeps (keeps_watch env l n) (fail_lease_jobs env cf m reason)"
  unfolding fail_lease_jobs_def
  by (rule watch_jobs) (auto dest!: update_status_effect simp: job_change_def others_same_def)

lemma watch_lost: "keeps (keeps_watch env l n) (lost_lease env cf m)"
  unfolding lost_lease_def requeue_lost_lease_jobs_def
  by (intro watch.keeps_rules watch_jobs) (auto dest!: fail_job_effect simp: job_change_def others_same_def)

lemma watch_local: "dp_queue (f s) = dp_queue s \<Longrightarrow> dp_calls (f s) = dp_calls s \<Longrightarrow> keeps_watch env l n s (f s)"
  by (rule watch_quiet) (simp_all add: more_calls_def)

lemma update_find: "lease_update d k g d' \<Longrightarrow> (\<And>m. lease_id (g m) = lease_id m) \<Longrightarrow>
    find_lease d' k = map_option g (find_lease d k)"
  by (simp add: lease_update_def quiet_tables update_lease_find)

lemma row_facts:
  "lease_status (attempt_row e now m) = Terminating" "lease_status (revoke_row r now m) = Revocation_Requested"
  "lease_status (confirm_row now m) = Closed" "lease_status (unbound_row r now m) = Closed"
  "lease_instance_id (attempt_row e now m) = lease_instance_id m" "lease_instance_id (revoke_row r now m) = lease_instance_id m"
  "lease_instance_id (confirm_row now m) = lease_instance_id m" "lease_instance_id (unbound_row r now m) = lease_instance_id m"
  by (simp_all add: lease_rows)

lemma watch_attempt:
  "keeps (keeps_watch env l n) (queue_tx cf (\<lambda>now d. record_termination_attempt env now d (lease_id l) err))"
proof (intro watch_tx watch_queue)
  fix now and s :: "'w dispatcher" and d a
  assume "record_termination_attempt env now (dp_queue s) (lease_id l) err = Inr (d, a)"
  from attempt_effect [OF this]
  show "find_lease d (lease_id l) = find_lease (dp_queue s) (lease_id l) \<or>
     (\<exists>g. find_lease d (lease_id l) = map_option g (find_lease (dp_queue s) (lease_id l)) \<and>
        (\<forall>m. find_lease (dp_queue s) (lease_id l) = Some m \<longrightarrow> lease_edge m (g m) \<and> lease_instance_id (g m) = lease_instance_id m \<and> lease_status (g m) \<noteq> Closed))"
    by (elim exE conjE disjE, blast)
       (rule disjI2, rule exI, rule conjI, rule update_find, assumption, auto intro: lease_edge.attempted simp: row_facts)
qed

lemma watch_revoke:
  "keeps (keeps_watch env l n) (queue_tx cf (\<lambda>now d. request_lease_revocation env now d (lease_id l) reason))"
proof (intro watch_tx watch_queue)
  fix now and s :: "'w dispatcher" and d a
  assume "request_lease_revocation env now (dp_queue s) (lease_id l) reason = Inr (d, a)"
  from revoke_lease_effect [OF this]
  show "find_lease d (lease_id l) = find_lease (dp_queue s) (lease_id l) \<or>
     (\<exists>g. find_lease d (lease_id l) = map_option g (find_lease (dp_queue s) (lease_id l)) \<and>
        (\<forall>m. find_lease (dp_queue s) (lease_id l) = Some m \<longrightarrow> lease_edge m (g m) \<and> lease_instance_id (g m) = lease_instance_id m \<and> lease_status (g m) \<noteq> Closed))"
    by (elim exE conjE disjE, blast)
       (rule disjI2, rule exI, rule conjI, rule update_find, assumption, auto intro: lease_edge.revoked simp: row_facts)
qed

section \<open>Closing on evidence\<close>

lemma watch_hoare:
  "keeps (keeps_watch env l n) m \<Longrightarrow> hoare (watched env l n) P m (\<lambda>a s. True)"
  by (rule hoare_keeps [where R = "keeps_watch env l n"]) (auto simp: keeps_watch_def)

lemma watch_hoare_evident:
  "keeps (keeps_watch env l n) m \<Longrightarrow> hoare (watched env l n) (\<lambda>s. b \<longrightarrow> evident env l n s) m (\<lambda>a s. b \<longrightarrow> evident env l n s)"
  by (rule hoare_keeps [where R = "keeps_watch env l n"]) (auto simp: keeps_watch_def)

lemma closing_tx:
  fixes cf :: "'w control"
  assumes "\<And>now d e a. f now d = Inr (e, a) \<Longrightarrow> find_lease e (lease_id l) = find_lease d (lease_id l) \<or>
     (\<exists>g. find_lease e (lease_id l) = map_option g (find_lease d (lease_id l)) \<and>
        (\<forall>m. find_lease d (lease_id l) = Some m \<longrightarrow> lease_edge m (g m) \<and> lease_instance_id (g m) = lease_instance_id m))"
  shows "hoare (watched env l n) (evident env l n) (queue_tx cf f) (\<lambda>a s. True)"
proof (rule hoareI)
  fix s t :: "'w dispatcher" and r
  assume s: "watched env l n s" "evident env l n s" and q: "queue_tx cf f s = (t, r)"
  show "watched env l n t \<and> (\<forall>a. r = Inr a \<longrightarrow> True)"
  proof (cases r)
    case (Inl e)
    then obtain w where "t = s\<lparr>dp_world := w\<rparr>" using queue_tx_raised q by metis
    then show ?thesis using s(1) watched_more [of env l n s t] by (simp add: more_calls_def)
  next
    case (Inr a)
    obtain w now d where t: "f now (dp_queue s) = Inr (d, a)" "t = s\<lparr>dp_world := w, dp_queue := d\<rparr>"
      using queue_tx_result [OF q [unfolded Inr]] by metis
    obtain m where m: "find_lease (dp_queue s) (lease_id l) = Some m" "forward l m" "lease_instance_id m = lease_instance_id l" using s(1) by (auto simp: watched_def)
    obtain m' where m': "find_lease d (lease_id l) = Some m'" "forward m m'" "lease_instance_id m' = lease_instance_id l"
      using assms [OF t(1)] m(1,3) by (auto intro: edge_forward)
    have "forward l m'" by (rule forward_trans [OF m(2) m'(2)])
    moreover from this have "evident env m' n t" using evident_forward [OF s(2)] t(2) by (simp add: evident_def)
    ultimately show ?thesis using m'(1,3) s(1) t(2) by (simp add: watched_def)
  qed
qed

lemma confirm_watched:
  "hoare (watched env l n) (evident env l n) (confirm_gone env cf (lease_id l) inst) (\<lambda>a s. True)"
  unfolding confirm_gone_def
proof (rule closing_tx)
  fix now d e a st b
  assume "confirm_lease_termination env now d (lease_id l) st b = Inr (e, a)"
  from confirm_effect [OF this]
  show "find_lease e (lease_id l) = find_lease d (lease_id l) \<or>
     (\<exists>g. find_lease e (lease_id l) = map_option g (find_lease d (lease_id l)) \<and>
        (\<forall>m. find_lease d (lease_id l) = Some m \<longrightarrow> lease_edge m (g m) \<and> lease_instance_id (g m) = lease_instance_id m))"
    by (elim exE conjE disjE, blast)
       (rule disjI2, rule exI, rule conjI, rule update_find, assumption, auto intro: lease_edge.confirmed simp: row_facts)
qed

lemma unbound_watched:
  "hoare (watched env l n) (evident env l n)
     (queue_tx cf (\<lambda>now d. close_unbound_lease env now d (lease_id l) reason)) (\<lambda>a s. True)"
proof (rule closing_tx)
  fix now d e a
  assume "close_unbound_lease env now d (lease_id l) reason = Inr (e, a)"
  from close_unbound_effect [OF this]
  show "find_lease e (lease_id l) = find_lease d (lease_id l) \<or>
     (\<exists>g. find_lease e (lease_id l) = map_option g (find_lease d (lease_id l)) \<and>
        (\<forall>m. find_lease d (lease_id l) = Some m \<longrightarrow> lease_edge m (g m) \<and> lease_instance_id (g m) = lease_instance_id m))"
    by (elim exE conjE)
       (rule disjI2, rule exI, rule conjI, rule update_find, assumption, auto intro: lease_edge.unbound simp: row_facts)
qed

lemma asked_evident:
  assumes "provider_call c f s = (t, Inr r)" and "n \<le> length (dp_calls s)" and "proves_gone env l (c (Inr r))"
  shows "evident env l n t"
  by (rule provider_call_result [OF assms(1)]) (use assms(2,3) in \<open>auto simp: evident_def\<close>)

lemma asked_instance:
  assumes "given (lease_instance_id l)"
  shows "hoare (watched env l n) (\<lambda>s. True)
    (attempt (get_instance (lease_provider l) cl (or_default [] (lease_instance_id l))))
    (\<lambda>r s. (\<exists>x. r = Inr x \<and> gone x) \<longrightarrow> evident env l n s)"
proof (rule hoare_attempt)
  obtain i where i: "lease_instance_id l = Some i" "i \<noteq> []" using assms by (auto simp: given_def split: option.splits)
  show "hoare (watched env l n) (\<lambda>s. True) (get_instance (lease_provider l) cl (or_default [] (lease_instance_id l)))
    (\<lambda>a s. (\<exists>x. Inr a = Inr x \<and> gone x) \<longrightarrow> evident env l n s)"
  proof (rule hoareI)
    fix s t :: "'a dispatcher" and r
    assume s: "watched env l n s"
      and q: "get_instance (lease_provider l) cl (or_default [] (lease_instance_id l)) s = (t, r)"
    have "watched env l n t"
      using hoareD(1) [OF watch_hoare [OF watch_provider] s TrueI q [unfolded get_instance_def]] .
    moreover have "evident env l n t" if "r = Inr x" "gone x" for x
      by (rule asked_evident [OF q [unfolded get_instance_def that(1)]])
        (use s that(2) i in \<open>auto simp: watched_def or_default_def\<close>)
    ultimately show "watched env l n t \<and>
       (\<forall>a. r = Inr a \<longrightarrow> ((\<exists>x. Inr a = Inr x \<and> gone x) \<longrightarrow> evident env l n t))"
      by (metis sum.inject(2))
  qed
qed simp

lemma terminate_watched:
  assumes "lease_provider m = lease_provider l" "lease_instance_id m = lease_instance_id l" "lease_id m = lease_id l"
  shows "hoare (watched env l n) (\<lambda>s. True) (terminate_lease env cf m) (\<lambda>a s. True)"
proof (cases "\<not> given (lease_instance_id l) \<or> connector_of cf (lease_provider l) = None")
  case True
  then show ?thesis by (auto simp: terminate_lease_def assms intro: hoare_ret)
next
  case False
  then obtain cl where cl: "given (lease_instance_id l)" "connector_of cf (lease_provider l) = Some cl" by auto
  have forget: "hoare (watched env l n) (\<lambda>s. True) (modify (forget_instance i)) (\<lambda>a s. True)" for i
    by (rule watch_hoare) (rule watch.keeps_modify, rule watch_local, simp_all)
  have close: "hoare (watched env l n) (\<lambda>s. gone inst \<longrightarrow> evident env l n s)
      (if gone inst then and_then (confirm_gone env cf (lease_id l) inst) (\<lambda>u. modify (forget_instance i)) else ret ())
      (\<lambda>a s. True)" for inst i
    using confirm_watched forget by (auto intro!: hoare_ret hoare_then)
  have answered: "hoare (watched env l n) (\<lambda>s. (\<exists>x. r = Inr x \<and> gone x) \<longrightarrow> evident env l n s)
      (case r of Inl e \<Rightarrow> ret ()
       | Inr inst \<Rightarrow> if gone inst then and_then (confirm_gone env cf (lease_id l) inst) (\<lambda>u. modify (forget_instance i))
                     else ret ()) (\<lambda>a s. True)" for r :: "pyerr + cloud_instance option" and i
  proof (cases r)
    case (Inl e)
    then show ?thesis by (simp add: hoare_ret)
  next
    case (Inr b)
    show ?thesis unfolding Inr sum.case by (rule hoare_weaken [OF close]) auto
  qed
  have "hoare (watched env l n) (\<lambda>s. True)
    (terminate_resource env cf cl (lease_provider l) (or_default [] (lease_instance_id l)) (lease_id l)) (\<lambda>a s. True)"
    unfolding terminate_resource_def
    apply (rule hoare_then [OF watch_hoare [OF watch_attempt]])
    apply (rule hoare_then [where M = "\<lambda>a s. True"])
    apply (rule watch_hoare, rule watch.keeps_attempt, unfold terminate_instance_def, rule watch_provider)
    apply (rule hoare_then [OF asked_instance [OF cl(1)]])
    apply (rule answered)
    done
  then show ?thesis by (simp add: terminate_lease_def assms cl)
qed

lemma revoked_watched:
  "hoare (watched env l n) (\<lambda>s. True)
     (queue_tx cf (\<lambda>now d. request_lease_revocation env now d (lease_id l) reason))
     (\<lambda>m s. lease_provider m = lease_provider l \<and> lease_instance_id m = lease_instance_id l \<and> lease_id m = lease_id l)"
proof (rule hoareI)
  let ?tx = "queue_tx cf (\<lambda>now d. request_lease_revocation env now d (lease_id l) reason)"
  fix s t and r
  assume s: "watched env l n s" and q: "?tx s = (t, r)"
  have "lease_provider a = lease_provider l \<and> lease_instance_id a = lease_instance_id l \<and> lease_id a = lease_id l"
    if r: "r = Inr a" for a
  proof -
    obtain w now d where "request_lease_revocation env now (dp_queue s) (lease_id l) reason = Inr (d, a)"
      using queue_tx_result [OF q [unfolded r]] by metis
    from revoke_lease_effect [OF this] s show ?thesis
      by (auto simp: watched_def revoke_row_def dest: forward_id)
  qed
  then show "watched env l n t \<and> (\<forall>a. r = Inr a \<longrightarrow>
      lease_provider a = lease_provider l \<and> lease_instance_id a = lease_instance_id l \<and> lease_id a = lease_id l)"
    using hoareD(1) [OF watch_hoare [OF watch_revoke] s TrueI q] by blast
qed

lemma end_watched: "hoare (watched env l n) (\<lambda>s. True) (end_lease env cf l reason) (\<lambda>a s. True)"
proof (cases "closing (lease_status l)")
  case True
  then show ?thesis by (simp add: end_lease_def terminate_watched)
next
  case False
  have "hoare (watched env l n) (\<lambda>s. lease_provider m = lease_provider l \<and> lease_instance_id m = lease_instance_id l \<and>
        lease_id m = lease_id l) (and_then (fail_lease_jobs env cf m reason) (\<lambda>u. terminate_lease env cf m)) (\<lambda>a s. True)"
    for m
  proof (cases "lease_provider m = lease_provider l \<and> lease_instance_id m = lease_instance_id l \<and> lease_id m = lease_id l")
    case True
    then show ?thesis by (auto intro!: hoare_then [OF watch_hoare [OF watch_fail]] terminate_watched)
  qed (auto simp: hoare_def)
  then show ?thesis unfolding end_lease_def using False by (auto intro!: hoare_then [OF revoked_watched])
qed

lemma control_watched:
  "hoare (watched env l n) (\<lambda>s. gone inst \<longrightarrow> evident env l n s) (control_lease env cf now l inst) (\<lambda>a s. True)"
proof (cases "gone inst")
  case True
  have "hoare (watched env l n) (\<lambda>s. True) (if given (lease_instance_id l)
      then modify (forget_instance (or_default [] (lease_instance_id l))) else ret ()) (\<lambda>a s. True)"
    by (rule watch_hoare, intro watch.keeps_rules watch.keeps_modify watch_local) simp_all
  then have "hoare (watched env l n) (\<lambda>s. gone inst \<longrightarrow> evident env l n s)
      (and_then (lost_lease env cf l) (\<lambda>u. and_then (confirm_gone env cf (lease_id l) inst) (\<lambda>c.
        if given (lease_instance_id l)
        then modify (forget_instance (or_default [] (lease_instance_id l))) else ret ()))) (\<lambda>a s. True)"
    using True confirm_watched
    by (intro hoare_then [OF watch_hoare_evident [OF watch_lost]] hoare_then [where M = "\<lambda>a s. True"]) simp_all
  then show ?thesis using True by (simp add: control_lease_def)
next
  case False
  then obtain x where x: "inst = Some x" by (auto simp: gone_def split: option.splits)
  have restore: "hoare (watched env l n) (\<lambda>s. True) (modify (restore_lease_instance l x)) (\<lambda>a s. True)"
    by (rule watch_hoare, rule watch.keeps_modify, rule watch_local) simp_all
  have "hoare (watched env l n) (\<lambda>s. True) (case end_reason now l x of None \<Rightarrow> ret () | Some r \<Rightarrow> end_lease env cf l r)
      (\<lambda>a s. True)"
    by (cases "end_reason now l x") (simp_all add: hoare_ret end_watched)
  from hoare_then [OF restore this] show ?thesis using False x by (simp add: control_lease_def)
qed

text \<open>The lease in hand and its instance: found by its id, or by the name chosen before the rental.\<close>

lemma and_then_cases:
  assumes "and_then m f s = (t, r)"
  obtains (raised) e where "m s = (t, Inl e)" "r = Inl e"
  | (went) a u where "m s = (u, Inr a)" "f a u = (t, r)"
  using assms by (auto simp: and_then_def split: prod.splits sum.splits)

lemma given_instance_watched:
  assumes "lease_instance env cf cl l s = (t, r)" and "given (lease_instance_id l)" and "watched env l n s"
  shows "watched env l n t \<and> (\<forall>m x. r = Inr (Some (m, x)) \<longrightarrow> m = l \<and> (gone x \<longrightarrow> evident env l n t))"
proof -
  from assms(1,2) have q: "and_then (attempt (get_instance (lease_provider l) cl (or_default [] (lease_instance_id l))))
      (\<lambda>r. ret (case r of Inl e \<Rightarrow> None | Inr inst \<Rightarrow> Some (l, inst))) s = (t, r)"
    by (simp add: lease_instance_def)
  from q show ?thesis
  proof (cases rule: and_then_cases)
    case (raised e)
    then show ?thesis by (auto simp: attempt_def split: prod.splits)
  next
    case (went a u)
    note w = hoareD [OF asked_instance [OF assms(2)] assms(3) TrueI went(1)]
    have "t = u" "r = Inr (case a of Inl e \<Rightarrow> None | Inr inst \<Rightarrow> Some (l, inst))" using went(2) by (simp_all add: ret_def)
    then show ?thesis using w by (auto split: sum.splits)
  qed
qed

lemma bind_watched:
  assumes "queue_tx cf (\<lambda>now d. bind_lease env now d (lease_id l) i None ttl) s = (t, r)"
    and "find_lease (dp_queue s) (lease_id l) = Some l" and "watched env l n s"
  shows "(\<forall>e. r = Inl e \<longrightarrow> watched env l n t) \<and> (\<forall>m. r = Inr m \<longrightarrow> watched env m n t \<and> forward l m)"
proof (cases r)
  case (Inl e)
  then obtain w where "t = s\<lparr>dp_world := w\<rparr>" using queue_tx_raised assms(1) by metis
  then show ?thesis using Inl assms(3) watched_more [of env l n s t] by (simp add: more_calls_def)
next
  case (Inr m)
  obtain w now d where t: "bind_lease env now (dp_queue s) (lease_id l) i None ttl = Inr (d, m)"
    "t = s\<lparr>dp_world := w, dp_queue := d\<rparr>"
    using queue_tx_result [OF assms(1) [unfolded Inr]] by metis
  from bind_lease_effect [OF t(1)] assms(2)
  consider "d = dp_queue s" "m = l"
    | (bound) "lease_status l \<in> {Provisioning, Active}" "m = bind_row i None ttl now l"
      "given (lease_instance_id l) \<longrightarrow> lease_instance_id l = Some i"
      "lease_update (dp_queue s) (lease_id l) (bind_row i None ttl now) d" by auto
  then show ?thesis
  proof cases
    case 1
    then show ?thesis using Inr t(2) assms(3) watched_more [of env l n s t] by (simp add: more_calls_def)
  next
    case bound
    have f: "forward l m" using bound(1-3) by (auto intro!: edge_forward lease_edge.bound)
    have "lease_id m = lease_id l" "lease_status m = Active" using bound(2) by (simp_all add: bind_row_def)
    moreover from this(1) have "find_lease d (lease_id m) = Some m"
      using update_find [OF bound(4)] assms(2) bound(2) by simp
    ultimately show ?thesis using f Inr t(2) assms(3) by (simp add: watched_def)
  qed
qed

lemma found_instance_watched:
  assumes "lease_instance env cf cl l s = (t, r)" and "\<not> given (lease_instance_id l)" and "watched env l n s"
    and "find_lease (dp_queue s) (lease_id l) = Some l" "connector_of cf (lease_provider l) = Some cl"
  shows "(\<forall>m x. r = Inr (Some (m, x)) \<longrightarrow> watched env m n t \<and> lease_id m = lease_id l \<and> (gone x \<longrightarrow> evident env m n t)) \<and>
     ((\<nexists>m x. r = Inr (Some (m, x))) \<longrightarrow> watched env l n t)"
proof -
  let ?p = "lease_provider l" let ?named = "\<lambda>x. instance_resource_name env x = lease_resource_name l"
  let ?bind = "\<lambda>x. queue_tx cf (\<lambda>now d. bind_lease env now d (lease_id l) (ci_id x) None (runner_registration_ttl cf))"
  obtain u a where a: "list_instances ?p cl s = (u, a)" by fastforce
  have u: "watched env l n u"
    using hoareD(1) [OF watch_hoare [OF watch_provider] assms(3) TrueI a [unfolded list_instances_def]] .
  have c: "dp_queue u = dp_queue s" "dp_calls u = dp_calls s @ [Listed_Instances ?p a]"
    by (rule provider_call_result [OF a [unfolded list_instances_def]], simp)+
  have told: "evident env m n u" if "a = Inr xs" "gone (find ?named xs)" "forward l m" for xs m
    using that c(2) assms(3) by (auto simp: evident_def watched_def forward_def lease_terms_def)
  consider (failed) "\<exists>e. a = Inl e" "r = Inr None" "t = u"
    | (found) xs x where "a = Inr xs" "find ?named xs = Some x"
        "and_then (?bind x) (\<lambda>l'. ret (Some (l', Some x))) u = (t, r)"
    | (none) xs where "a = Inr xs" "find ?named xs = None" "\<nexists>m x. r = Inr (Some (m, x))"
        "\<exists>c. queue_tx cf (\<lambda>now d. close_unbound_lease env now d (lease_id l) ''provider_confirmed_no_resource'') u = (t, c)"
    using assms(1,2,5) a
    by (auto simp: lease_instance_def recover_provisioning_lease_def and_then_def attempt_def ret_def
        split: sum.splits prod.splits option.splits)
  then show ?thesis
  proof cases
    case failed
    then show ?thesis using u by simp
  next
    case found
    note row = assms(4) [folded c(1)]
    from found(3) show ?thesis
    proof (cases rule: and_then_cases)
      case (raised e)
      then show ?thesis using bind_watched [OF raised(1) row u] by simp
    next
      case (went m v)
      have m: "watched env m n v" "forward l m" using bind_watched [OF went(1) row u] by simp_all
      have "more_calls u v"
        by (rule queue_tx_result [OF went(1)]) (simp add: more_calls_def)
      then have "gone (Some x) \<Longrightarrow> evident env m n v" using told [OF found(1) _ m(2)] found(2) evident_more by metis
      then show ?thesis using went(2) m by (auto simp: ret_def dest: forward_id)
    qed
  next
    case none
    then show ?thesis
      using told [OF none(1) _ forward_refl] hoareD(1) [OF unbound_watched u] by (auto simp: gone_def)
  qed
qed

lemma instance_watched:
  assumes "lease_instance env cf cl l s = (t, r)" and "watched env l n s"
    and "find_lease (dp_queue s) (lease_id l) = Some l" "connector_of cf (lease_provider l) = Some cl"
  shows "r = Inr (Some (m, x)) \<Longrightarrow> watched env m n t \<and> lease_id m = lease_id l \<and> (gone x \<longrightarrow> evident env m n t)"
    and "\<forall>m x. r \<noteq> Inr (Some (m, x)) \<Longrightarrow> watched env l n t"
proof -
  show "watched env m n t \<and> lease_id m = lease_id l \<and> (gone x \<longrightarrow> evident env m n t)" if "r = Inr (Some (m, x))"
  proof (cases "given (lease_instance_id l)")
    case True
    show ?thesis using given_instance_watched [OF assms(1) True assms(2)] that by blast
  next
    case False
    show ?thesis using conjunct1 [OF found_instance_watched [OF assms(1) False assms(2-4)]] that by blast
  qed
  show "watched env l n t" if "\<forall>m x. r \<noteq> Inr (Some (m, x))"
  proof (cases "given (lease_instance_id l)")
    case True
    show ?thesis using conjunct1 [OF given_instance_watched [OF assms(1) True assms(2)]] .
  next
    case False
    show ?thesis using conjunct2 [OF found_instance_watched [OF assms(1) False assms(2-4)]] that by blast
  qed
qed

lemma reconcile_watched:
  assumes "reconcile_lease env cf now i s = (t, r)" and "lease_id i = lease_id l" and "lease_status l \<noteq> Closed"
    and "find_lease (dp_queue s) (lease_id l) = Some l"
  shows "\<exists>m. find_lease (dp_queue t) (lease_id l) = Some m \<and>
     (lease_status m = Closed \<longrightarrow> evident env m (length (dp_calls s)) t)"
proof -
  let ?n = "length (dp_calls s)"
  have w: "watched env l ?n s" using assms(3,4) by (simp add: watched_def)
  have kept: ?thesis if "watched env m ?n t" "lease_id m = lease_id l" for m
    using that by (auto simp: watched_def)
  show ?thesis
  proof (cases "connector_of cf (lease_provider l)")
    case None
    then have "t = s" using assms(1,2,4) by (simp add: reconcile_lease_def and_then_def look_def ret_def)
    then show ?thesis using kept w by simp
  next
    case (Some cl)
    have "and_then (lease_instance env cf cl l) (\<lambda>r. case r of None \<Rightarrow> ret () | Some (l', inst) \<Rightarrow>
        control_lease env cf now l' inst) s = (t, r)"
      using assms(1,2,4) Some by (simp add: reconcile_lease_def and_then_def [of "look f" for f] look_def)
    then show ?thesis
    proof (cases rule: and_then_cases)
      case (raised e)
      have "watched env l ?n t" by (rule instance_watched(2) [OF raised(1) w assms(4) Some]) simp
      then show ?thesis by (rule kept) simp
    next
      case (went a u)
      show ?thesis
      proof (cases a)
        case None
        have "watched env l ?n u" by (rule instance_watched(2) [OF went(1) w assms(4) Some]) (simp add: None)
        then show ?thesis using went(2) None kept by (simp add: ret_def)
      next
        case (Some p)
        obtain m x where p: "p = (m, x)" by fastforce
        have m: "watched env m ?n u \<and> lease_id m = lease_id l \<and> (gone x \<longrightarrow> evident env m ?n u)"
          by (rule instance_watched(1) [OF went(1) w assms(4) \<open>connector_of cf _ = Some cl\<close>]) (simp add: Some p)
        have "control_lease env cf now m x u = (t, r)" using went(2) Some p by simp
        then have "watched env m ?n t" using hoareD(1) [OF control_watched] m by blast
        then show ?thesis using kept m by blast
      qed
    qed
  qed
qed

text \<open>A pass closes a lease in the iteration that looks at it; the others leave it alone.\<close>

lemma calls_each: "keeps more_calls (for_each (reconcile_lease env cf now) ls)"
  by (rule calls.keeps_each) (rule calls.keeps_reconcile, rule refl)

lemma runs_each: "keeps (runs_queue env) (for_each (reconcile_lease env cf now) ls)"
  by (rule queue_run.keeps_each) (rule queue_run.keeps_reconcile, rule refl)

lemma each_lease_watched:
  assumes "for_each (reconcile_lease env cf now) ls s = (t, r)" and "find_lease (dp_queue s) k = Some l"
    and "lease_status l \<noteq> Closed" and "queue_ok (dp_queue s)"
  shows "\<exists>m. find_lease (dp_queue t) k = Some m \<and> (lease_status m = Closed \<longrightarrow> evident env m (length (dp_calls s)) t)"
  using assms
proof (induction ls arbitrary: s l)
  case Nil
  then show ?case by (simp add: ret_def)
next
  case (Cons i ls)
  note id = find_lease_id [OF Cons.prems(2)]
  obtain u a where u: "reconcile_lease env cf now i s = (u, a)" by fastforce
  have more: "more_calls s u" by (rule keepsD [OF calls.keeps_reconcile [OF refl] u])
  obtain m where m: "find_lease (dp_queue u) k = Some m" "lease_status m = Closed \<longrightarrow> evident env m (length (dp_calls s)) u"
  proof (cases "lease_id i = k")
    case True
    have "lease_id i = lease_id l" using True id by simp
    from reconcile_watched [OF u this Cons.prems(3)] show thesis using Cons.prems(2) id that by auto
  next
    case False
    then have "find_lease (dp_queue u) k = Some l"
      using keepsD [OF others.keeps_reconcile [OF refl] u] Cons.prems(2) unfolding leaves_others_def by simp
    then show thesis using Cons.prems(3) that by blast
  qed
  show ?case
  proof (cases a)
    case (Inl e)
    then show ?thesis using Cons.prems(1) u m by (auto simp: and_then_def)
  next
    case (Inr x)
    have rest: "for_each (reconcile_lease env cf now) ls u = (t, r)" using Cons.prems(1) u Inr by (simp add: and_then_def)
    have later: "more_calls u t"
      by (rule keepsD [OF calls_each rest])
    have "runs_queue env s u" by (rule keepsD [OF queue_run.keeps_reconcile [OF refl] u])
    then have ok: "queue_ok (dp_queue u)" using queue_inv.run_inv [OF Cons.prems(4)] by (auto simp: runs_queue_def)
    show ?thesis
    proof (cases "lease_status m = Closed")
      case True
      have "runs_queue env u t"
        by (rule keepsD [OF runs_each rest])
      then obtain ops where ops: "dp_queue t = run_steps (queue_step env) ops (dp_queue u)" by (auto simp: runs_queue_def)
      obtain m' where m': "find_lease (dp_queue t) k = Some m'" "forward m m'"
        using run_forward [OF ok m(1), of env ops] ops by auto
      have "evident env m (length (dp_calls s)) t" using True m(2) later evident_more by blast
      then show ?thesis using m' evident_forward by blast
    next
      case False
      have "length (dp_calls s) \<le> length (dp_calls u)" using more by (auto simp: more_calls_def)
      then show ?thesis using Cons.IH [OF rest m(1) False ok] evident_earlier by blast
    qed
  qed
qed

lemma pass_watched:
  assumes "reconcile_leases env cf s = (t, r)" and "find_lease (dp_queue s) k = Some l"
    and "lease_status l \<noteq> Closed" and "queue_ok (dp_queue s)"
  shows "\<exists>m. find_lease (dp_queue t) k = Some m \<and> (lease_status m = Closed \<longrightarrow> evident env m (length (dp_calls s)) t)"
proof -
  obtain w now where c: "dc_utc_now cf (dp_world s) = (w, now)" by fastforce
  have "for_each (reconcile_lease env cf now) (list_open_leases (dp_queue s)) (s\<lparr>dp_world := w\<rparr>) = (t, r)"
    using assms(1) c by (simp add: reconcile_leases_def and_then_def utc_now_def look_def)
  from each_lease_watched [OF this] show ?thesis using assms(2-4) by simp
qed

end
