(* ===== verification/ControlProps.thy ===== *)
theory ControlProps
  imports ControlWatch Samples
begin

text \<open>
  The lease control of the dispatcher: one pass is a run of queue operations, a lease is closed
  only on the word of its provider, and a lease that is over is ended in the pass that sees it.
\<close>

section \<open>A sample pass\<close>

text \<open>The world of the sample is whether the instance was terminated.\<close>

definition sample_instance :: cloud_instance where
  "sample_instance =
     \<lparr>ci_id = ''pod-1'', ci_gpu_type = ''A100'', ci_hourly_rate = 2, ci_status = ''running'', ci_metadata = JObj []\<rparr>"

definition sample_cloud :: "bool cloud" where
  "sample_cloud =
     \<lparr>cl_get_instance = (\<lambda>i w. (w, Inr (if w then None else Some sample_instance))),
      cl_list_instances = (\<lambda>w. (w, Inr (if w then [] else [sample_instance]))),
      cl_terminate = (\<lambda>i w. (True, Inr True)),
      cl_container_started = (\<lambda>x w. (w, Inr None))\<rparr>"

definition sample_control :: "bool control" where
  "sample_control =
     \<lparr>dc_connectors = [(''runpod'', sample_cloud)], dc_utc_now = (\<lambda>w. (w, 90000000)), dc_monotonic = (\<lambda>w. (w, 90)),
      dc_profiles = [], dc_lease_ttl_seconds = 60, dc_poll_interval_seconds = 10, dc_idle_shutdown_seconds = 300,
      dc_keep_warm = False, dc_max_job_runtime_seconds = 3600, dc_max_total_job_cost = JNull,
      dc_container_disk_gb = 50\<rparr>"

definition sample_dispatcher :: "db \<Rightarrow> bool dispatcher" where
  "sample_dispatcher d =
     \<lparr>dp_queue = d, dp_active_instances = [], dp_instance_providers = [], dp_instance_profiles = [],
      dp_instance_leases = [], dp_last_activity = [], dp_launched_at = [], dp_runner_ready = [],
      dp_runner_feedback_at = [], dp_producer_id = ''dispatcher:1'', dp_producer_sequence = 0,
      dp_launch_failures = [], dp_next_launch_at = [], dp_world = False, dp_calls = []\<rparr>"

definition sample_busy :: db where
  \<comment> \<open>an expired lease\<close>
  "sample_busy =
     lease_db []"

lemma sample_busy_ok: "queue_ok sample_busy"
  by (simp add: sample_busy_def lease_db_ok)

lemma sample_busy_lease: "find_lease sample_busy ''l1'' = Some sample_lease"
  by (simp add: sample_busy_def find_lease_def)

lemma sample_pass:
  "\<exists>t m. reconcile_leases sample_env sample_control (sample_dispatcher sample_busy) = (t, Inr ()) \<and>
     find_lease (dp_queue t) ''l1'' = Some m \<and> lease_status m = Closed"
proof -
  have "(case reconcile_leases sample_env sample_control (sample_dispatcher sample_busy) of
      (t, Inl e) \<Rightarrow> False
    | (t, Inr u) \<Rightarrow> (case find_lease (dp_queue t) ''l1'' of None \<Rightarrow> False | Some m \<Rightarrow> lease_status m = Closed))"
    by code_simp
  then show ?thesis by (auto split: prod.splits sum.splits option.splits)
qed

text \<open>One pass of the lease control, whatever the providers answer and whether it raises or not,
  is a run of queue operations: what is proved of every run (finished jobs stay finished, leases
  move forward, the journal only grows) holds of the dispatcher.\<close>

theorem reconcile_is_queue_run:
  "\<exists>ops. dp_queue (fst (reconcile_leases env cf s)) = run_steps (queue_step env) ops (dp_queue s)"
  using reconcile_runs [of env cf] unfolding keeps_def runs_queue_def by blast

text \<open>C16: A lease that a pass closes is closed on the word of its own provider, given during that pass:
  the instance that the lease names is absent or terminated, or, for a lease that never learnt
  its instance, none that is alive carries the name that was chosen for it.\<close>

theorem closed_on_evidence:
  assumes "queue_ok (dp_queue s)" and "find_lease (dp_queue s) k = Some l" and "lease_status l \<noteq> Closed"
    and "find_lease (dp_queue (fst (reconcile_leases env cf s))) k = Some m" and "lease_status m = Closed"
  shows "\<exists>c \<in> set (drop (length (dp_calls s)) (dp_calls (fst (reconcile_leases env cf s)))). proves_gone env m c"
  using pass_watched [OF _ assms(2,3,1)] assms(4,5) unfolding evident_def
  by (cases "reconcile_leases env cf s") force

lemma closed_on_evidence_witness:
  "\<exists>m. find_lease (dp_queue (fst (reconcile_leases sample_env sample_control (sample_dispatcher sample_busy)))) ''l1''
      = Some m \<and>
     (\<exists>c \<in> set (dp_calls (fst (reconcile_leases sample_env sample_control (sample_dispatcher sample_busy)))).
        proves_gone sample_env m c)"
proof -
  obtain t m where t: "reconcile_leases sample_env sample_control (sample_dispatcher sample_busy) = (t, Inr ())"
    "find_lease (dp_queue t) ''l1'' = Some m" "lease_status m = Closed"
    using sample_pass by blast
  have s: "dp_queue (sample_dispatcher sample_busy) = sample_busy" "dp_calls (sample_dispatcher sample_busy) = []"
    by (simp_all add: sample_dispatcher_def)
  show ?thesis
    using closed_on_evidence [of "sample_dispatcher sample_busy" "''l1''" sample_lease sample_env sample_control m]
    by (auto simp: s t sample_busy_ok sample_busy_lease)
qed

section \<open>Ending what is over\<close>

















end
