(* ===== verification/FleetProps.thy ===== *)
theory FleetProps
  imports Startup ControlProps
begin

text \<open>
  The polls of the dispatcher: they too are runs of queue operations, a machine is ended as idle
  only without work, a machine that does not start is given its time, and the limits of a lease
  are the least that the configuration and its jobs ask for.
\<close>

section \<open>The polls are runs of the queue\<close>

lemma runs_clock: "keeps (runs_queue env) (monotonic cf)" "keeps (runs_queue env) (utc_now cf)"
  by (auto simp: monotonic_def utc_now_def split: prod.splits intro!: keepsI runs_same)

lemma runs_local: "(\<And>s. dp_queue (f s) = dp_queue s) \<Longrightarrow> keeps (runs_queue env) (modify f)"
  by (rule queue_run.keeps_modify) (simp add: runs_same)

lemma runs_append:
  "keeps (runs_queue env) (queue_tx cf (\<lambda>now d. append_event env now d i ev p n None))"
proof (rule queue_run.keeps_tx)
  fix now and s :: "'a dispatcher" and d r
  assume "append_event env now (dp_queue s) i ev p n None = Inr (d, r)"
  then show "runs_queue env s (s\<lparr>dp_queue := d\<rparr>)"
    by (intro runs_one [where c = "Append_Event i ev p n None" and t = now]) simp
qed

lemma runs_publish: "keeps (runs_queue env) (publish_launch_event env cf js ev)"
  unfolding publish_launch_event_def by (intro queue_run.keeps_rules runs_local runs_append) simp

lemma runs_failure: "keeps (runs_queue env) (record_launch_failure env cf p profile js e)"
  unfolding record_launch_failure_def Let_def
  by (intro queue_run.keeps_rules runs_local runs_clock runs_publish) simp_all

lemma runs_revoke:
  "keeps (runs_queue env) (queue_tx cf (\<lambda>now d. request_lease_revocation env now d i reason))"
  by (rule queue_run.keeps_tx) (rule queue_run.revoked)

lemma runs_terminate_lease: "keeps (runs_queue env) (terminate_lease env cf l)"
  by (rule queue_run.keeps_terminate) (rule refl)

lemma runs_provider: "keeps (runs_queue env) (provider_call c f)"
  by (rule queue_run.keeps_provider)

lemma runs_terminate_worker: "keeps (runs_queue env) (terminate_worker env cf i reason)"
  unfolding terminate_worker_def terminate_instance_def
  by (intro queue_run.keeps_rules runs_revoke runs_terminate_lease runs_provider runs_local) simp

lemma runs_tracked: "keeps (runs_queue env) (tracked_lease_gone env cf lease inst)"
  unfolding tracked_lease_gone_def
  by (intro queue_run.keeps_rules queue_run.keeps_lost queue_run.keeps_confirm [OF refl])

lemma runs_update_worker: "keeps (runs_queue env) (update_worker env cf i)"
  unfolding update_worker_def get_instance_def
  by (intro queue_run.keeps_rules runs_provider runs_tracked runs_revoke runs_terminate_lease runs_local) simp_all

lemma runs_active_workers: "keeps (runs_queue env) (active_workers cf)"
  unfolding active_workers_def by (intro queue_run.keeps_rules runs_clock)

lemma runs_check_idle: "keeps (runs_queue env) (check_idle_worker env cf now ws item)"
  unfolding check_idle_worker_def Let_def
  by (intro queue_run.keeps_rules runs_local runs_terminate_worker) simp_all

lemma runs_report: "keeps (runs_queue env) (report_startup env cf now i launched js inst started)"
  unfolding report_startup_def by (intro queue_run.keeps_rules runs_publish runs_local) simp

lemma runs_container: "keeps (runs_queue env) (container_started cf p i inst)"
  unfolding container_started_def by (intro queue_run.keeps_rules runs_provider)

lemma runs_unregistered: "keeps (runs_queue env) (check_unregistered env cf now ws item)"
  unfolding check_unregistered_def
  by (intro queue_run.keeps_rules runs_local runs_report runs_container runs_failure runs_terminate_worker) simp_all

lemma poll_runs: "keeps (runs_queue env) (poll_workers env cf)"
  unfolding poll_workers_def update_workers_def check_unregistered_workers_def check_idle_workers_def
  by (intro queue_run.keeps_rules runs_clock runs_active_workers runs_update_worker runs_unregistered runs_check_idle)

text \<open>C18: Neither the lease control nor the polls of the dispatcher ever change a finished job or a
  finished plan, or cut the journal, whatever providers answer and wherever an exception ends
  them.\<close>

theorem dispatcher_keeps_finished:
  assumes "queue_ok (dp_queue s)" and "m = reconcile_leases env cf \<or> m = poll_workers env cf" and "m s = (t, r)"
  shows "queue_ok (dp_queue t) \<and>
     (\<forall>i j. find_job (dp_queue s) i = Some j \<and> terminal (job_status j) \<longrightarrow> find_job (dp_queue t) i = Some j) \<and>
     (\<forall>g st. plan_state_of (dp_queue s) g = Some st \<and> plan_terminal st \<longrightarrow> plan_state_of (dp_queue t) g = Some st) \<and>
     (\<exists>es. events (dp_queue t) = events (dp_queue s) @ es)"
proof -
  have "keeps (runs_queue env) m" using assms(2) reconcile_runs poll_runs by blast
  from keepsD [OF this assms(3)] obtain ops where ops: "dp_queue t = run_steps (queue_step env) ops (dp_queue s)"
    by (auto simp: runs_queue_def)
  show ?thesis
    unfolding ops
    using queue_inv.run_inv [OF assms(1)] finished_jobs.run_final [OF assms(1)] finished_plans.run_final [OF assms(1)]
      journal.run_extends [OF assms(1)]
    by blast
qed

lemma dispatcher_keeps_finished_witness:
  "\<exists>t r. reconcile_leases sample_env sample_control (sample_dispatcher sample_busy) = (t, r) \<and> queue_ok (dp_queue t)"
proof -
  obtain t r where t: "reconcile_leases sample_env sample_control (sample_dispatcher sample_busy) = (t, r)" by fastforce
  have "dp_queue (sample_dispatcher sample_busy) = sample_busy" by (simp add: sample_dispatcher_def)
  then show ?thesis
    using dispatcher_keeps_finished [OF _ disjI1 [OF refl] t] sample_busy_ok t by simp
qed

section \<open>Idle machines\<close>

lemma no_profile_jobs:
  "profile_jobs env cf sts p profile s = [] \<longleftrightarrow>
     (\<forall>j \<in> set (jobs (dp_queue s)). status_match sts (Some p) j \<longrightarrow> job_profile_name env (dc_profiles cf) j \<noteq> profile)"
  by (auto simp: profile_jobs_def list_by_status_def filter_empty_conv)

lemma match_three:
  "status_match [RUNNING, DISPATCHED, QUEUED] p j \<longleftrightarrow> status_match [RUNNING, DISPATCHED] p j \<or> status_match [QUEUED] p j"
  by (auto simp: status_match_def)

text \<open>C39: The idle check touches the queue or a provider only for a machine whose last activity is
  longer ago than the threshold, for whose profile no job is queued, dispatched or running, and
  that is not in its first boot.\<close>

theorem idle_needs_no_work:
  assumes "check_idle_worker env cf now ws (i, since) s = (t, r)"
    and "dp_queue t \<noteq> dp_queue s \<or> dp_calls t \<noteq> dp_calls s"
    and "map_of (dp_instance_providers s) i = Some p" and "map_of (dp_instance_profiles s) i = Some profile"
  shows "seconds (dc_idle_shutdown_seconds cf) < now - since \<and>
     profile_jobs env cf [RUNNING, DISPATCHED, QUEUED] p profile s = [] \<and>
     ((\<exists>w \<in> set (matching_workers p profile ws). wk_status w = ''starting'') \<longrightarrow>
        i \<in> set (dp_runner_ready s) \<or>
        (\<exists>w \<in> set (matching_workers p profile ws). wk_status w \<notin> {''starting'', ''failed''}))"
proof -
  let ?up = "\<exists>w \<in> set (matching_workers p profile ws). wk_status w \<notin> {''starting'', ''failed''}"
  let ?boot = "\<exists>w \<in> set (matching_workers p profile ws). wk_status w = ''starting''"
  define u where "u = (if ?up then s\<lparr>dp_runner_ready := List.insert i (dp_runner_ready s)\<rparr> else s)"
  let ?busy = "?boot \<and> i \<notin> set (dp_runner_ready u) \<or> profile_jobs env cf [RUNNING, DISPATCHED] p profile u \<noteq> [] \<or>
      profile_jobs env cf [QUEUED] p profile u \<noteq> []"
  have step: "(if ?up then modify (\<lambda>s. s\<lparr>dp_runner_ready := List.insert i (dp_runner_ready s)\<rparr>) else ret ()) s = (u, Inr ())"
    by (cases ?up) (simp_all only: u_def modify_def ret_def if_True if_False)
  have run: "(if ?busy then modify (\<lambda>s. s\<lparr>dp_last_activity := AList.update i now (dp_last_activity s)\<rparr>)
      else if seconds (dc_idle_shutdown_seconds cf) < now - since then terminate_worker env cf i ''idle_timeout''
      else ret ()) u = (t, r)"
    using assms(1,3,4) step
    by (simp add: check_idle_worker_def and_then_def look_def raising_def dict_item_def Let_def)
  have "\<not> ?busy" "seconds (dc_idle_shutdown_seconds cf) < now - since"
    using run assms(2) by (auto simp: modify_def ret_def u_def split: if_splits)
  then show ?thesis
    by (auto simp: no_profile_jobs match_three u_def split: if_splits)
qed

definition idle_dispatcher :: "bool dispatcher" where
  "idle_dispatcher =
     (sample_dispatcher sample_busy)
       \<lparr>dp_instance_providers := [(''pod-1'', ''runpod'')], dp_instance_profiles := [(''pod-1'', ''gpu'')],
        dp_instance_leases := [(''pod-1'', ''l1'')]\<rparr>"

lemma idle_needs_no_work_witness:
  "\<exists>t r. check_idle_worker sample_env sample_control 400000000 [] (''pod-1'', 0) idle_dispatcher = (t, r) \<and>
     profile_jobs sample_env sample_control [RUNNING, DISPATCHED, QUEUED] ''runpod'' ''gpu'' idle_dispatcher = []"
proof -
  obtain t r where t: "check_idle_worker sample_env sample_control 400000000 [] (''pod-1'', 0) idle_dispatcher = (t, r)"
    by fastforce
  have "dp_calls (fst (check_idle_worker sample_env sample_control 400000000 [] (''pod-1'', 0) idle_dispatcher)) \<noteq>
      dp_calls idle_dispatcher"
    by code_simp
  then have "dp_calls t \<noteq> dp_calls idle_dispatcher" by (simp add: t)
  then show ?thesis
    using idle_needs_no_work [OF t, of "''runpod''" "''gpu''"] t by (simp add: idle_dispatcher_def)
qed

section \<open>Limits\<close>

lemma foldl_min_le: "foldl min (m :: int) ns \<le> m \<and> (\<forall>n \<in> set ns. foldl min m ns \<le> n) \<and> foldl min m ns \<in> insert m (set ns)"
proof (induction ns arbitrary: m)
  case Nil
  then show ?case by simp
next
  case (Cons n ns)
  from Cons [of "min m n"] show ?case by (auto simp: min_def split: if_splits)
qed

text \<open>The order of floats above zero, with infinity on top.\<close>

lemma float_less_trans: "float_less x y \<Longrightarrow> float_less y z \<Longrightarrow> float_less x z"
  by (cases "(x, y)" rule: float_less.cases; cases z) auto

lemma float_less_below: "float_less z m \<Longrightarrow> \<not> float_less z y \<Longrightarrow> float_pos z \<Longrightarrow> float_pos y \<Longrightarrow> float_less y m"
  by (cases "(z, m)" rule: float_less.cases; cases y) auto

lemma least_is_least:
  assumes "least_float xs = Some m" and "list_all float_pos xs"
  shows "m \<in> set xs \<and> (\<forall>x \<in> set xs. \<not> float_less x m)"
proof -
  obtain y ys where xs: "xs = y # ys" using assms(1) by (cases xs) (auto simp: least_float_def)
  have "foldl (\<lambda>m y. if float_less y m then y else m) y ys \<in> insert y (set ys) \<and>
      (\<forall>x \<in> insert y (set ys). \<not> float_less x (foldl (\<lambda>m y. if float_less y m then y else m) y ys))"
    if "float_pos y" "list_all float_pos ys" for y ys
    using that
  proof (induction ys arbitrary: y)
    case Nil
    then show ?case by (cases y) auto
  next
    case (Cons z ys)
    show ?case
    proof (cases "float_less z y")
      case True
      have "\<not> float_less y (foldl (\<lambda>m y. if float_less y m then y else m) z ys)"
        using Cons.IH [of z] Cons.prems float_less_trans [OF True] by auto
      then show ?thesis using Cons.IH [of z] Cons.prems True by auto
    next
      case False
      have "\<not> float_less z (foldl (\<lambda>m y. if float_less y m then y else m) y ys)"
        using Cons.IH [of y] Cons.prems False float_less_below by auto
      then show ?thesis using Cons.IH [of y] Cons.prems False by auto
    qed
  qed
  from this [of y ys] show ?thesis using assms xs by (simp add: least_float_def)
qed

lemma list_all2_forth: "list_all2 P xs ys \<Longrightarrow> x \<in> set xs \<Longrightarrow> \<exists>y \<in> set ys. P x y"
  by (induction xs ys rule: list_all2_induct) auto

lemma list_all2_back: "list_all2 P xs ys \<Longrightarrow> y \<in> set ys \<Longrightarrow> \<exists>x \<in> set xs. P x y"
  by (induction xs ys rule: list_all2_induct) auto

text \<open>What a job asks for in its preflight policy.\<close>

lemma job_limits_pos: "job_limits env j = Inr (ns, cs) \<Longrightarrow> (\<forall>n \<in> set ns. 0 < n) \<and> list_all float_pos cs"
  by (auto simp: job_limits_def split: sum.splits option.splits if_splits)

text \<open>A lease runs no longer than the configuration and every job that asks for a positive limit
  allow, and as long as one of them; its cost limit is one that the configuration or a job set,
  with none of them below it, provided the configured one is above zero.\<close>

theorem lease_limits_least:
  assumes "lease_limits env cf js = Inr (runtime, cost)"
    and "dc_max_total_job_cost cf = JNull \<or> (\<exists>c. py_float env (dc_max_total_job_cost cf) = Inr c \<and> float_pos c)"
  shows "runtime \<le> dc_max_job_runtime_seconds cf \<and>
     (\<forall>j \<in> set js. \<forall>ns cs. job_limits env j = Inr (ns, cs) \<longrightarrow>
        (\<forall>n \<in> set ns. 0 < n \<and> runtime \<le> n) \<and>
        (\<forall>c \<in> set cs. \<exists>m. cost = Some m \<and> \<not> float_less c m)) \<and>
     (runtime = dc_max_job_runtime_seconds cf \<or> (\<exists>j \<in> set js. \<exists>ns cs. job_limits env j = Inr (ns, cs) \<and> runtime \<in> set ns))"
proof -
  obtain own ls where o: "configured_cost env cf = Inr own" "each (job_limits env) js = Inr ls"
    "runtime = foldl min (dc_max_job_runtime_seconds cf) (concat (map fst ls))"
    "cost = least_float (own @ concat (map snd ls))"
    using assms(1) by (auto simp: lease_limits_def split: sum.splits)
  have own: "list_all float_pos own" using o(1) assms(2) by (auto simp: configured_cost_def split: if_splits sum.splits)
  have jobs: "(ns, cs) \<in> set ls" if "j \<in> set js" "job_limits env j = Inr (ns, cs)" for j ns cs
    using list_all2_forth [OF each_map [OF o(2)] that(1)] that(2) by auto
  have asked: "\<exists>j \<in> set js. job_limits env j = Inr l" if "l \<in> set ls" for l using list_all2_back [OF each_map [OF o(2)] that] .
  have pos: "list_all float_pos (own @ concat (map snd ls))"
    using own asked job_limits_pos by (fastforce simp: list_all_iff)
  note r = foldl_min_le [of "dc_max_job_runtime_seconds cf" "concat (map fst ls)"]
  have cheap: "\<exists>m. cost = Some m \<and> \<not> float_less c m" if "(ns, cs) \<in> set ls" "c \<in> set cs" for ns cs c
  proof -
    have "c \<in> set (own @ concat (map snd ls))" using that by force
    moreover from this obtain m where "cost = Some m" using o(4) by (auto simp: least_float_def split: list.splits)
    ultimately show ?thesis using least_is_least [OF _ pos] o(4) by metis
  qed
  show ?thesis
  proof (intro conjI ballI allI impI)
    show "runtime \<le> dc_max_job_runtime_seconds cf" using r o(3) by simp
    fix j ns cs n
    assume j: "j \<in> set js" "job_limits env j = Inr (ns, cs)"
    show "0 < n" if "n \<in> set ns" using job_limits_pos [OF j(2)] that by blast
    show "runtime \<le> n" if "n \<in> set ns" using r o(3) jobs [OF j] that by force
    show "\<exists>m. cost = Some m \<and> \<not> float_less c m" if "c \<in> set cs" for c using cheap [OF jobs [OF j] that] .
  next
    show "runtime = dc_max_job_runtime_seconds cf \<or> (\<exists>j \<in> set js. \<exists>ns cs. job_limits env j = Inr (ns, cs) \<and> runtime \<in> set ns)"
      using r o(3) asked by fastforce
  qed
qed

definition limited_job :: job where
  "limited_job =
     (sample_job ''a'' QUEUED 1)\<lparr>job_params := JObj [(''preflight'', JObj [(''request_policy'', JObj
        [(''max_job_runtime_seconds'', JInt 600), (''max_total_job_cost'', JInt 3)])])]\<rparr>"

lemma limited_job_limits: "job_limits sample_env limited_job = Inr ([600], [JFloat 3])"
  by code_simp

lemma lease_limits_least_witness:
  "\<exists>runtime m. lease_limits sample_env sample_control [limited_job] = Inr (runtime, Some m) \<and> runtime \<le> 600 \<and>
     \<not> float_less (JFloat 3) m"
proof -
  have "(case lease_limits sample_env sample_control [limited_job] of Inl e \<Rightarrow> False | Inr x \<Rightarrow> True)"
    by code_simp
  then obtain runtime cost where l: "lease_limits sample_env sample_control [limited_job] = Inr (runtime, cost)"
    by (cases "lease_limits sample_env sample_control [limited_job]") auto
  have c: "dc_max_total_job_cost sample_control = JNull" by (simp add: sample_control_def)
  from lease_limits_least [OF l] c limited_job_limits
  have "runtime \<le> 600 \<and> (\<exists>m. cost = Some m \<and> \<not> float_less (JFloat 3) m)" by simp
  then show ?thesis using l by auto
qed

section \<open>A lease revoked before it is bound\<close>






end
