(* ===== verification/Scheduler.thy ===== *)
theory Scheduler
  imports CacheCoverage
begin

text \<open>
  \<open>cloud_offload/cache_scheduler.py\<close>: the placement policy that turns cached candidates and
  cold offers into a decision, the identity of what queued jobs require, and the constraints of
  \<open>providers/base.py\<close> that a decision hands to a provider.
\<close>

section \<open>Candidates and decisions\<close>

text \<open>
  An offer is a dict with an identifier, so it is true in a condition; its rate is a number, and
  \<open>None\<close> stands for a missing or infinite one.
\<close>

record offer =
  of_id :: json
  of_provider :: json
  of_rate :: "rat option"

record candidate =
  pc_offer :: offer
  pc_volume :: "cache_volume option"
  pc_cached :: int
  pc_required :: int
  pc_complete :: bool
  pc_manifests :: "string list"
  pc_estimate :: "(string \<times> rat) list"

definition cold_candidate :: "offer \<Rightarrow> candidate" where
  \<comment> \<open>\<open>PlacementCandidate(offer, None)\<close>\<close>
  "cold_candidate o' =
     \<lparr>pc_offer = o', pc_volume = None, pc_cached = 0, pc_required = 0, pc_complete = False,
      pc_manifests = [], pc_estimate = []\<rparr>"

definition pc_datacenter :: "candidate \<Rightarrow> string option" where
  "pc_datacenter c = map_option cv_datacenter_id (pc_volume c)"

record summary =
  sm_offer :: json
  sm_provider :: json
  sm_datacenter :: "string option"
  sm_volume :: "string option"
  sm_cached :: int
  sm_required :: int
  sm_complete :: bool
  sm_rate :: "rat option"
  sm_estimate :: "(string \<times> rat) list"

record placement_decision =
  pd_action :: string
  pd_candidate :: "candidate option"
  pd_reason :: string
  pd_considered :: "summary list"
  pd_fallback :: bool

text \<open>Infinity is the greatest rate.\<close>

definition rate_key :: "rat option \<Rightarrow> bool \<times> rat" where
  "rate_key r = (case r of None \<Rightarrow> (True, 0) | Some q \<Rightarrow> (False, q))"

definition cold_key :: "pyenv \<Rightarrow> offer \<Rightarrow> (bool \<times> rat) \<times> string \<times> string" where
  "cold_key env o' =
     (rate_key (of_rate o'), or_text env (of_provider o') [], or_text env (of_id o') [])"

definition cheapest :: "pyenv \<Rightarrow> offer list \<Rightarrow> offer option" where
  \<comment> \<open>\<open>min\<close> returns the first offer with the least key\<close>
  "cheapest env os = (case sort_key (cold_key env) os of [] \<Rightarrow> None | x # xs \<Rightarrow> Some x)"

definition cached_summary :: "candidate \<Rightarrow> summary" where
  "cached_summary c =
     \<lparr>sm_offer = of_id (pc_offer c), sm_provider = of_provider (pc_offer c),
      sm_datacenter = pc_datacenter c, sm_volume = map_option cv_id (pc_volume c),
      sm_cached = pc_cached c, sm_required = pc_required c, sm_complete = pc_complete c,
      sm_rate = of_rate (pc_offer c), sm_estimate = pc_estimate c\<rparr>"

definition cold_summary :: "offer \<Rightarrow> summary" where
  "cold_summary o' =
     \<lparr>sm_offer = of_id o', sm_provider = of_provider o', sm_datacenter = None, sm_volume = None,
      sm_cached = 0, sm_required = 0, sm_complete = False, sm_rate = of_rate o', sm_estimate = []\<rparr>"

definition summary_key :: "pyenv \<Rightarrow> summary \<Rightarrow> string \<times> string \<times> string \<times> string" where
  "summary_key env s =
     (or_text env (sm_provider s) [], or_default [] (sm_datacenter s),
      or_text env (sm_offer s) [], or_default [] (sm_volume s))"

definition summaries :: "pyenv \<Rightarrow> candidate list \<Rightarrow> offer list \<Rightarrow> summary list" where
  "summaries env cached cold =
     sort_key (summary_key env) (map cached_summary cached @ map cold_summary cold)"

section \<open>The policy\<close>

definition candidate_key ::
  "pyenv \<Rightarrow> candidate \<Rightarrow> int \<times> int \<times> (bool \<times> rat) \<times> string \<times> string \<times> string"
where
  "candidate_key env c =
     (- (if pc_complete c then 1 else 0), - pc_cached c, rate_key (of_rate (pc_offer c)),
      or_default [] (pc_datacenter c), or_text env (of_id (pc_offer c)) [],
      or_default [] (map_option cv_id (pc_volume c)))"

definition eligible_candidates :: "string \<Rightarrow> string \<Rightarrow> candidate list \<Rightarrow> candidate list" where
  "eligible_candidates mode region cs =
     filter (\<lambda>c. pc_volume c \<noteq> None \<and> (mode = ''pinned'' \<longrightarrow> pc_datacenter c = Some region)) cs"

definition chosen_reason :: "candidate \<Rightarrow> string" where
  "chosen_reason c =
     (if pc_cached c = 0 then ''eligible_storage_population''
      else if pc_complete c then ''complete_compatible_cache'' else ''greatest_compatible_byte_coverage'')"

definition choose_placement :: "pyenv \<Rightarrow> json \<Rightarrow> candidate list \<Rightarrow> offer list \<Rightarrow> placement_decision" where
  "choose_placement env policy cached cold =
     (let mode = or_text env (obj_get policy ''policy'') ''off'';
          region = or_text env (obj_get policy ''region'') ''auto'';
          fallback_policy = or_text env (obj_get policy ''cold_fallback'') ''allow'';
          enabled = (truthy (obj_get policy ''enabled'') \<and> mode \<noteq> ''off'');
          considered = summaries env cached cold;
          no = (\<lambda>action reason. \<lparr>pd_action = action, pd_candidate = None, pd_reason = reason,
                                 pd_considered = considered, pd_fallback = False\<rparr>);
          launch = (\<lambda>c reason fb. \<lparr>pd_action = ''launch'', pd_candidate = Some c, pd_reason = reason,
                                   pd_considered = considered, pd_fallback = fb\<rparr>)
      in if \<not> enabled then
           (case cheapest env cold of
              None \<Rightarrow> no ''unavailable'' ''no_compute_capacity''
            | Some o' \<Rightarrow> launch (cold_candidate o') ''prepared_storage_disabled'' False)
         else
           (case sort_key (candidate_key env) (eligible_candidates mode region cached) of
              c # cs \<Rightarrow> launch c (chosen_reason c) False
            | [] \<Rightarrow>
                if mode \<in> {''strict'', ''pinned''} \<or> fallback_policy = ''deny''
                then no ''unavailable'' ''eligible_cache_placement_has_no_capacity''
                else if fallback_policy = ''ask''
                then no ''ask'' ''cold_fallback_requires_user_decision''
                else (case cheapest env cold of
                        None \<Rightarrow> no ''unavailable'' ''no_cached_or_cold_compute_capacity''
                      | Some o' \<Rightarrow> launch (cold_candidate o')
                                     ''cached_datacenter_unavailable_running_cold'' True)))"

section \<open>What a decision says\<close>

record attachment =
  sa_volume :: string
  sa_mount :: string
  sa_read_only :: bool
  sa_datacenter :: "string option"

record constraints =
  ct_datacenters :: "string list"
  ct_attachments :: "attachment list"

definition make_attachment :: "string \<Rightarrow> string \<Rightarrow> bool \<Rightarrow> string option \<Rightarrow> pyerr + attachment" where
  "make_attachment vol mount ro dc =
     (if py_strip vol = [] then Inl (ValueError ''Storage attachment requires provider_volume_id'')
      else if \<not> starts_with ''/'' mount
      then Inl (ValueError ''Storage attachment mount_path must be absolute'')
      else Inr \<lparr>sa_volume = vol, sa_mount = mount, sa_read_only = ro, sa_datacenter = dc\<rparr>)"

definition make_constraints :: "string list \<Rightarrow> attachment list \<Rightarrow> pyerr + constraints" where
  "make_constraints dcs as =
     (if 1 < length as then Inl (ValueError ''Cloud Offload currently supports one storage attachment'')
      else case as of
             a # _ \<Rightarrow>
               if given (sa_datacenter a) \<and> dcs \<noteq> [] \<and> or_default [] (sa_datacenter a) \<notin> set dcs
               then Inl (ValueError ''Storage attachment datacenter is outside placement constraints'')
               else Inr \<lparr>ct_datacenters = dcs, ct_attachments = as\<rparr>
           | [] \<Rightarrow> Inr \<lparr>ct_datacenters = dcs, ct_attachments = as\<rparr>)"

definition placement :: "placement_decision \<Rightarrow> pyerr + constraints option" where
  "placement p =
     (case Option.bind (pd_candidate p) pc_volume of
        None \<Rightarrow> Inr None
      | Some v \<Rightarrow>
          (case make_attachment (cv_provider_volume_id v) ''/workspace'' False (Some (cv_datacenter_id v)) of
             Inl e \<Rightarrow> Inl e
           | Inr a \<Rightarrow> (case make_constraints [cv_datacenter_id v] [a] of
                         Inl e \<Rightarrow> Inl e | Inr c \<Rightarrow> Inr (Some c))))"

definition rate_json :: "rat option \<Rightarrow> json" where
  "rate_json r = (case r of None \<Rightarrow> JInf True | Some q \<Rightarrow> JFloat q)"

definition summary_json :: "summary \<Rightarrow> json" where
  "summary_json s =
     JObj [(''offer_id'', sm_offer s), (''provider'', sm_provider s),
           (''datacenter_id'', jopt (sm_datacenter s)), (''volume_id'', jopt (sm_volume s)),
           (''cached_bytes'', JInt (sm_cached s)), (''required_bytes'', JInt (sm_required s)),
           (''complete'', JBool (sm_complete s)), (''hourly_rate'', rate_json (sm_rate s)),
           (''estimate'', JObj (map (\<lambda>(k, q). (k, JFloat q)) (sm_estimate s)))]"

definition explanation :: "placement_decision \<Rightarrow> json" where
  "explanation p =
     (let c = pd_candidate p;
          field = (\<lambda>f d. case c of None \<Rightarrow> d | Some x \<Rightarrow> f x);
          v = Option.bind c pc_volume
      in JObj [(''action'', JStr (pd_action p)), (''reason'', JStr (pd_reason p)),
               (''fallback'', JBool (pd_fallback p)),
               (''provider'', field (\<lambda>x. of_provider (pc_offer x)) JNull),
               (''offer_id'', field (\<lambda>x. of_id (pc_offer x)) JNull),
               (''datacenter_id'', field (\<lambda>x. jopt (pc_datacenter x)) JNull),
               (''volume_id'', jopt (map_option cv_id v)),
               (''provider_volume_id'', jopt (map_option cv_provider_volume_id v)),
               (''cached_bytes'', field (\<lambda>x. JInt (pc_cached x)) (JInt 0)),
               (''required_bytes'', field (\<lambda>x. JInt (pc_required x)) (JInt 0)),
               (''complete'', field (\<lambda>x. JBool (pc_complete x)) (JBool False)),
               (''manifest_ids'', field (\<lambda>x. JArr (map JStr (pc_manifests x))) (JArr [])),
               (''hourly_rate'', field (\<lambda>x. rate_json (of_rate (pc_offer x))) JNull),
               (''considered'', JArr (map summary_json (pd_considered p)))])"

section \<open>Completion cost\<close>

record cost_inputs =
  ci_startup :: rat
  ci_lookup :: rat
  ci_missing :: int
  ci_bandwidth :: rat
  ci_materialization :: rat
  ci_setup :: rat
  ci_execution :: rat
  ci_dollars :: rat
  ci_weight :: rat

definition transfer_ms :: "cost_inputs \<Rightarrow> rat" where
  "transfer_ms i =
     (if ci_missing i \<noteq> 0 \<and> 0 < ci_bandwidth i then of_int (ci_missing i) / ci_bandwidth i * 1000 else 0)"

definition estimate_completion_cost :: "cost_inputs \<Rightarrow> (string \<times> rat) list" where
  "estimate_completion_cost i =
     [(''provider_startup_ms'', ci_startup i), (''cache_lookup_ms'', ci_lookup i),
      (''missing_transfer_ms'', transfer_ms i), (''materialization_ms'', ci_materialization i),
      (''runtime_setup_ms'', ci_setup i), (''execution_ms'', ci_execution i),
      (''expected_dollars'', ci_dollars i), (''monetary_cost_weight'', ci_weight i),
      (''estimated_completion_cost'',
         ci_startup i + ci_lookup i + transfer_ms i + ci_materialization i + ci_setup i +
         ci_execution i + ci_weight i * ci_dollars i)]"

end
