(* ===== verification/Requirements.thy ===== *)
theory Requirements
  imports Scheduler
begin

text \<open>
  The rest of \<open>cloud_offload/cache_scheduler.py\<close>: the requirement identity of the queued jobs of
  one profile and the runtime fields that the control plane knows.
\<close>

section \<open>Texts\<close>

fun after_last :: "string \<Rightarrow> string \<Rightarrow> string option" where
  \<comment> \<open>what follows the last occurrence of a pattern\<close>
  "after_last pat [] = None"
| "after_last pat (c # cs) =
     (case after_last pat cs of
        Some r \<Rightarrow> Some r
      | None \<Rightarrow> if starts_with pat (c # cs) then Some (drop (length pat) (c # cs)) else None)"

definition strip_right :: "char \<Rightarrow> string \<Rightarrow> string" where
  \<comment> \<open>\<open>s.rstrip(c)\<close>\<close>
  "strip_right c s = rev (dropWhile (\<lambda>x. x = c) (rev s))"

definition git_suffix :: string where
  "git_suffix = ''.git''"

definition profile_pack_identifier :: "pyenv \<Rightarrow> json \<Rightarrow> string" where
  "profile_pack_identifier env entry =
     (let explicit = py_strip (or_text env (obj_get entry ''id'') []);
          registry_id = py_strip (or_text env (obj_get entry ''registry_id'') []);
          url = strip_right (CHR ''/'') (or_text env (obj_get entry ''git'') []);
          segment = or_default url (after_last ''/'' url)
      in if explicit \<noteq> [] then explicit
         else if registry_id \<noteq> [] then registry_id
         else if starts_with (rev git_suffix) (rev (py_lower segment))
         then take (length segment - 4) segment else segment)"

section \<open>Required artifacts\<close>

type_synonym artifacts = "(string \<times> (int \<times> json)) list"

fun put_digest :: "string \<Rightarrow> int \<times> json \<Rightarrow> artifacts \<Rightarrow> artifacts" where
  "put_digest k v [] = [(k, v)]"
| "put_digest k v ((k', v') # kvs) = (if k = k' then (k', v) # kvs else (k', v') # put_digest k v kvs)"

definition asset_digest :: "pyenv \<Rightarrow> json \<Rightarrow> string" where
  "asset_digest env asset =
     sha_prefix @ py_lower (remove_prefix sha_prefix (py_str env (obj_get asset ''sha256'')))"

definition required_artifact :: "pyenv \<Rightarrow> json \<Rightarrow> artifacts \<Rightarrow> pyerr + artifacts" where
  "required_artifact env asset m =
     (if \<not> is_obj asset \<or> \<not> truthy (obj_get asset ''sha256'') then Inr m
      else
        (let digest = asset_digest env asset in
         case py_int (or_zero (obj_get asset ''size'')) of
           Inl e \<Rightarrow> Inl e
         | Inr n \<Rightarrow>
             Inr (put_digest digest
               (n, JObj [(''digest'', JStr digest), (''size'', JInt n), (''kind'', JStr ''model-weight''),
                         (''category'', JStr (or_text env (obj_get asset ''category'') [])),
                         (''filename'', JStr (or_text env (obj_get asset ''filename'') [])),
                         (''policy'', JObj
                            [(''tenant'', JStr (or_text env (obj_get asset ''tenant'') ''default'')),
                             (''cacheable'', JBool (if obj_has asset ''cacheable''
                                                   then truthy (obj_get asset ''cacheable'') else True)),
                             (''private'', JBool (truthy (obj_get asset ''private'') \<or>
                                                 truthy (obj_get asset ''gated'')))])]) m)))"

definition job_artifacts :: "pyenv \<Rightarrow> json \<Rightarrow> artifacts \<Rightarrow> pyerr + artifacts" where
  \<comment> \<open>of the request of one job\<close>
  "job_artifacts env request m =
     (case py_get (or_obj request) ''assets'' of Inl e \<Rightarrow> Inl e | Inr a \<Rightarrow>
     (case iterate_or_empty a of Inl e \<Rightarrow> Inl e | Inr assets \<Rightarrow>
      fold_tx (required_artifact env) assets m))"

section \<open>Declared weights and nodes\<close>

record weight_identity =
  wi_repo :: string
  wi_revision :: string
  wi_dest :: string
  wi_files :: "string list"
  wi_gated :: bool

definition weight_of :: "pyenv \<Rightarrow> json \<Rightarrow> pyerr + weight_identity" where
  "weight_of env item =
     (case get_text env item ''repo_id'' of Inl e \<Rightarrow> Inl e | Inr repo \<Rightarrow>
     (case iterate_or_empty (obj_get item ''files'') of Inl e \<Rightarrow> Inl e | Inr fs \<Rightarrow>
      Inr \<lparr>wi_repo = repo, wi_revision = or_text env (obj_get item ''revision'') [],
           wi_dest = or_text env (obj_get item ''dest'') [], wi_files = sort (map (py_str env) fs),
           wi_gated = truthy (obj_get item ''gated'')\<rparr>))"

definition weight_json :: "weight_identity \<Rightarrow> json" where
  "weight_json w =
     JObj [(''repo_id'', JStr (wi_repo w)), (''revision'', JStr (wi_revision w)),
           (''dest'', JStr (wi_dest w)), (''files'', JArr (map JStr (wi_files w))),
           (''gated'', JBool (wi_gated w))]"

definition weight_order :: "weight_identity \<Rightarrow> string \<times> string \<times> string \<times> string list" where
  "weight_order w = (wi_repo w, wi_revision w, wi_dest w, wi_files w)"

definition weight_keys :: "pyenv \<Rightarrow> json \<Rightarrow> pyerr + string list" where
  \<comment> \<open>one requirement per file, or one for the snapshot\<close>
  "weight_keys env item =
     (case py_get item ''files'' of Inl e \<Rightarrow> Inl e | Inr f \<Rightarrow>
      (let repo = or_text env (obj_get item ''repo_id'') [];
           revision = or_text env (obj_get item ''revision'') []
       in if truthy f
          then (case iterate f of
                  Inl e \<Rightarrow> Inl e
                | Inr fs \<Rightarrow> Inr (map (\<lambda>x. profile_weight_requirement_key repo revision (Some (py_str env x))) fs))
          else Inr [profile_weight_requirement_key repo revision None]))"

definition node_key :: "pyenv \<Rightarrow> json \<Rightarrow> pyerr + string" where
  "node_key env entry =
     (if is_obj entry then Inr (custom_node_requirement_key (profile_pack_identifier env entry))
      else Inl (AttributeError ''object has no attribute get''))"

definition or_null :: "json \<Rightarrow> json" where
  \<comment> \<open>\<open>v or None\<close>\<close>
  "or_null v = (if truthy v then v else JNull)"

definition lock_value :: "json \<Rightarrow> json \<Rightarrow> json" where
  "lock_value nodes wheelhouse =
     JObj [(''custom_nodes'', nodes), (''wheelhouse_sha256'', wheelhouse)]"

definition node_keys :: "pyenv \<Rightarrow> json \<Rightarrow> pyerr + string list" where
  "node_keys env profile =
     (let nodes = obj_get profile ''custom_nodes'' in
      if \<not> truthy nodes then Inr []
      else
     (case iterate nodes of Inl e \<Rightarrow> Inl e | Inr entries \<Rightarrow>
     (case each (node_key env) entries of Inl e \<Rightarrow> Inl e | Inr ks \<Rightarrow>
     (case fingerprint env (lock_value (or_arr nodes) (or_null (obj_get profile ''wheelhouse_sha256''))) of
        Inl e \<Rightarrow> Inl e
      | Inr lock \<Rightarrow>
          (case environment_requirement_key lock of Inl e \<Rightarrow> Inl e | Inr k \<Rightarrow> Inr (ks @ [k]))))))"

section \<open>The requirements of a profile\<close>

record requirements =
  rq_profile :: string
  rq_identity :: json
  rq_constraints :: "(string \<times> string) list"
  rq_artifacts :: "json list"
  rq_required :: "(string \<times> int) list"
  rq_logical :: "string list"

definition runtime_identity :: "string \<Rightarrow> json \<Rightarrow> weight_identity list \<Rightarrow> json" where
  "runtime_identity name profile ws =
     JObj [(''profile'', JStr name), (''image'', obj_get profile ''image''),
           (''custom_nodes'', or_arr (obj_get profile ''custom_nodes'')),
           (''weights'', JArr (map weight_json (sort_key weight_order ws))),
           (''wheelhouse_sha256'', or_null (obj_get profile ''wheelhouse_sha256''))]"

definition runtime_constraints :: "pyenv \<Rightarrow> json \<Rightarrow> (string \<times> string) list" where
  "runtime_constraints env profile =
     filter (\<lambda>kv. snd kv \<noteq> [])
       (map (\<lambda>k. (k, or_text env (obj_get profile k) [])) [''platform'', ''python_abi''])"

definition runtime_prefix :: string where
  "runtime_prefix = ''runtime:''"

definition resolve_prepared_requirements :: "pyenv \<Rightarrow> string \<Rightarrow> json \<Rightarrow> json list \<Rightarrow> pyerr + requirements" where
  \<comment> \<open>the profile is a dict, the last argument holds the requests of the jobs\<close>
  "resolve_prepared_requirements env name profile requests =
     (case fold_tx (job_artifacts env) requests [] of Inl e \<Rightarrow> Inl e | Inr m \<Rightarrow>
     (case iterate_or_empty (obj_get profile ''weights'') of Inl e \<Rightarrow> Inl e | Inr items \<Rightarrow>
     (case each (weight_of env) items of Inl e \<Rightarrow> Inl e | Inr ws \<Rightarrow>
     (case collect (weight_keys env) items of Inl e \<Rightarrow> Inl e | Inr wk \<Rightarrow>
     (case node_keys env profile of Inl e \<Rightarrow> Inl e | Inr nk \<Rightarrow>
     (case fingerprint env (runtime_identity name profile ws) of Inl e \<Rightarrow> Inl e | Inr identity \<Rightarrow>
     (case profile_key env name (sort (map fst m @ [runtime_prefix @ identity])) of Inl e \<Rightarrow> Inl e | Inr key \<Rightarrow>
      (let rows = sort_key fst m in
       Inr \<lparr>rq_profile = key, rq_identity = runtime_identity name profile ws,
            rq_constraints = runtime_constraints env profile,
            rq_artifacts = map (snd \<circ> snd) rows, rq_required = map (\<lambda>(k, v). (k, fst v)) rows,
            rq_logical = sort (remdups (wk @ nk))\<rparr>))))))))"

definition image_digest :: "string \<Rightarrow> string" where
  "image_digest reference =
     (case after_last (''@'' @ sha_prefix) reference of None \<Rightarrow> [] | Some d \<Rightarrow> sha_prefix @ d)"

definition scheduler_runtime :: "pyenv \<Rightarrow> requirements \<Rightarrow> pyerr + json" where
  "scheduler_runtime env rq =
     (let identity = or_obj (rq_identity rq) in
      case fingerprint env (lock_value (or_arr (obj_get identity ''custom_nodes''))
                              (obj_get identity ''wheelhouse_sha256'')) of
        Inl e \<Rightarrow> Inl e
      | Inr lock \<Rightarrow>
          Inr (JObj ([(''image_digest'', JStr (image_digest (or_text env (obj_get identity ''image'') []))),
                      (''dependency_lock'', JStr lock)] @
                     map (\<lambda>(k, v). (k, JStr v)) (rq_constraints rq))))"

end
