(* ===== verification/Dispatch.thy ===== *)
theory Dispatch
  imports Requirements CacheLedger Policy
begin

text \<open>
  The placement of a launch in \<open>cloud_offload/dispatcher.py\<close> (\<open>_choose_cache_placement\<close>): the
  registered volumes are compared with the provider, a configured volume is adopted or a managed
  one created, and the offers near the ready volumes are ranked by the scheduler. The provider
  is a record of functions: what it answers during one placement.
\<close>

section \<open>The provider\<close>

record storage =
  st_id :: string
  st_datacenter :: string
  st_size_gb :: int
  st_s3 :: bool

record connector =
  cn_storage :: "string \<Rightarrow> pyerr + storage option"
  cn_create :: "string \<Rightarrow> int \<Rightarrow> string \<Rightarrow> pyerr + storage"
  cn_offers :: "constraints option \<Rightarrow> pyerr + offer list"

text \<open>What one placement is asked for; the policy is normalised, its volume a text or missing.\<close>

record placement_request =
  pq_provider :: string
  pq_policy :: json
  pq_existing :: "string option"
  pq_cooling :: "string list"
  pq_regions :: "constraints option"
  pq_requirements :: requirements

definition warm :: "pyenv \<Rightarrow> placement_request \<Rightarrow> offer list \<Rightarrow> offer list" where
  \<comment> \<open>offers that are not on cooldown\<close>
  "warm env q os = filter (\<lambda>x. py_str env (of_id x) \<notin> set (pq_cooling q)) os"

section \<open>Storage lifecycle\<close>

datatype lifecycle = Proceed | Storage_Failure string | Decided placement_decision

definition unavailable :: "string \<Rightarrow> string \<Rightarrow> placement_decision" where
  "unavailable action reason =
     \<lparr>pd_action = action, pd_candidate = None, pd_reason = reason, pd_considered = [], pd_fallback = False\<rparr>"

definition fallback_key :: "pyenv \<Rightarrow> offer \<Rightarrow> (bool \<times> rat) \<times> string" where
  "fallback_key env x = (rate_key (of_rate x), or_text env (of_id x) [])"

definition storage_failure :: "pyenv \<Rightarrow> connector \<Rightarrow> placement_request \<Rightarrow> string \<Rightarrow> pyerr + placement_decision" where
  "storage_failure env cn q reason =
     (if obj_get (pq_policy q) ''policy'' = JStr ''smart'' \<and> obj_get (pq_policy q) ''cold_fallback'' = JStr ''allow''
      then
        (case cn_offers cn (pq_regions q) of
           Inl e \<Rightarrow> Inl e
         | Inr os \<Rightarrow>
             (case sort_key (fallback_key env) (warm env q os) of
                [] \<Rightarrow> Inr (unavailable ''unavailable'' reason)
              | x # xs \<Rightarrow>
                  Inr \<lparr>pd_action = ''launch'', pd_candidate = Some (cold_candidate x),
                       pd_reason = reason @ ''_running_cold'', pd_considered = [], pd_fallback = True\<rparr>))
      else Inr (unavailable ''unavailable'' reason))"

definition volume_confirmed :: "storage option \<Rightarrow> cache_volume \<Rightarrow> bool" where
  "volume_confirmed actual v \<longleftrightarrow> (case actual of None \<Rightarrow> False | Some s \<Rightarrow> st_datacenter s = cv_datacenter_id v)"

fun recheck_volumes ::
  "connector \<Rightarrow> placement_request \<Rightarrow> cache_volume list \<Rightarrow> registry \<Rightarrow> registry \<times> (pyerr + lifecycle)"
where
  \<comment> \<open>a volume that is gone or moved is degraded; the configured one ends the placement\<close>
  "recheck_volumes cn q [] d = (d, Inr Proceed)"
| "recheck_volumes cn q (v # vs) d =
     (if cv_provider v \<noteq> pq_provider q then recheck_volumes cn q vs d
      else
        (case cn_storage cn (cv_provider_volume_id v) of
           Inl e \<Rightarrow> (d, Inl e)
         | Inr actual \<Rightarrow>
             if volume_confirmed actual v then recheck_volumes cn q vs d
             else
               (case mark_volume d (cv_id v) ''degraded'' of
                  Inl e \<Rightarrow> (d, Inl e)
                | Inr (d', u) \<Rightarrow>
                    if Some (cv_provider_volume_id v) = pq_existing q
                    then (d', Inr (Storage_Failure
                           (if actual = None then ''configured_cache_volume_not_found''
                            else ''configured_cache_volume_wrong_datacenter'')))
                    else recheck_volumes cn q vs d')))"

definition register_storage ::
  "string \<Rightarrow> placement_request \<Rightarrow> string \<Rightarrow> storage \<Rightarrow> registry \<Rightarrow> registry \<times> (pyerr + lifecycle)"
where
  "register_storage uuid q ownership s d =
     (case upsert_volume uuid d (pq_provider q) (st_id s) (st_datacenter s) ownership
             (st_size_gb s * 1024 ^ 3) (pq_policy q) ''ready'' (st_s3 s) None of
        Inl e \<Rightarrow> (d, Inl e)
      | Inr (d', v) \<Rightarrow> (d', Inr Proceed))"

definition adopt_existing ::
  "connector \<Rightarrow> placement_request \<Rightarrow> string \<Rightarrow> registry \<Rightarrow> registry \<times> (pyerr + lifecycle)"
where
  "adopt_existing cn q uuid d =
     (if \<not> given (pq_existing q) \<or>
         get_provider_volume d (pq_provider q) (or_default [] (pq_existing q)) \<noteq> None
      then (d, Inr Proceed)
      else
        (case cn_storage cn (or_default [] (pq_existing q)) of
           Inl e \<Rightarrow> (d, Inl e)
         | Inr None \<Rightarrow> (d, Inr (Storage_Failure ''configured_cache_volume_not_found''))
         | Inr (Some s) \<Rightarrow>
             if obj_get (pq_policy q) ''region'' \<notin> {JStr ''auto'', JStr (st_datacenter s)}
             then (d, Inr (Storage_Failure ''configured_cache_volume_wrong_datacenter''))
             else register_storage uuid q ''adopted'' s d))"

definition ready_volumes :: "placement_request \<Rightarrow> registry \<Rightarrow> cache_volume list" where
  "ready_volumes q d = filter (\<lambda>v. cv_provider v = pq_provider q) (list_volumes d (Some ''ready''))"

definition over_budget :: "pyenv \<Rightarrow> rat \<Rightarrow> json \<Rightarrow> pyerr + bool" where
  \<comment> \<open>\<open>budget is not None and monthly > float(budget)\<close>\<close>
  "over_budget env monthly budget =
     (if budget = JNull then Inr False
      else case py_float env budget of
             Inl e \<Rightarrow> Inl e
           | Inr (JFloat b) \<Rightarrow> Inr (b < monthly)
           | Inr (JInf positive) \<Rightarrow> Inr (\<not> positive)
           | Inr _ \<Rightarrow> Inr False)"

definition managed_name :: "string \<Rightarrow> string" where
  "managed_name region = ''cloud-offload-'' @ py_lower region"

definition create_managed ::
  "pyenv \<Rightarrow> connector \<Rightarrow> placement_request \<Rightarrow> string \<Rightarrow> registry \<Rightarrow> registry \<times> (pyerr + lifecycle)"
where
  "create_managed env cn q uuid d =
     (if ready_volumes q d \<noteq> [] \<or> given (pq_existing q) then (d, Inr Proceed)
      else
        (let region = or_text env (obj_get (pq_policy q) ''region'') ''auto'';
             outside = (case pq_regions q of None \<Rightarrow> False | Some c \<Rightarrow> region \<notin> set (ct_datacenters c))
         in if outside \<and> region \<noteq> ''auto''
            then (d, Inr (Storage_Failure ''managed_cache_region_outside_allowed_regions''))
            else if region = ''auto''
            then (d, Inr (Decided (unavailable ''ask'' ''managed_cache_region_selection_required'')))
            else
        (case py_int (let v = obj_get (pq_policy q) ''managed_size_gb'' in if truthy v then v else JInt 250) of
           Inl e \<Rightarrow> (d, Inl e)
         | Inr gb \<Rightarrow>
        (case over_budget env (estimate_runpod_storage_monthly (of_int gb))
                (obj_get (pq_policy q) ''max_monthly_storage_cost'') of
           Inl e \<Rightarrow> (d, Inl e)
         | Inr over \<Rightarrow>
             if over
             then (d, Inr (Decided (unavailable ''unavailable'' ''managed_cache_exceeds_storage_budget'')))
             else
        (case cn_create cn (managed_name region) gb region of
           Inl e \<Rightarrow> (d, Inl e)
         | Inr s \<Rightarrow> register_storage uuid q ''managed'' s d)))))"

definition then_step ::
  "registry \<times> (pyerr + lifecycle) \<Rightarrow> (registry \<Rightarrow> registry \<times> (pyerr + lifecycle)) \<Rightarrow> registry \<times> (pyerr + lifecycle)"
where
  "then_step r f = (case r of (d, Inr Proceed) \<Rightarrow> f d | _ \<Rightarrow> r)"

definition storage_lifecycle ::
  "pyenv \<Rightarrow> connector \<Rightarrow> placement_request \<Rightarrow> string \<Rightarrow> registry \<Rightarrow> registry \<times> (pyerr + lifecycle)"
where
  \<comment> \<open>the body of the \<open>try\<close>; a step that committed stays when a later one raises\<close>
  "storage_lifecycle env cn q uuid d =
     then_step (then_step (recheck_volumes cn q (list_volumes d None) d) (adopt_existing cn q uuid))
       (create_managed env cn q uuid)"

section \<open>Candidates\<close>

record covered =
  cd_cached :: int
  cd_required :: int
  cd_complete :: bool
  cd_manifests :: "string list"

definition coverage_for :: "requirements \<Rightarrow> coverage list \<Rightarrow> cache_volume \<Rightarrow> covered" where
  \<comment> \<open>the coverage of a volume, or nothing covered\<close>
  "coverage_for rq cs v =
     (case find (\<lambda>c. cv_id (cg_volume c) = cv_id v) (rev cs) of
        Some c \<Rightarrow> \<lparr>cd_cached = cg_cached_bytes c, cd_required = cg_required_bytes c,
                   cd_complete = cg_complete c, cd_manifests = cg_manifest_ids c\<rparr>
      | None \<Rightarrow> \<lparr>cd_cached = 0, cd_required = sum_list (map snd (rq_required rq)),
                 cd_complete = (rq_required rq = []), cd_manifests = []\<rparr>)"

definition volume_allowed :: "placement_request \<Rightarrow> cache_volume \<Rightarrow> bool" where
  "volume_allowed q v \<longleftrightarrow>
     (case pq_regions q of None \<Rightarrow> True | Some c \<Rightarrow> cv_datacenter_id v \<in> set (ct_datacenters c)) \<and>
     (obj_get (pq_policy q) ''policy'' = JStr ''pinned'' \<longrightarrow>
        obj_get (pq_policy q) ''region'' = JStr (cv_datacenter_id v))"

definition volume_constraints :: "cache_volume \<Rightarrow> pyerr + constraints" where
  "volume_constraints v =
     (case make_attachment (cv_provider_volume_id v) ''/workspace'' False (Some (cv_datacenter_id v)) of
        Inl e \<Rightarrow> Inl e | Inr a \<Rightarrow> make_constraints [cv_datacenter_id v] [a])"

definition offer_candidate :: "cache_volume \<Rightarrow> covered \<Rightarrow> offer \<Rightarrow> candidate" where
  "offer_candidate v c x =
     \<lparr>pc_offer = x, pc_volume = Some v, pc_cached = cd_cached c, pc_required = cd_required c,
      pc_complete = cd_complete c, pc_manifests = cd_manifests c, pc_estimate = []\<rparr>"

definition volume_candidates ::
  "pyenv \<Rightarrow> connector \<Rightarrow> placement_request \<Rightarrow> coverage list \<Rightarrow> cache_volume \<Rightarrow> pyerr + candidate list"
where
  \<comment> \<open>a provider that cannot list the offers near a volume skips it\<close>
  "volume_candidates env cn q cs v =
     (if \<not> volume_allowed q v then Inr []
      else
        (case volume_constraints v of
           Inl e \<Rightarrow> Inl e
         | Inr c \<Rightarrow>
             (case cn_offers cn (Some c) of
                Inl e \<Rightarrow> Inr []
              | Inr os \<Rightarrow> Inr (map (offer_candidate v (coverage_for (pq_requirements q) cs v)) (warm env q os)))))"

definition request_coverage :: "pyenv \<Rightarrow> placement_request \<Rightarrow> registry \<Rightarrow> pyerr + coverage list" where
  "request_coverage env q d =
     (let rq = pq_requirements q; policy = pq_policy q in
     (case scheduler_runtime env rq of Inl e \<Rightarrow> Inl e | Inr runtime \<Rightarrow>
     (case volume_coverage env d (rq_required rq) runtime (or_text env (obj_get policy ''tenant'') ''default'')
             (Some (rq_profile rq)) (truthy (obj_get policy ''cache_private_assets'')) (rq_logical rq) of
        Inl e \<Rightarrow> Inl e
      | Inr cs \<Rightarrow> Inr (filter (\<lambda>c. cv_provider (cg_volume c) = pq_provider q) cs))))"

definition rank_candidates :: "pyenv \<Rightarrow> connector \<Rightarrow> placement_request \<Rightarrow> registry \<Rightarrow> pyerr + placement_decision" where
  "rank_candidates env cn q d =
     (case request_coverage env q d of Inl e \<Rightarrow> Inl e | Inr cs \<Rightarrow>
     (case collect (volume_candidates env cn q cs) (ready_volumes q d) of Inl e \<Rightarrow> Inl e | Inr cached \<Rightarrow>
     (case cn_offers cn (pq_regions q) of
        Inl e \<Rightarrow> Inl e
      | Inr os \<Rightarrow> Inr (choose_placement env (pq_policy q) cached (warm env q os)))))"

definition choose_cache_placement ::
  "pyenv \<Rightarrow> (pyerr \<Rightarrow> string) \<Rightarrow> connector \<Rightarrow> placement_request \<Rightarrow> string \<Rightarrow> registry \<Rightarrow>
   registry \<times> (pyerr + placement_decision)"
where
  \<comment> \<open>\<open>err_text\<close> is \<open>str(exc)\<close>\<close>
  "choose_cache_placement env err_text cn q uuid d =
     (case storage_lifecycle env cn q uuid d of
        (d', Inl e) \<Rightarrow> (d', storage_failure env cn q (''prepared_storage_lifecycle_failed: '' @ err_text e))
      | (d', Inr (Storage_Failure reason)) \<Rightarrow> (d', storage_failure env cn q reason)
      | (d', Inr (Decided p)) \<Rightarrow> (d', Inr p)
      | (d', Inr Proceed) \<Rightarrow> (d', rank_candidates env cn q d'))"

end
