(* ===== verification/SchedulerProps.thy ===== *)
theory SchedulerProps
  imports Requirements Samples
begin

text \<open>
  The placement policy: what is launched is the best eligible candidate, cold compute is rented
  only where the policy allows it, the constraints pin the volume that was chosen; and the
  requirement identity of a profile agrees with the runtime the control plane asks for.
\<close>

section \<open>The policy\<close>

lemma sort_key_head:
  assumes "sort_key f xs = y # ys"
  shows "y \<in> set xs \<and> (\<forall>x \<in> set xs. f y \<le> f x)"
proof -
  have "sorted (map f (y # ys))" using assms by (metis sorted_sort_key)
  moreover have "set (y # ys) = set xs" using assms by (metis set_sort)
  ultimately show ?thesis by auto
qed

lemma cheapest_Some:
  "cheapest env os = Some o' \<Longrightarrow> o' \<in> set os \<and> (\<forall>x \<in> set os. cold_key env o' \<le> cold_key env x)"
  by (auto simp: cheapest_def split: list.splits dest: sort_key_head)

lemma cheapest_None: "cheapest env os = None \<longleftrightarrow> os = []"
  by (auto simp: cheapest_def split: list.splits dest: arg_cong [where f = length])

lemma eligible_iff:
  "c \<in> set (eligible_candidates mode region cs) \<longleftrightarrow>
     c \<in> set cs \<and> pc_volume c \<noteq> None \<and> (mode = ''pinned'' \<longrightarrow> pc_datacenter c = Some region)"
  by (auto simp: eligible_candidates_def)

lemma candidate_order:
  assumes "candidate_key env c \<le> candidate_key env x"
  shows "(pc_complete x \<longrightarrow> pc_complete c) \<and>
     (pc_complete x = pc_complete c \<longrightarrow> pc_cached x \<le> pc_cached c \<and>
        (pc_cached x = pc_cached c \<longrightarrow> rate_key (of_rate (pc_offer c)) \<le> rate_key (of_rate (pc_offer x))))"
  using assms by (auto simp: candidate_key_def split: if_splits dest: less_imp_le)

definition policy_mode :: "pyenv \<Rightarrow> json \<Rightarrow> string" where
  "policy_mode env policy = or_text env (obj_get policy ''policy'') ''off''"

definition policy_region :: "pyenv \<Rightarrow> json \<Rightarrow> string" where
  "policy_region env policy = or_text env (obj_get policy ''region'') ''auto''"

definition policy_fallback :: "pyenv \<Rightarrow> json \<Rightarrow> string" where
  "policy_fallback env policy = or_text env (obj_get policy ''cold_fallback'') ''allow''"

definition policy_enabled :: "pyenv \<Rightarrow> json \<Rightarrow> bool" where
  "policy_enabled env policy \<longleftrightarrow> truthy (obj_get policy ''enabled'') \<and> policy_mode env policy \<noteq> ''off''"

abbreviation policy_eligible :: "pyenv \<Rightarrow> json \<Rightarrow> candidate \<Rightarrow> bool" where
  "policy_eligible env policy x \<equiv>
     pc_volume x \<noteq> None \<and>
     (policy_mode env policy = ''pinned'' \<longrightarrow> pc_datacenter x = Some (policy_region env policy))"

lemmas policy_defs = policy_mode_def policy_region_def policy_fallback_def policy_enabled_def

lemma choose_cases:
  assumes "pd_candidate (choose_placement env policy cached cold) = Some c"
  obtains (disabled) o' where "\<not> policy_enabled env policy" "cheapest env cold = Some o'" "c = cold_candidate o'"
  | (cached) cs where "policy_enabled env policy"
      "sort_key (candidate_key env) (eligible_candidates (policy_mode env policy) (policy_region env policy) cached) = c # cs"
      "pd_fallback (choose_placement env policy cached cold) = False"
  | (cold) o' where "policy_enabled env policy"
      "eligible_candidates (policy_mode env policy) (policy_region env policy) cached = []"
      "policy_mode env policy \<notin> {''strict'', ''pinned''}" "policy_fallback env policy \<notin> {''deny'', ''ask''}"
      "cheapest env cold = Some o'" "c = cold_candidate o'" "pd_fallback (choose_placement env policy cached cold)"
proof (cases "policy_enabled env policy")
  case False
  then show thesis
    using assms disabled by (auto simp: choose_placement_def Let_def policy_defs split: option.splits)
next
  case on: True
  let ?e = "eligible_candidates (policy_mode env policy) (policy_region env policy) cached"
  show thesis
  proof (cases "sort_key (candidate_key env) ?e")
    case Nil
    then have "?e = []" by (metis length_sort length_0_conv)
    with Nil on assms cold show thesis
      by (auto simp: choose_placement_def Let_def policy_defs split: option.splits if_splits)
  next
    case (Cons y ys)
    with on assms cached show thesis by (auto simp: choose_placement_def Let_def policy_defs)
  qed
qed

lemma cold_no_volume [simp]: "pc_volume (cold_candidate o') = None"
  by (simp add: cold_candidate_def)

definition sample_store :: "string \<Rightarrow> string \<Rightarrow> cache_volume" where
  "sample_store i region =
     \<lparr>cv_id = i, cv_provider = ''runpod'', cv_provider_volume_id = i, cv_datacenter_id = region,
      cv_ownership = ''managed'', cv_status = ''ready'', cv_capacity_bytes = 100, cv_generation = None,
      cv_verified_at = None, cv_policy = JObj [], cv_s3 = False\<rparr>"

definition sample_offer :: "string \<Rightarrow> rat \<Rightarrow> offer" where
  "sample_offer i q = \<lparr>of_id = JStr i, of_provider = JStr ''runpod'', of_rate = Some q\<rparr>"

definition sample_candidate :: "string \<Rightarrow> rat \<Rightarrow> int \<Rightarrow> candidate" where
  "sample_candidate i q n =
     \<lparr>pc_offer = sample_offer i q, pc_volume = Some (sample_store i ''EU''), pc_cached = n,
      pc_required = 9, pc_complete = (n = 9), pc_manifests = [], pc_estimate = []\<rparr>"

definition storage_policy :: "string \<Rightarrow> json" where
  "storage_policy mode = JObj [(''enabled'', JBool True), (''policy'', JStr mode), (''region'', JStr ''EU'')]"

text \<open>C37: A cached placement is an eligible candidate, in the pinned region if one is pinned, and no
  eligible candidate is better: none is complete unless it is, none of its kind covers more
  bytes, none of its coverage is cheaper.\<close>

lemma placement_is_best:
  assumes "pd_candidate (choose_placement env policy cached cold) = Some c" and "pc_volume c \<noteq> None"
  shows "c \<in> set cached \<and> policy_eligible env policy c \<and>
     (\<forall>x \<in> set cached. policy_eligible env policy x \<longrightarrow>
        (pc_complete x \<longrightarrow> pc_complete c) \<and>
        (pc_complete x = pc_complete c \<longrightarrow> pc_cached x \<le> pc_cached c \<and>
           (pc_cached x = pc_cached c \<longrightarrow>
              rate_key (of_rate (pc_offer c)) \<le> rate_key (of_rate (pc_offer x)))))"
  using assms(1)
proof (cases rule: choose_cases)
  case (cached cs)
  let ?e = "eligible_candidates (policy_mode env policy) (policy_region env policy) cached"
  have h: "c \<in> set ?e" "\<And>x. x \<in> set ?e \<Longrightarrow> candidate_key env c \<le> candidate_key env x"
    using sort_key_head [OF cached(2)] by auto
  have "c \<in> set cached" "policy_eligible env policy c" using h(1) unfolding eligible_iff by auto
  moreover have "x \<in> set ?e" if "x \<in> set cached" "policy_eligible env policy x" for x
    using that unfolding eligible_iff by simp
  ultimately show ?thesis using h(2) candidate_order by blast
qed (use assms(2) in simp_all)

lemma placement_is_best_witness:
  "\<exists>c. pd_candidate (choose_placement sample_env (storage_policy ''pinned'')
        [sample_candidate ''a'' 1 3, sample_candidate ''b'' 2 9] [sample_offer ''c'' 1]) = Some c \<and>
     pc_complete c \<and> pc_datacenter c = Some ''EU''"
proof -
  let ?cs = "[sample_candidate ''a'' 1 3, sample_candidate ''b'' 2 9]"
  let ?p = "choose_placement sample_env (storage_policy ''pinned'') ?cs [sample_offer ''c'' 1]"
  have "(case pd_candidate ?p of None \<Rightarrow> False | Some c \<Rightarrow> pc_volume c \<noteq> None)" by code_simp
  then obtain c where c: "pd_candidate ?p = Some c" "pc_volume c \<noteq> None" by (auto split: option.splits)
  have e: "policy_mode sample_env (storage_policy ''pinned'') = ''pinned''"
    "policy_region sample_env (storage_policy ''pinned'') = ''EU''"
    "sample_candidate ''b'' 2 9 \<in> set ?cs" "pc_volume (sample_candidate ''b'' 2 9) \<noteq> None"
    "pc_datacenter (sample_candidate ''b'' 2 9) = Some ''EU''" "pc_complete (sample_candidate ''b'' 2 9)"
    by (simp_all add: policy_defs storage_policy_def or_text_def sample_candidate_def sample_store_def
        pc_datacenter_def)
  show ?thesis using placement_is_best [OF c] e c(1) by metis
qed

text \<open>With prepared storage enabled, compute without a volume is launched only as a declared
  fallback, when the policy is neither strict nor pinned nor denies or asks, no candidate has a
  volume, and then at the cheapest cold offer.\<close>

lemma cold_only_when_allowed:
  assumes "pd_candidate (choose_placement env policy cached cold) = Some c" and "pc_volume c = None"
    and "policy_enabled env policy"
  shows "policy_mode env policy \<notin> {''strict'', ''pinned''} \<and> policy_fallback env policy \<notin> {''deny'', ''ask''} \<and>
     pd_fallback (choose_placement env policy cached cold) \<and> (\<forall>x \<in> set cached. pc_volume x = None) \<and>
     (\<exists>o' \<in> set cold. c = cold_candidate o' \<and>
        (\<forall>x \<in> set cold. rate_key (of_rate o') \<le> rate_key (of_rate x)))"
  using assms(1)
proof (cases rule: choose_cases)
  case (disabled o')
  then show ?thesis using assms(3) by simp
next
  case (cached cs)
  then have "c \<in> set (eligible_candidates (policy_mode env policy) (policy_region env policy) cached)"
    using sort_key_head [OF cached(2)] by simp
  then show ?thesis using assms(2) unfolding eligible_iff by simp
next
  case (cold o')
  have "\<forall>x \<in> set cached. pc_volume x = None"
    using cold(2,3) by (auto simp: eligible_candidates_def filter_empty_conv)
  moreover have "rate_key (of_rate o') \<le> rate_key (of_rate x)" if "x \<in> set cold" for x
    using cheapest_Some [OF cold(5)] that by (auto simp: cold_key_def dest: less_imp_le)
  ultimately show ?thesis using cold cheapest_Some [OF cold(5)] by auto
qed

lemma cold_only_when_allowed_witness:
  "\<exists>c. pd_candidate (choose_placement sample_env (storage_policy ''prefer'') [] [sample_offer ''c'' 2, sample_offer ''d'' 1]) =
     Some c \<and> pc_volume c = None \<and> of_rate (pc_offer c) \<noteq> Some 2"
proof -
  let ?os = "[sample_offer ''c'' 2, sample_offer ''d'' 1]"
  let ?p = "choose_placement sample_env (storage_policy ''prefer'') [] ?os"
  have "(case pd_candidate ?p of None \<Rightarrow> False | Some c \<Rightarrow> pc_volume c = None)" by code_simp
  then obtain c where c: "pd_candidate ?p = Some c" "pc_volume c = None" by (auto split: option.splits)
  have "policy_enabled sample_env (storage_policy ''prefer'')"
    by (simp add: policy_defs storage_policy_def or_text_def)
  then obtain o' where o': "c = cold_candidate o'" "\<forall>x \<in> set ?os. rate_key (of_rate o') \<le> rate_key (of_rate x)"
    using cold_only_when_allowed [OF c] by blast
  have "of_rate o' \<noteq> Some 2" using o'(2) by (auto simp: rate_key_def sample_offer_def)
  then show ?thesis using c o'(1) by (auto simp: cold_candidate_def)
qed

text \<open>The constraints of a cached placement name the region of the chosen volume and attach that
  volume and nothing else; a placement without a volume has no constraints.\<close>

lemma placement_pins_volume:
  assumes "pd_candidate p = Some c"
  shows "(pc_volume c = None \<longrightarrow> placement p = Inr None) \<and>
     (\<forall>v. pc_volume c = Some v \<longrightarrow>
        (if py_strip (cv_provider_volume_id v) = [] then isl (placement p)
         else placement p = Inr (Some \<lparr>ct_datacenters = [cv_datacenter_id v],
                ct_attachments = [\<lparr>sa_volume = cv_provider_volume_id v, sa_mount = ''/workspace'',
                   sa_read_only = False, sa_datacenter = Some (cv_datacenter_id v)\<rparr>]\<rparr>)))"
  using assms by (simp add: placement_def make_attachment_def make_constraints_def or_default_def)

lemma placement_pins_volume_witness:
  "placement \<lparr>pd_action = ''launch'', pd_candidate = Some (sample_candidate ''a'' 1 3), pd_reason = ''r'',
      pd_considered = [], pd_fallback = False\<rparr> =
   Inr (Some \<lparr>ct_datacenters = [''EU''], ct_attachments = [\<lparr>sa_volume = ''a'', sa_mount = ''/workspace'',
          sa_read_only = False, sa_datacenter = Some ''EU''\<rparr>]\<rparr>)"
proof -
  let ?p = "\<lparr>pd_action = ''launch'', pd_candidate = Some (sample_candidate ''a'' 1 3), pd_reason = ''r'',
      pd_considered = [], pd_fallback = False\<rparr>"
  have e: "pd_candidate ?p = Some (sample_candidate ''a'' 1 3)" by simp
  have v: "pc_volume (sample_candidate ''a'' 1 3) = Some (sample_store ''a'' ''EU'')"
    by (simp add: sample_candidate_def)
  have "py_strip ''a'' \<noteq> []" by code_simp
  then show ?thesis using placement_pins_volume [OF e] v by (simp add: sample_store_def)
qed

section \<open>Requirements\<close>

lemma node_keys_lock:
  assumes "node_keys env profile = Inr ks" and "truthy (obj_get profile ''custom_nodes'')"
  obtains lock k where
    "fingerprint env (lock_value (or_arr (obj_get profile ''custom_nodes''))
                        (or_null (obj_get profile ''wheelhouse_sha256''))) = Inr lock"
    "environment_requirement_key lock = Inr k" "k \<in> set ks"
  using assms by (auto simp: node_keys_def Let_def split: sum.splits)

lemma or_arr_twice [simp]: "or_arr (or_arr v) = or_arr v"
  by (simp add: or_arr_def)

lemma resolve_parts:
  assumes "resolve_prepared_requirements env name profile requests = Inr rq"
  obtains m ws wk nk where "fold_tx (job_artifacts env) requests [] = Inr m"
    "node_keys env profile = Inr nk" "rq_identity rq = runtime_identity name profile ws"
    "rq_required rq = map (\<lambda>(k, v). (k, fst v)) (sort_key fst m)" "rq_logical rq = sort (remdups (wk @ nk))"
    "rq_constraints rq = runtime_constraints env profile"
  using assms by (auto simp: resolve_prepared_requirements_def Let_def split: sum.splits)

lemma runtime_constraints_keys: "kv \<in> set (runtime_constraints env profile) \<Longrightarrow> fst kv \<noteq> ''dependency_lock''"
  by (auto simp: runtime_constraints_def split: if_splits)

text \<open>A profile with custom nodes requires exactly the environment whose lock the scheduler puts
  in the runtime it asks for: both sides compute the same fingerprint.\<close>

lemma runtime_meets_environment:
  assumes "resolve_prepared_requirements env name profile requests = Inr rq"
    and "truthy (obj_get profile ''custom_nodes'')"
  shows "\<exists>runtime lock k. scheduler_runtime env rq = Inr runtime \<and>
     obj_get runtime ''dependency_lock'' = JStr lock \<and>
     environment_requirement_key lock = Inr k \<and> k \<in> set (rq_logical rq)"
proof -
  obtain m ws wk nk where nk: "node_keys env profile = Inr nk"
    and i: "rq_identity rq = runtime_identity name profile ws"
    and l: "rq_logical rq = sort (remdups (wk @ nk))"
    by (rule resolve_parts [OF assms(1)])
  obtain lock k where lock: "fingerprint env (lock_value (or_arr (obj_get profile ''custom_nodes''))
                        (or_null (obj_get profile ''wheelhouse_sha256''))) = Inr lock"
    and k: "environment_requirement_key lock = Inr k" "k \<in> set nk"
    by (rule node_keys_lock [OF nk assms(2)])
  have id: "or_obj (rq_identity rq) = rq_identity rq" "obj_get (rq_identity rq) ''custom_nodes'' = or_arr (obj_get profile ''custom_nodes'')"
    "obj_get (rq_identity rq) ''wheelhouse_sha256'' = or_null (obj_get profile ''wheelhouse_sha256'')"
    by (simp_all add: i runtime_identity_def or_obj_def)
  show ?thesis using lock k by (simp add: scheduler_runtime_def id Let_def l)
qed

lemma runtime_meets_environment_witness:
  "\<exists>rq runtime lock k. resolve_prepared_requirements (sample_env\<lparr>sha256_hex := \<lambda>s. replicate 64 (CHR ''0'')\<rparr>) ''sdxl''
       (JObj [(''custom_nodes'', JArr [JObj [(''id'', JStr ''n1'')]])]) [JObj []] = Inr rq \<and>
     scheduler_runtime (sample_env\<lparr>sha256_hex := \<lambda>s. replicate 64 (CHR ''0'')\<rparr>) rq = Inr runtime \<and>
     obj_get runtime ''dependency_lock'' = JStr lock \<and>
     environment_requirement_key lock = Inr k \<and> k \<in> set (rq_logical rq)"
proof -
  let ?env = "sample_env\<lparr>sha256_hex := \<lambda>s. replicate 64 (CHR ''0'')\<rparr>"
  let ?profile = "JObj [(''custom_nodes'', JArr [JObj [(''id'', JStr ''n1'')]])]"
  let ?r = "resolve_prepared_requirements ?env ''sdxl'' ?profile [JObj []]"
  have "isl ?r = False" by code_simp
  then obtain rq where rq: "?r = Inr rq" by (cases ?r) simp_all
  show ?thesis using runtime_meets_environment [OF rq] rq by simp
qed

end
