(* ===== verification/DispatchProps.thy ===== *)
theory DispatchProps
  imports Dispatch RegistryProps SchedulerProps ManifestProps
begin

text \<open>
  The placement of a launch, with the registry and the scheduler composed: prepared compute runs
  only next to a volume that the provider confirmed during this placement, a complete candidate
  really has what the jobs need, and a strict or pinned policy never rents compute without its
  volume.
\<close>

section \<open>Rechecking\<close>

definition confirmed :: "connector \<Rightarrow> cache_volume \<Rightarrow> bool" where
  "confirmed cn v \<longleftrightarrow>
     (case cn_storage cn (cv_provider_volume_id v) of
        Inr actual \<Rightarrow> volume_confirmed actual v | Inl e \<Rightarrow> False)"

definition same_place :: "cache_volume \<Rightarrow> cache_volume \<Rightarrow> bool" where
  "same_place v w \<longleftrightarrow>
     cv_id w = cv_id v \<and> cv_provider w = cv_provider v \<and>
     cv_provider_volume_id w = cv_provider_volume_id v \<and> cv_datacenter_id w = cv_datacenter_id v"

lemma same_place_refl [simp]: "same_place v v"
  by (simp add: same_place_def)

lemma same_place_confirmed: "same_place v w \<Longrightarrow> confirmed cn w = confirmed cn v"
  by (auto simp: same_place_def confirmed_def volume_confirmed_def split: sum.splits option.splits)

lemma mark_degraded_rows:
  assumes "mark_volume d i ''degraded'' = Inr (d', u)" and "w \<in> set (rg_volumes d')" and "cv_status w = ''ready''"
  shows "w \<in> set (rg_volumes d) \<and> cv_id w \<noteq> i"
proof -
  have "rg_volumes d' = update_where (\<lambda>v. cv_id v = i) (cv_status_update (\<lambda>_. ''degraded'')) (rg_volumes d)"
    using assms(1) by (auto simp: mark_volume_def update_volume_def split: if_splits)
  then obtain x where x: "x \<in> set (rg_volumes d)" "w = (if cv_id x = i then x\<lparr>cv_status := ''degraded''\<rparr> else x)"
    using assms(2) by (auto simp: set_update_where)
  show ?thesis
  proof (cases "cv_id x = i")
    case True
    then have "cv_status w = ''degraded''" using x(2) by simp
    then show ?thesis using assms(3) by simp
  next
    case False
    then show ?thesis using x by simp
  qed
qed

lemma recheck_confirms:
  assumes "recheck_volumes cn q vs d = (d', Inr Proceed)"
    and "\<And>w. w \<in> set (rg_volumes d) \<Longrightarrow> cv_provider w = pq_provider q \<Longrightarrow> cv_status w = ''ready'' \<Longrightarrow>
           \<not> confirmed cn w \<Longrightarrow> \<exists>v \<in> set vs. same_place v w"
    and "w \<in> set (rg_volumes d')" "cv_provider w = pq_provider q" "cv_status w = ''ready''"
  shows "confirmed cn w"
  using assms
proof (induction vs arbitrary: d)
  case Nil
  then show ?case by fastforce
next
  case (Cons v vs)
  consider (other) "cv_provider v \<noteq> pq_provider q" "recheck_volumes cn q vs d = (d', Inr Proceed)"
    | (held) "confirmed cn v" "recheck_volumes cn q vs d = (d', Inr Proceed)"
    | (gone) e u where "mark_volume d (cv_id v) ''degraded'' = Inr (e, u)"
        "recheck_volumes cn q vs e = (d', Inr Proceed)"
    using Cons.prems(1)
    by (auto simp: confirmed_def split: if_splits sum.splits)
  then show ?case
  proof cases
    case other
    show ?thesis
    proof (rule Cons.IH [OF other(2) _ Cons.prems(3-5)])
      fix x
      assume x: "x \<in> set (rg_volumes d)" "cv_provider x = pq_provider q" "cv_status x = ''ready''" "\<not> confirmed cn x"
      obtain y where "y \<in> set (v # vs)" "same_place y x" using Cons.prems(2) [OF x] by blast
      moreover have "\<not> same_place v x" using other(1) x(2) by (simp add: same_place_def)
      ultimately show "\<exists>v \<in> set vs. same_place v x" by auto
    qed
  next
    case held
    show ?thesis
    proof (rule Cons.IH [OF held(2) _ Cons.prems(3-5)])
      fix x
      assume x: "x \<in> set (rg_volumes d)" "cv_provider x = pq_provider q" "cv_status x = ''ready''" "\<not> confirmed cn x"
      obtain y where "y \<in> set (v # vs)" "same_place y x" using Cons.prems(2) [OF x] by blast
      moreover have "\<not> same_place v x" using held(1) x(4) same_place_confirmed by blast
      ultimately show "\<exists>v \<in> set vs. same_place v x" by auto
    qed
  next
    case gone
    show ?thesis
    proof (rule Cons.IH [OF gone(2) _ Cons.prems(3-5)])
      fix x
      assume x: "x \<in> set (rg_volumes e)" "cv_provider x = pq_provider q" "cv_status x = ''ready''" "\<not> confirmed cn x"
      have m: "x \<in> set (rg_volumes d)" "cv_id x \<noteq> cv_id v" using mark_degraded_rows [OF gone(1) x(1,3)] by simp_all
      obtain y where "y \<in> set (v # vs)" "same_place y x" using Cons.prems(2) [OF m(1) x(2-4)] by blast
      moreover have "\<not> same_place v x" using m(2) by (simp add: same_place_def)
      ultimately show "\<exists>v \<in> set vs. same_place v x" by auto
    qed
  qed
qed

lemma recheck_ok: "registry_ok d \<Longrightarrow> registry_ok (fst (recheck_volumes cn q vs d))"
  by (induction vs arbitrary: d)
     (auto split: sum.splits dest: kept_ok [OF mark_volume_keeps])

section \<open>Registering\<close>

lemma register_rows:
  assumes "register_storage uuid q ow s d = (d', r)" and "w \<in> set (rg_volumes d')"
  shows "w \<in> set (rg_volumes d) \<or>
     cv_provider_volume_id w = st_id s \<and> cv_datacenter_id w = st_datacenter s"
  using assms
  by (auto simp: register_storage_def upsert_volume_def Let_def split: sum.splits if_splits option.splits
           dest!: set_upsert)

lemma register_ok: "registry_ok d \<Longrightarrow> registry_ok (fst (register_storage uuid q ow s d))"
  by (auto simp: register_storage_def split: sum.splits dest: upsert_volume_ok)

text \<open>
  What the provider answered for a volume in this placement: it holds it where the registry says,
  or it is the configured or the managed volume that was just registered.
\<close>

definition provider_holds :: "connector \<Rightarrow> placement_request \<Rightarrow> cache_volume \<Rightarrow> bool" where
  "provider_holds cn q v \<longleftrightarrow>
     confirmed cn v \<or>
     (\<exists>s. (cn_storage cn (or_default [] (pq_existing q)) = Inr (Some s) \<or>
            (\<exists>name gb region. cn_create cn name gb region = Inr s)) \<and>
        st_id s = cv_provider_volume_id v \<and> st_datacenter s = cv_datacenter_id v)"

lemma adopt_rows:
  assumes "adopt_existing cn q uuid d = (d', r)" and "w \<in> set (rg_volumes d')"
  shows "w \<in> set (rg_volumes d) \<or> provider_holds cn q w"
proof -
  have "d' = d \<or> (\<exists>s. cn_storage cn (or_default [] (pq_existing q)) = Inr (Some s) \<and>
      register_storage uuid q ''adopted'' s d = (d', r))"
    using assms(1) by (auto simp: adopt_existing_def split: sum.splits option.splits if_splits)
  then show ?thesis using register_rows assms(2) unfolding provider_holds_def by metis
qed

lemma managed_rows:
  assumes "create_managed env cn q uuid d = (d', r)" and "w \<in> set (rg_volumes d')"
  shows "w \<in> set (rg_volumes d) \<or> provider_holds cn q w"
proof -
  have "d' = d \<or> (\<exists>s name gb region. cn_create cn name gb region = Inr s \<and>
      register_storage uuid q ''managed'' s d = (d', r))"
    using assms(1) by (auto simp: create_managed_def Let_def split: sum.splits option.splits if_splits)
  then show ?thesis using register_rows assms(2) unfolding provider_holds_def by metis
qed

lemma then_step_Proceed:
  "then_step r f = (d', Inr Proceed) \<longleftrightarrow> (\<exists>d. r = (d, Inr Proceed) \<and> f d = (d', Inr Proceed))"
  by (auto simp: then_step_def split: prod.splits sum.splits lifecycle.splits)

lemma list_volumes_None: "set (list_volumes d None) = set (rg_volumes d)"
  by (simp add: list_volumes_def)

lemma lifecycle_holds:
  assumes "storage_lifecycle env cn q uuid d = (d', Inr Proceed)"
    and "v \<in> set (rg_volumes d')" "cv_provider v = pq_provider q" "cv_status v = ''ready''"
  shows "provider_holds cn q v"
proof -
  obtain d1 d2 where s: "recheck_volumes cn q (list_volumes d None) d = (d1, Inr Proceed)"
    "adopt_existing cn q uuid d1 = (d2, Inr Proceed)" "create_managed env cn q uuid d2 = (d', Inr Proceed)"
    using assms(1) by (auto simp: storage_lifecycle_def then_step_Proceed)
  have "confirmed cn v" if "v \<in> set (rg_volumes d1)"
    by (rule recheck_confirms [OF s(1) _ that assms(3,4)]) (auto simp: list_volumes_None intro: same_place_refl)
  then show ?thesis
    using adopt_rows [OF s(2)] managed_rows [OF s(3) assms(2)] unfolding provider_holds_def by blast
qed

lemma then_step_ok:
  "registry_ok (fst r) \<Longrightarrow> (\<And>d. registry_ok d \<Longrightarrow> registry_ok (fst (f d))) \<Longrightarrow> registry_ok (fst (then_step r f))"
  by (auto simp: then_step_def split: prod.splits sum.splits lifecycle.splits)

lemma adopt_ok: "registry_ok d \<Longrightarrow> registry_ok (fst (adopt_existing cn q uuid d))"
  by (auto simp: adopt_existing_def register_ok split: sum.splits option.splits)

lemma managed_ok: "registry_ok d \<Longrightarrow> registry_ok (fst (create_managed env cn q uuid d))"
  by (auto simp: create_managed_def register_ok Let_def split: sum.splits option.splits)

lemma lifecycle_ok: "registry_ok d \<Longrightarrow> registry_ok (fst (storage_lifecycle env cn q uuid d))"
  unfolding storage_lifecycle_def by (intro then_step_ok recheck_ok adopt_ok managed_ok)

section \<open>Ranking\<close>

lemma chosen_cached:
  assumes "pd_candidate (choose_placement env policy cached cold) = Some c" and "pc_volume c \<noteq> None"
  shows "c \<in> set cached"
  using assms(1)
proof (cases rule: choose_cases)
  case (cached cs)
  then show ?thesis using sort_key_head [OF cached(2)] unfolding eligible_iff by blast
qed (use assms(2) in simp_all)

lemma storage_failure_cold:
  "storage_failure env cn q reason = Inr p \<Longrightarrow> pd_candidate p = Some c \<Longrightarrow>
     pc_volume c = None \<and> obj_get (pq_policy q) ''policy'' = JStr ''smart''"
  by (auto simp: storage_failure_def unavailable_def split: if_splits sum.splits list.splits)

lemma decided_no_candidate:
  "create_managed env cn q uuid d = (d', Inr (Decided p)) \<Longrightarrow> pd_candidate p = None"
  by (auto simp: create_managed_def register_storage_def unavailable_def Let_def
      split: sum.splits option.splits if_splits)

lemma lifecycle_decided:
  assumes "storage_lifecycle env cn q uuid d = (d', Inr (Decided p))"
  shows "pd_candidate p = None"
proof -
  have "snd (recheck_volumes cn q vs e) \<noteq> Inr (Decided p)" for vs e
    by (induction vs arbitrary: e) (auto split: sum.splits)
  moreover have "snd (adopt_existing cn q uuid e) \<noteq> Inr (Decided p)" for e
    by (auto simp: adopt_existing_def register_storage_def split: sum.splits option.splits)
  ultimately show ?thesis
    using assms decided_no_candidate
    by (auto simp: storage_lifecycle_def then_step_def split: prod.splits sum.splits lifecycle.splits)
       (metis snd_conv)+
qed

lemma placement_cases:
  assumes "choose_cache_placement env et cn q uuid d = (d', Inr p)" and "pd_candidate p = Some c"
  obtains (failed) "pc_volume c = None" "obj_get (pq_policy q) ''policy'' = JStr ''smart''"
  | (ranked) "storage_lifecycle env cn q uuid d = (d', Inr Proceed)" "rank_candidates env cn q d' = Inr p"
  using assms storage_failure_cold [of env cn q _ p c] lifecycle_decided [of env cn q uuid d d' p]
  by (auto simp: choose_cache_placement_def split: prod.splits sum.splits lifecycle.splits)

lemma ranked_candidate:
  assumes "rank_candidates env cn q d = Inr p" and "pd_candidate p = Some c" and "pc_volume c = Some v"
  obtains cs ct os where "request_coverage env q d = Inr cs" "v \<in> set (ready_volumes q d)"
    "volume_allowed q v" "volume_constraints v = Inr ct" "cn_offers cn (Some ct) = Inr os"
    "pc_offer c \<in> set (warm env q os)"
    "pc_complete c = cd_complete (coverage_for (pq_requirements q) cs v)"
proof -
  obtain cs cached os where r: "request_coverage env q d = Inr cs"
    "collect (volume_candidates env cn q cs) (ready_volumes q d) = Inr cached"
    "p = choose_placement env (pq_policy q) cached (warm env q os)"
    using assms(1) by (auto simp: rank_candidates_def split: sum.splits)
  have "c \<in> set cached" using chosen_cached assms(2,3) r(3) by blast
  then obtain w zs where w: "w \<in> set (ready_volumes q d)" "volume_candidates env cn q cs w = Inr zs" "c \<in> set zs"
    using collect_in [OF r(2)] by blast
  then obtain ct os x where "volume_allowed q w" "volume_constraints w = Inr ct" "cn_offers cn (Some ct) = Inr os"
    "x \<in> set (warm env q os)" "c = offer_candidate w (coverage_for (pq_requirements q) cs w) x"
    by (auto simp: volume_candidates_def split: if_splits sum.splits)
  moreover from this(5) have "w = v" using assms(3) by (simp add: offer_candidate_def)
  ultimately show thesis using that r(1) w(1) by (simp add: offer_candidate_def)
qed

lemma constraints_region: "volume_constraints v = Inr ct \<Longrightarrow> ct_datacenters ct = [cv_datacenter_id v]"
  by (auto simp: volume_constraints_def make_attachment_def make_constraints_def split: if_splits)

lemma ready_iff: "v \<in> set (ready_volumes q d) \<longleftrightarrow>
    v \<in> set (rg_volumes d) \<and> cv_status v = ''ready'' \<and> cv_provider v = pq_provider q"
  by (auto simp: ready_volumes_def list_volumes_def)

lemma warm_iff: "x \<in> set (warm env q os) \<longleftrightarrow> x \<in> set os \<and> py_str env (of_id x) \<notin> set (pq_cooling q)"
  by (auto simp: warm_def)

text \<open>C38: Prepared compute is launched only next to a ready volume of the requested provider, in an
  allowed region and in the pinned one, that the provider answered for during this placement,
  with an offer that the provider listed for that region and that is not on cooldown.\<close>

theorem placement_on_confirmed_volume:
  assumes "choose_cache_placement env et cn q uuid d = (d', Inr p)"
    and "pd_candidate p = Some c" and "pc_volume c = Some v"
  shows "v \<in> set (rg_volumes d') \<and> cv_status v = ''ready'' \<and> cv_provider v = pq_provider q \<and>
     provider_holds cn q v \<and> volume_allowed q v \<and> py_str env (of_id (pc_offer c)) \<notin> set (pq_cooling q) \<and>
     (\<exists>ct os. cn_offers cn (Some ct) = Inr os \<and> pc_offer c \<in> set os \<and> ct_datacenters ct = [cv_datacenter_id v])"
  using assms(1,2)
proof (cases rule: placement_cases)
  case failed
  then show ?thesis using assms(3) by simp
next
  case ranked
  obtain cs ct os where r: "v \<in> set (ready_volumes q d')" "volume_allowed q v" "volume_constraints v = Inr ct"
    "cn_offers cn (Some ct) = Inr os" "pc_offer c \<in> set (warm env q os)"
    by (rule ranked_candidate [OF ranked(2) assms(2,3)])
  have v: "v \<in> set (rg_volumes d')" "cv_status v = ''ready''" "cv_provider v = pq_provider q"
    using r(1) unfolding ready_iff by simp_all
  then show ?thesis
    using r(2,4,5) lifecycle_holds [OF ranked(1) v(1,3,2)] constraints_region [OF r(3)] unfolding warm_iff by blast
qed

text \<open>When a candidate is launched as complete from a well-formed registry, no digest that the
  queued jobs require is invalidated on its volume, and the registry stays well-formed.\<close>

theorem complete_placement_serves:
  assumes "choose_cache_placement env et cn q uuid d = (d', Inr p)"
    and "pd_candidate p = Some c" and "pc_volume c = Some v" and "pc_complete c" and "registry_ok d"
  shows "registry_ok d' \<and> (\<forall>g \<in> fst ` set (rq_required (pq_requirements q)). \<not> invalidated d' (cv_id v) g)"
  using assms(1,2)
proof (cases rule: placement_cases)
  case failed
  then show ?thesis using assms(3) by simp
next
  case ranked
  have ok: "registry_ok d'" using lifecycle_ok [OF assms(5)] ranked(1) by (metis fst_conv)
  let ?rq = "pq_requirements q"
  obtain cs where cs: "request_coverage env q d' = Inr cs" "cd_complete (coverage_for ?rq cs v)"
    using ranked_candidate [OF ranked(2) assms(2,3)] assms(4) by metis
  show ?thesis
  proof (cases "find (\<lambda>c. cv_id (cg_volume c) = cv_id v) (rev cs)")
    case None
    then show ?thesis using cs(2) ok by (simp add: coverage_for_def)
  next
    case (Some k)
    then have k: "k \<in> set cs" "cv_id (cg_volume k) = cv_id v" "cg_complete k"
      using cs(2) by (auto simp: coverage_for_def dest: find_SomeD)
    obtain runtime tenant profile priv all where
      all: "volume_coverage env d' (rq_required ?rq) runtime tenant profile priv (rq_logical ?rq) = Inr all" "k \<in> set all"
      using cs(1) k(1) by (auto simp: request_coverage_def Let_def split: sum.splits)
    obtain w where w: "volume_candidate env d' (rq_required ?rq) runtime tenant profile priv (rq_logical ?rq) w = Inr k"
      using each_in [OF all(1) [unfolded volume_coverage_def] all(2)] by (elim bexE)
    then have "cg_volume k = w" by (auto simp: volume_candidate_def Let_def split: sum.splits)
    then show ?thesis using candidate_complete [OF w k(3) ok] k(2) ok by simp
  qed
qed

text \<open>Under a strict or pinned policy nothing is launched without a volume, whatever storage,
  offers and failures the provider reports.\<close>

theorem strict_never_cold:
  assumes "choose_cache_placement env et cn q uuid d = (d', Inr p)" and "pd_candidate p = Some c"
    and "truthy (obj_get (pq_policy q) ''enabled'')"
    and "obj_get (pq_policy q) ''policy'' \<in> {JStr ''strict'', JStr ''pinned''}"
  shows "pc_volume c \<noteq> None"
  using assms(1,2)
proof (cases rule: placement_cases)
  case failed
  then show ?thesis using assms(4) by auto
next
  case ranked
  obtain cached cold where p: "p = choose_placement env (pq_policy q) cached cold"
    using ranked(2) by (auto simp: rank_candidates_def split: sum.splits)
  have m: "policy_mode env (pq_policy q) \<in> {''strict'', ''pinned''}" "policy_enabled env (pq_policy q)"
    using assms(3,4) by (auto simp: policy_defs or_text_def)
  from assms(2) [unfolded p] show ?thesis
  proof (cases rule: choose_cases)
    case (cached cs)
    then show ?thesis using sort_key_head [OF cached(2)] unfolding eligible_iff by blast
  qed (use m in auto)
qed

section \<open>A sample placement\<close>

definition sample_connector :: connector where
  "sample_connector =
     \<lparr>cn_storage = (\<lambda>k. Inr (if k = ''v1'' then Some \<lparr>st_id = k, st_datacenter = ''EU'', st_size_gb = 100, st_s3 = False\<rparr>
                             else None)),
      cn_create = (\<lambda>name gb region. Inl (RuntimeError ''no storage'')),
      cn_offers = (\<lambda>c. Inr [sample_offer ''o1'' 1, sample_offer ''o2'' 2])\<rparr>"

definition sample_request :: "string \<Rightarrow> placement_request" where
  "sample_request mode =
     \<lparr>pq_provider = ''runpod'', pq_policy = storage_policy mode, pq_existing = None, pq_cooling = [''o1''],
      pq_regions = None,
      pq_requirements = \<lparr>rq_profile = ''p1'', rq_identity = JObj [], rq_constraints = [], rq_artifacts = [],
                         rq_required = [(''g1'', 5)], rq_logical = []\<rparr>\<rparr>"

definition sample_placement :: "registry \<times> (pyerr + placement_decision)" where
  "sample_placement =
     choose_cache_placement digest_env (\<lambda>e. []) sample_connector (sample_request ''strict'') ''u'' sample_registry"

lemma sample_placement_runs:
  "\<exists>d' p c v. sample_placement = (d', Inr p) \<and> pd_candidate p = Some c \<and> pc_volume c = Some v \<and> pc_complete c"
proof -
  have "(case snd sample_placement of Inl e \<Rightarrow> False | Inr p \<Rightarrow>
      (case pd_candidate p of None \<Rightarrow> False | Some c \<Rightarrow> pc_volume c \<noteq> None \<and> pc_complete c))"
    by code_simp
  then obtain p c v where "snd sample_placement = Inr p" "pd_candidate p = Some c" "pc_volume c = Some v" "pc_complete c"
    by (auto split: sum.splits option.splits)
  then show ?thesis by (metis prod.collapse)
qed

lemma sample_registry_ok: "registry_ok sample_registry"
  unfolding sample_registry_def by (rule reachable_ok)

lemma placement_on_confirmed_volume_witness:
  "\<exists>d' p c v. sample_placement = (d', Inr p) \<and> pd_candidate p = Some c \<and> pc_volume c = Some v \<and>
     provider_holds sample_connector (sample_request ''strict'') v"
proof -
  obtain d' p c v where s: "sample_placement = (d', Inr p)" "pd_candidate p = Some c" "pc_volume c = Some v"
    using sample_placement_runs by blast
  show ?thesis using placement_on_confirmed_volume [OF s(1) [unfolded sample_placement_def] s(2,3)] s by blast
qed

lemma complete_placement_serves_witness:
  "\<exists>d' p c v. sample_placement = (d', Inr p) \<and> pd_candidate p = Some c \<and> pc_volume c = Some v \<and>
     \<not> invalidated d' (cv_id v) ''g1''"
proof -
  obtain d' p c v where s: "sample_placement = (d', Inr p)" "pd_candidate p = Some c" "pc_volume c = Some v" "pc_complete c"
    using sample_placement_runs by blast
  have "''g1'' \<in> fst ` set (rq_required (pq_requirements (sample_request ''strict'')))"
    by (simp add: sample_request_def)
  then show ?thesis
    using complete_placement_serves [OF s(1) [unfolded sample_placement_def] s(2-4) sample_registry_ok] s by blast
qed

lemma strict_never_cold_witness:
  "\<exists>d' p c. sample_placement = (d', Inr p) \<and> pd_candidate p = Some c \<and> pc_volume c \<noteq> None"
proof -
  obtain d' p c v where s: "sample_placement = (d', Inr p)" "pd_candidate p = Some c"
    using sample_placement_runs by blast
  have "truthy (obj_get (pq_policy (sample_request ''strict'')) ''enabled'')"
    "obj_get (pq_policy (sample_request ''strict'')) ''policy'' \<in> {JStr ''strict'', JStr ''pinned''}"
    by (simp_all add: sample_request_def storage_policy_def)
  then show ?thesis using strict_never_cold [OF s(1) [unfolded sample_placement_def] s(2)] s by blast
qed

end
