(* ===== verification/QueueProps.thy ===== *)
theory QueueProps
  imports Samples
begin

text \<open>
  The properties of the queue database: what every run of operations keeps, and what claims,
  retries, leases and the journal promise their callers.
\<close>

section \<open>Runs of operations\<close>



text \<open>C20: in every database that operations build from an empty one, journal sequences rise
  strictly in insertion order, and no two rows of a job carry the same producer and producer
  sequence.\<close>

theorem journal_well_formed:
  "sorted_wrt (<) (map ev_sequence (events (run_steps (queue_step env) ops empty_db))) \<and>
   distinct (producer_keys (events (run_steps (queue_step env) ops empty_db)))"
  using queue_okD(4) [OF queue_inv.run_inv [OF empty_db_ok, of env ops]]
  by (simp add: journal_ok_def)



text \<open>A plan authority that has been closed keeps its final state under every run.\<close>

theorem closed_plan_final:
  assumes "queue_ok d" and "plan_state_of d dg = Some st" and "plan_terminal st"
  shows "plan_state_of (run_steps (queue_step env) ops d) dg = Some st"
  by (rule finished_plans.run_final [OF assms])

lemma closed_plan_final_witness:
  "plan_state_of (run_steps (queue_step sample_env)
       [\<lparr>op_now = 5, op_later = 6, op_call = Cancel_Plan ''d1''\<rparr>]
       (plan_db [] ''a'' Completed_Plan)) ''d1'' = Some Completed_Plan"
  by (rule closed_plan_final) (simp_all add: plan_db_ok plan_state_of_def find_plan_def)

text \<open>A lease only moves forward under every run: its identity, price, limits and deadlines
  never change, its state never goes back, and an instance or a worker once bound stays.\<close>

theorem lease_moves_forward:
  assumes "queue_ok d" and "find_lease d k = Some l"
  shows "\<exists>l'. find_lease (run_steps (queue_step env) ops d) k = Some l' \<and> forward l l'"
  by (rule run_forward [OF assms])

lemma lease_moves_forward_witness:
  "\<exists>l'. find_lease (run_steps (queue_step sample_env)
       [\<lparr>op_now = 5, op_later = 6, op_call = Revoke_Lease ''l1'' ''budget''\<rparr>]
       (lease_db [])) ''l1'' = Some l' \<and> forward sample_lease l'"
  by (rule lease_moves_forward) (simp_all add: lease_db_ok find_lease_def)

text \<open>C27: in every database that operations build from an empty one, a provider instance is
  bound by at most one lease, and every lease carries the evidence of its state: an active
  lease has an instance, a revoked one an instant and a reason, a terminating one a recorded
  attempt, and a confirmed termination belongs to a closed lease.\<close>

theorem leases_well_formed:
  "unique_bindings (leases (run_steps (queue_step env) ops empty_db)) \<and>
   distinct (map lease_id (leases (run_steps (queue_step env) ops empty_db))) \<and>
   list_all lease_wf (leases (run_steps (queue_step env) ops empty_db))"
  using queue_okD(2) [OF queue_inv.run_inv [OF empty_db_ok, of env ops]]
  by (simp add: leases_ok_def)

end
