(* ===== verification/ClaimProps.thy ===== *)
theory ClaimProps
  imports Samples
begin

text \<open>
  What a claim promises: the rows it hands out, who may take them, and the matching rules on
  GPU memory and GPU names.
\<close>

section \<open>The result of a claim\<close>

lemma claim_rows_same: "jobs d = jobs e \<Longrightarrow> claim_rows env d q = claim_rows env e q"
  by (simp add: claim_rows_def)

lemma claim_rows_distinct:
  assumes "distinct (map job_id (jobs d))"
  shows "distinct (map job_id (claim_rows env d q))"
proof -
  have "distinct (map job_id (filter (claimable env q) (jobs d)))"
    using assms by (simp add: distinct_map_filter)
  then have "distinct (map job_id (take n (sort_key job_created_at (filter (claimable env q) (jobs d)))))"
    for n by (rule distinct_take_sort_key)
  from this [of "length (sort_key job_created_at (filter (claimable env q) (jobs d)))"] this
  show ?thesis by (simp add: claim_rows_def sql_limit_def)
qed

lemma map_filter_find:
  assumes "\<And>x. x \<in> set xs \<Longrightarrow> g (f x) = Some (h x)"
  shows "List.map_filter g (map f xs) = map h xs"
  using assms by (induction xs) (auto simp: List.map_filter_simps)

lemma claim_result:
  assumes "queue_ok d" and "claim_jobs env now t d token q = Inr (d', js)"
  shows "js = map (claimed_job (cr_worker_id q) t) (claim_rows env d q) \<and>
         jobs d' = jobs (claim_update (map job_id (claim_rows env d q)) (cr_worker_id q) t d)"
  using assms(2)
proof (cases rule: claim_jobs_effect)
  case (none l)
  have eq: "jobs d' = jobs d" by (rule claim_lease_jobs [OF none(1)])
  have "claim_rows env d q = []"
  proof (cases "cr_models q = Some []")
    case True
    then have "\<not> claimable env q j" for j by (simp add: claimable_def model_matches_def)
    then show ?thesis by (simp add: claim_rows_def sql_limit_def)
  next
    case False
    obtain d1 l' where c: "claim_lease now d q = Inr (d1, l')"
      and rest: "(if cr_models q = Some [] then Inr (d1, [])
                else let ids = map job_id (claim_rows env d1 q)
                     in if ids = [] then Inr (d1, [])
                        else claim_each env t q l' ids (claim_update ids (cr_worker_id q) t d1))
               = Inr (d', js)"
      using assms(2) by (auto simp: claim_jobs_def split: option.splits sum.splits)
    have same: "claim_rows env d1 q = claim_rows env d q"
      by (rule claim_rows_same) (rule claim_lease_jobs [OF c])
    show ?thesis
    proof (rule ccontr)
      let ?ids = "map job_id (claim_rows env d q)"
      let ?d2 = "claim_update ?ids (cr_worker_id q) t d1"
      assume ne: "claim_rows env d q \<noteq> []"
      with rest False same have each: "claim_each env t q l' ?ids ?d2 = Inr (d', js)"
        by (simp add: Let_def)
      from claim_each_frame [OF this] none(2)
      have mf: "List.map_filter (find_job ?d2) ?ids = []" by simp
      obtain r rs where rs: "claim_rows env d q = r # rs" using ne by (cases "claim_rows env d q") auto
      have "r \<in> set (jobs d)" using claim_rows_queued [of r env d q] rs by simp
      then have "find_job d (job_id r) = Some r"
        using find_distinct [OF queue_okD(1) [OF assms(1)]] by (simp add: find_job_def)
      then have "find_job d1 (job_id r) = Some r"
        using claim_lease_jobs [OF c] by (simp add: find_job_def)
      then have "find_job ?d2 (job_id r) \<noteq> None" using rs by (simp add: find_claim_update)
      with mf rs show False by (auto simp: List.map_filter_simps split: option.splits)
    qed
  qed
  with none eq show ?thesis by (simp add: claim_update_def update_where_none)
next
  case (claimed d1 l ids)
  have same: "jobs d1 = jobs d" by (rule claim_lease_jobs [OF claimed(1)])
  have rows: "claim_rows env d1 q = claim_rows env d q" by (rule claim_rows_same [OF same])
  have each: "find_job (claim_update ids (cr_worker_id q) t d1) (job_id r) =
               Some (claimed_job (cr_worker_id q) t r)" if "r \<in> set (claim_rows env d q)" for r
  proof -
    have "find_job d (job_id r) = Some r"
      using find_distinct [OF queue_okD(1) [OF assms(1)]] claim_rows_queued [OF that]
      by (simp add: find_job_def)
    then have "find_job d1 (job_id r) = Some r" using same by (simp add: find_job_def)
    then show ?thesis using that claimed(2) rows by (simp add: find_claim_update)
  qed
  have "js = map (claimed_job (cr_worker_id q) t) (claim_rows env d q)"
    unfolding claimed(6) claimed(2) rows
    by (rule map_filter_find) (use each claimed(2) rows in simp)
  moreover have "jobs d' = jobs (claim_update ids (cr_worker_id q) t d1)"
    using claimed(5) by (simp add: claim_frame_def)
  ultimately show ?thesis using claimed(2) rows same by (simp add: claim_update_def)
qed

lemma sql_limit_length: "0 \<le> n \<Longrightarrow> length (sql_limit n xs) \<le> nat n"
  by (simp add: sql_limit_def)

lemma claimed_jobs_stored:
  assumes "queue_ok d" and "claim_jobs env now t d token q = Inr (d', js)"
  shows "\<forall>j \<in> set js. find_job d' (job_id j) = Some j \<and>
            (\<exists>j0. find_job d (job_id j) = Some j0 \<and> claimable env q j0 \<and>
                  j = claimed_job (cr_worker_id q) t j0)"
    and "\<forall>k. k \<notin> job_id ` set js \<longrightarrow> find_job d' k = find_job d k"
proof -
  let ?rows = "claim_rows env d q" and ?c = "claimed_job (cr_worker_id q) t"
  let ?ids = "map job_id ?rows"
  from claim_result [OF assms] have js: "js = map ?c ?rows"
    and d': "find_job d' k = find_job (claim_update ?ids (cr_worker_id q) t d) k" for k
    by (auto intro: find_job_jobs)
  have found: "find_job d (job_id r) = Some r \<and> claimable env q r" if "r \<in> set ?rows" for r
    using find_distinct [OF queue_okD(1) [OF assms(1)]] claim_rows_queued [OF that]
    by (simp add: find_job_def)
  show "\<forall>j \<in> set js. find_job d' (job_id j) = Some j \<and>
            (\<exists>j0. find_job d (job_id j) = Some j0 \<and> claimable env q j0 \<and> j = ?c j0)"
    using found by (auto simp: js d' find_claim_update)
  show "\<forall>k. k \<notin> job_id ` set js \<longrightarrow> find_job d' k = find_job d k"
    by (auto simp: js d' find_claim_update image_iff)
qed

text \<open>C14: a successful claim hands out distinct jobs that were queued and match the worker,
  oldest first and no more than the limit; each comes back dispatched to this worker with one
  more attempt, exactly as it is then stored, and no other row changes.\<close>

theorem claim_correct:
  assumes "queue_ok d" and "claim_jobs env now t d token q = Inr (d', js)"
  shows "distinct (map job_id js) \<and> sorted (map job_created_at js) \<and>
         (0 \<le> cr_limit q \<longrightarrow> length js \<le> nat (cr_limit q)) \<and>
         (\<forall>j \<in> set js. find_job d' (job_id j) = Some j \<and>
            (\<exists>j0. find_job d (job_id j) = Some j0 \<and> claimable env q j0 \<and>
                  j = claimed_job (cr_worker_id q) t j0)) \<and>
         (\<forall>k. k \<notin> job_id ` set js \<longrightarrow> find_job d' k = find_job d k)"
proof -
  from claim_result [OF assms] have js: "js = map (claimed_job (cr_worker_id q) t) (claim_rows env d q)"
    by blast
  then have ids: "map job_id js = map job_id (claim_rows env d q)" by simp
  have "sorted (map job_created_at (sql_limit n (sort_key job_created_at xs)))" for n xs
    by (auto simp: sql_limit_def sorted_take_sort_key)
  then have "sorted (map job_created_at js)" by (simp add: js claim_rows_def o_def)
  moreover have "0 \<le> cr_limit q \<longrightarrow> length js \<le> nat (cr_limit q)"
    by (simp add: js claim_rows_def sql_limit_length)
  moreover have "distinct (map job_id js)"
    unfolding ids by (rule claim_rows_distinct) (rule queue_okD(1) [OF assms(1)])
  ultimately show ?thesis using claimed_jobs_stored [OF assms] by blast
qed

lemma claim_correct_witness:
  "\<exists>d' js. claim_jobs sample_env 5 6 (jobs_db [sample_job ''a'' QUEUED 1]) None (sample_claim None)
     = Inr (d', js) \<and> sorted (map job_created_at js)"
proof -
  have ok: "queue_ok (jobs_db [sample_job ''a'' QUEUED 1])" by (rule jobs_db_ok) simp
  from sample_claim_runs claim_correct [OF ok] show ?thesis by blast
qed




lemma sql_limit_rest:
  assumes "x \<in> set (sort_key f xs)" and "x \<notin> set (sql_limit n (sort_key f xs))"
  shows "0 \<le> n \<and> length (sql_limit n (sort_key f xs)) = nat n \<and>
         (\<forall>y \<in> set (sql_limit n (sort_key f xs)). f y \<le> f x)"
proof -
  let ?ys = "sort_key f xs"
  have n: "0 \<le> n" and nt: "x \<notin> set (take (nat n) ?ys)"
    using assms by (auto simp: sql_limit_def split: if_splits)
  have "x \<in> set (drop (nat n) ?ys)"
    using assms(1) nt by (metis Un_iff append_take_drop_id set_append)
  moreover have "sorted (map f (take (nat n) ?ys @ drop (nat n) ?ys))"
    by (simp only: append_take_drop_id sorted_sort_key)
  ultimately have le: "\<forall>y \<in> set (take (nat n) ?ys). f y \<le> f x"
    unfolding map_append sorted_append by auto
  have "nat n < length ?ys"
    using \<open>x \<in> set (drop (nat n) ?ys)\<close> by (metis drop_all empty_iff empty_set not_le)
  with n le show ?thesis by (simp add: sql_limit_def)
qed

text \<open>A claim leaves no matching job behind that it could have taken: a claimable job that
  was not handed out means that the limit was reached, with jobs that are no younger.\<close>

theorem claim_fifo:
  assumes "queue_ok d" and "claim_jobs env now t d token q = Inr (d', js)"
    and "find_job d k = Some j" and "claimable env q j" and "k \<notin> job_id ` set js"
  shows "int (length js) = cr_limit q \<and> (\<forall>i \<in> set js. job_created_at i \<le> job_created_at j)"
proof -
  let ?all = "sort_key job_created_at (filter (claimable env q) (jobs d))"
  from claim_result [OF assms(1,2)]
  have js: "js = map (claimed_job (cr_worker_id q) t) (sql_limit (cr_limit q) ?all)"
    by (simp add: claim_rows_def)
  have "j \<in> set ?all" "job_id j = k" using find_job_id [OF assms(3)] assms(4) by simp_all
  moreover have "j \<notin> set (sql_limit (cr_limit q) ?all)"
    using assms(5) \<open>job_id j = k\<close> by (auto simp: js image_image)
  ultimately show ?thesis using sql_limit_rest by (fastforce simp: js)
qed


lemma claim_fifo_witness:
  "\<exists>d' js. claim_jobs sample_env 5 6
       (jobs_db [sample_job ''a'' QUEUED 1, sample_job ''b'' QUEUED 2]) None
       (sample_claim None)
     = Inr (d', js) \<and> int (length js) = 1"
proof -
  let ?db = "jobs_db [sample_job ''a'' QUEUED 1, sample_job ''b'' QUEUED 2]"
  have rows: "claim_rows sample_env ?db (sample_claim None) = [sample_job ''a'' QUEUED 1]"
    by (simp add: eval_match sample_claim_def)
  have "\<exists>d' js. claim_jobs sample_env 5 6 ?db None (sample_claim None) = Inr (d', js)"
    by (simp add: eval_claim rows claim_one_def find_job_def claim_update_def Let_def
        eval_append)
       (simp add: sample_claim_def claimed_job_def eval_text)
  then obtain d' js where
    c: "claim_jobs sample_env 5 6 ?db None (sample_claim None) = Inr (d', js)" by blast
  have ok: "queue_ok ?db" by (rule jobs_db_ok) simp
  from claim_result [OF ok c] rows have js: "job_id ` set js = {''a''}" by simp
  have "int (length js) = cr_limit (sample_claim None) \<and>
        (\<forall>i \<in> set js. job_created_at i \<le> job_created_at (sample_job ''b'' QUEUED 2))"
    by (rule claim_fifo [OF ok c, of "''b''"])
       (simp_all add: js find_job_def eval_match sample_claim_def)
  with c show ?thesis by (simp add: sample_claim_def)
qed

section \<open>Who may claim\<close>

lemma claim_under_lease:
  assumes "claim_jobs env now t d token q = Inr (d', js)" and "cr_lease_id q = Some i" and "i \<noteq> []"
  shows "\<exists>l. find_lease d i = Some l \<and> lease_status l = Active \<and> now < lease_expires_at l \<and>
     (given (cr_provider q) \<longrightarrow> cr_provider q = Some (lease_provider l)) \<and>
     (given (lease_worker_id l) \<longrightarrow> lease_worker_id l = Some (cr_worker_id q)) \<and>
     find_lease d' i = Some (renew_row (Some (cr_worker_id q)) (cr_lease_ttl_seconds q) now l)"
proof -
  obtain d1 l where c: "claim_lease now d q = Inr (d1, l)" and eq: "leases d' = leases d1"
    using assms(1)
  proof (cases rule: claim_jobs_effect)
    case (none l)
    then show ?thesis using that by blast
  next
    case (claimed d1 l ids)
    then show ?thesis using that [OF claimed(1)] by (simp add: claim_frame_def)
  qed
  from claim_lease_effect [OF c] assms(2,3) obtain m where m: "find_lease d i = Some m"
    "lease_status m = Active" "now < lease_expires_at m"
    "given (cr_provider q) \<longrightarrow> cr_provider q = Some (lease_provider m)"
    "given (lease_worker_id m) \<longrightarrow> lease_worker_id m = Some (cr_worker_id q)"
    "d1 = update_lease i (renew_row (Some (cr_worker_id q)) (cr_lease_ttl_seconds q) now) d"
    by auto
  have "find_lease d' i = find_lease d1 i" by (simp add: find_lease_def eq)
  also have "\<dots> = Some (renew_row (Some (cr_worker_id q)) (cr_lease_ttl_seconds q) now m)"
    by (simp add: m(6) update_lease_find m(1))
  finally show ?thesis using m by blast
qed

text \<open>C25: a claim that names a lease succeeds only while that lease is active and unexpired, for
  the provider the lease was made for and for the worker it is bound to, and afterwards the lease
  has that worker and its expiry is the claim's lifetime from then on.\<close>

theorem claim_needs_lease:
  assumes "claim_jobs env now t d token q = Inr (d', js)" and "cr_lease_id q = Some i" and "i \<noteq> []"
  shows "\<exists>l. find_lease d i = Some l \<and> lease_status l = Active \<and> now < lease_expires_at l \<and>
     (given (cr_provider q) \<longrightarrow> cr_provider q = Some (lease_provider l)) \<and>
     (given (lease_worker_id l) \<longrightarrow> lease_worker_id l = Some (cr_worker_id q)) \<and>
     find_lease d' i = Some (renew_row (Some (cr_worker_id q)) (cr_lease_ttl_seconds q) now l)"
  by (rule claim_under_lease [OF assms])

lemma sample_lease_claim_runs:
  "claim_jobs sample_env 5 6 (lease_db []) None (sample_claim (Some ''l1''))
     = Inr (update_lease ''l1'' (renew_row (Some ''w1'') 60 5) (lease_db []), [])"
  by (simp add: eval_claim eval_match find_lease_def sample_claim_def)

lemma claim_needs_lease_witness:
  "\<exists>l. find_lease (lease_db []) ''l1'' = Some l \<and> lease_status l = Active \<and> 5 < lease_expires_at l"
  using claim_needs_lease [OF sample_lease_claim_runs] by (auto simp: sample_claim_def)

text \<open>C26: a lease serves one worker: once a worker with a non-empty id has claimed under a lease,
  then after any operations a claim under the same lease by any other worker raises.\<close>

theorem lease_serves_one_worker:
  assumes "queue_ok d" and "claim_jobs env now t d token q = Inr (d1, js)"
    and "cr_lease_id q = Some i" and "i \<noteq> []" and "cr_worker_id q \<noteq> []"
    and "\<forall>l. find_lease d i = Some l \<longrightarrow> lease_worker_id l \<noteq> Some []"
    and "cr_lease_id q' = Some i" and "cr_worker_id q' \<noteq> cr_worker_id q"
  shows "\<exists>e. claim_jobs env now' t' (run_steps (queue_step env) ops d1) token' q' = Inl e"
proof (rule ccontr)
  let ?d = "run_steps (queue_step env) ops d1"
  assume "\<nexists>e. claim_jobs env now' t' ?d token' q' = Inl e"
  then obtain d2 js' where c: "claim_jobs env now' t' ?d token' q' = Inr (d2, js')"
    by (cases "claim_jobs env now' t' ?d token' q'") auto
  from claim_under_lease [OF assms(2-4)] assms(6) obtain l where
    l: "find_lease d1 i = Some l" "lease_worker_id l = Some (cr_worker_id q)"
    by (auto simp: renew_row_def coalesce_def given_def split: option.splits)
  have ok: "queue_ok d1" using claim_jobs_advances [OF assms(2,1)] by (simp add: advances_def)
  from run_forward [OF ok l(1)] obtain l' where
    l': "find_lease ?d i = Some l'" "forward l l'" by blast
  from claim_under_lease [OF c assms(7,4)] l' l(2) assms(5,8) show False
    by (auto simp: forward_def)
qed


lemma lease_serves_one_worker_witness:
  "\<exists>e. claim_jobs sample_env 9 9
     (run_steps (queue_step sample_env)
        [\<lparr>op_now = 7, op_later = 7, op_call = Renew_Lease ''l1'' None 60\<rparr>]
        (update_lease ''l1'' (renew_row (Some ''w1'') 60 5) (lease_db []))) None
     ((sample_claim (Some ''l1''))\<lparr>cr_worker_id := ''w2''\<rparr>) = Inl e"
  by (rule lease_serves_one_worker [OF lease_db_ok sample_lease_claim_runs])
     (simp_all add: sample_claim_def find_lease_def)

lemma map_of_meta_put [simp]: "map_of (meta_put k v m) k' = (if k' = k then Some v else map_of m k')"
  by (induction m) auto

text \<open>The worker token: after \<open>set_worker_token\<close> a claim without the right token raises and
  changes nothing, and a token passes exactly when its digest is the stored one.\<close>

theorem token_guards_claims:
  assumes "set_worker_token env d token = Inr (d', u)" and "sha256_hex env token \<noteq> []"
  shows "(verify_worker_token env d' (Some x) = None \<longleftrightarrow>
            x \<noteq> [] \<and> sha256_hex env x = sha256_hex env token) \<and>
         (verify_worker_token env d' presented \<noteq> None \<longrightarrow>
            commit d' (claim_jobs env now t d' presented q) = d')"
proof -
  have m: "get_meta d' token_key = Some (sha256_hex env token)"
    using assms(1) by (auto simp: set_worker_token_def set_meta_def get_meta_def split: if_splits)
  then have auth: "worker_auth_configured d'"
    using assms(2) by (simp add: worker_auth_configured_def)
  show ?thesis
    by (auto simp: verify_worker_token_def auth m claim_jobs_def split: option.splits)
qed

lemma token_guards_claims_witness:
  "verify_worker_token sample_env (set_meta token_key ''t1'' (jobs_db [])) (Some ''t2'') \<noteq> None"
proof -
  have s: "set_worker_token sample_env (jobs_db []) ''t1'' =
             Inr (set_meta token_key ''t1'' (jobs_db []), ())"
    by (simp add: set_worker_token_def sample_env_def)
  from token_guards_claims [OF s, of "''t2''"] show ?thesis by (simp add: sample_env_def)
qed

text \<open>GPU memory is rounded to whole gigabytes: a job that asks for \<open>m\<close> is matched by every
  worker that reports at least \<open>m\<close>, and by none that is more than half a gigabyte short.\<close>

theorem vram_match_bounds:
  assumes "cr_gpu_vram_gb q = Some v" and "0 \<le> m"
    and "sql_real (obj_get (job_params j) ''min_gpu_ram_gb'') = Some (of_int m)"
  shows "(of_int m \<le> v \<longrightarrow> vram_matches q j) \<and> (vram_matches q j \<longrightarrow> of_int m \<le> max 0 v + 1 / 2)"
proof -
  have iff: "vram_matches q j \<longleftrightarrow> m \<le> py_round (max 0 v)"
    using assms(1,3) by (simp add: vram_matches_def or_default_def)
  have b: "\<bar>of_int (py_round (max 0 v)) - max 0 v\<bar> \<le> 1 / 2" by (rule py_round_bounds)
  have "m \<le> py_round (max 0 v)" if "of_int m \<le> v"
  proof -
    have "of_int m - 1 < (of_int (py_round (max 0 v)) :: rat)" using that b by linarith
    then have "(of_int (m - 1) :: rat) < of_int (py_round (max 0 v))" by simp
    then have "m - 1 < py_round (max 0 v)" by (simp only: of_int_less_iff)
    then show ?thesis by simp
  qed
  moreover have "of_int m \<le> max 0 v + 1 / 2" if "m \<le> py_round (max 0 v)"
  proof -
    have "(of_int m :: rat) \<le> of_int (py_round (max 0 v))" using that by simp
    with b show ?thesis by linarith
  qed
  ultimately show ?thesis using iff by blast
qed

lemma vram_match_bounds_witness:
  "vram_matches (sample_claim None)
     ((sample_job ''a'' QUEUED 1)\<lparr>job_params := JObj [(''min_gpu_ram_gb'', JInt 24)]\<rparr>)"
  using vram_match_bounds [of "sample_claim None" 80 24
      "(sample_job ''a'' QUEUED 1)\<lparr>job_params := JObj [(''min_gpu_ram_gb'', JInt 24)]\<rparr>"]
  by (simp add: sample_claim_def)

lemma canonical_plain:
  assumes "CHR ''%'' \<notin> set w"
  shows "plain_pattern (canonical_gpu_name (Some w))"
proof -
  have low: "CHR ''%'' \<notin> set (py_lower w)"
    using assms
    by (auto simp: py_lower_def is_upper_def split: if_splits dest!: arg_cong [where f = code])
       (simp_all add: code_def)
  then have "CHR ''%'' \<notin> set (separators_to_spaces (py_lower w))"
    by (auto simp: separators_to_spaces_def replace_char_def split: if_splits)
  then have "CHR ''%'' \<notin> set (canonical_gpu_name (Some w))"
    by (simp add: canonical_gpu_name_def Let_def)
  then show ?thesis using canonical_no_separator [of "Some w"] by (simp add: plain_pattern_def)
qed

text \<open>The GPU of a worker matches a job that names one exactly when the job asks for any GPU
  or its canonical name occurs in the worker's, up to ASCII case, unless the job's name holds a
  percent sign.\<close>

theorem gpu_match_substring:
  assumes "cr_gpu_name q = Some name" and "name \<noteq> []"
    and "obj_get (job_params j) ''gpu_type'' = JStr wanted" and "CHR ''%'' \<notin> set wanted"
  shows "gpu_matches env q j \<longleftrightarrow>
     sql_lower wanted = ''any'' \<or>
     (\<exists>a m b. canonical_gpu_name (Some name) = a @ m @ b \<and>
              sql_lower m = sql_lower (canonical_gpu_name (Some wanted)))"
proof -
  have "canonical_gpu_name (gpu_text env (JStr wanted)) = canonical_gpu_name (Some wanted)"
    by (cases wanted) (simp_all add: gpu_text_def canonical_gpu_name_def)
  then show ?thesis
    using sql_like_substring [OF canonical_plain [OF assms(4)], of "canonical_gpu_name (Some name)"] assms(1-3)
    by (simp add: gpu_matches_def Let_def or_default_def)
qed


lemma gpu_match_substring_witness:
  "gpu_matches sample_env ((sample_claim None)\<lparr>cr_gpu_name := Some ''NVIDIA-H100-SXM''\<rparr>)
     ((sample_job ''a'' QUEUED 1)\<lparr>job_params := JObj [(''gpu_type'', JStr ''h100_sxm'')]\<rparr>)"
proof -
  have c: "canonical_gpu_name (Some ''NVIDIA-H100-SXM'') = ''nvidia h100 80gb hbm3''"
    "canonical_gpu_name (Some ''h100_sxm'') = ''nvidia h100 80gb hbm3''"
    by code_simp+
  have "sql_lower ''h100_sxm'' = ''any'' \<or>
     (\<exists>a m b. canonical_gpu_name (Some ''NVIDIA-H100-SXM'') = a @ m @ b \<and>
              sql_lower m = sql_lower (canonical_gpu_name (Some ''h100_sxm'')))"
    unfolding c by (rule disjI2, rule exI [of _ "[]"], rule exI [of _ "''nvidia h100 80gb hbm3''"]) simp
  then show ?thesis by (subst gpu_match_substring) simp_all
qed

end
