(* ===== verification/JournalProps.thy ===== *)
theory JournalProps
  imports Samples
begin

text \<open>
  What the journal promises: replays by producer sequence, pages that resume where the last one
  ended, and events that tell the status of every job.
\<close>

section \<open>Replays\<close>

lemma append_normal_encoding:
  assumes "append_normal env d i event p pseq occ obs = Inr (d', r)"
    and "normal_sequence pseq = Inr (Some n)"
  shows "check_encoding env (with_phase_owner (normal_producer p) event) =
           Inr (json_text True env (ev_json r)) \<and>
         find (same_producer i (normal_producer p) n) (events d') = Some r"
proof (cases "find (same_producer i (normal_producer p) n) (events d)")
  case (Some r')
  with assms show ?thesis
    by (auto simp: append_normal_def Let_def split: if_splits sum.splits)
next
  case None
  have fin: "json_text True env e = encoded" if "check_encoding env e = Inr encoded" for e encoded
    using that by (auto simp: check_encoding_def Let_def split: if_splits)
  from None assms show ?thesis
    by (auto simp: append_normal_def Let_def insert_event_def same_producer_def find_append
             split: if_splits sum.splits dest: fin)
qed

lemma stamp_observed: "stamp_too_long (occurred_stamp env occ e t) = stamp_too_long (occurred_stamp env occ e t')"
  by (auto simp: occurred_stamp_def stamp_too_long_def Let_def split: option.splits stamp.splits)

lemma append_normal_again:
  assumes "append_normal env d i event p pseq occ obs = Inr (d', r)"
    and "normal_sequence pseq = Inr (Some n)"
  shows "append_normal env d' i event p pseq occ obs' = Inr (d', r)"
  using append_normal_encoding [OF assms] assms
    stamp_observed [of env occ "with_phase_owner (normal_producer p) event" obs obs']
  by (auto simp: append_normal_def Let_def split: if_splits sum.splits)

lemma append_normal_conflict:
  assumes "append_normal env d i event p pseq occ obs = Inr (d', r)"
    and "normal_sequence pseq = Inr (Some n)"
    and "append_normal env d' i event' p pseq occ' obs' = Inr (d'', r')"
  shows "d'' = d' \<and> r' = r"
  using append_normal_encoding [OF assms(1,2)] assms(2,3)
  by (auto simp: append_normal_def Let_def split: if_splits sum.splits)

lemma append_event_again:
  assumes "append_event env now d i event p pseq occ = Inr (d', e)"
    and "normal_sequence pseq = Inr (Some n)"
  shows "append_event env now' d' i event p pseq occ = Inr (d', e)"
proof -
  obtain r where a: "append_event_in_transaction env now d i event p pseq occ None = Inr (d', r)"
    and e: "e = job_event_envelope env r" and j: "find_job d i \<noteq> None"
    using assms(1) by (auto simp: append_event_def split: if_splits sum.splits)
  have same: "find_job d' i = find_job d i" by (rule quiet_tables [OF append_quiet [OF a]])
  have "append_event_in_transaction env now' d' i event p pseq occ None = Inr (d', r)"
    using a assms(2) same
    by (auto simp: append_event_in_transaction_def is_plan_job_def split: if_splits sum.splits
             intro: append_normal_again)
  then show ?thesis using e j same by (simp add: append_event_def)
qed

text \<open>C23: an event that carries a producer sequence is delivered at most once: sending it again,
  at any later instant, returns the envelope of the row that is there and changes nothing.\<close>

theorem append_replay:
  assumes "append_event env now d i event p pseq occ = Inr (d', e)"
    and "normal_sequence pseq = Inr (Some n)"
  shows "append_event env now' d' i event p pseq occ = Inr (d', e)"
  by (rule append_event_again [OF assms])

definition sample_event :: json where
  "sample_event = JObj [(''type'', JStr ''x'')]"

lemma sample_append:
  "\<exists>d' e. append_event sample_env 5 (jobs_db [sample_job ''a'' RUNNING 1]) ''a'' sample_event
     (Some ''worker:1'') (Some (JInt 1)) None = Inr (d', e)"
  by (simp add: append_event_def eval_append find_job_def Let_def sample_event_def)
     (simp add: eval_text is_bool_def)

lemma sample_sequence: "normal_sequence (Some (JInt 1)) = Inr (Some 1)"
  by (simp add: normal_sequence_def is_bool_def)

lemma append_replay_witness:
  "\<exists>d' e. append_event sample_env 9 d' ''a'' sample_event (Some ''worker:1'') (Some (JInt 1)) None
     = Inr (d', e)"
proof -
  obtain d' e where "append_event sample_env 5 (jobs_db [sample_job ''a'' RUNNING 1]) ''a'' sample_event
     (Some ''worker:1'') (Some (JInt 1)) None = Inr (d', e)" using sample_append by blast
  from append_replay [OF this sample_sequence] show ?thesis by blast
qed

text \<open>A producer sequence is never reused for other data: if a second append of any event
  under the same producer and sequence succeeds, it returned the first row and inserted none.\<close>

theorem append_no_reuse:
  assumes "append_event env now d i event p pseq occ = Inr (d', e)"
    and "normal_sequence pseq = Inr (Some n)"
    and "append_event env now' d' i event' p pseq occ' = Inr (d'', e')"
  shows "d'' = d' \<and> e' = e"
proof -
  obtain r where a: "append_event_in_transaction env now d i event p pseq occ None = Inr (d', r)"
    and e: "e = job_event_envelope env r"
    using assms(1) by (auto simp: append_event_def split: if_splits sum.splits)
  obtain r' where b: "append_event_in_transaction env now' d' i event' p pseq occ' None = Inr (d'', r')"
    and e': "e' = job_event_envelope env r'"
    using assms(3) by (auto simp: append_event_def split: if_splits sum.splits)
  have same: "find_job d' i = find_job d i" by (rule quiet_tables [OF append_quiet [OF a]])
  have "d'' = d' \<and> r' = r"
    using a b assms(2) same
    by (auto simp: append_event_in_transaction_def is_plan_job_def split: if_splits sum.splits
             dest: append_normal_conflict)
  with e e' show ?thesis by simp
qed

lemma append_no_reuse_witness:
  "\<exists>d' e d'' e'. append_event sample_env 9 d' ''a'' sample_event (Some ''worker:1'') (Some (JInt 1)) None
     = Inr (d'', e') \<and> d'' = d' \<and> e' = e"
proof -
  obtain d' e where a: "append_event sample_env 5 (jobs_db [sample_job ''a'' RUNNING 1]) ''a'' sample_event
     (Some ''worker:1'') (Some (JInt 1)) None = Inr (d', e)" using sample_append by blast
  from append_event_again [OF a sample_sequence] append_no_reuse [OF a sample_sequence]
  show ?thesis by blast
qed

section \<open>Paging\<close>

text \<open>C24: reading the journal in pages loses and repeats nothing: a page and the page that
  resumes after its last sequence are together the first rows after the starting point.\<close>

theorem pages_resume:
  assumes "queue_ok d" and "1 \<le> n" and "n \<le> 1000" and "1 \<le> m" and "m \<le> 1000"
    and "list_event_rows d i after n \<noteq> []"
  shows "list_event_rows d i after n @
           list_event_rows d i (ev_sequence (last (list_event_rows d i after n))) m =
         take (nat n + nat m) (filter (\<lambda>r. max 0 after < ev_sequence r) (job_events d i))"
proof -
  let ?xs = "filter (\<lambda>r. max 0 after < ev_sequence r) (job_events d i)"
  have page: "list_event_rows d i after n = take (nat n) ?xs"
    using assms(2,3) by (simp add: list_event_rows_def)
  let ?s = "ev_sequence (last (take (nat n) ?xs))"
  have ne: "?xs \<noteq> []" using assms(6) by (auto simp: page)
  have "last (take (nat n) ?xs) \<in> set (take (nat n) ?xs)"
    using assms(6) by (simp add: page)
  then have "last (take (nat n) ?xs) \<in> set ?xs" by (rule in_set_takeD)
  then have s: "max 0 after < ?s" by simp
  have "sorted_wrt (<) (map ev_sequence (job_events d i))"
    by (rule job_events_strict) (rule queue_okD(4) [OF assms(1)])
  then have strict: "sorted_wrt (<) (map ev_sequence ?xs)" by (rule sorted_wrt_filter_map)
  have "filter (\<lambda>r. ?s < ev_sequence r) (job_events d i) = filter (\<lambda>r. ?s < ev_sequence r) ?xs"
    using s by (auto intro: filter_cong)
  also have "\<dots> = drop (nat n) ?xs"
    by (rule strict_take_drop [OF strict _ ne]) (use assms(2) in simp)
  finally have rest: "filter (\<lambda>r. ?s < ev_sequence r) (job_events d i) = drop (nat n) ?xs" .
  have s0: "max 0 ?s = ?s" using s by simp
  have mm: "max 1 (min 1000 m) = m" using assms(4,5) by simp
  have "list_event_rows d i ?s m = take (nat m) (drop (nat n) ?xs)"
    unfolding list_event_rows_def s0 rest mm by (rule refl)
  then show ?thesis unfolding page by (simp only: take_add)
qed


definition paged_db :: db where
  "paged_db =
     (jobs_db [sample_job ''a'' RUNNING 1])
       \<lparr>events :=
          map (\<lambda>n. \<lparr>ev_sequence = n, ev_job_id = ''a'', ev_json = sample_event, ev_created_at = 0,
                    ev_producer_id = ''c'', ev_producer_sequence = None, ev_occurred_at = At 0,
                    ev_observed_at = 0, ev_type = ''x'', ev_phase = None\<rparr>) [1, 2, 3],
        event_counter := 3\<rparr>"

lemma pages_resume_witness:
  "list_event_rows paged_db ''a'' 0 2 @
     list_event_rows paged_db ''a'' (ev_sequence (last (list_event_rows paged_db ''a'' 0 2))) 2 =
   take 4 (filter (\<lambda>r. 0 < ev_sequence r) (job_events paged_db ''a''))"
proof -
  have ok: "queue_ok paged_db"
    by (simp add: paged_db_def queue_ok_def leases_ok_def unique_bindings_def links_ok_def
          journal_ok_def producer_keys_def)
  have ne: "list_event_rows paged_db ''a'' 0 2 \<noteq> []"
    by (simp add: list_event_rows_def job_events_def paged_db_def numeral_2_eq_2)
  from pages_resume [OF ok _ _ _ _ ne, of 2] show ?thesis by simp
qed

end
