(* ===== verification/Snapshot.thy ===== *)
theory Snapshot
  imports PlanQueue
begin

text \<open>
  \<open>event_snapshot\<close> of \<open>cloud_offload/queue.py\<close>, the state of a job that clients read, and
  \<open>public_plan_job\<close> of \<open>cloud_offload/plan_protocol.py\<close>, which replaces the job in the
  snapshot of a plan.
\<close>

section \<open>The public view of a plan job\<close>

definition plan_job_closure :: "pyenv \<Rightarrow> json option \<Rightarrow> pyerr + (string \<times> json) list" where
  "plan_job_closure env closure =
     (case closure of
        None \<Rightarrow> Inr []
      | Some c \<Rightarrow> (case validate_closure_receipt env c of
                     Inl e \<Rightarrow> Inl e | Inr n \<Rightarrow> Inr [(''closure'', n)]))"

definition plan_job_result :: "job \<Rightarrow> string \<Rightarrow> string \<Rightarrow> pyerr + (string \<times> json) list" where
  "plan_job_result j ident state =
     (case job_result j of
        Some r \<Rightarrow>
          if state = ''completed''
          then (case validate_result_manifest (Some ident) None r of
                  Inl e \<Rightarrow> Inl e | Inr n \<Rightarrow> Inr [(''result'', n)])
          else Inr []
      | None \<Rightarrow> Inr [])"

definition public_plan_job ::
  "pyenv \<Rightarrow> job \<Rightarrow> string \<Rightarrow> json option \<Rightarrow> pyerr + json"
where
  "public_plan_job env j state closure =
     (let params = (if is_obj (job_params j) then job_params j else JObj []);
          plan_state = one_of plan_public_statuses ''failed'' state
      in
      (case plan_digest (obj_get params ''plan_digest'') ''plan job digest'' of Inl e \<Rightarrow> Inl e | Inr digest \<Rightarrow>
      (case safe_opaque (JStr (job_id j)) ''job_id'' of Inl e \<Rightarrow> Inl e | Inr ident \<Rightarrow>
      (case safe_opaque (obj_get params ''preflight_id'') ''preflight_id'' of Inl e \<Rightarrow> Inl e | Inr pre \<Rightarrow>
      (case safe_opaque (obj_get params ''candidate_id'') ''candidate_id'' of Inl e \<Rightarrow> Inl e | Inr cand \<Rightarrow>
      (case plan_digest (obj_get params ''request_digest'') ''request_digest'' of Inl e \<Rightarrow> Inl e | Inr req \<Rightarrow>
      (case plan_job_closure env closure of Inl e \<Rightarrow> Inl e | Inr cf \<Rightarrow>
      (case plan_job_result j ident plan_state of Inl e \<Rightarrow> Inl e | Inr rf \<Rightarrow>
         Inr (JObj
           ([(''schema'', JStr ''cloud-offload.plan-job.v1''),
             (''job_id'', JStr ident),
             (''kind'', JStr ''plan''),
             (''status'', JStr plan_state),
             (''plan_digest'', JStr digest),
             (''preflight_id'', JStr pre),
             (''candidate_id'', JStr cand),
             (''request_digest'', JStr req),
             (''progress'', JInt (bounded_int (JInt (job_progress j)) 100)),
             (''created_at'', public_timestamp env (JStr (iso_naive env (job_created_at j)))),
             (''updated_at'', public_timestamp env (JStr (iso_naive env (job_updated_at j))))]
            @ cf @ rf))))))))))"

section \<open>The snapshot\<close>

definition sql_int_max :: int where
  "sql_int_max = 2 ^ 63 - 1"

definition sql_cast_int :: "rat \<Rightarrow> int" where
  \<comment> \<open>CAST(... AS INTEGER) truncates and saturates at 64 bits\<close>
  "sql_cast_int q = max (- (2 ^ 63)) (min sql_int_max (trunc_rat q))"

definition row_progress_value :: "event_row \<Rightarrow> int" where
  "row_progress_value r =
     (case obj_get (ev_json r) ''overall_progress'' of
        JInt i \<Rightarrow> sql_cast_int (of_int i)
      | JFloat q \<Rightarrow> sql_cast_int q
      | _ \<Rightarrow> 0)"

definition event_progress :: "event_row list \<Rightarrow> int" where
  "event_progress rs = (if rs = [] then 0 else Max (set (map row_progress_value rs)))"

definition last_row :: "event_row list \<Rightarrow> event_row option" where
  \<comment> \<open>ORDER BY sequence DESC LIMIT 1\<close>
  "last_row rs = (if rs = [] then None else Some (last rs))"

definition is_lifecycle :: "event_row \<Rightarrow> bool" where
  "is_lifecycle r \<longleftrightarrow>
     ev_type r \<in> set lifecycle_types \<and> obj_get (ev_json r) ''status'' \<noteq> JNull"

definition journal_status :: "event_row option \<Rightarrow> pyerr + job_status option" where
  \<comment> \<open>the status of the latest lifecycle row, when it is one; a list or a dict is not hashable\<close>
  "journal_status row =
     (case row of
        None \<Rightarrow> Inr None
      | Some r \<Rightarrow>
          (let v = obj_get (ev_json r) ''status''
           in if \<not> hashable v then Inl (TypeError ''unhashable type'')
              else case v of JStr s \<Rightarrow> Inr (status_of s) | _ \<Rightarrow> Inr None))"

definition ranked_phases :: "event_row list \<Rightarrow> (int \<times> int \<times> string) list" where
  "ranked_phases rs =
     List.map_filter
       (\<lambda>r. case ev_phase r of
              None \<Rightarrow> None
            | Some p \<Rightarrow> map_option (\<lambda>n. (n, ev_sequence r, p)) (map_of job_phase_order p)) rs"

definition lifecycle_phase :: "event_row list \<Rightarrow> string \<Rightarrow> string" where
  "lifecycle_phase rs status =
     (let ranked = ranked_phases rs
      in if ranked \<noteq> [] then snd (snd (Max (set ranked)))
         else case last_row rs of
                None \<Rightarrow> status
              | Some r \<Rightarrow> if given (ev_phase r) then or_default [] (ev_phase r) else status)"

datatype job_view = Plain job | Public json

record snapshot =
  sn_job :: job_view
  sn_status :: string
  sn_source :: string
  sn_phase :: string
  sn_progress :: int
  sn_cursor :: int
  sn_count :: int
  sn_last :: "json option"
  sn_updated :: time

definition job_snapshot :: "pyenv \<Rightarrow> db \<Rightarrow> job \<Rightarrow> pyerr + snapshot" where
  \<comment> \<open>the part that every job has\<close>
  "job_snapshot env d j =
     (let rs = job_events d (job_id j);
          row = last_row (filter is_lifecycle rs)
      in case journal_status row of
           Inl e \<Rightarrow> Inl e
         | Inr from_journal \<Rightarrow>
             (let status = status_value (or_default (job_status j) from_journal);
                  progress = (if status = ''completed'' then 100
                              else if from_journal \<noteq> None then event_progress rs
                              else job_progress j)
              in Inr \<lparr>sn_job = Plain j, sn_status = status,
                      sn_source = (if from_journal \<noteq> None then ''journal'' else ''job_row''),
                      sn_phase = lifecycle_phase rs status,
                      sn_progress = max 0 (min 100 progress),
                      sn_cursor = snd (event_bounds d (job_id j)),
                      sn_count = fst (event_bounds d (job_id j)),
                      sn_last = map_option (job_event_envelope env) (last_row rs),
                      sn_updated = (case row of None \<Rightarrow> job_updated_at j
                                              | Some r \<Rightarrow> ev_observed_at r)\<rparr>))"

definition plan_authority :: "pyenv \<Rightarrow> db \<Rightarrow> job \<Rightarrow> plan_row option" where
  "plan_authority env d j =
     (let digest = obj_get (job_params j) ''plan_digest''
      in if truthy digest then find_plan d (py_str env digest) else None)"

definition plan_last_event :: "pyenv \<Rightarrow> json option \<Rightarrow> pyerr + json option" where
  "plan_last_event env e =
     (case e of
        None \<Rightarrow> Inr None
      | Some v \<Rightarrow> (case public_plan_event env v of Inl x \<Rightarrow> Inl x | Inr p \<Rightarrow> Inr (Some p)))"

definition event_snapshot :: "pyenv \<Rightarrow> db \<Rightarrow> string \<Rightarrow> pyerr + snapshot option" where
  "event_snapshot env d ident =
     (case find_job d ident of
        None \<Rightarrow> Inr None
      | Some j \<Rightarrow>
          (case job_snapshot env d j of
             Inl e \<Rightarrow> Inl e
           | Inr s \<Rightarrow>
               if job_model j \<noteq> plan_model \<or> \<not> is_obj (job_params j) then Inr (Some s)
               else
                 (let authority = plan_authority env d j;
                      state = one_of plan_public_statuses ''terminal''
                                (case authority of None \<Rightarrow> sn_status s
                                                 | Some p \<Rightarrow> plan_state_value (pl_state p))
                  in case public_plan_job env j state
                            (case authority of None \<Rightarrow> None | Some p \<Rightarrow> pl_closure p) of
                       Inl e \<Rightarrow> Inl e
                     | Inr pj \<Rightarrow>
                         (case plan_last_event env (sn_last s) of
                            Inl e \<Rightarrow> Inl e
                          | Inr le \<Rightarrow>
                              Inr (Some (s\<lparr>sn_job := Public pj, sn_status := state,
                                           sn_source := ''plan_authority'', sn_last := le\<rparr>))))))"

end
