(* ===== verification/StatusJournal.thy ===== *)
theory StatusJournal
  imports Samples Snapshot
begin

text \<open>
  The journal tells the truth about the jobs: the status of the last lifecycle row of a job is
  the status of its row, for every job that is not a plan, as long as no caller appends
  lifecycle rows of its own. Each operation is shown to keep this.
\<close>

section \<open>The status that the journal tells\<close>

definition told :: "event_row list \<Rightarrow> string \<Rightarrow> json option" where
  "told rs i =
     (let ls = filter (\<lambda>r. ev_job_id r = i \<and> is_lifecycle r) rs
      in if ls = [] then None else Some (obj_get (ev_json (last ls)) ''status''))"

lemma told_append: "told (rs @ [r]) i =
   (if ev_job_id r = i \<and> is_lifecycle r then Some (obj_get (ev_json r) ''status'') else told rs i)"
  by (simp add: told_def Let_def)

definition truthful :: "db \<Rightarrow> bool" where
  "truthful d \<longleftrightarrow>
     (\<forall>i j. find_job d i = Some j \<longrightarrow> job_model j \<noteq> plan_model \<longrightarrow>
            told (events d) i = Some (JStr (status_value (job_status j))))"

text \<open>
  \<open>keeps_told d d'\<close>: rows were appended that are no lifecycle rows of jobs other than plans.
\<close>

definition plan_id :: "db \<Rightarrow> string \<Rightarrow> bool" where
  "plan_id d i \<longleftrightarrow> is_plan_job d i"

definition keeps_told :: "db \<Rightarrow> db \<Rightarrow> bool" where
  "keeps_told d d' \<longleftrightarrow> (\<forall>i. \<not> is_plan_job d i \<longrightarrow> told (events d') i = told (events d) i)"

lemma keeps_refl [simp]: "keeps_told d d"
  by (simp add: keeps_told_def)

lemma keeps_events: "events d' = events d \<Longrightarrow> keeps_told d d'"
  by (simp add: keeps_told_def)

lemma appended_row:
  assumes "append_event_in_transaction env now d i event p None occ obs = Inr (d', r)"
    and "\<not> is_plan_job d i" and "obj_has event ''phase_owner''"
  shows "d' = journaled d i r \<and> ev_job_id r = i \<and> ev_json r = event \<and>
         ev_type r = py_str env (obj_get event ''type'')"
  using assms
  by (auto simp: append_event_in_transaction_def append_normal_def Let_def insert_event_def
        journaled_def normal_sequence_def with_phase_owner_def
        split: if_splits sum.splits option.splits)

lemma appended_type:
  assumes "append_event_in_transaction env now d i event p pseq occ obs = Inr (d', r)"
    and "\<not> is_plan_job d i" and "obj_get event ''type'' = JStr t" and "t \<notin> set lifecycle_types"
  shows "events d' = events d \<or> (\<exists>r. events d' = events d @ [r] \<and> ev_type r = t)"
proof -
  have ty: "obj_get (with_phase_owner q event) ''type'' = JStr t" for q
    using assms(3) by (cases event) (auto simp: with_phase_owner_def map_of_kv_set)
  show ?thesis
    using assms
    by (auto simp: append_event_in_transaction_def append_normal_def Let_def insert_event_def ty
          split: if_splits sum.splits option.splits)
qed

lemma append_keeps:
  assumes "append_event_in_transaction env now d i event p pseq occ obs = Inr (d', r)"
    and "is_plan_job d i \<or> (\<exists>t. obj_get event ''type'' = JStr t \<and> t \<notin> set lifecycle_types)"
  shows "keeps_told d d'"
proof (cases "is_plan_job d i")
  case True
  from assms(1) show ?thesis
  proof (cases rule: append_cases)
    case replayed
    then show ?thesis by simp
  next
    case inserted
    with True show ?thesis by (auto simp: keeps_told_def told_append fresh_row_def)
  qed
next
  case False
  with assms(2) obtain t where t: "obj_get event ''type'' = JStr t" "t \<notin> set lifecycle_types" by auto
  from appended_type [OF assms(1) False t] show ?thesis
    using t(2) by (auto simp: keeps_told_def told_append is_lifecycle_def)
qed

lemma keeps_trans:
  "keeps_told d e \<Longrightarrow> keeps_told e f \<Longrightarrow> jobs e = jobs d \<Longrightarrow> keeps_told d f"
  by (simp add: keeps_told_def is_plan_job_def find_job_def)

lemma lease_event_keeps:
  assumes "append_lease_event env ident event t d = Inr d'"
    and "obj_get event ''type'' = JStr k" and "k \<notin> set lifecycle_types"
  shows "keeps_told d d' \<and> jobs d' = jobs d"
  using assms(1) unfolding append_lease_event_def
proof (rule fold_tx_invariant [where P = "\<lambda>e. keeps_told d e \<and> jobs e = jobs d"])
  show "keeps_told d d \<and> jobs d = jobs d" by simp
next
  fix x e e'
  assume a: "(case append_event_in_transaction env t e x event (Some ''dispatcher:lease-control'') None
               (Some (At t)) (Some t) of Inl e \<Rightarrow> Inl e | Inr (d', r) \<Rightarrow> Inr d') = Inr e'"
    and IH: "keeps_told d e \<and> jobs e = jobs d"
  then obtain r where r: "append_event_in_transaction env t e x event
      (Some ''dispatcher:lease-control'') None (Some (At t)) (Some t) = Inr (e', r)"
    by (auto split: sum.splits)
  have "keeps_told e e'" by (rule append_keeps [OF r]) (use assms(2,3) in blast)
  moreover have "jobs e' = jobs e" by (rule quiet_tables [OF append_quiet [OF r]])
  ultimately show "keeps_told d e' \<and> jobs e' = jobs d" using IH keeps_trans by metis
qed

section \<open>Truthfulness is kept\<close>

lemma truthful_keeps: "truthful d \<Longrightarrow> keeps_told d d' \<Longrightarrow> jobs d' = jobs d \<Longrightarrow> truthful d'"
  by (auto simp: truthful_def keeps_told_def is_plan_job_def find_job_def split: option.splits)

text \<open>A status event told about the job that was written.\<close>

lemma status_event_tells:
  assumes "queue_event env d i (lifecycle_event env j ty prev) t = Inr d'"
    and "ty \<in> set lifecycle_types" and "\<not> is_plan_job d i"
  shows "told (events d') k = (if k = i then Some (JStr (status_value (job_status j))) else told (events d) k)"
proof -
  from assms(1) obtain r where r: "append_event_in_transaction env t d i (lifecycle_event env j ty prev)
      (Some queue_producer) None (Some (At t)) (Some t) = Inr (d', r)"
    by (auto simp: queue_event_def split: sum.splits)
  from appended_row [OF r assms(3)] show ?thesis
    using assms(2) by (auto simp: told_append is_lifecycle_def)
qed

lemma plan_event_tells:
  assumes "queue_event env d i event t = Inr d'" and "is_plan_job d i" and "k \<noteq> i"
  shows "told (events d') k = told (events d) k"
proof -
  from assms(1) obtain r where r: "append_event_in_transaction env t d i event
      (Some queue_producer) None (Some (At t)) (Some t) = Inr (d', r)"
    by (auto simp: queue_event_def split: sum.splits)
  then show ?thesis
    by (cases rule: append_cases) (use assms(3) in \<open>auto simp: told_append fresh_row_def\<close>)
qed

lemma progress_event_tells:
  assumes "queue_event env d i (progress_event env j q) t = Inr d'" and "\<not> is_plan_job d k"
  shows "told (events d') k = told (events d) k"
proof -
  from assms(1) obtain r where r: "append_event_in_transaction env t d i (progress_event env j q)
      (Some queue_producer) None (Some (At t)) (Some t) = Inr (d', r)"
    by (auto simp: queue_event_def split: sum.splits)
  have "keeps_told d d'"
    by (rule append_keeps [OF r]) (simp add: lifecycle_types_def)
  with assms(2) show ?thesis by (simp add: keeps_told_def)
qed


lemma is_plan_write [simp]:
  assumes "find_job d (job_id j') = Some j" and "job_model j' = job_model j"
  shows "is_plan_job (write_job j' d) k = is_plan_job d k"
  using assms by (auto simp: is_plan_job_def find_write_job split: option.splits)

text \<open>One row was rewritten and the journal told its status (or had no need to).\<close>

definition tells :: "db \<Rightarrow> job \<Rightarrow> db \<Rightarrow> bool" where
  "tells d j' d' \<longleftrightarrow>
     (\<forall>k. \<not> is_plan_job d k \<longrightarrow>
        told (events d') k =
          (if k = job_id j' then Some (JStr (status_value (job_status j'))) else told (events d) k))"

lemma truthful_written:
  assumes "truthful d" and "rewritten d j j' d'" and "job_model j' = job_model j" and "tells d j' d'"
  shows "truthful d'"
  unfolding truthful_def
proof (intro allI impI)
  fix k x
  assume f: "find_job d' k = Some x" and m: "job_model x \<noteq> plan_model"
  have j: "find_job d (job_id j) = Some j" "job_id j' = job_id j"
    using assms(2) by (simp_all add: rewritten_def)
  show "told (events d') k = Some (JStr (status_value (job_status x)))"
  proof (cases "k = job_id j")
    case True
    with f have "x = j'" by (simp add: rewritten_find [OF assms(2)])
    with m j True assms(3,4) show ?thesis by (simp add: tells_def is_plan_job_def)
  next
    case False
    with f have "find_job d k = Some x" by (simp add: rewritten_find [OF assms(2)])
    with m j False assms(1,4) show ?thesis by (simp add: tells_def is_plan_job_def truthful_def)
  qed
qed

lemma status_event_written:
  assumes "queue_event env (write_job j' d) (job_id j') (lifecycle_event env j' ty prev) t = Inr d'"
    and "ty \<in> set lifecycle_types" and "find_job d (job_id j') = Some j"
    and "job_model j' = job_model j"
  shows "tells d j' d'"
  unfolding tells_def
proof (intro allI impI)
  fix k
  assume k: "\<not> is_plan_job d k"
  let ?d = "write_job j' d"
  show "told (events d') k =
          (if k = job_id j' then Some (JStr (status_value (job_status j'))) else told (events d) k)"
  proof (cases "is_plan_job ?d (job_id j')")
    case True
    then have "k \<noteq> job_id j'" using k assms(3,4) by (metis is_plan_write)
    with plan_event_tells [OF assms(1) True this] show ?thesis by simp
  next
    case False
    from status_event_tells [OF assms(1,2) False] show ?thesis by simp
  qed
qed

lemma journal_change_tells:
  assumes "journal_change env j' (job_status j) pp t (write_job j' d) = Inr d'"
    and "truthful d" and "find_job d (job_id j') = Some j" and "job_model j' = job_model j"
  shows "tells d j' d'"
proof (cases "job_status j = job_status j'")
  case False
  with assms show ?thesis
    by (intro status_event_written [where ty = "''job_status_changed''"])
       (auto simp: journal_change_def lifecycle_types_def)
next
  case True
  have same: "told (events d') k = told (events d) k" if "\<not> is_plan_job d k" for k
  proof (cases "pp = job_progress j'")
    case True
    with assms(1) \<open>job_status j = job_status j'\<close> show ?thesis by (auto simp: journal_change_def)
  next
    case False
    with assms(1) \<open>job_status j = job_status j'\<close>
    have "queue_event env (write_job j' d) (job_id j') (progress_event env j' pp) t = Inr d'"
      by (simp add: journal_change_def)
    from progress_event_tells [OF this, of k] that assms(3,4) show ?thesis by simp
  qed
  then show ?thesis
    using assms(2-4) True by (auto simp: tells_def truthful_def is_plan_job_def split: option.splits)
qed

section \<open>The operations\<close>

lemma truthful_same: "truthful d \<Longrightarrow> events d' = events d \<Longrightarrow> jobs d' = jobs d \<Longrightarrow> truthful d'"
  by (simp add: truthful_def find_job_def)

lemma create_truthful:
  assumes "create env now uuid d model path params request provider st wanted = Inr (d', j)"
    and "truthful d"
  shows "truthful d'"
proof -
  let ?d = "d\<lparr>jobs := jobs d @ [j]\<rparr>"
  have q: "queue_event env ?d (job_id j) (lifecycle_event env j ''job_created'' None) now = Inr d'"
    and new: "find_job d (job_id j) = None"
    using assms(1) by (auto simp: create_def Let_def new_job_def split: if_splits sum.splits)
  have f: "find_job ?d k = (if k = job_id j then Some j else find_job d k)" for k
    using new by (auto simp: find_job_def find_append split: option.splits)
  have jobs': "find_job d' k = find_job ?d k" for k
    by (rule quiet_tables [OF queue_event_quiet [OF q]])
  show ?thesis
  proof (cases "is_plan_job ?d (job_id j)")
    case True
    then have "job_model j = plan_model" by (simp add: is_plan_job_def f)
    with plan_event_tells [OF q True] assms(2) show ?thesis
      by (auto simp: truthful_def jobs' f split: if_splits)
  next
    case False
    have ty: "''job_created'' \<in> set lifecycle_types" by (simp add: lifecycle_types_def)
    from status_event_tells [OF q ty False] assms(2) show ?thesis
      by (auto simp: truthful_def jobs' f split: if_splits)
  qed
qed

definition no_model_kw :: "job_kw list \<Rightarrow> bool" where
  "no_model_kw kws = list_all (\<lambda>k. case k of Kw_model m \<Rightarrow> False | _ \<Rightarrow> True) kws"

lemma changed_job_model:
  assumes "no_model_kw kws"
  shows "job_model (changed_job st err kws now j) = job_model j"
proof -
  have "job_model (foldl set_kw j kws) = job_model j" for j
    using assms
  proof (induction kws arbitrary: j)
    case Nil
    then show ?case by simp
  next
    case (Cons k kws)
    then show ?case by (cases k) (auto simp: no_model_kw_def)
  qed
  then show ?thesis
    by (simp add: changed_job_def stamp_status_def status_error_def split: option.splits)
qed

lemma update_status_truthful:
  assumes "update_status env now d i st err kws = Inr (d', r)" and "truthful d" and "no_model_kw kws"
  shows "truthful d'"
  using update_status_effect [OF assms(1)]
proof (elim disjE exE conjE)
  assume "d' = d" then show ?thesis using assms(2) by simp
next
  fix j
  assume j: "find_job d i = Some j" "\<not> terminal (job_status j)"
    and c: "job_change d j (changed_job st err kws now j) d'"
  have "journal_change env (changed_job st err kws now j) (job_status j) (job_progress j) now
          (write_job (changed_job st err kws now j) d) = Inr d'"
    using assms(1) j by (auto simp: update_status_def Let_def split: sum.splits)
  then have "tells d (changed_job st err kws now j) d'"
    by (rule journal_change_tells)
       (use assms(2,3) j find_job_id [OF j(1)] in \<open>simp_all add: changed_job_model\<close>)
  with c show ?thesis
    using assms(2,3) by (auto simp: job_change_def changed_job_model intro: truthful_written)
qed

lemma failed_job_model [simp]: "job_model (failed_job e n j) = job_model j"
  by (simp add: failed_job_def Let_def)

lemma fail_job_truthful:
  assumes "fail_job env now d i err = Inr (d', r)" and "truthful d"
  shows "truthful d'"
  using fail_job_effect [OF assms(1)]
proof (elim disjE exE conjE)
  assume "d' = d" then show ?thesis using assms(2) by simp
next
  fix j
  assume j: "find_job d i = Some j" "\<not> terminal (job_status j)"
    and c: "job_change d j (failed_job err now j) d'"
  have id: "job_id j = i" using find_job_id [OF j(1)] by simp
  have "journal_change env (failed_job err now j) (job_status j) (job_progress (failed_job err now j))
          now (write_job (failed_job err now j) d) = Inr d'"
    using assms(1) j id
    by (auto simp: fail_job_def Let_def journal_change_def split: sum.splits if_splits)
  then have "tells d (failed_job err now j) d'"
    by (rule journal_change_tells) (use assms(2) j id in simp_all)
  with c show ?thesis using assms(2) by (auto simp: job_change_def intro: truthful_written)
qed

lemma set_progress_truthful:
  assumes "set_progress env now d i p = Inr (d', r)" and "truthful d"
  shows "truthful d'"
  using set_progress_effect [OF assms(1)]
proof (elim disjE exE conjE)
  assume "d' = d" then show ?thesis using assms(2) by simp
next
  fix j
  let ?j = "(progress_job p j)\<lparr>job_updated_at := now\<rparr>"
  assume j: "find_job d i = Some j" "\<not> terminal (job_status j)" and c: "job_change d j ?j d'"
  have id: "job_id j = i" using find_job_id [OF j(1)] by simp
  have "journal_change env ?j (job_status j) (job_progress j) now (write_job ?j d) = Inr d'"
    using assms(1) j id by (auto simp: set_progress_def update_def Let_def split: sum.splits)
  then have "tells d ?j d'"
    by (rule journal_change_tells) (use assms(2) j id in \<open>simp_all add: progress_job_def\<close>)
  with c show ?thesis
    using assms(2) by (auto simp: job_change_def progress_job_def intro: truthful_written)
qed

lemma complete_job_truthful:
  assumes "complete_job env now now2 d i result = Inr (d', r)" and "truthful d"
  shows "truthful d'"
proof -
  obtain d1 where u: "update_status env now d i COMPLETED None
                        [Kw_result (Some result), Kw_progress 100] = Inr (d1, r)"
    and d': "events d' = events d1" "jobs d' = jobs d1"
    using assms(1)
    by (auto simp: complete_job_def put_partition_cache_def split: sum.splits option.splits)
  have "truthful d1"
    by (rule update_status_truthful [OF u assms(2)]) (simp add: no_model_kw_def)
  with d' show ?thesis by (blast intro: truthful_same)
qed


subsection \<open>Claims\<close>

lemma claim_one_tells:
  assumes "claim_one env now q l i d = Inr (d', r)" and "find_job d i = Some j"
    and "\<not> is_plan_job d k"
  shows "told (events d') k =
           (if k = i then Some (JStr (status_value (job_status j))) else told (events d) k)"
proof -
  define d1 where "d1 = (case l of None \<Rightarrow> d | Some m \<Rightarrow> insert_link (lease_id m) i now d)"
  have same1: "events d1 = events d" "is_plan_job d1 = is_plan_job d"
    unfolding d1_def is_plan_job_def by (auto split: option.splits)
  obtain d2 where q: "queue_event env d1 i
                        (lifecycle_event env j ''job_status_changed'' (Some QUEUED)) now = Inr d2"
    and rest: "keeps_told (submit_claimed_plan now j d2) d'"
    using assms(1,2) append_keeps
    by (fastforce simp: claim_one_def d1_def Let_def lifecycle_types_def
                  split: sum.splits option.splits)
  have sub: "events (submit_claimed_plan now j d2) = events d2"
    "jobs (submit_claimed_plan now j d2) = jobs d2"
    by (auto simp: submit_claimed_plan_def split: json.splits)
  have "is_plan_job d2 x = is_plan_job d1 x" for x
    using quiet_tables(9) [OF queue_event_quiet [OF q]] by (simp add: is_plan_job_def)
  then have jobs2: "is_plan_job d2 = is_plan_job d" using same1(2) by auto
  have "is_plan_job (submit_claimed_plan now j d2) k = is_plan_job d k"
    using find_job_jobs [OF sub(2), of k] jobs2 by (simp add: is_plan_job_def fun_eq_iff)
  then have "told (events d') k = told (events d2) k"
    using rest assms(3) sub(1) by (simp add: keeps_told_def)
  also have "\<dots> = (if k = i then Some (JStr (status_value (job_status j))) else told (events d1) k)"
  proof (cases "is_plan_job d1 i")
    case True
    then have "k \<noteq> i" using assms(3) same1(2) by auto
    with plan_event_tells [OF q True this] show ?thesis by simp
  next
    case False
    from status_event_tells [OF q _ False] show ?thesis by (simp add: lifecycle_types_def)
  qed
  finally show ?thesis by (simp add: same1)
qed

lemma claim_each_tells:
  assumes "claim_each env now q l ids d = Inr (d', js)"
    and "\<forall>i \<in> set ids. find_job d i \<noteq> None" and "\<not> is_plan_job d k"
  shows "told (events d') k =
           (if k \<in> set ids then map_option (\<lambda>j. JStr (status_value (job_status j))) (find_job d k)
            else told (events d) k)"
  using assms
proof (induction ids arbitrary: d js)
  case Nil
  then show ?case by simp
next
  case (Cons i ids)
  then obtain d1 r js' where one: "claim_one env now q l i d = Inr (d1, r)"
    and each: "claim_each env now q l ids d1 = Inr (d', js')"
    by (auto split: sum.splits)
  obtain j where j: "find_job d i = Some j" using Cons.prems(2) by auto
  have "claim_frame d d1" using claim_one_frame [OF one] by simp
  then have same: "find_job d1 x = find_job d x" for x by (simp add: claim_frame_def find_job_def)
  have np: "\<not> is_plan_job d1 k" using Cons.prems(3) same by (simp add: is_plan_job_def)
  from claim_one_tells [OF one j Cons.prems(3)] Cons.IH [OF each _ np] Cons.prems(2) j same
  show ?case by auto
qed

lemma is_plan_claim_update [simp]: "is_plan_job (claim_update ids w t d) k = is_plan_job d k"
  by (auto simp: is_plan_job_def find_claim_update split: option.splits)

lemma claim_jobs_truthful:
  assumes "claim_jobs env now t d token q = Inr (d', js)" and "truthful d"
  shows "truthful d'"
proof -
  obtain d1 l where c: "claim_lease now d q = Inr (d1, l)"
    and rest: "d' = d1 \<or>
       (let ids = map job_id (claim_rows env d1 q)
        in claim_each env t q l ids (claim_update ids (cr_worker_id q) t d1) = Inr (d', js))"
    using assms(1)
    by (auto simp: claim_jobs_def Let_def split: option.splits sum.splits if_splits)
  have "jobs d1 = jobs d" "events d1 = events d"
    using claim_lease_effect [OF c] by auto
  with assms(2) have t1: "truthful d1" by (blast intro: truthful_same)
  from rest show ?thesis
  proof
    assume "d' = d1" with t1 show ?thesis by simp
  next
    define ids where "ids = map job_id (claim_rows env d1 q)"
    let ?d2 = "claim_update ids (cr_worker_id q) t d1"
    assume "let ids = map job_id (claim_rows env d1 q)
        in claim_each env t q l ids (claim_update ids (cr_worker_id q) t d1) = Inr (d', js)"
    then have each: "claim_each env t q l ids ?d2 = Inr (d', js)"
      by (simp add: Let_def ids_def)
    have "find_job d1 (job_id r) \<noteq> None" if "r \<in> set (claim_rows env d1 q)" for r
      using claim_rows_queued [OF that] by (auto simp: find_job_def find_None_iff)
    then have ex: "\<forall>i \<in> set ids. find_job ?d2 i \<noteq> None"
      by (auto simp: ids_def find_claim_update)
    have same: "find_job d' k = find_job ?d2 k" for k
      using claim_each_frame [OF each] by (simp add: claim_frame_def find_job_def)
    show ?thesis
      unfolding truthful_def
    proof (intro allI impI)
      fix k j
      assume f: "find_job d' k = Some j" and m: "job_model j \<noteq> plan_model"
      then have np: "\<not> is_plan_job ?d2 k" using same by (simp add: is_plan_job_def)
      from claim_each_tells [OF each ex np] f same t1 m
      show "told (events d') k = Some (JStr (status_value (job_status j)))"
        by (auto simp: truthful_def find_claim_update split: if_splits)
    qed
  qed
qed

subsection \<open>Leases\<close>

lemma lease_told:
  assumes "append_lease_event env i event t (update_lease k f d) = Inr d'"
    and "obj_get event ''type'' = JStr ty" and "ty \<notin> set lifecycle_types" and "truthful d"
  shows "truthful d'"
proof -
  have "truthful (update_lease k f d)" using assms(4) by (rule truthful_same) simp_all
  with lease_event_keeps [OF assms(1-3)] show ?thesis by (blast intro: truthful_keeps)
qed

lemmas lease_types = lifecycle_types_def lease_created_event_def

lemma bind_truthful:
  "bind_lease env now d i inst w ttl = Inr (d', l) \<Longrightarrow> truthful d \<Longrightarrow> truthful d'"
  by (auto simp: bind_lease_def split: option.splits if_splits sum.splits
           elim!: lease_told simp: lease_types)

lemma renew_truthful:
  "renew_lease now d i w ttl = Inr (d', l) \<Longrightarrow> truthful d \<Longrightarrow> truthful d'"
  by (auto simp: renew_lease_def split: option.splits if_splits elim!: truthful_same)

lemma revoke_truthful:
  "request_lease_revocation env now d i r = Inr (d', l) \<Longrightarrow> truthful d \<Longrightarrow> truthful d'"
  by (auto simp: request_lease_revocation_def split: option.splits if_splits sum.splits
           elim!: lease_told simp: lease_types)

lemma attempt_truthful:
  "record_termination_attempt env now d i e = Inr (d', l) \<Longrightarrow> truthful d \<Longrightarrow> truthful d'"
  by (auto simp: record_termination_attempt_def Let_def split: option.splits if_splits sum.splits
           elim!: lease_told simp: lease_types)

lemma confirm_truthful:
  "confirm_lease_termination env now d i s a = Inr (d', l) \<Longrightarrow> truthful d \<Longrightarrow> truthful d'"
  by (auto simp: confirm_lease_termination_def Let_def split: option.splits if_splits sum.splits
           elim!: lease_told simp: lease_types)

lemma unbound_truthful:
  "close_unbound_lease env now d i r = Inr (d', l) \<Longrightarrow> truthful d \<Longrightarrow> truthful d'"
  by (auto simp: close_unbound_lease_def split: option.splits if_splits sum.splits
           elim!: lease_told simp: lease_types)

lemma revoke_each_truthful: "truthful d \<Longrightarrow> truthful (fst (revoke_each env now r ls d))"
proof (induction env now r ls d rule: revoke_each.induct)
  case (1 env now r d)
  then show ?case by simp
next
  case (2 env now r l ls d)
  show ?case
  proof (cases "request_lease_revocation env now d (lease_id l) r")
    case (Inl e)
    with 2 show ?thesis by simp
  next
    case (Inr x)
    obtain d1 l1 where x: "x = (d1, l1)" by (cases x)
    have "truthful d1" using revoke_truthful Inr x 2(2) by blast
    with 2(1) [OF Inr x [symmetric]] Inr x show ?thesis by (auto split: prod.splits sum.splits)
  qed
qed

lemma attach_truthful:
  assumes "attach_job_to_lease env now d l j = Inr (d', u)" and "truthful d"
  shows "truthful d'"
proof -
  let ?e = "JObj [(''type'', JStr ''lease_job_attached''), (''phase'', JStr ''provisioning''),
              (''lease_id'', JStr l)]"
  have "d' = d \<or> (\<exists>r. append_event_in_transaction env now (insert_link l j now d) j ?e
       (Some ''coordinator:lease-control'') None (Some (At now)) (Some now) = Inr (d', r))"
    using assms(1) by (auto simp: attach_job_to_lease_def split: if_splits sum.splits)
  then show ?thesis
  proof (elim disjE exE)
    assume "d' = d" then show ?thesis using assms(2) by simp
  next
    fix r
    assume a: "append_event_in_transaction env now (insert_link l j now d) j ?e
       (Some ''coordinator:lease-control'') None (Some (At now)) (Some now) = Inr (d', r)"
    have "truthful (insert_link l j now d)" using assms(2) by (rule truthful_same) simp_all
    moreover have "keeps_told (insert_link l j now d) d'"
      by (rule append_keeps [OF a]) (simp add: lifecycle_types_def)
    ultimately show ?thesis
      using quiet_tables(1) [OF append_quiet [OF a]] by (rule truthful_keeps)
  qed
qed

lemma create_lease_truthful:
  assumes "create_lease env now uuid d p prof js rate mr mc ttl w = Inr (d', l)" and "truthful d"
  shows "truthful d'"
proof -
  obtain i d1 d2 where a: "attach_jobs i (first_seen js) now (d\<lparr>leases := d2\<rparr>) = Inr d1"
    and e: "append_lease_event env i (lease_created_event env l) now d1 = Inr d'"
    using assms(1)
    by (auto simp: create_lease_def Let_def split: if_splits option.splits sum.splits)
  have "events d1 = events d \<and> jobs d1 = jobs d"
    using a unfolding attach_jobs_def
    by (rule fold_tx_invariant [where P = "\<lambda>e. events e = events d \<and> jobs e = jobs d"])
       (auto split: if_splits)
  with assms(2) have "truthful d1" by (blast intro: truthful_same)
  with lease_event_keeps [OF e] show ?thesis
    by (auto simp: lease_types intro: truthful_keeps)
qed

subsection \<open>Plans\<close>

lemma plan_atomic_truthful:
  assumes "truthful d" and "keeps_told d d0" and "jobs d0 = jobs d" and "find_job d (job_id j') = Some j"
    and "status_changed env now j' (job_status j) (write_job j' d0) = Inr d1"
    and "job_model j' = job_model j" and "job_id j' = job_id j" and "job_created_at j' = job_created_at j"
    and "events d2 = events d1" and "jobs d2 = jobs d1"
  shows "truthful d2"
proof -
  have t0: "truthful d0" by (rule truthful_keeps [OF assms(1-3)])
  have f0: "find_job d0 (job_id j') = Some j" using assms(3,4) by (simp add: find_job_def)
  have q: "queue_event env (write_job j' d0) (job_id j')
             (lifecycle_event env j' ''job_status_changed'' (Some (job_status j))) now = Inr d1"
    using assms(5) by (simp add: status_changed_def)
  have "tells d0 j' d1"
    by (rule status_event_written [OF q _ f0 assms(6)]) (simp add: lifecycle_types_def)
  moreover have "rewritten d0 j j' d1"
    using f0 assms(7,8) quiet_tables(1) [OF queue_event_quiet [OF q]] by (simp add: rewritten_def)
  ultimately have "truthful d1" using truthful_written [OF t0] assms(6) by blast
  with assms(9,10) show ?thesis by (blast intro: truthful_same)
qed


lemma cancel_atomic_truthful:
  assumes "cancel_plan_atomic env now d i dg rc = Inr (d', r)" and "truthful d"
  shows "truthful d'"
proof (cases "d' = d")
  case False
  then obtain n j d1 d2 where j: "find_job d i = Some j"
    and q: "queue_event env d i (cancellation_event j) now = Inr d1"
    and s: "status_changed env now (cancelled_job now j) (job_status j)
              (write_job (cancelled_job now j) d1) = Inr d2"
    and u: "require_one (plan_where dg i [Completed_Plan, Cancelled, Failed_Plan, Terminal_Plan])
              (close_plan_row Cancelled n now) ''plan cancellation authority is stale'' d2 = Inr d'"
    using assms(1)
    by (auto simp: cancel_plan_atomic_def Let_def split: sum.splits option.splits if_splits)
  obtain r0 where a: "append_event_in_transaction env now d i (cancellation_event j)
      (Some queue_producer) None (Some (At now)) (Some now) = Inr (d1, r0)"
    using q by (auto simp: queue_event_def split: sum.splits)
  have k: "keeps_told d d1"
    by (rule append_keeps [OF a]) (simp add: cancellation_event_def lifecycle_types_def)
  show ?thesis
    by (rule plan_atomic_truthful [OF assms(2) k quiet_tables(1) [OF append_quiet [OF a]] _ s])
       (use require_one_plans [OF u] j find_job_id [OF j] in \<open>simp_all add: cancelled_job_def\<close>)
qed (use assms(2) in simp)

lemma plan_only_events: "plan_only d (update_plans P f d) \<Longrightarrow> events (update_plans P f d) = events d"
  by simp

lemma complete_atomic_truthful:
  assumes "complete_plan_atomic env now d i dg res rc = Inr (d', r)" and "truthful d"
  shows "truthful d'"
proof (cases "events d' = events d \<and> jobs d' = jobs d")
  case False
  then obtain n c j d1 where j: "find_job d i = Some j"
    and s: "status_changed env now (completed_plan_job n now j) (job_status j)
              (write_job (completed_plan_job n now j) d) = Inr d1"
    and u: "require_one (plan_where dg i [Cancelled, Failed_Plan, Terminal_Plan])
              (close_plan_row Completed_Plan c now) ''plan completion authority is stale'' d1 = Inr d'"
    using assms(1)
    by (auto simp: complete_plan_atomic_def Let_def split: sum.splits option.splits if_splits)
  show ?thesis
    by (rule plan_atomic_truthful [OF assms(2) keeps_refl refl _ s])
       (use require_one_plans [OF u] j find_job_id [OF j] in \<open>simp_all add: completed_plan_job_def\<close>)
qed (use assms(2) truthful_same in blast)

lemma fail_atomic_truthful:
  assumes "fail_plan_atomic env now d i dg rc = Inr (d', r)" and "truthful d"
  shows "truthful d'"
proof (cases "events d' = events d \<and> jobs d' = jobs d")
  case False
  then obtain j d1 where j: "find_job d i = Some j"
    and s: "status_changed env now (retried_plan_job now j) (job_status j)
              (write_job (retried_plan_job now j) d) = Inr d1"
    and u: "\<exists>P f. require_one P f ''plan failure authority is stale'' d1 = Inr d'"
    using assms(1)
    by (auto simp: fail_plan_atomic_def Let_def split: sum.splits option.splits if_splits)
  from u obtain P f where "require_one P f ''plan failure authority is stale'' d1 = Inr d'" by blast
  from require_one_plans [OF this] show ?thesis
    by (intro plan_atomic_truthful [OF assms(2) keeps_refl refl _ s])
       (use j find_job_id [OF j] in \<open>simp_all add: retried_plan_job_def Let_def\<close>)
qed (use assms(2) truthful_same in blast)

section \<open>Every run\<close>

text \<open>
  What callers owe: events they append themselves are no lifecycle events, and a status change
  leaves the model of the job alone.
\<close>

definition honest :: "queue_op \<Rightarrow> bool" where
  "honest q =
     (case op_call q of
        Append_Event i e p n oc \<Rightarrow>
          (case obj_get e ''type'' of JStr t \<Rightarrow> t \<notin> set lifecycle_types | _ \<Rightarrow> False)
      | Update_Status i st err kws \<Rightarrow> no_model_kw kws
      | _ \<Rightarrow> True)"

lemma commit_truthful:
  "(\<And>d' a. r = Inr (d', a) \<Longrightarrow> truthful d') \<Longrightarrow> truthful d \<Longrightarrow> truthful (commit d r)"
  by (cases r) auto

lemma append_event_truthful:
  assumes "append_event env now d i e p n oc = Inr (d', r)" and "truthful d"
    and "obj_get e ''type'' = JStr t" and "t \<notin> set lifecycle_types"
  shows "truthful d'"
proof -
  obtain x where a: "append_event_in_transaction env now d i e p n oc None = Inr (d', x)"
    using assms(1) by (auto simp: append_event_def split: if_splits sum.splits)
  show ?thesis
    by (rule truthful_keeps [OF assms(2) append_keeps [OF a] quiet_tables(1) [OF append_quiet [OF a]]])
       (use assms(3,4) in blast)
qed

lemma authorize_truthful:
  "authorize_worker_job now now2 d i w li ttl = Inr (d', j) \<Longrightarrow> truthful d \<Longrightarrow> truthful d'"
  by (auto simp: authorize_worker_job_def Let_def split: option.splits if_splits sum.splits
           intro: renew_truthful)

lemma upsert_truthful: "truthful d \<Longrightarrow> truthful (upsert_worker w d)"
  by (erule truthful_same) (simp_all add: upsert_worker_def)

lemma record_worker_truthful:
  "record_worker now now2 d w p st prof caps idle det li ttl = Inr (d', u) \<Longrightarrow> truthful d \<Longrightarrow>
   truthful d'"
  by (auto simp: record_worker_def Let_def split: if_splits sum.splits
           intro!: upsert_truthful intro: renew_truthful)

lemma set_token_truthful:
  "set_worker_token env d s = Inr (d', u) \<Longrightarrow> truthful d \<Longrightarrow> truthful d'"
  by (auto simp: set_worker_token_def set_meta_def split: if_splits elim!: truthful_same)

lemma plan_store_truthful:
  assumes "truthful d"
  shows "truthful (put_partition_cache now k r d)"
    "truthful (fst (cancel_plan now d dg))" "truthful (fst (reconcile_unknown_submit now d dg jo))"
    "truthful (abort_submit now d dg j)"
    "sync_status now d dg j st = Inr (d', x) \<Longrightarrow> truthful d'"
    "close_plan env now d dg rc = Inr (d', u) \<Longrightarrow> truthful d'"
proof -
  show "truthful (put_partition_cache now k r d)"
    using assms by (rule truthful_same) (simp_all add: put_partition_cache_def)
  show "truthful (fst (cancel_plan now d dg))"
    using assms by (rule truthful_same)
      (simp_all add: cancel_plan_def set_plan_state_def Let_def split: option.splits)
  show "truthful (fst (reconcile_unknown_submit now d dg jo))"
    using assms by (rule truthful_same) (simp_all add: reconcile_unknown_submit_def Let_def)
  show "truthful (abort_submit now d dg j)"
    using assms by (rule truthful_same) (simp_all add: abort_submit_def)
  show "sync_status now d dg j st = Inr (d', x) \<Longrightarrow> truthful d'"
    using assms by (auto simp: sync_status_def set_plan_state_def Let_def
        split: option.splits if_splits elim!: truthful_same)
  show "close_plan env now d dg rc = Inr (d', u) \<Longrightarrow> truthful d'"
    using assms by (auto simp: close_plan_def split: option.splits if_splits sum.splits
        elim!: truthful_same)
qed

lemma sync_truthful:
  "sync_status now d dg j st = Inr (d', x) \<Longrightarrow> truthful d \<Longrightarrow> truthful d'"
  by (rule plan_store_truthful(5))

lemma close_plan_truthful:
  "close_plan env now d dg rc = Inr (d', u) \<Longrightarrow> truthful d \<Longrightarrow> truthful d'"
  by (rule plan_store_truthful(6))

lemmas truthful_calls =
  create_truthful update_status_truthful fail_job_truthful set_progress_truthful
  complete_job_truthful claim_jobs_truthful authorize_truthful append_event_truthful
  record_worker_truthful set_token_truthful create_lease_truthful attach_truthful bind_truthful
  renew_truthful revoke_truthful attempt_truthful confirm_truthful unbound_truthful
  revoke_each_truthful cancel_atomic_truthful complete_atomic_truthful fail_atomic_truthful
  sync_truthful close_plan_truthful

lemma honest_append:
  "honest q \<Longrightarrow> op_call q = Append_Event i e p n oc \<Longrightarrow>
   \<exists>t. obj_get e ''type'' = JStr t \<and> t \<notin> set lifecycle_types"
  by (cases "obj_get e ''type''") (auto simp: honest_def)

lemma honest_update: "honest q \<Longrightarrow> op_call q = Update_Status i st err kws \<Longrightarrow> no_model_kw kws"
  by (simp add: honest_def)

lemma queue_step_truthful:
  assumes "truthful d" and "honest q"
  shows "truthful (queue_step env q d)"
proof (cases "op_call q")
  case (Append_Event i e p n oc)
  obtain t where t: "obj_get e ''type'' = JStr t" "t \<notin> set lifecycle_types"
    using honest_append [OF assms(2) Append_Event] by blast
  have "truthful (commit d (append_event env (op_now q) d i e p n oc))"
    using assms(1) t by (blast intro: commit_truthful append_event_truthful)
  then show ?thesis by (simp add: Append_Event Let_def)
next
  case (Update_Status i st err kws)
  have "truthful (commit d (update_status env (op_now q) d i st err kws))"
    using assms(1) honest_update [OF assms(2) Update_Status]
    by (blast intro: commit_truthful update_status_truthful)
  then show ?thesis by (simp add: Update_Status Let_def)
qed (simp_all add: Let_def request_job_lease_revocation_def,
     (rule commit_truthful | rule assms(1) | rule plan_store_truthful(1-4) |
      rule revoke_each_truthful | erule truthful_calls)+)

lemma empty_truthful: "truthful empty_db"
  by (simp add: truthful_def empty_db_def find_job_def)

lemma run_truthful:
  "truthful d \<Longrightarrow> list_all honest ops \<Longrightarrow> truthful (run_steps (queue_step env) ops d)"
  by (induction ops arbitrary: d) (simp_all add: queue_step_truthful del: queue_step.simps)


section \<open>The snapshot\<close>

lemma last_sorted_filter:
  assumes "journal_ok d"
  shows "filter is_lifecycle (job_events d i) = filter (\<lambda>r. ev_job_id r = i \<and> is_lifecycle r) (events d)"
  by (simp add: job_events_filter [OF assms] conj_commute)

text \<open>A truthful journal makes the snapshot of an ordinary job agree with its row.\<close>

lemma snapshot_truthful:
  assumes "queue_ok d" and "truthful d" and "find_job d i = Some j" and "job_model j \<noteq> plan_model"
  shows "\<exists>s. event_snapshot env d i = Inr (Some s) \<and> sn_job s = Plain j \<and>
             sn_status s = status_value (job_status j) \<and> sn_source s = ''journal'' \<and>
             0 \<le> sn_progress s \<and> sn_progress s \<le> 100 \<and>
             (job_status j = COMPLETED \<longrightarrow> sn_progress s = 100)"
proof -
  let ?ls = "filter is_lifecycle (job_events d i)"
  have id: "job_id j = i" using find_job_id [OF assms(3)] by simp
  have t: "told (events d) i = Some (JStr (status_value (job_status j)))"
    using assms(2-4) by (simp add: truthful_def)
  have ls: "?ls \<noteq> []" "obj_get (ev_json (last ?ls)) ''status'' = JStr (status_value (job_status j))"
    using t unfolding last_sorted_filter [OF queue_okD(4) [OF assms(1)]]
    by (auto simp: told_def Let_def split: if_splits)
  have js: "journal_status (last_row ?ls) = Inr (Some (job_status j))"
    using ls by (simp add: journal_status_def last_row_def Let_def hashable_def)
  have c: "status_value (job_status j) = ''completed'' \<longleftrightarrow> job_status j = COMPLETED"
    by (cases "job_status j") simp_all
  show ?thesis
    using assms(3,4) js id c
    by (simp add: event_snapshot_def job_snapshot_def Let_def or_default_def)
qed

end
