(* ===== verification/SnapshotProps.thy ===== *)
theory SnapshotProps
  imports StatusJournal
begin

text \<open>
  What clients read: the snapshot agrees with the job row, except where an event of a worker
  claims a status, and the closure receipts of plans do or do not survive the snapshot.
\<close>

section \<open>Ordinary jobs\<close>

text \<open>C22: in every database that operations build from an empty one, the snapshot of a job that
  is not a plan reports the status of its row and takes it from the journal, with a progress
  between 0 and 100 that is 100 for a completed job, provided callers append no lifecycle events
  of their own and no status change renames the model.\<close>

theorem snapshot_matches_row:
  assumes "list_all honest ops"
    and "find_job (run_steps (queue_step env) ops empty_db) i = Some j" and "job_model j \<noteq> plan_model"
  shows "\<exists>s. event_snapshot env (run_steps (queue_step env) ops empty_db) i = Inr (Some s) \<and>
             sn_job s = Plain j \<and> sn_status s = status_value (job_status j) \<and>
             sn_source s = ''journal'' \<and> 0 \<le> sn_progress s \<and> sn_progress s \<le> 100 \<and>
             (job_status j = COMPLETED \<longrightarrow> sn_progress s = 100)"
  by (rule snapshot_truthful [OF queue_inv.run_inv [OF empty_db_ok]
        run_truthful [OF empty_truthful assms(1)] assms(2,3)])

definition sample_create :: queue_op where
  "sample_create =
     \<lparr>op_now = 5, op_later = 5,
      op_call = Create ''a'' ''sdxl'' ''in.png'' JNull JNull None QUEUED None\<rparr>"

lemma sample_create_runs:
  "\<exists>j. find_job (run_steps (queue_step sample_env) [sample_create] empty_db) ''a'' = Some j \<and>
       job_model j = ''sdxl'' \<and> job_status j = QUEUED"
  by (simp add: sample_create_def Let_def create_def empty_db_def new_job_def eval_append
        find_job_def) (simp add: eval_text)

lemma snapshot_matches_row_witness:
  "\<exists>s. event_snapshot sample_env (run_steps (queue_step sample_env) [sample_create] empty_db) ''a''
         = Inr (Some s) \<and> sn_status s = ''queued''"
proof -
  obtain j where j: "find_job (run_steps (queue_step sample_env) [sample_create] empty_db) ''a'' = Some j"
    "job_model j \<noteq> plan_model" "job_status j = QUEUED"
    using sample_create_runs by (auto simp: plan_model_def)
  from snapshot_matches_row [OF _ j(1,2)] j(3) show ?thesis
    by (auto simp: sample_create_def honest_def)
qed

definition forged_event :: json where
  "forged_event = JObj [(''type'', JStr ''job_status_changed''), (''status'', JStr ''completed'')]"

text \<open>The snapshot believes whoever told last: after any producer appends one event of type
  \<open>job_status_changed\<close> with the status \<open>completed\<close>, the snapshot reports a completed
  job with progress 100 while the row still has the status it had.\<close>

theorem forged_status_event:
  assumes "queue_ok d" and "find_job d i = Some j" and "job_model j \<noteq> plan_model"
    and "append_event env now d i forged_event p None occ = Inr (d', e)"
  shows "find_job d' i = Some j \<and>
         (\<exists>s. event_snapshot env d' i = Inr (Some s) \<and> sn_job s = Plain j \<and>
              sn_status s = ''completed'' \<and> sn_progress s = 100)"
proof -
  obtain r where a: "append_event_in_transaction env now d i forged_event p None occ None = Inr (d', r)"
    using assms(4) by (auto simp: append_event_def split: if_splits sum.splits)
  have np: "\<not> is_plan_job d i" using assms(2,3) by (simp add: is_plan_job_def)
  have ev: "events d' = events d @ [r] \<and> ev_job_id r = i \<and> ev_type r = ''job_status_changed'' \<and>
            obj_get (ev_json r) ''status'' = JStr ''completed''"
    using a np
    by (auto simp: append_event_in_transaction_def append_normal_def Let_def insert_event_def
          normal_sequence_def with_phase_owner_def forged_event_def
          split: if_splits sum.splits)
  have ok: "queue_ok d'"
    using quiet_advances [OF append_quiet [OF a] assms(1)] by (simp add: advances_def)
  have same: "find_job d' i = Some j"
    using assms(2) quiet_tables(9) [OF append_quiet [OF a]] by simp
  have id: "job_id j = i" using find_job_id [OF assms(2)] by simp
  have "filter is_lifecycle (job_events d' i) =
        filter (\<lambda>r. ev_job_id r = i \<and> is_lifecycle r) (events d) @ [r]"
    using ev by (simp add: last_sorted_filter [OF queue_okD(4) [OF ok]] is_lifecycle_def lifecycle_types_def)
  then have "journal_status (last_row (filter is_lifecycle (job_events d' i))) = Inr (Some COMPLETED)"
    using ev by (simp add: journal_status_def last_row_def Let_def hashable_def status_of_def all_statuses_def)
  then show ?thesis
    using same id assms(3) by (simp add: event_snapshot_def job_snapshot_def Let_def or_default_def)
qed

lemma forged_status_event_witness:
  "\<exists>d' e s. append_event sample_env 7 (jobs_db [sample_job ''a'' RUNNING 1]) ''a'' forged_event
       (Some ''worker:w1:0'') None None = Inr (d', e) \<and>
     event_snapshot sample_env d' ''a'' = Inr (Some s) \<and> sn_status s = ''completed'' \<and>
     find_job d' ''a'' = Some (sample_job ''a'' RUNNING 1)"
proof -
  let ?d = "jobs_db [sample_job ''a'' RUNNING 1]"
  have "\<exists>d' e. append_event sample_env 7 ?d ''a'' forged_event (Some ''worker:w1:0'') None None
          = Inr (d', e)"
    by (simp add: append_event_def eval_append find_job_def Let_def forged_event_def)
       (simp add: eval_text)
  then obtain d' e where a: "append_event sample_env 7 ?d ''a'' forged_event (Some ''worker:w1:0'')
      None None = Inr (d', e)" by blast
  have ok: "queue_ok ?d" by (rule jobs_db_ok) simp
  have f: "find_job ?d ''a'' = Some (sample_job ''a'' RUNNING 1)" by (simp add: find_job_def)
  from forged_status_event [OF ok f _ a] a show ?thesis by (auto simp: plan_model_def)
qed

section \<open>Closure receipts\<close>

lemma has_unknown_append:
  "has_unknown (JObj (xs @ ys)) ks \<longleftrightarrow> has_unknown (JObj xs) ks \<or> has_unknown (JObj ys) ks"
  by (simp add: has_unknown_def obj_keys_def)

lemma receipt_shape:
  assumes "validate_closure_receipt env r = Inr n"
  obtains st ended reason ident where
    "n = JObj ([(''receipt_id'', JStr ident), (''status'', st),
                (''provider_resource_absent'', JBool True)] @ ended @ reason)"
    "closure_reason r = Inr reason" "closure_ended env r = Inr ended" "id_match ident"
    "st \<in> JStr ` set [''completed'', ''cancelled'', ''failed'', ''terminal'']"
    "is_obj r"
proof -
  have m: "id_match x" if "safe_opaque v l = Inr x" for v l x
    using that by (cases v) (auto split: if_splits)
  show ?thesis
    using assms that
    by (auto simp: validate_closure_receipt_def Let_def split: if_splits sum.splits dest: m)
qed

lemma reason_field:
  assumes "closure_reason r = Inr reason"
  shows "(obj_has r ''reason'' \<longrightarrow> (\<exists>c. reason = [(''reason_code'', JStr c)])) \<and>
         (\<not> obj_has r ''reason'' \<longrightarrow> reason = [])"
  using assms by (auto simp: closure_reason_def split: if_splits json.splits)

lemma reasoned_receipt_rejected:
  assumes "validate_closure_receipt env r = Inr n" and "obj_has r ''reason''"
  shows "validate_closure_receipt env n = Inl (PlanError ''closure receipt has unknown fields'')"
proof (rule receipt_shape [OF assms(1)])
  fix st ended reason ident
  assume n: "n = JObj ([(''receipt_id'', JStr ident), (''status'', st),
                (''provider_resource_absent'', JBool True)] @ ended @ reason)"
    and r: "closure_reason r = Inr reason"
  obtain c where c: "reason = [(''reason_code'', JStr c)]"
    using reason_field [OF r] assms(2) by blast
  show ?thesis
    unfolding validate_closure_receipt_def n c
    by (simp add: has_unknown_append) (simp add: has_unknown_def obj_keys_def)
qed

lemma snapshot_plan_raises:
  assumes "find_job d i = Some j" and "job_model j = plan_model" and "is_obj (job_params j)"
    and "plan_authority env d j = Some p" and "pl_closure p = Some n"
    and "validate_closure_receipt env n = Inl e"
  shows "\<exists>e. event_snapshot env d i = Inl e"
proof -
  let ?st = "one_of plan_public_statuses ''terminal'' (plan_state_value (pl_state p))"
  have "\<exists>e. public_plan_job env j ?st (Some n) = Inl e"
    using assms(6) by (auto simp: public_plan_job_def plan_job_closure_def Let_def split: sum.splits)
  then obtain e1 where "public_plan_job env j ?st (Some n) = Inl e1" by blast
  with assms(1-5) show ?thesis
    by (cases "job_snapshot env d j") (simp_all add: event_snapshot_def Let_def)
qed

text \<open>A closure receipt that names a reason is stored in a form that its own check rejects,
  so once the last attempt of a plan has failed with one, the snapshot of the job raises.\<close>

theorem failed_plan_snapshot_raises:
  assumes "fail_plan_atomic env now d i dg (Some receipt) = Inr (d', Some j')"
    and "find_job d i = Some j" and "\<not> terminal (job_status j)"
    and "job_max_attempts j \<le> job_attempts j" and "obj_has receipt ''reason''"
    and "job_model j = plan_model" and "obj_get (job_params j) ''plan_digest'' = JStr dg" and "dg \<noteq> []"
    and "distinct (map pl_digest (plans d))"
  shows "\<exists>e. event_snapshot env d' i = Inl e"
proof -
  obtain n where n: "validate_closure_receipt env receipt = Inr n" "failure_receipt env (Some receipt) = Inr (Some n)"
    using assms(1) by (auto simp: fail_plan_atomic_def split: sum.splits if_splits)
  let ?P = "plan_where dg i [Cancelled, Completed_Plan, Terminal_Plan]"
  obtain p d1 where p: "plan_owner d dg i = Some p"
    and s: "status_changed env now (retried_plan_job now j) (job_status j)
              (write_job (retried_plan_job now j) d) = Inr d1"
    and u: "require_one ?P (close_plan_row Failed_Plan n now)
              ''plan failure authority is stale'' d1 = Inr d'"
    using assms(1-4) n
    by (auto simp: fail_plan_atomic_def Let_def split: option.splits sum.splits if_splits)
  note q = queue_event_quiet [OF s [unfolded status_changed_def]]
  have d': "d' = update_plans ?P (close_plan_row Failed_Plan n now) d1"
    and one: "rowcount ?P (plans d1) = 1" using require_one_plans [OF u] by simp_all
  have pl: "plans d1 = plans d" by (simp add: quiet_tables [OF q])
  obtain x where x: "x \<in> set (plans d)" "?P x"
    using one pl by (metis rowcount_0_iff zero_neq_one)
  have "find_plan d dg = Some x"
    using find_distinct [OF assms(9) x(1)] x(2) by (simp add: find_plan_def plan_where_def)
  then have "find_plan d' dg = Some (close_plan_row Failed_Plan n now x)"
    unfolding d' find_plan_def update_plans_tables pl
    by (subst find_update_where_guard) (simp_all add: close_plan_row_def x(2) find_plan_def)
  moreover have "rewritten d j (retried_plan_job now j) d'" and id: "job_id j = i"
    using fail_plan_atomic_effect [OF assms(1)] assms(2,3) find_job_id [OF assms(2)]
    by (auto simp: plan_change_def)
  then have j': "find_job d' i = Some (retried_plan_job now j)"
    using rewritten_find by simp
  have params: "job_params (retried_plan_job now j) = job_params j"
    "job_model (retried_plan_job now j) = plan_model"
    using assms(6) by (simp_all add: retried_plan_job_def Let_def)
  have "is_obj (job_params j)" using assms(7) by (cases "job_params j") auto
  ultimately show ?thesis
    using j' params assms(7,8) reasoned_receipt_rejected [OF n(1) assms(5)]
    by (intro snapshot_plan_raises [where j = "retried_plan_job now j" and n = n
          and p = "close_plan_row Failed_Plan n now x"])
       (simp_all add: plan_authority_def Let_def close_plan_row_def)
qed

text \<open>A receipt without a reason survives: what is stored passes the check again unchanged,
  when the printed instant reads back as the instant it prints.\<close>

theorem plain_receipt_stable:
  assumes "validate_closure_receipt env r = Inr n" and "\<not> obj_has r ''reason''"
    and "\<And>s t. obj_get r ''ended_at'' = JStr s \<Longrightarrow> parse_iso env (z_to_offset s) = Some (t, True) \<Longrightarrow>
           iso_utc env t \<noteq> [] \<and> parse_iso env (z_to_offset (iso_utc env t)) = Some (t, True)"
  shows "validate_closure_receipt env n = Inr n"
proof (rule receipt_shape [OF assms(1)])
  fix st ended reason ident
  assume n: "n = JObj ([(''receipt_id'', JStr ident), (''status'', st),
                (''provider_resource_absent'', JBool True)] @ ended @ reason)"
    and r: "closure_reason r = Inr reason" and e: "closure_ended env r = Inr ended"
    and i: "id_match ident"
    and st: "st \<in> JStr ` set [''completed'', ''cancelled'', ''failed'', ''terminal'']"
  have c: "reason = []" using reason_field [OF r] assms(2) by blast
  have "parse_expiry env v = Inr t \<Longrightarrow> \<exists>s. v = JStr s \<and> parse_iso env (z_to_offset s) = Some (t, True)"
    for v t by (cases v) (auto split: if_splits option.splits prod.splits)
  then have "ended = [] \<or> (\<exists>t. ended = [(''ended_at'', JStr (iso_utc env t))] \<and> iso_utc env t \<noteq> [] \<and>
      parse_iso env (z_to_offset (iso_utc env t)) = Some (t, True))"
    using e assms(3) by (fastforce simp: closure_ended_def split: if_splits sum.splits)
  moreover obtain x where "st = JStr x" "x \<in> set [''completed'', ''cancelled'', ''failed'', ''terminal'']"
    using st by blast
  ultimately show ?thesis
    using i unfolding n c
    by (elim disjE exE conjE)
       (simp_all add: validate_closure_receipt_def Let_def has_unknown_def obj_keys_def
          obj_get_or_def hashable_def closure_ended_def closure_reason_def)
qed


lemma plain_receipt_stable_witness:
  "validate_closure_receipt sample_env (sample_receipt []) = Inr (sample_receipt [])"
  by (rule plain_receipt_stable [OF sample_receipt_ok(1)])
     (simp_all add: sample_receipt_def sample_env_def)

lemma sample_plan_fails:
  "\<exists>d' j'. fail_plan_atomic sample_env 9 (plan_db [sample_plan_job] ''a'' Running_Plan) ''a'' ''d1''
     (Some (sample_receipt [(''reason'', JStr ''worker_failed'')])) = Inr (d', Some j')"
proof -
  let ?d = "plan_db [sample_plan_job] ''a'' Running_Plan"
  let ?j = "retried_plan_job 9 sample_plan_job"
  have f: "failure_receipt sample_env (Some (sample_receipt [(''reason'', JStr ''worker_failed'')])) =
        Inr (Some (sample_receipt [(''reason_code'', JStr ''worker_failed'')]))"
    by (simp add: sample_receipt_ok) (simp add: sample_receipt_def)
  have "job_model ?j = plan_model" "job_id ?j = ''a''"
    by (simp_all add: retried_plan_job_def sample_plan_job_def Let_def)
  then have plan: "is_plan_job (write_job ?j ?d) ''a''"
    by (simp add: is_plan_job_def write_job_def retried_plan_job_def Let_def find_job_def
          sample_plan_job_def)
  have e: "lifecycle_event sample_env ?j ''job_status_changed'' (Some RUNNING) =
      JObj [(''type'', JStr ''job_status_changed''), (''phase'', JStr ''failure''),
            (''phase_owner'', JStr ''coordinator''), (''status'', JStr ''dead_letter''),
            (''previous_status'', JStr ''running''), (''overall_progress'', JInt 0),
            (''attempts'', JInt 3)]"
    by (simp add: lifecycle_event_def retried_plan_job_def sample_plan_job_def Let_def partition_id_def
          str_field_def jopt_def)
  have p: "plan_event sample_env ''a'' (lifecycle_event sample_env ?j ''job_status_changed'' (Some RUNNING)) =
      Inr (JObj [(''type'', JStr ''job_status_changed''), (''phase'', JStr ''failure''),
                 (''status'', JStr ''submitting'')])"
    unfolding e by code_simp
  have "\<exists>d1. status_changed sample_env 9 ?j RUNNING (write_job ?j ?d) = Inr d1"
    unfolding status_changed_def \<open>job_id ?j = ''a''\<close> queue_event_def append_event_in_transaction_def p
    using plan
    by (simp add: e eval_append plan_producer_def starts_with.simps Let_def) (simp add: eval_text)
  then obtain d1 where s: "status_changed sample_env 9 ?j RUNNING (write_job ?j ?d) = Inr d1" by blast
  have pl: "plans d1 = [sample_plan ''a'' Running_Plan]"
    by (simp add: quiet_tables [OF queue_event_quiet [OF s [unfolded status_changed_def]]])
  show ?thesis
    using f s pl
    by (simp add: fail_plan_atomic_def find_job_def sample_plan_job_def plan_owner_def find_plan_def
          Let_def require_one_def rowcount_def plan_where_def)
qed


lemma failed_plan_snapshot_raises_witness:
  "\<exists>d' j' e. fail_plan_atomic sample_env 9 (plan_db [sample_plan_job] ''a'' Running_Plan) ''a'' ''d1''
     (Some (sample_receipt [(''reason'', JStr ''worker_failed'')])) = Inr (d', Some j') \<and>
     event_snapshot sample_env d' ''a'' = Inl e"
proof -
  obtain d' j' where f: "fail_plan_atomic sample_env 9 (plan_db [sample_plan_job] ''a'' Running_Plan) ''a''
     ''d1'' (Some (sample_receipt [(''reason'', JStr ''worker_failed'')])) = Inr (d', Some j')"
    using sample_plan_fails by blast
  have "\<exists>e. event_snapshot sample_env d' ''a'' = Inl e"
    by (rule failed_plan_snapshot_raises [where j = sample_plan_job, OF f])
       (simp_all add: find_job_def sample_plan_job_def sample_receipt_def)
  with f show ?thesis by blast
qed

end
