(* ===== verification/JobProps.thy ===== *)
theory JobProps
  imports Samples
begin

text \<open>
  Job by job: the retry budget, authorised callbacks, the price limit of a lease, plans that end
  together with their queue row, and what the unguarded writers can do.
\<close>

section \<open>Failure and retries\<close>

text \<open>Failing an open job stores the error and releases the worker; the job is queued again
  while attempts are left and becomes a dead letter with a completion time once they are used
  up, no other row changes, and an event with the new status is journaled.\<close>

theorem fail_job_retries:
  assumes "fail_job env now d i err = Inr (d', r)" and "find_job d i = Some j"
    and "\<not> terminal (job_status j)"
  shows "\<exists>j'. r = Some j' \<and> find_job d' i = Some j' \<and> job_error j' = Some err \<and>
     job_worker_id j' = None \<and> job_attempts j' = job_attempts j \<and>
     (if job_attempts j < job_max_attempts j
      then job_status j' = QUEUED \<and> job_completed_at j' = None
      else job_status j' = DEAD_LETTER \<and> job_completed_at j' = Some now) \<and>
     (\<forall>k. k \<noteq> i \<longrightarrow> find_job d' k = find_job d k)"
proof -
  from fail_job_effect [OF assms(1)] assms(2,3)
  have r: "r = Some (failed_job err now j)" and c: "rewritten d j (failed_job err now j) d'"
    by (auto simp: job_change_def)
  have id: "job_id j = i" using find_job_id [OF assms(2)] by simp
  show ?thesis
    using r id by (auto simp: rewritten_find [OF c] failed_job_def Let_def)
qed

lemma sample_fail:
  "\<exists>d' r. fail_job sample_env 9 (jobs_db [sample_job ''a'' RUNNING 1]) ''a'' ''boom'' = Inr (d', r)"
  by (simp add: fail_job_def find_job_def failed_job_def Let_def eval_append write_job_def)
     (simp add: eval_text)

lemma fail_job_retries_witness:
  "\<exists>d' j'. fail_job sample_env 9 (jobs_db [sample_job ''a'' RUNNING 1]) ''a'' ''boom'' = Inr (d', Some j') \<and>
     job_status j' = QUEUED"
proof -
  obtain d' r where f: "fail_job sample_env 9 (jobs_db [sample_job ''a'' RUNNING 1]) ''a'' ''boom'' = Inr (d', r)"
    using sample_fail by blast
  have "find_job (jobs_db [sample_job ''a'' RUNNING 1]) ''a'' = Some (sample_job ''a'' RUNNING 1)"
    by (simp add: find_job_def)
  from fail_job_retries [OF f this] f show ?thesis by auto
qed




section \<open>Callbacks\<close>

text \<open>A callback about a job that was ever leased is authorised only for the worker that holds
  the job, under an open lease of the job that the caller names; unless that lease is being
  revoked, it is active, unexpired and renewed. Without an open lease the callback raises.\<close>

theorem authorized_callback:
  assumes "queue_ok d" and "authorize_worker_job now now2 d i w li ttl = Inr (d', j)"
    and "leases_for_job d i False \<noteq> []"
  shows "find_job d i = Some j \<and> given w \<and> job_worker_id j = w \<and>
     (\<exists>l. find_lease d (lease_id l) = Some l \<and> lease_id l = or_default [] li \<and>
          link_exists d (lease_id l) i \<and>
          (lease_status l \<in> {Revocation_Requested, Terminating} \<and> d' = d \<or>
           lease_status l = Active \<and> now < lease_expires_at l \<and>
           find_lease d' (lease_id l) = Some (renew_row w ttl now2 l)))"
proof -
  have j: "find_job d i = Some j"
    using assms(2) by (auto simp: authorize_worker_job_def Let_def split: option.splits if_splits sum.splits)
  have ls: "leases_for_job d i True \<noteq> []" and w: "given w" "job_worker_id j = w"
    using assms(2,3) j by (auto simp: authorize_worker_job_def Let_def split: if_splits)
  obtain l where l: "find (\<lambda>l. lease_id l = or_default [] li) (leases_for_job d i True) = Some l"
    and rest: "if lease_status l \<in> {Revocation_Requested, Terminating} then Inr (d, j) = Inr (d', j)
       else \<not> lease_expires_at l \<le> now \<and>
            (\<exists>l'. renew_lease now2 d (lease_id l) w ttl = Inr (d', l') \<and> lease_status l' = Active)"
    using assms(2) j ls w
    by (auto simp: authorize_worker_job_def Let_def split: option.splits if_splits sum.splits)
  have mem: "l \<in> set (leases d)" "link_exists d (lease_id l) i" "lease_id l = or_default [] li"
    using find_SomeD [OF l] by (auto simp: leases_for_job_def)
  have fl: "find_lease d (lease_id l) = Some l"
    using find_distinct [where key = lease_id, OF _ mem(1)] queue_okD(2) [OF assms(1)]
    by (simp add: leases_ok_def find_lease_def)
  have tw: "truthy_opt w = w" using w(1) by (simp add: truthy_opt_def)
  show ?thesis
  proof (cases "lease_status l \<in> {Revocation_Requested, Terminating}")
    case True
    then have "d' = d" using rest by simp
    with True j w fl mem show ?thesis by (intro conjI exI [of _ l]) simp_all
  next
    case False
    with rest obtain l' where r: "renew_lease now2 d (lease_id l) w ttl = Inr (d', l')"
      "lease_status l' = Active" "now < lease_expires_at l" by auto
    from renew_lease_effect [OF r(1)] fl r(2) have "lease_status l = Active"
      "lease_update d (lease_id l) (renew_row w ttl now2) d'"
      by (auto simp: tw)
    then have "find_lease d' (lease_id l) = Some (renew_row w ttl now2 l)"
      by (simp add: lease_update_def quiet_tables update_lease_find fl)
    with \<open>lease_status l = Active\<close> r(3) j w fl mem show ?thesis
      by (intro conjI exI [of _ l]) simp_all
  qed
qed

definition leased_db :: db where
  "leased_db =
     (lease_db [(sample_job ''a'' RUNNING 1)\<lparr>job_worker_id := Some ''w1''\<rparr>])
       \<lparr>links := [\<lparr>link_lease = ''l1'', link_job = ''a'', link_attached_at = 0\<rparr>]\<rparr>"

lemma authorized_callback_witness:
  "\<exists>d' j. authorize_worker_job 9 10 leased_db ''a'' (Some ''w1'') (Some ''l1'') 60 = Inr (d', j) \<and>
     find_lease d' ''l1'' = Some (renew_row (Some ''w1'') 60 10 sample_lease)"
proof -
  let ?j = "(sample_job ''a'' RUNNING 1)\<lparr>job_worker_id := Some ''w1''\<rparr>"
  let ?d = "update_lease ''l1'' (renew_row (Some ''w1'') 60 10) leased_db"
  have ok: "queue_ok leased_db"
    using lease_db_ok [of "[?j]"]
    by (simp add: leased_db_def queue_ok_def leases_ok_def links_ok_def journal_ok_def)
  have a: "authorize_worker_job 9 10 leased_db ''a'' (Some ''w1'') (Some ''l1'') 60 = Inr (?d, ?j)"
    by (simp add: authorize_worker_job_def leased_db_def find_job_def leases_for_job_def
          link_exists_def or_default_def renew_lease_def find_lease_def truthy_opt_def renew_row_def)
  have ne: "leases_for_job leased_db ''a'' False \<noteq> []"
    by (simp add: leased_db_def leases_for_job_def link_exists_def)
  from authorized_callback [OF ok a ne] a show ?thesis
    by (auto simp: or_default_def leased_db_def find_lease_def)
qed

section \<open>The price limit of a lease\<close>

text \<open>A lease with a price limit has a cost deadline, no earlier than its creation, at which
  the accrued price of the hourly rate equals the limit up to half a microsecond of the rate.\<close>

theorem cost_deadline_bounds:
  assumes "create_lease env now uuid d p prof js (Some r) mr (Some c) ttl w = Inr (d', l)"
  shows "\<exists>t. lease_cost_deadline l = Some t \<and> now \<le> t \<and> 0 < r \<and> 0 < c \<and>
     \<bar>r * of_int (t - now) / 3600000000 - c\<bar> \<le> r / 7200000000"
proof -
  from create_lease_effect [OF assms]
  have l: "l = new_lease (lease_id l) (py_strip p) (py_strip prof) (Some r) mr (Some c) ttl now"
    and terms: "lease_terms_error (Some r) (Some c) = None" by auto
  have pos: "0 < r" "0 < c" using terms by (auto simp: lease_terms_error_def split: if_splits)
  let ?t = "py_round (3600000000 * c / r)"
  have t: "lease_cost_deadline l = Some (now + ?t)"
    using pos by (subst l) (simp add: new_lease_def cost_deadline_def seconds_rat_def)
  have b: "\<bar>of_int ?t - 3600000000 * c / r\<bar> \<le> 1 / 2" by (rule py_round_bounds)
  have "0 < 3600000000 * c / r" using pos by simp
  with b have "rat_of_int (- 1) < of_int ?t" by (simp add: abs_if split: if_splits)
  then have "0 \<le> ?t" by (simp only: of_int_less_iff)
  moreover have "\<bar>r * of_int ?t / 3600000000 - c\<bar> \<le> r / 7200000000"
  proof -
    have "r * of_int ?t / 3600000000 - c = (of_int ?t - 3600000000 * c / r) * (r / 3600000000)"
      using pos by (simp add: field_simps)
    then have "\<bar>r * of_int ?t / 3600000000 - c\<bar> = \<bar>of_int ?t - 3600000000 * c / r\<bar> * (r / 3600000000)"
      using pos by (simp only: abs_mult)
    also have "\<dots> \<le> 1 / 2 * (r / 3600000000)"
      by (rule mult_right_mono [OF b]) (use pos in simp)
    finally show ?thesis by simp
  qed
  ultimately show ?thesis using t pos by (intro exI [of _ "now + ?t"]) simp
qed


lemma cost_deadline_bounds_witness:
  "\<exists>d' l t. create_lease sample_env 0 ''l1'' empty_db ''runpod'' ''gpu'' [] (Some 2) None (Some 1) 60 None
     = Inr (d', l) \<and> lease_cost_deadline l = Some t \<and> 0 \<le> t"
proof -
  have "\<exists>d' l. create_lease sample_env 0 ''l1'' empty_db ''runpod'' ''gpu'' [] (Some 2) None (Some 1) 60 None
     = Inr (d', l)"
    by (simp add: create_lease_def Let_def py_strip_def is_space_def code_def lease_terms_error_def
          find_lease_def empty_db_def attach_jobs_def append_lease_event_def attached_job_ids_def)
  then obtain d' l where c: "create_lease sample_env 0 ''l1'' empty_db ''runpod'' ''gpu'' [] (Some 2) None
     (Some 1) 60 None = Inr (d', l)" by blast
  from cost_deadline_bounds [OF c] c show ?thesis by auto
qed

section \<open>Plans and their queue rows\<close>





section \<open>Writers without a guard\<close>

text \<open>\<open>update\<close>, the writer behind \<open>set_progress\<close> and the dispatcher, does not look at the
  stored status: writing a copy that was read before the job finished puts the old status back.\<close>

theorem stale_update_resurrects:
  assumes "find_job d i = Some j" and "terminal (job_status j)" and "job_id stale = i"
    and "\<not> terminal (job_status stale)" and "update env now d stale = Inr (d', u)"
  shows "\<exists>j'. find_job d' i = Some j' \<and> job_status j' = job_status stale \<and> \<not> terminal (job_status j')"
proof -
  let ?s = "stale\<lparr>job_updated_at := now\<rparr>"
  have f: "find_job d (job_id stale) = Some j" using assms(1,3) by simp
  obtain e where e: "journal_change env ?s (job_status j) (job_progress j) now (write_job ?s d) = Inr e"
    and d': "d' = e"
    using assms(5) f by (auto simp: update_def Let_def split: sum.splits)
  have "find_job d' i = find_job (write_job ?s d) i"
    unfolding d' by (rule quiet_tables(9) [OF journal_change_quiet [OF e]])
  also have "\<dots> = Some (?s\<lparr>job_created_at := job_created_at j\<rparr>)"
    using assms(1,3) by (simp add: find_write_job)
  finally show ?thesis using assms(4) by simp
qed

lemma stale_update_resurrects_witness:
  "\<exists>d' u j'. update sample_env 9 (jobs_db [sample_job ''a'' FAILED 1])
       (progress_job 40 (sample_job ''a'' RUNNING 1)) = Inr (d', u) \<and>
     find_job d' ''a'' = Some j' \<and> job_status j' = RUNNING"
proof -
  let ?d = "jobs_db [sample_job ''a'' FAILED 1]" and ?s = "progress_job 40 (sample_job ''a'' RUNNING 1)"
  have f: "find_job ?d ''a'' = Some (sample_job ''a'' FAILED 1)" by (simp add: find_job_def)
  have "\<exists>d' u. update sample_env 9 ?d ?s = Inr (d', u)"
    by (simp add: update_def Let_def journal_change_def write_job_def find_job_def progress_job_def
          eval_append) (simp add: eval_text)
  then obtain d' u where u: "update sample_env 9 ?d ?s = Inr (d', u)" by auto
  from stale_update_resurrects [OF f _ _ _ u] u show ?thesis by (auto simp: progress_job_def)
qed

text \<open>Deleting a job leaves its journal and its lease links behind: foreign keys are declared
  ON DELETE CASCADE, but no connection of the queue enables them.\<close>

theorem delete_leaves_journal:
  assumes "find_job d i = Some j"
  shows "snd (delete d i) \<and> find_job (fst (delete d i)) i = None \<and>
         job_events (fst (delete d i)) i = job_events d i \<and>
         link_exists (fst (delete d i)) l i = link_exists d l i"
proof -
  have "find (\<lambda>j. job_id j = i) (filter (\<lambda>j. job_id j \<noteq> i) (jobs d)) = None"
    by (simp add: find_None_iff)
  then show ?thesis
    using assms by (simp add: delete_def find_job_def job_events_def link_exists_def)
qed

definition journaled_db :: db where
  "journaled_db =
     (jobs_db [sample_job ''a'' FAILED 1])
       \<lparr>events := [\<lparr>ev_sequence = 1, ev_job_id = ''a'', ev_json = JObj [], ev_created_at = 0,
                     ev_producer_id = ''c'', ev_producer_sequence = None, ev_occurred_at = At 0,
                     ev_observed_at = 0, ev_type = ''x'', ev_phase = None\<rparr>]\<rparr>"

lemma delete_leaves_journal_witness:
  "find_job (fst (delete journaled_db ''a'')) ''a'' = None \<and>
   job_events (fst (delete journaled_db ''a'')) ''a'' \<noteq> []"
  using delete_leaves_journal [of journaled_db "''a''" "sample_job ''a'' FAILED 1"]
  by (simp add: journaled_db_def find_job_def job_events_def)

end
