(* ===== verification/PublicProps.thy ===== *)
theory PublicProps
  imports Samples
begin

text \<open>
  What leaves a plan job: the events that its journal keeps hold no text of a caller, and the
  result manifest that is stored passes the same check again when it is published.
\<close>

section \<open>Events of plan jobs\<close>

definition finite_plan_event :: "json \<Rightarrow> bool" where
  "finite_plan_event e \<longleftrightarrow>
     set (obj_keys e) \<subseteq> {''type'', ''phase'', ''status'', ''metrics'', ''phase_owner''} \<and>
     obj_get e ''type'' \<in> JStr ` set plan_public_event_types \<and>
     obj_get e ''phase'' \<in> JStr ` set plan_public_phases \<and>
     obj_get e ''status'' \<in> JStr ` set plan_public_statuses \<and>
     (\<forall>k v. (k, v) \<in> set (case obj_get e ''metrics'' of JObj ms \<Rightarrow> ms | _ \<Rightarrow> []) \<longrightarrow>
        k \<in> set plan_metric_fields \<and> finite_number v)"

lemma safe_metrics_finite:
  "(k, v) \<in> set (safe_metrics m) \<Longrightarrow> k \<in> set plan_metric_fields \<and> finite_number v"
  by (auto simp: safe_metrics_def split: if_splits)

lemma plan_event_finite:
  assumes "plan_event env i e = Inr s"
  shows "\<exists>t p st ms. s = JObj ([(''type'', JStr t), (''phase'', JStr p), (''status'', JStr st)] @ ms) \<and>
     t \<in> set plan_public_event_types \<and> p \<in> set plan_public_phases \<and> st \<in> set plan_public_statuses \<and>
     (ms = [] \<or> (\<exists>m. ms = [(''metrics'', JObj (safe_metrics m))]))"
proof -
  have d: "''job_status_changed'' \<in> set plan_public_event_types" "''readiness'' \<in> set plan_public_phases"
    "''submitting'' \<in> set plan_public_statuses"
    by (simp_all add: plan_public_event_types_def plan_public_phases_def plan_public_statuses_def)
  show ?thesis
    using assms d by (auto simp: plan_event_def public_plan_event_def Let_def split: sum.splits if_splits)
qed

lemma stored_plan_event:
  assumes "plan_event env i e = Inr s"
  shows "finite_plan_event (with_phase_owner q s)"
proof -
  obtain t p st ms where s: "s = JObj ([(''type'', JStr t), (''phase'', JStr p), (''status'', JStr st)] @ ms)"
    "t \<in> set plan_public_event_types" "p \<in> set plan_public_phases" "st \<in> set plan_public_statuses"
    "ms = [] \<or> (\<exists>m. ms = [(''metrics'', JObj (safe_metrics m))])"
    using plan_event_finite [OF assms] by blast
  from s(5) show ?thesis
    by (elim disjE exE)
       (auto simp: s(1-4) with_phase_owner_def finite_plan_event_def obj_keys_def dest: safe_metrics_finite)
qed

text \<open>Whatever event any producer sends for a plan job, the rows that its journal gains hold
  only a type, a phase and a status from finite lists and finite numbers as metrics, and the
  producer is the coordinator or a digest of the worker's name.\<close>

theorem plan_journal_public:
  assumes "is_plan_job d i" and "append_event env now d i e p pseq occ = Inr (d', x)"
  shows "\<exists>rs. events d' = events d @ rs \<and>
     (\<forall>r \<in> set rs. finite_plan_event (ev_json r) \<and>
        (ev_producer_id r = ''coordinator:plan'' \<or> starts_with ''plan-worker:'' (ev_producer_id r)))"
proof -
  obtain s r where s: "plan_event env i e = Inr s"
    and a: "append_normal env d i s (Some (plan_producer env p)) pseq None now = Inr (d', r)"
    using assms
    by (auto simp: append_event_def append_event_in_transaction_def split: if_splits sum.splits)
  let ?np = "normal_producer (Some (plan_producer env p))"
  have np: "?np = ''coordinator:plan'' \<or> starts_with ''plan-worker:'' ?np"
  proof -
    have "normal_producer (Some (''plan-worker:'' @ x)) = ''plan-worker:'' @ rev (dropWhile is_space (rev x))
          \<or> (\<exists>y. normal_producer (Some (''plan-worker:'' @ x)) = ''plan-worker:'' @ y)" for x
    proof -
      have "py_strip (''plan-worker:'' @ x) = ''plan-worker:'' @ rev (dropWhile is_space (rev x))"
        by (simp add: py_strip_def is_space_def code_def dropWhile_append)
      then show ?thesis by (simp add: normal_producer_def)
    qed
    moreover have "normal_producer (Some ''coordinator:plan'') = ''coordinator:plan''"
      by (simp add: normal_producer_def py_strip_def is_space_def code_def)
    ultimately show ?thesis
      by (auto simp: plan_producer_def Let_def starts_with_iff)
  qed
  from a have "d' = d \<or> (\<exists>r'. events d' = events d @ [r'] \<and> ev_json r' = with_phase_owner ?np s \<and>
      ev_producer_id r' = ?np)"
    by (auto simp: append_normal_def Let_def insert_event_def split: if_splits sum.splits option.splits)
  with stored_plan_event [OF s] np show ?thesis by auto
qed


definition secret_event :: json where
  "secret_event = JObj [(''type'', JStr ''prompt''), (''text'', JStr ''secret'')]"

lemma plan_journal_public_witness:
  "\<exists>d' x rs. append_event sample_env 9 (plan_db [sample_plan_job] ''a'' Running_Plan) ''a'' secret_event
     (Some ''coordinator'') None None = Inr (d', x) \<and>
     events d' = events (plan_db [sample_plan_job] ''a'' Running_Plan) @ rs \<and>
     (\<forall>r \<in> set rs. finite_plan_event (ev_json r))"
proof -
  let ?d = "plan_db [sample_plan_job] ''a'' Running_Plan"
  have p: "is_plan_job ?d ''a''" by (simp add: is_plan_job_def find_job_def)
  have e: "plan_event sample_env ''a'' secret_event =
      Inr (JObj [(''type'', JStr ''job_status_changed''), (''phase'', JStr ''readiness''),
                 (''status'', JStr ''submitting'')])"
    by code_simp
  have f: "find_job ?d ''a'' \<noteq> None" by (simp add: find_job_def)
  have "\<exists>d' x. append_event sample_env 9 ?d ''a'' secret_event (Some ''coordinator'') None None = Inr (d', x)"
    using p f unfolding append_event_def append_event_in_transaction_def e
    by (simp add: eval_append plan_producer_def Let_def secret_event_def) (simp add: eval_text)
  then obtain d' x where a: "append_event sample_env 9 ?d ''a'' secret_event (Some ''coordinator'') None None
      = Inr (d', x)" by blast
  from plan_journal_public [OF p a] a show ?thesis by blast
qed

section \<open>Result manifests\<close>

lemma opaque_id: "safe_opaque v l = Inr x \<Longrightarrow> v = JStr x \<and> id_match x"
  by (cases v) (auto split: if_splits)

lemma lower_hex: "is_hex c \<Longrightarrow> \<not> (192 \<le> code c \<and> code c \<le> 222 \<and> code c \<noteq> 215)"
  by (auto simp: is_hex_def is_digit_def)

lemma hex_lower:
  assumes "list_all is_hex s"
  shows "list_all is_hex (py_lower s) \<and> py_lower (py_lower s) = py_lower s"
  using assms
proof (induction s)
  case Nil
  then show ?case by (simp add: py_lower_def)
next
  case (Cons c s)
  have c: "is_hex c" using Cons.prems by simp
  show ?case
  proof (cases "is_upper c")
    case True
    then have "code c + 32 < 256" and r: "65 \<le> code c" "code c \<le> 70"
      using c by (auto simp: is_hex_def is_digit_def is_upper_def)
    then have "code (char_of (code c + 32)) = code c + 32" by (simp add: code_def)
    with Cons True r show ?thesis
      by (auto simp: py_lower_def is_hex_def is_upper_def is_digit_def)
  next
    case False
    with Cons lower_hex [OF c] c show ?thesis by (auto simp: py_lower_def)
  qed
qed

lemma digest_again:
  assumes "plan_digest v l = Inr d"
  shows "plan_digest (JStr d) l' = Inr d"
proof -
  obtain s where s: "v = JStr s" "digest_match s"
    "d = sha_prefix @ py_lower (remove_prefix sha_prefix s)"
    using assms by (cases v) (auto split: if_splits)
  let ?h = "remove_prefix sha_prefix s"
  have h: "length ?h = 64" "list_all is_hex ?h" using s(2) by (simp_all add: digest_match_def Let_def)
  from hex_lower [OF h(2)] h(1) show ?thesis
    by (simp add: s(3) digest_match_def Let_def py_lower_def)
qed

lemma media_again: "plan_media v l = Inr m \<Longrightarrow> v = JStr m \<and> plan_media (JStr m) l' = Inr m"
  by (cases v) (auto split: if_splits)

lemma size_role_again:
  "artifact_size n v = Inr z \<Longrightarrow> v = JInt z \<and> artifact_size n' (JInt z) = Inr z"
  "artifact_role n v = Inr r \<Longrightarrow> v = JStr r \<and> artifact_role n' (JStr r) = Inr r"
  by (cases v; auto simp: artifact_size_def artifact_role_def split: if_splits)+

lemma bound_field_cases:
  assumes "bound_field doc f l m e = Inr fs"
  shows "(\<not> obj_has doc f \<and> fs = []) \<or>
         (obj_has doc f \<and> (\<exists>v. fs = [(f, JStr v)] \<and> id_match v \<and> (e = None \<or> e = Some v)))"
  using assms by (auto simp: bound_field_def split: if_splits sum.splits option.splits dest: opaque_id)

lemma artifact_again:
  assumes "validate_artifact job None n seen a = Inr (aid, x)"
  shows "validate_artifact job None n seen x = Inr (aid, x) \<and> aid \<notin> set seen \<and>
         obj_get x ''id'' = JStr aid"
proof -
  have "\<exists>digest sz media role producer jf lf.
    safe_opaque (obj_get a ''id'') (at_index n ''.id'') = Inr aid \<and> aid \<notin> set seen \<and>
    plan_digest (obj_get a ''sha256'') (at_index n ''.sha256'') = Inr digest \<and>
    artifact_size n (obj_get a ''size'') = Inr sz \<and>
    plan_media (obj_get a ''media_type'') (at_index n ''.media_type'') = Inr media \<and>
    artifact_role n (obj_get a ''role'') = Inr role \<and>
    safe_opaque (obj_get a ''producer'') (at_index n ''.producer'') = Inr producer \<and>
    (job = None \<or> obj_has a ''job_id'') \<and>
    bound_field a ''job_id'' (at_index n ''.job_id'') (at_index n '' job_id binding is invalid'') job = Inr jf \<and>
    bound_field a ''lease_id'' (at_index n ''.lease_id'') (at_index n '' lease_id binding is invalid'') None = Inr lf \<and>
    x = JObj ([(''id'', JStr aid), (''sha256'', JStr digest), (''size'', JInt sz),
               (''media_type'', JStr media), (''role'', JStr role),
               (''producer'', JStr producer)] @ jf @ lf)"
    using assms unfolding validate_artifact_def
    by (simp add: tx_bind tx_guard) blast
  then obtain digest sz media role producer jf lf where c:
    "safe_opaque (obj_get a ''id'') (at_index n ''.id'') = Inr aid" "aid \<notin> set seen"
    "plan_digest (obj_get a ''sha256'') (at_index n ''.sha256'') = Inr digest"
    "artifact_size n (obj_get a ''size'') = Inr sz"
    "plan_media (obj_get a ''media_type'') (at_index n ''.media_type'') = Inr media"
    "artifact_role n (obj_get a ''role'') = Inr role"
    "safe_opaque (obj_get a ''producer'') (at_index n ''.producer'') = Inr producer"
    "job = None \<or> obj_has a ''job_id''"
    "bound_field a ''job_id'' (at_index n ''.job_id'') (at_index n '' job_id binding is invalid'') job = Inr jf"
    "bound_field a ''lease_id'' (at_index n ''.lease_id'') (at_index n '' lease_id binding is invalid'') None = Inr lf"
    and x: "x = JObj ([(''id'', JStr aid), (''sha256'', JStr digest), (''size'', JInt sz),
               (''media_type'', JStr media), (''role'', JStr role),
               (''producer'', JStr producer)] @ jf @ lf)"
    by blast
  have jf: "jf = [] \<and> job = None \<or> (\<exists>v. jf = [(''job_id'', JStr v)] \<and> id_match v \<and> (job = None \<or> job = Some v))"
    using bound_field_cases [OF c(9)] c(8) by auto
  have lf: "lf = [] \<or> (\<exists>v. lf = [(''lease_id'', JStr v)] \<and> id_match v)"
    using bound_field_cases [OF c(10)] by auto
  note again = opaque_id [OF c(1)] opaque_id [OF c(7)] digest_again [OF c(3)]
    media_again [OF c(5)] size_role_again(1) [OF c(4)] size_role_again(2) [OF c(6)]
  have g: "is_obj x" "obj_get x ''id'' = JStr aid" "obj_get x ''sha256'' = JStr digest"
    "obj_get x ''size'' = JInt sz" "obj_get x ''media_type'' = JStr media"
    "obj_get x ''role'' = JStr role" "obj_get x ''producer'' = JStr producer"
    by (simp_all add: x)
  have u: "\<not> has_unknown x [''id'', ''sha256'', ''size'', ''media_type'', ''role'', ''producer'',
                             ''job_id'', ''lease_id'']"
    using jf lf by (auto simp: x has_unknown_def obj_keys_def)
  have b: "bound_field x ''job_id'' l m job = Inr jf" "bound_field x ''lease_id'' l m None = Inr lf"
    "\<not> (job \<noteq> None \<and> \<not> obj_has x ''job_id'')" for l m
    using jf lf by (auto simp: x bound_field_def)
  have "validate_artifact job None n seen x = Inr (aid, x)"
    unfolding validate_artifact_def g using u b c(2) again
    by (simp add: g(1)) (simp add: x)
  with c(2) g(2) show ?thesis by simp
qed

lemma artifacts_again:
  "validate_artifacts job None n seen as = Inr xs \<Longrightarrow> validate_artifacts job None n seen xs = Inr xs"
proof (induction as arbitrary: n seen xs)
  case Nil
  then show ?case by simp
next
  case (Cons a as)
  then obtain aid x ys where a: "validate_artifact job None n seen a = Inr (aid, x)"
    and r: "validate_artifacts job None (Suc n) (aid # seen) as = Inr ys" and xs: "xs = x # ys"
    by (auto split: sum.splits)
  from artifact_again [OF a] Cons.IH [OF r] show ?case by (simp add: xs)
qed

lemma artifacts_ids:
  "validate_artifacts job None n seen as = Inr xs \<Longrightarrow>
   distinct (map (\<lambda>x. obj_get x ''id'') xs) \<and>
   (\<forall>x \<in> set xs. obj_get x ''id'' \<notin> JStr ` set seen) \<and> length xs = length as"
proof (induction as arbitrary: n seen xs)
  case Nil
  then show ?case by simp
next
  case (Cons a as)
  then obtain aid x ys where a: "validate_artifact job None n seen a = Inr (aid, x)"
    and r: "validate_artifacts job None (Suc n) (aid # seen) as = Inr ys" and xs: "xs = x # ys"
    by (auto split: sum.splits)
  from artifact_again [OF a] Cons.IH [OF r] show ?case by (auto simp: xs)
qed

text \<open>A result manifest that was accepted for a job is bound to that job and holds at least
  one artifact, no two with the same id; what is stored of it is accepted again unchanged, so
  publishing a stored result never fails on it.\<close>

theorem manifest_stable:
  assumes "validate_result_manifest (Some i) None m = Inr n"
  shows "validate_result_manifest (Some i) None n = Inr n \<and> obj_get n ''job_id'' = JStr i \<and>
     (\<exists>xs. obj_get n ''artifacts'' = JArr xs \<and> xs \<noteq> [] \<and> distinct (map (\<lambda>x. obj_get x ''id'') xs))"
proof -
  obtain a as xs mf jf lf where
    n: "n = JObj ([(''schema'', JStr ''cloud-offload.result-manifest.v1''),
                   (''artifacts'', JArr xs)] @ mf @ jf @ lf)"
    and c: "validate_artifacts (Some i) None 0 [] (a # as) = Inr xs"
      "bound_field m ''manifest_id'' ''result manifest.manifest_id'' [] None = Inr mf"
      "bound_field m ''job_id'' ''result manifest.job_id'' ''result manifest job binding is invalid'' (Some i) = Inr jf"
      "bound_field m ''lease_id'' ''result manifest.lease_id'' ''result manifest lease binding is invalid'' None = Inr lf"
      "obj_has m ''job_id''"
    using assms
    by (auto simp: validate_result_manifest_def split: if_splits sum.splits json.splits list.splits
             simp del: validate_artifacts.simps)
  have xs: "validate_artifacts (Some i) None 0 [] xs = Inr xs" "xs \<noteq> []"
    "distinct (map (\<lambda>x. obj_get x ''id'') xs)"
    using artifacts_again [OF c(1)] artifacts_ids [OF c(1)] by auto
  obtain y ys where ys: "xs = y # ys" using xs(2) by (cases xs) auto
  have mf: "mf = [] \<or> (\<exists>v. mf = [(''manifest_id'', JStr v)] \<and> id_match v)"
    using bound_field_cases [OF c(2)] by auto
  have jf: "jf = [(''job_id'', JStr i)] \<and> id_match i"
    using bound_field_cases [OF c(3)] c(5) by auto
  have lf: "lf = [] \<or> (\<exists>v. lf = [(''lease_id'', JStr v)] \<and> id_match v)"
    using bound_field_cases [OF c(4)] by auto
  from mf lf show ?thesis
    using xs(1,3) unfolding ys
    by (elim disjE exE conjE)
       (simp_all add: n ys jf validate_result_manifest_def has_unknown_def obj_keys_def bound_field_def)
qed

definition sample_manifest :: json where
  "sample_manifest =
     JObj [(''schema'', JStr ''cloud-offload.result-manifest.v1''), (''job_id'', JStr ''a''),
           (''artifacts'', JArr [JObj
             [(''id'', JStr ''x1''), (''sha256'', JStr (replicate 64 (CHR ''A''))), (''size'', JInt 5),
              (''media_type'', JStr ''image/png''), (''role'', JStr ''output''),
              (''producer'', JStr ''n1''), (''job_id'', JStr ''a'')]])]"

lemma manifest_stable_witness:
  "\<exists>n. validate_result_manifest (Some ''a'') None sample_manifest = Inr n \<and>
     validate_result_manifest (Some ''a'') None n = Inr n"
proof -
  have "isl (validate_result_manifest (Some ''a'') None sample_manifest) = False" by code_simp
  then obtain n where "validate_result_manifest (Some ''a'') None sample_manifest = Inr n"
    by (cases "validate_result_manifest (Some ''a'') None sample_manifest") auto
  from manifest_stable [OF this] this show ?thesis by blast
qed

end
