(* ===== verification/StoragePlan.thy ===== *)
theory StoragePlan
  imports PlanPublic
begin

text \<open>
  \<open>cloud_offload/storage_plan.py\<close>: the size of the container disk that a partition needs,
  computed before a worker is rented. Assets and profiles are dicts as the code receives them;
  a figure that cannot be read raises what Python raises.
\<close>

section \<open>Constants and texts\<close>

definition GIB :: int where
  "GIB = 1024 ^ 3"

definition pack_allowance_bytes :: int where
  "pack_allowance_bytes = 2 * GIB"

definition unknown_image_bytes :: int where
  "unknown_image_bytes = 30 * GIB"

definition unknown_weight_file_bytes :: int where
  "unknown_weight_file_bytes = 8 * GIB"

definition unknown_snapshot_bytes :: int where
  "unknown_snapshot_bytes = 32 * GIB"

definition headroom_floor_bytes :: int where
  "headroom_floor_bytes = 10 * GIB"

definition headroom_fraction :: rat where
  "headroom_fraction = 1 / 5"

definition minimum_disk_gb :: int where
  "minimum_disk_gb = 20"

definition one_decimal :: "rat \<Rightarrow> string" where
  \<comment> \<open>the format \<open>.1f\<close>: ties go to the even digit\<close>
  "one_decimal q =
     (let n = nat (py_round (10 * \<bar>q\<bar>))
      in (if q < 0 then ''-'' else []) @ nat_text (n div 10) @ ''.'' @ nat_text (n mod 10))"

definition gib_text :: "int \<Rightarrow> string" where
  \<comment> \<open>\<open>_gib\<close>\<close>
  "gib_text n = one_decimal (of_int n / of_int GIB) @ '' GiB''"

definition plural :: "nat \<Rightarrow> string \<Rightarrow> string option \<Rightarrow> string" where
  \<comment> \<open>\<open>_plural\<close>\<close>
  "plural n noun many =
     (if n = 1 then nat_text n @ '' '' @ noun
      else nat_text n @ '' '' @ (if given many then or_default [] many else noun @ ''s''))"

section \<open>Weight targets\<close>

definition weight_key :: "string \<Rightarrow> string \<Rightarrow> string option \<Rightarrow> string" where
  "weight_key repo revision filename =
     (let base = repo @ ''@'' @ revision
      in if given filename then base @ ''/'' @ or_default [] filename else base)"

text \<open>A target is its key and, for one file of an entry, the file name.\<close>

type_synonym target = "string \<times> string option"

definition entry_targets :: "pyenv \<Rightarrow> json \<Rightarrow> pyerr + target list" where
  "entry_targets env entry =
     (if \<not> is_obj entry then Inr []
      else let repo = or_text env (obj_get entry ''repo_id'') [];
               revision = or_text env (obj_get entry ''revision'') [];
               files = obj_get entry ''files''
           in if files = JNull then Inr [(weight_key repo revision None, None)]
              else (case iterate files of
                      Inl e \<Rightarrow> Inl e
                    | Inr fs \<Rightarrow>
                        Inr (map (\<lambda>f. (weight_key repo revision (Some (py_str env f)),
                                       Some (py_str env f))) fs)))"

definition weight_targets :: "pyenv \<Rightarrow> json \<Rightarrow> pyerr + target list" where
  "weight_targets env entries =
     (case iterate_or_empty entries of
        Inl e \<Rightarrow> Inl e
      | Inr es \<Rightarrow> collect (entry_targets env) es)"

definition profile_weight_targets :: "pyenv \<Rightarrow> json \<Rightarrow> pyerr + target list" where
  "profile_weight_targets env profile = weight_targets env (obj_get profile ''weights'')"

section \<open>The plan\<close>

record storage_component =
  sc_name :: string
  sc_bytes :: int
  sc_detail :: string

record storage_plan =
  sp_image :: int
  sp_assets :: int
  sp_weights :: int
  sp_packs :: int
  sp_reserve :: int
  sp_headroom :: int
  sp_total :: int
  sp_unknown :: "string list"
  sp_components :: "storage_component list"

fun asset_bytes :: "json list \<Rightarrow> pyerr + int" where
  \<comment> \<open>\<open>sum(int(asset.get("size") or 0) for asset in declared)\<close>\<close>
  "asset_bytes [] = Inr 0"
| "asset_bytes (a # as) =
     (case py_int (or_zero (obj_get a ''size'')) of
        Inl e \<Rightarrow> Inl e
      | Inr n \<Rightarrow> (case asset_bytes as of Inl e \<Rightarrow> Inl e | Inr m \<Rightarrow> Inr (n + m)))"

definition known_size :: "(string \<times> int option) list \<Rightarrow> string \<Rightarrow> int option" where
  \<comment> \<open>\<open>known.get(key)\<close>; the entries whose value is None are dropped\<close>
  "known_size weight_bytes key = (case map_of weight_bytes key of Some (Some n) \<Rightarrow> Some n | _ \<Rightarrow> None)"

definition target_bytes :: "(string \<times> int option) list \<Rightarrow> target \<Rightarrow> int" where
  "target_bytes wb t =
     (case known_size wb (fst t) of
        Some n \<Rightarrow> n
      | None \<Rightarrow> if snd t = None then unknown_snapshot_bytes else unknown_weight_file_bytes)"

definition target_unknown :: "target \<Rightarrow> string" where
  "target_unknown t =
     (if snd t = None
      then ''the whole-snapshot weights entry '' @ fst t @ '', charged '' @ gib_text unknown_snapshot_bytes
      else ''the pinned weights file '' @ fst t @ '', charged '' @ gib_text unknown_weight_file_bytes)"

fun sum_weights ::
  "(string \<times> int option) list \<Rightarrow> target list \<Rightarrow> int \<times> nat \<times> string list \<Rightarrow> int \<times> nat \<times> string list"
where
  \<comment> \<open>the loop over the targets: bytes, how many were assumed, the unknown entries\<close>
  "sum_weights wb [] acc = acc"
| "sum_weights wb (t # ts) (w, n, us) =
     (if known_size wb (fst t) \<noteq> None then sum_weights wb ts (w + target_bytes wb t, n, us)
      else sum_weights wb ts (w + target_bytes wb t, n + 1, us @ [target_unknown t]))"

definition image_or_zero :: "int option \<Rightarrow> int" where
  "image_or_zero image_bytes = or_default 0 image_bytes"

definition image_unknown :: string where
  "image_unknown = ''the runner image (declare its size as image_size_gb on the worker profile)''"

definition pack_count :: "json \<Rightarrow> pyerr + nat" where
  \<comment> \<open>\<open>len(profile.get("custom_nodes") or [])\<close>\<close>
  "pack_count profile =
     (case iterate_or_empty (obj_get profile ''custom_nodes'') of
        Inl e \<Rightarrow> Inl (TypeError ''object has no len()'')
      | Inr xs \<Rightarrow> Inr (length xs))"

definition reserve_bytes :: "pyenv \<Rightarrow> json \<Rightarrow> pyerr + int" where
  \<comment> \<open>\<open>int(float(profile.get("extra_disk_gb") or 0) * GIB)\<close>\<close>
  "reserve_bytes env profile =
     (case py_float env (or_zero (obj_get profile ''extra_disk_gb'')) of
        Inl e \<Rightarrow> Inl e
      | Inr (JFloat q) \<Rightarrow> Inr (trunc_rat (q * of_int GIB))
      | Inr v \<Rightarrow> py_int v)"

definition headroom_bytes :: "int \<Rightarrow> int" where
  "headroom_bytes subtotal =
     max headroom_floor_bytes (trunc_rat (of_int subtotal * headroom_fraction))"

definition plan_components ::
  "int \<Rightarrow> bool \<Rightarrow> nat \<Rightarrow> int \<Rightarrow> nat \<Rightarrow> int \<Rightarrow> nat \<Rightarrow> nat \<Rightarrow> int \<Rightarrow> int \<Rightarrow> int \<Rightarrow> int \<Rightarrow>
   storage_component list"
where
  "plan_components img declared asset_count assets target_count weights assumed n_packs packs
     reserve subtotal headroom =
     [\<lparr>sc_name = ''image'', sc_bytes = img,
       sc_detail = (if declared then ''runner image, declared as '' @ gib_text img
                    else ''runner image size is not declared; assuming '' @ gib_text img)\<rparr>,
      \<lparr>sc_name = ''assets'', sc_bytes = assets,
       sc_detail = plural asset_count ''declared model file'' None @
                   '', sized exactly by the partition manifest''\<rparr>,
      \<lparr>sc_name = ''weights'', sc_bytes = weights,
       sc_detail = plural target_count ''pinned profile weights entry''
                     (Some ''pinned profile weights entries'') @
                   (if assumed \<noteq> 0 then '', '' @ nat_text assumed @ '' of unknown size'' else [])\<rparr>,
      \<lparr>sc_name = ''packs'', sc_bytes = packs,
       sc_detail = plural n_packs ''custom node pack'' None @ '' at a '' @
                   gib_text pack_allowance_bytes @
                   '' allowance each; a pack's pip install is unbounded, so this is an allowance, not a measurement''\<rparr>,
      \<lparr>sc_name = ''reserve'', sc_bytes = reserve,
       sc_detail = (if reserve \<noteq> 0
                    then ''operator-declared extra_disk_gb: storage the coordinator cannot see''
                    else ''no extra_disk_gb declared; a node that downloads its own weights at runtime is invisible to this plan'')\<rparr>,
      \<lparr>sc_name = ''headroom'', sc_bytes = headroom,
       sc_detail = ''working space for outputs, temp files and pip caches: the larger of '' @
                   gib_text headroom_floor_bytes @ '' and '' @
                   int_text (trunc_rat (headroom_fraction * 100)) @ ''% of '' @ gib_text subtotal\<rparr>]"

definition plan_storage ::
  "pyenv \<Rightarrow> json list \<Rightarrow> json \<Rightarrow> int option \<Rightarrow> (string \<times> int option) list \<Rightarrow> pyerr + storage_plan"
where
  "plan_storage env assets profile image_bytes weight_bytes =
     (let declared = 0 < image_or_zero image_bytes;
          img = (if declared then image_or_zero image_bytes else unknown_image_bytes);
          unknown0 = (if declared then [] else [image_unknown])
      in
      (case asset_bytes assets of Inl e \<Rightarrow> Inl e | Inr asset_total \<Rightarrow>
      (case profile_weight_targets env profile of Inl e \<Rightarrow> Inl e | Inr targets \<Rightarrow>
      (case pack_count profile of Inl e \<Rightarrow> Inl e | Inr n_packs \<Rightarrow>
      (case reserve_bytes env profile of Inl e \<Rightarrow> Inl e | Inr reserve \<Rightarrow>
        (case sum_weights weight_bytes targets (0, 0, unknown0) of (weights, assumed, unknown) \<Rightarrow>
         let packs = int n_packs * pack_allowance_bytes;
             subtotal = img + asset_total + weights + packs + reserve;
             headroom = headroom_bytes subtotal
         in Inr \<lparr>sp_image = img, sp_assets = asset_total, sp_weights = weights, sp_packs = packs,
                 sp_reserve = reserve, sp_headroom = headroom, sp_total = subtotal + headroom,
                 sp_unknown = unknown,
                 sp_components = plan_components img declared (length assets) asset_total
                   (length targets) weights assumed n_packs packs reserve subtotal headroom\<rparr>))))))"

definition plan_disk_gb :: "storage_plan \<Rightarrow> int" where
  "plan_disk_gb p = max minimum_disk_gb \<lceil>of_int (sp_total p) / (of_int GIB :: rat)\<rceil>"

record storage_summary =
  ss_total_gb :: int
  ss_total_bytes :: int
  ss_components :: "storage_component list"
  ss_unknown :: "string list"

definition plan_summary :: "storage_plan \<Rightarrow> storage_summary" where
  "plan_summary p =
     \<lparr>ss_total_gb = plan_disk_gb p, ss_total_bytes = sp_total p,
      ss_components = sp_components p, ss_unknown = sp_unknown p\<rparr>"

definition largest_components :: "storage_plan \<Rightarrow> storage_component list" where
  \<comment> \<open>\<open>sorted(..., reverse=True)[:3]\<close> keeps the order of equal sizes\<close>
  "largest_components p = take 3 (sort_key (\<lambda>c. - sc_bytes c) (sp_components p))"

fun comma_join :: "string list \<Rightarrow> string" where
  "comma_join [] = []"
| "comma_join [s] = s"
| "comma_join (s # t # ts) = s @ '', '' @ comma_join (t # ts)"

definition exceeds_ceiling_message :: "storage_plan \<Rightarrow> int \<Rightarrow> int \<Rightarrow> string" where
  "exceeds_ceiling_message p disk_gb ceiling_gb =
     ''Cloud Offload will not rent a worker for this partition: it plans '' @ int_text disk_gb @
     '' GB of container disk, above the configured ceiling of '' @ int_text ceiling_gb @
     '' GB. Largest components: '' @
     comma_join (map (\<lambda>c. sc_name c @ '' '' @ gib_text (sc_bytes c)) (largest_components p)) @
     ''. Raise max_container_disk_gb, or reduce what this partition and its worker profile stage.''"

end
