(* ===== verification/StorageProps.thy ===== *)
theory StorageProps
  imports StoragePlan Samples
begin

text \<open>
  The planned disk: it holds every part of the plan with its headroom, it is not a gigabyte
  larger than that needs, and nothing that a profile stages is left out of it.
\<close>

section \<open>The disk\<close>

definition plan_parts :: "storage_plan \<Rightarrow> int" where
  "plan_parts p = sp_image p + sp_assets p + sp_weights p + sp_packs p + sp_reserve p"

lemma GIB_pos [simp]: "0 < GIB"
  by (simp add: GIB_def)

lemma disk_ceiling:
  "n \<le> \<lceil>of_int n / (of_int GIB :: rat)\<rceil> * GIB \<and> (\<lceil>of_int n / (of_int GIB :: rat)\<rceil> - 1) * GIB < n"
proof -
  let ?c = "\<lceil>of_int n / (of_int GIB :: rat)\<rceil>"
  have g: "0 < (of_int GIB :: rat)" by simp
  have "of_int n / of_int GIB \<le> (of_int ?c :: rat)" by (rule le_of_int_ceiling)
  then have "of_int n \<le> (of_int (?c * GIB) :: rat)" unfolding pos_divide_le_eq [OF g] by simp
  moreover have "of_int (?c - 1) < (of_int n / of_int GIB :: rat)" by linarith
  then have "(of_int ((?c - 1) * GIB) :: rat) < of_int n"
    unfolding pos_less_divide_eq [OF g] by simp
  ultimately show ?thesis by (simp only: of_int_le_iff of_int_less_iff)
qed

lemma disk_gb:
  "sp_total p \<le> plan_disk_gb p * GIB"
  "plan_disk_gb p = minimum_disk_gb \<or> (plan_disk_gb p - 1) * GIB < sp_total p"
proof -
  note c = disk_ceiling [of "sp_total p"]
  have "\<lceil>of_int (sp_total p) / (of_int GIB :: rat)\<rceil> * GIB \<le> plan_disk_gb p * GIB"
    by (rule mult_right_mono) (simp_all add: plan_disk_gb_def less_imp_le)
  with c show "sp_total p \<le> plan_disk_gb p * GIB" by linarith
  from c show "plan_disk_gb p = minimum_disk_gb \<or> (plan_disk_gb p - 1) * GIB < sp_total p"
    by (simp add: plan_disk_gb_def max_def)
qed

lemma headroom_enough: "headroom_floor_bytes \<le> headroom_bytes n \<and> n < 5 * headroom_bytes n + 5"
proof (cases "0 \<le> n")
  case True
  have "of_int n / 5 < (of_int (\<lfloor>of_int n / 5 :: rat\<rfloor> + 1) :: rat)" by linarith
  then have "n < 5 * \<lfloor>of_int n / 5 :: rat\<rfloor> + 5" by linarith
  with True show ?thesis
    by (simp add: headroom_bytes_def trunc_rat_def headroom_fraction_def max_def)
next
  case False
  then show ?thesis
    by (simp add: headroom_bytes_def headroom_floor_bytes_def GIB_def max_def)
qed

lemma sum_weights_eq:
  "sum_weights wb ts (w, n, us) =
     (w + sum_list (map (target_bytes wb) ts),
      n + length (filter (\<lambda>t. known_size wb (fst t) = None) ts),
      us @ map target_unknown (filter (\<lambda>t. known_size wb (fst t) = None) ts))"
  by (induction ts arbitrary: w n us) auto

lemma plan_storage_cases:
  assumes "plan_storage env assets profile image_bytes wb = Inr p"
  obtains ts n_packs where
    "asset_bytes assets = Inr (sp_assets p)" "profile_weight_targets env profile = Inr ts"
    "pack_count profile = Inr n_packs" "reserve_bytes env profile = Inr (sp_reserve p)"
    "sp_image p = (if 0 < image_or_zero image_bytes then image_or_zero image_bytes else unknown_image_bytes)"
    "sp_packs p = int n_packs * pack_allowance_bytes"
    "sp_headroom p = headroom_bytes (plan_parts p)" "sp_total p = plan_parts p + sp_headroom p"
    "\<exists>a. sum_weights wb ts (0, 0, if 0 < image_or_zero image_bytes then [] else [image_unknown]) =
           (sp_weights p, a, sp_unknown p)"
    "map (\<lambda>c. (sc_name c, sc_bytes c)) (sp_components p) =
       [(''image'', sp_image p), (''assets'', sp_assets p), (''weights'', sp_weights p),
        (''packs'', sp_packs p), (''reserve'', sp_reserve p), (''headroom'', sp_headroom p)]"
proof -
  let ?u = "if 0 < image_or_zero image_bytes then [] else [image_unknown]"
  obtain tot ts n r where c: "asset_bytes assets = Inr tot" "profile_weight_targets env profile = Inr ts"
    "pack_count profile = Inr n" "reserve_bytes env profile = Inr r"
    using assms by (auto simp: plan_storage_def Let_def split: sum.splits)
  obtain w a u where s: "sum_weights wb ts (0, 0, ?u) = (w, a, u)"
    by (cases "sum_weights wb ts (0, 0, ?u)") auto
  show thesis
    by (rule that [of ts n]; use assms in \<open>auto simp: plan_storage_def Let_def c s plan_parts_def
          plan_components_def\<close>)
qed

text \<open>C40: the disk that is requested holds the whole plan; above the smallest disk it is the
  fewest gigabytes that do; and beyond the parts it leaves at least 10 GiB and at least a fifth
  of them.\<close>

theorem disk_holds_plan:
  assumes "plan_storage env assets profile image_bytes wb = Inr p"
  shows "plan_parts p + headroom_floor_bytes \<le> plan_disk_gb p * GIB \<and>
     6 * plan_parts p < 5 * (plan_disk_gb p * GIB) + 5 \<and>
     minimum_disk_gb \<le> plan_disk_gb p \<and>
     (plan_disk_gb p = minimum_disk_gb \<or> (plan_disk_gb p - 1) * GIB < sp_total p)"
proof -
  have t: "sp_total p = plan_parts p + headroom_bytes (plan_parts p)"
    by (rule plan_storage_cases [OF assms]) simp
  have "minimum_disk_gb \<le> plan_disk_gb p" by (simp add: plan_disk_gb_def)
  with t disk_gb [of p] headroom_enough [of "plan_parts p"] show ?thesis by linarith
qed

definition sample_assets :: "json list" where
  "sample_assets = [JObj [(''size'', JInt (20 * 1024 ^ 3))], JObj [(''size'', JNull)]]"

definition sample_profile :: json where
  "sample_profile =
     JObj [(''weights'', JArr [JObj [(''repo_id'', JStr ''r''), (''revision'', JStr ''v''),
                                     (''files'', JArr [JStr ''a'', JStr ''b''])],
                               JObj [(''repo_id'', JStr ''q''), (''revision'', JStr ''v'')]]),
           (''custom_nodes'', JArr [JStr ''n'']), (''extra_disk_gb'', JInt 5)]"

lemma sample_targets:
  "profile_weight_targets sample_env sample_profile =
     Inr [(''r@v/a'', Some ''a''), (''r@v/b'', Some ''b''), (''q@v'', None)]"
  by code_simp

lemma sample_reserve: "reserve_bytes sample_env sample_profile = Inr (5 * GIB)"
proof -
  have x: "or_zero (obj_get sample_profile ''extra_disk_gb'') = JInt 5"
    by (simp add: sample_profile_def or_zero_def)
  have "5 < float_overflow" unfolding float_overflow_def by simp
  then have "py_float sample_env (JInt 5) = Inr (JFloat 5)" by simp
  moreover have "trunc_rat (5 * of_int GIB) = 5 * GIB" by (simp add: trunc_rat_def GIB_def)
  ultimately show ?thesis by (simp add: reserve_bytes_def x)
qed

lemma sample_plan_storage:
  "\<exists>p. plan_storage sample_env sample_assets sample_profile None [(''r@v/a'', Some 7)] = Inr p"
proof -
  have "asset_bytes sample_assets = Inr (20 * 1024 ^ 3)" "pack_count sample_profile = Inr 1"
    by (simp_all add: sample_assets_def sample_profile_def or_zero_def pack_count_def iterate_or_empty_def)
  then show ?thesis
    by (simp add: plan_storage_def sample_targets sample_reserve Let_def sum_weights_eq)
qed

lemma disk_holds_plan_witness:
  "\<exists>p. plan_storage sample_env sample_assets sample_profile None [(''r@v/a'', Some 7)] = Inr p \<and>
       plan_parts p + headroom_floor_bytes \<le> plan_disk_gb p * GIB"
  using sample_plan_storage disk_holds_plan by blast

section \<open>Nothing is left out\<close>

text \<open>The weights of a plan are the sum over every target that the profile stages, at its
  resolved size or else at a charge of at least 8 GiB; the entries listed as unknown are exactly
  the targets that were charged (and the image when it is not declared); and the components that
  are shown add up to the total.\<close>

theorem plan_counts_everything:
  assumes "plan_storage env assets profile image_bytes wb = Inr p"
    and "profile_weight_targets env profile = Inr ts"
  shows "sp_weights p = (\<Sum>t \<leftarrow> ts. target_bytes wb t) \<and>
     (\<forall>t. known_size wb (fst t) = None \<longrightarrow> 8 * GIB \<le> target_bytes wb t) \<and>
     sp_unknown p = (if 0 < image_or_zero image_bytes then [] else [image_unknown]) @
       map target_unknown (filter (\<lambda>t. known_size wb (fst t) = None) ts) \<and>
     (\<Sum>c \<leftarrow> sp_components p. sc_bytes c) = sp_total p"
proof -
  obtain a where s: "sum_weights wb ts (0, 0, if 0 < image_or_zero image_bytes then [] else [image_unknown]) =
           (sp_weights p, a, sp_unknown p)"
    and t: "sp_total p = plan_parts p + sp_headroom p"
    and c: "map (\<lambda>c. (sc_name c, sc_bytes c)) (sp_components p) =
       [(''image'', sp_image p), (''assets'', sp_assets p), (''weights'', sp_weights p),
        (''packs'', sp_packs p), (''reserve'', sp_reserve p), (''headroom'', sp_headroom p)]"
    by (rule plan_storage_cases [OF assms(1)]) (use assms(2) in auto)
  have "map sc_bytes (sp_components p) = map snd (map (\<lambda>c. (sc_name c, sc_bytes c)) (sp_components p))"
    by simp
  with t have "(\<Sum>c \<leftarrow> sp_components p. sc_bytes c) = sp_total p"
    by (simp only: c) (simp add: plan_parts_def)
  moreover have "known_size wb (fst t) = None \<Longrightarrow> 8 * GIB \<le> target_bytes wb t" for t
    by (simp add: target_bytes_def unknown_snapshot_bytes_def unknown_weight_file_bytes_def GIB_def)
  ultimately show ?thesis using s by (simp add: sum_weights_eq)
qed

lemma plan_counts_everything_witness:
  "\<exists>p. plan_storage sample_env sample_assets sample_profile None [(''r@v/a'', Some 7)] = Inr p \<and>
       sp_weights p = 7 + 8 * GIB + 32 * GIB \<and> length (sp_unknown p) = 3"
proof -
  let ?wb = "[(''r@v/a'', Some (7::int))]"
  let ?ts = "[(''r@v/a'', Some ''a''), (''r@v/b'', Some ''b''), (''q@v'', None)]"
  obtain p where p: "plan_storage sample_env sample_assets sample_profile None ?wb = Inr p"
    using sample_plan_storage by blast
  have "sp_weights p = (\<Sum>t \<leftarrow> ?ts. target_bytes ?wb t)" and
    "sp_unknown p = [image_unknown] @ map target_unknown (filter (\<lambda>t. known_size ?wb (fst t) = None) ?ts)"
    using plan_counts_everything [OF p sample_targets]
    by (simp_all only: image_or_zero_def or_default_def) simp_all
  then show ?thesis
    using p by (simp add: target_bytes_def known_size_def unknown_weight_file_bytes_def unknown_snapshot_bytes_def)
qed

end
