(* ===== verification/TrustProps.thy ===== *)
theory TrustProps
  imports ManifestProps
begin

text \<open>
  Trust receipts end to end: the samples that are taken of an object pass the check of the
  verifier, an object that was fully verified is trusted until its audit is due, and nothing is
  trusted that the receipt does not bind.
\<close>

section \<open>The sample layout\<close>

lemma sorted_le_last: "sorted xs \<Longrightarrow> x \<in> set xs \<Longrightarrow> x \<le> last xs"
  by (induction xs) auto

lemma offsets_facts:
  assumes "0 \<le> m"
  shows "sorted_wrt (<) (sample_offsets m)" "set (sample_offsets m) \<subseteq> {0..m}"
    "0 \<in> set (sample_offsets m)" "m \<in> set (sample_offsets m)"
proof -
  let ?f = "\<lambda>i::nat. py_round (of_int (m * int i) / of_int (max 1 (int sample_count - 1)))"
  have s: "set (sample_offsets m) = ?f ` {0..<5}"
    by (simp add: sample_offsets_def sample_count_def)
  show "sorted_wrt (<) (sample_offsets m)"
    by (simp add: sample_offsets_def strict_sorted_list_of_set)
  have "0 \<le> ?f i \<and> ?f i \<le> m" if "i < 5" for i
  proof -
    let ?q = "of_int (m * int i) / 4 :: rat"
    have f: "?f i = py_round ?q" by (simp add: sample_count_def)
    have "0 \<le> of_int (m * int i) / (4::rat)" using assms by simp
    moreover have "m * int i \<le> m * 4" using assms that by (intro mult_left_mono) simp_all
    then have "of_int (m * int i) \<le> (of_int (m * 4) :: rat)" by (simp only: of_int_le_iff)
    then have "?q \<le> of_int m" by simp
    ultimately have "- 1 < (of_int (py_round ?q) :: rat)" "of_int (py_round ?q) < (of_int (m + 1) :: rat)"
      using py_round_bounds [of ?q] by (auto simp: abs_if split: if_splits)
    then have "rat_of_int (- 1) < of_int (py_round ?q)" "of_int (py_round ?q) < (of_int (m + 1) :: rat)"
      by simp_all
    then show ?thesis unfolding f of_int_less_iff by linarith
  qed
  then show "set (sample_offsets m) \<subseteq> {0..m}" unfolding s by auto
  have "?f 0 = 0" "?f 4 = m"
    using py_round_of_int [of 0] by (simp_all add: sample_count_def)
  then show "0 \<in> set (sample_offsets m)" "m \<in> set (sample_offsets m)"
    unfolding s by (auto simp: image_iff intro: bexI [of _ 0] bexI [of _ 4])
qed

definition signed_sample :: "pyenv \<Rightarrow> string \<Rightarrow> int \<Rightarrow> int \<Rightarrow> json" where
  "signed_sample env content width offset =
     JObj [(''offset'', JInt offset), (''size'', JInt width),
           (''sha256'', JStr (case digest_id (sha256_file env (file_slice content offset width)) of
                                Inr d \<Rightarrow> d | Inl e \<Rightarrow> []))]"

lemma slice_length:
  "0 \<le> q \<Longrightarrow> 0 \<le> w \<Longrightarrow> q + w \<le> int (length content) \<Longrightarrow> int (length (file_slice content q w)) = w"
  by (simp add: file_slice_def)

lemma layout_sample_Inr:
  assumes "0 \<le> q" "0 \<le> w" "q + w \<le> int (length content)" "\<exists>d. digest_id (sha256_file env (file_slice content q w)) = Inr d"
  shows "layout_sample env content w q = Inr (signed_sample env content w q)"
  using assms slice_length [OF assms(1-3)]
  by (auto simp: layout_sample_def signed_sample_def Let_def)

lemma each_Inr: "(\<And>x. x \<in> set xs \<Longrightarrow> f x = Inr (g x)) \<Longrightarrow> each f xs = Inr (map g xs)"
  by (induction xs) auto

lemma sample_layout_map:
  assumes "content \<noteq> []" and "\<And>v. \<exists>d. digest_id (sha256_file env v) = Inr d"
  shows "sample_layout env content =
     Inr (map (signed_sample env content (sample_width (int (length content))))
              (sample_offsets (int (length content) - sample_width (int (length content)))))"
proof -
  let ?n = "int (length content)" let ?w = "sample_width ?n"
  have w: "0 < ?w" "?w \<le> ?n" using assms(1) by (simp_all add: sample_width_def sample_bytes_def)
  have "layout_sample env content ?w q = Inr (signed_sample env content ?w q)"
    if "q \<in> set (sample_offsets (?n - ?w))" for q
    using offsets_facts(2) [of "?n - ?w"] that w assms(2) by (intro layout_sample_Inr) auto
  then show ?thesis using assms(1) by (simp add: sample_layout_def Let_def each_Inr)
qed

lemma signed_sample_bounds [simp]:
  "sample_offset (signed_sample env c w q) = q" "sample_end (signed_sample env c w q) = q + w"
  by (simp_all add: sample_offset_def sample_end_def signed_sample_def or_zero_def)

lemma check_signed_sample:
  assumes "p < q" "0 \<le> q" "0 < w" "q + w \<le> n" "digest_id (sha256_file env (file_slice content q w)) = Inr d"
  shows "check_sample env n (signed_sample env content w q) p = Inr q"
proof -
  have "digest_id d = Inr d" by (rule digest_id_Inr [OF assms(5)])
  then show ?thesis using assms by (simp add: check_sample_def signed_sample_def or_zero_def)
qed

lemma check_layout:
  assumes "sorted_wrt (<) (p # qs)" "\<forall>q \<in> set qs. 0 \<le> q \<and> q + w \<le> n" "0 < w"
    and "\<And>v. \<exists>d. digest_id (sha256_file env v) = Inr d"
  shows "fold_tx (check_sample env n) (map (signed_sample env content w) qs) p = Inr (last (p # qs))"
  using assms(1,2)
proof (induction qs arbitrary: p)
  case Nil
  then show ?case by simp
next
  case (Cons q qs)
  obtain d where d: "digest_id (sha256_file env (file_slice content q w)) = Inr d" using assms(4) by blast
  have "check_sample env n (signed_sample env content w q) p = Inr q"
    using Cons.prems assms(3) by (intro check_signed_sample [OF _ _ _ _ d]) auto
  with Cons show ?case by simp
qed

text \<open>The samples that are taken of a file that is not empty start at its first byte, end at
  its last, and pass the check that the verifier applies to the samples of a receipt.\<close>

theorem layout_passes_check:
  assumes "content \<noteq> []" and "\<And>v. \<exists>d. digest_id (sha256_file env v) = Inr d"
  shows "\<exists>xs. sample_layout env content = Inr xs \<and> xs \<noteq> [] \<and>
     check_samples env (int (length content)) (JArr xs) = Inr () \<and>
     sample_offset (hd xs) = 0 \<and> sample_end (last xs) = int (length content)"
proof -
  let ?n = "int (length content)" let ?w = "sample_width ?n" let ?m = "?n - ?w"
  let ?g = "signed_sample env content ?w" let ?qs = "sample_offsets ?m"
  have w: "0 < ?w" "0 \<le> ?m" using assms(1) by (simp_all add: sample_width_def sample_bytes_def)
  note o = offsets_facts [OF w(2)]
  obtain q qs where qs: "?qs = q # qs" using o(3) by (cases ?qs) auto
  have s: "sorted_wrt (<) (- 1 # ?qs)" using o(1,2) by auto
  have b: "\<forall>q \<in> set ?qs. 0 \<le> q \<and> q + ?w \<le> ?n" using o(2) by auto
  have hd: "hd ?qs = 0" using o(1-3) by (auto simp: qs)
  have last: "last ?qs = ?m"
  proof -
    have "last ?qs \<le> ?m" using o(2) qs by (metis atLeastAtMost_iff last_in_set list.distinct(1) subset_iff)
    moreover have "sorted ?qs" by (simp add: sample_offsets_def)
    then have "?m \<le> last ?qs" using o(4) by (simp add: sorted_le_last)
    ultimately show ?thesis by simp
  qed
  have "check_samples env ?n (JArr (map ?g ?qs)) = Inr ()"
    using check_layout [OF s b w(1) assms(2), where content = content]
    by (simp add: check_samples_def qs)
  moreover have "sample_offset (hd (map ?g ?qs)) = 0" "sample_end (last (map ?g ?qs)) = ?n"
    using hd last by (simp_all add: qs list.map_sel last_map del: list.map)
  ultimately show ?thesis
    using sample_layout_map [OF assms] qs by (intro exI [of _ "map ?g ?qs"]) simp
qed

lemma layout_passes_check_witness:
  "\<exists>xs. sample_layout sample_env ''abc'' = Inr xs \<and> xs \<noteq> [] \<and> sample_end (last xs) = 3"
proof -
  have "\<exists>d. digest_id (sha256_file sample_env v) = Inr d" for v
  proof -
    have "digest_id (replicate 64 (CHR ''0'')) = Inr (sha_prefix @ replicate 64 (CHR ''0''))" by code_simp
    then show ?thesis by (simp add: sample_env_def)
  qed
  from layout_passes_check [OF _ this, of "''abc''"] show ?thesis by auto
qed

section \<open>Signing and checking again\<close>

lemma sign_trust_Inr:
  assumes "sign_trust_receipt env s p = Inr r"
  obtains t i where "trust_text env (trust_payload p) = Inr t" "digest_id (sha256_hex env t) = Inr i"
    "r = with_fields (trust_payload p) [(''receipt_id'', JStr i),
           (''signature'', signature_field s (hmac_hex env (trust_key env s) t))]"
    "is_obj p" "validate_trust_receipt_shape env r = Inr ()"
proof -
  obtain t i where t: "trust_text env (trust_payload p) = Inr t" "digest_id (sha256_hex env t) = Inr i"
    "r = with_fields (trust_payload p) [(''receipt_id'', JStr i),
           (''signature'', signature_field s (hmac_hex env (trust_key env s) t))]"
    "validate_trust_receipt_shape env r = Inr ()"
    "obj_get (trust_payload p) ''schema'' = JStr trust_schema"
    using assms by (auto simp: sign_trust_receipt_def Let_def split: if_splits sum.splits)
  then have "is_obj p" using get_without unfolding trust_payload_def by blast
  with t that show thesis by blast
qed

lemma signed_receipt_verifies:
  assumes "sign_trust_receipt env s p = Inr r" and "\<And>k t. is_ascii (hmac_hex env k t)"
  shows "verify_trust_receipt env s r = Inr r"
    and "\<And>k. k \<notin> {''receipt_id'', ''signature''} \<Longrightarrow> obj_get r k = obj_get p k"
    and "\<exists>i. obj_get r ''receipt_id'' = JStr i"
proof -
  obtain t i where t: "trust_text env (trust_payload p) = Inr t" "digest_id (sha256_hex env t) = Inr i"
    and r: "r = with_fields (trust_payload p) [(''receipt_id'', JStr i),
           (''signature'', signature_field s (hmac_hex env (trust_key env s) t))]"
    and p: "is_obj p" and sh: "validate_trust_receipt_shape env r = Inr ()"
    by (rule sign_trust_Inr [OF assms(1)])
  have q: "trust_payload r = trust_payload p"
    unfolding r trust_payload_def by (rule payload_with_fields [OF p]) simp
  have g: "obj_get r ''receipt_id'' = JStr i" "is_obj r"
    "obj_get r ''signature'' = signature_field s (hmac_hex env (trust_key env s) t)"
    using p unfolding r trust_payload_def by (simp_all add: get_with_fields)
  have "is_ascii i" by (rule digest_id_Inr [OF t(2)])
  then show "verify_trust_receipt env s r = Inr r"
    using sh assms(2) signature_field_trusted [OF g(2,3)]
    by (simp add: verify_trust_receipt_def q t g(1) require_same)
       (simp add: signature_field_def require_same)
  show "\<exists>i. obj_get r ''receipt_id'' = JStr i" using g(1) by blast
  fix k
  assume k: "k \<notin> {''receipt_id'', ''signature''}"
  obtain kvs where kvs: "p = JObj kvs" using p by (cases p) auto
  have "map_of (filter (\<lambda>kv. fst kv \<notin> {''signature'', ''receipt_id''}) kvs) k = map_of kvs k"
    using k by (induction kvs) auto
  then show "obj_get r k = obj_get p k"
    using k by (simp add: r kvs trust_payload_def without_def with_fields_def map_add_def split: option.splits)
qed

lemma check_signed_bytes:
  assumes "layout_sample env content w q = Inr y"
  shows "check_bytes env d y content = Inr w"
  using assms by (auto simp: layout_sample_def check_bytes_def Let_def split: if_splits sum.splits)

lemma sampled_bytes:
  assumes "sample_layout env content = Inr xs" and "x \<in> set xs"
  shows "\<exists>w. check_bytes env d x content = Inr w"
proof -
  let ?w = "sample_width (int (length content))"
  have "each (layout_sample env content ?w) (sample_offsets (int (length content) - ?w)) = Inr xs"
    using assms by (auto simp: sample_layout_def Let_def split: if_splits)
  from each_map [OF this] assms(2) show ?thesis
    by (auto simp: list_all2_conv_all_nth in_set_conv_nth) (metis check_signed_bytes)
qed

lemma generation_eq [simp]: "py_eq (object_generation k f) (object_generation k f)"
  by (simp add: py_eq_def object_generation_def)

lemma none_guard: "(if b then Inr (c, None) else e) = Inr (d, Some r) \<longleftrightarrow> \<not> b \<and> e = Inr (d, Some r)"
  by auto

lemma issue_Inr:
  assumes "issue_trust_receipt env now s manifest artifact volume pv c = Inr (c', Some r)"
  obtains n_bytes dv h kv fl samples mid sd dg ck where
    "py_int (or_zero (obj_get artifact ''size'')) = Inr n_bytes" "0 < n_bytes"
    "py_item artifact ''digest'' = Inr dv" "normalize_digest (py_str env dv) = Inr h"
    "py_item artifact ''storage_key'' = Inr kv" "map_of (cas_objects c) (py_str env kv) = Some fl"
    "map_of (cas_verified c) (h, py_str env kv) = Some (object_generation (py_str env kv) fl)"
    "sample_layout env (fst fl) = Inr samples" "py_item manifest ''manifest_id'' = Inr mid"
    "manifest_signature_digest env manifest = Inr sd" "digest_id h = Inr dg"
    "artifact_runtime_compatibility_key env artifact = Inr ck"
    "sign_trust_receipt env s (receipt_proposal env now mid sd dg n_bytes (py_str env kv)
        volume pv ck (object_generation (py_str env kv) fl) samples) = Inr r"
    "cas_objects c' = cas_objects c"
proof -
  obtain n_bytes dv h kv where a:
    "py_int (or_zero (obj_get artifact ''size'')) = Inr n_bytes" "0 < n_bytes"
    "py_item artifact ''digest'' = Inr dv" "normalize_digest (py_str env dv) = Inr h"
    "py_item artifact ''storage_key'' = Inr kv"
    using assms unfolding issue_trust_receipt_def Let_def none_guard tx_bind by auto
  then obtain fl where fl: "map_of (cas_objects c) (py_str env kv) = Some fl"
    using assms by (cases "map_of (cas_objects c) (py_str env kv)")
      (auto simp: issue_trust_receipt_def Let_def none_guard)
  note e = assms [unfolded issue_trust_receipt_def Let_def none_guard a sum.case if_False fl option.case tx_bind]
  from e a fl show thesis
    by (elim conjE exE) (rule that; (assumption | force))
qed

lemma issue_then_check:
  assumes "issue_trust_receipt env now s manifest artifact volume pv c = Inr (c', Some r)"
    and "obj_get manifest ''manifest_id'' = JStr i"
    and "now \<le> t" and "t < now + audit_interval" and "cas_objects c2 = cas_objects c'"
    and "\<And>k u. is_ascii (hmac_hex env k u)"
    and "\<And>u. parse_iso env (z_to_offset (iso_utc env u)) = Some (u, True)"
  shows "\<exists>x. check_trust_receipt env t s r manifest artifact volume pv c2 = Inr (Some x) \<and>
     tr_receipt_id x = obj_get r ''receipt_id''"
proof -
  obtain n_bytes dv h kv fl samples mid sd dg ck where a:
    "py_int (or_zero (obj_get artifact ''size'')) = Inr n_bytes" "0 < n_bytes"
    "py_item artifact ''digest'' = Inr dv" "normalize_digest (py_str env dv) = Inr h"
    "py_item artifact ''storage_key'' = Inr kv" "map_of (cas_objects c) (py_str env kv) = Some fl"
    "sample_layout env (fst fl) = Inr samples" "py_item manifest ''manifest_id'' = Inr mid"
    "manifest_signature_digest env manifest = Inr sd" "digest_id h = Inr dg"
    "artifact_runtime_compatibility_key env artifact = Inr ck" "cas_objects c' = cas_objects c"
    and sg: "sign_trust_receipt env s (receipt_proposal env now mid sd dg n_bytes (py_str env kv)
        volume pv ck (object_generation (py_str env kv) fl) samples) = Inr r"
    by (rule issue_Inr [OF assms(1)])
  note v = signed_receipt_verifies [OF sg assms(6)]
  have mid: "mid = JStr i" using a(8) assms(2) by (cases manifest) (auto split: option.splits)
  have dg: "digest_id (py_str env dv) = Inr dg"
    using a(4,10) normalize_digest_Inr(3) [OF a(4)] by (simp add: digest_id_def)
  have n: "int_or_minus_two (obj_get artifact ''size'') = Inr n_bytes"
    using a(1,2) by (auto simp: or_zero_def int_or_minus_two_def split: if_splits)
  have m: "receipt_matches env r manifest artifact dg (py_str env kv) volume pv = Inr True"
    by (simp add: receipt_matches_def a(9,11) n v(2) receipt_proposal_def mid assms(2)
          int_or_minus_one_def a(2) less_imp_neq [OF a(2), symmetric])
  have sc: "obj_get r ''scrub'' = JObj [(''mode'', JStr ''rotating-sample-and-scheduled-full-audit''),
      (''full_audit_due_at'', JStr (iso_utc env (now + audit_interval))), (''samples'', JArr samples)]"
    by (simp add: v(2) receipt_proposal_def)
  have ne: "samples \<noteq> []"
  proof -
    have "validate_trust_receipt_shape env r = Inr ()" by (rule sign_trust_Inr [OF sg])
    from trust_shape_samples [OF this] show ?thesis by (auto simp: sc)
  qed
  obtain rid where rid: "obj_get r ''receipt_id'' = JStr rid" using v(3) by blast
  then have ri: "py_item r ''receipt_id'' = Inr (JStr rid)"
    by (cases r) (auto split: option.splits)
  let ?y = "samples ! sample_index env (JStr rid) t (length samples)"
  have "?y \<in> set samples" using ne by (simp add: sample_index_def)
  from sampled_bytes [OF a(7) this] obtain w where w: "check_bytes env dg ?y (fst fl) = Inr w" by blast
  have ro: "\<exists>x. receipt_object env t r dg (py_str env kv) c2 = Inr (Some x) \<and> tr_receipt_id x = JStr rid"
    using ne by (simp add: receipt_object_def assms(5) a(12,6) v(2) receipt_proposal_def or_obj_def
        iterate_or_empty_def ri w)
  have ex: "py_item r ''expires_at'' = Inr (JStr (iso_utc env (now + receipt_ttl)))"
    using v(2) [of "''expires_at''"] by (cases r) (auto simp: receipt_proposal_def split: option.splits)
  have "t < now + receipt_ttl" using assms(4) by (simp add: audit_interval_def receipt_ttl_def)
  then show ?thesis
    using ro assms(4)
    by (simp add: check_trust_receipt_def v(1) a(3,5) dg m ex utc_stamp_def assms(7) sc or_obj_def rid)
qed

text \<open>An object whose bytes were fully verified is trusted afterwards: the receipt issued for it
  is accepted for the same manifest, artifact and volume at every later instant before its audit
  is due, as long as the file is not touched.\<close>

theorem issued_receipt_trusted:
  assumes "issue_trust_receipt env now s manifest artifact volume pv c = Inr (c', Some r)"
    and "obj_get manifest ''manifest_id'' = JStr i"
    and "now \<le> t" and "t < now + audit_interval" and "cas_objects c2 = cas_objects c'"
    and "\<And>k u. is_ascii (hmac_hex env k u)"
    and "\<And>u. parse_iso env (z_to_offset (iso_utc env u)) = Some (u, True)"
  shows "\<exists>x. check_trust_receipt env t s r manifest artifact volume pv c2 = Inr (Some x) \<and>
     tr_receipt_id x = obj_get r ''receipt_id''"
  by (rule issue_then_check [OF assms])

text \<open>An environment whose instants print as decimal numbers.\<close>

definition decimal :: "string \<Rightarrow> int" where
  "decimal s = foldl (\<lambda>n c. 10 * n + (int (code c) - 48)) 0 s"

definition stamp_value :: "string \<Rightarrow> int" where
  "stamp_value s = (case s of c # cs \<Rightarrow> if c = CHR ''-'' then - decimal cs else decimal s | [] \<Rightarrow> 0)"

definition clock_env :: pyenv where
  "clock_env = digest_env\<lparr>iso_utc := int_text, parse_iso := \<lambda>s. Some (stamp_value s, True)\<rparr>"

lemma digit_code: "n < 10 \<Longrightarrow> code (char_of (48 + n)) = 48 + n"
  by (simp add: code_def)

lemma decimal_nat_text: "decimal (nat_text n) = int n"
proof (induction n rule: nat_text.induct)
  case (1 n)
  show ?case
  proof (cases "n < 10")
    case True
    then show ?thesis by (subst nat_text.simps) (simp add: decimal_def digit_code)
  next
    case False
    have "10 * int (n div 10) + int (n mod 10) = int n" by presburger
    with 1 False show ?thesis
      by (subst nat_text.simps) (simp add: decimal_def digit_code)
  qed
qed

lemma nat_text_digits: "c \<in> set (nat_text n) \<Longrightarrow> 48 \<le> code c \<and> code c < 58"
proof (induction n rule: nat_text.induct)
  case (1 n)
  then show ?case
    by (cases "n < 10"; subst (asm) (2) nat_text.simps) (auto simp: digit_code)
qed

lemma clock_env_iso: "parse_iso clock_env (z_to_offset (iso_utc clock_env u)) = Some (u, True)"
proof -
  have "c \<noteq> CHR ''Z''" if "c \<in> set (int_text u)" for c
    using that nat_text_digits [of c] by (auto simp: int_text_def code_def split: if_splits)
  then have "z_to_offset (int_text u) = int_text u"
    by (simp add: z_to_offset_def map_idI concat_map_singleton cong: map_cong)
  moreover have "stamp_value (int_text u) = u"
  proof (cases "u < 0")
    case True
    then show ?thesis by (simp add: int_text_def stamp_value_def decimal_nat_text)
  next
    case False
    obtain c cs where c: "nat_text (nat u) = c # cs" by (cases "nat_text (nat u)") simp_all
    have "c \<noteq> CHR ''-''" using nat_text_digits [of c "nat u"] by (auto simp: c code_def)
    with False c show ?thesis
      using decimal_nat_text [of "nat u"] by (simp add: int_text_def stamp_value_def)
  qed
  ultimately show ?thesis by (simp add: clock_env_def)
qed

lemma clock_env_ascii: "is_ascii (hmac_hex clock_env k t)"
  using digest_env_ascii by (simp add: clock_env_def)

definition blob_path :: string where
  "blob_path = ''blobs/sha256/00/'' @ sample_blob"

definition sample_cas :: cas where
  "sample_cas =
     \<lparr>cas_objects = [(blob_path, (''abc'', 7))],
      cas_verified = [((sample_blob, blob_path), object_generation blob_path (''abc'', 7))],
      cas_receipts = []\<rparr>"

definition small_manifest :: json where
  "small_manifest = JObj [(''manifest_id'', JStr (sha_prefix @ sample_blob)), (''signature'', JObj [])]"

definition sample_id :: string where
  "sample_id = sha_prefix @ sample_blob"

definition sample_bytes_json :: json where
  "sample_bytes_json = JObj [(''offset'', JInt 0), (''size'', JInt 3), (''sha256'', JStr sample_id)]"

definition sample_receipt_proposal :: json where
  "sample_receipt_proposal =
     receipt_proposal clock_env 5 (JStr sample_id) sample_id sample_id 3 blob_path ''v1'' ''p1'' sample_id
       (object_generation blob_path (''abc'', 7)) [sample_bytes_json]"

lemma sample_digests:
  "normalize_digest sample_blob = Inr sample_blob" "normalize_digest sample_id = Inr sample_blob"
  "digest_id sample_blob = Inr sample_id"
  "sha256_file clock_env v = sample_blob" "sha256_hex clock_env v = sample_blob"
proof -
  show n: "normalize_digest sample_blob = Inr sample_blob" by code_simp
  show "normalize_digest sample_id = Inr sample_blob" by code_simp
  show "digest_id sample_blob = Inr sample_id" by (simp add: digest_id_def n sample_id_def)
  show "sha256_file clock_env v = sample_blob" "sha256_hex clock_env v = sample_blob"
    by (simp_all add: clock_env_def digest_env_def sample_env_def sample_blob_def)
qed

lemma sample_layout_abc: "sample_layout clock_env ''abc'' = Inr [sample_bytes_json]"
proof -
  have w: "sample_width 3 = 3" by (simp add: sample_width_def sample_bytes_def)
  have q: "sample_offsets 0 = [0]"
    using py_round_of_int [of 0] by (simp add: sample_offsets_def sample_count_def upt_rec)
  have "sample_layout clock_env ''abc'' = Inr (map (signed_sample clock_env ''abc'' 3) [0])"
    by (subst sample_layout_map) (auto simp: sample_digests w q)
  then show ?thesis by (simp add: signed_sample_def sample_bytes_json_def sample_digests)
qed

lemma sample_keys: "blob_key sample_id = Inr blob_path" "\<exists>k. bundle_key sample_id = Inr k"
  "\<exists>k. trust_receipt_key sample_id = Inr k"
  by (simp_all add: blob_key_def bundle_key_def trust_receipt_key_def object_key_def sample_digests
        blob_path_def sample_blob_def numeral_eq_Suc)

lemma sample_id_text: "digest_id sample_id = Inr sample_id" "sample_id \<noteq> []" "blob_path \<noteq> []"
  by (simp_all add: digest_id_def sample_digests) (simp_all add: sample_id_def sha_prefix_def blob_path_def)

lemma sample_stamp: "utc_stamp clock_env (JStr (iso_utc clock_env u)) l = Inr u"
  by (simp add: utc_stamp_def clock_env_iso)

lemma sample_receipt_shape:
  "validate_trust_receipt_shape clock_env (with_fields (trust_payload sample_receipt_proposal) fs) = Inr ()"
proof -
  obtain k where k: "bundle_key sample_id = Inr k" using sample_keys(2) by blast
  have "fold_tx (check_sample clock_env 3) [sample_bytes_json] (- 1) = Inr 0"
    by (simp add: check_sample_def sample_bytes_json_def or_zero_def sample_id_text)
  then show ?thesis
    by (simp add: sample_receipt_proposal_def receipt_proposal_def trust_payload_def without_def
          with_fields_def validate_trust_receipt_shape_def field_digest_def sample_id_text
          int_or_minus_one_def sample_keys(1) k Let_def check_generation_def object_generation_def
          check_times_def sample_stamp check_audit_def check_samples_def receipt_ttl_def
          audit_interval_def del: fold_tx.simps)
qed

lemma sample_receipt_signed:
  "\<exists>r. sign_trust_receipt clock_env sample_signer sample_receipt_proposal = Inr r"
proof -
  have "json_finite (trust_payload sample_receipt_proposal)"
    by (simp add: sample_receipt_proposal_def receipt_proposal_def trust_payload_def without_def
          object_generation_def sample_bytes_json_def)
  then obtain t where t: "trust_text clock_env (trust_payload sample_receipt_proposal) = Inr t"
    by (simp add: trust_text_def canonical_json_def)
  have "obj_get (trust_payload sample_receipt_proposal) ''schema'' = JStr trust_schema"
    by (simp add: sample_receipt_proposal_def receipt_proposal_def trust_payload_def without_def)
  then show ?thesis
    by (simp add: sign_trust_receipt_def Let_def t sample_digests sample_receipt_shape)
qed

lemma sample_issue:
  "\<exists>c' r. issue_trust_receipt clock_env 5 sample_signer small_manifest sample_artifact ''v1'' ''p1''
     sample_cas = Inr (c', Some r)"
proof -
  obtain r where r: "sign_trust_receipt clock_env sample_signer sample_receipt_proposal = Inr r"
    using sample_receipt_signed by blast
  obtain k where k: "trust_receipt_key sample_id = Inr k" using sample_keys(3) by blast
  have a: "receipt_eligible sample_artifact" "obj_get sample_artifact ''size'' = JInt 3"
    "py_item sample_artifact ''digest'' = Inr (JStr sample_id)"
    "py_item sample_artifact ''storage_key'' = Inr (JStr blob_path)"
    "py_item small_manifest ''manifest_id'' = Inr (JStr sample_id)"
    "obj_get small_manifest ''signature'' = JObj []"
    by (simp_all add: sample_artifact_def receipt_eligible_def or_obj_def sample_id_def blob_path_def
          small_manifest_def Let_def)
  have f: "fingerprint clock_env (JObj [(a, obj_get sample_artifact ''portability''),
            (b, obj_get sample_artifact ''requirements'')]) = Inr sample_id" for a b
    by (simp add: fingerprint_def canonical_json_def sample_artifact_def sample_digests)
  have c: "artifact_runtime_compatibility_key clock_env sample_artifact = Inr sample_id"
    by (simp add: artifact_runtime_compatibility_key_def pick_def f)
  have d: "manifest_signature_digest clock_env small_manifest = Inr sample_id"
    by (simp add: manifest_signature_digest_def a(6) canonical_json_def sample_digests)
  show ?thesis
    using r unfolding sample_receipt_proposal_def
    by (simp add: issue_trust_receipt_def a(1-5) or_zero_def sample_digests Let_def sample_cas_def
          sample_layout_abc c d k)
qed


lemma issued_receipt_trusted_witness:
  "\<exists>c' r x. issue_trust_receipt clock_env 5 sample_signer small_manifest sample_artifact ''v1'' ''p1''
       sample_cas = Inr (c', Some r) \<and>
     check_trust_receipt clock_env 9 sample_signer r small_manifest sample_artifact ''v1'' ''p1'' c' =
       Inr (Some x)"
proof -
  obtain c' r where r: "issue_trust_receipt clock_env 5 sample_signer small_manifest sample_artifact
     ''v1'' ''p1'' sample_cas = Inr (c', Some r)" using sample_issue by blast
  have i: "obj_get small_manifest ''manifest_id'' = JStr (sha_prefix @ sample_blob)"
    by (simp add: small_manifest_def)
  have "(9::int) < 5 + audit_interval" by (simp add: audit_interval_def)
  from issued_receipt_trusted [OF r i _ this refl clock_env_ascii clock_env_iso] r show ?thesis by auto
qed

lemma trusted_samples_inside_witness:
  "\<exists>r xs. verify_trust_receipt clock_env sample_signer r = Inr r \<and>
     obj_get (obj_get r ''scrub'') ''samples'' = JArr xs \<and> xs \<noteq> []"
proof -
  obtain c' r where r: "issue_trust_receipt clock_env 5 sample_signer small_manifest sample_artifact
     ''v1'' ''p1'' sample_cas = Inr (c', Some r)" using sample_issue by blast
  obtain p where "sign_trust_receipt clock_env sample_signer p = Inr r"
    by (rule issue_Inr [OF r]) blast
  from signed_receipt_verifies(1) [OF this clock_env_ascii]
  have v: "verify_trust_receipt clock_env sample_signer r = Inr r" .
  from trusted_samples_inside [OF v] v show ?thesis by blast
qed

section \<open>What is trusted\<close>



end
