(* ===== verification/Admission.thy ===== *)
theory Admission
  imports PreparedState Samples
begin

text \<open>
  The admission controller of \<open>cloud_offload/prepared_state.py\<close>: a cache entry is refused only
  after measured losses, with hysteresis. Clock readings are arguments; times and durations are
  exact numbers.
\<close>

section \<open>The controller\<close>

record admission_state =
  ad_samples :: int
  ad_wins :: int
  ad_losses :: int
  ad_consecutive_wins :: int
  ad_consecutive_losses :: int
  ad_last_observed_at :: rat

record controller =
  ct_shadow :: bool
  ct_minimum_samples :: int
  ct_hysteresis_samples :: int
  ct_loss_margin :: rat
  ct_expiry_seconds :: rat
  ct_states :: "(string \<times> admission_state) list"

definition new_state :: admission_state where
  "new_state =
     \<lparr>ad_samples = 0, ad_wins = 0, ad_losses = 0, ad_consecutive_wins = 0,
      ad_consecutive_losses = 0, ad_last_observed_at = 0\<rparr>"

definition new_controller :: "bool \<Rightarrow> int \<Rightarrow> int \<Rightarrow> rat \<Rightarrow> rat \<Rightarrow> controller" where
  "new_controller shadow minimum hysteresis margin expiry =
     \<lparr>ct_shadow = shadow, ct_minimum_samples = minimum, ct_hysteresis_samples = hysteresis,
      ct_loss_margin = margin, ct_expiry_seconds = expiry, ct_states = []\<rparr>"

definition won :: "rat \<Rightarrow> rat \<Rightarrow> rat \<Rightarrow> bool" where
  "won margin restore_ms fallback_ms \<longleftrightarrow> restore_ms \<le> fallback_ms * (1 + margin)"

definition count_observation :: "bool \<Rightarrow> rat \<Rightarrow> admission_state \<Rightarrow> admission_state" where
  "count_observation win now s =
     \<lparr>ad_samples = ad_samples s + 1,
      ad_wins = ad_wins s + (if win then 1 else 0),
      ad_losses = ad_losses s + (if win then 0 else 1),
      ad_consecutive_wins = (if win then ad_consecutive_wins s + 1 else 0),
      ad_consecutive_losses = (if win then 0 else ad_consecutive_losses s + 1),
      ad_last_observed_at = now\<rparr>"

fun put_state :: "string \<Rightarrow> admission_state \<Rightarrow> (string \<times> admission_state) list \<Rightarrow> (string \<times> admission_state) list" where
  "put_state k s [] = [(k, s)]"
| "put_state k s ((k', t) # kvs) = (if k = k' then (k, s) # kvs else (k', t) # put_state k s kvs)"

definition observe :: "rat \<Rightarrow> string \<Rightarrow> rat \<Rightarrow> rat \<Rightarrow> controller \<Rightarrow> controller" where
  "observe now key restore_ms fallback_ms c =
     (let s = (case map_of (ct_states c) key of Some t \<Rightarrow> t | None \<Rightarrow> new_state)
      in c\<lparr>ct_states := put_state key
             (count_observation (won (ct_loss_margin c) restore_ms fallback_ms) now s) (ct_states c)\<rparr>)"

definition admit :: "rat \<Rightarrow> string \<Rightarrow> controller \<Rightarrow> bool \<times> string" where
  "admit now key c =
     (if ct_shadow c then (True, ''shadow_mode'')
      else
        (case map_of (ct_states c) key of
           None \<Rightarrow> (True, ''insufficient_observations'')
         | Some s \<Rightarrow>
             if ct_expiry_seconds c < now - ad_last_observed_at s then (True, ''insufficient_observations'')
             else if ad_samples s < ct_minimum_samples c then (True, ''insufficient_observations'')
             else if ct_hysteresis_samples c \<le> ad_consecutive_losses s
             then (False, ''measured_cache_slower_than_fallback'')
             else if ct_hysteresis_samples c \<le> ad_consecutive_wins s then (True, ''measured_cache_faster'')
             else (True, ''hysteresis_hold'')))"

definition retention_value :: "rat \<Rightarrow> rat \<Rightarrow> rat \<Rightarrow> rat option" where
  \<comment> \<open>None is positive infinity\<close>
  "retention_value probability saved_ms stored_gb_month =
     (if stored_gb_month \<le> 0 then (if 0 < saved_ms then None else Some 0)
      else Some (max 0 probability * saved_ms / stored_gb_month))"

section \<open>The controller against its history\<close>

text \<open>An observation is its time, key, restore time and fallback time, oldest first.\<close>

type_synonym observation = "rat \<times> string \<times> rat \<times> rat"

definition observe_all :: "observation list \<Rightarrow> controller \<Rightarrow> controller" where
  "observe_all obs c = foldl (\<lambda>c (t, k, r, f). observe t k r f c) c obs"

definition history :: "rat \<Rightarrow> string \<Rightarrow> observation list \<Rightarrow> (rat \<times> bool) list" where
  \<comment> \<open>the times and outcomes of one key\<close>
  "history margin k obs =
     map (\<lambda>(t, _, r, f). (t, won margin r f)) (filter (\<lambda>(_, k', _, _). k' = k) obs)"

definition losing_streak :: "(rat \<times> bool) list \<Rightarrow> nat" where
  "losing_streak h = length (takeWhile (\<lambda>x. \<not> snd x) (rev h))"

definition winning_streak :: "(rat \<times> bool) list \<Rightarrow> nat" where
  "winning_streak h = length (takeWhile snd (rev h))"

definition state_of :: "(rat \<times> bool) list \<Rightarrow> admission_state" where
  "state_of h =
     \<lparr>ad_samples = int (length h), ad_wins = int (length (filter snd h)),
      ad_losses = int (length (filter (\<lambda>x. \<not> snd x) h)),
      ad_consecutive_wins = int (winning_streak h), ad_consecutive_losses = int (losing_streak h),
      ad_last_observed_at = (if h = [] then 0 else fst (last h))\<rparr>"

lemma state_of_snoc: "state_of (h @ [(t, w)]) = count_observation w t (state_of h)"
  by (simp add: state_of_def count_observation_def winning_streak_def losing_streak_def)

lemma map_of_put_state [simp]: "map_of (put_state k s kvs) = (map_of kvs)(k \<mapsto> s)"
  by (induction kvs) auto

lemma observe_frame [simp]:
  "ct_shadow (observe t k r f c) = ct_shadow c"
  "ct_minimum_samples (observe t k r f c) = ct_minimum_samples c"
  "ct_hysteresis_samples (observe t k r f c) = ct_hysteresis_samples c"
  "ct_loss_margin (observe t k r f c) = ct_loss_margin c"
  "ct_expiry_seconds (observe t k r f c) = ct_expiry_seconds c"
  by (simp_all add: observe_def Let_def)

lemma observe_all_frame [simp]:
  "ct_shadow (observe_all obs c) = ct_shadow c"
  "ct_minimum_samples (observe_all obs c) = ct_minimum_samples c"
  "ct_hysteresis_samples (observe_all obs c) = ct_hysteresis_samples c"
  "ct_loss_margin (observe_all obs c) = ct_loss_margin c"
  "ct_expiry_seconds (observe_all obs c) = ct_expiry_seconds c"
  by (induction obs arbitrary: c) (auto simp: observe_all_def)

lemma observe_all_states:
  assumes "ct_states c = []"
  shows "map_of (ct_states (observe_all obs c)) k =
     (let h = history (ct_loss_margin c) k obs in if h = [] then None else Some (state_of h))"
proof (induction obs arbitrary: k rule: rev_induct)
  case Nil
  then show ?case using assms by (simp add: observe_all_def history_def)
next
  case (snoc x obs)
  obtain t k' r f where x: "x = (t, k', r, f)" by (cases x) auto
  have n: "new_state = state_of []"
    by (simp add: new_state_def state_of_def winning_streak_def losing_streak_def)
  have o': "observe_all (obs @ [x]) c = observe t k' r f (observe_all obs c)"
    by (simp add: observe_all_def x)
  have h: "history m k (obs @ [x]) =
      history m k obs @ (if k' = k then [(t, won m r f)] else [])" for m
    by (simp add: history_def x)
  show ?case
    unfolding o' h using snoc.IH [of k] snoc.IH [of k']
    by (auto simp: observe_def Let_def state_of_snoc n split: if_splits)
qed

text \<open>The controller refuses a key exactly when it is not in shadow mode, the last observation
  of the key is recent, there were enough of them and the last ones, as many as the hysteresis
  asks, were all losses: one win ends a refusal.\<close>

theorem refused_after_losing_streak:
  assumes "ct_states c = []"
  shows "fst (admit now k (observe_all obs c)) = False \<longleftrightarrow>
     \<not> ct_shadow c \<and>
     (let h = history (ct_loss_margin c) k obs
      in h \<noteq> [] \<and> now - fst (last h) \<le> ct_expiry_seconds c \<and>
         ct_minimum_samples c \<le> int (length h) \<and> ct_hysteresis_samples c \<le> int (losing_streak h))"
  using observe_all_states [OF assms, of obs k]
  by (auto simp: admit_def Let_def state_of_def split: if_splits)

lemma refused_after_losing_streak_witness:
  "fst (admit 9 ''k'' (observe_all [(1, ''k'', 3, 1), (2, ''k'', 3, 1)] (new_controller False 2 2 0 100))) = False"
  by (subst refused_after_losing_streak)
     (simp_all add: new_controller_def history_def won_def losing_streak_def)

section \<open>Compatibility and policy\<close>

text \<open>Prepared state is offered to a worker only if nothing is unknown: a durable tier whose
  every field is named by the artifact, known of the worker and equal; and only under a policy
  that allows caching for this tenant, is not invalidated, and is not private unless private
  state is allowed.\<close>

theorem offered_only_when_known:
  "(dc_accepted (artifact_compatibility env a runtime) \<longleftrightarrow>
      or_text env (obj_get a ''portability'') [] \<in> {''portable'', ''runtime-bound'', ''gpu-class-bound''} \<and>
      is_obj (obj_get a ''requirements'') \<and>
      (\<forall>k \<in> set (tier_fields (or_text env (obj_get a ''portability'') [])).
         obj_has (obj_get a ''requirements'') k \<and> obj_has runtime k \<and>
         py_eq (obj_get (obj_get a ''requirements'') k) (obj_get runtime k))) \<and>
   (dc_accepted (artifact_policy env a tenant allow) \<longrightarrow>
      (let p = obj_get a ''policy''
       in obj_get p ''cacheable'' = JBool True \<and> or_text env (obj_get p ''tenant'') [] = tenant \<and>
          \<not> truthy (obj_get p ''invalidated'') \<and> (truthy (obj_get p ''private'') \<longrightarrow> allow)))"
proof
  let ?t = "or_text env (obj_get a ''portability'') []" let ?r = "obj_get a ''requirements''"
  have tiers: "?t \<in> set portability_tiers \<and> ?t \<noteq> ''process-bound'' \<and> ?t \<noteq> ''gpu-resident'' \<longleftrightarrow>
      ?t \<in> {''portable'', ''runtime-bound'', ''gpu-class-bound''}"
    by (cases "?t = ''process-bound'' \<or> ?t = ''gpu-resident''") (auto simp: portability_tiers_def)
  have known: "filter (field_missing ?r runtime) ks = [] \<and> filter (field_differs ?r runtime) ks = [] \<longleftrightarrow>
      (\<forall>k \<in> set ks. obj_has ?r k \<and> obj_has runtime k \<and> py_eq (obj_get ?r k) (obj_get runtime k))" for ks
    unfolding filter_empty_conv field_missing_def field_differs_def by blast
  show "dc_accepted (artifact_compatibility env a runtime) \<longleftrightarrow>
      ?t \<in> {''portable'', ''runtime-bound'', ''gpu-class-bound''} \<and> is_obj ?r \<and>
      (\<forall>k \<in> set (tier_fields ?t).
         obj_has ?r k \<and> obj_has runtime k \<and> py_eq (obj_get ?r k) (obj_get runtime k))"
    unfolding tiers [symmetric] known [symmetric] artifact_compatibility_def Let_def refused_def accepted_def
    by (simp add: if_distrib [where f = dc_accepted] cong: if_cong)
  show "dc_accepted (artifact_policy env a tenant allow) \<longrightarrow>
      (let p = obj_get a ''policy''
       in obj_get p ''cacheable'' = JBool True \<and> or_text env (obj_get p ''tenant'') [] = tenant \<and>
          \<not> truthy (obj_get p ''invalidated'') \<and> (truthy (obj_get p ''private'') \<longrightarrow> allow))"
    by (simp add: artifact_policy_def Let_def refused_def)
qed

lemma offered_only_when_known_witness:
  "dc_accepted (artifact_policy sample_env (JObj [(''policy'', JObj [(''cacheable'', JBool True)])]) [] False) \<and>
   \<not> truthy (obj_get (JObj [(''cacheable'', JBool True)]) ''private'')"
proof -
  have "dc_accepted (artifact_policy sample_env (JObj [(''policy'', JObj [(''cacheable'', JBool True)])]) [] False)"
    by code_simp
  with offered_only_when_known show ?thesis by fastforce
qed

end
