(* ===== verification/Spec2Isabelle.thy ===== *)
theory Spec2Isabelle
  imports S3Props ReplicationProps FleetProps DispatchProps QueueProps ClaimProps JournalProps SnapshotProps JobProps PublicProps StorageProps
    TrustProps Admission RegistryProps SchedulerProps
begin

text \<open>
  Cloud Offload: a coordinator that keeps jobs in a queue, rents machines for them, and keeps
  prepared state (model weights, bundles) on volumes near the machines.

  \<^bold>\<open>The program.\<close> \<open>cloud_offload/queue.py\<close> holds jobs, worker leases and an append-only event journal
  in one SQLite database; \<open>plan_protocol.py\<close> keeps the authority of workflow plans in the same
  database. \<open>server.py\<close> and \<open>dispatcher.py\<close> call both. \<open>prepared_state.py\<close> signs manifests of prepared
  state, stores the objects and issues trust receipts; \<open>cache_registry.py\<close> projects the manifests
  into a second database that also holds the ledger of regional copies; \<open>cache_scheduler.py\<close> chooses
  an offer from what the registry covers. \<open>storage_plan.py\<close> sizes the disk of a machine.
  \<open>dispatcher.py\<close> runs ticks over all of them: it closes leases, polls and ends machines of the
  providers, and places jobs that bring a confirmed plan.

  \<^bold>\<open>How it is modelled.\<close> A database is a record of lists of rows in insertion order. Every operation
  that is one transaction is a function to \<open>pyerr + (state * result)\<close>: \<open>Inl\<close> is the exception after
  which the transaction is rolled back. A loop that can raise is \<open>fold_tx\<close>, \<open>each\<close> or \<open>collect\<close>.
  Clock readings, fresh identifiers and random tokens are arguments. What Python computes
  outside the code (digests, MACs, the text of a float or a container, parsing of dates) is the
  record \<open>pyenv\<close>, an argument of what uses it. JSON values are the datatype \<open>json\<close>.

  \<^item> \<open>Prelude\<close>: exceptions, transactions, tables, and the contracts \<open>store_invariant\<close>,
    \<open>absorbing_store\<close> and \<open>append_only\<close> that the stores interpret. \<open>PyValues\<close>, \<open>Conversions\<close>: Python's
    values, texts, numbers and comparisons, SQLite's CAST and LIKE, the canonical GPU name.
  \<^item> \<open>Jobs\<close>, \<open>Store\<close>, \<open>Journal\<close>, \<open>Leases\<close>, \<open>Queue\<close>, \<open>Claims\<close>: the class \<open>JobQueue\<close>: rows, journal,
    leases, operations on jobs, claims and worker tokens. \<open>PlanPublic\<close>, \<open>PlanQueue\<close>: the public
    fields of plan events, result manifests and closure receipts, and the operations that end a
    plan with its job. \<open>Snapshot\<close>: \<open>event_snapshot\<close> and \<open>public_plan_job\<close>. \<open>StoragePlan\<close>: the module
    \<open>storage_plan.py\<close>.
  \<^item> \<open>PreparedState\<close>, \<open>Manifests\<close>, \<open>TrustReceipts\<close>, \<open>Admission\<close>: \<open>prepared_state.py\<close>: digests and keys,
    compatibility and policy; \<open>ManifestSigner\<close>; verification, quarantine, samples and receipts of
    \<open>PreparedStateCAS\<close>; \<open>CacheAdmissionController\<close>.
  \<^item> \<open>CacheStore\<close>, \<open>CacheRegistry\<close>, \<open>CacheHealth\<close>, \<open>CacheCoverage\<close>, \<open>CacheLedger\<close>, \<open>Replicas\<close>: the class
    \<open>CacheRegistry\<close>. \<open>Scheduler\<close>, \<open>Requirements\<close>: \<open>cache_scheduler.py\<close>.
  \<^item> \<open>Effects\<close>, \<open>Control\<close>, \<open>ControlWatch\<close>, \<open>Fleet\<close>, \<open>Startup\<close>, \<open>Dispatch\<close>: \<open>dispatcher.py\<close>. A step of it
    ends the transactions it ran even when it raises, so \<open>Effects\<close> has actions: functions from a state to
    the state after them and a result or an exception. A provider is the record \<open>cloud\<close> of what its
    client returns, threading a world of its own; the calls made are traced in \<open>dp_calls\<close>.
    \<open>Control\<close> holds the records of the dispatcher and \<open>_reconcile_leases\<close>, \<open>ControlWatch\<close> the evidence a
    closure needs, \<open>Fleet\<close> and \<open>Startup\<close> launch events, limits, idle checks, polling and termination,
    \<open>Dispatch\<close> the placement from a confirmed plan.

  \<^bold>\<open>What is proved.\<close> \<open>JobLaws\<close>, \<open>LeaseLaws\<close>, \<open>LeaseSteps\<close>, \<open>QueueSteps\<close> and \<open>QueueOps\<close> show what every
  operation of the queue keeps (finished jobs, plan authorities and leases move along their edges
  only, the journal is extended) and interpret the contracts on the step function of all
  operations; \<open>QueueProps\<close>, \<open>ClaimProps\<close>, \<open>JobProps\<close>, \<open>JournalProps\<close>, \<open>PublicProps\<close> derive the
  properties of the queue; \<open>StatusJournal\<close> and \<open>SnapshotProps\<close> relate what clients read to the job
  row. \<open>StorageProps\<close> bounds the disk. \<open>ManifestProps\<close> and \<open>TrustProps\<close> show that what is signed
  verifies, what verifies is authentic and canonical, and when a receipt is trusted. \<open>RegistryLaws\<close>,
  \<open>RegistryOps\<close> and \<open>RegistrySteps\<close> show the invariant of the registry for every operation and the
  life of a copy; \<open>RegistryProps\<close> and \<open>SchedulerProps\<close> derive what the scheduler and the replicator
  rely on. \<open>ControlLaws\<close> interprets \<open>guarantee\<close>, the contract of actions, for the steps of the
  dispatcher: whatever they do to the queue is a run of its operations; \<open>ControlProps\<close> and
  \<open>FleetProps\<close> derive from it that finished jobs stay finished and that leases end when due and on
  evidence only; \<open>DispatchProps\<close> shows which volume a placement is bound to. Each property with hypotheses has a witness on a concrete input from \<open>Samples\<close> or its
  own theory.

  \<^bold>\<open>Bounds.\<close> No operation needs fuel: every loop is structural recursion over rows, artifacts or
  samples. Python's integers are unbounded and so are the model's; where SQLite refuses an
  integer of more than 64 bits the model raises \<open>OverflowError\<close>.

  \<^bold>\<open>Not modelled.\<close> Floats are exact rationals, infinity or NaN: rounding of intermediate results is not
  followed. Characters have 8 bits. Instants of the queue are microseconds, instants of the
  registry texts, as the code compares them. Of the queue: \<open>submit_plan_atomic\<close>, the migrations of
  \<open>_init_db\<close>. Of \<open>plan_protocol.py\<close>: the validators of plan requests and partitions. Of
  \<open>prepared_state.py\<close>: files, locks, uploads, downloads and the background scrub of a second sample.
  Of \<open>dispatcher.py\<close>: \<open>_launch_worker\<close>, the tick loop with its threads, tunnel and token file.
  The HTTP server, the worker, the provider clients, ComfyUI, the configuration and the benchmarks
  are not modelled.
\<close>

end
